(* ===== verification/Prelude.thy ===== *)
theory Prelude
  imports Main "HOL-Library.Sublist" "HOL-Library.List_Lexorder" "HOL-Library.Char_ord"
begin

text \<open>
  Shared vocabulary of the development: Go's error values and panics, the functions of the
  Go package \<^verbatim>\<open>strings\<close> that sealer calls, decimal printing, and the
  generic lemmas on results, lists and maps that the component proofs use.

  A Go string is a sequence of bytes, here a \<^typ>\<open>string\<close> (a list of 8-bit characters).
  A Go \<^verbatim>\<open>error\<close> built by \<^verbatim>\<open>fmt.Errorf\<close> keeps its format string and the rendered
  arguments; \<open>Wrapf\<close> is an \<^verbatim>\<open>Errorf\<close> one of whose arguments is another error;
  \<open>Panic\<close> is a run-time panic, which no \<^verbatim>\<open>err != nil\<close> test intercepts.
\<close>

section \<open>Errors, panics and results\<close>

datatype gerror =
    Errorf string "string list"
  | Wrapf string "string list" gerror
  | Panic string

type_synonym 'a res = "gerror + 'a"

text \<open>The verbs of a format string are replaced by the arguments in order.\<close>

fun fmt_Sprintf :: "string \<Rightarrow> string list \<Rightarrow> string" where
  "fmt_Sprintf [] as = []"
| "fmt_Sprintf (c # cs) [] = c # fmt_Sprintf cs []"
| "fmt_Sprintf (c # cs) (a # as) =
     (if c = CHR ''%'' then a @ fmt_Sprintf (tl cs) as else c # fmt_Sprintf cs (a # as))"

text \<open>The text of an error; a wrapped error is always the last argument of its format.\<close>

fun err_Error :: "gerror \<Rightarrow> string" where
  "err_Error (Errorf f as) = fmt_Sprintf f as"
| "err_Error (Wrapf f as e) = fmt_Sprintf f (as @ [err_Error e])"
| "err_Error (Panic m) = m"

definition bindR :: "'a res \<Rightarrow> ('a \<Rightarrow> 'b res) \<Rightarrow> 'b res" where
  "bindR m f = (case m of Inl e \<Rightarrow> Inl e | Inr x \<Rightarrow> f x)"

definition mapErrR :: "(gerror \<Rightarrow> gerror) \<Rightarrow> 'a res \<Rightarrow> 'a res" where
  "mapErrR f r = (case r of Inl e \<Rightarrow> Inl (f e) | Inr x \<Rightarrow> Inr x)"

lemma bindR_simps [simp]:
  "bindR (Inl e) f = Inl e"
  "bindR (Inr x) f = f x"
  by (simp_all add: bindR_def)

lemma bindR_Inr_iff: "bindR m f = Inr y \<longleftrightarrow> (\<exists>x. m = Inr x \<and> f x = Inr y)"
  by (cases m) auto

lemma bindR_Inl_iff: "bindR m f = Inl e \<longleftrightarrow> m = Inl e \<or> (\<exists>x. m = Inr x \<and> f x = Inl e)"
  by (cases m) auto

text \<open>
  A computation that may also not return: \<open>None\<close> is divergence, \<open>Some (Inl e)\<close> an error.
\<close>

definition bindD :: "'a res option \<Rightarrow> ('a \<Rightarrow> 'b res option) \<Rightarrow> 'b res option" where
  "bindD m f = (case m of None \<Rightarrow> None | Some r \<Rightarrow> (case r of Inl e \<Rightarrow> Some (Inl e) | Inr x \<Rightarrow> f x))"

lemma bindD_simps [simp]:
  "bindD None f = None"
  "bindD (Some (Inl e)) f = Some (Inl e)"
  "bindD (Some (Inr x)) f = f x"
  by (simp_all add: bindD_def)

lemma bindD_Inr_iff:
  "bindD m f = Some (Inr y) \<longleftrightarrow> (\<exists>x. m = Some (Inr x) \<and> f x = Some (Inr y))"
  by (auto simp: bindD_def split: option.splits sum.splits)

text \<open>A loop that stops at the first error.\<close>

fun mapR :: "('a \<Rightarrow> 'b res) \<Rightarrow> 'a list \<Rightarrow> 'b list res" where
  "mapR f [] = Inr []"
| "mapR f (x # xs) = bindR (f x) (\<lambda>y. bindR (mapR f xs) (\<lambda>ys. Inr (y # ys)))"

lemma mapR_Inr_iff: "mapR f xs = Inr ys \<longleftrightarrow> list_all2 (\<lambda>x y. f x = Inr y) xs ys"
  by (induction xs arbitrary: ys) (auto simp: bindR_Inr_iff list_all2_Cons1)

lemma mapR_Inl: "mapR f xs = Inl e \<Longrightarrow> \<exists>x \<in> set xs. f x = Inl e"
  by (induction xs) (auto simp: bindR_Inl_iff)

named_theorems gostr \<open>unfolding of the string functions for evaluation\<close>

section \<open>The Go package strings\<close>

definition strings_HasPrefix :: "string \<Rightarrow> string \<Rightarrow> bool" where
  "strings_HasPrefix s p = prefix p s"

definition strings_HasSuffix :: "string \<Rightarrow> string \<Rightarrow> bool" where
  "strings_HasSuffix s p = prefix (rev p) (rev s)"

definition strings_TrimPrefix :: "string \<Rightarrow> string \<Rightarrow> string" where
  "strings_TrimPrefix s p = (if strings_HasPrefix s p then drop (length p) s else s)"

definition strings_TrimSuffix :: "string \<Rightarrow> string \<Rightarrow> string" where
  "strings_TrimSuffix s p = (if strings_HasSuffix s p then take (length s - length p) s else s)"

fun strings_Contains :: "string \<Rightarrow> string \<Rightarrow> bool" where
  "strings_Contains [] sub = (sub = [])"
| "strings_Contains (c # cs) sub = (prefix sub (c # cs) \<or> strings_Contains cs sub)"

text \<open>
  \<open>strings_Split s sep\<close> for a non-empty separator, the only use sealer makes of it. The
  accumulator holds the current field in reverse.
\<close>

function split_go :: "string \<Rightarrow> string \<Rightarrow> string \<Rightarrow> string list" where
  "split_go sep acc [] = [rev acc]"
| "split_go sep acc (c # cs) =
     (if prefix sep (c # cs) then rev acc # split_go sep [] (drop (length sep - 1) cs)
      else split_go sep (c # acc) cs)"
  by pat_completeness auto
termination
  by (relation "measure (\<lambda>(sep, acc, s). length s)") auto

definition strings_Split :: "string \<Rightarrow> string \<Rightarrow> string list" where
  "strings_Split s sep = split_go sep [] s"

text \<open>\<^verbatim>\<open>strings.SplitN(s, sep, 2)\<close>: at most one cut, at the first separator.\<close>

fun splitN2_go :: "string \<Rightarrow> string \<Rightarrow> string \<Rightarrow> string list" where
  "splitN2_go sep acc [] = [rev acc]"
| "splitN2_go sep acc (c # cs) =
     (if prefix sep (c # cs) then [rev acc, drop (length sep - 1) cs]
      else splitN2_go sep (c # acc) cs)"

definition strings_SplitN2 :: "string \<Rightarrow> string \<Rightarrow> string list" where
  "strings_SplitN2 s sep = splitN2_go sep [] s"

fun strings_Join :: "string list \<Rightarrow> string \<Rightarrow> string" where
  "strings_Join [] sep = []"
| "strings_Join [x] sep = x"
| "strings_Join (x # y # ys) sep = x @ sep @ strings_Join (y # ys) sep"

text \<open>\<^verbatim>\<open>strings.ReplaceAll\<close> for a non-empty old text.\<close>

definition strings_ReplaceAll :: "string \<Rightarrow> string \<Rightarrow> string \<Rightarrow> string" where
  "strings_ReplaceAll s old new = strings_Join (strings_Split s old) new"

definition is_space :: "char \<Rightarrow> bool" where
  "is_space c = (c \<in> {CHR '' '', CHR 0x09, CHR 0x0A, CHR 0x0B, CHR 0x0C, CHR 0x0D})"

definition strings_TrimSpace :: "string \<Rightarrow> string" where
  "strings_TrimSpace s = rev (dropWhile is_space (rev (dropWhile is_space s)))"

text \<open>\<^verbatim>\<open>strings.ToLower\<close> and \<^verbatim>\<open>strings.ToUpper\<close> on ASCII bytes.\<close>

definition lower_char :: "char \<Rightarrow> char" where
  "lower_char c = (let n = of_char c :: nat in if 65 \<le> n \<and> n \<le> 90 then char_of (n + 32) else c)"

definition strings_ToLower :: "string \<Rightarrow> string" where
  "strings_ToLower s = map lower_char s"

definition strings_EqualFold :: "string \<Rightarrow> string \<Rightarrow> bool" where
  "strings_EqualFold s t = (strings_ToLower s = strings_ToLower t)"

lemmas [gostr] = strings_HasPrefix_def strings_HasSuffix_def strings_TrimPrefix_def
  strings_TrimSuffix_def strings_Split_def strings_SplitN2_def strings_TrimSpace_def
  is_space_def

subsection \<open>Splitting and joining\<close>

lemma split_go_nonempty [simp]: "split_go sep acc s \<noteq> []"
  by (induction sep acc s rule: split_go.induct) auto

lemma strings_Split_nonempty [simp]: "strings_Split s sep \<noteq> []"
  by (simp add: strings_Split_def)

lemma split_go_no_sep: "c \<notin> set s \<Longrightarrow> split_go [c] acc s = [rev acc @ s]"
  by (induction s arbitrary: acc) auto

lemma split_go_at_sep: "c \<notin> set s \<Longrightarrow> split_go [c] acc (s @ c # t) = (rev acc @ s) # split_go [c] [] t"
  by (induction s arbitrary: acc) auto

lemma strings_Split_no_sep: "c \<notin> set s \<Longrightarrow> strings_Split s [c] = [s]"
  by (simp add: strings_Split_def split_go_no_sep)

lemma strings_Split_at_sep:
  "c \<notin> set s \<Longrightarrow> strings_Split (s @ c # t) [c] = s # strings_Split t [c]"
  by (simp add: strings_Split_def split_go_at_sep)

lemma strings_Join_Cons: "ys \<noteq> [] \<Longrightarrow> strings_Join (x # ys) sep = x @ sep @ strings_Join ys sep"
  by (cases ys) auto

lemma strings_Split_Join:
  "xs \<noteq> [] \<Longrightarrow> \<forall>x \<in> set xs. c \<notin> set x \<Longrightarrow> strings_Split (strings_Join xs [c]) [c] = xs"
proof (induction xs)
  case Nil
  then show ?case by simp
next
  case (Cons x xs)
  then show ?case
    by (cases "xs = []") (auto simp: strings_Split_no_sep strings_Split_at_sep strings_Join_Cons)
qed

lemma split_go_fields_no_sep: "f \<in> set (split_go [c] acc s) \<Longrightarrow> c \<notin> set acc \<Longrightarrow> c \<notin> set f"
  by (induction "[c]" acc s arbitrary: f rule: split_go.induct) (auto split: if_splits)

lemma strings_Join_Split: "strings_Join (strings_Split s [c]) [c] = s"
proof -
  have "strings_Join (split_go [c] acc s) [c] = rev acc @ s" for acc
    by (induction "[c]" acc s rule: split_go.induct) (auto simp: strings_Join_Cons)
  then show ?thesis by (simp add: strings_Split_def)
qed

lemma strings_Contains_char: "strings_Contains s [c] \<longleftrightarrow> c \<in> set s"
  by (induction s) auto

lemma splitN2_go_no_sep: "c \<notin> set s \<Longrightarrow> splitN2_go [c] acc s = [rev acc @ s]"
  by (induction s arbitrary: acc) auto

lemma splitN2_go_at_sep: "c \<notin> set s \<Longrightarrow> splitN2_go [c] acc (s @ c # t) = [rev acc @ s, t]"
  by (induction s arbitrary: acc) auto

lemma strings_SplitN2_at_sep: "c \<notin> set s \<Longrightarrow> strings_SplitN2 (s @ c # t) [c] = [s, t]"
  by (simp add: strings_SplitN2_def splitN2_go_at_sep)

lemma strings_SplitN2_no_sep: "c \<notin> set s \<Longrightarrow> strings_SplitN2 s [c] = [s]"
  by (simp add: strings_SplitN2_def splitN2_go_no_sep)

text \<open>Separators of several characters.\<close>

lemma strings_Contains_sublist: "strings_Contains s t \<longleftrightarrow> sublist t s"
  by (induction s) (auto simp: sublist_Cons_right)

lemma split_go_none: "\<not> strings_Contains s sep \<Longrightarrow> split_go sep acc s = [rev acc @ s]"
  by (induction sep acc s rule: split_go.induct) auto

lemma split_go_first:
  "sep \<noteq> [] \<Longrightarrow> \<not> strings_Contains (a @ butlast sep) sep \<Longrightarrow>
    split_go sep acc (a @ sep @ b) = (rev acc @ a) # split_go sep [] b"
proof (induction a arbitrary: acc)
  case Nil
  then obtain c cs where "sep = c # cs" by (cases sep) auto
  then show ?case by simp
next
  case (Cons x a)
  have "prefix sep (x # a @ butlast sep)" if "prefix sep (x # a @ sep @ b)"
  proof -
    have "x # a @ sep @ b = (x # a @ butlast sep) @ last sep # b" using Cons.prems(1) by simp
    moreover have "length sep \<le> length (x # a @ butlast sep)" using Cons.prems(1) by (cases sep) auto
    ultimately show ?thesis using that by (metis prefix_length_prefix prefixI)
  qed
  with Cons show ?case by auto
qed

lemma strings_Split_none: "\<not> strings_Contains s sep \<Longrightarrow> strings_Split s sep = [s]"
  by (simp add: strings_Split_def split_go_none)

lemma strings_Split_first:
  "sep \<noteq> [] \<Longrightarrow> \<not> strings_Contains (a @ butlast sep) sep \<Longrightarrow>
    strings_Split (a @ sep @ b) sep = a # strings_Split b sep"
  by (simp add: strings_Split_def split_go_first)

lemma hd_split_none_or_first:
  assumes "sep \<noteq> []" and "\<not> strings_Contains (a @ butlast sep) sep" and "rest = [] \<or> (\<exists>r. rest = sep @ r)"
  shows "hd (strings_Split (a @ rest) sep) = a"
proof (cases "rest = []")
  case True
  have "\<not> strings_Contains a sep" using assms(2) unfolding strings_Contains_sublist by (meson sublist_append_rightI sublist_order.order_trans)
  with True show ?thesis by (simp add: strings_Split_none)
next
  case False
  with assms strings_Split_first [OF assms(1,2)] show ?thesis by auto
qed

text \<open>A nil slice or map, where the code tells it from an empty one, is \<open>None\<close>.\<close>

definition nil_if_absent :: "'a list option \<Rightarrow> 'a list" where
  "nil_if_absent x = (case x of None \<Rightarrow> [] | Some v \<Rightarrow> v)"

section \<open>File paths\<close>

text \<open>
  \<^verbatim>\<open>filepath.Clean\<close> and \<^verbatim>\<open>filepath.Join\<close> on Unix: empty and dot elements go, a double dot takes
  back the element before it, and at the root it is dropped.
\<close>

fun clean_elems :: "bool \<Rightarrow> string list \<Rightarrow> string list \<Rightarrow> string list" where
  "clean_elems rooted stack [] = rev stack"
| "clean_elems rooted stack (e # es) =
     (if e = [] \<or> e = ''.'' then clean_elems rooted stack es
      else if e = ''..'' then
        (if stack \<noteq> [] \<and> hd stack \<noteq> ''..'' then clean_elems rooted (tl stack) es
         else if rooted then clean_elems rooted stack es
         else clean_elems rooted (e # stack) es)
      else clean_elems rooted (e # stack) es)"

definition filepath_Clean :: "string \<Rightarrow> string" where
  "filepath_Clean path =
     (let rooted = prefix ''/'' path; es = clean_elems rooted [] (strings_Split path ''/'') in
      if rooted then ''/'' @ strings_Join es ''/''
      else if es = [] then ''.'' else strings_Join es ''/'')"

definition filepath_Join :: "string list \<Rightarrow> string" where
  "filepath_Join elems = (case dropWhile (\<lambda>e. e = []) elems of [] \<Rightarrow> []
     | es \<Rightarrow> filepath_Clean (strings_Join es ''/''))"

text \<open>\<^verbatim>\<open>filepath.Base\<close>, \<^verbatim>\<open>filepath.Ext\<close> and \<^verbatim>\<open>filepath.Dir\<close>.\<close>

definition filepath_Base :: "string \<Rightarrow> string" where
  "filepath_Base path = (if path = [] then ''.''
     else (let p = rev (dropWhile (\<lambda>c. c = CHR ''/'') (rev path)) in
       if p = [] then ''/'' else rev (takeWhile (\<lambda>c. c \<noteq> CHR ''/'') (rev p))))"

definition filepath_Ext :: "string \<Rightarrow> string" where
  "filepath_Ext path = (let b = takeWhile (\<lambda>c. c \<noteq> CHR ''/'') (rev path) in
     if CHR ''.'' \<in> set b then CHR ''.'' # rev (takeWhile (\<lambda>c. c \<noteq> CHR ''.'') b) else [])"

definition filepath_Dir :: "string \<Rightarrow> string" where
  "filepath_Dir path = filepath_Clean (rev (dropWhile (\<lambda>c. c \<noteq> CHR ''/'') (rev path)))"

definition backslash :: string where "backslash = [CHR 0x5C]"

section \<open>Decimal numbers\<close>

definition digit_char :: "int \<Rightarrow> char" where
  "digit_char d = char_of (48 + nat d)"

function itoa_nonneg :: "int \<Rightarrow> string" where
  "itoa_nonneg n = (if n < 10 then [digit_char n] else itoa_nonneg (n div 10) @ [digit_char (n mod 10)])"
  by pat_completeness auto
termination
  by (relation "measure nat") auto

declare itoa_nonneg.simps [simp del]

text \<open>\<^verbatim>\<open>strconv.Itoa\<close>.\<close>

definition itoa :: "int \<Rightarrow> string" where
  "itoa n = (if n < 0 then CHR ''-'' # itoa_nonneg (- n) else itoa_nonneg n)"

definition is_digit :: "char \<Rightarrow> bool" where
  "is_digit c = (let n = of_char c :: int in 48 \<le> n \<and> n \<le> 57)"

definition digit_val :: "char \<Rightarrow> int" where
  "digit_val c = of_char c - 48"

lemma digit_char_simps [simp]:
  "digit_char 0 = CHR ''0''" "digit_char 1 = CHR ''1''" "digit_char 2 = CHR ''2''"
  "digit_char 3 = CHR ''3''" "digit_char 4 = CHR ''4''" "digit_char 5 = CHR ''5''"
  "digit_char 6 = CHR ''6''" "digit_char 7 = CHR ''7''" "digit_char 8 = CHR ''8''"
  "digit_char 9 = CHR ''9''"
  by code_simp+

lemma of_char_digit [simp]: "0 \<le> d \<Longrightarrow> d < 10 \<Longrightarrow> of_char (digit_char d) = (48 + d :: int)"
proof -
  assume d: "0 \<le> d" "d < 10"
  have "of_char (digit_char d) = (of_nat (of_char (digit_char d)) :: int)"
    by (simp only: of_nat_of_char)
  also have "of_char (digit_char d) = 48 + nat d" using d by (simp add: digit_char_def)
  finally show ?thesis using d by simp
qed

lemma is_digit_digit_char [simp]: "0 \<le> d \<Longrightarrow> d < 10 \<Longrightarrow> is_digit (digit_char d)"
  by (simp add: is_digit_def)

lemma digit_val_digit_char [simp]: "0 \<le> d \<Longrightarrow> d < 10 \<Longrightarrow> digit_val (digit_char d) = d"
  by (simp add: digit_val_def)

lemma is_digit_val: "is_digit c \<Longrightarrow> 0 \<le> digit_val c \<and> digit_val c \<le> 9"
  by (simp add: is_digit_def digit_val_def Let_def)

lemma itoa_nonneg_digits: "0 \<le> n \<Longrightarrow> c \<in> set (itoa_nonneg n) \<Longrightarrow> is_digit c"
proof (induction n rule: itoa_nonneg.induct)
  case (1 n)
  then show ?case
    by (cases "n < 10") (auto simp: itoa_nonneg.simps [of n])
qed

lemma itoa_digits: "0 \<le> n \<Longrightarrow> c \<in> set (itoa n) \<Longrightarrow> is_digit c"
  by (simp add: itoa_def itoa_nonneg_digits)

lemma itoa_nonneg_nonempty [simp]: "itoa_nonneg n \<noteq> []"
  by (subst itoa_nonneg.simps) simp

lemma itoa_nonempty [simp]: "itoa n \<noteq> []"
  by (simp add: itoa_def)

lemma is_digit_not_punct:
  "\<not> is_digit (CHR ''.'')" "\<not> is_digit (CHR '','')" "\<not> is_digit (CHR ''-'')" "\<not> is_digit (CHR '':'')"
  "\<not> is_digit (CHR ''='')" "\<not> is_digit (CHR ''?'')"
  by (simp_all add: is_digit_def)

lemmas [gostr] = itoa_def itoa_nonneg.simps

section \<open>Association lists and Go maps\<close>

text \<open>
  A Go map is a partial function. Where the code ranges over one, the entries come in an
  order the run-time chooses: the model then takes the association list of the entries in
  that order, with distinct keys.
\<close>

definition map_entries :: "('k \<times> 'v) list \<Rightarrow> ('k \<rightharpoonup> 'v) \<Rightarrow> bool" where
  "map_entries es m = (distinct (map fst es) \<and> map_of es = m)"

lemma fold_map_upd: "fold (\<lambda>(k, v) m. m(k \<mapsto> v)) es m = m ++ map_of (rev es)"
  by (induction es arbitrary: m) (auto simp: map_add_def fun_eq_iff split: option.splits)

lemma map_of_rev_distinct: "distinct (map fst es) \<Longrightarrow> map_of (rev es) = map_of es"
proof (induction es)
  case (Cons p es)
  then have "map_of es (fst p) = None" by (auto simp: map_of_eq_None_iff)
  with Cons show ?case
    by (cases p) (auto simp: map_add_def fun_eq_iff split: option.splits)
qed simp

end
