(* ===== verification/Go_Json.thy ===== *)
theory Go_Json
  imports Prelude
begin

text \<open>
  The part of Go's package \<^verbatim>\<open>encoding/json\<close> the Kubefile parser uses: a \<^verbatim>\<open>Decoder\<close> that reads one value
  at the start of a text, and \<^verbatim>\<open>Unmarshal\<close> of a whole text into a list of strings. The texts of its
  error messages are not modelled. Texts are ASCII, as in the parser; the decoded strings may hold
  any character written as an escape.
\<close>

section \<open>JSON\<close>

datatype json = JNull | JBool bool | JNum string | JStr string | JArr "json list" | JObj "(string \<times> json) list"

datatype jtoken = TPunct char | TVal json | TErr

definition jsonErr :: gerror where
  "jsonErr = Errorf ''invalid JSON'' []"

text \<open>UTF-8 of a code point, and the code points of surrogate pairs.\<close>

definition utf8 :: "nat \<Rightarrow> string" where
  "utf8 n = (if n < 0x80 then [char_of n]
     else if n < 0x800 then [char_of (0xC0 + n div 64), char_of (0x80 + n mod 64)]
     else if n < 0x10000 then [char_of (0xE0 + n div 4096), char_of (0x80 + n div 64 mod 64), char_of (0x80 + n mod 64)]
     else [char_of (0xF0 + n div 262144), char_of (0x80 + n div 4096 mod 64), char_of (0x80 + n div 64 mod 64),
           char_of (0x80 + n mod 64)])"

definition hexDigit :: "char \<Rightarrow> nat option" where
  "hexDigit c = (let n = of_char c :: nat in
     if 48 \<le> n \<and> n \<le> 57 then Some (n - 48)
     else if 97 \<le> n \<and> n \<le> 102 then Some (n - 87)
     else if 65 \<le> n \<and> n \<le> 70 then Some (n - 55) else None)"

definition getu4 :: "string \<Rightarrow> nat option" where
  "getu4 s = (case map hexDigit (take 4 s) of
       [Some a, Some b, Some c, Some d] \<Rightarrow> Some (((a * 16 + b) * 16 + c) * 16 + d) | _ \<Rightarrow> None)"

definition isSurrogate :: "nat \<Rightarrow> bool" where
  "isSurrogate n = (0xD800 \<le> n \<and> n < 0xE000)"

text \<open>
  What a \<^verbatim>\<open>\u\<close> escape stands for and how many more bytes it uses: a high surrogate followed by an
  escaped low one is one character, any other surrogate the replacement character.
\<close>

definition unicodeEscape :: "nat \<Rightarrow> string \<Rightarrow> string \<times> nat" where
  "unicodeEscape n rest =
     (if \<not> isSurrogate n then (utf8 n, 0)
      else (case (if prefix [CHR 0x5C, CHR ''u''] rest then getu4 (drop 2 rest) else None) of
          Some m \<Rightarrow> if n < 0xDC00 \<and> 0xDC00 \<le> m \<and> m < 0xE000
                     then (utf8 ((n - 0xD800) * 1024 + (m - 0xDC00) + 0x10000), 6)
                     else (utf8 0xFFFD, 0)
        | None \<Rightarrow> (utf8 0xFFFD, 0)))"

definition simpleEscape :: "char \<Rightarrow> char option" where
  "simpleEscape c = map_of [(CHR 0x22, CHR 0x22), (CHR 0x5C, CHR 0x5C), (CHR ''/'', CHR ''/''), (CHR ''b'', CHR 0x08),
     (CHR ''f'', CHR 0x0C), (CHR ''n'', CHR 0x0A), (CHR ''r'', CHR 0x0D), (CHR ''t'', CHR 0x09)] c"

text \<open>The rest of a string literal after its opening quote, and what follows it.\<close>

function jstring :: "string \<Rightarrow> string \<Rightarrow> (string \<times> string) option" where
  "jstring acc [] = None"
| "jstring acc (c # cs) =
     (if c = CHR 0x22 then Some (acc, cs)
      else if (of_char c :: nat) < 0x20 then None
      else if c \<noteq> CHR 0x5C then jstring (acc @ [c]) cs
      else (case cs of [] \<Rightarrow> None
        | e # es \<Rightarrow> (case simpleEscape e of Some x \<Rightarrow> jstring (acc @ [x]) es
          | None \<Rightarrow> if e \<noteq> CHR ''u'' then None
              else (case getu4 es of None \<Rightarrow> None
                | Some n \<Rightarrow> (let (t, k) = unicodeEscape n (drop 4 es) in jstring (acc @ t) (drop (4 + k) es))))))"
  by pat_completeness auto
termination
  by (relation "measure (\<lambda>(_, s). length s)") auto

text \<open>A number literal; \<open>None\<close> when the text does not start with one.\<close>

definition jdigits :: "string \<Rightarrow> (string \<times> string) option" where
  "jdigits s = (let ds = takeWhile is_digit s in if ds = [] then None else Some (ds, dropWhile is_digit s))"

definition jint :: "string \<Rightarrow> (string \<times> string) option" where
  "jint s = (case s of [] \<Rightarrow> None | c # cs \<Rightarrow> if c = CHR ''0'' then Some (''0'', cs) else jdigits s)"

definition jfrac :: "string \<Rightarrow> (string \<times> string) option" where
  "jfrac s = (if prefix ''.'' s then map_option (\<lambda>(ds, r). (CHR ''.'' # ds, r)) (jdigits (tl s)) else Some ([], s))"

definition jexp :: "string \<Rightarrow> (string \<times> string) option" where
  "jexp s = (case s of [] \<Rightarrow> Some ([], []) | c # cs \<Rightarrow>
     if c = CHR ''e'' \<or> c = CHR ''E'' then
       (let sgn = (if cs \<noteq> [] \<and> (hd cs = CHR ''+'' \<or> hd cs = CHR ''-'') then [hd cs] else []) in
        map_option (\<lambda>(ds, r). (c # sgn @ ds, r)) (jdigits (drop (length sgn) cs)))
     else Some ([], s))"

definition jnumber :: "string \<Rightarrow> (string \<times> string) option" where
  "jnumber s = (let sgn = (if prefix ''-'' s then ''-'' else []) in
     Option.bind (jint (drop (length sgn) s)) (\<lambda>(i, r1).
     Option.bind (jfrac r1) (\<lambda>(f, r2).
     Option.bind (jexp r2) (\<lambda>(e, r3). Some (sgn @ i @ f @ e, r3)))))"

definition jspace :: "char \<Rightarrow> bool" where
  "jspace c = (c \<in> {CHR '' '', CHR 0x09, CHR 0x0A, CHR 0x0D})"

lemma jstring_shorter: "jstring acc s = Some (t, r) \<Longrightarrow> length r < length s"
proof (induction s arbitrary: acc t r rule: length_induct)
  case (1 s)
  note shorter = "1.IH" [rule_format]
  show ?case
  proof (cases s)
    case (Cons c cs)
    from "1.prems" Cons show ?thesis
      by (auto simp: Let_def split: if_splits list.splits option.splits prod.splits)
        (frule shorter [rotated], simp, simp)+
  qed (use "1.prems" in simp)
qed

lemma jdigits_shorter: "jdigits s = Some (d, r) \<Longrightarrow> length r < length s"
  by (cases s) (auto simp: jdigits_def Let_def split: if_splits intro: le_imp_less_Suc length_dropWhile_le)

lemma jint_shorter: "jint s = Some (d, r) \<Longrightarrow> length r < length s"
  by (auto simp: jint_def split: list.splits if_splits dest!: jdigits_shorter)

lemma jfrac_no_longer: "jfrac s = Some (d, r) \<Longrightarrow> length r \<le> length s"
  by (cases s) (auto simp: jfrac_def split: if_splits dest!: jdigits_shorter)

lemma jexp_no_longer: "jexp s = Some (d, r) \<Longrightarrow> length r \<le> length s"
  by (auto simp: jexp_def Let_def split: list.splits if_splits dest!: jdigits_shorter)

lemma jnumber_shorter:
  assumes "jnumber s = Some (n, r)"
  shows "length r < length s"
proof -
  obtain k i r1 f r2 e where j: "jint (drop k s) = Some (i, r1)" "jfrac r1 = Some (f, r2)" "jexp r2 = Some (e, r)"
    using assms by (auto simp: jnumber_def Let_def bind_eq_Some_conv)
  from jint_shorter [OF j(1)] jfrac_no_longer [OF j(2)] jexp_no_longer [OF j(3)] show ?thesis by simp
qed

text \<open>
  The tokens of a text, up to the first character that starts none. A \<^verbatim>\<open>json.Decoder\<close> stops at the
  end of its value, so what follows is only looked at as far as the parser below consumes it.
\<close>

definition jliterals :: "(string \<times> json) list" where
  "jliterals = [(''true'', JBool True), (''false'', JBool False), (''null'', JNull)]"

definition jtoken1 :: "char \<Rightarrow> string \<Rightarrow> (jtoken \<times> string) option" where
  "jtoken1 c cs =
     (if c \<in> set ''[]{},:'' then Some (TPunct c, cs)
      else if c = CHR 0x22 then map_option (\<lambda>(t, r). (TVal (JStr t), r)) (jstring [] cs)
      else (case find (\<lambda>(w, v). prefix w (c # cs)) jliterals of
          Some (w, v) \<Rightarrow> Some (TVal v, drop (length w - 1) cs)
        | None \<Rightarrow> map_option (\<lambda>(n, r). (TVal (JNum n), r)) (jnumber (c # cs))))"

lemma jtoken1_no_longer:
  assumes "jtoken1 c cs = Some (t, r)"
  shows "length r \<le> length cs"
proof -
  consider "r = cs" | u where "jstring [] cs = Some (u, r)" | k where "r = drop k cs" | n where "jnumber (c # cs) = Some (n, r)"
    using assms unfolding jtoken1_def by (auto split: if_splits option.splits)
  then show ?thesis by cases (auto dest: jstring_shorter jnumber_shorter)
qed

function jlex :: "string \<Rightarrow> jtoken list" where
  "jlex [] = []"
| "jlex (c # cs) = (if jspace c then jlex cs
     else (case jtoken1 c cs of None \<Rightarrow> [TErr] | Some (t, r) \<Rightarrow> t # jlex r))"
  by pat_completeness auto
termination
  by (relation "measure length") (auto dest: jtoken1_no_longer intro: le_imp_less_Suc)

declare jlex.simps(2) [simp del]

text \<open>
  The parser is a transition system on a stack of open arrays and objects, one step per token.
  Nesting deeper than 10000 is refused.
\<close>

datatype jmode = WantValue | WantValueOrClose | WantKey | WantKeyOrClose | WantColon string | AfterValue json

datatype jframe = OpenArr "json list" | OpenObj "(string \<times> json) list" string

definition jpush :: "jmode \<Rightarrow> jframe \<Rightarrow> jframe list \<Rightarrow> (jmode \<times> jframe list) option" where
  "jpush m f fs = (if length fs < 10000 then Some (m, f # fs) else None)"

definition jvalueStep :: "jframe list \<Rightarrow> jtoken \<Rightarrow> (jmode \<times> jframe list) option" where
  "jvalueStep fs t = (case t of TVal v \<Rightarrow> Some (AfterValue v, fs)
     | TPunct c \<Rightarrow> if c = CHR ''['' then jpush WantValueOrClose (OpenArr []) fs
         else if c = CHR ''{'' then jpush WantKeyOrClose (OpenObj [] []) fs else None
     | TErr \<Rightarrow> None)"

definition jkeyStep :: "jframe list \<Rightarrow> jtoken \<Rightarrow> (jmode \<times> jframe list) option" where
  "jkeyStep fs t = (case t of TVal (JStr k) \<Rightarrow> Some (WantColon k, fs) | _ \<Rightarrow> None)"

definition jcloseStep :: "json \<Rightarrow> jframe list \<Rightarrow> jtoken \<Rightarrow> (jmode \<times> jframe list) option" where
  "jcloseStep v fs t = (case fs of [] \<Rightarrow> None
     | OpenArr vs # fs' \<Rightarrow> if t = TPunct (CHR '','') then Some (WantValue, OpenArr (vs @ [v]) # fs')
         else if t = TPunct (CHR '']'') then Some (AfterValue (JArr (vs @ [v])), fs') else None
     | OpenObj kvs k # fs' \<Rightarrow> if t = TPunct (CHR '','') then Some (WantKey, OpenObj (kvs @ [(k, v)]) [] # fs')
         else if t = TPunct (CHR ''}'') then Some (AfterValue (JObj (kvs @ [(k, v)])), fs') else None)"

definition jstep :: "jmode \<Rightarrow> jframe list \<Rightarrow> jtoken \<Rightarrow> (jmode \<times> jframe list) option" where
  "jstep m fs t = (case m of
       WantValue \<Rightarrow> jvalueStep fs t
     | WantValueOrClose \<Rightarrow> if t = TPunct (CHR '']'') then Some (AfterValue (JArr []), tl fs) else jvalueStep fs t
     | WantKey \<Rightarrow> jkeyStep fs t
     | WantKeyOrClose \<Rightarrow> if t = TPunct (CHR ''}'') then Some (AfterValue (JObj []), tl fs) else jkeyStep fs t
     | WantColon k \<Rightarrow> (case fs of OpenObj kvs _ # fs' \<Rightarrow>
           if t = TPunct (CHR '':'') then Some (WantValue, OpenObj kvs k # fs') else None | _ \<Rightarrow> None)
     | AfterValue v \<Rightarrow> jcloseStep v fs t)"

text \<open>The value at the start of the tokens and the tokens after it.\<close>

fun jrun :: "jmode \<Rightarrow> jframe list \<Rightarrow> jtoken list \<Rightarrow> (json \<times> jtoken list) option" where
  "jrun (AfterValue v) [] ts = Some (v, ts)"
| "jrun m fs [] = None"
| "jrun m fs (t # ts) = (case jstep m fs t of None \<Rightarrow> None | Some (m', fs') \<Rightarrow> jrun m' fs' ts)"

definition json_Decode :: "string \<Rightarrow> json option" where
  "json_Decode s = map_option fst (jrun WantValue [] (jlex s))"

definition json_Valid :: "string \<Rightarrow> json option" where
  "json_Valid s = (case jrun WantValue [] (jlex s) of Some (v, []) \<Rightarrow> Some v | _ \<Rightarrow> None)"

text \<open>
  A number decoded into an \<^verbatim>\<open>interface{}\<close> becomes a \<^verbatim>\<open>float64\<close>; it is an error when it rounds to
  infinity. \<^verbatim>\<open>strconv.ParseFloat\<close> stops reading an exponent at five digits.
\<close>

definition decimal :: "string \<Rightarrow> int" where
  "decimal ds = fold (\<lambda>c n. n * 10 + digit_val c) ds 0"

definition exponent :: "string \<Rightarrow> int" where
  "exponent ds = fold (\<lambda>c e. if e < 10000 then e * 10 + digit_val c else e) ds 0"

definition floatOverflows :: "string \<Rightarrow> bool" where
  "floatOverflows n =
     (let m = takeWhile (\<lambda>c. c \<noteq> CHR ''e'' \<and> c \<noteq> CHR ''E'') n;
          x = drop (Suc (length m)) n;
          e = (if prefix ''-'' x then - exponent (tl x) else exponent (filter is_digit x));
          frac = drop 1 (dropWhile (\<lambda>c. c \<noteq> CHR ''.'') m);
          shift = e - int (length frac);
          digits = decimal (filter is_digit m);
          limit = 2 ^ 1024 - 2 ^ 970 :: int
      in if 0 \<le> shift then limit \<le> digits * 10 ^ nat shift else limit * 10 ^ nat (- shift) \<le> digits)"

fun jfloatsOk :: "json \<Rightarrow> bool" where
  "jfloatsOk (JNum n) = (\<not> floatOverflows n)"
| "jfloatsOk (JArr vs) = list_all jfloatsOk vs"
| "jfloatsOk (JObj kvs) = list_all (\<lambda>(k, v). jfloatsOk v) kvs"
| "jfloatsOk v = True"

text \<open>\<^verbatim>\<open>json.Unmarshal\<close> into a \<^verbatim>\<open>[]string\<close>: a null element leaves the empty string, null itself the nil slice.\<close>

definition jsonStrings :: "json \<Rightarrow> string list res" where
  "jsonStrings v = (case v of JNull \<Rightarrow> Inr []
     | JArr vs \<Rightarrow> mapR (\<lambda>x. case x of JStr t \<Rightarrow> Inr t | JNull \<Rightarrow> Inr [] | _ \<Rightarrow> Inl jsonErr) vs
     | _ \<Rightarrow> Inl jsonErr)"

definition json_UnmarshalStrings :: "string \<Rightarrow> string list res" where
  "json_UnmarshalStrings s = (case json_Valid s of None \<Rightarrow> Inl jsonErr | Some v \<Rightarrow> jsonStrings v)"

end
