(* ===== verification/Kubefile_Lexer.thy ===== *)
theory Kubefile_Lexer
  imports Go_Json
begin

text \<open>
  The text level of the Kubefile parser (build/kubefile/parser: parse.go, line_parsers.go,
  split_command.go, flags.go): the lines a \<^verbatim>\<open>bufio.Scanner\<close> delivers, parser directives, comments
  and continuation lines, the split of an instruction into command, flags and arguments, the line
  parser of each command.

  A Kubefile is a sequence of bytes. The code reads it partly as bytes and partly as UTF-8; the
  model covers ASCII texts (after an optional byte-order mark), on which both readings agree.
  The operating system the parser runs on and docker's LCOW switch are parameters.
\<close>

section \<open>Lines\<close>

definition newline :: string where "newline = [CHR 0x0A]"

definition maxScanTokenSize :: nat where "maxScanTokenSize = 65536"

definition dropCR :: "string \<Rightarrow> string" where
  "dropCR s = (if s \<noteq> [] \<and> last s = CHR 0x0D then butlast s else s)"

text \<open>
  \<^verbatim>\<open>bufio.ScanLines\<close>: the empty text after the last newline is no line. A line that does not fit the
  buffer ends the scan; the parser never asks for \<^verbatim>\<open>scanner.Err()\<close>.
\<close>

definition scanLines :: "string \<Rightarrow> string list" where
  "scanLines s = (let segs = strings_Split s newline;
       ls = (if last segs = [] then butlast segs else segs)
     in map dropCR (takeWhile (\<lambda>l. length l < maxScanTokenSize) ls))"

section \<open>Directives\<close>

record buildHost =
  bh_GOOS :: string
  bh_LCOWSupported :: bool

record Directive =
  escapeToken :: char
  platformToken :: string
  processingComplete :: bool
  escapeSeen :: bool
  platformSeen :: bool

definition setEscapeToken :: "string \<Rightarrow> Directive \<Rightarrow> Directive res" where
  "setEscapeToken s d = (if s \<noteq> ''`'' \<and> s \<noteq> backslash
     then Inl (Errorf (''invalid ESCAPE '%s'. Must be ` or '' @ backslash) [s])
     else Inr (d\<lparr>escapeToken := hd s\<rparr>))"

definition setPlatformToken :: "buildHost \<Rightarrow> string \<Rightarrow> Directive \<Rightarrow> Directive res" where
  "setPlatformToken bh s d =
     (let p = strings_ToLower s; valid = bh_GOOS bh # (if bh_LCOWSupported bh then [''linux''] else []) in
      if p \<in> set valid then Inr (d\<lparr>platformToken := p\<rparr>)
      else Inl (Errorf ''invalid PLATFORM '%s'. Must be one of %v'' [p, strings_Join valid '' '']))"

definition is_blank :: "char \<Rightarrow> bool" where
  "is_blank c = (c = CHR '' '' \<or> c = CHR 0x09)"

text \<open>What follows the equals sign of a line of the form \<^verbatim>\<open># key = value\<close>.\<close>

definition directiveArg :: "string \<Rightarrow> string \<Rightarrow> string option" where
  "directiveArg key line = (case line of [] \<Rightarrow> None
     | c # r \<Rightarrow> (let r1 = dropWhile is_blank r in
         if c = CHR ''#'' \<and> prefix key r1
         then (case dropWhile is_blank (drop (length key) r1) of [] \<Rightarrow> None
            | e # v \<Rightarrow> if e = CHR ''='' then Some v else None)
         else None))"

text \<open>
  The value of the escape directive is one character: the first that is not blank, or, since the
  expression backtracks, the last blank of a value made of blanks.
\<close>

definition tokenEscapeCommand :: "string \<Rightarrow> string option" where
  "tokenEscapeCommand line = (case directiveArg ''escape'' line of None \<Rightarrow> None
     | Some v \<Rightarrow> (case dropWhile is_blank v of c # _ \<Rightarrow> Some [c]
         | [] \<Rightarrow> if v = [] then None else Some [last v]))"

definition tokenPlatformCommand :: "string \<Rightarrow> string option" where
  "tokenPlatformCommand line = map_option (dropWhile is_blank) (directiveArg ''platform'' line)"

definition possibleParserDirective :: "buildHost \<Rightarrow> string \<Rightarrow> Directive \<Rightarrow> Directive res" where
  "possibleParserDirective bh line d =
     (if processingComplete d then Inr d
      else (case tokenEscapeCommand (strings_ToLower line) of
        Some e \<Rightarrow> if escapeSeen d then Inl (Errorf ''only one escape parser directive can be used'' [])
                  else setEscapeToken e (d\<lparr>escapeSeen := True\<rparr>)
      | None \<Rightarrow> (case (if bh_LCOWSupported bh then tokenPlatformCommand (strings_ToLower line) else None) of
          Some p \<Rightarrow> if platformSeen d then Inl (Errorf ''only one platform parser directive can be used'' [])
                    else setPlatformToken bh p (d\<lparr>platformSeen := True\<rparr>)
        | None \<Rightarrow> Inr (d\<lparr>processingComplete := True\<rparr>))))"

definition NewDefaultDirective :: "buildHost \<Rightarrow> Directive" where
  "NewDefaultDirective bh =
     (let d0 = \<lparr>escapeToken = CHR 0x00, platformToken = [], processingComplete = False,
                escapeSeen = False, platformSeen = False\<rparr>;
          d1 = (case setEscapeToken backslash d0 of Inr d \<Rightarrow> d | Inl _ \<Rightarrow> d0)
      in case setPlatformToken bh (bh_GOOS bh) d1 of Inr d \<Rightarrow> d | Inl _ \<Rightarrow> d1)"

section \<open>Splitting an instruction\<close>

text \<open>The white space of the expression \<^verbatim>\<open>tokenWhitespace\<close>; a newline is not part of it.\<close>

definition is_ws :: "char \<Rightarrow> bool" where
  "is_ws c = (c \<in> {CHR 0x09, CHR 0x0B, CHR 0x0C, CHR 0x0D, CHR '' ''})"

definition tokenWhitespace_Split2 :: "string \<Rightarrow> string list" where
  "tokenWhitespace_Split2 s = (let a = takeWhile (\<lambda>c. \<not> is_ws c) s; r = dropWhile (\<lambda>c. \<not> is_ws c) s in
     if r = [] then [a] else [a, dropWhile is_ws r])"

fun wsSplit_go :: "bool \<Rightarrow> string \<Rightarrow> string \<Rightarrow> string list" where
  "wsSplit_go inSep acc [] = [rev acc]"
| "wsSplit_go inSep acc (c # cs) =
     (if is_ws c then (if inSep then wsSplit_go True acc cs else rev acc # wsSplit_go True [] cs)
      else wsSplit_go False (c # acc) cs)"

definition tokenWhitespace_Split :: "string \<Rightarrow> string list" where
  "tokenWhitespace_Split s = wsSplit_go False [] s"

datatype lexPhase = inSpaces | inWord | inQuote

text \<open>
  \<^verbatim>\<open>extractBuilderFlags\<close> takes each byte for a character: two bytes above 127 count as white space, and
  the others are written back as two-byte UTF-8.
\<close>

definition isSpaceByte :: "char \<Rightarrow> bool" where
  "isSpaceByte c = (is_space c \<or> c = CHR 0x85 \<or> c = CHR 0xA0)"

definition runeString :: "char \<Rightarrow> string" where
  "runeString c = (let n = of_char c :: nat in
     if n < 128 then [c] else [char_of (192 + n div 64), char_of (128 + n mod 64)])"

fun extractFlags_go :: "lexPhase \<Rightarrow> string \<Rightarrow> char \<Rightarrow> bool \<Rightarrow> string list \<Rightarrow> string \<Rightarrow> string \<times> string list" where
  "extractFlags_go inSpaces word quote blankOK words [] = ([], words)"
| "extractFlags_go inWord word quote blankOK words [] =
     ([], if word \<noteq> ''--'' \<and> (blankOK \<or> word \<noteq> []) then words @ [word] else words)"
| "extractFlags_go inQuote word quote blankOK words [] =
     ([], if word \<noteq> ''--'' \<and> (blankOK \<or> word \<noteq> []) then words @ [word] else words)"
| "extractFlags_go inSpaces word quote blankOK words (c # cs) =
     (if isSpaceByte c then extractFlags_go inSpaces word quote blankOK words cs
      else if c \<noteq> CHR ''-'' \<or> cs = [] \<or> hd cs \<noteq> CHR ''-'' then (c # cs, words)
      else extractFlags_go inWord (word @ [c]) quote blankOK words cs)"
| "extractFlags_go inWord word quote blankOK words (c # cs) =
     (if isSpaceByte c then
        (if word = ''--'' then (c # cs, words)
         else extractFlags_go inSpaces [] quote False (if blankOK \<or> word \<noteq> [] then words @ [word] else words) cs)
      else if c = CHR 0x27 \<or> c = CHR 0x22 then extractFlags_go inQuote word c True words cs
      else if c = CHR 0x5C then
        (case cs of [] \<Rightarrow> extractFlags_go inWord word quote blankOK words []
          | e # es \<Rightarrow> extractFlags_go inWord (word @ runeString e) quote blankOK words es)
      else extractFlags_go inWord (word @ runeString c) quote blankOK words cs)"
| "extractFlags_go inQuote word quote blankOK words (c # cs) =
     (if c = quote then extractFlags_go inWord word quote blankOK words cs
      else if c = CHR 0x5C then
        (case cs of [] \<Rightarrow> extractFlags_go inWord word quote blankOK words []
          | e # es \<Rightarrow> extractFlags_go inQuote (word @ runeString e) quote blankOK words es)
      else extractFlags_go inQuote (word @ runeString c) quote blankOK words cs)"

definition extractBuilderFlags :: "string \<Rightarrow> string \<times> string list" where
  "extractBuilderFlags line = extractFlags_go inSpaces [] (CHR 0x00) False [] line"

definition splitCommand :: "string \<Rightarrow> string \<times> string list \<times> string" where
  "splitCommand line =
     (let cmdline = tokenWhitespace_Split2 (strings_TrimSpace line);
          cmd = strings_ToLower (hd cmdline);
          (args, flags) = (if length cmdline = 2 then extractBuilderFlags (cmdline ! 1) else ([], []))
      in (cmd, flags, strings_TrimSpace args))"

record listFlag =
  lf_flag :: string
  lf_items :: "string list"

definition trimLeft :: "string \<Rightarrow> string \<Rightarrow> string" where
  "trimLeft s cutset = dropWhile (\<lambda>c. c \<in> set cutset) s"

definition trimRight :: "string \<Rightarrow> string \<Rightarrow> string" where
  "trimRight s cutset = rev (dropWhile (\<lambda>c. c \<in> set cutset) (rev s))"

definition parseListFlag :: "string \<Rightarrow> listFlag res" where
  "parseListFlag str = (case strings_SplitN2 (trimLeft str ''-'') ''='' of
       [key, values] \<Rightarrow> Inr \<lparr>lf_flag = key,
          lf_items = map strings_TrimSpace
            (strings_Split (trimRight (trimLeft values [CHR 0x22, CHR ''['']) [CHR 0x22, CHR '']'']) '','')\<rparr>
     | _ \<Rightarrow> Inl (Errorf ''flags should be like --flag=[value] or --flag=value'' []))"


section \<open>Words\<close>

text \<open>\<^verbatim>\<open>parseWords\<close> keeps the quotes and the escape characters in the words.\<close>

fun parseWords_go :: "char \<Rightarrow> lexPhase \<Rightarrow> string \<Rightarrow> char \<Rightarrow> bool \<Rightarrow> string list \<Rightarrow> string \<Rightarrow> string list" where
  "parseWords_go esc inSpaces word quote blankOK words [] = words"
| "parseWords_go esc inWord word quote blankOK words [] = (if blankOK \<or> word \<noteq> [] then words @ [word] else words)"
| "parseWords_go esc inQuote word quote blankOK words [] = (if blankOK \<or> word \<noteq> [] then words @ [word] else words)"
| "parseWords_go esc inQuote word quote blankOK words (c # cs) =
     (let next = (if c = quote then inWord else inQuote) in
      if c = esc \<and> quote \<noteq> CHR 0x27 then
        (case cs of [] \<Rightarrow> parseWords_go esc inWord word quote blankOK words []
          | e # es \<Rightarrow> parseWords_go esc next (word @ [c, e]) quote blankOK words es)
      else parseWords_go esc next (word @ [c]) quote blankOK words cs)"
| "parseWords_go esc phase word quote blankOK words (c # cs) =
     (if phase = inSpaces \<and> is_space c then parseWords_go esc inSpaces word quote blankOK words cs
      else if is_space c then
        parseWords_go esc inSpaces [] quote False (if blankOK \<or> word \<noteq> [] then words @ [word] else words) cs
      else (let q = (c = CHR 0x27 \<or> c = CHR 0x22); phase' = (if q then inQuote else inWord);
                quote' = (if q then c else quote) in
        if c = esc then
          (case cs of [] \<Rightarrow> parseWords_go esc phase' word quote' (blankOK \<or> q) words []
            | e # es \<Rightarrow> parseWords_go esc phase' (word @ [c, e]) quote' (blankOK \<or> q) words es)
        else parseWords_go esc phase' (word @ [c]) quote' (blankOK \<or> q) words cs))"

definition parseWords :: "string \<Rightarrow> Directive \<Rightarrow> string list" where
  "parseWords rest d = parseWords_go (escapeToken d) inSpaces [] (CHR 0x00) False [] rest"

section \<open>Line parsers\<close>

text \<open>
  The arguments of an instruction are a chain of nodes that carry a value only: a list of strings,
  where the nil pointer is the empty list. The flag says whether the exec form was used.
\<close>

type_synonym parsed = "string list \<times> bool"

definition parseIgnore :: "string \<Rightarrow> Directive \<Rightarrow> parsed res" where
  "parseIgnore rest d = Inr ([[]], False)"

definition commandLabel :: string where "commandLabel = ''LABEL''"

fun keyValues :: "string list \<Rightarrow> string list res" where
  "keyValues [] = Inr []"
| "keyValues (w # ws) = (case strings_SplitN2 w ''='' of
       [k, v] \<Rightarrow> bindR (keyValues ws) (\<lambda>kvs. Inr (k # v # kvs))
     | _ \<Rightarrow> Inl (Errorf ''syntax error - can't find = in %q. Must be of the form: name=value'' [w]))"

definition parseNameVal :: "string \<Rightarrow> string \<Rightarrow> Directive \<Rightarrow> string list res" where
  "parseNameVal rest key d = (case parseWords rest d of [] \<Rightarrow> Inr []
     | w # ws \<Rightarrow>
         if \<not> strings_Contains w ''='' then
           (let parts = tokenWhitespace_Split2 rest in
            if length parts < 2 then Inl (Errorf (key @ '' must have two arguments'') []) else Inr parts)
         else keyValues (w # ws))"

definition parseLabel :: "string \<Rightarrow> Directive \<Rightarrow> parsed res" where
  "parseLabel rest d = bindR (parseNameVal rest commandLabel d) (\<lambda>ws. Inr (ws, False))"

definition parseNameOrNameVal :: "string \<Rightarrow> Directive \<Rightarrow> parsed res" where
  "parseNameOrNameVal rest d = Inr (parseWords rest d, False)"

definition parseStringsWhitespaceDelimited :: "string \<Rightarrow> Directive \<Rightarrow> parsed res" where
  "parseStringsWhitespaceDelimited rest d = Inr (if rest = [] then [] else tokenWhitespace_Split rest, False)"

definition parseString :: "string \<Rightarrow> Directive \<Rightarrow> parsed res" where
  "parseString rest d = Inr (if rest = [] then [] else [rest], False)"

definition errDockerfileNotStringArray :: gerror where
  "errDockerfileNotStringArray =
     Errorf ''when using JSON array syntax, arrays must be comprised of strings only'' []"

definition parseJSON :: "string \<Rightarrow> Directive \<Rightarrow> parsed res" where
  "parseJSON rest0 d =
     (let rest = dropWhile is_space rest0 in
      if \<not> strings_HasPrefix rest ''['' then Inl (Errorf ''error parsing \"%s\" as a JSON array'' [rest])
      else (case json_Decode rest of
          Some (JArr vs) \<Rightarrow> if \<not> list_all jfloatsOk vs then Inl jsonErr
            else bindR (mapR (\<lambda>v. case v of JStr s \<Rightarrow> Inr s | _ \<Rightarrow> Inl errDockerfileNotStringArray) vs)
                   (\<lambda>ss. Inr (ss, True))
        | _ \<Rightarrow> Inl jsonErr))"

definition parseMaybeJSON :: "string \<Rightarrow> Directive \<Rightarrow> parsed res" where
  "parseMaybeJSON rest d = (if rest = [] then Inr ([], False)
     else (case parseJSON rest d of Inr r \<Rightarrow> Inr r
       | Inl e \<Rightarrow> if e = errDockerfileNotStringArray then Inl e else Inr ([rest], False)))"

definition parseMaybeJSONToList :: "string \<Rightarrow> Directive \<Rightarrow> parsed res" where
  "parseMaybeJSONToList rest d = (case parseJSON rest d of Inr r \<Rightarrow> Inr r
     | Inl e \<Rightarrow> if e = errDockerfileNotStringArray then Inl e else parseStringsWhitespaceDelimited rest d)"

definition dispatch :: "(string \<times> (string \<Rightarrow> Directive \<Rightarrow> parsed res)) list" where
  "dispatch = [(''add'', parseMaybeJSONToList), (''arg'', parseNameOrNameVal), (''copy'', parseMaybeJSONToList),
     (''from'', parseStringsWhitespaceDelimited), (''label'', parseLabel), (''maintainer'', parseString),
     (''run'', parseMaybeJSON), (''app'', parseMaybeJSONToList), (''appcmds'', parseMaybeJSONToList),
     (''env'', parseNameOrNameVal), (''appenv'', parseMaybeJSONToList), (''kubeversion'', parseString),
     (''cni'', parseMaybeJSONToList), (''csi'', parseMaybeJSONToList), (''launch'', parseMaybeJSONToList),
     (''cmds'', parseMaybeJSONToList), (''cmd'', parseMaybeJSONToList)]"

record Node =
  nd_Value :: string
  nd_Next :: "string list"
  nd_Json :: bool
  nd_Original :: string
  nd_Flags :: "string list"
  nd_StartLine :: int
  nd_EndLine :: int

definition newNodeFromLine :: "string \<Rightarrow> Directive \<Rightarrow> Node res" where
  "newNodeFromLine line d =
     (let (cmd, flags, args) = splitCommand line;
          fn = (case map_of dispatch cmd of None \<Rightarrow> parseIgnore | Some f \<Rightarrow> f)
      in bindR (fn args d) (\<lambda>(next, js).
           Inr \<lparr>nd_Value = cmd, nd_Next = next, nd_Json = js, nd_Original = line, nd_Flags = flags,
                nd_StartLine = 0, nd_EndLine = 0\<rparr>))"

section \<open>The parse loop\<close>

definition trimComments :: "string \<Rightarrow> string" where
  "trimComments s = (if strings_HasPrefix s ''#'' then [] else s)"

definition trimWhitespace :: "string \<Rightarrow> string" where
  "trimWhitespace s = dropWhile is_space s"

definition isEmptyContinuationLine :: "string \<Rightarrow> bool" where
  "isEmptyContinuationLine line = (trimComments (trimWhitespace line) = [])"

definition utf8bom :: string where "utf8bom = [CHR 0xEF, CHR 0xBB, CHR 0xBF]"

definition trimContinuationCharacter :: "string \<Rightarrow> Directive \<Rightarrow> string \<times> bool" where
  "trimContinuationCharacter line d = (case dropWhile is_blank (rev line) of
       [] \<Rightarrow> (line, True)
     | c # r \<Rightarrow> if c = escapeToken d then (rev r, False) else (line, True))"

definition processLine :: "buildHost \<Rightarrow> Directive \<Rightarrow> string \<Rightarrow> bool \<Rightarrow> (string \<times> Directive) res" where
  "processLine bh d token0 stripLeftWhitespace =
     (let token = (if stripLeftWhitespace then trimWhitespace token0 else token0) in
      bindR (possibleParserDirective bh token d) (\<lambda>d'. Inr (trimComments token, d')))"

text \<open>
  The continuation lines of an instruction: the lines left, the text read so far, the number of the
  last line, the directives, and whether an empty continuation line was seen.
\<close>

fun contLines :: "buildHost \<Rightarrow> Directive \<Rightarrow> string list \<Rightarrow> string \<Rightarrow> int \<Rightarrow> bool
    \<Rightarrow> (string list \<times> string \<times> int \<times> Directive \<times> bool) res" where
  "contLines bh d [] line currentLine hasEmpty = Inr ([], line, currentLine, d, hasEmpty)"
| "contLines bh d (l # ls) line currentLine hasEmpty =
     bindR (processLine bh d l False) (\<lambda>(b, d').
       if isEmptyContinuationLine b then contLines bh d' ls line (currentLine + 1) True
       else (let (c, isEndOfLine) = trimContinuationCharacter b d' in
         if isEndOfLine then Inr (ls, line @ c, currentLine + 1, d', hasEmpty)
         else contLines bh d' ls (line @ c) (currentLine + 1) hasEmpty))"

record Result =
  r_Children :: "Node list"
  r_EscapeToken :: char
  r_Platform :: string
  r_Warnings :: "string list"

definition emptyWarning :: "string \<Rightarrow> string" where
  "emptyWarning line = ''[WARNING]: Empty continuation line found in:'' @ newline @ ''    '' @ line"

lemma contLines_no_longer:
  "contLines bh d ls line n he = Inr (ls', line', n', d', he') \<Longrightarrow> length ls' \<le> length ls"
  by (induction ls arbitrary: d line n he)
     (auto simp: bindR_Inr_iff Let_def split: if_splits prod.splits intro: le_SucI)

lemma bindR_cong [fundef_cong]: "m = m' \<Longrightarrow> (\<And>x. m' = Inr x \<Longrightarrow> f x = g x) \<Longrightarrow> bindR m f = bindR m' g"
  by (cases m') auto

function parse_go :: "buildHost \<Rightarrow> Directive \<Rightarrow> string list \<Rightarrow> int \<Rightarrow> Node list \<Rightarrow> string list \<Rightarrow> Result res" where
  "parse_go bh d [] currentLine children warnings =
     Inr \<lparr>r_Children = children, r_EscapeToken = escapeToken d, r_Platform = platformToken d,
       r_Warnings = (if warnings = [] then []
         else warnings @ [''[WARNING]: Empty continuation lines will become errors in a future release.''])\<rparr>"
| "parse_go bh d (l # ls) currentLine children warnings =
     bindR (processLine bh d (if currentLine = 0 then strings_TrimPrefix l utf8bom else l) True) (\<lambda>(b, d1).
       let (line, isEndOfLine) = trimContinuationCharacter b d1 in
       if isEndOfLine \<and> line = [] then parse_go bh d1 ls (currentLine + 1) children warnings
       else bindR (if isEndOfLine then Inr (ls, line, currentLine + 1, d1, False)
                   else contLines bh d1 ls line (currentLine + 1) False) (\<lambda>(ls', line', endLine, d2, hasEmpty).
         bindR (newNodeFromLine line' d2) (\<lambda>child.
           parse_go bh d2 ls' endLine
             (children @ [child\<lparr>nd_StartLine := currentLine + 1, nd_EndLine := endLine\<rparr>])
             (if hasEmpty then warnings @ [emptyWarning line'] else warnings))))"
  by pat_completeness auto
termination
  by (relation "measure (\<lambda>(_, _, ls, _, _, _). length ls)")
     (auto split: if_splits dest!: contLines_no_longer)

definition kubefile_parse :: "buildHost \<Rightarrow> string \<Rightarrow> Result res" where
  "kubefile_parse bh content = parse_go bh (NewDefaultDirective bh) (scanLines content) 0 [] []"

end
