(* ===== verification/Go_Net.thy ===== *)
theory Go_Net
  imports Prelude "HOL-Library.Word"
begin

text \<open>
  The part of Go 1.17's package \<^verbatim>\<open>net\<close> (and of \<^verbatim>\<open>math/big\<close>) that sealer uses on
  addresses: \<^verbatim>\<open>net.IP\<close> with \<^verbatim>\<open>ParseIP\<close>, \<^verbatim>\<open>To4\<close>, \<^verbatim>\<open>To16\<close>, \<^verbatim>\<open>Equal\<close> and
  \<^verbatim>\<open>String\<close>, and the conversions between byte strings and big integers. The module's
  \<^verbatim>\<open>go.mod\<close> and its workflows pin Go 1.17, whose algorithms are followed here.

  A \<^verbatim>\<open>net.IP\<close> is a byte slice of any length; \<open>[]\<close> is the nil address. The last section
  proves that printing an IPv4 address and parsing it again is the identity, which the
  clients use for every address that makes a round trip through a string.
\<close>

type_synonym byte = "8 word"
type_synonym net_ip = "byte list"

section \<open>Addresses\<close>

definition v4InV6Prefix :: "byte list" where
  "v4InV6Prefix = [0, 0, 0, 0, 0, 0, 0, 0, 0, 0, 255, 255]"

definition net_IPv4 :: "byte list \<Rightarrow> net_ip" where
  "net_IPv4 p = v4InV6Prefix @ p"

definition ip_To4 :: "net_ip \<Rightarrow> net_ip" where
  "ip_To4 ip = (if length ip = 4 then ip
     else if length ip = 16 \<and> take 12 ip = v4InV6Prefix then drop 12 ip
     else [])"

definition ip_To16 :: "net_ip \<Rightarrow> net_ip" where
  "ip_To16 ip = (if length ip = 4 then net_IPv4 ip else if length ip = 16 then ip else [])"

definition ip_Equal :: "net_ip \<Rightarrow> net_ip \<Rightarrow> bool" where
  "ip_Equal ip x = (if length ip = length x then ip = x
     else if length ip = 4 \<and> length x = 16 then take 12 x = v4InV6Prefix \<and> ip = drop 12 x
     else if length ip = 16 \<and> length x = 4 then take 12 ip = v4InV6Prefix \<and> drop 12 ip = x
     else False)"

section \<open>Parsing\<close>

definition net_big :: int where
  "net_big = 0xFFFFFF"

text \<open>\<^verbatim>\<open>dtoi\<close> and \<^verbatim>\<open>xtoi\<close>: the number, the bytes consumed, success.\<close>

fun dtoi_go :: "int \<Rightarrow> nat \<Rightarrow> string \<Rightarrow> int \<times> nat \<times> bool" where
  "dtoi_go n i [] = (n, i, i \<noteq> 0)"
| "dtoi_go n i (c # cs) =
     (if is_digit c then
        (let n' = n * 10 + digit_val c in
         if net_big \<le> n' then (net_big, i, False) else dtoi_go n' (Suc i) cs)
      else (n, i, i \<noteq> 0))"

definition dtoi :: "string \<Rightarrow> int \<times> nat \<times> bool" where
  "dtoi s = dtoi_go 0 0 s"

definition hex_val :: "char \<Rightarrow> int option" where
  "hex_val c = (let n = of_char c :: int in
     if 48 \<le> n \<and> n \<le> 57 then Some (n - 48)
     else if 97 \<le> n \<and> n \<le> 102 then Some (n - 87)
     else if 65 \<le> n \<and> n \<le> 70 then Some (n - 55) else None)"

fun xtoi_go :: "int \<Rightarrow> nat \<Rightarrow> string \<Rightarrow> int \<times> nat \<times> bool" where
  "xtoi_go n i [] = (n, i, i \<noteq> 0)"
| "xtoi_go n i (c # cs) = (case hex_val c of
       Some d \<Rightarrow> (let n' = n * 16 + d in
         if net_big \<le> n' then (0, i, False) else xtoi_go n' (Suc i) cs)
     | None \<Rightarrow> (n, i, i \<noteq> 0))"

definition xtoi :: "string \<Rightarrow> int \<times> nat \<times> bool" where
  "xtoi s = xtoi_go 0 0 s"

text \<open>
  \<^verbatim>\<open>parseIPv4\<close>: \<open>k\<close> octets remain and \<open>p\<close> holds those read. A leading zero is refused
  since Go 1.17 (the flag \<open>strict\<close>).
\<close>

fun parseIPv4_go :: "bool \<Rightarrow> nat \<Rightarrow> byte list \<Rightarrow> string \<Rightarrow> net_ip" where
  "parseIPv4_go strict 0 p s = (if s = [] then net_IPv4 p else [])"
| "parseIPv4_go strict (Suc k) p s =
     (if s = [] then []
      else if p \<noteq> [] \<and> hd s \<noteq> CHR ''.'' then []
      else (let s1 = (if p \<noteq> [] then tl s else s); (n, c, ok) = dtoi s1 in
        if \<not> ok \<or> 0xFF < n then []
        else if strict \<and> 1 < c \<and> hd s1 = CHR ''0'' then []
        else parseIPv4_go strict k (p @ [of_int n]) (drop c s1)))"

definition parseIPv4 :: "bool \<Rightarrow> string \<Rightarrow> net_ip" where
  "parseIPv4 strict s = parseIPv4_go strict 4 [] s"

text \<open>
  The loop of \<^verbatim>\<open>parseIPv6\<close>: \<open>k\<close> two-byte groups remain, \<open>acc\<close> holds the bytes read
  (its length is the source's \<^verbatim>\<open>i\<close>) and \<open>ell\<close> the position of the \<^verbatim>\<open>::\<close>, if seen. The
  result is the state after the loop, \<open>None\<close> where the source returns nil inside it.
\<close>

fun parseIPv6_go :: "bool \<Rightarrow> nat \<Rightarrow> byte list \<Rightarrow> nat option \<Rightarrow> string
    \<Rightarrow> (byte list \<times> nat option \<times> string) option" where
  "parseIPv6_go strict 0 acc ell s = Some (acc, ell, s)"
| "parseIPv6_go strict (Suc k) acc ell s = (let (n, c, ok) = xtoi s in
     if \<not> ok \<or> 0xFFFF < n then None
     else if c < length s \<and> s ! c = CHR ''.'' then
       (if ell = None \<and> length acc \<noteq> 12 then None
        else if 16 < length acc + 4 then None
        else (let ip4 = parseIPv4 strict s in
          if ip4 = [] then None else Some (acc @ drop 12 ip4, ell, [])))
     else (let acc' = acc @ [of_int (n div 256), of_int n]; s1 = drop c s in
       if s1 = [] then Some (acc', ell, [])
       else if hd s1 \<noteq> CHR '':'' \<or> length s1 = 1 then None
       else (let s2 = tl s1 in
         if hd s2 = CHR '':'' then
           (if ell \<noteq> None then None
            else if tl s2 = [] then Some (acc', Some (length acc'), [])
            else parseIPv6_go strict k acc' (Some (length acc')) (tl s2))
         else parseIPv6_go strict k acc' ell s2)))"

definition parseIPv6 :: "bool \<Rightarrow> string \<Rightarrow> net_ip" where
  "parseIPv6 strict s =
     (let lead = (prefix ''::'' s); s' = (if lead then drop 2 s else s) in
      if lead \<and> s' = [] then replicate 16 0
      else (case parseIPv6_go strict 8 [] (if lead then Some 0 else None) s' of
          None \<Rightarrow> []
        | Some (acc, ell, rest) \<Rightarrow>
            if rest \<noteq> [] then []
            else if length acc < 16 then
              (case ell of None \<Rightarrow> []
               | Some e \<Rightarrow> take e acc @ replicate (16 - length acc) 0 @ drop e acc)
            else if ell \<noteq> None then [] else acc))"

fun net_ParseIP_scan :: "bool \<Rightarrow> string \<Rightarrow> string \<Rightarrow> net_ip" where
  "net_ParseIP_scan strict s [] = []"
| "net_ParseIP_scan strict s (c # cs) =
     (if c = CHR ''.'' then parseIPv4 strict s
      else if c = CHR '':'' then parseIPv6 strict s
      else net_ParseIP_scan strict s cs)"

definition net_ParseIP :: "string \<Rightarrow> net_ip" where
  "net_ParseIP s = net_ParseIP_scan True s s"

text \<open>
  The forked parser of \<^verbatim>\<open>k8s.io/utils/net\<close> accepts leading zeros, and the family tests built
  on it.
\<close>

definition k8snet_ParseIPSloppy :: "string \<Rightarrow> net_ip" where
  "k8snet_ParseIPSloppy s = net_ParseIP_scan False s s"

definition k8snet_IsIPv6 :: "net_ip \<Rightarrow> bool" where
  "k8snet_IsIPv6 ip = (ip \<noteq> [] \<and> ip_To4 ip = [])"

definition k8snet_IsIPv4 :: "net_ip \<Rightarrow> bool" where
  "k8snet_IsIPv4 ip = (ip \<noteq> [] \<and> ip_To4 ip \<noteq> [])"

definition k8snet_IsIPv6String :: "string \<Rightarrow> bool" where
  "k8snet_IsIPv6String s = k8snet_IsIPv6 (k8snet_ParseIPSloppy s)"

section \<open>Printing\<close>

definition hex_digit :: "int \<Rightarrow> char" where
  "hex_digit d = (if d < 10 then char_of (48 + nat d) else char_of (87 + nat d))"

function appendHex :: "int \<Rightarrow> string" where
  "appendHex n = (if n < 16 then [hex_digit n] else appendHex (n div 16) @ [hex_digit (n mod 16)])"
  by pat_completeness auto
termination
  by (relation "measure nat") auto

declare appendHex.simps [simp del]

definition hexString :: "byte list \<Rightarrow> string" where
  "hexString bs = concat (map (\<lambda>b. [hex_digit (uint b div 16), hex_digit (uint b mod 16)]) bs)"

fun ip_groups :: "byte list \<Rightarrow> int list" where
  "ip_groups (a # b # bs) = (uint a * 256 + uint b) # ip_groups bs"
| "ip_groups _ = []"

text \<open>The first longest run of zero groups: its start and its length.\<close>

fun zero_run :: "nat \<Rightarrow> int list \<Rightarrow> nat \<times> nat \<Rightarrow> nat \<times> nat" where
  "zero_run i [] best = best"
| "zero_run i (g # gs) best =
     (let l = length (takeWhile (\<lambda>x. x = 0) (g # gs)) in
      if snd best < l then zero_run (i + l + 1) (drop l gs) (i, l)
      else zero_run (Suc i) gs best)"

definition ip_String :: "net_ip \<Rightarrow> string" where
  "ip_String p = (if p = [] then ''<nil>''
     else let p4 = ip_To4 p in
       if p4 \<noteq> [] then strings_Join (map (\<lambda>b. itoa (uint b)) p4) ''.''
       else if length p \<noteq> 16 then ''?'' @ hexString p
       else let gs = ip_groups p; (e0, l) = zero_run 0 gs (0, 0) in
         if l \<le> 1 then strings_Join (map appendHex gs) '':''
         else strings_Join (map appendHex (take e0 gs)) '':'' @ ''::''
              @ strings_Join (map appendHex (drop (e0 + l) gs)) '':'')"

text \<open>\<^verbatim>\<open>net.JoinHostPort\<close> brackets a host that contains a colon.\<close>

definition net_JoinHostPort :: "string \<Rightarrow> string \<Rightarrow> string" where
  "net_JoinHostPort host port =
     (if CHR '':'' \<in> set host then ''['' @ host @ '']:'' @ port else host @ '':'' @ port)"

section \<open>Big integers\<close>

definition big_SetBytes :: "byte list \<Rightarrow> int" where
  "big_SetBytes bs = foldl (\<lambda>a b. a * 256 + uint b) 0 bs"

text \<open>\<^verbatim>\<open>Bytes\<close>: the absolute value, big-endian, without leading zero bytes.\<close>

function big_Bytes_go :: "int \<Rightarrow> byte list" where
  "big_Bytes_go n = (if n \<le> 0 then [] else big_Bytes_go (n div 256) @ [of_int n])"
  by pat_completeness auto
termination
  by (relation "measure nat") auto

declare big_Bytes_go.simps [simp del]

definition big_Bytes :: "int \<Rightarrow> byte list" where
  "big_Bytes n = big_Bytes_go \<bar>n\<bar>"

section \<open>Decimal octets\<close>

lemma uint_byte: "0 \<le> uint (b :: byte)" "uint (b :: byte) < 256"
  using uint_bounded [of b] by simp_all

lemma foldl_dec_mono:
  "0 \<le> n \<Longrightarrow> \<forall>c \<in> set ds. is_digit c \<Longrightarrow> n \<le> foldl (\<lambda>a c. a * 10 + digit_val c) n ds"
proof (induction ds arbitrary: n)
  case Nil
  then show ?case by simp
next
  case (Cons d ds)
  then have d: "0 \<le> digit_val d" using is_digit_val by simp
  with Cons.prems(1) have "n \<le> n * 10 + digit_val d" by simp
  also have "\<dots> \<le> foldl (\<lambda>a c. a * 10 + digit_val c) (n * 10 + digit_val d) ds"
    using Cons.prems d by (intro Cons.IH) auto
  finally show ?case by simp
qed

lemma dtoi_go_digits:
  assumes "0 \<le> n" and "\<forall>c \<in> set ds. is_digit c" and "rest = [] \<or> \<not> is_digit (hd rest)"
    and "foldl (\<lambda>a c. a * 10 + digit_val c) n ds < net_big"
  shows "dtoi_go n i (ds @ rest)
    = (foldl (\<lambda>a c. a * 10 + digit_val c) n ds, i + length ds, i + length ds \<noteq> 0)"
  using assms
proof (induction ds arbitrary: n i)
  case Nil
  then show ?case by (cases rest) auto
next
  case (Cons d ds)
  then have d: "0 \<le> digit_val d" using is_digit_val by simp
  then have "0 \<le> n * 10 + digit_val d" using Cons.prems(1) by simp
  moreover from this have "n * 10 + digit_val d < net_big"
    using foldl_dec_mono [of "n * 10 + digit_val d" ds] Cons.prems by simp
  ultimately show ?case using Cons by auto
qed

lemma foldl_itoa: "0 \<le> n \<Longrightarrow> foldl (\<lambda>a c. a * 10 + digit_val c) 0 (itoa_nonneg n) = n"
proof (induction n rule: itoa_nonneg.induct)
  case (1 n)
  then show ?case by (cases "n < 10") (simp_all add: itoa_nonneg.simps [of n])
qed

lemma dtoi_itoa:
  "0 \<le> n \<Longrightarrow> n < net_big \<Longrightarrow> rest = [] \<or> \<not> is_digit (hd rest) \<Longrightarrow>
    dtoi (itoa n @ rest) = (n, length (itoa n), True)"
  using dtoi_go_digits [of 0 "itoa n" rest 0] itoa_nonempty [of n]
  by (auto simp: dtoi_def itoa_def foldl_itoa dest: itoa_nonneg_digits)

lemma hd_itoa_pos: "0 < n \<Longrightarrow> hd (itoa_nonneg n) \<noteq> CHR ''0''"
proof (induction n rule: itoa_nonneg.induct)
  case (1 n)
  show ?case
  proof (cases "n < 10")
    case True
    with "1.prems" have "of_char (digit_char n) \<noteq> (of_char (CHR ''0'') :: int)" by simp
    then have "digit_char n \<noteq> CHR ''0''" by metis
    then show ?thesis using True by (simp add: itoa_nonneg.simps [of n])
  next
    case False
    with "1.IH" have "hd (itoa_nonneg (n div 10)) \<noteq> CHR ''0''" by simp
    with False show ?thesis by (simp add: itoa_nonneg.simps [of n])
  qed
qed

lemma itoa_no_leading_zero: "0 \<le> n \<Longrightarrow> Suc 0 < length (itoa n) \<Longrightarrow> hd (itoa n) \<noteq> CHR ''0''"
proof (cases "n = 0")
  case True
  moreover assume "Suc 0 < length (itoa n)"
  ultimately show ?thesis by (simp add: itoa_def itoa_nonneg.simps [of 0])
next
  case False
  moreover assume "0 \<le> n"
  ultimately show ?thesis using hd_itoa_pos [of n] by (simp add: itoa_def)
qed

lemma dtoi_octet:
  "rest = [] \<or> hd rest = CHR ''.'' \<Longrightarrow>
    dtoi (itoa (uint (b :: byte)) @ rest) = (uint b, length (itoa (uint b)), True)"
  using uint_byte [of b]
  by (intro dtoi_itoa) (auto simp: net_big_def is_digit_not_punct)

section \<open>Printing and parsing an IPv4 address\<close>

lemma parseIPv4_go_first:
  "rest = [] \<or> hd rest = CHR ''.'' \<Longrightarrow>
    parseIPv4_go st (Suc k) [] (itoa (uint b) @ rest) = parseIPv4_go st k [b] rest"
  using uint_byte [of b] itoa_no_leading_zero [of "uint b"]
  by (auto simp: dtoi_octet)

lemma parseIPv4_go_next:
  "p \<noteq> [] \<Longrightarrow> rest = [] \<or> hd rest = CHR ''.'' \<Longrightarrow>
    parseIPv4_go st (Suc k) p (CHR ''.'' # itoa (uint b) @ rest) = parseIPv4_go st k (p @ [b]) rest"
  using uint_byte [of b] itoa_no_leading_zero [of "uint b"]
  by (auto simp: dtoi_octet)

definition dotted :: "byte list \<Rightarrow> string" where
  "dotted p = strings_Join (map (\<lambda>b. itoa (uint b)) p) ''.''"

lemma parseIPv4_dotted: "parseIPv4 st (dotted [a, b, c, d]) = net_IPv4 [a, b, c, d]"
proof -
  let ?o = "\<lambda>b :: byte. itoa (uint b)"
  have "parseIPv4 st (dotted [a, b, c, d])
      = parseIPv4_go st (Suc 3) [] (?o a @ CHR ''.'' # ?o b @ CHR ''.'' # ?o c @ CHR ''.'' # ?o d @ [])"
    by (simp add: parseIPv4_def dotted_def numeral_nat del: parseIPv4_go.simps)
  also have "\<dots> = parseIPv4_go st (Suc 2) [a] (CHR ''.'' # ?o b @ CHR ''.'' # ?o c @ CHR ''.'' # ?o d @ [])"
    by (subst parseIPv4_go_first) (simp_all add: numeral_nat del: parseIPv4_go.simps)
  also have "\<dots> = parseIPv4_go st (Suc 1) [a, b] (CHR ''.'' # ?o c @ CHR ''.'' # ?o d @ [])"
    by (subst parseIPv4_go_next) (simp_all add: numeral_nat del: parseIPv4_go.simps)
  also have "\<dots> = parseIPv4_go st (Suc 0) [a, b, c] (CHR ''.'' # ?o d @ [])"
    by (subst parseIPv4_go_next) (simp_all del: parseIPv4_go.simps)
  also have "\<dots> = net_IPv4 [a, b, c, d]"
    by (subst parseIPv4_go_next) simp_all
  finally show ?thesis .
qed

lemma ParseIP_scan_dot:
  "CHR '':'' \<notin> set ds \<Longrightarrow> net_ParseIP_scan st s (ds @ CHR ''.'' # t) = parseIPv4 st s"
  by (induction ds) auto

lemma itoa_not_in: "0 \<le> n \<Longrightarrow> \<not> is_digit c \<Longrightarrow> c \<notin> set (itoa n)"
  using itoa_digits by blast

lemma ParseIP_dotted: "net_ParseIP (dotted [a, b, c, d]) = net_IPv4 [a, b, c, d]"
proof -
  have eq: "dotted [a, b, c, d]
      = itoa (uint a) @ CHR ''.'' # dotted [b, c, d]"
    by (simp add: dotted_def)
  have "CHR '':'' \<notin> set (itoa (uint a))"
    by (rule itoa_not_in) (simp_all add: is_digit_not_punct)
  then have "net_ParseIP (dotted [a, b, c, d]) = parseIPv4 True (dotted [a, b, c, d])"
    by (simp add: net_ParseIP_def eq ParseIP_scan_dot)
  then show ?thesis by (simp add: parseIPv4_dotted)
qed

lemma length4_cases: "length xs = 4 \<longleftrightarrow> (\<exists>a b c d. xs = [a, b, c, d])"
  by (auto simp: length_Suc_conv numeral_nat)

lemma ip_To4_cases: "ip_To4 ip \<noteq> [] \<Longrightarrow> \<exists>a b c d. ip_To4 ip = [a, b, c, d]"
  by (auto simp: ip_To4_def length4_cases [symmetric] split: if_splits)

lemma To4_net_IPv4 [simp]: "length p = 4 \<Longrightarrow> ip_To4 (net_IPv4 p) = p"
  by (simp add: ip_To4_def net_IPv4_def v4InV6Prefix_def)

lemma ip_String_v4: "ip_To4 ip \<noteq> [] \<Longrightarrow> ip_String ip = dotted (ip_To4 ip)"
  by (auto simp: ip_String_def dotted_def Let_def ip_To4_def split: if_splits)

lemma ParseIP_String_v4: "ip_To4 ip \<noteq> [] \<Longrightarrow> net_ParseIP (ip_String ip) = net_IPv4 (ip_To4 ip)"
  using ip_To4_cases [of ip] by (auto simp: ip_String_v4 ParseIP_dotted)

lemma ip_Equal_refl [simp]: "ip_Equal ip ip"
  by (simp add: ip_Equal_def)

lemma ip_Equal_String: "ip_Equal a b \<Longrightarrow> ip_String a = ip_String b"
  by (auto simp: ip_Equal_def ip_String_v4 ip_To4_def split: if_splits)

lemma ip_Equal_trans: "ip_Equal a b \<Longrightarrow> ip_Equal b c \<Longrightarrow> ip_Equal a c"
  by (auto simp: ip_Equal_def split: if_splits) (metis append_take_drop_id)+

lemma ip_Equal_sym: "ip_Equal a b = ip_Equal b a"
  by (auto simp: ip_Equal_def)

lemma dotted_chars: "c \<in> set (dotted p) \<Longrightarrow> is_digit c \<or> c = CHR ''.''"
  unfolding dotted_def
proof (induction p)
  case Nil
  then show ?case by simp
next
  case (Cons b p)
  then show ?case
    by (cases "p = []") (auto simp: strings_Join_Cons dest: itoa_digits [OF uint_byte(1)])
qed

lemma dotted_no_punct:
  "CHR '','' \<notin> set (dotted p)" "CHR ''-'' \<notin> set (dotted p)" "CHR ''='' \<notin> set (dotted p)"
  using dotted_chars [of _ p] is_digit_not_punct by auto

lemma dotted_nonempty [simp]: "p \<noteq> [] \<Longrightarrow> dotted p \<noteq> []"
  by (cases p; cases "tl p") (auto simp: dotted_def)

lemma dotted_inj: "length p = 4 \<Longrightarrow> length q = 4 \<Longrightarrow> dotted p = dotted q \<Longrightarrow> p = q"
proof -
  assume p: "length p = 4" and q: "length q = 4" and eq: "dotted p = dotted q"
  have "net_ParseIP (dotted p) = net_IPv4 p" "net_ParseIP (dotted q) = net_IPv4 q"
    using p q by (auto simp: length4_cases ParseIP_dotted)
  with eq have "net_IPv4 p = net_IPv4 q" by simp
  then show "p = q" by (simp add: net_IPv4_def)
qed

section \<open>Only address characters parse\<close>

definition addr_char :: "char \<Rightarrow> bool" where
  "addr_char c = (hex_val c \<noteq> None \<or> c = CHR ''.'' \<or> c = CHR '':'')"

lemma is_digit_hex: "is_digit c \<Longrightarrow> addr_char c"
  by (auto simp: is_digit_def hex_val_def addr_char_def Let_def)

lemma addr_char_punct [simp]: "\<not> addr_char (CHR '','')" "\<not> addr_char (CHR ''-'')"
  by (simp_all add: addr_char_def hex_val_def)

lemma dtoi_go_consumed:
  "dtoi_go n i s = (m, c, True) \<Longrightarrow> i \<le> c \<and> (\<forall>x \<in> set (take (c - i) s). addr_char x)"
proof (induction s arbitrary: n i)
  case (Cons x xs)
  show ?case
  proof (cases "is_digit x \<and> n * 10 + digit_val x < net_big")
    case True
    then have "dtoi_go (n * 10 + digit_val x) (Suc i) xs = (m, c, True)"
      using Cons.prems by (auto simp: Let_def split: if_splits)
    from Cons.IH [OF this] have IH: "Suc i \<le> c" "\<forall>y \<in> set (take (c - Suc i) xs). addr_char y" by auto
    moreover have "c - i = Suc (c - Suc i)" using IH(1) by simp
    ultimately show ?thesis using True by (auto dest: is_digit_hex)
  next
    case False
    with Cons.prems show ?thesis by (auto simp: Let_def split: if_splits)
  qed
qed auto

lemma dtoi_consumed: "dtoi s = (m, c, True) \<Longrightarrow> \<forall>x \<in> set (take c s). addr_char x"
  using dtoi_go_consumed [of 0 0 s] by (auto simp: dtoi_def)

lemma xtoi_go_consumed:
  "xtoi_go n i s = (m, c, True) \<Longrightarrow> i \<le> c \<and> (\<forall>x \<in> set (take (c - i) s). addr_char x)"
proof (induction s arbitrary: n i)
  case (Cons x xs)
  show ?case
  proof (cases "\<exists>d. hex_val x = Some d \<and> n * 16 + d < net_big")
    case True
    then obtain d where d: "hex_val x = Some d" "n * 16 + d < net_big" by blast
    then have "xtoi_go (n * 16 + d) (Suc i) xs = (m, c, True)"
      using Cons.prems by (auto simp: Let_def split: if_splits)
    from Cons.IH [OF this] have IH: "Suc i \<le> c" "\<forall>y \<in> set (take (c - Suc i) xs). addr_char y" by auto
    moreover have "c - i = Suc (c - Suc i)" using IH(1) by simp
    ultimately show ?thesis using d by (auto simp: addr_char_def)
  next
    case False
    with Cons.prems show ?thesis by (auto simp: Let_def split: if_splits option.splits)
  qed
qed auto

lemma xtoi_consumed: "xtoi s = (m, c, True) \<Longrightarrow> \<forall>x \<in> set (take c s). addr_char x"
  using xtoi_go_consumed [of 0 0 s] by (auto simp: xtoi_def)

lemma set_take_drop: "(\<forall>x \<in> set (take c s). P x) \<Longrightarrow> (\<forall>x \<in> set (drop c s). P x) \<Longrightarrow> \<forall>x \<in> set s. P x"
  by (metis append_take_drop_id Un_iff set_append)

lemma parseIPv4_go_chars: "parseIPv4_go st k p s \<noteq> [] \<Longrightarrow> \<forall>x \<in> set s. addr_char x"
proof (induction k arbitrary: p s)
  case 0
  then show ?case by (auto split: if_splits)
next
  case (Suc k)
  let ?s1 = "if p \<noteq> [] then tl s else s"
  obtain n c where d: "dtoi ?s1 = (n, c, True)" and "parseIPv4_go st k (p @ [of_int n]) (drop c ?s1) \<noteq> []"
    and hd: "p \<noteq> [] \<longrightarrow> s \<noteq> [] \<and> hd s = CHR ''.''"
    using Suc.prems by (auto simp: Let_def split: if_splits prod.splits)
  with Suc.IH have "\<forall>x \<in> set (drop c ?s1). addr_char x" by blast
  with dtoi_consumed [OF d] have "\<forall>x \<in> set ?s1. addr_char x" by (rule set_take_drop)
  with hd show ?case by (cases s) (auto simp: addr_char_def split: if_splits)
qed

lemma parseIPv6_go_chars:
  "parseIPv6_go st k acc ell s = Some (acc', ell', rest) \<Longrightarrow> rest = [] \<Longrightarrow> \<forall>x \<in> set s. addr_char x"
proof (induction k arbitrary: acc ell s)
  case 0
  then show ?case by simp
next
  case (Suc k)
  obtain n c ok where x: "xtoi s = (n, c, ok)" by (cases "xtoi s") auto
  have ok: "ok" using Suc.prems x by (auto split: if_splits)
  note cons = xtoi_consumed [OF x [unfolded ok [THEN eqTrueI]]]
  show ?case
  proof (cases "c < length s \<and> s ! c = CHR ''.''")
    case True
    then have "parseIPv4 st s \<noteq> []"
      using Suc.prems x ok by (auto simp: Let_def split: if_splits)
    then show ?thesis unfolding parseIPv4_def by (rule parseIPv4_go_chars)
  next
    case False
    let ?s1 = "drop c s" and ?acc' = "acc @ [of_int (n div 256), of_int n]"
    have "\<forall>x \<in> set ?s1. addr_char x"
    proof (cases "?s1 = []")
      case nonempty: False
      then have "hd ?s1 = CHR '':''" "length ?s1 \<noteq> 1"
        using Suc.prems x ok False by (auto simp: Let_def split: if_splits)
      with nonempty have hd: "hd ?s1 = CHR '':''" "tl ?s1 \<noteq> []"
        by (cases ?s1; simp)+
      define s2 where "s2 = tl ?s1"
      have s1: "?s1 = CHR '':'' # s2" using nonempty hd by (cases ?s1) (auto simp: s2_def)
      have "\<forall>x \<in> set s2. addr_char x"
      proof (cases "hd s2 = CHR '':''")
        case True
        then have "tl s2 = [] \<or> parseIPv6_go st k ?acc' (Some (length ?acc')) (tl s2) = Some (acc', ell', rest)"
          using Suc.prems x ok False hd s1 by (auto simp: Let_def split: if_splits)
        then have "\<forall>x \<in> set (tl s2). addr_char x" using Suc.IH Suc.prems(2) by auto
        with True show ?thesis by (cases s2) (auto simp: addr_char_def)
      next
        case False2: False
        then have "parseIPv6_go st k ?acc' ell s2 = Some (acc', ell', rest)"
          using Suc.prems x ok False hd s1 by (auto simp: Let_def split: if_splits)
        then show ?thesis using Suc.IH Suc.prems(2) by blast
      qed
      with s1 show ?thesis by (simp add: addr_char_def)
    qed simp
    with cons show ?thesis by (rule set_take_drop)
  qed
qed

lemma parseIPv6_chars: "parseIPv6 st s \<noteq> [] \<Longrightarrow> \<forall>x \<in> set s. addr_char x"
proof -
  assume ne: "parseIPv6 st s \<noteq> []"
  let ?s' = "if prefix ''::'' s then drop 2 s else s"
  have "\<forall>x \<in> set ?s'. addr_char x"
  proof (cases "prefix ''::'' s \<and> ?s' = []")
    case False
    then obtain acc ell where "parseIPv6_go st 8 [] (if prefix ''::'' s then Some 0 else None) ?s' = Some (acc, ell, [])"
      using ne by (auto simp: parseIPv6_def Let_def split: if_splits option.splits)
    then show ?thesis using parseIPv6_go_chars by blast
  qed (auto split: if_splits)
  moreover have "\<forall>x \<in> set (take 2 s). addr_char x" if "prefix ''::'' s"
    using that by (auto simp: prefix_def addr_char_def)
  ultimately show ?thesis
    using set_take_drop [of 2 s addr_char] by (auto split: if_splits)
qed

lemma ParseIP_chars: "net_ParseIP s \<noteq> [] \<Longrightarrow> \<forall>x \<in> set s. addr_char x"
proof -
  have "net_ParseIP_scan st s t \<noteq> [] \<Longrightarrow> parseIPv4 st s \<noteq> [] \<or> parseIPv6 st s \<noteq> []" for st t
    by (induction t) (auto split: if_splits)
  moreover assume "net_ParseIP s \<noteq> []"
  ultimately show ?thesis
    unfolding net_ParseIP_def parseIPv4_def using parseIPv4_go_chars parseIPv6_chars by blast
qed

lemma ParseIP_no_comma: "net_ParseIP s \<noteq> [] \<Longrightarrow> CHR '','' \<notin> set s"
  using ParseIP_chars addr_char_punct by blast

end
