(* ===== verification/Ip_Utils.thy ===== *)
theory Ip_Utils
  imports Go_Net
begin

text \<open>
  Model of \<^verbatim>\<open>utils/net/iputils.go\<close>: local interface lookup, expansion of an address range
  written \<^verbatim>\<open>a-b\<close> into the list of its members, comparison, sorting and filtering of
  address lists, and the n-th address of a subnet.

  The range loop of \<^verbatim>\<open>TransferToIPList\<close> does not always stop, so it is a
  \<^theory_text>\<open>partial_function\<close> into \<open>option\<close> whose \<open>None\<close> means that the call never
  returns. The lemmas give the exact condition under which it does and what it then returns.
\<close>

section \<open>Interfaces of the local host\<close>

datatype net_addr = IPNetAddr net_ip | OtherAddr string

record net_interface =
  if_name :: string
  if_up :: bool
  if_addrs :: "net_addr list res"

definition ip_IsLoopback :: "net_ip \<Rightarrow> bool" where
  "ip_IsLoopback ip = (let ip4 = ip_To4 ip in
     if ip4 \<noteq> [] then hd ip4 = 127 else ip_Equal ip (replicate 15 0 @ [1]))"

text \<open>
  The two functions that read the interface table take what \<^verbatim>\<open>net.Interfaces()\<close> returns as
  an argument. The loops skip interfaces that are down.
\<close>

fun collectAddrs :: "net_interface list \<Rightarrow> net_addr list \<Rightarrow> net_addr list res" where
  "collectAddrs [] allAddrs = Inr allAddrs"
| "collectAddrs (i # is) allAddrs =
     (if \<not> if_up i then collectAddrs is allAddrs
      else case if_addrs i of
          Inl e \<Rightarrow> Inl (Wrapf ''failed to get Addrs: %v'' [] e)
        | Inr addrs \<Rightarrow> collectAddrs is (allAddrs @ addrs))"

definition GetLocalHostAddresses :: "net_interface list res \<Rightarrow> net_addr list res" where
  "GetLocalHostAddresses ifs = (case ifs of
       Inl e \<Rightarrow> Inl (Wrapf ''failed to get net.Interfaces: %v'' [] e)
     | Inr is \<Rightarrow> collectAddrs is [])"

definition IsLocalIP :: "net_interface list res \<Rightarrow> net_ip \<Rightarrow> net_addr list \<Rightarrow> bool" where
  "IsLocalIP ifs ip addrs =
     (let addrs' = (if addrs = [] then (case GetLocalHostAddresses ifs of Inl _ \<Rightarrow> [] | Inr a \<Rightarrow> a)
                    else addrs) in
      list_ex (\<lambda>a. case a of
          IPNetAddr x \<Rightarrow> \<not> ip_IsLoopback x \<and> ip_Equal x ip
        | OtherAddr _ \<Rightarrow> False) addrs')"

fun hostNetInterface_go :: "net_interface list res \<Rightarrow> net_ip \<Rightarrow> net_interface list \<Rightarrow> string res" where
  "hostNetInterface_go ifs host [] = Inr []"
| "hostNetInterface_go ifs host (i # is) =
     (if \<not> if_up i then hostNetInterface_go ifs host is
      else case if_addrs i of
          Inl e \<Rightarrow> Inl (Wrapf ''failed to get Addrs: %v'' [] e)
        | Inr addrs \<Rightarrow> if IsLocalIP ifs host addrs then Inr (if_name i)
                       else hostNetInterface_go ifs host is)"

definition GetHostNetInterface :: "net_interface list res \<Rightarrow> net_ip \<Rightarrow> string res" where
  "GetHostNetInterface ifs host = bindR ifs (hostNetInterface_go ifs host)"

section \<open>Comparison and succession\<close>

definition IPToInt :: "string \<Rightarrow> int option" where
  "IPToInt v = (let ip = ip_To4 (net_ParseIP v); val = ip_To4 ip in
     if val \<noteq> [] then Some (big_SetBytes val) else Some (big_SetBytes (ip_To16 ip)))"

definition CompareIP :: "string \<Rightarrow> string \<Rightarrow> int" where
  "CompareIP v1 v2 = (case IPToInt v1 of
       None \<Rightarrow> 2
     | Some i \<Rightarrow> (case IPToInt v2 of None \<Rightarrow> 2
         | Some j \<Rightarrow> if i < j then -1 else if i = j then 0 else 1))"

definition NextIP :: "string \<Rightarrow> net_ip res" where
  "NextIP ip = (case IPToInt ip of
       None \<Rightarrow> Inl (Panic ''nil pointer dereference'')
     | Some i \<Rightarrow> Inr (big_Bytes (i + 1)))"

section \<open>Ranges\<close>

partial_function (option) ip_range_loop :: "string \<Rightarrow> string \<Rightarrow> string list \<Rightarrow> string list res option" where
  "ip_range_loop cur stop result =
     (if CompareIP cur stop \<le> 0 then
        (case NextIP cur of
           Inl e \<Rightarrow> Some (Inl e)
         | Inr ip \<Rightarrow> ip_range_loop (ip_String ip) stop (result @ [cur]))
      else Some (Inr result))"

definition TransferToIPList :: "string \<Rightarrow> string res option" where
  "TransferToIPList ipStr =
     (let ips = strings_Split ipStr ''-'' in
      if ipStr = [] \<or> \<not> strings_Contains ipStr ''-'' then Some (Inr ipStr)
      else if length ips \<noteq> 2 then
        Some (Inl (Errorf ''input IP(%s) is invalid, IP range format must be xxx.xxx.xxx.1-xxx.xxx.xxx.2'' [ipStr]))
      else if net_ParseIP (ips ! 0) = [] then Some (Inl (Errorf ''failed tp parse IP(%s)'' [ips ! 0]))
      else if net_ParseIP (ips ! 1) = [] then Some (Inl (Errorf ''failed tp parse IP(%s)'' [ips ! 1]))
      else map_option (\<lambda>r. bindR r (\<lambda>result.
             if result = [] then Inl (Errorf ''input IP(%s) is invalid'' [ipStr])
             else Inr (strings_Join result '','')))
           (ip_range_loop (ips ! 0) (ips ! 1) []))"

section \<open>Address lists\<close>

text \<open>
  \<^verbatim>\<open>SortIPList\<close> sorts in place; the model returns the new contents. Go's \<^verbatim>\<open>sort.Slice\<close> is
  not stable, but two elements that compare equal are the same bytes.
\<close>

definition SortIPList :: "string list \<Rightarrow> string list" where
  "SortIPList iplist = map ip_String (sort (map net_ParseIP iplist))"

fun IsInIPList :: "net_ip \<Rightarrow> net_ip list \<Rightarrow> bool" where
  "IsInIPList key [] = False"
| "IsInIPList key (s # ips) = (if ip_Equal s key then True else IsInIPList key ips)"

definition IPStrsToIPs :: "string list \<Rightarrow> net_ip list" where
  "IPStrsToIPs ipStrs = map net_ParseIP (filter (\<lambda>s. s \<noteq> []) ipStrs)"

definition IPsToIPStrs :: "net_ip list \<Rightarrow> string list" where
  "IPsToIPStrs ips = map ip_String ips"

definition RemoveIPs :: "net_ip list \<Rightarrow> net_ip list \<Rightarrow> net_ip list" where
  "RemoveIPs clusterIPList toBeDeletedIPList
     = filter (\<lambda>ip. \<not> IsInIPList ip toBeDeletedIPList) clusterIPList"

section \<open>Subnets\<close>

record ip_net =
  net_IP :: net_ip
  net_Mask :: "byte list"

definition networkNumberAndMask :: "ip_net \<Rightarrow> byte list \<times> byte list" where
  "networkNumberAndMask n =
     (let ip = (if ip_To4 (net_IP n) \<noteq> [] then ip_To4 (net_IP n) else net_IP n);
          m = net_Mask n in
      if length ip \<noteq> 4 \<and> length ip \<noteq> 16 then ([], [])
      else if length m = 4 then (if length ip \<noteq> 4 then ([], []) else (ip, m))
      else if length m = 16 then (ip, if length ip = 4 then drop 12 m else m)
      else ([], []))"

unbundle bit_operations_syntax

definition ipnet_Contains :: "ip_net \<Rightarrow> net_ip \<Rightarrow> bool" where
  "ipnet_Contains n ip =
     (let (nn, m) = networkNumberAndMask n; x = (if ip_To4 ip \<noteq> [] then ip_To4 ip else ip) in
      length x = length nn \<and> list_all (\<lambda>((a, k), b). a AND k = b AND k) (zip (zip nn m) x))"

definition GetIndexIP :: "ip_net \<Rightarrow> int \<Rightarrow> string res" where
  "GetIndexIP subnet index =
     (let bip = (if ip_To4 (net_IP subnet) = [] then big_SetBytes (ip_To16 (net_IP subnet))
                 else big_SetBytes (ip_To4 (net_IP subnet)));
          ip = big_Bytes (bip + index) in
      if ipnet_Contains subnet ip then Inr (ip_String ip)
      else Inl (Errorf ''can't generate IP with index %d from subnet. subnet too small. subnet: %q''
                  [itoa index, ip_String (net_IP subnet)]))"

section \<open>Bytes and integers\<close>

lemma big_SetBytes_snoc: "big_SetBytes (bs @ [b]) = big_SetBytes bs * 256 + uint b"
  by (simp add: big_SetBytes_def)

lemma big_SetBytes_nonneg [simp]: "0 \<le> big_SetBytes bs"
  by (induction bs rule: rev_induct) (auto simp: big_SetBytes_snoc big_SetBytes_def uint_byte)

lemma big_SetBytes_bound: "big_SetBytes bs < 256 ^ length bs"
proof (induction bs rule: rev_induct)
  case Nil
  then show ?case by (simp add: big_SetBytes_def)
next
  case (snoc b bs)
  then have "big_SetBytes bs + 1 \<le> 256 ^ length bs" by simp
  then have "(big_SetBytes bs + 1) * 256 \<le> 256 ^ length bs * 256"
    by (intro mult_right_mono) auto
  with uint_byte(2) [of b] have "big_SetBytes bs * 256 + uint b < 256 ^ length bs * 256"
    by (simp add: algebra_simps)
  then show ?case by (simp add: big_SetBytes_snoc mult.commute)
qed

lemma Bytes_go_nonpos [simp]: "n \<le> 0 \<Longrightarrow> big_Bytes_go n = []"
  by (simp add: big_Bytes_go.simps)

lemma uint_of_int_byte: "uint (of_int n :: byte) = n mod 256"
  by (simp add: take_bit_eq_mod uint_word_of_int_eq)

lemma SetBytes_Bytes_go: "0 \<le> n \<Longrightarrow> big_SetBytes (big_Bytes_go n) = n"
proof (induction n rule: big_Bytes_go.induct)
  case (1 n)
  show ?case
  proof (cases "n \<le> 0")
    case True
    with "1.prems" show ?thesis by (simp add: big_Bytes_go.simps [of n] big_SetBytes_def)
  next
    case False
    with "1.IH" have "big_SetBytes (big_Bytes_go (n div 256)) = n div 256" by simp
    with False show ?thesis
      by (simp add: big_Bytes_go.simps [of n] big_SetBytes_snoc uint_of_int_byte)
  qed
qed

lemma SetBytes_Bytes: "0 \<le> n \<Longrightarrow> big_SetBytes (big_Bytes n) = n"
  by (simp add: big_Bytes_def SetBytes_Bytes_go)

lemma hd_Bytes_go: "0 < n \<Longrightarrow> big_Bytes_go n \<noteq> [] \<and> hd (big_Bytes_go n) \<noteq> 0"
proof (induction n rule: big_Bytes_go.induct)
  case (1 n)
  show ?case
  proof (cases "n < 256")
    case True
    with "1.prems" have "uint (of_int n :: byte) = n" by (simp add: uint_of_int_byte)
    with "1.prems" have "(of_int n :: byte) \<noteq> 0" by auto
    moreover have "big_Bytes_go n = [of_int n]"
      using True "1.prems" by (simp add: big_Bytes_go.simps [of n] big_Bytes_go.simps [of "n div 256"])
    ultimately show ?thesis by simp
  next
    case False
    with "1.IH" show ?thesis by (auto simp: big_Bytes_go.simps [of n])
  qed
qed

lemma Bytes_go_SetBytes: "bs = [] \<or> hd bs \<noteq> 0 \<Longrightarrow> big_Bytes_go (big_SetBytes bs) = bs"
proof (induction bs rule: rev_induct)
  case Nil
  then show ?case by (simp add: big_SetBytes_def big_Bytes_go.simps)
next
  case (snoc b bs)
  have hd: "bs = [] \<or> hd bs \<noteq> 0" using snoc.prems by (cases bs) auto
  let ?n = "big_SetBytes bs * 256 + uint b"
  have n: "?n div 256 = big_SetBytes bs" "?n mod 256 = uint b"
    using uint_byte [of b] by auto
  have pos: "0 < ?n"
  proof (cases "bs = []")
    case True
    with snoc.prems have "uint b \<noteq> 0" by (auto simp: uint_0_iff)
    then have "0 < uint b" using uint_byte(1) [of b] by linarith
    with True show ?thesis by (simp add: big_SetBytes_def)
  next
    case False
    have "big_SetBytes bs \<noteq> 0"
    proof
      assume "big_SetBytes bs = 0"
      with snoc.IH hd have "big_Bytes_go 0 = bs" by simp
      with False show False by (simp add: big_Bytes_go.simps)
    qed
    with big_SetBytes_nonneg [of bs] have "0 < big_SetBytes bs" by linarith
    with uint_byte [of b] show ?thesis by linarith
  qed
  have "uint (of_int ?n :: byte) = uint b"
    by (simp only: uint_of_int_byte n)
  then have "(of_int ?n :: byte) = b"
    by (simp only: word_uint_eq_iff)
  then show ?case
    using pos n snoc.IH hd by (simp add: big_SetBytes_snoc big_Bytes_go.simps [of ?n])
qed

lemma Bytes_SetBytes: "bs = [] \<or> hd bs \<noteq> 0 \<Longrightarrow> big_Bytes (big_SetBytes bs) = bs"
  by (simp add: big_Bytes_def Bytes_go_SetBytes)

lemma length_Bytes_go: "256 ^ k \<le> n \<Longrightarrow> n < 256 ^ Suc k \<Longrightarrow> length (big_Bytes_go n) = Suc k"
proof (induction k arbitrary: n)
  case 0
  then show ?case by (simp add: big_Bytes_go.simps [of n] big_Bytes_go.simps [of "n div 256"])
next
  case (Suc k)
  have "(0::int) < 256 ^ Suc k" by simp
  with Suc.prems(1) have pos: "0 < n" by linarith
  have "256 ^ k \<le> n div 256" "n div 256 < 256 ^ Suc k"
    using Suc.prems by auto
  then have "length (big_Bytes_go (n div 256)) = Suc k" by (rule Suc.IH)
  with pos show ?case by (simp add: big_Bytes_go.simps [of n])
qed

lemma length_Bytes_4: "2 ^ 24 \<le> n \<Longrightarrow> n < 2 ^ 32 \<Longrightarrow> length (big_Bytes n) = 4"
  using length_Bytes_go [of 3 n] by (simp add: big_Bytes_def)

lemma length_Bytes_16: "2 ^ 120 \<le> n \<Longrightarrow> n < 2 ^ 128 \<Longrightarrow> length (big_Bytes n) = 16"
  using length_Bytes_go [of 15 n] by (simp add: big_Bytes_def)

lemma big_SetBytes_Cons: "big_SetBytes (b # bs) = uint b * 256 ^ length bs + big_SetBytes bs"
proof (induction bs rule: rev_induct)
  case Nil
  then show ?case by (simp add: big_SetBytes_def)
next
  case (snoc c cs)
  have "big_SetBytes (b # cs @ [c]) = big_SetBytes (b # cs) * 256 + uint c"
    using big_SetBytes_snoc [of "b # cs" c] by simp
  with snoc show ?case by (simp add: big_SetBytes_snoc algebra_simps)
qed

lemma big_SetBytes_lower: "b \<noteq> 0 \<Longrightarrow> 256 ^ length bs \<le> big_SetBytes (b # bs)"
proof -
  assume "b \<noteq> 0"
  then have "1 \<le> uint b" using uint_byte(1) [of b] by (auto simp: uint_0_iff order_le_less)
  then have "1 * 256 ^ length bs \<le> uint b * (256 ^ length bs :: int)"
    by (intro mult_right_mono) auto
  with big_SetBytes_nonneg [of bs] have "256 ^ length bs \<le> uint b * 256 ^ length bs + big_SetBytes bs"
    by linarith
  then show ?thesis by (simp only: big_SetBytes_Cons)
qed

lemma big_SetBytes_max:
  "big_SetBytes bs = 256 ^ length bs - 1 \<Longrightarrow> bs = replicate (length bs) 255"
proof (induction bs rule: rev_induct)
  case Nil
  then show ?case by simp
next
  case (snoc b bs)
  have digit: "x = 255 \<and> s = P - 1" if "s * 256 + x = P * 256 - 1" "0 \<le> x" "x < 256" for s x P :: int
  proof -
    have "0 < P - s" "P - s < 2" using that by linarith+
    then have "s = P - 1" by linarith
    with that show ?thesis by simp
  qed
  have "big_SetBytes bs * 256 + uint b = 256 ^ length bs * 256 - 1"
    using snoc.prems by (simp add: big_SetBytes_snoc)
  note d = digit [OF this uint_byte]
  from d have b: "uint b = 255" by (rule conjunct1)
  from d have bs: "big_SetBytes bs = 256 ^ length bs - 1" by (rule conjunct2)
  from b have "b = 255" by (intro word_uint_eqI) simp
  have "bs @ [b] = replicate (length bs) 255 @ [255]"
    using snoc.IH [OF bs] \<open>b = 255\<close> by metis
  then show ?case by (simp add: replicate_append_same)
qed

section \<open>What the range loop computes\<close>

definition ip_val :: "string \<Rightarrow> int" where
  "ip_val s = (case IPToInt s of Some i \<Rightarrow> i | None \<Rightarrow> 0)"

lemma IPToInt_Some: "IPToInt s = Some (ip_val s)"
  by (simp add: ip_val_def IPToInt_def Let_def)

lemma ip_val_nonneg [simp]: "0 \<le> ip_val s"
  by (simp add: ip_val_def IPToInt_def Let_def)

lemma CompareIP_le: "CompareIP a b \<le> 0 \<longleftrightarrow> ip_val a \<le> ip_val b"
  by (simp add: CompareIP_def IPToInt_Some)

lemma NextIP_eq: "NextIP a = Inr (big_Bytes (ip_val a + 1))"
  by (simp add: NextIP_def IPToInt_Some)

lemma ip_To4_idem [simp]: "ip_To4 (ip_To4 ip) = ip_To4 ip"
  by (simp add: ip_To4_def)

lemma ip_val_not_v4: "ip_To4 (net_ParseIP s) = [] \<Longrightarrow> ip_val s = 0"
  by (simp add: ip_val_def IPToInt_def Let_def ip_To4_def ip_To16_def big_SetBytes_def)

lemma ip_val_v4: "ip_To4 (net_ParseIP s) \<noteq> [] \<Longrightarrow> ip_val s = big_SetBytes (ip_To4 (net_ParseIP s))"
  by (simp add: ip_val_def IPToInt_def Let_def)

lemma length_To4: "length (ip_To4 ip) = 0 \<or> length (ip_To4 ip) = 4"
  by (simp add: ip_To4_def)

lemma ip_val_bound: "ip_val s < 2 ^ 32"
proof (cases "ip_To4 (net_ParseIP s) = []")
  case True
  then show ?thesis by (simp add: ip_val_not_v4)
next
  case False
  then have "length (ip_To4 (net_ParseIP s)) = 4" using length_To4 [of "net_ParseIP s"] by auto
  with False big_SetBytes_bound [of "ip_To4 (net_ParseIP s)"] show ?thesis
    by (simp add: ip_val_v4)
qed

lemma ip_val_dotted: "length p = 4 \<Longrightarrow> ip_val (dotted p) = big_SetBytes p"
  by (subst ip_val_v4) (auto simp: length4_cases ParseIP_dotted)

text \<open>A byte string that is no address prints as a question mark, which no address does.\<close>

lemma ParseIP_scan_qmark_hex:
  "\<forall>c \<in> set t. c \<noteq> CHR ''.'' \<and> c \<noteq> CHR '':'' \<Longrightarrow> net_ParseIP_scan st s t = []"
  by (induction t) auto

lemma hex_digit_not_punct:
  "0 \<le> d \<Longrightarrow> d < 16 \<Longrightarrow> hex_digit d \<noteq> CHR ''.'' \<and> hex_digit d \<noteq> CHR '':''"
proof -
  assume d: "0 \<le> d" "d < 16"
  then have "of_char (hex_digit d) \<noteq> (of_char (CHR ''.'') :: nat)"
    and "of_char (hex_digit d) \<noteq> (of_char (CHR '':'') :: nat)"
    by (auto simp: hex_digit_def)
  then show ?thesis by metis
qed

lemma hexString_no_punct: "c \<in> set (hexString bs) \<Longrightarrow> c \<noteq> CHR ''.'' \<and> c \<noteq> CHR '':''"
proof -
  assume "c \<in> set (hexString bs)"
  then obtain b :: byte where "c = hex_digit (uint b div 16) \<or> c = hex_digit (uint b mod 16)"
    by (auto simp: hexString_def)
  moreover have "0 \<le> uint b div 16" "uint b div 16 < 16"
    using uint_byte [of b] by (auto simp: pos_imp_zdiv_nonneg_iff)
  ultimately show ?thesis using hex_digit_not_punct by auto
qed

lemma ip_val_garbage: "length p \<notin> {0, 4, 16} \<Longrightarrow> ip_val (ip_String p) = 0"
proof -
  assume p: "length p \<notin> {0, 4, 16}"
  then have "ip_String p = ''?'' @ hexString p"
    by (auto simp: ip_String_def ip_To4_def Let_def)
  then have "net_ParseIP (ip_String p) = []"
    using hexString_no_punct [of _ p] by (auto simp: net_ParseIP_def intro: ParseIP_scan_qmark_hex)
  then show ?thesis by (intro ip_val_not_v4) (simp add: ip_To4_def)
qed

lemma length_Bytes_not4:
  assumes "0 < n" and "n < 2 ^ 24 \<or> n = 2 ^ 32"
  shows "length (big_Bytes n) \<notin> {0, 4, 16}"
proof -
  consider "n < 256" | "256 \<le> n" "n < 256 ^ 2" | "256 ^ 2 \<le> n" "n < 256 ^ 3" | "n = 256 ^ 4"
    using assms by force
  then show ?thesis
  proof cases
    case 1
    then show ?thesis using length_Bytes_go [of 0 n] assms(1) by (simp add: big_Bytes_def)
  next
    case 2
    then show ?thesis using length_Bytes_go [of 1 n] assms(1) by (simp add: big_Bytes_def)
  next
    case 3
    then show ?thesis using length_Bytes_go [of 2 n] assms(1) by (simp add: big_Bytes_def)
  next
    case 4
    then show ?thesis using length_Bytes_go [of 4 n] assms(1) by (simp add: big_Bytes_def)
  qed
qed

text \<open>From a string that is worth 0 the loop never leaves: the successor of 0 is no address.\<close>

lemma ip_range_loop_zero:
  assumes "ip_val cur = 0"
  shows "ip_range_loop cur stop result = None"
proof (rule ccontr)
  assume "ip_range_loop cur stop result \<noteq> None"
  then obtain r where r: "ip_range_loop cur stop result = Some r" by auto
  have "ip_val cur \<noteq> 0"
  proof (rule ip_range_loop.raw_induct [where P = "\<lambda>cur stop result r. ip_val cur \<noteq> 0", OF _ r])
    fix f cur stop result r
    assume IH: "\<And>cur stop result r. f cur stop result = Some r \<Longrightarrow> ip_val cur \<noteq> 0"
      and eq: "(if CompareIP cur stop \<le> 0
        then case NextIP cur of Inl e \<Rightarrow> Some (Inl e)
             | Inr ip \<Rightarrow> f (ip_String ip) stop (result @ [cur])
        else Some (Inr result)) = Some r"
    show "ip_val cur \<noteq> 0"
    proof
      assume z: "ip_val cur = 0"
      then have "f (ip_String (big_Bytes 1)) stop (result @ [cur]) = Some r"
        using eq by (simp add: CompareIP_le NextIP_eq)
      then have "ip_val (ip_String (big_Bytes 1)) \<noteq> 0" by (rule IH)
      moreover have "ip_val (ip_String (big_Bytes 1)) = 0"
        by (rule ip_val_garbage) (simp add: big_Bytes_def big_Bytes_go.simps)
      ultimately show False by simp
    qed
  qed
  with assms show False by simp
qed

lemma ip_range_loop_step:
  "ip_val cur \<le> ip_val stop \<Longrightarrow> ip_range_loop cur stop result
    = ip_range_loop (ip_String (big_Bytes (ip_val cur + 1))) stop (result @ [cur])"
  by (subst ip_range_loop.simps) (simp add: CompareIP_le NextIP_eq)

lemma ip_range_loop_stop: "ip_val stop < ip_val cur \<Longrightarrow> ip_range_loop cur stop result = Some (Inr result)"
  by (subst ip_range_loop.simps) (simp add: CompareIP_le)

lemma String_Bytes_v4:
  "2 ^ 24 \<le> n \<Longrightarrow> n < 2 ^ 32 \<Longrightarrow> ip_String (big_Bytes n) = dotted (big_Bytes n)"
  using length_Bytes_4 [of n] by (subst ip_String_v4) (auto simp: ip_To4_def)

lemma ip_val_String_Bytes:
  "2 ^ 24 \<le> n \<Longrightarrow> n < 2 ^ 32 \<Longrightarrow> ip_val (ip_String (big_Bytes n)) = n"
  by (simp add: String_Bytes_v4 ip_val_dotted length_Bytes_4 SetBytes_Bytes)

definition ip_range :: "string \<Rightarrow> string \<Rightarrow> string list" where
  "ip_range a b = (if ip_val b < ip_val a then []
     else a # map (\<lambda>n. dotted (big_Bytes n)) [ip_val a + 1 .. ip_val b])"

lemma ip_range_loop_collects:
  assumes "2 ^ 24 \<le> n" "n \<le> ip_val stop + 1" "ip_val stop < 2 ^ 32 - 1"
  shows "ip_range_loop (ip_String (big_Bytes n)) stop result
    = Some (Inr (result @ map (\<lambda>n. dotted (big_Bytes n)) [n .. ip_val stop]))"
  using assms
proof (induction "nat (ip_val stop + 1 - n)" arbitrary: n result)
  case 0
  then have "n = ip_val stop + 1" by simp
  with 0 show ?case
    by (simp add: ip_range_loop_stop ip_val_String_Bytes)
next
  case (Suc k)
  then have le: "n \<le> ip_val stop" by linarith
  let ?s = "ip_String (big_Bytes n)"
  have n: "ip_val ?s = n" using Suc.prems le by (simp add: ip_val_String_Bytes)
  have "k = nat (ip_val stop + 1 - (n + 1))" using Suc.hyps(2) by linarith
  then have "ip_range_loop (ip_String (big_Bytes (n + 1))) stop (result @ [?s])
    = Some (Inr ((result @ [?s]) @ map (\<lambda>n. dotted (big_Bytes n)) [n + 1 .. ip_val stop]))"
    by (rule Suc.hyps(1)) (use Suc.prems le in linarith)+
  moreover have "[n .. ip_val stop] = n # [n + 1 .. ip_val stop]"
    using le by (rule upto_rec1)
  moreover have "?s = dotted (big_Bytes n)"
    using Suc.prems le by (simp add: String_Bytes_v4)
  ultimately show ?case
    using ip_range_loop_step [of ?s stop result] le n by simp
qed

text \<open>The range loop stops exactly when no address outside the four-byte range is met.\<close>

lemma ip_range_loop_cases:
  "ip_range_loop a b [] =
    (if ip_val a \<le> ip_val b \<and> (ip_val a + 1 < 2 ^ 24 \<or> ip_val b = 2 ^ 32 - 1) then None
     else Some (Inr (ip_range a b)))"
proof (cases "ip_val a \<le> ip_val b")
  case False
  then show ?thesis by (simp add: ip_range_loop_stop ip_range_def)
next
  case le: True
  have step: "ip_range_loop a b [] = ip_range_loop (ip_String (big_Bytes (ip_val a + 1))) b [a]"
    using ip_range_loop_step [OF le, of "[]"] by simp
  consider (low) "ip_val a + 1 < 2 ^ 24" | (high) "2 ^ 24 \<le> ip_val a + 1" "ip_val b = 2 ^ 32 - 1"
    | (ok) "2 ^ 24 \<le> ip_val a + 1" "ip_val b < 2 ^ 32 - 1"
    using ip_val_bound [of b] by linarith
  then show ?thesis
  proof cases
    case low
    then have "ip_val (ip_String (big_Bytes (ip_val a + 1))) = 0"
      by (intro ip_val_garbage length_Bytes_not4) (auto intro: add_nonneg_pos)
    with step low le show ?thesis by (simp add: ip_range_loop_zero)
  next
    case ok
    have "ip_range_loop (ip_String (big_Bytes (ip_val a + 1))) b [a]
      = Some (Inr ([a] @ map (\<lambda>n. dotted (big_Bytes n)) [ip_val a + 1 .. ip_val b]))"
      by (rule ip_range_loop_collects) (use ok le in linarith)+
    with step ok le show ?thesis by (simp add: ip_range_def)
  next
    case high
    have top: "ip_range_loop (ip_String (big_Bytes n)) b r = None"
      if "2 ^ 24 \<le> n" "n \<le> 2 ^ 32" for n r
      using that
    proof (induction "nat (2 ^ 32 - n)" arbitrary: n r)
      case 0
      then have n: "n = 2 ^ 32" by simp
      have "ip_val (ip_String (big_Bytes n)) = 0"
        by (intro ip_val_garbage length_Bytes_not4) (use n in auto)
      then show ?case by (rule ip_range_loop_zero)
    next
      case (Suc k)
      then have lt: "n < 2 ^ 32" by linarith
      then have v: "ip_val (ip_String (big_Bytes n)) = n"
        using Suc.prems by (simp add: ip_val_String_Bytes)
      have "ip_range_loop (ip_String (big_Bytes (n + 1))) b (r @ [ip_String (big_Bytes n)]) = None"
        by (rule Suc.hyps(1)) (use Suc lt in linarith)+
      with v lt high(2) show ?case by (subst ip_range_loop_step) auto
    qed
    have "ip_range_loop a b [] = None"
      unfolding step by (rule top) (use high ip_val_bound [of a] in linarith)+
    with high le show ?thesis by simp
  qed
qed

section \<open>Membership, removal and subnets\<close>

lemma IsInIPList_iff: "IsInIPList key ips \<longleftrightarrow> (\<exists>s \<in> set ips. ip_Equal s key)"
  by (induction ips) auto

lemma IsInIPList_self [intro]: "ip \<in> set ips \<Longrightarrow> IsInIPList ip ips"
  by (auto simp: IsInIPList_iff intro: bexI [of _ ip])

lemma RemoveIPs_Nil [simp]: "RemoveIPs xs [] = xs" "RemoveIPs [] ys = []"
  by (simp_all add: RemoveIPs_def)

lemma set_RemoveIPs: "set (RemoveIPs xs ys) = {x \<in> set xs. \<not> IsInIPList x ys}"
  by (auto simp: RemoveIPs_def)

lemma hd_Bytes: "0 < n \<Longrightarrow> hd (big_Bytes n) \<noteq> 0"
  using hd_Bytes_go [of n] by (simp add: big_Bytes_def)

lemma To4_Bytes: "0 \<le> n \<Longrightarrow> ip_To4 (big_Bytes n) \<noteq> [] \<Longrightarrow> length (big_Bytes n) = 4"
proof (rule ccontr)
  assume n: "0 \<le> n" and t: "ip_To4 (big_Bytes n) \<noteq> []" and l: "length (big_Bytes n) \<noteq> 4"
  then have "length (big_Bytes n) = 16" and pre: "take 12 (big_Bytes n) = v4InV6Prefix"
    by (auto simp: ip_To4_def split: if_splits)
  then have "hd (big_Bytes n) = 0"
    by (cases "big_Bytes n") (auto simp: v4InV6Prefix_def)
  moreover have "0 < n"
    using n \<open>length (big_Bytes n) = 16\<close> by (cases "n = 0") (auto simp: big_Bytes_def)
  ultimately show False using hd_Bytes by blast
qed

lemma Contains_Bytes_v4:
  assumes "length (ip_To4 (net_IP subnet)) = 4" and "length (net_Mask subnet) \<in> {4, 16}"
    and "0 \<le> n" and "ipnet_Contains subnet (big_Bytes n)"
  shows "length (big_Bytes n) = 4"
proof -
  have nn: "length (fst (networkNumberAndMask subnet)) = 4"
    using assms(1,2) by (auto simp: networkNumberAndMask_def Let_def)
  show ?thesis
  proof (cases "ip_To4 (big_Bytes n) = []")
    case True
    with assms(4) nn show ?thesis by (auto simp: ipnet_Contains_def case_prod_beta Let_def)
  next
    case False
    with assms(3) show ?thesis by (rule To4_Bytes)
  qed
qed

lemma ipnet_Contains_To4: "length p = 4 \<Longrightarrow> ipnet_Contains n (net_IPv4 p) = ipnet_Contains n p"
proof -
  assume p: "length p = 4"
  then have "p \<noteq> []" "ip_To4 p = p" by (auto simp: ip_To4_def)
  with p show ?thesis by (simp add: ipnet_Contains_def)
qed

lemma TransferToIPList_cases:
  assumes "CHR ''-'' \<notin> set s1" and "CHR ''-'' \<notin> set s2"
    and "net_ParseIP s1 \<noteq> []" and "net_ParseIP s2 \<noteq> []"
  shows "TransferToIPList (s1 @ ''-'' @ s2) =
    (if ip_val s1 \<le> ip_val s2 \<and> (ip_val s1 + 1 < 2 ^ 24 \<or> ip_val s2 = 2 ^ 32 - 1) then None
     else if ip_val s2 < ip_val s1 then Some (Inl (Errorf ''input IP(%s) is invalid'' [s1 @ ''-'' @ s2]))
     else Some (Inr (strings_Join (ip_range s1 s2) '','')))"
proof -
  have split: "strings_Split (s1 @ ''-'' @ s2) ''-'' = [s1, s2]"
    using assms(1,2) by (simp add: strings_Split_at_sep strings_Split_no_sep)
  have has: "strings_Contains (s1 @ ''-'' @ s2) ''-''"
    by (simp add: strings_Contains_char)
  have ne: "(ip_range s1 s2 = []) = (ip_val s2 < ip_val s1)"
    by (simp add: ip_range_def)
  show ?thesis
    unfolding TransferToIPList_def Let_def split ip_range_loop_cases
    using assms(3,4) has by (simp add: ip_range_loop_cases ne)
qed

lemma dotted_range:
  assumes "length a = 4" "length b = 4" "hd a \<noteq> 0" "big_SetBytes a \<le> big_SetBytes b"
  shows "ip_range (dotted a) (dotted b)
    = map (\<lambda>n. dotted (big_Bytes n)) [big_SetBytes a .. big_SetBytes b]"
  using assms by (simp add: ip_range_def ip_val_dotted upto_rec1 Bytes_SetBytes)

lemma v4_bounds:
  assumes "length p = 4"
  shows "hd p \<noteq> 0 \<Longrightarrow> 2 ^ 24 \<le> big_SetBytes p"
    and "p \<noteq> [255, 255, 255, 255] \<Longrightarrow> big_SetBytes p < 2 ^ 32 - 1"
proof -
  assume "hd p \<noteq> 0"
  with assms big_SetBytes_lower [of "hd p" "tl p"] show "2 ^ 24 \<le> big_SetBytes p"
    by (cases p) auto
next
  assume "p \<noteq> [255, 255, 255, 255]"
  then have "big_SetBytes p \<noteq> 256 ^ length p - 1"
    using assms big_SetBytes_max [of p] by (auto simp: numeral_nat)
  with big_SetBytes_bound [of p] assms show "big_SetBytes p < 2 ^ 32 - 1" by simp
qed

lemma ParseIP_dotted4: "length p = 4 \<Longrightarrow> net_ParseIP (dotted p) = net_IPv4 p"
  by (auto simp: length4_cases ParseIP_dotted)

lemma net_IPv4_nonempty [simp]: "net_IPv4 p \<noteq> []"
  by (simp add: net_IPv4_def v4InV6Prefix_def)

section \<open>Properties\<close>

text \<open>
  C38. A range \<^verbatim>\<open>a-b\<close> of IPv4 addresses, written in dotted form, with \<^verbatim>\<open>a\<close> not below
  1.0.0.0, \<^verbatim>\<open>b\<close> not 255.255.255.255 and \<^verbatim>\<open>a <= b\<close>, expands to the comma-separated list of
  exactly the addresses from \<^verbatim>\<open>a\<close> to \<^verbatim>\<open>b\<close> in increasing order; in particular the call
  returns.
\<close>

theorem TransferToIPList_range:
  assumes "length a = 4" "length b = 4" "hd a \<noteq> 0" "b \<noteq> [255, 255, 255, 255]"
    and "big_SetBytes a \<le> big_SetBytes b"
  shows "TransferToIPList (dotted a @ ''-'' @ dotted b)
    = Some (Inr (strings_Join
        (map (\<lambda>n. dotted (big_Bytes n)) [big_SetBytes a .. big_SetBytes b]) '',''))"
  using assms v4_bounds [of a] v4_bounds [of b]
  by (subst TransferToIPList_cases)
    (simp_all add: dotted_no_punct ParseIP_dotted4 ip_val_dotted dotted_range)

theorem TransferToIPList_range_witness:
  "TransferToIPList ''10.0.0.254-10.0.1.1'' = Some (Inr ''10.0.0.254,10.0.0.255,10.0.1.0,10.0.1.1'')"
  using TransferToIPList_range [of "[10, 0, 0, 254]" "[10, 0, 1, 1]"]
  by (simp add: big_SetBytes_def dotted_def gostr upto.simps big_Bytes_def
      big_Bytes_go.simps)

text \<open>
  C39. On two parseable addresses the expansion of \<^verbatim>\<open>s1-s2\<close> never returns exactly when
  \<^verbatim>\<open>s1\<close> is not above \<^verbatim>\<open>s2\<close> and either the successor of \<^verbatim>\<open>s1\<close> has fewer than four bytes
  (every IPv6 range, and IPv4 ranges that start below 0.255.255.255) or the range ends at
  255.255.255.255.
\<close>

theorem TransferToIPList_diverges_iff:
  assumes "CHR ''-'' \<notin> set s1" "CHR ''-'' \<notin> set s2"
    and "net_ParseIP s1 \<noteq> []" "net_ParseIP s2 \<noteq> []"
  shows "TransferToIPList (s1 @ ''-'' @ s2) = None \<longleftrightarrow>
    CompareIP s1 s2 \<le> 0 \<and> (ip_val s1 < 2 ^ 24 - 1 \<or> ip_val s2 = 2 ^ 32 - 1)"
  using assms by (subst TransferToIPList_cases) (auto simp: CompareIP_le)

theorem TransferToIPList_diverges_witness:
  "TransferToIPList ''0.0.0.1-0.0.0.5'' = None \<and> TransferToIPList ''fe80::1-fe80::3'' = None"
proof -
  have "net_ParseIP ''0.0.0.1'' = net_IPv4 [0, 0, 0, 1]" "net_ParseIP ''0.0.0.5'' = net_IPv4 [0, 0, 0, 5]"
    "net_ParseIP ''fe80::1'' = [254, 128, 0, 0, 0, 0, 0, 0, 0, 0, 0, 0, 0, 0, 0, 1]"
    "net_ParseIP ''fe80::3'' = [254, 128, 0, 0, 0, 0, 0, 0, 0, 0, 0, 0, 0, 0, 0, 3]"
    by code_simp+
  then show ?thesis
    using TransferToIPList_diverges_iff [of "''0.0.0.1''" "''0.0.0.5''"]
      TransferToIPList_diverges_iff [of "''fe80::1''" "''fe80::3''"]
    by (simp add: CompareIP_le ip_val_def IPToInt_def Let_def) (simp add: ip_To4_def
        v4InV6Prefix_def ip_To16_def big_SetBytes_def net_IPv4_def)
qed

text \<open>
  C40. \<^verbatim>\<open>GetIndexIP\<close> on an IPv4 subnet with a well-formed mask returns, when it returns an
  address, the address whose value is the base address plus the index, and that address lies
  in the subnet.
\<close>

theorem GetIndexIP_in_subnet:
  assumes ok: "GetIndexIP subnet index = Inr s" and v4: "length (ip_To4 (net_IP subnet)) = 4"
    and mask: "length (net_Mask subnet) \<in> {4, 16}" and idx: "0 \<le> index"
  shows "ip_val s = big_SetBytes (ip_To4 (net_IP subnet)) + index
    \<and> ipnet_Contains subnet (net_ParseIP s)"
proof -
  let ?n = "big_SetBytes (ip_To4 (net_IP subnet)) + index"
  have n: "0 \<le> ?n" using idx by simp
  have "ip_To4 (net_IP subnet) \<noteq> []" using v4 by auto
  then have s: "s = ip_String (big_Bytes ?n)" and c: "ipnet_Contains subnet (big_Bytes ?n)"
    using ok by (auto simp: GetIndexIP_def Let_def split: if_splits)
  have l: "length (big_Bytes ?n) = 4"
    using v4 mask n c by (rule Contains_Bytes_v4)
  then have "s = dotted (big_Bytes ?n)"
    by (subst s, subst ip_String_v4) (auto simp: ip_To4_def)
  with l n c show ?thesis
    by (simp add: ip_val_dotted SetBytes_Bytes ParseIP_dotted4 ipnet_Contains_To4)
qed

theorem GetIndexIP_witness:
  "ip_val ''10.96.0.10'' = big_SetBytes [10, 96, 0, 0] + 10
    \<and> ipnet_Contains \<lparr>net_IP = [10, 96, 0, 0], net_Mask = [255, 192, 0, 0]\<rparr> (net_ParseIP ''10.96.0.10'')"
proof -
  let ?n = "\<lparr>net_IP = [10, 96, 0, 0], net_Mask = [255, 192, 0, 0]\<rparr>"
  have "GetIndexIP ?n 10 = Inr ''10.96.0.10''" by code_simp
  from GetIndexIP_in_subnet [OF this] show ?thesis by (simp add: ip_To4_def)
qed

end
