(* ===== verification/Str_Utils.thy ===== *)
theory Str_Utils
  imports Ip_Utils "HOL-Library.Multiset"
begin

text \<open>
  Model of \<^verbatim>\<open>utils/strings/strings.go\<close> (the set operations of \<^verbatim>\<open>Comparator\<close>, removal of
  duplicates, the overwriting \<^verbatim>\<open>Merge\<close>, \<^verbatim>\<open>Reverse\<close>, \<^verbatim>\<open>Diff\<close> on address lists and the
  conversion of \<^verbatim>\<open>k=v\<close> lines), of \<^verbatim>\<open>utils/maps/maps.go\<close> and of the environment wrapper of
  \<^verbatim>\<open>pkg/env/env.go\<close>.

  A Go map from strings to strings is an association list with distinct keys (\<open>env\<close>); the
  order of the list is one order in which the run-time may iterate.
\<close>

section \<open>The comparator\<close>

fun IsInSlice :: "string \<Rightarrow> string list \<Rightarrow> bool" where
  "IsInSlice key [] = False"
| "IsInSlice key (s # ss) = (if key = s then True else IsInSlice key ss)"

record Comparator =
  Src :: "string list"
  Dst :: "string list"

definition NewComparator :: "string list \<Rightarrow> string list \<Rightarrow> Comparator" where
  "NewComparator src dst = \<lparr>Src = src, Dst = dst\<rparr>"

definition GetIntersection :: "Comparator \<Rightarrow> string list" where
  "GetIntersection c = filter (\<lambda>e. IsInSlice e (Dst c)) (Src c)"

definition GetUnion :: "Comparator \<Rightarrow> string list" where
  "GetUnion c = Src c @ filter (\<lambda>e. \<not> IsInSlice e (Src c)) (Dst c)"

definition GetSrcSubtraction :: "Comparator \<Rightarrow> string list" where
  "GetSrcSubtraction c = filter (\<lambda>e. \<not> IsInSlice e (Dst c)) (Src c)"

definition GetDstSubtraction :: "Comparator \<Rightarrow> string list" where
  "GetDstSubtraction c = filter (\<lambda>e. \<not> IsInSlice e (Src c)) (Dst c)"

section \<open>Slices of strings\<close>

text \<open>\<^verbatim>\<open>Reverse\<close> swaps the ends until the two indices meet.\<close>

function Reverse_go :: "nat \<Rightarrow> int \<Rightarrow> string list \<Rightarrow> string list" where
  "Reverse_go i j s =
     (if int i < j then Reverse_go (i + 1) (j - 1) (s[i := s ! nat j, nat j := s ! i]) else s)"
  by pat_completeness auto
termination
  by (relation "measure (\<lambda>(i, j, s). nat (j - int i))") auto

declare Reverse_go.simps [simp del]

definition Reverse :: "string list \<Rightarrow> string list" where
  "Reverse s = Reverse_go 0 (int (length s) - 1) s"

definition ContainPartial :: "string list \<Rightarrow> string \<Rightarrow> string list" where
  "ContainPartial xs part = filter (\<lambda>s. strings_Contains s part) xs"

text \<open>\<open>flagMap\<close> is the set of keys seen so far.\<close>

fun RemoveDuplicate_go :: "string set \<Rightarrow> string list \<Rightarrow> string list" where
  "RemoveDuplicate_go flagMap [] = []"
| "RemoveDuplicate_go flagMap (v # vs) =
     (if v \<notin> flagMap then v # RemoveDuplicate_go (insert v flagMap) vs
      else RemoveDuplicate_go flagMap vs)"

definition RemoveDuplicate :: "string list \<Rightarrow> string list" where
  "RemoveDuplicate xs = RemoveDuplicate_go {} xs"

text \<open>The inner loop of the variadic \<^verbatim>\<open>Merge\<close>: append what was not seen yet.\<close>

fun mergeInto :: "string list \<Rightarrow> string list \<times> string set \<Rightarrow> string list \<times> string set" where
  "mergeInto [] st = st"
| "mergeInto (v # vs) (base, diffMap) =
     (if v \<notin> diffMap then mergeInto vs (base @ [v], insert v diffMap)
      else mergeInto vs (base, diffMap))"

fun Merge :: "string list list \<Rightarrow> string list" where
  "Merge [] = []"
| "Merge (s # ms) = fst (fold mergeInto (s # ms) (s, set s))"

text \<open>
  \<^verbatim>\<open>Diff(old, new)\<close>: the entries of \<open>diffMap\<close> are the old addresses not met in \<open>new\<close> so far.
\<close>

fun Diff_new :: "(string \<Rightarrow> bool) \<Rightarrow> net_ip list \<Rightarrow> net_ip list \<Rightarrow> net_ip list \<times> (string \<Rightarrow> bool)" where
  "Diff_new diffMap add [] = (add, diffMap)"
| "Diff_new diffMap add (v # vs) =
     (if \<not> diffMap (ip_String v) then Diff_new diffMap (add @ [v]) vs
      else Diff_new (diffMap(ip_String v := False)) add vs)"

definition Diff :: "net_ip list \<Rightarrow> net_ip list \<Rightarrow> net_ip list \<times> net_ip list" where
  "Diff old new =
     (let diffMap = fold (\<lambda>v m. m(ip_String v := True)) old (\<lambda>_. False);
          (add, diffMap') = Diff_new diffMap [] new
      in (add, filter (\<lambda>v. diffMap' (ip_String v)) old))"

section \<open>Environments\<close>

type_synonym env = "(string \<times> string) list"

definition env_wf :: "env \<Rightarrow> bool" where
  "env_wf e = distinct (map fst e)"

fun env_put :: "string \<Rightarrow> string \<Rightarrow> env \<Rightarrow> env" where
  "env_put k v [] = [(k, v)]"
| "env_put k v ((k', v') # e) = (if k = k' then (k, v) # e else (k', v') # env_put k v e)"

text \<open>A line without an equal sign is skipped; later lines overwrite earlier ones.\<close>

definition put_line :: "string \<Rightarrow> env \<Rightarrow> env" where
  "put_line line ret = (let parsed = strings_SplitN2 line ''='' in
     if length parsed \<noteq> 2 then ret else env_put (parsed ! 0) (parsed ! 1) ret)"

definition ConvertStringSliceToMap :: "string list \<Rightarrow> env" where
  "ConvertStringSliceToMap ss = fold put_line ss []"

definition ConvertToSlice :: "env \<Rightarrow> string list" where
  "ConvertToSlice m = map (\<lambda>(k, v). k @ ''='' @ v) m"

definition maps_Copy :: "env \<Rightarrow> env" where
  "maps_Copy origin = fold (\<lambda>(k, v) ret. env_put k v ret) origin []"

definition maps_Merge :: "env \<Rightarrow> env \<Rightarrow> env" where
  "maps_Merge dst src = (if length dst = 0 then maps_Copy src
     else fold (\<lambda>(k, v) d. if map_of d k \<noteq> None then d else env_put k v d) src dst)"

section \<open>Shell environment\<close>

definition getEnvFromData :: "env \<Rightarrow> string list" where
  "getEnvFromData wrapperData = sort (map (\<lambda>(k, v). ''export '' @ k @ ''=\"'' @ v @ ''\";'') wrapperData)"

definition WrapperShell :: "string \<Rightarrow> env \<Rightarrow> string" where
  "WrapperShell shell wrapperData = (let e = getEnvFromData wrapperData in
     if length e = 0 then shell else strings_Join e '' '' @ '' '' @ shell)"

section \<open>Lemmas on slices\<close>

lemma IsInSlice_iff [simp]: "IsInSlice k xs \<longleftrightarrow> k \<in> set xs"
  by (induction xs) auto

lemma length_Reverse_go [simp]: "length (Reverse_go i j s) = length s"
  by (induction i j s rule: Reverse_go.induct) (subst Reverse_go.simps, auto)

lemma Reverse_go_nth:
  "j < int (length s) \<Longrightarrow> k < length s \<Longrightarrow>
    Reverse_go i j s ! k = (if i \<le> k \<and> int k \<le> j then s ! nat (int i + j - int k) else s ! k)"
proof (induction i j s rule: Reverse_go.induct)
  case (1 i j s)
  show ?case
  proof (cases "int i < j")
    case False
    show ?thesis
    proof (cases "i \<le> k \<and> int k \<le> j")
      case True
      with False have "nat (int i + j - int k) = k" by linarith
      with False True show ?thesis by (simp add: Reverse_go.simps [of i j s])
    qed (use False in \<open>auto simp: Reverse_go.simps [of i j s]\<close>)
  next
    case True
    let ?t = "s[i := s ! nat j, nat j := s ! i]"
    have step: "Reverse_go i j s = Reverse_go (i + 1) (j - 1) ?t"
      using True by (simp add: Reverse_go.simps [of i j s])
    have IH: "Reverse_go (i + 1) (j - 1) ?t ! k =
      (if i + 1 \<le> k \<and> int k \<le> j - 1 then ?t ! nat (int (i + 1) + (j - 1) - int k) else ?t ! k)"
      using "1.IH" [OF True] "1.prems" by simp
    have jl: "nat j < length s" "i < length s" using True "1.prems" by linarith+
    show ?thesis
    proof (cases "i + 1 \<le> k \<and> int k \<le> j - 1")
      case mid: True
      then have "nat (int i + j - int k) \<noteq> i" "nat (int i + j - int k) \<noteq> nat j" by linarith+
      with mid show ?thesis unfolding step IH by simp
    next
      case out: False
      have "k = i \<or> k = nat j \<or> \<not> (i \<le> k \<and> int k \<le> j)" using out by linarith
      then show ?thesis
        unfolding step IH using out jl True by (auto simp: nth_list_update)
    qed
  qed
qed

lemma Reverse_eq_rev: "Reverse s = rev s"
proof (rule nth_equalityI)
  fix k assume "k < length (Reverse s)"
  then have k: "k < length s" by (simp add: Reverse_def)
  then have "nat (int 0 + (int (length s) - 1) - int k) = length s - Suc k" by linarith
  with k show "Reverse s ! k = rev s ! k"
    by (simp add: Reverse_def Reverse_go_nth rev_nth)
qed (simp add: Reverse_def)

lemma set_RemoveDuplicate_go: "set (RemoveDuplicate_go M xs) = set xs - M"
  by (induction M xs rule: RemoveDuplicate_go.induct) auto

lemma distinct_RemoveDuplicate_go: "distinct (RemoveDuplicate_go M xs)"
  by (induction M xs rule: RemoveDuplicate_go.induct) (auto simp: set_RemoveDuplicate_go)

lemma RemoveDuplicate_go_filter: "RemoveDuplicate_go M xs = RemoveDuplicate_go {} (filter (\<lambda>x. x \<notin> M) xs)"
proof (induction "length xs" arbitrary: M xs rule: less_induct)
  case less
  show ?case
  proof (cases xs)
    case (Cons v vs)
    show ?thesis
    proof (cases "v \<in> M")
      case True
      with Cons less [of vs M] show ?thesis by simp
    next
      case False
      have "RemoveDuplicate_go (insert v M) vs
          = RemoveDuplicate_go {} (filter (\<lambda>x. x \<notin> insert v M) vs)"
        using less [of vs] Cons by simp
      moreover have "RemoveDuplicate_go {v} (filter (\<lambda>x. x \<notin> M) vs)
          = RemoveDuplicate_go {} (filter (\<lambda>x. x \<notin> {v}) (filter (\<lambda>x. x \<notin> M) vs))"
        by (rule less) (use Cons in \<open>simp add: le_imp_less_Suc\<close>)
      moreover have "filter (\<lambda>x. x \<notin> insert v M) vs = filter (\<lambda>x. x \<notin> {v}) (filter (\<lambda>x. x \<notin> M) vs)"
        by (simp add: conj_commute)
      ultimately show ?thesis using Cons False by simp
    qed
  qed simp
qed

text \<open>Order is kept: an element stands where it first occurs.\<close>

lemma RemoveDuplicate_rec:
  "RemoveDuplicate [] = []"
  "RemoveDuplicate (x # xs) = x # RemoveDuplicate (filter (\<lambda>y. y \<noteq> x) xs)"
  using RemoveDuplicate_go_filter [of "{x}" xs] by (auto simp: RemoveDuplicate_def)

lemma set_RemoveDuplicate [simp]: "set (RemoveDuplicate xs) = set xs"
  by (simp add: RemoveDuplicate_def set_RemoveDuplicate_go)

lemma distinct_RemoveDuplicate [simp]: "distinct (RemoveDuplicate xs)"
  by (simp add: RemoveDuplicate_def distinct_RemoveDuplicate_go)

lemma mergeInto_spec:
  "mergeInto s (base, M) = (base @ RemoveDuplicate_go M s, M \<union> set s)"
  by (induction s arbitrary: base M) auto

lemma fold_mergeInto:
  "fold mergeInto ms (base, M) = (base @ RemoveDuplicate_go M (concat ms), M \<union> set (concat ms))"
proof (induction ms arbitrary: base M)
  case Nil
  then show ?case by simp
next
  case (Cons s ms)
  have app: "RemoveDuplicate_go M (s @ t) = RemoveDuplicate_go M s @ RemoveDuplicate_go (M \<union> set s) t" for t
    by (induction M s rule: RemoveDuplicate_go.induct) (auto simp: insert_absorb)
  show ?case by (simp add: mergeInto_spec Cons.IH app Un_assoc)
qed

lemma RemoveDuplicate_go_seen: "set s \<subseteq> M \<Longrightarrow> RemoveDuplicate_go M (s @ t) = RemoveDuplicate_go M t"
  by (induction s) auto

lemma Merge_spec: "Merge (s # ms) = s @ RemoveDuplicate_go (set s) (concat ms)"
  using fold_mergeInto [of "s # ms" s "set s"]
  by (simp add: RemoveDuplicate_go_seen)

section \<open>Lemmas on differences\<close>

lemma Diff_map: "fold (\<lambda>v m. m(ip_String v := True)) old m = (\<lambda>s. s \<in> ip_String ` set old \<or> m s)"
  by (induction old arbitrary: m) auto

lemma Diff_new_spec:
  "distinct (map ip_String new) \<Longrightarrow>
    Diff_new m add new = (add @ filter (\<lambda>v. \<not> m (ip_String v)) new,
      \<lambda>s. m s \<and> s \<notin> ip_String ` set new)"
proof (induction new arbitrary: m add)
  case Nil
  then show ?case by simp
next
  case (Cons v vs)
  have "filter (\<lambda>w. \<not> (m(ip_String v := False)) (ip_String w)) vs = filter (\<lambda>w. \<not> m (ip_String w)) vs"
    using Cons.prems by (intro filter_cong) (force simp: image_iff)+
  with Cons show ?case by (auto simp: fun_eq_iff)
qed

lemma Diff_spec:
  "distinct (map ip_String new) \<Longrightarrow> Diff old new =
    (filter (\<lambda>v. ip_String v \<notin> ip_String ` set old) new,
     filter (\<lambda>v. ip_String v \<notin> ip_String ` set new) old)"
  by (auto simp: Diff_def Diff_map Diff_new_spec Let_def intro!: filter_cong)

section \<open>Lemmas on environments\<close>

lemma map_of_env_put: "map_of (env_put k v e) = (map_of e)(k \<mapsto> v)"
  by (induction e) auto

lemma keys_env_put: "fst ` set (env_put k v e) = insert k (fst ` set e)"
proof (induction e)
  case (Cons p e)
  then show ?case by (cases p) (simp add: insert_commute)
qed simp

lemma env_wf_put [simp]: "env_wf e \<Longrightarrow> env_wf (env_put k v e)"
  unfolding env_wf_def
proof (induction e)
  case (Cons p e)
  then show ?case using keys_env_put [of k v e] by (cases p) auto
qed simp

lemma env_put_nonempty [simp]: "env_put k v e \<noteq> []"
  by (cases e) (auto split: if_splits)

lemma env_wf_ConvertStringSliceToMap: "env_wf (ConvertStringSliceToMap ss)"
proof -
  have "env_wf e \<Longrightarrow> env_wf (fold put_line ss e)" for e
    by (induction ss arbitrary: e) (auto simp: put_line_def Let_def)
  then show ?thesis by (simp add: ConvertStringSliceToMap_def env_wf_def)
qed

text \<open>The last line that defines a key gives its value.\<close>

definition line_entry :: "string \<Rightarrow> (string \<times> string) option" where
  "line_entry l = (let p = strings_SplitN2 l ''='' in if length p = 2 then Some (p ! 0, p ! 1) else None)"

lemma map_of_put_line:
  "map_of (put_line l e) = (case line_entry l of None \<Rightarrow> map_of e | Some (k, v) \<Rightarrow> (map_of e)(k \<mapsto> v))"
  by (simp add: put_line_def line_entry_def Let_def map_of_env_put)

lemma map_of_ConvertStringSliceToMap:
  "map_of (ConvertStringSliceToMap ss) = map_of (rev (List.map_filter line_entry ss))"
proof -
  have "map_of (fold put_line ss e) = map_of e ++ map_of (rev (List.map_filter line_entry ss))" for e
    by (induction ss arbitrary: e)
      (auto simp: map_of_put_line map_filter_simps map_add_def fun_eq_iff split: option.splits)
  then show ?thesis by (simp add: ConvertStringSliceToMap_def)
qed

lemma ConvertStringSliceToMap_append:
  "map_of (ConvertStringSliceToMap (xs @ ys))
    = map_of (ConvertStringSliceToMap xs) ++ map_of (ConvertStringSliceToMap ys)"
  by (simp add: map_of_ConvertStringSliceToMap map_filter_def)

lemma line_entry_eq: "CHR ''='' \<notin> set k \<Longrightarrow> line_entry (k @ ''='' @ v) = Some (k, v)"
  by (simp add: line_entry_def Let_def strings_SplitN2_at_sep)

lemma map_of_maps_Copy: "env_wf m \<Longrightarrow> map_of (maps_Copy m) = map_of m"
proof -
  have "map_of (fold (\<lambda>(k, v) ret. env_put k v ret) es e) = map_of e ++ map_of (rev es)" for es e
    by (induction es arbitrary: e) (auto simp: map_of_env_put map_add_def fun_eq_iff split: option.splits)
  moreover assume "env_wf m"
  ultimately show ?thesis
    by (simp add: maps_Copy_def env_wf_def map_of_rev_distinct)
qed

lemma map_of_maps_Merge: "env_wf src \<Longrightarrow> map_of (maps_Merge dst src) = map_of src ++ map_of dst"
proof -
  let ?f = "\<lambda>(k, v) d. if map_of d k \<noteq> None then d else env_put k v d"
  have "map_of (fold ?f es d) = map_of es ++ map_of d" if "env_wf es" for es d
    using that
  proof (induction es arbitrary: d)
    case (Cons p es)
    then have "map_of es (fst p) = None" by (auto simp: env_wf_def map_of_eq_None_iff)
    with Cons show ?case
      by (cases p) (auto simp: env_wf_def map_of_env_put map_add_def fun_eq_iff split: option.splits)
  qed simp
  moreover assume "env_wf src"
  ultimately show ?thesis by (simp add: maps_Merge_def map_of_maps_Copy)
qed

lemma env_wf_maps_Merge: "env_wf dst \<Longrightarrow> env_wf (maps_Merge dst src)"
proof -
  have "env_wf e \<Longrightarrow> env_wf (fold (\<lambda>(k, v) ret. env_put k v ret) es e)" for es e
    by (induction es arbitrary: e) auto
  moreover have "env_wf e \<Longrightarrow> env_wf (fold (\<lambda>(k, v) d. if map_of d k \<noteq> None then d else env_put k v d) es e)" for es e
    by (induction es arbitrary: e) auto
  moreover assume "env_wf dst"
  ultimately show ?thesis by (simp add: maps_Merge_def maps_Copy_def env_wf_def)
qed

lemma ConvertToSlice_roundtrip:
  "\<forall>(k, v) \<in> set m. CHR ''='' \<notin> set k \<Longrightarrow> env_wf m \<Longrightarrow>
    map_of (ConvertStringSliceToMap (ConvertToSlice m)) = map_of m"
proof -
  assume "\<forall>(k, v) \<in> set m. CHR ''='' \<notin> set k"
  then have "List.map_filter line_entry (ConvertToSlice m) = m"
    by (induction m) (auto simp: ConvertToSlice_def map_filter_simps line_entry_eq [simplified])
  moreover assume "env_wf m"
  ultimately show ?thesis
    by (simp add: map_of_ConvertStringSliceToMap env_wf_def map_of_rev_distinct)
qed

end
