(* ===== verification/Cluster_Types.thy ===== *)
theory Cluster_Types
  imports Str_Utils
begin

text \<open>
  The cluster object of \<^verbatim>\<open>types/api/v2/cluster_types.go\<close> (with the SSH settings of
  \<^verbatim>\<open>types/api/v1\<close>) and its accessors, and the role and path constants of
  \<^verbatim>\<open>common/common.go\<close> that the other components use. Fields keep the source's names with the
  struct's initial as prefix.
\<close>

section \<open>Constants\<close>

definition MASTER :: string where "MASTER = ''master''"
definition NODE :: string where "NODE = ''node''"
definition Docker :: string where "Docker = ''docker''"
definition Containerd :: string where "Containerd = ''containerd''"
definition K0s :: string where "K0s = ''k0s''"
definition K8s :: string where "K8s = ''kubernetes''"
definition DefaultSealerDataDir :: string where "DefaultSealerDataDir = ''/var/lib/sealer/data''"
definition EnvHostIP :: string where "EnvHostIP = ''HostIP''"
definition EnvHostIPFamily :: string where "EnvHostIPFamily = ''HostIPFamily''"
definition MasterRoleLabel :: string where "MasterRoleLabel = ''node-role.kubernetes.io/master''"

lemma MASTER_NODE [simp]: "MASTER \<noteq> NODE" "NODE \<noteq> MASTER"
  by (simp_all add: MASTER_def NODE_def)

section \<open>The cluster object\<close>

record SSH =
  s_Encrypted :: bool
  s_User :: string
  s_Passwd :: string
  s_Pk :: string
  s_PkPasswd :: string
  s_Port :: string

definition emptySSH :: SSH where
  "emptySSH = \<lparr>s_Encrypted = False, s_User = [], s_Passwd = [], s_Pk = [], s_PkPasswd = [], s_Port = []\<rparr>"

record Host =
  h_IPS :: "net_ip list"
  h_Roles :: "string list"
  h_SSH :: SSH
  h_Env :: "string list"
  h_Labels :: env
  h_Taints :: "string list"

record HostAlias =
  a_IP :: string
  a_Hostnames :: "string list"

record RegistryConfig =
  r_Domain :: string
  r_Port :: int
  r_Username :: string
  r_Password :: string

record SubjectAltName =
  san_DNSNames :: "string list"
  san_IPs :: "string list"

record LocalRegistry = RegistryConfig +
  l_HA :: "bool option"
  l_Insecure :: "bool option"
  l_Cert :: "SubjectAltName option"

record Registry =
  g_Local :: "LocalRegistry option"
  g_External :: "RegistryConfig option"

record ClusterSpec =
  c_Image :: string
  c_Env :: "string list"
  c_CMDArgs :: "string list"
  c_CMD :: "string list"
  c_APPNames :: "string list option"
  c_Hosts :: "Host list"
  c_SSH :: SSH
  c_ContainerRuntime :: string
  c_HostAliases :: "HostAlias list"
  c_Registry :: Registry
  c_DataRoot :: string

record Cluster =
  APIVersion :: string
  Kind :: string
  Name :: string
  Annotations :: "env option"
  Spec :: ClusterSpec

text \<open>
  The parts of the Kubernetes API objects that sealer reads and writes. The label map of a node
  may be nil: reading it gives no labels, writing to it panics.
\<close>

record Taint =
  t_Key :: string
  t_Value :: string
  t_Effect :: string

record NodeAddress =
  na_Type :: string
  na_Address :: string

record k8s_Node =
  n_Name :: string
  n_ResourceVersion :: string
  n_Labels :: "env option"
  n_Addresses :: "NodeAddress list"
  n_Taints :: "Taint list"

definition labels_of :: "k8s_Node \<Rightarrow> env" where
  "labels_of n = (case n_Labels n of None \<Rightarrow> [] | Some m \<Rightarrow> m)"

definition emptyHost :: Host where
  "emptyHost = \<lparr>h_IPS = [], h_Roles = [], h_SSH = emptySSH, h_Env = [], h_Labels = [], h_Taints = []\<rparr>"

definition emptyClusterSpec :: ClusterSpec where
  "emptyClusterSpec = \<lparr>c_Image = [], c_Env = [], c_CMDArgs = [], c_CMD = [], c_APPNames = None,
     c_Hosts = [], c_SSH = emptySSH, c_ContainerRuntime = [], c_HostAliases = [],
     c_Registry = \<lparr>g_Local = None, g_External = None\<rparr>, c_DataRoot = []\<rparr>"

definition emptyCluster :: Cluster where
  "emptyCluster = \<lparr>APIVersion = [], Kind = [], Name = [], Annotations = None, Spec = emptyClusterSpec\<rparr>"

section \<open>Accessors\<close>

text \<open>
  The inner loop's \<^verbatim>\<open>continue\<close> only goes to the next role, so a host that lists a role twice
  contributes its addresses twice.
\<close>

definition ipsOfHostByRole :: "string \<Rightarrow> Host \<Rightarrow> net_ip list" where
  "ipsOfHostByRole role host = concat (map (\<lambda>r. if role = r then h_IPS host else []) (h_Roles host))"

definition GetIPSByRole :: "Cluster \<Rightarrow> string \<Rightarrow> net_ip list" where
  "GetIPSByRole c role = concat (map (ipsOfHostByRole role) (c_Hosts (Spec c)))"

definition GetMasterIPList :: "Cluster \<Rightarrow> net_ip list" where
  "GetMasterIPList c = GetIPSByRole c MASTER"

definition GetMasterIPStrList :: "Cluster \<Rightarrow> string list" where
  "GetMasterIPStrList c = map ip_String (GetIPSByRole c MASTER)"

definition GetNodeIPList :: "Cluster \<Rightarrow> net_ip list" where
  "GetNodeIPList c = GetIPSByRole c NODE"

definition GetAllIPList :: "Cluster \<Rightarrow> net_ip list" where
  "GetAllIPList c = GetIPSByRole c MASTER @ GetIPSByRole c NODE"

definition GetMaster0IP :: "Cluster \<Rightarrow> net_ip" where
  "GetMaster0IP c = (case GetIPSByRole c MASTER of [] \<Rightarrow> [] | ip # _ \<Rightarrow> ip)"

definition GetAnnotationsByKey :: "Cluster \<Rightarrow> string \<Rightarrow> string" where
  "GetAnnotationsByKey c key = (case Annotations c of None \<Rightarrow> []
     | Some m \<Rightarrow> (case map_of m key of None \<Rightarrow> [] | Some v \<Rightarrow> v))"

definition SetAnnotations :: "Cluster \<Rightarrow> string \<Rightarrow> string \<Rightarrow> Cluster" where
  "SetAnnotations c key val =
     (let m = (case Annotations c of None \<Rightarrow> [] | Some m \<Rightarrow> m)
      in c\<lparr>Annotations := Some (env_put key val m)\<rparr>)"

abbreviation set_Hosts :: "Host list \<Rightarrow> Cluster \<Rightarrow> Cluster" where
  "set_Hosts hs c \<equiv> c\<lparr>Spec := (Spec c)\<lparr>c_Hosts := hs\<rparr>\<rparr>"

section \<open>Lemmas\<close>

named_theorems accessors \<open>the address lists of a cluster, unfolded to its hosts\<close>

lemmas [accessors] = GetMasterIPList_def GetNodeIPList_def GetAllIPList_def GetIPSByRole_def

lemma ipsOfHostByRole_single [simp]:
  "h_Roles h = [r] \<Longrightarrow> ipsOfHostByRole role h = (if role = r then h_IPS h else [])"
  by (simp add: ipsOfHostByRole_def)

lemma set_ipsOfHostByRole:
  "set (ipsOfHostByRole role h) = (if role \<in> set (h_Roles h) then set (h_IPS h) else {})"
  by (auto simp: ipsOfHostByRole_def split: if_splits)

lemma ipsOfHostByRole_no_ips [simp]: "h_IPS h = [] \<Longrightarrow> ipsOfHostByRole role h = []"
  by (auto simp: ipsOfHostByRole_def)

lemma ipsOfHostByRole_not_role: "role \<notin> set (h_Roles h) \<Longrightarrow> ipsOfHostByRole role h = []"
  by (auto simp: ipsOfHostByRole_def)

lemma ipsOfHostByRole_filter:
  "ipsOfHostByRole role (h\<lparr>h_IPS := filter P (h_IPS h)\<rparr>) = filter P (ipsOfHostByRole role h)"
  by (simp add: ipsOfHostByRole_def filter_concat if_distrib cong: if_cong) (rule arg_cong [where f = concat], simp)

lemma set_GetIPSByRole:
  "set (GetIPSByRole c role) = (\<Union>h \<in> {h \<in> set (c_Hosts (Spec c)). role \<in> set (h_Roles h)}. set (h_IPS h))"
  by (auto simp: GetIPSByRole_def set_ipsOfHostByRole split: if_splits)

lemma SetAnnotations_get: "GetAnnotationsByKey (SetAnnotations c k v) k' = (if k' = k then v else GetAnnotationsByKey c k')"
  by (auto simp: GetAnnotationsByKey_def SetAnnotations_def Let_def map_of_env_put split: option.splits)

end
