(* ===== verification/Remote.thy ===== *)
theory Remote
  imports Cluster_Types
begin

text \<open>
  The effects of sealer: everything it does to the hosts of a cluster goes through a few remote
  operations (run a command, copy a file, ask for a file) and through calls of other services.
  A procedure is a function of the \<open>world\<close>: it appends the actions it performs to the log, and
  the environment decides, from the log so far and the action, whether the action fails and what
  it answers. Quantifying over worlds quantifies over every behaviour of the environment.

  A procedure that returns an error or panics stops at once, as the code's
  \<^verbatim>\<open>if err != nil { return err }\<close> does.
\<close>

datatype action =
    CmdAsyncOn net_ip env "string list"
  | CmdOn net_ip env string
  | CmdToStringOn net_ip env string string
  | CopyTo net_ip string string
  | CopyFrom net_ip string string
  | StatFile net_ip string
  | StatDir net_ip string
  | ReadRemote net_ip string
  | PingHost net_ip
  | SshCall net_ip string "string list"
  | LocalCall string "string list"
  | ReadDir string
  | WalkTree string
  | StatPath string
  | ListNodes
  | PatchNode k8s_Node k8s_Node
  | UpdateNode k8s_Node
  | DeleteNode string
  | CreateConfigMap string string env
  | UpdateConfigMap string string env
  | CreateSecret string string env
  | UpdateSecret string string env
  | Detached action

record world =
  w_log :: "action list"
  w_err :: "action list \<Rightarrow> action \<Rightarrow> gerror option"
  w_text :: "action list \<Rightarrow> action \<Rightarrow> string"
  w_flag :: "action list \<Rightarrow> action \<Rightarrow> bool"
  w_nodes :: "action list \<Rightarrow> k8s_Node list"
  w_dir :: "action list \<Rightarrow> string \<Rightarrow> (string \<times> bool) list"
  w_walk :: "action list \<Rightarrow> string \<Rightarrow> (string \<times> bool) list"
  w_sched :: "action list \<Rightarrow> nat"

type_synonym 'a io = "world \<Rightarrow> 'a res \<times> world"

section \<open>Combinators\<close>

definition returnE :: "'a \<Rightarrow> 'a io" where
  "returnE x = (\<lambda>w. (Inr x, w))"

definition throwE :: "gerror \<Rightarrow> 'a io" where
  "throwE e = (\<lambda>w. (Inl e, w))"

definition bindE :: "'a io \<Rightarrow> ('a \<Rightarrow> 'b io) \<Rightarrow> 'b io" where
  "bindE m f = (\<lambda>w. case m w of (Inl e, w') \<Rightarrow> (Inl e, w') | (Inr x, w') \<Rightarrow> f x w')"

definition thenE :: "unit io \<Rightarrow> 'b io \<Rightarrow> 'b io" where
  "thenE m k = bindE m (\<lambda>_. k)"

definition liftR :: "'a res \<Rightarrow> 'a io" where
  "liftR r = (\<lambda>w. (r, w))"

definition whenE :: "bool \<Rightarrow> unit io \<Rightarrow> unit io" where
  "whenE b m = (if b then m else returnE ())"

text \<open>A panic passes through every handler.\<close>

definition mapErr :: "(gerror \<Rightarrow> gerror) \<Rightarrow> 'a io \<Rightarrow> 'a io" where
  "mapErr f m = (\<lambda>w. case m w of
       (Inl (Panic p), w') \<Rightarrow> (Inl (Panic p), w')
     | (Inl e, w') \<Rightarrow> (Inl (f e), w')
     | (Inr x, w') \<Rightarrow> (Inr x, w'))"

definition tryE :: "'a io \<Rightarrow> 'a res io" where
  "tryE m = (\<lambda>w. case m w of
       (Inl (Panic p), w') \<Rightarrow> (Inl (Panic p), w')
     | (r, w') \<Rightarrow> (Inr r, w'))"

fun forE :: "'a list \<Rightarrow> ('a \<Rightarrow> unit io) \<Rightarrow> unit io" where
  "forE [] f = returnE ()"
| "forE (x # xs) f = thenE (f x) (forE xs f)"

text \<open>A deferred clean-up whose own error is dropped.\<close>

definition finallyE :: "'a io \<Rightarrow> unit io \<Rightarrow> 'a io" where
  "finallyE m c = (\<lambda>w. case m w of (r, w') \<Rightarrow> (r, snd (c w')))"

section \<open>Actions\<close>

definition perform :: "action \<Rightarrow> unit io" where
  "perform a = (\<lambda>w. (case w_err w (w_log w) a of Some e \<Rightarrow> Inl e | None \<Rightarrow> Inr (),
                     w\<lparr>w_log := w_log w @ [a]\<rparr>))"

definition askText :: "action \<Rightarrow> string io" where
  "askText a = (\<lambda>w. (case w_err w (w_log w) a of Some e \<Rightarrow> Inl e | None \<Rightarrow> Inr (w_text w (w_log w) a),
                     w\<lparr>w_log := w_log w @ [a]\<rparr>))"

definition askFlag :: "action \<Rightarrow> bool io" where
  "askFlag a = (\<lambda>w. (case w_err w (w_log w) a of Some e \<Rightarrow> Inl e | None \<Rightarrow> Inr (w_flag w (w_log w) a),
                     w\<lparr>w_log := w_log w @ [a]\<rparr>))"

definition askNodes :: "k8s_Node list io" where
  "askNodes = (\<lambda>w. (case w_err w (w_log w) ListNodes of Some e \<Rightarrow> Inl e | None \<Rightarrow> Inr (w_nodes w (w_log w)),
                     w\<lparr>w_log := w_log w @ [ListNodes]\<rparr>))"

text \<open>The entries of a local directory, with whether each is a directory itself.\<close>

definition askDir :: "string \<Rightarrow> (string \<times> bool) list io" where
  "askDir p = (\<lambda>w. (case w_err w (w_log w) (ReadDir p) of Some e \<Rightarrow> Inl e | None \<Rightarrow> Inr (w_dir w (w_log w) p),
                     w\<lparr>w_log := w_log w @ [ReadDir p]\<rparr>))"

text \<open>
  \<^verbatim>\<open>filepath.Walk\<close>: the paths below a local path, itself included, in lexical order, each with whether
  it is a directory; and \<^verbatim>\<open>os.Stat\<close> of a local path that must exist, which tells whether it is one.
\<close>

definition askWalk :: "string \<Rightarrow> (string \<times> bool) list io" where
  "askWalk p = (\<lambda>w. (case w_err w (w_log w) (WalkTree p) of Some e \<Rightarrow> Inl e | None \<Rightarrow> Inr (w_walk w (w_log w) p),
                     w\<lparr>w_log := w_log w @ [WalkTree p]\<rparr>))"

definition os_StatIsDir :: "string \<Rightarrow> bool io" where
  "os_StatIsDir p = askFlag (StatPath p)"

text \<open>\<^verbatim>\<open>osutils.IsFileExist\<close> on the local host has no error result.\<close>

definition os_IsFileExist :: "string \<Rightarrow> bool io" where
  "os_IsFileExist p = (\<lambda>w. (Inr (w_flag w (w_log w) (LocalCall ''os.Stat'' [p])),
                     w\<lparr>w_log := w_log w @ [LocalCall ''os.Stat'' [p]]\<rparr>))"

definition os_WriteFile :: "string \<Rightarrow> string \<Rightarrow> unit io" where
  "os_WriteFile p content = perform (LocalCall ''os.WriteFile'' [p, content])"

text \<open>
  A goroutine nobody waits for: the log says that it was started; when it acts and how it ends
  has no influence on its creator.
\<close>

definition detach :: "action \<Rightarrow> unit io" where
  "detach a = (\<lambda>w. (Inr (), w\<lparr>w_log := w_log w @ [Detached a]\<rparr>))"

text \<open>A nil pointer, and an index out of range, panic.\<close>

definition deref :: "'a option \<Rightarrow> 'a io" where
  "deref p = (case p of None \<Rightarrow> throwE (Panic ''invalid memory address or nil pointer dereference'') | Some x \<Rightarrow> returnE x)"

definition firstE :: "'a list \<Rightarrow> 'a io" where
  "firstE xs = (case xs of [] \<Rightarrow> throwE (Panic ''index out of range'') | x # _ \<Rightarrow> returnE x)"

text \<open>
  \<^verbatim>\<open>utils.Retry\<close>: up to \<open>n\<close> attempts, then the last error, wrapped. With no attempt at all the
  wrapped error is nil.
\<close>

fun retry_go :: "nat \<Rightarrow> gerror \<Rightarrow> unit io \<Rightarrow> unit io" where
  "retry_go 0 err act = throwE (Wrapf ''retry action timeout: %v'' [] err)"
| "retry_go (Suc n) err act = bindE (tryE act)
     (\<lambda>r. case r of Inr _ \<Rightarrow> returnE () | Inl e \<Rightarrow> retry_go n e act)"

definition Retry :: "nat \<Rightarrow> unit io \<Rightarrow> unit io" where
  "Retry tryTimes act = retry_go tryTimes (Errorf ''<nil>'' []) act"

text \<open>
  The goroutines of \<^verbatim>\<open>errgroup\<close>: all of them run, in an order the scheduler chooses, and the
  group's error is that of the first one to fail. Each goroutine is one step of the schedule.
\<close>

definition remove_nth :: "nat \<Rightarrow> 'a list \<Rightarrow> 'a list" where
  "remove_nth k xs = take k xs @ drop (Suc k) xs"

lemma length_remove_nth [simp]: "k < length xs \<Longrightarrow> length (remove_nth k xs) = length xs - 1"
  by (simp add: remove_nth_def)

lemma mset_remove_nth: "k < length xs \<Longrightarrow> mset xs = add_mset (xs ! k) (mset (remove_nth k xs))"
  unfolding remove_nth_def
  by (metis id_take_nth_drop mset_append mset.simps(2) union_mset_add_mset_right)

function errgroup_go :: "gerror option \<Rightarrow> 'a list \<Rightarrow> ('a \<Rightarrow> unit io) \<Rightarrow> unit io" where
  "errgroup_go first xs f w =
     (if xs = [] then (case first of None \<Rightarrow> returnE () w | Some e \<Rightarrow> throwE e w)
      else (let k = w_sched w (w_log w) mod length xs in
        bindE (tryE (f (xs ! k)))
          (\<lambda>r. errgroup_go (case (first, r) of (None, Inl e) \<Rightarrow> Some e | _ \<Rightarrow> first) (remove_nth k xs) f) w))"
  by pat_completeness auto
termination
  by (relation "measure (\<lambda>(_, xs, _, _). length xs)") auto

declare errgroup_go.simps [simp del]

definition errgroup :: "'a list \<Rightarrow> ('a \<Rightarrow> unit io) \<Rightarrow> unit io" where
  "errgroup hosts f = errgroup_go None hosts f"

definition Execute :: "net_ip list \<Rightarrow> (net_ip \<Rightarrow> unit io) \<Rightarrow> unit io" where
  "Execute hosts f = errgroup hosts (\<lambda>host. mapErr (Wrapf ''on host [%s]: %v'' [ip_String host]) (f host))"

section \<open>Laws\<close>

named_theorems io \<open>evaluation of procedures\<close>

lemma returnE_apply [io]: "returnE x w = (Inr x, w)"
  by (simp add: returnE_def)

lemma throwE_apply [io]: "throwE e w = (Inl e, w)"
  by (simp add: throwE_def)

lemma liftR_apply [io]: "liftR r w = (r, w)"
  by (simp add: liftR_def)

lemma bindE_return [simp]: "bindE (returnE x) f = f x"
  by (simp add: bindE_def returnE_def)

lemma bindE_throw [simp]: "bindE (throwE e) f = throwE e"
  by (simp add: bindE_def throwE_def)

lemma thenE_return [simp]: "thenE (returnE ()) k = k"
  by (simp add: thenE_def)

lemma bindE_assoc: "bindE (bindE m f) g = bindE m (\<lambda>x. bindE (f x) g)"
  by (auto simp: bindE_def fun_eq_iff split: prod.splits sum.splits)

lemma thenE_assoc: "thenE (thenE a b) c = thenE a (thenE b c)"
  by (simp add: thenE_def bindE_assoc)

lemma bindE_Inr_iff:
  "bindE m f w = (Inr y, w'') \<longleftrightarrow> (\<exists>x w'. m w = (Inr x, w') \<and> f x w' = (Inr y, w''))"
  by (auto simp: bindE_def split: prod.splits sum.splits)

lemma thenE_Inr_iff:
  "thenE m k w = (Inr y, w'') \<longleftrightarrow> (\<exists>w'. m w = (Inr (), w') \<and> k w' = (Inr y, w''))"
  by (auto simp: thenE_def bindE_Inr_iff)

lemma bindE_apply_Inr: "m w = (Inr x, w') \<Longrightarrow> bindE m f w = f x w'"
  by (simp add: bindE_def)

lemma bindE_apply_Inl: "m w = (Inl e, w') \<Longrightarrow> bindE m f w = (Inl e, w')"
  by (simp add: bindE_def)

lemma thenE_apply_Inr: "m w = (Inr (), w') \<Longrightarrow> thenE m k w = k w'"
  by (simp add: thenE_def bindE_def)

lemma thenE_apply_Inl: "m w = (Inl e, w') \<Longrightarrow> thenE m k w = (Inl e, w')"
  by (simp add: thenE_def bindE_def)

lemma forE_append: "forE (xs @ ys) f = thenE (forE xs f) (forE ys f)"
  by (induction xs) (auto simp: thenE_assoc)

text \<open>
  Success of \<open>m\<close> from \<open>w\<close> with result \<open>x\<close>, having performed exactly the actions \<open>as\<close> and
  changed nothing else.
\<close>

definition does :: "'a io \<Rightarrow> world \<Rightarrow> 'a \<Rightarrow> action list \<Rightarrow> bool" where
  "does m w x as = (m w = (Inr x, w\<lparr>w_log := w_log w @ as\<rparr>))"

text \<open>\<open>obeys P m\<close>: every action \<open>m\<close> performs satisfies \<open>P\<close>, whatever the environment does.\<close>

definition obeys :: "(action \<Rightarrow> bool) \<Rightarrow> 'a io \<Rightarrow> bool" where
  "obeys P m = (\<forall>w. \<exists>as. snd (m w) = w\<lparr>w_log := w_log w @ as\<rparr> \<and> list_all P as)"

lemma obeysD: "obeys P m \<Longrightarrow> \<exists>as. snd (m w) = w\<lparr>w_log := w_log w @ as\<rparr> \<and> list_all P as"
  by (simp add: obeys_def)

lemma obeys_mono: "obeys P m \<Longrightarrow> (\<And>a. P a \<Longrightarrow> Q a) \<Longrightarrow> obeys Q m"
  unfolding obeys_def by (metis list.pred_mono_strong)

lemma obeys_return [intro!]: "obeys P (returnE x)"
  unfolding obeys_def returnE_def by (auto intro!: exI [of _ "[]"])

lemma obeys_throw [intro!]: "obeys P (throwE e)"
  unfolding obeys_def throwE_def by (auto intro!: exI [of _ "[]"])

lemma obeys_liftR [intro!]: "obeys P (liftR r)"
  unfolding obeys_def liftR_def by (auto intro!: exI [of _ "[]"])

lemma obeys_perform [intro!]: "P a \<Longrightarrow> obeys P (perform a)"
  by (auto simp: obeys_def perform_def)

lemma obeys_askText [intro!]: "P a \<Longrightarrow> obeys P (askText a)"
  by (auto simp: obeys_def askText_def)

lemma obeys_askFlag [intro!]: "P a \<Longrightarrow> obeys P (askFlag a)"
  by (auto simp: obeys_def askFlag_def)

lemma obeys_askNodes [intro!]: "P ListNodes \<Longrightarrow> obeys P askNodes"
  by (auto simp: obeys_def askNodes_def)

lemma obeys_askDir [intro!]: "P (ReadDir p) \<Longrightarrow> obeys P (askDir p)"
  by (auto simp: obeys_def askDir_def)

lemma obeys_askWalk [intro!]: "P (WalkTree p) \<Longrightarrow> obeys P (askWalk p)"
  by (auto simp: obeys_def askWalk_def)

lemma obeys_os_IsFileExist [intro!]: "P (LocalCall ''os.Stat'' [p]) \<Longrightarrow> obeys P (os_IsFileExist p)"
  by (auto simp: obeys_def os_IsFileExist_def)

lemma obeys_os_WriteFile [intro!]: "P (LocalCall ''os.WriteFile'' [p, c]) \<Longrightarrow> obeys P (os_WriteFile p c)"
  by (auto simp: os_WriteFile_def)

lemma obeys_detach [intro!]: "P (Detached a) \<Longrightarrow> obeys P (detach a)"
  by (auto simp: obeys_def detach_def)

lemma obeys_deref [intro!]: "obeys P (deref p)"
  by (auto simp: deref_def split: option.split)

lemma obeys_firstE [intro!]: "obeys P (firstE xs)"
  by (auto simp: firstE_def split: list.split)

lemma obeys_bindE [intro!]:
  assumes m: "obeys P m" and f: "\<And>x. obeys P (f x)"
  shows "obeys P (bindE m f)"
  unfolding obeys_def
proof
  fix w
  obtain r w1 where mw: "m w = (r, w1)" by (cases "m w")
  with obeysD [OF m, of w] obtain as where w1: "w1 = w\<lparr>w_log := w_log w @ as\<rparr>" "list_all P as" by auto
  show "\<exists>as. snd (bindE m f w) = w\<lparr>w_log := w_log w @ as\<rparr> \<and> list_all P as"
  proof (cases r)
    case (Inl e)
    with mw w1 show ?thesis by (auto simp: bindE_def)
  next
    case (Inr x)
    from obeysD [OF f, of x w1] obtain bs where "snd (f x w1) = w1\<lparr>w_log := w_log w1 @ bs\<rparr>" "list_all P bs" by auto
    with mw w1 Inr show ?thesis by (auto simp: bindE_def intro!: exI [of _ "as @ bs"])
  qed
qed

lemma obeys_bind_liftR: "(\<And>x. r = Inr x \<Longrightarrow> obeys P (f x)) \<Longrightarrow> obeys P (bindE (liftR r) f)"
  by (cases r) (auto simp: obeys_def bindE_def liftR_def intro!: exI [of _ "[]"])

lemma obeys_thenE [intro!]: "obeys P m \<Longrightarrow> obeys P k \<Longrightarrow> obeys P (thenE m k)"
  by (auto simp: thenE_def)

lemma obeys_whenE [intro!]: "(b \<Longrightarrow> obeys P m) \<Longrightarrow> obeys P (whenE b m)"
  by (auto simp: whenE_def)

lemma obeys_if [intro!]: "(b \<Longrightarrow> obeys P m) \<Longrightarrow> (\<not> b \<Longrightarrow> obeys P n) \<Longrightarrow> obeys P (if b then m else n)"
  by auto

lemma obeys_case_prod [intro!]: "(\<And>a b. p = (a, b) \<Longrightarrow> obeys P (f a b)) \<Longrightarrow> obeys P (case p of (a, b) \<Rightarrow> f a b)"
  by (auto split: prod.split)

lemma obeys_case_option [intro!]:
  "(x = None \<Longrightarrow> obeys P m) \<Longrightarrow> (\<And>y. x = Some y \<Longrightarrow> obeys P (f y)) \<Longrightarrow>
    obeys P (case x of None \<Rightarrow> m | Some y \<Rightarrow> f y)"
  by (auto split: option.split)

lemma obeys_case_sum [intro!]:
  "(\<And>e. x = Inl e \<Longrightarrow> obeys P (g e)) \<Longrightarrow> (\<And>y. x = Inr y \<Longrightarrow> obeys P (f y)) \<Longrightarrow>
    obeys P (case x of Inl e \<Rightarrow> g e | Inr y \<Rightarrow> f y)"
  by (auto split: sum.split)

lemma obeys_finallyE [intro!]:
  assumes "obeys P m" and "obeys P c"
  shows "obeys P (finallyE m c)"
  unfolding obeys_def
proof
  fix w
  from obeysD [OF assms(1), of w] obtain as where as: "snd (m w) = w\<lparr>w_log := w_log w @ as\<rparr>" "list_all P as" by auto
  moreover from obeysD [OF assms(2), of "snd (m w)"] obtain bs
    where "snd (c (snd (m w))) = (snd (m w))\<lparr>w_log := w_log (snd (m w)) @ bs\<rparr>" "list_all P bs" by auto
  ultimately show "\<exists>as. snd (finallyE m c w) = w\<lparr>w_log := w_log w @ as\<rparr> \<and> list_all P as"
    by (auto simp: finallyE_def split: prod.splits intro!: exI [of _ "as @ bs"])
qed

lemma snd_mapErr [simp]: "snd (mapErr f m w) = snd (m w)"
  by (auto simp: mapErr_def split: prod.splits sum.splits gerror.splits)

lemma snd_tryE [simp]: "snd (tryE m w) = snd (m w)"
  by (auto simp: tryE_def split: prod.splits sum.splits gerror.splits)

lemma obeys_mapErr [intro!]: "obeys P m \<Longrightarrow> obeys P (mapErr f m)"
  by (simp add: obeys_def)

lemma obeys_tryE [intro!]: "obeys P m \<Longrightarrow> obeys P (tryE m)"
  by (simp add: obeys_def)

lemma obeys_forE [intro!]: "(\<And>x. x \<in> set xs \<Longrightarrow> obeys P (f x)) \<Longrightarrow> obeys P (forE xs f)"
  by (induction xs) auto

lemma obeys_retry [intro!]: "obeys P act \<Longrightarrow> obeys P (Retry n act)"
proof -
  assume a: "obeys P act"
  have "obeys P (retry_go n err act)" for err
    by (induction n arbitrary: err) (auto intro!: obeys_bindE a split: sum.splits)
  then show ?thesis by (simp add: Retry_def)
qed

lemma obeys_errgroup_go:
  "(\<And>x. x \<in> set xs \<Longrightarrow> obeys P (f x)) \<Longrightarrow> obeys P (errgroup_go first xs f)"
proof (induction "length xs" arbitrary: first xs)
  case 0
  then show ?case by (auto simp: obeys_def errgroup_go.simps returnE_def throwE_def
        intro!: exI [of _ "[]"] split: option.split)
next
  case (Suc n)
  have step: "obeys P (bindE (tryE (f (xs ! k))) (\<lambda>r. errgroup_go (g r) (remove_nth k xs) f))" if k: "k < length xs" for k g
  proof (intro obeys_bindE obeys_tryE)
    show "obeys P (f (xs ! k))" using k Suc.prems by simp
    have "set (remove_nth k xs) \<subseteq> set xs" using mset_remove_nth [OF k] by (metis set_mset_mset set_subset_Cons mset.simps(2))
    then show "obeys P (errgroup_go (g r) (remove_nth k xs) f)" for r
      using k Suc.hyps(2) Suc.prems by (intro Suc.hyps(1)) auto
  qed
  have "xs \<noteq> []" using Suc.hyps(2) by auto
  then show ?case
    using step by (simp add: obeys_def errgroup_go.simps Let_def)
qed

lemma obeys_errgroup [intro!]: "(\<And>x. x \<in> set xs \<Longrightarrow> obeys P (f x)) \<Longrightarrow> obeys P (errgroup xs f)"
  unfolding errgroup_def by (rule obeys_errgroup_go)

lemma obeys_Execute [intro!]: "(\<And>x. x \<in> set xs \<Longrightarrow> obeys P (f x)) \<Longrightarrow> obeys P (Execute xs f)"
  unfolding Execute_def by auto

section \<open>Success\<close>

lemma does_return [intro]: "does (returnE x) w x []"
  by (simp add: does_def returnE_def)

lemma does_perform: "w_err w (w_log w) a = None \<Longrightarrow> does (perform a) w () [a]"
  by (simp add: does_def perform_def)

lemma does_bindE:
  "does m w x as \<Longrightarrow> does (f x) (w\<lparr>w_log := w_log w @ as\<rparr>) y bs \<Longrightarrow> does (bindE m f) w y (as @ bs)"
  by (simp add: does_def bindE_def)

lemma does_thenE:
  "does m w () as \<Longrightarrow> does k (w\<lparr>w_log := w_log w @ as\<rparr>) y bs \<Longrightarrow> does (thenE m k) w y (as @ bs)"
  by (simp add: thenE_def does_bindE)

text \<open>An environment in which nothing fails.\<close>

definition calm :: "world \<Rightarrow> bool" where
  "calm w = (\<forall>l a. w_err w l a = None)"

definition calmWorld :: world where
  "calmWorld = \<lparr>w_log = [], w_err = (\<lambda>_ _. None), w_text = (\<lambda>_ _. []), w_flag = (\<lambda>_ _. False),
     w_nodes = (\<lambda>_. []), w_dir = (\<lambda>_ _. []), w_walk = (\<lambda>_ _. []), w_sched = (\<lambda>_. 0)\<rparr>"

lemma calm_calmWorld [simp]: "calm calmWorld"
  by (simp add: calm_def calmWorld_def)

lemma calm_log [simp]: "calm (w\<lparr>w_log := l\<rparr>) = calm w"
  by (simp add: calm_def)

lemma does_perform_calm: "calm w \<Longrightarrow> does (perform a) w () [a]"
  by (simp add: calm_def does_perform)

lemma does_forE_calm:
  "calm w \<Longrightarrow> (\<And>x w'. x \<in> set xs \<Longrightarrow> calm w' \<Longrightarrow> does (f x) w' () (g x)) \<Longrightarrow>
    does (forE xs f) w () (concat (map g xs))"
proof (induction xs arbitrary: w)
  case Nil
  then show ?case by auto
next
  case (Cons x xs)
  have "does (f x) w () (g x)" using Cons.prems by simp
  moreover have "does (forE xs f) (w\<lparr>w_log := w_log w @ g x\<rparr>) () (concat (map g xs))"
    using Cons.prems by (intro Cons.IH) auto
  ultimately show ?case by (auto intro: does_thenE)
qed

lemma does_mapErr: "does m w x as \<Longrightarrow> does (mapErr f m) w x as"
  by (simp add: does_def mapErr_def)

lemma does_tryE: "does m w x as \<Longrightarrow> does (tryE m) w (Inr x) as"
  by (simp add: does_def tryE_def)

text \<open>When nothing fails, a group performs the actions of all its members, in some order of them.\<close>

lemma does_errgroup_go_calm:
  "calm w \<Longrightarrow> (\<And>x w'. x \<in> set xs \<Longrightarrow> calm w' \<Longrightarrow> does (f x) w' () (g x)) \<Longrightarrow>
    \<exists>ys. mset ys = mset xs \<and> does (errgroup_go None xs f) w () (concat (map g ys))"
proof (induction "length xs" arbitrary: xs w)
  case 0
  then show ?case by (auto simp: does_def errgroup_go.simps returnE_def)
next
  case (Suc n)
  define k where "k = w_sched w (w_log w) mod length xs"
  have xs: "xs \<noteq> []" using Suc.hyps(2) by auto
  then have k: "k < length xs" by (simp add: k_def)
  note split = mset_remove_nth [OF k]
  have sub: "set (remove_nth k xs) \<subseteq> set xs" using split by (metis set_mset_mset set_subset_Cons mset.simps(2))
  let ?w = "w\<lparr>w_log := w_log w @ g (xs ! k)\<rparr>"
  have "\<exists>ys. mset ys = mset (remove_nth k xs) \<and> does (errgroup_go None (remove_nth k xs) f) ?w () (concat (map g ys))"
    using Suc.prems sub k Suc.hyps(2) by (intro Suc.hyps(1)) auto
  then obtain ys where ys: "mset ys = mset (remove_nth k xs)"
    and rest: "does (errgroup_go None (remove_nth k xs) f) ?w () (concat (map g ys))" by auto
  have "does (bindE (tryE (f (xs ! k)))
      (\<lambda>r. errgroup_go (case r of Inl e \<Rightarrow> Some e | Inr _ \<Rightarrow> None) (remove_nth k xs) f)) w () (g (xs ! k) @ concat (map g ys))"
    by (rule does_bindE [where x = "Inr ()"]) (use Suc.prems k rest in \<open>auto intro: does_tryE\<close>)
  then have "does (errgroup_go None xs f) w () (concat (map g ((xs ! k) # ys)))"
    using xs by (simp add: does_def errgroup_go.simps k_def [symmetric] Let_def)
  with ys split show ?case by (metis mset.simps(2))
qed

lemma does_errgroup_calm:
  assumes "calm w" and "\<And>x w'. x \<in> set xs \<Longrightarrow> calm w' \<Longrightarrow> does (f x) w' () (g x)"
  shows "\<exists>ys. mset ys = mset xs \<and> does (errgroup xs f) w () (concat (map g ys))"
  unfolding errgroup_def using assms by (rule does_errgroup_go_calm)

section \<open>What success guarantees\<close>

text \<open>\<open>ensures a m\<close>: whenever \<open>m\<close> succeeds, action \<open>a\<close> has been performed.\<close>

abbreviation grows :: "'a io \<Rightarrow> bool" where
  "grows m \<equiv> obeys (\<lambda>_. True) m"

definition ensures :: "action \<Rightarrow> 'a io \<Rightarrow> bool" where
  "ensures a m = (\<forall>w x w'. m w = (Inr x, w') \<longrightarrow> a \<in> set (w_log w'))"

lemma ensuresD: "ensures a m \<Longrightarrow> m w = (Inr x, w') \<Longrightarrow> a \<in> set (w_log w')"
  by (simp add: ensures_def)

lemma grows_log: "grows m \<Longrightarrow> m w = (r, w') \<Longrightarrow> set (w_log w) \<subseteq> set (w_log w')"
  using obeysD [of "\<lambda>_. True" m w] by auto

lemma deref_Inr_iff: "deref p w = (Inr x, w') \<longleftrightarrow> p = Some x \<and> w' = w"
  by (auto simp: deref_def throwE_def returnE_def split: option.split)

lemma firstE_Inr_iff: "firstE xs w = (Inr x, w') \<longleftrightarrow> (\<exists>ys. xs = x # ys) \<and> w' = w"
  by (auto simp: firstE_def throwE_def returnE_def split: list.split)

lemma liftR_Inr_iff: "liftR r w = (Inr x, w') \<longleftrightarrow> r = Inr x \<and> w' = w"
  by (auto simp: liftR_def)

lemma ensures_perform: "ensures a (perform a)"
  by (simp add: ensures_def perform_def)

lemma ensures_throw: "ensures a (throwE e)"
  by (simp add: ensures_def throwE_def)

lemma ensures_first: "ensures a m \<Longrightarrow> (\<And>x. grows (f x)) \<Longrightarrow> ensures a (bindE m f)"
  unfolding ensures_def
proof (intro allI impI)
  fix w x w'
  assume m: "\<forall>w x w'. m w = (Inr x, w') \<longrightarrow> a \<in> set (w_log w')" and f: "\<And>x. grows (f x)"
    and "bindE m f w = (Inr x, w')"
  then obtain y w1 where "m w = (Inr y, w1)" and run: "f y w1 = (Inr x, w')" by (auto simp: bindE_Inr_iff)
  with m have "a \<in> set (w_log w1)" by blast
  with grows_log [OF f run] show "a \<in> set (w_log w')" by blast
qed

lemma ensures_second: "(\<And>x. ensures a (f x)) \<Longrightarrow> ensures a (bindE m f)"
  unfolding ensures_def by (auto simp: bindE_Inr_iff)

lemma ensures_then_first: "ensures a m \<Longrightarrow> grows k \<Longrightarrow> ensures a (thenE m k)"
  by (simp add: thenE_def ensures_first)

lemma ensures_then_second: "ensures a k \<Longrightarrow> ensures a (thenE m k)"
  by (simp add: thenE_def ensures_second)

lemma mapErr_Inr_iff [simp]: "mapErr g m w = (Inr x, w') \<longleftrightarrow> m w = (Inr x, w')"
  by (auto simp: mapErr_def split: prod.splits sum.splits gerror.splits)

lemma tryE_ok_iff: "tryE m w = (Inr (Inr x), w') \<longleftrightarrow> m w = (Inr x, w')"
  by (auto simp: tryE_def split: prod.splits sum.splits gerror.splits)

lemma ensures_mapErr: "ensures a m \<Longrightarrow> ensures a (mapErr g m)"
  by (simp add: ensures_def)

lemma ensures_forE:
  assumes "x \<in> set xs" and "ensures a (f x)" and "\<And>y. grows (f y)"
  shows "ensures a (forE xs f)"
  using assms(1)
proof (induction xs)
  case (Cons y ys)
  then show ?case
    using assms(2,3) by (cases "x = y") (auto intro: ensures_then_first ensures_then_second)
qed simp

lemma errgroup_go_failed: "errgroup_go (Some e) xs f w \<noteq> (Inr u, w')"
proof (induction "length xs" arbitrary: xs w)
  case 0
  then show ?case by (simp add: errgroup_go.simps throwE_def)
next
  case (Suc n)
  have xs: "xs \<noteq> []" using Suc.hyps(2) by auto
  then have "n = length (remove_nth (w_sched w (w_log w) mod length xs) xs)" using Suc.hyps(2) by simp
  from Suc.hyps(1) [OF this] xs show ?case
    by (auto simp: errgroup_go.simps [of _ xs] Let_def bindE_def split: prod.splits sum.splits)
qed

lemma errgroup_go_Inr:
  assumes "errgroup_go None xs f w = (Inr u, w')" and "xs \<noteq> []"
  shows "\<exists>k w1. k < length xs \<and> f (xs ! k) w = (Inr (), w1) \<and> errgroup_go None (remove_nth k xs) f w1 = (Inr u, w')"
proof -
  let ?k = "w_sched w (w_log w) mod length xs"
  from assms obtain r w1 where r: "tryE (f (xs ! ?k)) w = (Inr r, w1)"
    and rest: "errgroup_go (case (None, r) of (None, Inl e) \<Rightarrow> Some e | _ \<Rightarrow> None) (remove_nth ?k xs) f w1 = (Inr u, w')"
    by (auto simp: errgroup_go.simps [of _ xs] Let_def bindE_Inr_iff)
  from rest obtain v where "r = Inr v"
    by (cases r) (auto simp: errgroup_go_failed)
  with r rest assms(2) show ?thesis by (intro exI [of _ ?k] exI [of _ w1]) (auto simp: tryE_ok_iff)
qed

lemma ensures_errgroup_go:
  assumes "x \<in> set xs" and "ensures a (f x)" and "\<And>y. grows (f y)" and "errgroup_go None xs f w = (Inr u, w')"
  shows "a \<in> set (w_log w')"
  using assms(1,4)
proof (induction "length xs" arbitrary: xs w)
  case 0
  then show ?case by simp
next
  case (Suc n)
  then obtain k w1 where k: "k < length xs" "f (xs ! k) w = (Inr (), w1)" "errgroup_go None (remove_nth k xs) f w1 = (Inr u, w')"
    using errgroup_go_Inr [of xs f w u w'] by fastforce
  show ?case
  proof (cases "xs ! k = x")
    case True
    with k assms(2) have "a \<in> set (w_log w1)" by (auto dest: ensuresD)
    moreover have "grows (errgroup_go None (remove_nth k xs) f)" by (rule obeys_errgroup_go) (rule assms(3))
    ultimately show ?thesis using grows_log k(3) by blast
  next
    case False
    have "set xs = insert (xs ! k) (set (remove_nth k xs))"
      using arg_cong [OF mset_remove_nth [OF k(1)], of set_mset] by simp
    with Suc.prems(1) False have "x \<in> set (remove_nth k xs)" by auto
    moreover have "n = length (remove_nth k xs)" using k(1) Suc.hyps(2) by simp
    ultimately show ?thesis using Suc.hyps(1) k(3) by auto
  qed
qed

lemma ensures_errgroup:
  assumes "x \<in> set xs" and "ensures a (f x)" and "\<And>y. grows (f y)"
  shows "ensures a (errgroup xs f)"
  unfolding ensures_def errgroup_def
proof (intro allI impI)
  fix w u w' assume "errgroup_go None xs f w = (Inr u, w')"
  with assms show "a \<in> set (w_log w')" by (rule ensures_errgroup_go)
qed

lemma ensures_Execute:
  assumes "x \<in> set xs" and "ensures a (f x)" and "\<And>y. grows (f y)"
  shows "ensures a (Execute xs f)"
  unfolding Execute_def using assms by (intro ensures_errgroup) (auto intro: ensures_mapErr)

section \<open>Progress\<close>

text \<open>\<open>smooth m\<close>: when nothing in the environment fails, \<open>m\<close> returns without an error or a panic.\<close>

definition smooth :: "'a io \<Rightarrow> bool" where
  "smooth m = (\<forall>w. calm w \<longrightarrow> (\<exists>x as. does m w x as))"

lemma smoothD: "smooth m \<Longrightarrow> calm w \<Longrightarrow> \<exists>x w'. m w = (Inr x, w')"
  by (auto simp: smooth_def does_def)

lemma smooth_basic [intro!]:
  "smooth (returnE x)" "q \<noteq> None \<Longrightarrow> smooth (deref q)" "xs \<noteq> [] \<Longrightarrow> smooth (firstE xs)"
  "\<exists>v. r = Inr v \<Longrightarrow> smooth (liftR r)"
  by (auto simp: smooth_def does_def returnE_def deref_def firstE_def liftR_def intro!: exI [of _ "[]"] split: list.split)

lemma smooth_action [intro!]:
  "smooth (perform a)" "smooth (askText a)" "smooth (askFlag a)" "smooth askNodes" "smooth (askDir p)"
  "smooth (os_IsFileExist p)" "smooth (os_WriteFile p c)"
  by (auto simp: smooth_def does_def calm_def perform_def askText_def askFlag_def askNodes_def askDir_def
      os_IsFileExist_def os_WriteFile_def)

lemma smooth_detach [intro!]: "smooth (detach a)"
  by (auto simp: smooth_def does_def detach_def)

lemma smooth_bindE [intro!]: "smooth m \<Longrightarrow> (\<And>x. smooth (f x)) \<Longrightarrow> smooth (bindE m f)"
  unfolding smooth_def by (meson calm_log does_bindE)

lemma smooth_thenE [intro!]: "smooth m \<Longrightarrow> smooth k \<Longrightarrow> smooth (thenE m k)"
  unfolding thenE_def by blast

lemma smooth_whenE [intro!]: "(b \<Longrightarrow> smooth m) \<Longrightarrow> smooth (whenE b m)"
  by (auto simp: whenE_def)

lemma smooth_if [intro!]: "(b \<Longrightarrow> smooth m) \<Longrightarrow> (\<not> b \<Longrightarrow> smooth n) \<Longrightarrow> smooth (if b then m else n)"
  by auto

lemma smooth_case_prod [intro!]: "(\<And>a b. p = (a, b) \<Longrightarrow> smooth (f a b)) \<Longrightarrow> smooth (case p of (a, b) \<Rightarrow> f a b)"
  by (auto split: prod.split)

lemma smooth_case_option [intro!]:
  "(x = None \<Longrightarrow> smooth m) \<Longrightarrow> (\<And>y. x = Some y \<Longrightarrow> smooth (f y)) \<Longrightarrow> smooth (case x of None \<Rightarrow> m | Some y \<Rightarrow> f y)"
  by (auto split: option.split)

lemma smooth_mapErr [intro!]: "smooth m \<Longrightarrow> smooth (mapErr g m)"
  unfolding smooth_def by (meson does_mapErr)

lemma smooth_tryE [intro!]: "smooth m \<Longrightarrow> smooth (tryE m)"
  unfolding smooth_def by (meson does_tryE)

lemma smooth_finallyE [intro!]: "smooth m \<Longrightarrow> smooth c \<Longrightarrow> smooth (finallyE m c)"
  unfolding smooth_def
proof (intro allI impI)
  fix w assume m: "\<forall>w. calm w \<longrightarrow> (\<exists>x as. does m w x as)" and c: "\<forall>w. calm w \<longrightarrow> (\<exists>x as. does c w x as)" and w: "calm w"
  from m w obtain x as where as: "does m w x as" by blast
  moreover have "calm (w\<lparr>w_log := w_log w @ as\<rparr>)" using w by simp
  with c obtain y bs where "does c (w\<lparr>w_log := w_log w @ as\<rparr>) y bs" by blast
  ultimately have "does (finallyE m c) w x (as @ bs)" by (simp add: does_def finallyE_def)
  then show "\<exists>x as. does (finallyE m c) w x as" by blast
qed

lemma smooth_forE [intro!]: "(\<And>x. x \<in> set xs \<Longrightarrow> smooth (f x)) \<Longrightarrow> smooth (forE xs f)"
  by (induction xs) auto

lemma smooth_errgroup_go:
  "(\<And>x. x \<in> set xs \<Longrightarrow> smooth (f x)) \<Longrightarrow> calm w \<Longrightarrow> \<exists>as. does (errgroup_go None xs f) w () as"
proof (induction "length xs" arbitrary: xs w)
  case 0
  then show ?case by (auto simp: does_def errgroup_go.simps returnE_def intro!: exI [of _ "[]"])
next
  case (Suc n)
  define k where "k = w_sched w (w_log w) mod length xs"
  have xs: "xs \<noteq> []" using Suc.hyps(2) by auto
  then have k: "k < length xs" by (simp add: k_def)
  have sub: "set (remove_nth k xs) \<subseteq> set xs"
    using arg_cong [OF mset_remove_nth [OF k], of set_mset] by auto
  obtain as where as: "does (f (xs ! k)) w () as"
    using Suc.prems k unfolding smooth_def by (metis (full_types) nth_mem old.unit.exhaust)
  have "\<exists>bs. does (errgroup_go None (remove_nth k xs) f) (w\<lparr>w_log := w_log w @ as\<rparr>) () bs"
    using Suc.prems sub k Suc.hyps(2) by (intro Suc.hyps(1)) auto
  then obtain bs where bs: "does (errgroup_go None (remove_nth k xs) f) (w\<lparr>w_log := w_log w @ as\<rparr>) () bs" ..
  have "does (bindE (tryE (f (xs ! k)))
      (\<lambda>r. errgroup_go (case r of Inl e \<Rightarrow> Some e | Inr _ \<Rightarrow> None) (remove_nth k xs) f)) w () (as @ bs)"
    by (rule does_bindE [OF does_tryE [OF as]]) (simp add: bs)
  then have "does (errgroup_go None xs f) w () (as @ bs)"
    using xs by (simp add: does_def errgroup_go.simps k_def [symmetric] Let_def)
  then show ?case by blast
qed

lemma smooth_errgroup [intro!]: "(\<And>x. x \<in> set xs \<Longrightarrow> smooth (f x)) \<Longrightarrow> smooth (errgroup xs f)"
  using smooth_errgroup_go [of xs f] by (auto simp: smooth_def errgroup_def)

lemma smooth_Execute [intro!]: "(\<And>x. x \<in> set xs \<Longrightarrow> smooth (f x)) \<Longrightarrow> smooth (Execute xs f)"
  unfolding Execute_def by auto

end
