(* ===== verification/Kubefile.thy ===== *)
theory Kubefile
  imports Kubefile_Lexer Remote "HOL-Library.AList"
begin

text \<open>
  From the parsed Kubefile to the result the image builder uses (build/kubefile/parser: kubefile.go,
  app_handler.go, utils.go, file_fetcher.go; build/kubefile/command; pkg/define/application): the
  Dockerfile text, the applications with their types, files, variables and commands, and what to
  launch.

  The code fills one result object while it walks over the instructions, and a failing step leaves
  what it has written: a step is a function of the result and the world that returns both. The image
  engine, buildah's platform parser and buildkit's word expansion are parameters. Go maps the code
  ranges over are association lists; the order of a range is a parameter.
\<close>

section \<open>Applications\<close>

definition KubeApp :: string where "KubeApp = ''kube''"
definition HelmApp :: string where "HelmApp = ''helm''"
definition ShellApp :: string where "ShellApp = ''shell''"
definition UnknownApp :: string where "UnknownApp = ''unknown''"

record V1Application =
  NameVar :: string
  TypeVar :: string
  FilesVar :: "string list"
  VersionVar :: string
  AppEnv :: env
  AppCMDs :: "string list"

definition NewV1Application :: "string \<Rightarrow> string \<Rightarrow> string list \<Rightarrow> V1Application" where
  "NewV1Application name appType files = \<lparr>NameVar = name, TypeVar = appType, FilesVar = files,
     VersionVar = ''v1'', AppEnv = [], AppCMDs = []\<rparr>"

definition SetEnv :: "env \<Rightarrow> V1Application \<Rightarrow> V1Application" where
  "SetEnv appEnv app = app\<lparr>AppEnv := appEnv\<rparr>"

definition SetCmds :: "string list \<Rightarrow> V1Application \<Rightarrow> V1Application" where
  "SetCmds appCmds app = app\<lparr>AppCMDs := appCmds\<rparr>"

definition GetAppLaunchCmd :: "string \<Rightarrow> V1Application \<Rightarrow> string" where
  "GetAppLaunchCmd appRoot app =
     (if length (AppCMDs app) \<noteq> 0 then strings_Join ([''cd'', appRoot] @ [''&&''] @ AppCMDs app) '' ''
      else if TypeVar app = KubeApp then
        strings_Join (map (\<lambda>f. fmt_Sprintf ''kubectl apply -f %s'' [filepath_Join [appRoot, f]]) (FilesVar app)) '' && ''
      else if TypeVar app = HelmApp then fmt_Sprintf ''helm install %s %s'' [NameVar app, appRoot]
      else if TypeVar app = ShellApp then
        strings_Join (map (\<lambda>f. fmt_Sprintf ''bash %s'' [filepath_Join [appRoot, f]]) (FilesVar app)) '' && ''
      else [])"

section \<open>The result and the steps that fill it\<close>

record KubefileResult =
  Dockerfile :: string
  RawCmds :: "string list"
  LaunchedAppNames :: "string list"
  GlobalEnv :: env
  AppEnvMap :: "(string \<times> env) list"
  Applications :: "(string \<times> V1Application) list"
  AppCmdsMap :: "(string \<times> string list) list"
  lc_files :: "string list"
  lc_directories :: "string list"
  lc_apps2Files :: "(string \<times> string list) list"

definition emptyResult :: KubefileResult where
  "emptyResult = \<lparr>Dockerfile = [], RawCmds = [], LaunchedAppNames = [], GlobalEnv = [], AppEnvMap = [],
     Applications = [], AppCmdsMap = [], lc_files = [], lc_directories = [], lc_apps2Files = []\<rparr>"

type_synonym 'a step = "KubefileResult \<Rightarrow> world \<Rightarrow> 'a res \<times> KubefileResult \<times> world"

definition returnS :: "'a \<Rightarrow> 'a step" where
  "returnS x = (\<lambda>r w. (Inr x, r, w))"

definition throwS :: "gerror \<Rightarrow> 'a step" where
  "throwS e = (\<lambda>r w. (Inl e, r, w))"

definition bindS :: "'a step \<Rightarrow> ('a \<Rightarrow> 'b step) \<Rightarrow> 'b step" where
  "bindS m f = (\<lambda>r w. case m r w of (Inl e, r', w') \<Rightarrow> (Inl e, r', w') | (Inr x, r', w') \<Rightarrow> f x r' w')"

definition thenS :: "unit step \<Rightarrow> 'b step \<Rightarrow> 'b step" where
  "thenS m k = bindS m (\<lambda>_. k)"

definition getS :: "KubefileResult step" where
  "getS = (\<lambda>r w. (Inr r, r, w))"

definition modifyS :: "(KubefileResult \<Rightarrow> KubefileResult) \<Rightarrow> unit step" where
  "modifyS f = (\<lambda>r w. (Inr (), f r, w))"

definition ioS :: "'a io \<Rightarrow> 'a step" where
  "ioS m = (\<lambda>r w. case m w of (x, w') \<Rightarrow> (x, r, w'))"

definition mapErrS :: "(gerror \<Rightarrow> gerror) \<Rightarrow> 'a step \<Rightarrow> 'a step" where
  "mapErrS f m = (\<lambda>r w. case m r w of
       (Inl (Panic p), r', w') \<Rightarrow> (Inl (Panic p), r', w')
     | (Inl e, r', w') \<Rightarrow> (Inl (f e), r', w')
     | (Inr x, r', w') \<Rightarrow> (Inr x, r', w'))"

abbreviation nilS :: "'a step" where
  "nilS \<equiv> throwS (Panic ''invalid memory address or nil pointer dereference'')"

section \<open>Small helpers\<close>

definition mergeLines :: "string list \<Rightarrow> string" where
  "mergeLines lines = strings_Join lines newline"

definition addLine :: "string \<Rightarrow> unit step" where
  "addLine l = modifyS (\<lambda>r. r\<lparr>Dockerfile := mergeLines [Dockerfile r, l]\<rparr>)"

definition makeItDir :: "string \<Rightarrow> string" where
  "makeItDir str = (if \<not> strings_HasSuffix str ''/'' then str @ ''/'' else str)"

definition isLocal :: "string \<Rightarrow> bool" where
  "isLocal str = strings_HasPrefix str ''local://''"

definition trimLocal :: "string \<Rightarrow> string" where
  "trimLocal str = strings_TrimPrefix str ''local://''"

definition isRemote :: "string \<Rightarrow> bool" where
  "isRemote str = (strings_HasPrefix str ''http://'' \<or> strings_HasPrefix str ''https://'')"

text \<open>\<^verbatim>\<open>strconv.Quote\<close> of an ASCII text.\<close>

definition hexChar :: "nat \<Rightarrow> char" where
  "hexChar n = ''0123456789abcdef'' ! n"

definition quoteChar :: "char \<Rightarrow> string" where
  "quoteChar c = (let n = of_char c :: nat in
     if c = CHR 0x22 \<or> c = CHR 0x5C then [CHR 0x5C, c]
     else if 32 \<le> n \<and> n < 127 then [c]
     else (case map_of [(7, CHR ''a''), (8, CHR ''b''), (12, CHR ''f''), (10, CHR ''n''), (13, CHR ''r''),
                        (9, CHR ''t''), (11, CHR ''v'')] n of
         Some x \<Rightarrow> [CHR 0x5C, x]
       | None \<Rightarrow> [CHR 0x5C, CHR ''x'', hexChar (n div 16), hexChar (n mod 16)]))"

definition strconv_Quote :: "string \<Rightarrow> string" where
  "strconv_Quote s = [CHR 0x22] @ concat (map quoteChar s) @ [CHR 0x22]"

section \<open>The type and the files of an application\<close>

definition isChartsArtifactEnough :: "string \<Rightarrow> bool io" where
  "isChartsArtifactEnough path =
     bindE (os_IsFileExist (filepath_Join [path, ''Chart.yaml''])) (\<lambda>a.
     if \<not> a then returnE False else bindE (os_IsFileExist (filepath_Join [path, ''values.yaml''])) (\<lambda>b.
     if \<not> b then returnE False else os_IsFileExist (filepath_Join [path, ''templates''])))"

text \<open>\<^verbatim>\<open>filepath.WalkDir\<close> calls the function for the root only, since it answers \<^verbatim>\<open>SkipDir\<close>.\<close>

definition isHelmInDir :: "string \<Rightarrow> bool io" where
  "isHelmInDir dirPath = thenE (perform (LocalCall ''os.Lstat'' [dirPath])) (isChartsArtifactEnough dirPath)"

definition oneOfChartsArtifact :: "string \<Rightarrow> bool \<times> bool \<times> bool \<Rightarrow> bool \<times> bool \<times> bool" where
  "oneOfChartsArtifact str s = (case s of (a, b, c) \<Rightarrow>
     if strings_HasSuffix str ''Chart.yaml'' then (True, b, c)
     else if strings_HasSuffix str ''values.yaml'' then (a, True, c)
     else if strings_HasSuffix str ''templates'' then (a, b, True) else s)"

fun isHelm_go :: "string list \<Rightarrow> bool \<times> bool \<times> bool \<Rightarrow> bool io" where
  "isHelm_go [] s = returnE (s = (True, True, True))"
| "isHelm_go (source # rest) s =
     bindE (mapErr (Wrapf ''failed to stat %s: %v'' [source]) (os_StatIsDir source)) (\<lambda>isDir.
       if \<not> isDir then isHelm_go rest (oneOfChartsArtifact source s)
       else bindE (mapErr (Wrapf ''error in calling isHelmInDir: %v'' []) (isHelmInDir source)) (\<lambda>isH.
         if isH then returnE True
         else bindE (mapErr (Wrapf ''failed to read dir (%s) in isHelm: %s'' [source]) (askDir source)) (\<lambda>files.
           isHelm_go rest (fold (\<lambda>(name, d) s. if d then s else oneOfChartsArtifact name s) files s))))"

definition isHelm :: "string list \<Rightarrow> bool io" where
  "isHelm sources = isHelm_go sources (False, False, False)"

definition appTypeFunc :: "string \<Rightarrow> string" where
  "appTypeFunc fileName = (let ext = strings_ToLower (filepath_Ext fileName) in
     if ext = ''.sh'' then ShellApp else if ext = ''.yaml'' \<or> ext = ''.yml'' then KubeApp else UnknownApp)"

fun appTypeList :: "string list \<Rightarrow> string list io" where
  "appTypeList [] = returnE []"
| "appTypeList (source # rest) =
     bindE (mapErr (Wrapf ''failed to stat %s: %v'' [source]) (os_StatIsDir source)) (\<lambda>isDir.
       bindE (if isDir then bindE (mapErr (Wrapf ''failed to walk copy dir %s: %v'' [source]) (askWalk source)) (\<lambda>fs.
                 returnE (map (\<lambda>(p, _). appTypeFunc (filepath_Base p)) (filter (\<lambda>(_, d). \<not> d) fs)))
              else returnE [appTypeFunc source]) (\<lambda>ts.
         bindE (appTypeList rest) (\<lambda>us. returnE (ts @ us))))"

definition strictType :: "string list \<Rightarrow> string" where
  "strictType types =
     (if UnknownApp \<in> set types then []
      else (let isShell = ShellApp \<in> set types; isKube = KubeApp \<in> set types in
        if isShell \<and> \<not> isKube then ShellApp else if isKube \<and> \<not> isShell then KubeApp else []))"

definition getApplicationType :: "string list \<Rightarrow> string io" where
  "getApplicationType sources = bindE (isHelm sources) (\<lambda>isHelmType.
     if isHelmType then returnE HelmApp
     else bindE (appTypeList sources) (\<lambda>types. returnE (strictType types)))"

fun launchFiles :: "string \<Rightarrow> string list \<Rightarrow> string list io" where
  "launchFiles appType [] = returnE []"
| "launchFiles appType (source # rest) =
     bindE (mapErr (Wrapf ''failed to stat %s: %v'' [source]) (os_StatIsDir source)) (\<lambda>isDir.
       bindE (if isDir then bindE (mapErr (Wrapf ''failed to walk application dir %s: %v'' [source]) (askWalk source)) (\<lambda>fs.
                 returnE (map (\<lambda>(p, _). strings_TrimPrefix p source) (filter (\<lambda>(_, d). \<not> d) fs)))
              else returnE [filepath_Base source]) (\<lambda>here.
         if appType = ShellApp then returnE here
         else bindE (launchFiles appType rest) (\<lambda>more. returnE (here @ more))))"

definition getApplicationFiles :: "string \<Rightarrow> string \<Rightarrow> string list \<Rightarrow> string list io" where
  "getApplicationFiles appName appType sources =
     (if appType = [] then returnE [] else if appType = HelmApp then returnE [appName]
      else launchFiles appType sources)"

section \<open>Instructions\<close>

record KubefileParser =
  kp_appRootPath :: string
  kp_buildContext :: string
  kp_platform :: string
  kp_pullPolicy :: string

record engine =
  ke_DefaultPlatform :: string
  ke_Platform :: "string \<Rightarrow> (string \<times> string \<times> string) res"
  ke_ProcessWordWithMap :: "string \<Rightarrow> env \<Rightarrow> string res"
  ke_Pull :: "string \<Rightarrow> string \<Rightarrow> string \<Rightarrow> string io"
  ke_Inspect :: "string \<Rightarrow> V1Application list io"

definition appRootPathFunc :: "KubefileParser \<Rightarrow> string \<Rightarrow> string" where
  "appRootPathFunc kp name = makeItDir (filepath_Join [kp_appRootPath kp, name])"

definition getFileFromURL :: "string \<Rightarrow> string \<Rightarrow> string \<Rightarrow> string io" where
  "getFileFromURL src rename mountPoint =
     bindE (askText (LocalCall ''url.Parse'' [src])) (\<lambda>urlPath.
     thenE (perform (LocalCall ''http.Get'' [src]))
       (let name = (if rename = [] then filepath_Base urlPath else rename);
            target = filepath_Clean (filepath_Join [mountPoint, name]) in
        thenE (mapErr (Wrapf ''error creating file to target %s for %s: %v'' [target, src]) (perform (LocalCall ''os.Create'' [target])))
          (thenE (mapErr (Wrapf ''error writing %q to temporary file %q: %v'' [src, target]) (perform (LocalCall ''io.Copy'' [target, src])))
             (returnE target))))"

fun downloadRemoteFiles :: "string \<Rightarrow> string list \<Rightarrow> string list io" where
  "downloadRemoteFiles shadowDir [] = returnE []"
| "downloadRemoteFiles shadowDir (src # files) =
     bindE (mapErr (Wrapf ''failed to download file %s, %s'' [src]) (getFileFromURL src [] shadowDir)) (\<lambda>filePath.
       bindE (downloadRemoteFiles shadowDir files) (\<lambda>downloaded. returnE (filePath # downloaded)))"

text \<open>The first word that is not empty is the name; every other one has to name a scheme.\<close>

fun appWords :: "string list \<Rightarrow> string \<Rightarrow> string list \<Rightarrow> string list \<Rightarrow> (string \<times> string list \<times> string list) res" where
  "appWords [] appName localFiles remoteFiles = Inr (appName, localFiles, remoteFiles)"
| "appWords (val # vals) appName localFiles remoteFiles =
     (if appName = [] then appWords vals val localFiles remoteFiles
      else if isLocal val then appWords vals appName (localFiles @ [trimLocal val]) remoteFiles
      else if isRemote val then appWords vals appName localFiles (remoteFiles @ [val])
      else Inl (Errorf ''source schema should be specified with https:// http:// local:// in APP'' []))"

definition makeItAsApp :: "string \<Rightarrow> string list \<Rightarrow> V1Application step" where
  "makeItAsApp appName filesToJudge =
     bindS (ioS (mapErr (Wrapf ''failed to judge the application type for %s: %v'' [appName]) (getApplicationType filesToJudge))) (\<lambda>appType.
     bindS (ioS (mapErr (Wrapf ''failed to get app (%s)launch files: %v'' [appName]) (getApplicationFiles appName appType filesToJudge))) (\<lambda>files.
     let app = NewV1Application appName appType files in
     thenS (modifyS (\<lambda>r. r\<lparr>Applications := AList.update (NameVar app) app (Applications r)\<rparr>)) (returnS app)))"

definition fetchRemote :: "KubefileParser \<Rightarrow> string list \<Rightarrow> string list step" where
  "fetchRemote kp remoteFiles =
     (if remoteFiles = [] then returnS []
      else bindS (ioS (mapErr (Wrapf ''failed to create remote context: %s'' [])
                  (askText (LocalCall ''os.MkdirTemp'' [kp_buildContext kp, ''sealer-remote-files''])))) (\<lambda>tmpDir.
        bindS (ioS (downloadRemoteFiles tmpDir remoteFiles)) (\<lambda>files.
        thenS (modifyS (\<lambda>r. r\<lparr>lc_directories := lc_directories r @ [tmpDir]\<rparr>)) (returnS files))))"

definition processApp :: "KubefileParser \<Rightarrow> Node \<Rightarrow> V1Application step" where
  "processApp kp node = (case appWords (nd_Next node) [] [] [] of Inl e \<Rightarrow> throwS e
     | Inr (appName, localFiles, remoteFiles) \<Rightarrow>
         if appName = [] then throwS (Errorf ''app name should be specified in the app cmd'' [])
         else bindS (fetchRemote kp remoteFiles) (\<lambda>files.
           let filesToCopy = localFiles @ files in
           thenS (addLine (strings_Join (''copy'' # filesToCopy @ [appRootPathFunc kp appName]) '' ''))
             (thenS (modifyS (\<lambda>r. r\<lparr>lc_apps2Files := AList.update appName filesToCopy (lc_apps2Files r)\<rparr>))
               (makeItAsApp appName filesToCopy))))"

definition LabelSupportedKubeVersionAlpha :: string where
  "LabelSupportedKubeVersionAlpha = ''app.alpha.sealer.io/supported-kube-version''"
definition LabelKubeCNIPrefix :: string where "LabelKubeCNIPrefix = ''cluster.alpha.sealer.io/kube-cni-''"
definition LabelKubeCSIPrefix :: string where "LabelKubeCSIPrefix = ''cluster.alpha.sealer.io/kube-csi-''"

definition processCNI :: "KubefileParser \<Rightarrow> Node \<Rightarrow> unit step" where
  "processCNI kp node = bindS (processApp kp node) (\<lambda>app.
     addLine (fmt_Sprintf ''LABEL %s%s=\"true\"'' [LabelKubeCNIPrefix, NameVar app]))"

definition processCSI :: "KubefileParser \<Rightarrow> Node \<Rightarrow> unit step" where
  "processCSI kp node = bindS (processApp kp node) (\<lambda>app.
     addLine (fmt_Sprintf ''LABEL %s%s=\"true\"'' [LabelKubeCSIPrefix, NameVar app]))"

definition processKubeVersion :: "Node \<Rightarrow> unit step" where
  "processKubeVersion node = (case nd_Next node of [] \<Rightarrow> nilS
     | kubeVersionValue # _ \<Rightarrow> addLine (fmt_Sprintf ''LABEL %s=%s''
         [LabelSupportedKubeVersionAlpha, strconv_Quote kubeVersionValue]))"

definition processCopy :: "engine \<Rightarrow> KubefileParser \<Rightarrow> Node \<Rightarrow> unit step" where
  "processCopy ke kp node = (case nd_Next node of
       copySrc # copyDest # _ \<Rightarrow> (case ke_Platform ke (kp_platform kp) of
           Inl e \<Rightarrow> throwS (Wrapf ''failed to parse platform: %v'' [] e)
         | Inr (_, arch, _) \<Rightarrow> (case ke_ProcessWordWithMap ke copySrc [(''ARCH'', arch)] of
             Inl e \<Rightarrow> throwS (Wrapf ''failed to render COPY instruction: %v'' [] e)
           | Inr src \<Rightarrow> addLine (strings_Join [''copy'', src, copyDest] '' '')))
     | _ \<Rightarrow> throwS (Errorf ''line %d: invalid copy instruction: %s'' [itoa (nd_StartLine node), nd_Original node]))"

definition processAppCmds :: "Node \<Rightarrow> unit step" where
  "processAppCmds node = (case nd_Next node of [] \<Rightarrow> nilS
     | appName # _ \<Rightarrow>
         if appName = [] then throwS (Errorf ''app name should be specified in the APPCMDS instruction'' [])
         else (let tmpPrefix = ''APPCMDS '' @ strings_TrimSpace appName;
                   appCmdsStr = strings_TrimSpace (strings_TrimPrefix (nd_Original node) tmpPrefix) in
           case json_UnmarshalStrings appCmdsStr of
             Inl e \<Rightarrow> throwS (Wrapf ''the APPCMDS value should be format: APPCMDS appName [\"executable\",\"param1\",\"param2\",\"...\"]: %v'' [] e)
           | Inr appCmds \<Rightarrow> bindS getS (\<lambda>r.
               if map_of (Applications r) appName = None
               then throwS (Errorf ''the specified app name(%s) for `APPCMDS` should be exist'' [appName])
               else modifyS (\<lambda>r. r\<lparr>AppCmdsMap := AList.update appName appCmds (AppCmdsMap r)\<rparr>))))"

fun appEnvWords :: "string list \<Rightarrow> string \<Rightarrow> string list \<Rightarrow> string \<times> string list" where
  "appEnvWords [] appName envList = (appName, envList)"
| "appEnvWords (val # vals) appName envList =
     (if appName = [] then appEnvWords vals val envList else appEnvWords vals appName (envList @ [val]))"

definition processAppEnv :: "Node \<Rightarrow> unit step" where
  "processAppEnv node = (let (appName, envList) = appEnvWords (nd_Next node) [] [] in
     if appName = [] then throwS (Errorf ''app name should be specified in the APPENV instruction'' [])
     else bindS getS (\<lambda>r.
       if map_of (Applications r) appName = None
       then throwS (Errorf ''the specified app name(%s) for `APPENV` should be exist'' [appName])
       else (let tmpEnv = ConvertStringSliceToMap envList;
                 appEnv = (case map_of (AppEnvMap r) appName of None \<Rightarrow> [] | Some e \<Rightarrow> e) in
         modifyS (\<lambda>r. r\<lparr>AppEnvMap := AList.update appName (fold (\<lambda>(k, v). env_put k v) tmpEnv appEnv) (AppEnvMap r)\<rparr>))))"

definition processGlobalEnv :: "Node \<Rightarrow> unit step" where
  "processGlobalEnv node = (case strings_SplitN2 (nd_Original node) ''ENV '' of
       [_, envs] \<Rightarrow> modifyS (\<lambda>r. r\<lparr>GlobalEnv := fold put_line (filter (\<lambda>e. e \<noteq> []) (strings_Split envs '' '')) (GlobalEnv r)\<rparr>)
     | _ \<Rightarrow> throwS (Errorf ''line %d: invalid ENV instruction: %s'' [itoa (nd_StartLine node), nd_Original node]))"

definition processCmd :: "Node \<Rightarrow> unit step" where
  "processCmd node = (case strings_Split (nd_Original node) ''CMD '' of
       _ # cmd1 # _ \<Rightarrow> if nd_Next node = [] then nilS else modifyS (\<lambda>r. r\<lparr>RawCmds := RawCmds r @ [cmd1]\<rparr>)
     | _ \<Rightarrow> throwS (Panic ''index out of range [1] with length 1''))"

definition processCmds :: "Node \<Rightarrow> unit step" where
  "processCmds node = modifyS (\<lambda>r. r\<lparr>RawCmds := RawCmds r @ nd_Next node\<rparr>)"

fun launchNames :: "string list \<Rightarrow> unit step" where
  "launchNames [] = returnS ()"
| "launchNames (v # vs) = bindS getS (\<lambda>r. let appName = strings_TrimSpace v in
     if map_of (Applications r) appName = None
     then throwS (Errorf ''application %s does not exist in the image'' [appName])
     else thenS (modifyS (\<lambda>r. r\<lparr>LaunchedAppNames := LaunchedAppNames r @ [appName]\<rparr>)) (launchNames vs))"

definition processLaunch :: "Node \<Rightarrow> unit step" where
  "processLaunch node = launchNames (nd_Next node)"

definition fromPlatform :: "engine \<Rightarrow> string list \<Rightarrow> string res" where
  "fromPlatform ke flags = (case flags of [] \<Rightarrow> Inr (ke_DefaultPlatform ke)
     | fl # _ \<Rightarrow> bindR (parseListFlag fl) (\<lambda>f.
         if lf_flag f \<noteq> ''platform'' then Inl (Errorf ''flag %s is not available in FROM'' [lf_flag f])
         else Inr (hd (lf_items f))))"

definition processFrom :: "engine \<Rightarrow> KubefileParser \<Rightarrow> Node \<Rightarrow> unit step" where
  "processFrom ke kp node = (case fromPlatform ke (nd_Flags node) of Inl e \<Rightarrow> throwS e
     | Inr platform \<Rightarrow> (case nd_Next node of [] \<Rightarrow> throwS (Errorf ''image should be specified in the FROM'' [])
        | img # _ \<Rightarrow>
            if img = [] then throwS (Errorf ''image should be specified in the FROM'' [])
            else if img = ''scratch'' then returnS ()
            else bindS (ioS (mapErr (Wrapf ''failed to pull image %s: %v'' [img]) (ke_Pull ke (kp_pullPolicy kp) img platform))) (\<lambda>id.
              bindS (ioS (mapErr (Wrapf ''failed to get image-extension %s: %s'' [img]) (ke_Inspect ke id))) (\<lambda>apps.
                modifyS (\<lambda>r. r\<lparr>Applications := fold (\<lambda>app. AList.update (NameVar app) app) apps (Applications r)\<rparr>)))))"

definition processOnCmd :: "engine \<Rightarrow> KubefileParser \<Rightarrow> Node \<Rightarrow> unit step" where
  "processOnCmd ke kp node = (let cmd = nd_Value node in
     if cmd \<in> {''label'', ''maintainer'', ''add'', ''arg'', ''from'', ''run''} then addLine (nd_Original node)
     else if cmd = ''env'' then thenS (addLine (nd_Original node)) (processGlobalEnv node)
     else if cmd = ''appenv'' then processAppEnv node
     else if cmd = ''app'' then bindS (processApp kp node) (\<lambda>_. returnS ())
     else if cmd = ''appcmds'' then processAppCmds node
     else if cmd = ''cni'' then processCNI kp node
     else if cmd = ''csi'' then processCSI kp node
     else if cmd = ''kubeversion'' then processKubeVersion node
     else if cmd = ''launch'' then processLaunch node
     else if cmd = ''cmds'' then processCmds node
     else if cmd = ''copy'' then processCopy ke kp node
     else if cmd = ''cmd'' then processCmd node
     else throwS (Errorf ''failed to recognize cmd: %s'' [cmd]))"

section \<open>The result of a Kubefile\<close>

definition SupportedCommands :: "string list" where
  "SupportedCommands = [''add'', ''arg'', ''copy'', ''from'', ''label'', ''maintainer'', ''run'', ''app'', ''appcmds'',
     ''launch'', ''cmds'', ''cmd'', ''cni'', ''csi'', ''kubeversion'', ''env'', ''appenv'']"

text \<open>The error of the last removal is the one reported.\<close>

fun removePaths :: "string \<Rightarrow> string list \<Rightarrow> gerror option \<Rightarrow> gerror option io" where
  "removePaths call [] err = returnE err"
| "removePaths call (p # ps) err = bindE (tryE (perform (LocalCall call [p])))
     (\<lambda>x. removePaths call ps (case x of Inl e \<Rightarrow> Some e | Inr _ \<Rightarrow> None))"

definition CleanLegacyContext :: "KubefileResult \<Rightarrow> unit io" where
  "CleanLegacyContext kr =
     bindE (removePaths ''os.Remove'' (lc_files kr) None) (\<lambda>err.
     bindE (removePaths ''os.RemoveAll'' (lc_directories kr) err) (\<lambda>err2.
       case err2 of None \<Rightarrow> returnE () | Some e \<Rightarrow> throwE (Wrapf ''failed to clean legacy context: %v'' [] e)))"

text \<open>
  The deferred clean-up runs when the variable \<^verbatim>\<open>err\<close> of \<^verbatim>\<open>generateResult\<close> holds an error: the two calls whose
  result is assigned to it are wrapped in \<open>assignsErr\<close>. The other error returns, and panics, leave it nil.
\<close>

definition assignsErr :: "unit step \<Rightarrow> unit step" where
  "assignsErr m = (\<lambda>r w. case m r w of
       (Inl (Panic p), r', w') \<Rightarrow> (Inl (Panic p), r', w')
     | (Inl e, r', w') \<Rightarrow> (Inl e, r', snd (CleanLegacyContext r' w'))
     | (Inr x, r', w') \<Rightarrow> (Inr x, r', w'))"

definition countCommand :: "string \<Rightarrow> bool \<Rightarrow> nat \<times> nat \<times> nat \<Rightarrow> (nat \<times> nat \<times> nat) res" where
  "countCommand cmd isLast cnts = (case cnts of (launchCnt, cmdsCnt, cmdCnt) \<Rightarrow>
     if cmd \<notin> set SupportedCommands then Inl (Errorf ''command %s is not supported'' [cmd])
     else if cmd = ''launch'' then
       (if Suc launchCnt > 1 then Inl (Errorf ''only one launch could be specified'' [])
        else if \<not> isLast then Inl (Errorf ''launch should be the last instruction'' [])
        else Inr (Suc launchCnt, cmdsCnt, cmdCnt))
     else if cmd = ''cmds'' then
       (if Suc cmdsCnt > 1 then Inl (Errorf ''only one cmds could be specified'' [])
        else if \<not> isLast then Inl (Errorf ''cmds should be the last instruction'' [])
        else Inr (launchCnt, Suc cmdsCnt, cmdCnt))
     else if cmd = ''cmd'' then Inr (launchCnt, cmdsCnt, Suc cmdCnt)
     else Inr cnts)"

definition fromFirst :: "engine \<Rightarrow> KubefileParser \<Rightarrow> Node \<Rightarrow> unit step" where
  "fromFirst ke kp node = (if nd_Value node = ''from''
     then assignsErr (mapErrS (Wrapf ''failed to process from: %v'' []) (processFrom ke kp node)) else returnS ())"

fun commandLoop :: "engine \<Rightarrow> KubefileParser \<Rightarrow> nat \<times> nat \<times> nat \<Rightarrow> Node list \<Rightarrow> unit step" where
  "commandLoop ke kp cnts [] = returnS ()"
| "commandLoop ke kp cnts (node # nodes) = (case countCommand (nd_Value node) (nodes = []) cnts of
       Inl e \<Rightarrow> throwS e
     | Inr (launchCnt, cmdsCnt, cmdCnt) \<Rightarrow>
         thenS (fromFirst ke kp node)
           (if cmdCnt \<ge> 1 \<and> launchCnt = 1 then throwS (Errorf ''cmd and launch are mutually exclusive'' [])
            else thenS (assignsErr (processOnCmd ke kp node)) (commandLoop ke kp (launchCnt, cmdsCnt, cmdCnt) nodes)))"

definition checkApps :: "(string list \<Rightarrow> string list) \<Rightarrow> unit step" where
  "checkApps order = bindS getS (\<lambda>r.
     case find (\<lambda>n. (case map_of (Applications r) n of None \<Rightarrow> False | Some app \<Rightarrow> TypeVar app = []) \<and>
                    map_of (AppCmdsMap r) n = None) (order (map fst (Applications r))) of
       Some name \<Rightarrow> throwS (Errorf ''app %s need to specify APPCMDS if no app type detected'' [name])
     | None \<Rightarrow> returnS ())"

text \<open>\<^verbatim>\<open>SetEnv\<close> and \<^verbatim>\<open>SetCmds\<close> are methods of the registered object; of a nil interface they panic.\<close>

fun registerWith :: "('a \<Rightarrow> V1Application \<Rightarrow> V1Application) \<Rightarrow> (string \<times> 'a) list \<Rightarrow> unit step" where
  "registerWith setter [] = returnS ()"
| "registerWith setter ((appName, x) # rest) = bindS getS (\<lambda>r. case map_of (Applications r) appName of None \<Rightarrow> nilS
     | Some app \<Rightarrow> thenS (modifyS (\<lambda>r. r\<lparr>Applications := AList.update appName (setter x app) (Applications r)\<rparr>))
         (registerWith setter rest))"

definition resultSteps :: "engine \<Rightarrow> KubefileParser \<Rightarrow> (string list \<Rightarrow> string list) \<Rightarrow> Node list \<Rightarrow> unit step" where
  "resultSteps ke kp order nodes =
     thenS (commandLoop ke kp (0, 0, 0) nodes)
       (thenS (checkApps order)
         (thenS (bindS getS (\<lambda>r. registerWith SetEnv (AppEnvMap r)))
           (bindS getS (\<lambda>r. registerWith SetCmds (AppCmdsMap r)))))"

definition generateResult :: "engine \<Rightarrow> KubefileParser \<Rightarrow> (string list \<Rightarrow> string list) \<Rightarrow> Node list \<Rightarrow> KubefileResult io" where
  "generateResult ke kp order nodes = (\<lambda>w. case resultSteps ke kp order nodes emptyResult w of
       (Inl e, r, w') \<Rightarrow> (Inl e, w') | (Inr _, r, w') \<Rightarrow> (Inr r, w'))"

definition ParseKubefile :: "buildHost \<Rightarrow> engine \<Rightarrow> KubefileParser \<Rightarrow> (string list \<Rightarrow> string list) \<Rightarrow> string \<Rightarrow> KubefileResult io" where
  "ParseKubefile bh ke kp order content = (case kubefile_parse bh content of
       Inl e \<Rightarrow> throwE (Wrapf ''failed to parse dockerfile: %v'' [] e)
     | Inr result \<Rightarrow> generateResult ke kp order (r_Children result))"

definition NewParser :: "string \<Rightarrow> string \<Rightarrow> string \<Rightarrow> string \<Rightarrow> KubefileParser" where
  "NewParser appRootPath contextDir pullPolicy platform =
     \<lparr>kp_appRootPath = appRootPath, kp_buildContext = contextDir, kp_platform = platform, kp_pullPolicy = pullPolicy\<rparr>"

end
