(* ===== verification/Kubefile_Text.thy ===== *)
theory Kubefile_Text
  imports Kubefile_Lexer
begin

text \<open>
  Round trips of the text level of the Kubefile parser: a list of instructions with plain words,
  printed one per line, is parsed back to exactly these instructions, and a list of strings written
  as a JSON array is read back as the list.
\<close>

section \<open>Plain words\<close>

definition plainChar :: "char \<Rightarrow> bool" where
  "plainChar c = (let n = of_char c :: nat in
     33 \<le> n \<and> n \<le> 126 \<and> c \<noteq> CHR 0x22 \<and> c \<noteq> CHR 0x27 \<and> c \<noteq> CHR 0x5C)"

definition plainWord :: "string \<Rightarrow> bool" where
  "plainWord w = (w \<noteq> [] \<and> list_all plainChar w)"

lemma not_plainChar:
  "\<not> plainChar (CHR 0x22)" "\<not> plainChar (CHR 0x27)" "\<not> plainChar (CHR 0x5C)" "\<not> plainChar (CHR 0x09)"
  "\<not> plainChar (CHR 0x0A)" "\<not> plainChar (CHR 0x0B)" "\<not> plainChar (CHR 0x0C)" "\<not> plainChar (CHR 0x0D)"
  "\<not> plainChar (CHR '' '')" "\<not> plainChar (CHR 0xEF)" "\<not> plainChar (CHR 0x85)" "\<not> plainChar (CHR 0xA0)"
  by code_simp+

lemma plainChar_rune: "plainChar c \<Longrightarrow> runeString c = [c]"
  by (auto simp: plainChar_def runeString_def Let_def)

lemma plainChar_not_space:
  assumes "plainChar c"
  shows "\<not> is_space c" "\<not> isSpaceByte c" "\<not> is_ws c" "\<not> is_blank c"
  using assms not_plainChar by (auto simp: is_space_def isSpaceByte_def is_ws_def is_blank_def)

lemma plainChar_neq:
  assumes "plainChar c"
  shows "c \<noteq> CHR 0x22" "c \<noteq> CHR 0x27" "c \<noteq> CHR 0x5C" "c \<noteq> CHR 0x0A" "c \<noteq> CHR 0x0D" "c \<noteq> CHR '' ''" "c \<noteq> CHR 0xEF"
  using assms not_plainChar by blast+

lemmas plainChar_simps = plainChar_rune plainChar_not_space plainChar_neq

lemma space_simps [simp]: "is_space (CHR '' '')" "isSpaceByte (CHR '' '')" "is_ws (CHR '' '')"
  by (simp_all add: is_space_def isSpaceByte_def is_ws_def)

abbreviation unwords :: "string list \<Rightarrow> string" where
  "unwords ws \<equiv> strings_Join ws '' ''"

lemma unwords_Cons: "unwords (w # ws) = w @ (if ws = [] then [] else CHR '' '' # unwords ws)"
  by (cases ws) auto

section \<open>The three splitters on plain words\<close>

lemma parseWords_inWord:
  "list_all plainChar w \<Longrightarrow> parseWords_go (CHR 0x5C) inWord word q b ws (w @ r) = parseWords_go (CHR 0x5C) inWord (word @ w) q b ws r"
  by (induction w arbitrary: word) (auto simp: plainChar_simps Let_def)

lemma parseWords_word:
  "plainWord w \<Longrightarrow> parseWords_go (CHR 0x5C) inSpaces [] q False ws (w @ r) = parseWords_go (CHR 0x5C) inWord w q False ws r"
  by (cases w) (auto simp: plainWord_def plainChar_simps Let_def parseWords_inWord)

lemma parseWords_unwords_go:
  "list_all plainWord ws \<Longrightarrow> parseWords_go (CHR 0x5C) inSpaces [] q False acc (unwords ws) = acc @ ws"
proof (induction ws arbitrary: acc)
  case (Cons w ws)
  then have w: "plainWord w" "w \<noteq> []" by (auto simp: plainWord_def)
  show ?case
  proof (cases "ws = []")
    case True
    then show ?thesis using w parseWords_word [of w q acc "[]"] by simp
  next
    case False
    then show ?thesis using w Cons by (simp add: unwords_Cons parseWords_word)
  qed
qed simp

lemma wsSplit_word: "list_all plainChar w \<Longrightarrow> wsSplit_go b acc (w @ r) = wsSplit_go (if w = [] then b else False) (rev w @ acc) r"
  by (induction w arbitrary: acc b) (auto simp: plainChar_simps)

lemma wsSplit_unwords_go:
  "list_all plainWord ws \<Longrightarrow> ws \<noteq> [] \<Longrightarrow> wsSplit_go b [] (unwords ws) = ws"
proof (induction ws arbitrary: b)
  case (Cons w ws)
  then have w: "list_all plainChar w" "w \<noteq> []" by (auto simp: plainWord_def)
  show ?case
  proof (cases "ws = []")
    case True
    then show ?thesis using w wsSplit_word [of w b "[]" "[]"] by simp
  next
    case False
    then show ?thesis using w Cons by (simp add: unwords_Cons wsSplit_word)
  qed
qed simp

lemma extractFlags_inWord:
  "list_all plainChar w \<Longrightarrow> extractFlags_go inWord word q b ws (w @ r) = extractFlags_go inWord (word @ w) q b ws r"
  by (induction w arbitrary: word) (auto simp: plainChar_simps)

definition flagWord :: "string \<Rightarrow> bool" where
  "flagWord w = (plainWord w \<and> prefix ''--'' w \<and> w \<noteq> ''--'')"

lemma extractFlags_word:
  assumes "flagWord w"
  shows "extractFlags_go inSpaces [] q False ws (w @ r) = extractFlags_go inWord w q False ws r"
proof -
  from assms obtain v where v: "w = CHR ''-'' # CHR ''-'' # v" "list_all plainChar w"
    by (auto simp: flagWord_def plainWord_def prefix_def)
  then have "\<not> isSpaceByte (CHR ''-'')" by (auto simp: plainChar_simps)
  with v extractFlags_inWord [of "CHR ''-'' # v" "''-''" q False ws r] show ?thesis by simp
qed

definition argsStart :: "string list \<Rightarrow> bool" where
  "argsStart as = (case as of [] \<Rightarrow> True | a # _ \<Rightarrow> \<not> prefix ''--'' a)"

lemma extractFlags_args:
  assumes "list_all plainWord as" and "argsStart as"
  shows "extractFlags_go inSpaces [] q False ws (unwords as) = (unwords as, ws)"
proof (cases as)
  case (Cons a as')
  then obtain c cs where a: "a = c # cs" "plainChar c" using assms by (cases a) (auto simp: plainWord_def)
  have "c \<noteq> CHR ''-'' \<or> u = [] \<or> hd u \<noteq> CHR ''-''" if "u = cs @ v" "cs = [] \<longrightarrow> v = [] \<or> hd v = CHR '' ''" for u v
    using assms(2) that Cons a by (cases cs; cases v) (auto simp: argsStart_def)
  then show ?thesis using Cons a
    by (auto simp: unwords_Cons plainChar_simps)
qed simp

lemma extractFlags_unwords:
  assumes "list_all flagWord fs" and "list_all plainWord as" and "argsStart as"
  shows "extractFlags_go inSpaces [] q False ws (unwords (fs @ as)) = (unwords as, ws @ fs)"
  using assms(1)
proof (induction fs arbitrary: ws)
  case Nil
  then show ?case using extractFlags_args [OF assms(2,3)] by simp
next
  case (Cons f fs)
  then have f: "flagWord f" "f \<noteq> ''--''" "f \<noteq> []" by (auto simp: flagWord_def plainWord_def)
  show ?case
  proof (cases "fs @ as = []")
    case True
    then show ?thesis using f extractFlags_word [of f q ws "[]"] by simp
  next
    case False
    then show ?thesis using f Cons by (simp add: unwords_Cons extractFlags_word)
  qed
qed

section \<open>One instruction\<close>

record instr =
  ins_cmd :: string
  ins_flags :: "string list"
  ins_args :: "string list"

definition printInstr :: "instr \<Rightarrow> string" where
  "printInstr i = unwords (ins_cmd i # ins_flags i @ ins_args i)"

text \<open>The commands whose arguments are words; the others are LABEL, MAINTAINER, RUN and KUBEVERSION.\<close>

definition wordCommands :: "string list" where
  "wordCommands = [''add'', ''arg'', ''copy'', ''from'', ''app'', ''appcmds'', ''env'', ''appenv'',
     ''cni'', ''csi'', ''launch'', ''cmds'', ''cmd'']"

definition okInstr :: "instr \<Rightarrow> bool" where
  "okInstr i = (plainWord (ins_cmd i) \<and> strings_ToLower (ins_cmd i) \<in> set wordCommands \<and>
     list_all flagWord (ins_flags i) \<and> list_all plainWord (ins_args i) \<and> argsStart (ins_args i) \<and>
     (ins_args i \<noteq> [] \<longrightarrow> \<not> prefix ''['' (hd (ins_args i))) \<and>
     length (printInstr i) < maxScanTokenSize)"

lemma unwords_ends:
  assumes "list_all plainWord ws" and "ws \<noteq> []"
  shows "unwords ws \<noteq> []" "plainChar (hd (unwords ws))" "plainChar (last (unwords ws))"
proof -
  have "unwords ws \<noteq> [] \<and> plainChar (hd (unwords ws)) \<and> plainChar (last (unwords ws))"
    using assms
  proof (induction ws)
    case (Cons w ws)
    then have w: "w \<noteq> []" "list_all plainChar w" by (auto simp: plainWord_def)
    then have "plainChar (hd w)" "plainChar (last w)" by (auto simp: list_all_iff)
    with w Cons show ?case by (cases "ws = []") (auto simp: unwords_Cons)
  qed simp
  then show "unwords ws \<noteq> []" "plainChar (hd (unwords ws))" "plainChar (last (unwords ws))" by auto
qed

lemma dropWhile_hd: "s \<noteq> [] \<Longrightarrow> \<not> P (hd s) \<Longrightarrow> dropWhile P s = s"
  by (cases s) auto

lemma TrimSpace_ends: "s \<noteq> [] \<Longrightarrow> \<not> is_space (hd s) \<Longrightarrow> \<not> is_space (last s) \<Longrightarrow> strings_TrimSpace s = s"
  by (simp add: strings_TrimSpace_def dropWhile_hd hd_rev)

lemma TrimSpace_unwords: "list_all plainWord ws \<Longrightarrow> strings_TrimSpace (unwords ws) = unwords ws"
  using unwords_ends [of ws] plainChar_not_space(1)
  by (cases "ws = []") (simp add: strings_TrimSpace_def, blast intro: TrimSpace_ends)

lemma takeWhile_plain: "list_all plainChar w \<Longrightarrow> takeWhile (\<lambda>c. \<not> is_ws c) (w @ r) = w @ takeWhile (\<lambda>c. \<not> is_ws c) r"
  "list_all plainChar w \<Longrightarrow> dropWhile (\<lambda>c. \<not> is_ws c) (w @ r) = dropWhile (\<lambda>c. \<not> is_ws c) r"
  by (induction w) (auto simp: plainChar_simps)

lemma Split2_unwords:
  assumes "plainWord w" and "list_all plainWord ws"
  shows "tokenWhitespace_Split2 (unwords (w # ws)) = (if ws = [] then [w] else [w, unwords ws])"
proof (cases "ws = []")
  case True
  then show ?thesis using assms takeWhile_plain [of w "[]"] by (simp add: plainWord_def tokenWhitespace_Split2_def)
next
  case False
  have "dropWhile is_ws (unwords ws) = unwords ws"
    using unwords_ends [OF assms(2) False] by (simp add: dropWhile_hd plainChar_simps)
  with False assms takeWhile_plain [of w] show ?thesis
    by (simp add: unwords_Cons plainWord_def tokenWhitespace_Split2_def Let_def)
qed

lemma flagWords_plain: "list_all flagWord fs \<Longrightarrow> list_all plainWord fs"
  by (auto simp: list_all_iff flagWord_def)

lemma splitCommand_printInstr:
  assumes "okInstr i"
  shows "splitCommand (printInstr i) = (strings_ToLower (ins_cmd i), ins_flags i, unwords (ins_args i))"
proof -
  let ?ws = "ins_flags i @ ins_args i"
  have ok: "plainWord (ins_cmd i)" "list_all plainWord ?ws" "list_all plainWord (ins_args i)"
    "list_all flagWord (ins_flags i)" "argsStart (ins_args i)"
    using assms flagWords_plain by (auto simp: okInstr_def)
  have "strings_TrimSpace (printInstr i) = printInstr i"
    unfolding printInstr_def by (rule TrimSpace_unwords) (use ok in auto)
  moreover have "extractBuilderFlags (unwords ?ws) = (unwords (ins_args i), ins_flags i)"
    using extractFlags_unwords [OF ok(4,3,5)] by (simp add: extractBuilderFlags_def)
  ultimately show ?thesis
    using Split2_unwords [OF ok(1,2)] TrimSpace_unwords [OF ok(3)]
    by (auto simp: splitCommand_def printInstr_def strings_TrimSpace_def)
qed

lemma parse_args:
  assumes "list_all plainWord as" and "as \<noteq> [] \<longrightarrow> \<not> prefix ''['' (hd as)" and "escapeToken d = CHR 0x5C"
  shows "parseNameOrNameVal (unwords as) d = Inr (as, False)"
    "parseStringsWhitespaceDelimited (unwords as) d = Inr (as, False)"
    "parseMaybeJSONToList (unwords as) d = Inr (as, False)"
proof -
  show "parseNameOrNameVal (unwords as) d = Inr (as, False)"
    using parseWords_unwords_go [OF assms(1), of _ "[]"] assms(3)
    by (simp add: parseNameOrNameVal_def parseWords_def)
  show list: "parseStringsWhitespaceDelimited (unwords as) d = Inr (as, False)"
    using wsSplit_unwords_go [OF assms(1)] unwords_ends(1) [OF assms(1)]
    by (cases "as = []") (auto simp: parseStringsWhitespaceDelimited_def tokenWhitespace_Split_def)
  have "\<not> prefix ''['' (unwords as)"
    using assms(1,2) by (cases as; cases "hd as") (auto simp: unwords_Cons plainWord_def)
  moreover have "dropWhile is_space (unwords as) = unwords as"
    using unwords_ends [OF assms(1)] by (cases "as = []") (auto intro!: dropWhile_hd simp: plainChar_simps)
  ultimately have "\<exists>e. parseJSON (unwords as) d = Inl e \<and> e \<noteq> errDockerfileNotStringArray"
    by (simp add: parseJSON_def strings_HasPrefix_def errDockerfileNotStringArray_def)
  with list show "parseMaybeJSONToList (unwords as) d = Inr (as, False)"
    by (auto simp: parseMaybeJSONToList_def)
qed

definition nodeOf :: "int \<Rightarrow> instr \<Rightarrow> Node" where
  "nodeOf n i = \<lparr>nd_Value = strings_ToLower (ins_cmd i), nd_Next = ins_args i, nd_Json = False,
     nd_Original = printInstr i, nd_Flags = ins_flags i, nd_StartLine = n, nd_EndLine = n\<rparr>"

lemma dispatch_words:
  assumes "c \<in> set wordCommands"
  shows "map_of dispatch c \<in> {Some parseNameOrNameVal, Some parseStringsWhitespaceDelimited, Some parseMaybeJSONToList}"
  using assms unfolding wordCommands_def list.set
  by (elim insertE emptyE) (simp_all add: dispatch_def)

lemma newNode_printInstr:
  assumes "okInstr i" and "escapeToken d = CHR 0x5C"
  shows "newNodeFromLine (printInstr i) d = Inr (nodeOf 0 i)"
proof -
  have c: "strings_ToLower (ins_cmd i) \<in> set wordCommands" using assms(1) by (simp add: okInstr_def)
  have p: "list_all plainWord (ins_args i)" "ins_args i \<noteq> [] \<longrightarrow> \<not> prefix ''['' (hd (ins_args i))"
    using assms(1) by (auto simp: okInstr_def)
  obtain fn where fn: "map_of dispatch (strings_ToLower (ins_cmd i)) = Some fn" "fn (unwords (ins_args i)) d = Inr (ins_args i, False)"
    using dispatch_words [OF c] parse_args [OF p assms(2)] by (elim insertE emptyE) (blast intro: that)+
  then show ?thesis using splitCommand_printInstr [OF assms(1)]
    by (simp add: newNodeFromLine_def nodeOf_def)
qed

section \<open>The whole file\<close>

definition printKubefile :: "instr list \<Rightarrow> string" where
  "printKubefile is = concat (map (\<lambda>i. printInstr i @ newline) is)"

lemma scanLines_printed:
  assumes "\<forall>l \<in> set ls. CHR 0x0A \<notin> set l \<and> l \<noteq> [] \<and> last l \<noteq> CHR 0x0D \<and> length l < maxScanTokenSize"
  shows "scanLines (concat (map (\<lambda>l. l @ newline) ls)) = ls"
proof -
  have "strings_Split (concat (map (\<lambda>l. l @ newline) ls)) newline = ls @ [[]]"
    using assms
  proof (induction ls)
    case (Cons l ls)
    then show ?case using strings_Split_at_sep [of "CHR 0x0A" l] by (simp add: newline_def)
  qed (simp add: newline_def strings_Split_no_sep)
  moreover have "takeWhile (\<lambda>l. length l < maxScanTokenSize) ls = ls" "map dropCR ls = ls"
    using assms by (auto simp: takeWhile_eq_all_conv dropCR_def map_idI)
  ultimately show ?thesis by (simp only: scanLines_def Let_def last_snoc butlast_snoc if_True simp_thms)
qed

lemma unwords_chars: "list_all plainWord ws \<Longrightarrow> c \<in> set (unwords ws) \<Longrightarrow> plainChar c \<or> c = CHR '' ''"
  by (induction ws) (auto simp: unwords_Cons plainWord_def list_all_iff split: if_splits)

lemma printInstr_facts:
  assumes "okInstr i"
  shows "printInstr i \<noteq> []" "plainChar (hd (printInstr i))" "plainChar (last (printInstr i))"
    "CHR 0x0A \<notin> set (printInstr i)" "last (printInstr i) \<noteq> CHR 0x0D" "length (printInstr i) < maxScanTokenSize"
proof -
  have w: "list_all plainWord (ins_cmd i # ins_flags i @ ins_args i)"
    using assms flagWords_plain by (auto simp: okInstr_def)
  show "printInstr i \<noteq> []" "plainChar (hd (printInstr i))" "plainChar (last (printInstr i))"
    using unwords_ends [OF w] by (simp_all add: printInstr_def)
  then show "last (printInstr i) \<noteq> CHR 0x0D" by (auto simp: not_plainChar)
  show "CHR 0x0A \<notin> set (printInstr i)"
    using unwords_chars [OF w, of "CHR 0x0A"] by (auto simp: printInstr_def not_plainChar)
  show "length (printInstr i) < maxScanTokenSize" using assms by (simp add: okInstr_def)
qed


lemma directiveArg_none: "s \<noteq> [] \<Longrightarrow> hd s \<noteq> CHR ''#'' \<Longrightarrow> directiveArg key s = None"
  by (cases s) (auto simp: directiveArg_def Let_def)

lemma possibleParserDirective_instruction:
  "s \<noteq> [] \<Longrightarrow> lower_char (hd s) \<noteq> CHR ''#'' \<Longrightarrow> possibleParserDirective bh s d = Inr (d\<lparr>processingComplete := True\<rparr>)"
  by (simp add: possibleParserDirective_def tokenEscapeCommand_def tokenPlatformCommand_def directiveArg_none
      strings_ToLower_def hd_map)

lemma wordCommand_start: "strings_ToLower w \<in> set wordCommands \<Longrightarrow> w \<noteq> [] \<and> lower_char (hd w) \<noteq> CHR ''#''"
  unfolding wordCommands_def strings_ToLower_def list.set
  by (elim insertE emptyE) (auto simp: map_eq_Cons_conv)

lemma lower_hash: "lower_char (CHR ''#'') = CHR ''#''"
  by code_simp

lemma processLine_printInstr:
  assumes "okInstr i"
  shows "processLine bh d (printInstr i) True = Inr (printInstr i, d\<lparr>processingComplete := True\<rparr>)"
    "strings_TrimPrefix (printInstr i) utf8bom = printInstr i"
proof -
  note f = printInstr_facts [OF assms]
  have c: "ins_cmd i \<noteq> []" "lower_char (hd (ins_cmd i)) \<noteq> CHR ''#''"
    using wordCommand_start [of "ins_cmd i"] assms by (auto simp: okInstr_def)
  then have h: "hd (printInstr i) = hd (ins_cmd i)" by (simp add: printInstr_def unwords_Cons)
  have "CHR ''#'' \<noteq> hd (printInstr i)" using c(2) h lower_hash by auto
  then have "trimComments (printInstr i) = printInstr i"
    using f(1) by (cases "printInstr i") (auto simp: trimComments_def strings_HasPrefix_def)
  moreover have "trimWhitespace (printInstr i) = printInstr i"
    using f(1,2) by (simp add: trimWhitespace_def dropWhile_hd plainChar_simps)
  ultimately show "processLine bh d (printInstr i) True = Inr (printInstr i, d\<lparr>processingComplete := True\<rparr>)"
    using f(1) c(2) h by (simp add: processLine_def possibleParserDirective_instruction)
  show "strings_TrimPrefix (printInstr i) utf8bom = printInstr i"
    using f(1,2) by (cases "printInstr i")
      (auto simp: strings_TrimPrefix_def strings_HasPrefix_def utf8bom_def not_plainChar)
qed

lemma trimContinuation_none:
  "s \<noteq> [] \<Longrightarrow> \<not> is_blank (last s) \<Longrightarrow> last s \<noteq> escapeToken d \<Longrightarrow> trimContinuationCharacter s d = (s, True)"
  by (cases s rule: rev_cases) (auto simp: trimContinuationCharacter_def)

lemma trimContinuation_printInstr:
  assumes "okInstr i" and "escapeToken d = CHR 0x5C"
  shows "trimContinuationCharacter (printInstr i) d = (printInstr i, True)"
  using printInstr_facts [OF assms(1)] assms(2)
  by (intro trimContinuation_none) (auto simp: plainChar_simps)

fun nodesFrom :: "int \<Rightarrow> instr list \<Rightarrow> Node list" where
  "nodesFrom n [] = []"
| "nodesFrom n (i # is) = nodeOf n i # nodesFrom (n + 1) is"

lemma parse_go_printed:
  assumes "list_all okInstr is" and "escapeToken d = CHR 0x5C"
  shows "parse_go bh d (map printInstr is) n cs [] =
    Inr \<lparr>r_Children = cs @ nodesFrom (n + 1) is, r_EscapeToken = CHR 0x5C, r_Platform = platformToken d, r_Warnings = []\<rparr>"
  using assms
proof (induction "is" arbitrary: d n cs)
  case (Cons i "is")
  then have i: "okInstr i" by simp
  let ?d = "d\<lparr>processingComplete := True\<rparr>"
  have "parse_go bh d (map printInstr (i # is)) n cs [] =
      parse_go bh ?d (map printInstr is) (n + 1) (cs @ [nodeOf (n + 1) i]) []"
    using processLine_printInstr [OF i] trimContinuation_printInstr [OF i, of ?d] newNode_printInstr [OF i, of ?d]
      printInstr_facts(1) [OF i] Cons.prems(2)
    by (simp add: nodeOf_def)
  with Cons show ?case by simp
qed simp

lemma default_escape: "escapeToken (NewDefaultDirective bh) = CHR 0x5C"
  by (simp add: NewDefaultDirective_def setEscapeToken_def setPlatformToken_def backslash_def Let_def)

lemma kubefile_parse_printed:
  assumes "list_all okInstr is"
  shows "kubefile_parse bh (printKubefile is) =
    Inr \<lparr>r_Children = nodesFrom 1 is, r_EscapeToken = CHR 0x5C,
         r_Platform = platformToken (NewDefaultDirective bh), r_Warnings = []\<rparr>"
proof -
  have "\<forall>i \<in> set is. okInstr i" using assms by (simp add: list_all_iff)
  then have "scanLines (printKubefile is) = map printInstr is"
    using scanLines_printed [of "map printInstr is"] printInstr_facts
    by (auto simp: printKubefile_def comp_def)
  then show ?thesis
    using parse_go_printed [OF assms default_escape, where n = 0 and cs = "[]"]
    by (simp add: kubefile_parse_def)
qed

text \<open>
  C24. A Kubefile of instructions made of plain words, one per line, is parsed to exactly these
  instructions in order: the command in lower case, the flags before the arguments, the arguments,
  and the numbers of the lines. No instruction is lost, merged or reordered.
\<close>

theorem parse_printed_kubefile:
  assumes "list_all okInstr is"
  shows "kubefile_parse bh (printKubefile is) =
    Inr \<lparr>r_Children = nodesFrom 1 is, r_EscapeToken = CHR 0x5C,
         r_Platform = platformToken (NewDefaultDirective bh), r_Warnings = []\<rparr>"
  using assms by (rule kubefile_parse_printed)

definition demoInstrs :: "instr list" where
  "demoInstrs = [\<lparr>ins_cmd = ''FROM'', ins_flags = [''--platform=linux/amd64''], ins_args = [''kubernetes:v1.19.8'']\<rparr>,
     \<lparr>ins_cmd = ''APP'', ins_flags = [], ins_args = [''nginx'', ''local://nginx.yaml'']\<rparr>,
     \<lparr>ins_cmd = ''Launch'', ins_flags = [], ins_args = [''nginx'']\<rparr>]"

lemma parse_printed_kubefile_witness:
  "list_all okInstr demoInstrs \<and>
   kubefile_parse \<lparr>bh_GOOS = ''linux'', bh_LCOWSupported = False\<rparr> (printKubefile demoInstrs) =
     Inr \<lparr>r_Children = nodesFrom 1 demoInstrs, r_EscapeToken = CHR 0x5C, r_Platform = ''linux'', r_Warnings = []\<rparr>"
proof -
  have lower: "strings_ToLower ''FROM'' = ''from''" "strings_ToLower ''APP'' = ''app''" "strings_ToLower ''Launch'' = ''launch''"
    by code_simp+
  have ok: "list_all okInstr demoInstrs"
    by (simp add: demoInstrs_def okInstr_def plainWord_def plainChar_def flagWord_def argsStart_def printInstr_def
        maxScanTokenSize_def wordCommands_def lower)
  have "platformToken (NewDefaultDirective \<lparr>bh_GOOS = ''linux'', bh_LCOWSupported = False\<rparr>) = ''linux''"
    by code_simp
  with ok parse_printed_kubefile [OF ok] show ?thesis by simp
qed

section \<open>The exec form\<close>

definition jsonChar :: "char \<Rightarrow> bool" where
  "jsonChar c = (let n = of_char c :: nat in 32 \<le> n \<and> n \<le> 126)"

definition jsonQuote :: "string \<Rightarrow> string" where
  "jsonQuote s = [CHR 0x22] @ concat (map (\<lambda>c. if c = CHR 0x22 \<or> c = CHR 0x5C then [CHR 0x5C, c] else [c]) s) @ [CHR 0x22]"

definition jsonArray :: "string list \<Rightarrow> string" where
  "jsonArray ss = ''['' @ strings_Join (map jsonQuote ss) '', '' @ '']''"

lemma jstring_quoted:
  "list_all jsonChar s \<Longrightarrow>
   jstring acc (concat (map (\<lambda>c. if c = CHR 0x22 \<or> c = CHR 0x5C then [CHR 0x5C, c] else [c]) s) @ CHR 0x22 # r)
     = Some (acc @ s, r)"
proof (induction s arbitrary: acc)
  case (Cons c s)
  have esc: "simpleEscape (CHR 0x22) = Some (CHR 0x22)" "simpleEscape (CHR 0x5C) = Some (CHR 0x5C)"
    by (simp_all add: simpleEscape_def)
  have "\<not> (of_char c :: nat) < 0x20" using Cons.prems by (simp add: jsonChar_def Let_def)
  with Cons esc show ?case by auto
qed simp

lemma jlex_quote: "list_all jsonChar s \<Longrightarrow> jlex (jsonQuote s @ r) = TVal (JStr s) # jlex r"
  using jstring_quoted [of s "[]" r] by (simp add: jsonQuote_def jlex.simps(2) jtoken1_def jspace_def)

lemma jlex_punct: "c \<in> {CHR ''['', CHR '']'', CHR '',''} \<Longrightarrow> jlex (c # r) = TPunct c # jlex r"
  by (auto simp: jlex.simps(2) jtoken1_def jspace_def)

lemma jlex_space: "jlex (CHR '' '' # r) = jlex r"
  by (simp add: jlex.simps(2) jspace_def)

lemma jrun_elements:
  assumes "list_all (list_all jsonChar) (s # ss)" and "m = WantValue \<or> m = WantValueOrClose"
  shows "jrun m (OpenArr vs # fs) (jlex (strings_Join (map jsonQuote (s # ss)) '', '' @ '']'' @ r)) =
    jrun (AfterValue (JArr (vs @ map JStr (s # ss)))) fs (jlex r)"
  using assms
proof (induction ss arbitrary: s m vs)
  case Nil
  then show ?case by (auto simp: jlex_quote jlex_punct jstep_def jvalueStep_def jcloseStep_def)
next
  case (Cons t ss)
  have "jrun m (OpenArr vs # fs) (jlex (strings_Join (map jsonQuote (s # t # ss)) '', '' @ '']'' @ r)) =
    jrun WantValue (OpenArr (vs @ [JStr s]) # fs) (jlex (strings_Join (map jsonQuote (t # ss)) '', '' @ '']'' @ r))"
    using Cons.prems by (auto simp: jlex_quote jlex_punct jlex_space jstep_def jvalueStep_def jcloseStep_def)
  with Cons show ?case by simp
qed

lemma jrun_array:
  assumes "list_all (list_all jsonChar) ss"
  shows "jrun WantValue [] (jlex (jsonArray ss @ r)) = Some (JArr (map JStr ss), jlex r)"
proof (cases ss)
  case Nil
  then show ?thesis
    by (simp add: jsonArray_def jlex_punct jstep_def jvalueStep_def jpush_def)
next
  case (Cons s ss')
  then show ?thesis using assms jrun_elements [of s ss' WantValueOrClose "[]" "[]" r]
    by (simp add: jsonArray_def jlex_punct jstep_def jvalueStep_def jpush_def del: list.map)
qed

lemma mapR_Inr_id: "mapR f (map g xs) = Inr xs" if "\<And>x. f (g x) = Inr x"
  using that by (induction xs) auto

lemma parseJSON_array:
  assumes "list_all (list_all jsonChar) ss"
  shows "parseJSON (jsonArray ss @ r) d = Inr (ss, True)"
proof -
  have "dropWhile is_space (jsonArray ss @ r) = jsonArray ss @ r" "prefix ''['' (jsonArray ss @ r)"
    by (simp_all add: jsonArray_def is_space_def)
  moreover have "list_all jfloatsOk (map JStr ss)" by (simp add: list_all_iff)
  moreover have "json_Decode (jsonArray ss @ r) = Some (JArr (map JStr ss))"
    using jrun_array [OF assms] by (simp add: json_Decode_def)
  ultimately show ?thesis
    by (simp add: parseJSON_def strings_HasPrefix_def mapR_Inr_id)
qed

text \<open>
  A list of printable strings written in the exec form, as a JSON array, is read back as the
  list, whatever follows the array on the line; the stricter reader of APPCMDS reads the same list
  when nothing follows.
\<close>

theorem exec_form_roundtrip:
  assumes "list_all (list_all jsonChar) ss"
  shows "parseMaybeJSONToList (jsonArray ss @ r) d = Inr (ss, True) \<and>
    json_UnmarshalStrings (jsonArray ss) = Inr ss"
proof
  show "parseMaybeJSONToList (jsonArray ss @ r) d = Inr (ss, True)"
    using parseJSON_array [OF assms] by (simp add: parseMaybeJSONToList_def)
  show "json_UnmarshalStrings (jsonArray ss) = Inr ss"
    using jrun_array [OF assms, of "[]"]
    by (simp add: json_UnmarshalStrings_def json_Valid_def jsonStrings_def mapR_Inr_id)
qed

lemma exec_form_roundtrip_witness:
  "list_all (list_all jsonChar) [''kubectl apply -f a.yaml'', [CHR 0x22, CHR 0x5C]] \<and>
   parseMaybeJSONToList (jsonArray [''kubectl apply -f a.yaml'', [CHR 0x22, CHR 0x5C]] @ ''# rest'') (NewDefaultDirective \<lparr>bh_GOOS = ''linux'', bh_LCOWSupported = False\<rparr>) =
     Inr ([''kubectl apply -f a.yaml'', [CHR 0x22, CHR 0x5C]], True) \<and>
   json_UnmarshalStrings (jsonArray [''kubectl apply -f a.yaml'', [CHR 0x22, CHR 0x5C]]) =
     Inr [''kubectl apply -f a.yaml'', [CHR 0x22, CHR 0x5C]]"
proof -
  have ok: "list_all (list_all jsonChar) [''kubectl apply -f a.yaml'', [CHR 0x22, CHR 0x5C]]"
    by (simp add: jsonChar_def)
  show ?thesis using ok exec_form_roundtrip [OF ok] by blast
qed

end
