(* ===== verification/Kubefile_Properties.thy ===== *)
theory Kubefile_Properties
  imports Kubefile Kubefile_Text
begin

text \<open>
  What an accepted Kubefile guarantees: its instructions are of the supported kinds and in the
  allowed order, everything launched, given commands or given variables is an application of the
  image, and the commands, launched names and global variables are exactly those written. Then the
  ways in which a Kubefile makes the parser panic, and what is cleaned up after an error.
\<close>

section \<open>Steps that succeed\<close>

named_theorems stepS \<open>successful steps, taken apart\<close>

lemma returnS_Inr [stepS]: "returnS x r w = (y, r', w') \<longleftrightarrow> y = Inr x \<and> r' = r \<and> w' = w"
  by (auto simp: returnS_def)

lemma throwS_Inr [stepS]: "throwS e r w = (y, r', w') \<longleftrightarrow> y = Inl e \<and> r' = r \<and> w' = w"
  by (auto simp: throwS_def)

lemma bindS_Inr [stepS]:
  "bindS m f r w = (Inr y, r2, w2) \<longleftrightarrow> (\<exists>x r1 w1. m r w = (Inr x, r1, w1) \<and> f x r1 w1 = (Inr y, r2, w2))"
  by (auto simp: bindS_def split: prod.splits sum.splits)

lemma thenS_Inr [stepS]:
  "thenS m k r w = (Inr y, r2, w2) \<longleftrightarrow> (\<exists>r1 w1. m r w = (Inr (), r1, w1) \<and> k r1 w1 = (Inr y, r2, w2))"
  by (auto simp: thenS_def bindS_Inr)

lemma getS_Inr [stepS]: "getS r w = (Inr x, r', w') \<longleftrightarrow> x = r \<and> r' = r \<and> w' = w"
  by (auto simp: getS_def)

lemma modifyS_Inr [stepS]: "modifyS f r w = (Inr x, r', w') \<longleftrightarrow> r' = f r \<and> w' = w"
  by (auto simp: modifyS_def)

lemma ioS_Inr [stepS]: "ioS m r w = (Inr x, r', w') \<longleftrightarrow> r' = r \<and> m w = (Inr x, w')"
  by (auto simp: ioS_def split: prod.splits)

lemma mapErrS_Inr [stepS]: "mapErrS f m r w = (Inr x, r', w') \<longleftrightarrow> m r w = (Inr x, r', w')"
  by (auto simp: mapErrS_def split: prod.splits sum.splits gerror.splits)

lemma assignsErr_Inr [stepS]: "assignsErr m r w = (Inr x, r', w') \<longleftrightarrow> m r w = (Inr x, r', w')"
  by (auto simp: assignsErr_def split: prod.splits sum.splits gerror.splits)

lemma addLine_Inr [stepS]:
  "addLine l r w = (Inr x, r', w') \<longleftrightarrow> r' = r\<lparr>Dockerfile := mergeLines [Dockerfile r, l]\<rparr> \<and> w' = w"
  by (simp add: addLine_def stepS)

section \<open>The invariant of the result\<close>

definition appNames :: "KubefileResult \<Rightarrow> string set" where
  "appNames r = fst ` set (Applications r)"

definition result_ok :: "KubefileResult \<Rightarrow> bool" where
  "result_ok r = (set (LaunchedAppNames r) \<subseteq> appNames r \<and> fst ` set (AppCmdsMap r) \<subseteq> appNames r \<and>
     fst ` set (AppEnvMap r) \<subseteq> appNames r \<and>
     distinct (map fst (Applications r)) \<and> distinct (map fst (AppCmdsMap r)) \<and> distinct (map fst (AppEnvMap r)) \<and>
     (\<forall>(n, app) \<in> set (Applications r). NameVar app = n))"

lemma appNames_iff: "n \<in> appNames r \<longleftrightarrow> map_of (Applications r) n \<noteq> None"
  by (auto simp: appNames_def map_of_eq_None_iff)

lemma set_update_subset: "set (AList.update k v xs) \<subseteq> insert (k, v) (set xs)"
  by (induction xs) auto

lemma update_member: "distinct (map fst xs) \<Longrightarrow> p \<in> set (AList.update k v xs) \<Longrightarrow> p = (k, v) \<or> p \<in> set xs"
  using set_update_subset [of k v xs] by blast

lemma result_ok_cong:
  assumes "result_ok r" and "LaunchedAppNames r' = LaunchedAppNames r" "AppCmdsMap r' = AppCmdsMap r"
    "AppEnvMap r' = AppEnvMap r" "Applications r' = Applications r"
  shows "result_ok r'"
  using assms by (simp add: result_ok_def appNames_def)

lemma result_ok_register:
  assumes "result_ok r" and "NameVar app = n"
  shows "result_ok (r\<lparr>Applications := AList.update n app (Applications r)\<rparr>)"
proof -
  have keys: "fst ` set (AList.update n app (Applications r)) = insert n (appNames r)"
    using AList.dom_update [of n app "Applications r"] unfolding appNames_def by auto
  have "distinct (map fst (AList.update n app (Applications r)))"
    using assms(1) by (simp add: result_ok_def AList.distinct_update)
  moreover have "\<forall>(m, a) \<in> set (AList.update n app (Applications r)). NameVar a = m"
    using assms set_update_subset [of n app "Applications r"] by (auto simp: result_ok_def)
  ultimately show ?thesis using assms(1) keys by (auto simp: result_ok_def appNames_def)
qed

lemma result_ok_register_all:
  "result_ok r \<Longrightarrow> result_ok (r\<lparr>Applications := fold (\<lambda>app. AList.update (NameVar app) app) apps (Applications r)\<rparr>)"
proof (induction apps arbitrary: r)
  case (Cons app apps)
  from Cons.IH [OF result_ok_register [OF Cons.prems refl]] show ?case by simp
qed simp

section \<open>What an instruction contributes\<close>

definition rawOf :: "Node \<Rightarrow> string list" where
  "rawOf node = (if nd_Value node = ''cmd'' then [strings_Split (nd_Original node) ''CMD '' ! 1]
     else if nd_Value node = ''cmds'' then nd_Next node else [])"

definition launchOf :: "Node \<Rightarrow> string list" where
  "launchOf node = (if nd_Value node = ''launch'' then map strings_TrimSpace (nd_Next node) else [])"

definition envOf :: "Node \<Rightarrow> string list" where
  "envOf node = (if nd_Value node = ''env''
     then filter (\<lambda>e. e \<noteq> []) (strings_Split (strings_SplitN2 (nd_Original node) ''ENV '' ! 1) '' '') else [])"

text \<open>
  The effect of a successful step on the parts of the result the properties speak about: the raw
  commands, launched names and global variables it adds, and that it keeps the invariant.
\<close>

definition effect :: "string list \<Rightarrow> string list \<Rightarrow> string list \<Rightarrow> KubefileResult \<Rightarrow> KubefileResult \<Rightarrow> bool" where
  "effect raw names envs r r' = (RawCmds r' = RawCmds r @ raw \<and> LaunchedAppNames r' = LaunchedAppNames r @ names \<and>
     GlobalEnv r' = fold put_line envs (GlobalEnv r) \<and> (result_ok r \<longrightarrow> result_ok r'))"

lemma effect_id: "effect [] [] [] r (r\<lparr>Dockerfile := d\<rparr>)" "effect [] [] [] r r"
  by (auto simp: effect_def intro: result_ok_cong)

lemma effect_trans: "effect a b c r1 r2 \<Longrightarrow> effect a' b' c' r2 r3 \<Longrightarrow> effect (a @ a') (b @ b') (c @ c') r1 r3"
  by (simp add: effect_def)

lemma fetchRemote_result: "fetchRemote kp fs r w = (Inr xs, r', w') \<Longrightarrow> \<exists>dirs. r' = r\<lparr>lc_directories := dirs\<rparr>"
  unfolding fetchRemote_def by (cases "fs = []") (auto simp: stepS intro: exI [of _ "lc_directories r"])

lemma makeItAsApp_result:
  "makeItAsApp n fs r w = (Inr app, r', w') \<Longrightarrow> r' = r\<lparr>Applications := AList.update (NameVar app) app (Applications r)\<rparr>"
  unfolding makeItAsApp_def by (auto simp: stepS Let_def)

lemma processApp_result:
  assumes "processApp kp node r w = (Inr app, r', w')"
  obtains d dirs files where "r' = (r\<lparr>lc_directories := dirs, Dockerfile := d, lc_apps2Files := files\<rparr>)
    \<lparr>Applications := AList.update (NameVar app) app (Applications r)\<rparr>"
proof -
  from assms obtain n ls rs where "appWords (nd_Next node) [] [] [] = Inr (n, ls, rs)" "n \<noteq> []"
    unfolding processApp_def by (auto simp: stepS split: sum.splits prod.splits if_splits)
  with assms obtain fs r1 w1 r2 w2 fc fc' l where
    s: "fetchRemote kp rs r w = (Inr fs, r1, w1)"
    "r2 = r1\<lparr>Dockerfile := mergeLines [Dockerfile r1, l], lc_apps2Files := fc'\<rparr>"
    "makeItAsApp n fc r2 w2 = (Inr app, r', w')"
    unfolding processApp_def by (auto simp: stepS Let_def)
  from fetchRemote_result [OF s(1)] obtain dirs where "r1 = r\<lparr>lc_directories := dirs\<rparr>" ..
  with s(2) makeItAsApp_result [OF s(3)] show ?thesis by (intro that) simp
qed

lemma processApp_effect:
  assumes "processApp kp node r w = (Inr app, r', w')"
  shows "effect [] [] [] r r'"
proof -
  from assms obtain d dirs files where r': "r' = (r\<lparr>lc_directories := dirs, Dockerfile := d, lc_apps2Files := files\<rparr>)
    \<lparr>Applications := AList.update (NameVar app) app (Applications r)\<rparr>" by (rule processApp_result)
  have "result_ok r'" if "result_ok r"
    by (rule result_ok_cong [OF result_ok_register [OF that refl, of app]]) (simp_all add: r')
  then show ?thesis by (simp add: effect_def r')
qed

lemma launchNames_effect:
  "launchNames vs r w = (Inr (), r', w') \<Longrightarrow> effect [] (map strings_TrimSpace vs) [] r r'"
proof (induction vs arbitrary: r w)
  case (Cons v vs)
  let ?r = "r\<lparr>LaunchedAppNames := LaunchedAppNames r @ [strings_TrimSpace v]\<rparr>"
  from Cons.prems have v: "strings_TrimSpace v \<in> appNames r" and rest: "launchNames vs ?r w = (Inr (), r', w')"
    by (auto simp: stepS Let_def appNames_iff split: if_splits)
  from v have "effect [] [strings_TrimSpace v] [] r ?r" by (auto simp: effect_def result_ok_def appNames_def)
  from effect_trans [OF this Cons.IH [OF rest]] show ?case by simp
qed (simp add: stepS effect_id)

lemma result_ok_keyed:
  assumes "result_ok r" and "n \<in> appNames r"
  shows "result_ok (r\<lparr>AppCmdsMap := AList.update n c (AppCmdsMap r)\<rparr>)"
    "result_ok (r\<lparr>AppEnvMap := AList.update n e (AppEnvMap r)\<rparr>)"
  using assms AList.dom_update [of n c "AppCmdsMap r"] AList.dom_update [of n e "AppEnvMap r"]
  by (auto simp: result_ok_def appNames_def AList.distinct_update)

lemma processAppCmds_effect:
  assumes "processAppCmds node r w = (Inr (), r', w')"
  shows "effect [] [] [] r r'"
proof -
  from assms obtain n c where "n \<in> appNames r" "r' = r\<lparr>AppCmdsMap := AList.update n c (AppCmdsMap r)\<rparr>"
    unfolding processAppCmds_def
    by (auto simp: stepS Let_def appNames_iff split: list.splits if_splits sum.splits)
  then show ?thesis by (auto simp: effect_def result_ok_keyed)
qed

lemma processAppEnv_effect:
  assumes "processAppEnv node r w = (Inr (), r', w')"
  shows "effect [] [] [] r r'"
proof -
  from assms obtain n e where "n \<in> appNames r" "r' = r\<lparr>AppEnvMap := AList.update n e (AppEnvMap r)\<rparr>"
    unfolding processAppEnv_def
    by (auto simp: stepS Let_def appNames_iff split: if_splits prod.splits)
  then show ?thesis by (auto simp: effect_def result_ok_keyed)
qed

lemma processCNI_CSI_effect:
  "processCNI kp node r w = (Inr (), r', w') \<Longrightarrow> effect [] [] [] r r'"
  "processCSI kp node r w = (Inr (), r', w') \<Longrightarrow> effect [] [] [] r r'"
  unfolding processCNI_def processCSI_def
  by (auto simp: stepS dest!: processApp_effect intro: effect_trans [of "[]" "[]" "[]" _ _ "[]" "[]" "[]", simplified] effect_id)

lemma processKubeVersion_effect: "processKubeVersion node r w = (Inr (), r', w') \<Longrightarrow> effect [] [] [] r r'"
  unfolding processKubeVersion_def by (auto simp: stepS effect_id split: list.splits)

lemma processCopy_effect: "processCopy ke kp node r w = (Inr (), r', w') \<Longrightarrow> effect [] [] [] r r'"
  unfolding processCopy_def by (auto simp: stepS effect_id split: list.splits sum.splits)

lemma processGlobalEnv_effect:
  "processGlobalEnv node r w = (Inr (), r', w') \<Longrightarrow> nd_Value node = ''env'' \<Longrightarrow> effect [] [] (envOf node) r r'"
  unfolding processGlobalEnv_def
  by (auto simp: stepS effect_def envOf_def intro: result_ok_cong split: list.splits)

lemma processCmd_effect:
  "processCmd node r w = (Inr (), r', w') \<Longrightarrow> nd_Value node = ''cmd'' \<Longrightarrow> effect (rawOf node) [] [] r r'"
  unfolding processCmd_def
  by (auto simp: stepS effect_def rawOf_def intro: result_ok_cong split: list.splits if_splits)

lemma processCmds_effect:
  "processCmds node r w = (Inr (), r', w') \<Longrightarrow> nd_Value node = ''cmds'' \<Longrightarrow> effect (rawOf node) [] [] r r'"
  unfolding processCmds_def by (auto simp: stepS effect_def rawOf_def intro: result_ok_cong)

lemma processFrom_effect:
  assumes "processFrom ke kp node r w = (Inr (), r', w')"
  shows "effect [] [] [] r r'"
proof -
  from assms consider "r' = r" | apps where "r' = r\<lparr>Applications := fold (\<lambda>app. AList.update (NameVar app) app) apps (Applications r)\<rparr>"
    unfolding processFrom_def by (auto simp: stepS split: sum.splits list.splits if_splits)
  then show ?thesis by cases (auto simp: effect_def result_ok_register_all)
qed

lemma processOnCmd_effect:
  assumes "processOnCmd ke kp node r w = (Inr (), r', w')"
  shows "effect (rawOf node) (launchOf node) (envOf node) r r'"
proof -
  have none: "rawOf node = []" "launchOf node = []" "envOf node = []"
    if "nd_Value node \<notin> {''cmd'', ''cmds'', ''launch'', ''env''}"
    using that by (auto simp: rawOf_def launchOf_def envOf_def)
  consider "nd_Value node = ''cmd''" | "nd_Value node = ''cmds''" | "nd_Value node = ''launch''" | "nd_Value node = ''env''"
    | "nd_Value node \<notin> {''cmd'', ''cmds'', ''launch'', ''env''}" by blast
  then show ?thesis
  proof cases
    case 1
    with assms have "processCmd node r w = (Inr (), r', w')" by (simp add: processOnCmd_def)
    from processCmd_effect [OF this 1] 1 show ?thesis by (simp add: launchOf_def envOf_def)
  next
    case 2
    with assms have "processCmds node r w = (Inr (), r', w')" by (simp add: processOnCmd_def)
    from processCmds_effect [OF this 2] 2 show ?thesis by (simp add: launchOf_def envOf_def)
  next
    case 3
    with assms have "launchNames (nd_Next node) r w = (Inr (), r', w')" by (simp add: processOnCmd_def processLaunch_def)
    from launchNames_effect [OF this] 3 show ?thesis by (simp add: rawOf_def launchOf_def envOf_def)
  next
    case 4
    with assms obtain d where "processGlobalEnv node (r\<lparr>Dockerfile := d\<rparr>) w = (Inr (), r', w')"
      by (auto simp: processOnCmd_def stepS)
    from effect_trans [OF effect_id(1) processGlobalEnv_effect [OF this 4]] 4
    show ?thesis by (simp add: rawOf_def launchOf_def)
  next
    case 5
    have "effect [] [] [] r r'"
      using assms 5 unfolding processOnCmd_def Let_def
      by (auto simp: stepS effect_id split: if_splits dest: processApp_effect processAppEnv_effect processAppCmds_effect
          processCNI_CSI_effect processKubeVersion_effect processCopy_effect)
    with none [OF 5] show ?thesis by simp
  qed
qed

section \<open>The loop over the instructions\<close>

definition runs_cmd :: "Node list \<Rightarrow> bool" where
  "runs_cmd nodes = (\<exists>n \<in> set nodes. nd_Value n = ''cmd'')"

definition launches :: "Node list \<Rightarrow> bool" where
  "launches nodes = (\<exists>n \<in> set nodes. nd_Value n = ''launch'')"

definition well_ordered :: "Node list \<Rightarrow> bool" where
  "well_ordered nodes = ((\<forall>n \<in> set nodes. nd_Value n \<in> set SupportedCommands) \<and>
     (\<forall>n \<in> set (butlast nodes). nd_Value n \<notin> {''launch'', ''cmds''}))"

lemma well_ordered_Cons:
  assumes "well_ordered nodes" and "nd_Value node \<in> set SupportedCommands"
    and "nd_Value node \<in> {''launch'', ''cmds''} \<longrightarrow> nodes = []"
  shows "well_ordered (node # nodes)"
proof -
  have "set (butlast (node # nodes)) = (if nodes = [] then {} else insert node (set (butlast nodes)))" by simp
  with assms show ?thesis unfolding well_ordered_def by (metis empty_iff insert_iff list.set(2))
qed

lemma countCommand_Inr:
  assumes "countCommand cmd isLast (l, c, m) = Inr (l', c', m')"
  shows "cmd \<in> set SupportedCommands" "cmd \<in> {''launch'', ''cmds''} \<longrightarrow> isLast"
    "m' = (if cmd = ''cmd'' then Suc m else m)" "l' = (if cmd = ''launch'' then Suc l else l)" "cmd = ''launch'' \<longrightarrow> l' = 1"
  using assms by (auto simp: countCommand_def split: if_splits)

lemma commandLoop_step:
  assumes "commandLoop ke kp (l, c, m) (node # nodes) r w = (Inr (), r', w')"
  obtains l' c' m' r1 w1 where "countCommand (nd_Value node) (nodes = []) (l, c, m) = Inr (l', c', m')"
    "\<not> (1 \<le> m' \<and> l' = 1)" "effect (rawOf node) (launchOf node) (envOf node) r r1"
    "commandLoop ke kp (l', c', m') nodes r1 w1 = (Inr (), r', w')"
proof -
  from assms obtain l' c' m' r0 w0 r1 w1 where s: "countCommand (nd_Value node) (nodes = []) (l, c, m) = Inr (l', c', m')"
    "fromFirst ke kp node r w = (Inr (), r0, w0)" "\<not> (1 \<le> m' \<and> l' = 1)"
    "processOnCmd ke kp node r0 w0 = (Inr (), r1, w1)" "commandLoop ke kp (l', c', m') nodes r1 w1 = (Inr (), r', w')"
    by (simp add: stepS split: sum.splits prod.splits if_splits) blast
  from s(2) have "effect [] [] [] r r0"
    by (auto simp: fromFirst_def stepS effect_id processFrom_effect split: if_splits)
  from effect_trans [OF this processOnCmd_effect [OF s(4)]] s show ?thesis by (intro that) auto
qed

lemma commandLoop_effect:
  assumes "commandLoop ke kp (l, c, m) nodes r w = (Inr (), r', w')" and "\<not> (1 \<le> m \<and> l = 1)"
  shows "effect (concat (map rawOf nodes)) (concat (map launchOf nodes)) (concat (map envOf nodes)) r r' \<and>
    well_ordered nodes \<and> \<not> ((1 \<le> m \<or> runs_cmd nodes) \<and> (l = 1 \<or> launches nodes))"
  using assms
proof (induction nodes arbitrary: l c m r w)
  case Nil
  then show ?case by (simp add: stepS effect_id well_ordered_def runs_cmd_def launches_def)
next
  case (Cons node nodes)
  from Cons.prems(1) obtain l' c' m' r1 w1 where s:
    "countCommand (nd_Value node) (nodes = []) (l, c, m) = Inr (l', c', m')" "\<not> (1 \<le> m' \<and> l' = 1)"
    "effect (rawOf node) (launchOf node) (envOf node) r r1" "commandLoop ke kp (l', c', m') nodes r1 w1 = (Inr (), r', w')"
    by (rule commandLoop_step)
  note IH = Cons.IH [OF s(4,2)] and cnt = countCommand_Inr [OF s(1)]
  have "well_ordered (node # nodes)" using IH cnt(1,2) by (blast intro: well_ordered_Cons)
  moreover have "1 \<le> m \<or> runs_cmd (node # nodes) \<Longrightarrow> 1 \<le> m' \<or> runs_cmd nodes"
    "l = 1 \<or> launches (node # nodes) \<Longrightarrow> l' = 1 \<or> launches nodes"
    using cnt(3,4,5) by (auto simp: runs_cmd_def launches_def)
  moreover have "effect (concat (map rawOf (node # nodes))) (concat (map launchOf (node # nodes))) (concat (map envOf (node # nodes))) r r'"
    using effect_trans [OF s(3)] IH by simp
  ultimately show ?case using IH by blast
qed

lemma registerWith_effect:
  assumes "registerWith f xs r w = (Inr (), r', w')" and "distinct (map fst xs)" and "distinct (map fst (Applications r))"
  shows "\<exists>apps. r' = r\<lparr>Applications := apps\<rparr> \<and> distinct (map fst apps) \<and>
    map_of apps = (\<lambda>n. map_option (\<lambda>app. case map_of xs n of None \<Rightarrow> app | Some x \<Rightarrow> f x app) (map_of (Applications r) n))"
  using assms
proof (induction xs arbitrary: r w)
  case Nil
  then show ?case by (auto simp: stepS option.map_ident intro!: exI [of _ "Applications r"])
next
  case (Cons p xs)
  obtain k x where p: "p = (k, x)" by (cases p)
  from Cons.prems(1) obtain app where app: "map_of (Applications r) k = Some app" and
    rest: "registerWith f xs (r\<lparr>Applications := AList.update k (f x app) (Applications r)\<rparr>) w = (Inr (), r', w')"
    by (auto simp: p stepS split: option.splits)
  have d: "distinct (map fst xs)" "distinct (map fst (AList.update k (f x app) (Applications r)))"
    "map_of xs k = None" using Cons.prems by (auto simp: p AList.distinct_update map_of_eq_None_iff)
  from Cons.IH [OF rest d(1)] d(2) obtain apps where
    "r' = r\<lparr>Applications := apps\<rparr>" "distinct (map fst apps)" and
    m: "map_of apps = (\<lambda>n. map_option (\<lambda>app. case map_of xs n of None \<Rightarrow> app | Some x \<Rightarrow> f x app)
      (map_of (AList.update k (f x app) (Applications r)) n))" by auto
  moreover have "map_of apps n = map_option (\<lambda>app. case map_of (p # xs) n of None \<Rightarrow> app | Some x \<Rightarrow> f x app) (map_of (Applications r) n)" for n
    using app d(3) unfolding m p by (simp add: AList.update_conv')
  ultimately show ?case by auto
qed

section \<open>Accepted Kubefiles\<close>

lemma checkApps_Inr:
  assumes "checkApps order r w = (Inr (), r', w')" and "\<And>ns. set (order ns) = set ns"
  shows "r' = r \<and> (\<forall>n app. map_of (Applications r) n = Some app \<longrightarrow> TypeVar app \<noteq> [] \<or> map_of (AppCmdsMap r) n \<noteq> None)"
proof -
  let ?P = "\<lambda>n. (case map_of (Applications r) n of None \<Rightarrow> False | Some app \<Rightarrow> TypeVar app = []) \<and> map_of (AppCmdsMap r) n = None"
  from assms(1) have "r' = r" "find ?P (order (map fst (Applications r))) = None"
    by (auto simp: checkApps_def stepS split: option.splits)
  then have "\<forall>n \<in> set (map fst (Applications r)). \<not> ?P n" by (auto simp: find_None_iff assms(2))
  moreover have "n \<in> set (map fst (Applications r))" if "map_of (Applications r) n = Some app" for n app
    using map_of_SomeD [OF that] by force
  ultimately show ?thesis using \<open>r' = r\<close> by fastforce
qed

lemma result_ok_emptyResult: "result_ok emptyResult"
  by (simp add: result_ok_def emptyResult_def)

text \<open>A successful run, taken apart: the instructions, the check of the types, and the two registrations.\<close>

lemma generateResult_cases:
  assumes "generateResult ke kp order nodes w = (Inr r, w')" and "\<And>ns. set (order ns) = set ns"
  obtains r0 apps where "effect (concat (map rawOf nodes)) (concat (map launchOf nodes)) (concat (map envOf nodes)) emptyResult r0"
    "well_ordered nodes" "\<not> (runs_cmd nodes \<and> launches nodes)" "result_ok r0"
    "\<forall>n app. map_of (Applications r0) n = Some app \<longrightarrow> TypeVar app \<noteq> [] \<or> map_of (AppCmdsMap r0) n \<noteq> None"
    "r = r0\<lparr>Applications := apps\<rparr>" "map_of apps = (\<lambda>n. map_option (\<lambda>app.
        case map_of (AppCmdsMap r0) n of None \<Rightarrow> (case map_of (AppEnvMap r0) n of None \<Rightarrow> app | Some e \<Rightarrow> SetEnv e app)
        | Some c \<Rightarrow> SetCmds c (case map_of (AppEnvMap r0) n of None \<Rightarrow> app | Some e \<Rightarrow> SetEnv e app))
      (map_of (Applications r0) n))"
proof -
  from assms(1) have "resultSteps ke kp order nodes emptyResult w = (Inr (), r, w')"
    by (auto simp: generateResult_def split: prod.splits sum.splits)
  then obtain r0 w0 r1 w1 r2 w2 where s: "commandLoop ke kp (0, 0, 0) nodes emptyResult w = (Inr (), r0, w0)"
    "checkApps order r0 w0 = (Inr (), r1, w1)" "registerWith SetEnv (AppEnvMap r1) r1 w1 = (Inr (), r2, w2)"
    "registerWith SetCmds (AppCmdsMap r2) r2 w2 = (Inr (), r, w')"
    by (auto simp: resultSteps_def stepS)
  have loop: "effect (concat (map rawOf nodes)) (concat (map launchOf nodes)) (concat (map envOf nodes)) emptyResult r0"
    "well_ordered nodes" "\<not> (runs_cmd nodes \<and> launches nodes)"
    using commandLoop_effect [OF s(1)] by auto
  have ok: "result_ok r0" using loop(1) result_ok_emptyResult by (simp add: effect_def)
  note check = checkApps_Inr [OF s(2) assms(2)]
  from registerWith_effect [OF s(3)] ok check obtain apps1 where e: "r2 = r0\<lparr>Applications := apps1\<rparr>" "distinct (map fst apps1)"
    "map_of apps1 = (\<lambda>n. map_option (\<lambda>app. case map_of (AppEnvMap r0) n of None \<Rightarrow> app | Some x \<Rightarrow> SetEnv x app) (map_of (Applications r0) n))"
    by (auto simp: result_ok_def)
  from registerWith_effect [OF s(4)] ok e obtain apps where "r = r0\<lparr>Applications := apps\<rparr>"
    "map_of apps = (\<lambda>n. map_option (\<lambda>app. case map_of (AppCmdsMap r0) n of None \<Rightarrow> app | Some x \<Rightarrow> SetCmds x app) (map_of apps1 n))"
    by (auto simp: result_ok_def)
  with e(3) show ?thesis by (intro that [OF loop ok conjunct2 [OF check], of apps]) (simp_all add: option.map_comp comp_def)
qed

text \<open>
  C17. The parser accepts a Kubefile only if every instruction is supported, LAUNCH and CMDS come last,
  and CMD and LAUNCH do not both occur. Then everything launched and every application given
  commands or variables is an application of the image, every application has a detected type or
  commands of its own, and carries exactly the commands and variables the Kubefile gives it.
\<close>

theorem accepted_kubefile_consistent:
  assumes "generateResult ke kp order nodes w = (Inr r, w')" and "\<And>ns. set (order ns) = set ns"
  shows "well_ordered nodes \<and> \<not> (runs_cmd nodes \<and> launches nodes) \<and>
    set (LaunchedAppNames r) \<subseteq> appNames r \<and> fst ` set (AppCmdsMap r) \<subseteq> appNames r \<and> fst ` set (AppEnvMap r) \<subseteq> appNames r \<and>
    (\<forall>n app. map_of (Applications r) n = Some app \<longrightarrow> NameVar app = n \<and>
       (TypeVar app \<noteq> [] \<or> map_of (AppCmdsMap r) n \<noteq> None) \<and>
       (\<forall>c. map_of (AppCmdsMap r) n = Some c \<longrightarrow> AppCMDs app = c) \<and>
       (\<forall>e. map_of (AppEnvMap r) n = Some e \<longrightarrow> AppEnv app = e))"
proof -
  from assms obtain r0 apps where g: "effect (concat (map rawOf nodes)) (concat (map launchOf nodes)) (concat (map envOf nodes)) emptyResult r0"
    "well_ordered nodes" "\<not> (runs_cmd nodes \<and> launches nodes)" "result_ok r0"
    "\<forall>n app. map_of (Applications r0) n = Some app \<longrightarrow> TypeVar app \<noteq> [] \<or> map_of (AppCmdsMap r0) n \<noteq> None"
    "r = r0\<lparr>Applications := apps\<rparr>" and m: "map_of apps = (\<lambda>n. map_option (\<lambda>app.
        case map_of (AppCmdsMap r0) n of None \<Rightarrow> (case map_of (AppEnvMap r0) n of None \<Rightarrow> app | Some e \<Rightarrow> SetEnv e app)
        | Some c \<Rightarrow> SetCmds c (case map_of (AppEnvMap r0) n of None \<Rightarrow> app | Some e \<Rightarrow> SetEnv e app))
      (map_of (Applications r0) n))" by (rule generateResult_cases)
  have names: "appNames r = appNames r0" using m by (auto simp: appNames_iff g(6))
  have "NameVar app = n" if "map_of (Applications r0) n = Some app" for n app
    using g(4) map_of_SomeD [OF that] by (auto simp: result_ok_def)
  then have "NameVar app = n \<and> (TypeVar app \<noteq> [] \<or> map_of (AppCmdsMap r0) n \<noteq> None) \<and>
       (\<forall>c. map_of (AppCmdsMap r0) n = Some c \<longrightarrow> AppCMDs app = c) \<and>
       (\<forall>e. map_of (AppEnvMap r0) n = Some e \<longrightarrow> AppEnv app = e)" if "map_of apps n = Some app" for n app
    using that g(5) unfolding m
    by (cases "map_of (AppCmdsMap r0) n"; cases "map_of (AppEnvMap r0) n") (fastforce simp: SetEnv_def SetCmds_def)+
  with g names show ?thesis by (simp add: result_ok_def)
qed

text \<open>
  C25. The commands to run, the applications to launch and the global variables of an accepted
  Kubefile are exactly those its instructions contribute, in their order; of the variables the last
  assignment counts.
\<close>

theorem accepted_kubefile_contents:
  assumes "generateResult ke kp order nodes w = (Inr r, w')" and "\<And>ns. set (order ns) = set ns"
  shows "RawCmds r = concat (map rawOf nodes) \<and> LaunchedAppNames r = concat (map launchOf nodes) \<and>
    GlobalEnv r = ConvertStringSliceToMap (concat (map envOf nodes))"
proof -
  obtain r0 apps where
    "effect (concat (map rawOf nodes)) (concat (map launchOf nodes)) (concat (map envOf nodes)) emptyResult r0"
    "r = r0\<lparr>Applications := apps\<rparr>" using generateResult_cases [OF assms] by blast
  then show ?thesis by (simp add: effect_def emptyResult_def ConvertStringSliceToMap_def)
qed

subsection \<open>An example\<close>

definition demoEngine :: engine where
  "demoEngine = \<lparr>ke_DefaultPlatform = ''linux/amd64'', ke_Platform = (\<lambda>_. Inr (''linux'', ''amd64'', [])),
     ke_ProcessWordWithMap = (\<lambda>s _. Inr s), ke_Pull = (\<lambda>_ _ _. returnE ''id''), ke_Inspect = (\<lambda>_. returnE [])\<rparr>"

definition demoParser :: KubefileParser where
  "demoParser = NewParser ''application/apps'' ''.'' ''missing'' ''linux/amd64''"

definition demoNodes :: "Node list" where
  "demoNodes = nodesFrom 1
     [\<lparr>ins_cmd = ''FROM'', ins_flags = [], ins_args = [''scratch'']\<rparr>,
      \<lparr>ins_cmd = ''ENV'', ins_flags = [], ins_args = [''x=1'', ''y=2'']\<rparr>,
      \<lparr>ins_cmd = ''APP'', ins_flags = [], ins_args = [''nginx'', ''local://nginx.yaml'']\<rparr>,
      \<lparr>ins_cmd = ''APPENV'', ins_flags = [], ins_args = [''nginx'', ''port=80'']\<rparr>,
      \<lparr>ins_cmd = ''LAUNCH'', ins_flags = [], ins_args = [''nginx'']\<rparr>]"

lemma demo_accepted:
  "\<exists>r w'. generateResult demoEngine demoParser (\<lambda>ns. ns) demoNodes calmWorld = (Inr r, w') \<and>
     map_option TypeVar (map_of (Applications r) ''nginx'') = Some KubeApp"
proof -
  have "(case generateResult demoEngine demoParser (\<lambda>ns. ns) demoNodes calmWorld of (x, _) \<Rightarrow>
      case x of Inl _ \<Rightarrow> False | Inr r \<Rightarrow> map_option TypeVar (map_of (Applications r) ''nginx'') = Some KubeApp)"
    by code_simp
  then show ?thesis by (auto split: prod.splits sum.splits)
qed

lemma accepted_kubefile_consistent_witness:
  "\<exists>r w'. generateResult demoEngine demoParser (\<lambda>ns. ns) demoNodes calmWorld = (Inr r, w') \<and>
     set (LaunchedAppNames r) \<subseteq> appNames r \<and>
     (\<exists>app. map_of (Applications r) ''nginx'' = Some app \<and> TypeVar app = KubeApp \<and> NameVar app = ''nginx'')"
proof -
  from demo_accepted obtain r w' app where g: "generateResult demoEngine demoParser (\<lambda>ns. ns) demoNodes calmWorld = (Inr r, w')"
    "map_of (Applications r) ''nginx'' = Some app" "TypeVar app = KubeApp" by auto
  from accepted_kubefile_consistent [OF g(1)] g show ?thesis by auto
qed

lemma accepted_kubefile_contents_witness:
  "\<exists>r w'. generateResult demoEngine demoParser (\<lambda>ns. ns) demoNodes calmWorld = (Inr r, w') \<and>
     RawCmds r = [] \<and> LaunchedAppNames r = [''nginx''] \<and> GlobalEnv r = [(''x'', ''1''), (''y'', ''2'')]"
proof -
  from demo_accepted obtain r w' where g: "generateResult demoEngine demoParser (\<lambda>ns. ns) demoNodes calmWorld = (Inr r, w')" by auto
  have "concat (map rawOf demoNodes) = []" "concat (map launchOf demoNodes) = [''nginx'']"
    "ConvertStringSliceToMap (concat (map envOf demoNodes)) = [(''x'', ''1''), (''y'', ''2'')]"
    by code_simp+
  with accepted_kubefile_contents [OF g] g show ?thesis by auto
qed

section \<open>Panics\<close>

lemma ParseKubefile_single:
  assumes "okInstr i"
  shows "ParseKubefile bh ke kp order (printKubefile [i]) = generateResult ke kp order [nodeOf 1 i]"
  using kubefile_parse_printed [of "[i]" bh] assms by (simp add: ParseKubefile_def)

lemma generateResult_panics:
  assumes "countCommand (nd_Value node) True (0, 0, 0) = Inr (0, 0, m)" and "nd_Value node \<noteq> ''from''"
    and "processOnCmd ke kp node emptyResult w = (Inl (Panic p), emptyResult, w)"
  shows "generateResult ke kp order [node] w = (Inl (Panic p), w)"
  using assms
  by (simp add: generateResult_def resultSteps_def thenS_def bindS_def fromFirst_def returnS_def assignsErr_def)

text \<open>
  The spelling of a command is normalised by the parser, but CMD is cut out of the original line
  in upper case: a CMD instruction written in any other way makes the parser panic, and so does
  APPCMDS without arguments.
\<close>

theorem cmd_spelling_panics:
  assumes "okInstr i"
    and "(strings_ToLower (ins_cmd i) = ''cmd'' \<and> \<not> strings_Contains (printInstr i) ''CMD '') \<or>
         (strings_ToLower (ins_cmd i) = ''appcmds'' \<and> ins_args i = [])"
  shows "\<exists>p. ParseKubefile bh ke kp order (printKubefile [i]) w = (Inl (Panic p), w)"
proof -
  have "\<exists>m p. countCommand (nd_Value (nodeOf 1 i)) True (0, 0, 0) = Inr (0, 0, m) \<and> nd_Value (nodeOf 1 i) \<noteq> ''from'' \<and>
    processOnCmd ke kp (nodeOf 1 i) emptyResult w = (Inl (Panic p), emptyResult, w)"
    using assms(2)
  proof
    assume "strings_ToLower (ins_cmd i) = ''cmd'' \<and> \<not> strings_Contains (printInstr i) ''CMD ''"
    then show ?thesis
      by (simp add: nodeOf_def countCommand_def SupportedCommands_def processOnCmd_def processCmd_def strings_Split_none throwS_def)
  next
    assume "strings_ToLower (ins_cmd i) = ''appcmds'' \<and> ins_args i = []"
    then show ?thesis
      by (simp add: nodeOf_def countCommand_def SupportedCommands_def processOnCmd_def processAppCmds_def throwS_def)
  qed
  then show ?thesis using generateResult_panics ParseKubefile_single [OF assms(1)] by metis
qed

lemma cmd_spelling_panics_witness:
  "\<exists>p. ParseKubefile \<lparr>bh_GOOS = ''linux'', bh_LCOWSupported = False\<rparr> demoEngine demoParser (\<lambda>ns. ns)
     (printKubefile [\<lparr>ins_cmd = ''cmd'', ins_flags = [], ins_args = [''ls'']\<rparr>]) calmWorld = (Inl (Panic p), calmWorld)"
proof (rule cmd_spelling_panics)
  have lower: "strings_ToLower ''cmd'' = ''cmd''" by code_simp
  show "okInstr \<lparr>ins_cmd = ''cmd'', ins_flags = [], ins_args = [''ls'']\<rparr>"
    by (simp add: okInstr_def plainWord_def plainChar_def argsStart_def printInstr_def maxScanTokenSize_def wordCommands_def lower)
  show "(strings_ToLower (ins_cmd \<lparr>ins_cmd = ''cmd'', ins_flags = [], ins_args = [''ls'']\<rparr>) = ''cmd'' \<and>
      \<not> strings_Contains (printInstr \<lparr>ins_cmd = ''cmd'', ins_flags = [], ins_args = [''ls'']\<rparr>) ''CMD '') \<or>
    (strings_ToLower (ins_cmd \<lparr>ins_cmd = ''cmd'', ins_flags = [], ins_args = [''ls'']\<rparr>) = ''appcmds'' \<and>
      ins_args \<lparr>ins_cmd = ''cmd'', ins_flags = [], ins_args = [''ls'']\<rparr> = [])"
    by (simp add: lower printInstr_def)
qed

end
