(* ===== verification/Taints.thy ===== *)
theory Taints
  imports Cluster_Types
begin

text \<open>
  Model of \<^verbatim>\<open>pkg/infradriver/utils.go\<close>: the parser of a host's taint arguments and the
  deletion of taints from a node.
\<close>

definition TaintEffectValues :: "string list" where
  "TaintEffectValues = [''NoSchedule'', ''NoExecute'', ''PreferNoSchedule'']"

definition notInEffect :: "string \<Rightarrow> string list \<Rightarrow> bool" where
  "notInEffect effect effects = (\<not> list_ex (\<lambda>e. e = effect) effects)"

text \<open>
  The switch of \<^verbatim>\<open>formatData\<close>: the key, value and effect of the trimmed argument, in the
  source's case order; an argument that matches no case has all three empty.
\<close>

definition splitTaint :: "string \<Rightarrow> (string \<times> string \<times> string) res" where
  "splitTaint data =
     (if strings_Contains data ''='' \<and> \<not> strings_Contains data ''=:'' \<and> \<not> strings_Contains data ''-'' then
        (let temps = strings_Split data ''='' in
         if length temps \<noteq> 2 then Inl (Errorf ''faild to split taint argument: %s'' [data])
         else (let taintArgs = strings_Split (temps ! 1) '':'' in
           if length taintArgs \<noteq> 2 then Inl (Errorf ''error: invalid taint data: %s'' [data])
           else Inr (temps ! 0, taintArgs ! 0, strings_TrimSuffix (taintArgs ! 1) ''-'')))
      else if \<not> strings_Contains data ''='' \<and> strings_Contains data '':'' \<and> \<not> strings_Contains data ''-'' then
        (let temps = strings_Split data '':'' in
         if length temps \<noteq> 2 then Inl (Errorf ''faild to split taint argument: %s'' [data])
         else Inr (temps ! 0, [], temps ! 1))
      else if strings_Contains data ''=:'' \<and> \<not> strings_Contains data ''-'' then
        (let temps = strings_Split data ''=:'' in
         if length temps \<noteq> 2 then Inl (Errorf ''faild to split taint argument: %s'' [data])
         else Inr (temps ! 0, [], temps ! 1))
      else if strings_Contains data ''-'' \<and> \<not> strings_Contains data ''='' \<and> \<not> strings_Contains data '':'' then
        Inr (data, [], [])
      else if strings_Contains data ''-'' \<and> \<not> strings_Contains data ''='' \<and> strings_Contains data '':'' then
        (let temps = strings_Split data '':'' in
         if length temps \<noteq> 2 then Inl (Errorf ''faild to split taint argument: %s'' [data])
         else Inr (temps ! 0, [], temps ! 1))
      else Inr ([], [], []))"

definition formatData :: "string \<Rightarrow> Taint res" where
  "formatData data0 =
     (let data = strings_TrimSpace data0 in
      bindR (splitTaint data) (\<lambda>(key, val, effect).
        if effect \<noteq> [] \<and> notInEffect (strings_TrimSuffix effect ''-'') TaintEffectValues
        then Inl (Errorf ''taint effect %s need in %v'' [data, strings_Join TaintEffectValues '' ''])
        else Inr \<lparr>t_Key = key, t_Value = val, t_Effect = effect\<rparr>))"

definition convertTaints :: "string list \<Rightarrow> Taint list res" where
  "convertTaints taints = mapR formatData taints"

definition MatchTaint :: "Taint \<Rightarrow> Taint \<Rightarrow> bool" where
  "MatchTaint t u = (t_Key t = t_Key u \<and> t_Effect t = t_Effect u)"

definition DeleteTaintsByKey :: "Taint list \<Rightarrow> string \<Rightarrow> Taint list \<times> bool" where
  "DeleteTaintsByKey taints taintKey =
     (let newTaints = filter (\<lambda>t. \<not> taintKey = t_Key t) taints
      in (newTaints, length taints \<noteq> length newTaints))"

definition DeleteTaint :: "Taint list \<Rightarrow> Taint \<Rightarrow> Taint list \<times> bool" where
  "DeleteTaint taints taintToDelete =
     (let newTaints = filter (\<lambda>t. \<not> MatchTaint taintToDelete t) taints
      in (newTaints, length taints \<noteq> length newTaints))"

section \<open>Lemmas\<close>

lemma formatData_effect:
  "formatData s = Inr t \<Longrightarrow>
    t_Effect t = [] \<or> strings_TrimSuffix (t_Effect t) ''-'' \<in> set TaintEffectValues"
  by (auto simp: formatData_def bindR_Inr_iff Let_def notInEffect_def list_ex_iff split: if_splits)

lemma DeleteTaintsByKey_spec:
  "snd (DeleteTaintsByKey ts k) \<longleftrightarrow> (\<exists>t \<in> set ts. t_Key t = k)"
  "k \<notin> t_Key ` set (fst (DeleteTaintsByKey ts k))"
proof -
  have "length ts = length (filter P ts) \<longleftrightarrow> (\<forall>t \<in> set ts. P t)" for P
    by (metis filter_id_conv length_filter_less less_not_refl)
  then show "snd (DeleteTaintsByKey ts k) \<longleftrightarrow> (\<exists>t \<in> set ts. t_Key t = k)"
    by (auto simp: DeleteTaintsByKey_def Let_def)
qed (auto simp: DeleteTaintsByKey_def Let_def)

lemma set_char_noteq: "c \<notin> set s \<Longrightarrow> prefix [c, d] s = False"
  by (auto simp: prefix_def)

lemma Contains2_no_first: "c \<notin> set s \<Longrightarrow> \<not> strings_Contains s [c, d]"
  by (induction s) auto

text \<open>The key and the effect of a well-formed argument, and its delimiters.\<close>

definition plain :: "string \<Rightarrow> bool" where
  "plain s = (\<forall>c \<in> set s. c \<noteq> CHR ''='' \<and> c \<noteq> CHR '':'' \<and> c \<noteq> CHR ''-'' \<and> \<not> is_space c)"

lemma plain_chars: "plain s \<Longrightarrow> CHR ''='' \<notin> set s" "plain s \<Longrightarrow> CHR '':'' \<notin> set s" "plain s \<Longrightarrow> CHR ''-'' \<notin> set s"
  by (auto simp: plain_def)

lemma TrimSpace_no_space: "\<forall>c \<in> set s. \<not> is_space c \<Longrightarrow> strings_TrimSpace s = s"
proof -
  assume "\<forall>c \<in> set s. \<not> is_space c"
  then have "dropWhile is_space s = s" "dropWhile is_space (rev s) = rev s"
    by (metis dropWhile_eq_self_iff hd_in_set set_rev)+
  then show ?thesis by (simp add: strings_TrimSpace_def)
qed

lemma effects_plain: "e \<in> set TaintEffectValues \<Longrightarrow> plain e \<and> e \<noteq> []"
  by (auto simp: TaintEffectValues_def plain_def is_space_def)

lemma TrimSuffix_absent: "CHR ''-'' \<notin> set s \<Longrightarrow> strings_TrimSuffix s ''-'' = s"
  by (cases s rule: rev_cases) (auto simp: strings_TrimSuffix_def strings_HasSuffix_def)

lemma TrimSuffix_present: "strings_TrimSuffix (s @ ''-'') ''-'' = s"
  by (simp add: strings_TrimSuffix_def strings_HasSuffix_def)

lemma Contains_pair_at: "c \<notin> set s \<Longrightarrow> strings_Contains (s @ c # d # t) [c, d]"
  by (induction s) auto

lemma Contains_pair_not:
  "c \<notin> set s \<Longrightarrow> c \<notin> set t \<Longrightarrow> t = [] \<or> hd t \<noteq> d \<Longrightarrow> \<not> strings_Contains (s @ c # t) [c, d]"
  by (induction s) (auto simp: Contains2_no_first, auto simp: prefix_def)

lemma split_go_pair:
  "c \<notin> set s \<Longrightarrow> split_go [c, d] acc (s @ c # d # t) = (rev acc @ s) # split_go [c, d] [] t"
  by (induction s arbitrary: acc) auto

lemma split_go_pair_absent: "c \<notin> set s \<Longrightarrow> split_go [c, d] acc s = [rev acc @ s]"
  by (induction s arbitrary: acc) auto

lemma formatData_split:
  "\<forall>c \<in> set s. \<not> is_space c \<Longrightarrow> splitTaint s = Inr (k, v, e) \<Longrightarrow>
    e = [] \<or> strings_TrimSuffix e ''-'' \<in> set TaintEffectValues \<Longrightarrow>
    formatData s = Inr \<lparr>t_Key = k, t_Value = v, t_Effect = e\<rparr>"
  by (auto simp: formatData_def TrimSpace_no_space notInEffect_def list_ex_iff)

lemma delims_no_space: "\<not> is_space (CHR ''='')" "\<not> is_space (CHR '':'')" "\<not> is_space (CHR ''-'')"
  by (simp_all add: is_space_def)

lemma plain_no_space: "plain s \<Longrightarrow> \<forall>c \<in> set s. \<not> is_space c"
  by (simp add: plain_def)

lemmas splitTaint_simps = splitTaint_def strings_Contains_char strings_Split_at_sep strings_Split_no_sep

lemma splitTaint_value:
  assumes "plain key" "plain val" "val \<noteq> []" "plain effect"
  shows "splitTaint (key @ CHR ''='' # val @ CHR '':'' # effect) = Inr (key, val, effect)"
proof -
  note c = assms(1,2,4) [THEN plain_chars(1)] assms(1,2,4) [THEN plain_chars(2)] assms(1,2,4) [THEN plain_chars(3)]
  have "hd (val @ CHR '':'' # effect) \<noteq> CHR '':''" using c assms(3) by (cases val) auto
  then have "\<not> strings_Contains (key @ CHR ''='' # val @ CHR '':'' # effect) ''=:''"
    using c by (intro Contains_pair_not) simp_all
  with c show ?thesis by (simp add: splitTaint_simps TrimSuffix_absent)
qed

lemma splitTaint_key_effect:
  assumes "plain key" "plain effect"
  shows "splitTaint (key @ CHR '':'' # effect) = Inr (key, [], effect)"
    and "splitTaint (key @ CHR '':'' # effect @ ''-'') = Inr (key, [], effect @ ''-'')"
    and "splitTaint (key @ ''-'') = Inr (key @ ''-'', [], [])"
  using assms(1,2) [THEN plain_chars(1)] assms(1,2) [THEN plain_chars(2)] assms(1,2) [THEN plain_chars(3)]
  by (simp_all add: splitTaint_simps Contains2_no_first)

lemma splitTaint_empty_value:
  assumes "plain key" "plain effect"
  shows "splitTaint (key @ CHR ''='' # CHR '':'' # effect) = Inr (key, [], effect)"
proof -
  note c = assms(1,2) [THEN plain_chars(1)] assms(1,2) [THEN plain_chars(2)] assms(1,2) [THEN plain_chars(3)]
  have "strings_Contains (key @ CHR ''='' # CHR '':'' # effect) ''=:''"
    using c by (intro Contains_pair_at) simp
  moreover have "strings_Split (key @ CHR ''='' # CHR '':'' # effect) ''=:'' = [key, effect]"
    using c by (simp add: strings_Split_def split_go_pair split_go_pair_absent)
  ultimately show ?thesis using c by (simp add: splitTaint_def strings_Contains_char)
qed

section \<open>Properties\<close>

text \<open>
  Every documented form of a taint argument is read as documented: \<^verbatim>\<open>key=value:effect\<close>,
  \<^verbatim>\<open>key:effect\<close> and \<^verbatim>\<open>key=:effect\<close> add a taint, \<^verbatim>\<open>key-\<close> and \<^verbatim>\<open>key:effect-\<close> keep the
  deletion mark in the key and in the effect.
\<close>

theorem formatData_documented_forms:
  assumes "plain key" "plain val" "val \<noteq> []" "effect \<in> set TaintEffectValues"
  shows "formatData (key @ ''='' @ val @ '':'' @ effect) = Inr \<lparr>t_Key = key, t_Value = val, t_Effect = effect\<rparr>
    \<and> formatData (key @ '':'' @ effect) = Inr \<lparr>t_Key = key, t_Value = [], t_Effect = effect\<rparr>
    \<and> formatData (key @ ''=:'' @ effect) = Inr \<lparr>t_Key = key, t_Value = [], t_Effect = effect\<rparr>
    \<and> formatData (key @ ''-'') = Inr \<lparr>t_Key = key @ ''-'', t_Value = [], t_Effect = []\<rparr>
    \<and> formatData (key @ '':'' @ effect @ ''-'') = Inr \<lparr>t_Key = key, t_Value = [], t_Effect = effect @ ''-''\<rparr>"
proof -
  have pe: "plain effect" using effects_plain [OF assms(4)] by auto
  have e: "strings_TrimSuffix effect ''-'' = effect"
    using plain_chars(3) [OF pe] by (rule TrimSuffix_absent)
  note facts = assms(1,2) [THEN plain_no_space] pe [THEN plain_no_space] delims_no_space
    splitTaint_value [OF assms(1-3) pe] splitTaint_key_effect [OF assms(1) pe]
    splitTaint_empty_value [OF assms(1) pe]
  show ?thesis
    using facts assms(4) by (intro conjI formatData_split) (auto simp: e TrimSuffix_present)
qed

theorem formatData_documented_forms_witness:
  "formatData ''key1=value1:NoSchedule'' = Inr \<lparr>t_Key = ''key1'', t_Value = ''value1'', t_Effect = ''NoSchedule''\<rparr>
    \<and> formatData ''key1:NoSchedule-'' = Inr \<lparr>t_Key = ''key1'', t_Value = [], t_Effect = ''NoSchedule-''\<rparr>"
  using formatData_documented_forms [of "''key1''" "''value1''" "''NoSchedule''"]
  by (simp add: plain_def is_space_def TaintEffectValues_def)

end
