(* ===== verification/Platforms.thy ===== *)
theory Platforms
  imports Remote
begin

text \<open>
  Model of \<^verbatim>\<open>utils/platform\<close> and of \<^verbatim>\<open>utils/ssh/platform.go\<close>: platform specifiers, their normal form, and
  how the platform of a remote host is found out. What the Go runtime says about the local host
  (\<^verbatim>\<open>runtime.GOOS\<close>, \<^verbatim>\<open>runtime.GOARCH\<close>, the text of its \<^verbatim>\<open>/proc/cpuinfo\<close>) is an argument. The lines of
  \<^verbatim>\<open>/proc/cpuinfo\<close> are taken to fit the buffer of \<^verbatim>\<open>bufio.Scanner\<close>.
\<close>

section \<open>Platforms\<close>

record Platform =
  p_Architecture :: string
  p_OS :: string
  p_Variant :: string

record goRuntime =
  gr_GOOS :: string
  gr_GOARCH :: string
  gr_cpuinfo :: "string res"

definition ToString :: "Platform \<Rightarrow> string" where
  "ToString p = strings_TrimPrefix (strings_TrimSuffix (p_OS p @ ''/'' @ p_Architecture p @ ''/'' @ p_Variant p) ''/'') ''/''"

definition isArmArch :: "string \<Rightarrow> bool" where
  "isArmArch arch = (arch \<in> {''arm'', ''arm64''})"

definition isKnownOS :: "string \<Rightarrow> bool" where
  "isKnownOS os = (os \<in> {''aix'', ''android'', ''darwin'', ''dragonfly'', ''freebsd'', ''hurd'', ''illumos'', ''ios'', ''js'',
     ''linux'', ''nacl'', ''netbsd'', ''openbsd'', ''plan9'', ''solaris'', ''windows'', ''zos''})"

definition isKnownArch :: "string \<Rightarrow> bool" where
  "isKnownArch arch = (arch \<in> {''386'', ''amd64'', ''amd64p32'', ''arm'', ''armbe'', ''arm64'', ''arm64be'',
     ''ppc64'', ''ppc64le'', ''loong64'', ''mips'', ''mipsle'', ''mips64'', ''mips64le'', ''mips64p32'',
     ''mips64p32le'', ''ppc'', ''riscv'', ''riscv64'', ''s390'', ''s390x'', ''sparc'', ''sparc64'', ''wasm''})"

definition normalizeOS :: "goRuntime \<Rightarrow> string \<Rightarrow> string" where
  "normalizeOS gr os = (if os = [] then gr_GOOS gr
     else (let os' = strings_ToLower os in if os' = ''macos'' then ''darwin'' else os'))"

definition archTable :: "string \<Rightarrow> string \<Rightarrow> string \<times> string" where
  "archTable arch variant =
     (if arch = ''i386'' then (''386'', [])
      else if arch \<in> {''x86_64'', ''x86-64''} then (''amd64'', [])
      else if arch \<in> {''aarch64'', ''arm64''} then (''arm64'', ''v8'')
      else if arch = ''armhf'' then (''arm'', ''v7'')
      else if arch = ''armel'' then (''arm'', ''v6'')
      else if arch = ''arm'' then
        (arch, if variant \<in> {[], ''7''} then ''v7''
               else if variant \<in> {''5'', ''6'', ''8''} then ''v'' @ variant else variant)
      else (arch, variant))"

definition NormalizeArch :: "string \<Rightarrow> string \<Rightarrow> string \<times> string" where
  "NormalizeArch arch variant = archTable (strings_ToLower arch) (strings_ToLower variant)"

definition Normalize :: "goRuntime \<Rightarrow> Platform \<Rightarrow> Platform" where
  "Normalize gr platform = (let (arch, variant) = NormalizeArch (p_Architecture platform) (p_Variant platform) in
     \<lparr>p_Architecture = arch, p_OS = normalizeOS gr (p_OS platform), p_Variant = variant\<rparr>)"

section \<open>The variant of a processor\<close>

definition ErrNotFound :: gerror where "ErrNotFound = Errorf ''not found'' []"
definition ErrInvalidArgument :: gerror where "ErrInvalidArgument = Errorf ''invalid argument'' []"

definition cpuinfo_find :: "string \<Rightarrow> string \<Rightarrow> string res" where
  "cpuinfo_find pattern content =
     (case find (\<lambda>l. length l > 1 \<and> strings_EqualFold (strings_TrimSpace (hd l)) pattern)
         (map (\<lambda>newline. strings_Split newline '':'') (strings_Split content [CHR 0x0A])) of
       Some l \<Rightarrow> Inr (strings_TrimSpace (l ! 1))
     | None \<Rightarrow> Inl (Wrapf ''getCPUInfo for pattern: %s: %v'' [pattern] ErrNotFound))"

definition getCPUInfo :: "goRuntime \<Rightarrow> string \<Rightarrow> string res" where
  "getCPUInfo gr pattern =
     (if gr_GOOS gr \<noteq> ''linux'' then Inl (Wrapf ''getCPUInfo for OS %s: %v'' [gr_GOOS gr] (Errorf ''not implemented'' []))
      else bindR (gr_cpuinfo gr) (cpuinfo_find pattern))"

definition GetCPUVariantByInfo :: "string \<Rightarrow> string \<Rightarrow> string \<Rightarrow> string \<Rightarrow> string" where
  "GetCPUVariantByInfo os arch variant0 model =
     (if os \<in> {''windows'', ''darwin''}
      then (if arch = ''arm64'' then ''v8'' else if arch = ''arm'' then ''v7'' else ''unknown'')
      else (let variant = (if arch = ''arm'' \<and> variant0 = ''7'' \<and> strings_HasPrefix (strings_ToLower model) ''armv6-compatible''
                           then ''6'' else variant0);
                v = strings_ToLower variant in
        if v \<in> {''8'', ''aarch64''} then ''v8''
        else if v \<in> {''7'', ''7m'', ''?(12)'', ''?(13)'', ''?(14)'', ''?(15)'', ''?(16)'', ''?(17)''} then ''v7''
        else if v \<in> {''6'', ''6tej''} then ''v6''
        else if v \<in> {''5'', ''5t'', ''5te'', ''5tej''} then ''v5''
        else if v \<in> {''4'', ''4t''} then ''v4''
        else if v = ''3'' then ''v3''
        else ''unknown''))"

text \<open>Locally an error is only logged and its result is the empty text.\<close>

definition cpuVariant :: "goRuntime \<Rightarrow> string" where
  "cpuVariant gr = (if isArmArch (gr_GOARCH gr)
     then GetCPUVariantByInfo (gr_GOOS gr) (gr_GOARCH gr)
       (case getCPUInfo gr ''Cpu architecture'' of Inr v \<Rightarrow> v | Inl _ \<Rightarrow> [])
       (case getCPUInfo gr ''model name'' of Inr v \<Rightarrow> v | Inl _ \<Rightarrow> [])
     else [])"

definition GetDefaultPlatform :: "goRuntime \<Rightarrow> Platform" where
  "GetDefaultPlatform gr = \<lparr>p_Architecture = gr_GOARCH gr, p_OS = gr_GOOS gr, p_Variant = cpuVariant gr\<rparr>"

section \<open>Specifiers\<close>

definition specifierRe :: "string \<Rightarrow> bool" where
  "specifierRe s = (s \<noteq> [] \<and> list_all (\<lambda>c. let n = of_char c :: nat in
     65 \<le> n \<and> n \<le> 90 \<or> 97 \<le> n \<and> n \<le> 122 \<or> 48 \<le> n \<and> n \<le> 57 \<or> c = CHR ''_'' \<or> c = CHR ''-'') s)"

definition emptyPlatform :: Platform where
  "emptyPlatform = \<lparr>p_Architecture = [], p_OS = [], p_Variant = []\<rparr>"

definition Parse :: "goRuntime \<Rightarrow> string \<Rightarrow> Platform res" where
  "Parse gr specifier =
     (if strings_Contains specifier ''*''
      then Inl (Wrapf ''%q: wildcards not yet supported: %v'' [specifier] ErrInvalidArgument)
      else (let parts = strings_Split specifier ''/'' in
        case find (\<lambda>part. \<not> specifierRe part) parts of
          Some part \<Rightarrow> Inl (Wrapf ''%q is an invalid component of %q: %v'' [part, specifier] ErrInvalidArgument)
        | None \<Rightarrow> (case parts of
            [a] \<Rightarrow> (let os = normalizeOS gr a in
              if isKnownOS os then Inr \<lparr>p_Architecture = gr_GOARCH gr, p_OS = os,
                p_Variant = (if gr_GOARCH gr = ''arm'' \<and> cpuVariant gr \<noteq> ''v7'' then cpuVariant gr else [])\<rparr>
              else (let (arch, variant) = NormalizeArch a [] in
                if isKnownArch arch then Inr \<lparr>p_Architecture = arch, p_OS = gr_GOOS gr,
                  p_Variant = (if arch = ''arm'' \<and> variant = ''v7'' then [] else variant)\<rparr>
                else Inl (Wrapf ''%q: unknown operating system or architecture: %v'' [specifier] ErrInvalidArgument)))
          | [a, b] \<Rightarrow> (let (arch, variant) = NormalizeArch b [] in
              Inr \<lparr>p_Architecture = arch, p_OS = normalizeOS gr a,
                p_Variant = (if arch = ''arm'' \<and> variant = ''v7'' then [] else variant)\<rparr>)
          | [a, b, c] \<Rightarrow> (let (arch, variant) = NormalizeArch b c in
              Inr \<lparr>p_Architecture = arch, p_OS = normalizeOS gr a,
                p_Variant = (if arch = ''arm64'' \<and> variant = [] then ''v8'' else variant)\<rparr>)
          | _ \<Rightarrow> Inl (Wrapf ''%q: cannot parse platform specifier: %v'' [specifier] ErrInvalidArgument))))"

definition ParsePlatforms :: "goRuntime \<Rightarrow> string \<Rightarrow> Platform list res" where
  "ParsePlatforms gr v = mapR (\<lambda>s. case Parse gr s of
       Inl e \<Rightarrow> Inl (Wrapf ''failed to parse target platform %s: %v'' [s] e)
     | Inr p \<Rightarrow> Inr (Normalize gr p)) (strings_Split v '','')"

text \<open>\<^verbatim>\<open>path.Join\<close> is \<^verbatim>\<open>filepath.Join\<close> here.\<close>

definition Format :: "Platform \<Rightarrow> string" where
  "Format platform = (if p_OS platform = [] then ''unknown''
     else filepath_Join [p_OS platform, p_Architecture platform, p_Variant platform])"

definition Matched :: "Platform \<Rightarrow> Platform \<Rightarrow> bool" where
  "Matched src dest = (if p_OS src = p_OS dest \<and> p_Architecture src = ''arm64'' \<and> p_Architecture dest = ''arm64'' then True
     else p_OS src = p_OS dest \<and> p_Architecture src = p_Architecture dest \<and> p_Variant src = p_Variant dest)"

section \<open>The platform of a remote host\<close>

definition ssh_getCPUInfo :: "net_ip \<Rightarrow> string \<Rightarrow> string io" where
  "ssh_getCPUInfo host pattern =
     bindE (mapErr (Wrapf ''failed to open /proc/cpuinfo: %v'' []) (askText (ReadRemote host ''/proc/cpuinfo'')))
       (\<lambda>content. liftR (cpuinfo_find pattern content))"

definition getCPUVariant :: "string \<Rightarrow> string \<Rightarrow> net_ip \<Rightarrow> string io" where
  "getCPUVariant os arch host =
     bindE (ssh_getCPUInfo host ''Cpu architecture'') (\<lambda>variant.
     bindE (tryE (ssh_getCPUInfo host ''model name'')) (\<lambda>r.
       let finish = (\<lambda>model. let (variant', model') = NormalizeArch variant model in
             returnE (GetCPUVariantByInfo os arch variant' model')) in
       case r of Inr model \<Rightarrow> finish model
       | Inl err \<Rightarrow> if \<not> strings_Contains (err_Error err) (err_Error ErrNotFound) then throwE err else finish []))"

definition isLocalHost :: "net_ip \<Rightarrow> bool io" where
  "isLocalHost host = (\<lambda>w. (Inr (w_flag w (w_log w) (LocalCall ''net.IsLocalIP'' [ip_String host])),
     w\<lparr>w_log := w_log w @ [LocalCall ''net.IsLocalIP'' [ip_String host]]\<rparr>))"

definition archOfUname :: "string \<Rightarrow> string res" where
  "archOfUname archResult = (let a = strings_ToLower (strings_TrimSpace archResult) in
     if a = ''x86_64'' then Inr ''amd64''
     else if a = ''aarch64'' then Inr ''arm64''
     else if a = ''armv7l'' then Inr ''arm-v7''
     else if a = ''armv6l'' then Inr ''arm-v6''
     else Inl (Errorf ''unrecognized architecture: %s'' [archResult]))"

definition ssh_GetPlatform :: "goRuntime \<Rightarrow> net_ip \<Rightarrow> Platform io" where
  "ssh_GetPlatform gr host =
     bindE (isLocalHost host) (\<lambda>l. if l then returnE (GetDefaultPlatform gr) else
     bindE (askText (CmdToStringOn host [] ''uname -m'' [])) (\<lambda>archResult.
     bindE (askText (CmdToStringOn host [] ''uname'' [])) (\<lambda>osResult.
       let os = strings_ToLower (strings_TrimSpace osResult) in
       bindE (liftR (archOfUname archResult)) (\<lambda>arch.
       bindE (if arch \<noteq> ''amd64'' then getCPUVariant os arch host else returnE []) (\<lambda>variant.
       bindE (liftR (Parse gr (Format \<lparr>p_Architecture = arch, p_OS = os, p_Variant = variant\<rparr>))) (\<lambda>remotePlatform.
         returnE (Normalize gr remotePlatform)))))))"

section \<open>Lemmas\<close>

lemma obeys_ssh_GetPlatform:
  assumes "\<And>c. P (CmdToStringOn host [] c [])" and "P (ReadRemote host ''/proc/cpuinfo'')"
    and "P (LocalCall ''net.IsLocalIP'' [ip_String host])"
  shows "obeys P (ssh_GetPlatform gr host)"
proof -
  have info: "obeys P (ssh_getCPUInfo host pat)" for pat using assms(2) by (auto simp: ssh_getCPUInfo_def)
  have "obeys P (getCPUVariant os arch host)" for os arch
    by (auto simp: getCPUVariant_def Let_def split: sum.split prod.split intro!: info)
  moreover have "obeys P (isLocalHost host)" using assms(3) by (auto simp: obeys_def isLocalHost_def)
  ultimately show ?thesis using assms(1) by (auto simp: ssh_GetPlatform_def Let_def)
qed

text \<open>Normal forms do not change when they are normalised again.\<close>

lemma lower_char_idem: "lower_char (lower_char c) = lower_char c"
  by (auto simp: lower_char_def Let_def of_char_of)

lemma ToLower_idem [simp]: "strings_ToLower (strings_ToLower s) = strings_ToLower s"
  by (simp add: strings_ToLower_def lower_char_idem)

lemma ToLower_names [simp]:
  "strings_ToLower [] = []" "strings_ToLower ''386'' = ''386''" "strings_ToLower ''amd64'' = ''amd64''"
  "strings_ToLower ''arm64'' = ''arm64''" "strings_ToLower ''arm'' = ''arm''" "strings_ToLower ''v8'' = ''v8''"
  "strings_ToLower ''v7'' = ''v7''" "strings_ToLower ''v6'' = ''v6''" "strings_ToLower ''v5'' = ''v5''"
  "strings_ToLower ''arm-v7'' = ''arm-v7''" "strings_ToLower ''arm-v6'' = ''arm-v6''" "strings_ToLower ''darwin'' = ''darwin''"
  by code_simp+

definition fixedArch :: "string \<times> string \<Rightarrow> bool" where
  "fixedArch r = (strings_ToLower (fst r) = fst r \<and> strings_ToLower (snd r) = snd r \<and> archTable (fst r) (snd r) = r)"

lemma fixedArch_names:
  "fixedArch (''386'', [])" "fixedArch (''amd64'', [])" "fixedArch (''arm64'', ''v8'')" "fixedArch (''arm'', ''v7'')"
  "fixedArch (''arm'', ''v6'')" "fixedArch (''arm'', ''v5'')" "fixedArch (''arm'', ''v8'')"
  by code_simp+

lemma archTable_arm:
  assumes "strings_ToLower v = v" shows "fixedArch (archTable ''arm'' v)"
proof -
  consider "v = []" | "v = ''7''" | "v = ''5''" | "v = ''6''" | "v = ''8''" | "v \<notin> {[], ''7'', ''5'', ''6'', ''8''}" by blast
  then show ?thesis
  proof cases
    case 6
    then have "archTable ''arm'' v = (''arm'', v)" by (simp add: archTable_def)
    with assms show ?thesis by (simp add: fixedArch_def)
  qed (simp_all add: archTable_def fixedArch_names)
qed

lemma archTable_fixed:
  assumes "strings_ToLower a = a" and "strings_ToLower v = v"
  shows "fixedArch (archTable a v)"
proof -
  consider "a = ''i386''" | "a \<in> {''x86_64'', ''x86-64''}" | "a \<in> {''aarch64'', ''arm64''}" | "a = ''armhf''" | "a = ''armel''" | "a = ''arm''"
    | "a \<noteq> ''i386''" "a \<notin> {''x86_64'', ''x86-64''}" "a \<notin> {''aarch64'', ''arm64''}" "a \<noteq> ''armhf''" "a \<noteq> ''armel''" "a \<noteq> ''arm''" by argo
  then show ?thesis
  proof cases
    case 6
    with archTable_arm assms(2) show ?thesis by simp
  next
    case 7
    then have "archTable a v = (a, v)" by (simp add: archTable_def)
    with assms show ?thesis by (simp add: fixedArch_def)
  qed (auto simp: archTable_def fixedArch_names)
qed

lemma NormalizeArch_idem: "NormalizeArch (fst (NormalizeArch a v)) (snd (NormalizeArch a v)) = NormalizeArch a v"
  using archTable_fixed [of "strings_ToLower a" "strings_ToLower v"] by (simp add: NormalizeArch_def fixedArch_def)

lemma normalizeOS_idem:
  assumes "gr_GOOS gr \<noteq> []" and "normalizeOS gr (gr_GOOS gr) = gr_GOOS gr"
  shows "normalizeOS gr (normalizeOS gr os) = normalizeOS gr os"
proof (cases "os = []")
  case True
  with assms show ?thesis by (simp add: normalizeOS_def)
next
  case False
  then have "strings_ToLower os \<noteq> []" by (simp add: strings_ToLower_def)
  with False show ?thesis by (simp add: normalizeOS_def Let_def)
qed

lemma Normalize_idem:
  assumes "gr_GOOS gr \<noteq> []" and "normalizeOS gr (gr_GOOS gr) = gr_GOOS gr"
  shows "Normalize gr (Normalize gr p) = Normalize gr p"
  using NormalizeArch_idem [of "p_Architecture p" "p_Variant p"] normalizeOS_idem [OF assms]
  by (simp add: Normalize_def Let_def case_prod_beta)

lemma specifierRe_chars:
  assumes "specifierRe s" shows "CHR ''/'' \<notin> set s" "CHR ''*'' \<notin> set s" "s \<noteq> []" "s \<noteq> ''.''" "s \<noteq> ''..''" "CHR ''.'' \<notin> set s"
proof -
  show "CHR ''/'' \<notin> set s" "CHR ''*'' \<notin> set s" "CHR ''.'' \<notin> set s" "s \<noteq> []"
    using assms by (auto simp: specifierRe_def list_all_iff)
  then show "s \<noteq> ''.''" "s \<noteq> ''..''" by auto
qed

lemma clean_elems_plain:
  "\<forall>e \<in> set es. e \<noteq> ''.'' \<and> e \<noteq> ''..'' \<Longrightarrow> clean_elems r st es = rev st @ filter (\<lambda>e. e \<noteq> []) es"
  by (induction es arbitrary: st) auto

lemma filepath_Join_plain:
  assumes "specifierRe x" and "\<forall>e \<in> set xs. e = [] \<or> specifierRe e"
  shows "filepath_Join (x # xs) = strings_Join (x # filter (\<lambda>e. e \<noteq> []) xs) ''/''"
proof -
  let ?s = "strings_Join (x # xs) ''/''"
  have split: "strings_Split ?s ''/'' = x # xs"
    using assms by (intro strings_Split_Join) (auto dest: specifierRe_chars(1))
  have plain: "clean_elems r [] (x # xs) = x # filter (\<lambda>e. e \<noteq> []) xs" for r
    using assms specifierRe_chars(3) [OF assms(1)] by (subst clean_elems_plain) (auto dest: specifierRe_chars(4) specifierRe_chars(5))
  obtain c y where x: "x = c # y" "c \<noteq> CHR ''/''"
    using specifierRe_chars(1) [OF assms(1)] specifierRe_chars(3) [OF assms(1)] by (cases x) auto
  have "\<not> prefix ''/'' ?s" using x by (cases xs) simp_all
  moreover have "filepath_Join (x # xs) = filepath_Clean ?s" using x(1) by (simp add: filepath_Join_def)
  ultimately show ?thesis by (simp add: filepath_Clean_def split plain Let_def del: clean_elems.simps)
qed

lemma not_contains_star: "CHR ''*'' \<notin> set s \<Longrightarrow> \<not> strings_Contains s ''*''"
  by (auto simp: strings_Contains_sublist sublist_def)

lemma set_strings_Join: "set (strings_Join es sep) \<subseteq> \<Union> (set ` set es) \<union> set sep"
  by (induction es sep rule: strings_Join.induct) auto

lemma find_none: "\<forall>x \<in> set xs. \<not> P x \<Longrightarrow> find P xs = None"
  by (auto simp: find_None_iff)

lemma Parse_Format:
  assumes "specifierRe os" and "specifierRe arch" and "variant = [] \<or> specifierRe variant"
  shows "Parse gr (Format \<lparr>p_Architecture = arch, p_OS = os, p_Variant = variant\<rparr>) =
    (let (a, v) = NormalizeArch arch variant in
     Inr \<lparr>p_Architecture = a, p_OS = normalizeOS gr os,
       p_Variant = (if variant = [] then (if a = ''arm'' \<and> v = ''v7'' then [] else v)
                    else if a = ''arm64'' \<and> v = [] then ''v8'' else v)\<rparr>)"
proof -
  let ?es = "os # filter (\<lambda>e. e \<noteq> []) [arch, variant]"
  let ?s = "strings_Join ?es ''/''"
  have re: "\<forall>e \<in> set ?es. specifierRe e" using assms by auto
  have fmt: "Format \<lparr>p_Architecture = arch, p_OS = os, p_Variant = variant\<rparr> = ?s"
    using filepath_Join_plain [OF assms(1), of "[arch, variant]"] assms specifierRe_chars(3) [OF assms(1)]
    by (simp add: Format_def)
  have split: "strings_Split ?s ''/'' = ?es"
    using re by (intro strings_Split_Join) (auto dest: specifierRe_chars(1))
  have "CHR ''*'' \<notin> set ?s"
    using set_strings_Join [of ?es "''/''"] re specifierRe_chars(2) by fastforce
  then show ?thesis
    unfolding fmt Parse_def split using re specifierRe_chars(3) [OF assms(2)]
    by (simp add: not_contains_star find_none Let_def)
qed

lemma specifierRe_if: "specifierRe a \<Longrightarrow> specifierRe b \<Longrightarrow> specifierRe (if c then a else b)"
  by simp

lemma variant_specifier: "specifierRe (GetCPUVariantByInfo os arch v model)"
proof -
  have "specifierRe ''v8''" "specifierRe ''v7''" "specifierRe ''v6''" "specifierRe ''v5''" "specifierRe ''v4''"
    "specifierRe ''v3''" "specifierRe ''unknown''" by code_simp+
  then show ?thesis unfolding GetCPUVariantByInfo_def Let_def by (intro specifierRe_if)
qed

definition noModel :: gerror where "noModel = Wrapf ''getCPUInfo for pattern: %s: %v'' [''model name''] ErrNotFound"

lemma cpuinfo_no_model: "cpuinfo_find ''model name'' info = Inl e \<Longrightarrow> e = noModel"
  by (auto simp: cpuinfo_find_def noModel_def split: option.splits)

lemma noModel_text: "strings_Contains (err_Error noModel) (err_Error ErrNotFound)"
  by code_simp

text \<open>The variant that \<^verbatim>\<open>/proc/cpuinfo\<close> of a remote host gives.\<close>

definition remoteVariant :: "string \<Rightarrow> string \<Rightarrow> string \<Rightarrow> string \<Rightarrow> string" where
  "remoteVariant os arch info v = (let model = (case cpuinfo_find ''model name'' info of Inr m \<Rightarrow> m | Inl _ \<Rightarrow> []) in
     GetCPUVariantByInfo os arch (fst (NormalizeArch v model)) (snd (NormalizeArch v model)))"

lemma getCPUVariant_calm:
  assumes "calm w" and "\<forall>l. w_text w l (ReadRemote host ''/proc/cpuinfo'') = info"
  shows "\<exists>as. getCPUVariant os arch host w = (case cpuinfo_find ''Cpu architecture'' info of Inl e \<Rightarrow> Inl e
      | Inr v \<Rightarrow> Inr (remoteVariant os arch info v), w\<lparr>w_log := w_log w @ as\<rparr>)"
proof (cases "cpuinfo_find ''Cpu architecture'' info")
  case (Inl e)
  with assms show ?thesis
    by (auto simp: getCPUVariant_def ssh_getCPUInfo_def bindE_def mapErr_def askText_def calm_def liftR_def)
next
  case (Inr v)
  let ?w = "w\<lparr>w_log := w_log w @ [ReadRemote host ''/proc/cpuinfo'', ReadRemote host ''/proc/cpuinfo'']\<rparr>"
  have model: "tryE (ssh_getCPUInfo host ''model name'') (w\<lparr>w_log := w_log w @ [ReadRemote host ''/proc/cpuinfo'']\<rparr>) =
      (Inr (cpuinfo_find ''model name'' info), ?w)"
    using assms cpuinfo_no_model [of info]
    by (auto simp: ssh_getCPUInfo_def bindE_def mapErr_def askText_def calm_def liftR_def tryE_def noModel_def split: sum.split)
  have arch: "ssh_getCPUInfo host ''Cpu architecture'' w = (Inr v, w\<lparr>w_log := w_log w @ [ReadRemote host ''/proc/cpuinfo'']\<rparr>)"
    using assms Inr by (simp add: ssh_getCPUInfo_def bindE_def mapErr_def askText_def calm_def liftR_def)
  obtain a b where n: "NormalizeArch v (case cpuinfo_find ''model name'' info of Inr m \<Rightarrow> m | Inl _ \<Rightarrow> []) = (a, b)"
    by (meson surj_pair)
  have "getCPUVariant os arch host w = (Inr (remoteVariant os arch info v), ?w)"
    using n cpuinfo_no_model [of info] noModel_text
    by (cases "cpuinfo_find ''model name'' info")
       (simp_all add: getCPUVariant_def bindE_def arch model returnE_def remoteVariant_def Let_def)
  with Inr show ?thesis by auto
qed

lemma bindE_liftR_Inr: "bindE (liftR (Inr x)) f = f x"
  by (auto simp: bindE_def liftR_def)

lemma normalizeOS_lower: "os \<noteq> [] \<Longrightarrow> normalizeOS gr (normalizeOS gr os) = normalizeOS gr os"
proof -
  assume "os \<noteq> []"
  then have "strings_ToLower os \<noteq> []" by (simp add: strings_ToLower_def)
  then show ?thesis using \<open>os \<noteq> []\<close> by (simp add: normalizeOS_def Let_def)
qed

lemma lower_variant: "strings_ToLower (GetCPUVariantByInfo os arch v model) = GetCPUVariantByInfo os arch v model"
proof -
  have if_lower: "strings_ToLower a = a \<Longrightarrow> strings_ToLower b = b \<Longrightarrow> strings_ToLower (if c then a else b) = (if c then a else b)"
    for a b c by simp
  have "strings_ToLower ''v4'' = ''v4''" "strings_ToLower ''v3'' = ''v3''" "strings_ToLower ''unknown'' = ''unknown''"
    by code_simp+
  then show ?thesis unfolding GetCPUVariantByInfo_def Let_def by (intro if_lower ToLower_names)
qed

text \<open>What becomes of the three parts.\<close>

lemma normalized_parts:
  assumes "specifierRe os" and "arch \<in> {''amd64'', ''arm64'', ''arm-v7'', ''arm-v6''}"
    and "variant = (if arch = ''amd64'' then [] else GetCPUVariantByInfo o' a' v' m')"
  shows "bindR (Parse gr (Format \<lparr>p_Architecture = arch, p_OS = os, p_Variant = variant\<rparr>)) (\<lambda>p. Inr (Normalize gr p)) =
    Inr \<lparr>p_Architecture = arch, p_OS = normalizeOS gr os, p_Variant = (if arch = ''arm64'' then ''v8'' else variant)\<rparr>"
proof -
  have arch: "specifierRe arch" using assms(2) by (elim insertE emptyE) (simp, code_simp)+
  have spec: "variant = [] \<or> specifierRe variant" using assms(3) variant_specifier by simp
  have low: "strings_ToLower variant = variant" using assms(3) lower_variant by simp
  have os: "os \<noteq> []" using assms(1) by (rule specifierRe_chars)
  have "NormalizeArch arch variant = (arch, if arch = ''arm64'' then ''v8'' else variant)"
    using assms(2,3) low by (elim insertE emptyE) (simp_all add: NormalizeArch_def archTable_def)
  moreover from this low have "NormalizeArch arch (if arch = ''arm64'' then ''v8'' else variant) = (arch, if arch = ''arm64'' then ''v8'' else variant)"
    by (metis NormalizeArch_idem fst_conv snd_conv)
  moreover have "arch \<noteq> ''arm''" using assms(2) by auto
  ultimately show ?thesis
    using Parse_Format [OF assms(1) arch spec, of gr] normalizeOS_lower [OF os, of gr] by (auto simp: Normalize_def Let_def)
qed

text \<open>
  The platform of a remote host follows from what its \<^verbatim>\<open>uname\<close> and \<^verbatim>\<open>/proc/cpuinfo\<close> say: a 64-bit x86
  host is amd64 without variant, a 64-bit ARM host is arm64 with variant v8 whatever its processor
  information says, as long as it names an architecture, and a 32-bit ARM host gets the architecture
  arm-v7 or arm-v6, which no image has. Other machines are refused.
\<close>

theorem remote_host_platform:
  assumes "calm w" and "\<forall>l. \<not> w_flag w l (LocalCall ''net.IsLocalIP'' [ip_String host])"
    and "\<forall>l. w_text w l (CmdToStringOn host [] ''uname -m'' []) = machine"
    and "\<forall>l. w_text w l (CmdToStringOn host [] ''uname'' []) = sys"
    and "\<forall>l. w_text w l (ReadRemote host ''/proc/cpuinfo'') = info"
    and "os = strings_ToLower (strings_TrimSpace sys)" and "specifierRe os"
  shows "fst (ssh_GetPlatform gr host w) = (case archOfUname machine of Inl e \<Rightarrow> Inl e | Inr arch \<Rightarrow>
    if arch = ''amd64'' then Inr \<lparr>p_Architecture = ''amd64'', p_OS = normalizeOS gr os, p_Variant = []\<rparr>
    else (case cpuinfo_find ''Cpu architecture'' info of Inl e \<Rightarrow> Inl e | Inr v \<Rightarrow>
      if arch = ''arm64'' then Inr \<lparr>p_Architecture = ''arm64'', p_OS = normalizeOS gr os, p_Variant = ''v8''\<rparr>
      else Inr \<lparr>p_Architecture = arch, p_OS = normalizeOS gr os, p_Variant = remoteVariant os arch info v\<rparr>))"
proof -
  define w1 where "w1 = w\<lparr>w_log := w_log w @ [LocalCall ''net.IsLocalIP'' [ip_String host], CmdToStringOn host [] ''uname -m'' [],
    CmdToStringOn host [] ''uname'' []]\<rparr>"
  have run: "ssh_GetPlatform gr host w = bindE (liftR (archOfUname machine)) (\<lambda>arch.
       bindE (if arch \<noteq> ''amd64'' then getCPUVariant os arch host else returnE []) (\<lambda>variant.
       bindE (liftR (Parse gr (Format \<lparr>p_Architecture = arch, p_OS = os, p_Variant = variant\<rparr>))) (\<lambda>remotePlatform.
         returnE (Normalize gr remotePlatform)))) w1"
    unfolding assms(6) using assms(1-4) by (simp add: ssh_GetPlatform_def bindE_def isLocalHost_def askText_def calm_def w1_def Let_def)
  have finish: "fst (bindE (liftR r) (\<lambda>p. returnE (Normalize gr p)) w') = bindR r (\<lambda>p. Inr (Normalize gr p))" for r w'
    by (cases r) (simp_all add: bindE_def liftR_def returnE_def)
  have w1: "calm w1" "\<forall>l. w_text w1 l (ReadRemote host ''/proc/cpuinfo'') = info" using assms(1,5) by (simp_all add: calm_def w1_def)
  show ?thesis
  proof (cases "archOfUname machine")
    case (Inl e)
    then show ?thesis by (simp add: run bindE_def liftR_def)
  next
    case (Inr arch)
    then have arch: "arch \<in> {''amd64'', ''arm64'', ''arm-v7'', ''arm-v6''}" by (auto simp: archOfUname_def Let_def split: if_splits)
    show ?thesis
    proof (cases "arch = ''amd64''")
      case True
      from normalized_parts [OF assms(7) arch refl] True show ?thesis
        by (simp add: run Inr bindE_liftR_Inr finish)
    next
      case False
      obtain as where v: "getCPUVariant os arch host w1 = (case cpuinfo_find ''Cpu architecture'' info of Inl e \<Rightarrow> Inl e
          | Inr v \<Rightarrow> Inr (remoteVariant os arch info v), w1\<lparr>w_log := w_log w1 @ as\<rparr>)"
        using getCPUVariant_calm [OF w1] by blast
      from normalized_parts [OF assms(7) arch, of "remoteVariant os arch info x" for x] False v show ?thesis
        by (auto simp: run Inr bindE_liftR_Inr bindE_def [of "getCPUVariant os arch host"] finish remoteVariant_def Let_def split: sum.split)
    qed
  qed
qed

definition armWorld :: world where
  "armWorld = calmWorld\<lparr>w_text := (\<lambda>_ a. case a of
       CmdToStringOn _ _ c _ \<Rightarrow> if c = ''uname -m'' then ''aarch64'' @ [CHR 0x0A] else ''Linux'' @ [CHR 0x0A]
     | ReadRemote _ _ \<Rightarrow> ''CPU architecture: 8'' @ [CHR 0x0A] | _ \<Rightarrow> [])\<rparr>"

theorem remote_host_platform_witness:
  "fst (ssh_GetPlatform \<lparr>gr_GOOS = ''linux'', gr_GOARCH = ''amd64'', gr_cpuinfo = Inr []\<rparr> [10, 0, 0, 1] armWorld) =
     Inr \<lparr>p_Architecture = ''arm64'', p_OS = ''linux'', p_Variant = ''v8''\<rparr>"
proof -
  let ?gr = "\<lparr>gr_GOOS = ''linux'', gr_GOARCH = ''amd64'', gr_cpuinfo = Inr []\<rparr>"
  let ?info = "''CPU architecture: 8'' @ [CHR 0x0A]"
  have calm: "calm armWorld" by (simp add: calm_def armWorld_def calmWorld_def)
  have os: "''linux'' = strings_ToLower (strings_TrimSpace (''Linux'' @ [CHR 0x0A]))" "specifierRe ''linux''"
    "normalizeOS ?gr ''linux'' = ''linux''" by code_simp+
  have arch: "archOfUname (''aarch64'' @ [CHR 0x0A]) = Inr ''arm64''" by code_simp
  have info: "cpuinfo_find ''Cpu architecture'' ?info = Inr ''8''" by code_simp
  have "fst (ssh_GetPlatform ?gr [10, 0, 0, 1] armWorld) = (case archOfUname (''aarch64'' @ [CHR 0x0A]) of Inl e \<Rightarrow> Inl e | Inr arch \<Rightarrow>
    if arch = ''amd64'' then Inr \<lparr>p_Architecture = ''amd64'', p_OS = normalizeOS ?gr ''linux'', p_Variant = []\<rparr>
    else (case cpuinfo_find ''Cpu architecture'' ?info of Inl e \<Rightarrow> Inl e | Inr v \<Rightarrow>
      if arch = ''arm64'' then Inr \<lparr>p_Architecture = ''arm64'', p_OS = normalizeOS ?gr ''linux'', p_Variant = ''v8''\<rparr>
      else Inr \<lparr>p_Architecture = arch, p_OS = normalizeOS ?gr ''linux'', p_Variant = remoteVariant ''linux'' arch ?info v\<rparr>))"
    by (rule remote_host_platform [OF calm _ _ _ _ os(1,2)]) (simp_all add: armWorld_def calmWorld_def)
  then show ?thesis unfolding arch info os(3) by simp
qed

end
