(* ===== verification/Slices.thy ===== *)
theory Slices
  imports Main
begin

text \<open>
  Go slices that share their arrays. A slice is an array, a length and a capacity; a heap maps
  array numbers to contents, whose length is the capacity. \<^verbatim>\<open>append\<close> writes into the spare
  capacity of the slice's own array when the new elements fit, and copies into a fresh array of
  capacity \<open>grow\<close> otherwise. Two slices of one array can so overwrite each other's elements,
  which matters where the code appends to a slice it shares.
\<close>

record slice =
  sl_arr :: nat
  sl_len :: nat
  sl_cap :: nat

record 'a heap =
  hp_next :: nat
  hp_arr :: "nat \<Rightarrow> 'a list"

definition slice_read :: "'a heap \<Rightarrow> slice \<Rightarrow> 'a list" where
  "slice_read h s = take (sl_len s) (hp_arr h (sl_arr s))"

definition slice_append :: "(nat \<Rightarrow> nat \<Rightarrow> nat) \<Rightarrow> 'a \<Rightarrow> 'a heap \<Rightarrow> slice \<Rightarrow> 'a list \<Rightarrow> 'a heap \<times> slice" where
  "slice_append grow zero h s vs =
     (let n = sl_len s + length vs; a = hp_arr h (sl_arr s) in
      if n \<le> sl_cap s then
        (h\<lparr>hp_arr := (hp_arr h)(sl_arr s := take (sl_len s) a @ vs @ drop n a)\<rparr>, s\<lparr>sl_len := n\<rparr>)
      else
        (let c = max n (grow (sl_cap s) n) in
         (h\<lparr>hp_next := Suc (hp_next h),
            hp_arr := (hp_arr h)(hp_next h := take (sl_len s) a @ vs @ replicate (c - n) zero)\<rparr>,
          \<lparr>sl_arr = hp_next h, sl_len = n, sl_cap = c\<rparr>)))"

definition slice_ok :: "'a heap \<Rightarrow> slice \<Rightarrow> bool" where
  "slice_ok h s = (sl_len s \<le> sl_cap s \<and> length (hp_arr h (sl_arr s)) = sl_cap s \<and> sl_arr s < hp_next h)"

definition slice_full :: "slice \<Rightarrow> bool" where
  "slice_full s = (sl_len s = sl_cap s)"

lemma append_read:
  "slice_ok h s \<Longrightarrow> slice_append grow z h s vs = (h', s') \<Longrightarrow> slice_read h' s' = slice_read h s @ vs"
  by (auto simp: slice_append_def slice_read_def slice_ok_def Let_def split: if_splits)

lemma append_ok:
  "slice_ok h s \<Longrightarrow> slice_append grow z h s vs = (h', s') \<Longrightarrow> slice_ok h' s'"
  by (auto simp: slice_append_def slice_ok_def Let_def split: if_splits)

text \<open>
  Appending leaves alone every array but its own, and even its own when the slice is full; a
  slice that shared the array while both were full no longer shares it unless nothing was added.
\<close>

lemma append_frame:
  assumes "slice_append grow z h s vs = (h', s')" and "a \<noteq> sl_arr s \<or> slice_full s" and "a < hp_next h"
    and "slice_ok h s"
  shows "hp_arr h' a = hp_arr h a"
  using assms by (auto simp: slice_append_def slice_full_def slice_ok_def Let_def split: if_splits)

lemma append_arr:
  "slice_append grow z h s vs = (h', s') \<Longrightarrow> sl_arr s' = sl_arr s \<and> (slice_full s \<longrightarrow> s' = s) \<or> sl_arr s' = hp_next h"
  by (auto simp: slice_append_def slice_full_def Let_def split: if_splits)

lemma append_next: "slice_append grow z h s vs = (h', s') \<Longrightarrow> hp_next h \<le> hp_next h'"
  by (auto simp: slice_append_def Let_def split: if_splits)

end
