(* ===== verification/Infra_Driver.thy ===== *)
theory Infra_Driver
  imports Taints Platforms Slices
begin

text \<open>
  Model of \<^verbatim>\<open>pkg/infradriver/ssh_infradriver.go\<close>: the construction of the driver from the
  cluster object, its queries, and its remote operations. Addresses index the driver's maps by
  their text. The slices of the role table share arrays with the cluster's host lists, so that
  part of the construction runs on the heap of \<open>Slices\<close>; the rest is on lists.
\<close>

record SSHInfraDriver =
  sshConfigs :: "string \<rightharpoonup> SSH"
  d_hosts :: "net_ip list"
  hostTaint :: "string \<rightharpoonup> Taint list"
  hostRolesMap :: "string \<rightharpoonup> string list"
  roleHostsMap :: "string \<rightharpoonup> net_ip list"
  hostLabels :: "string \<rightharpoonup> env"
  hostEnvMap :: "string \<rightharpoonup> env"
  clusterEnv :: env
  d_cluster :: Cluster

section \<open>Construction\<close>

text \<open>\<open>netFamily\<close> is the family of the first address.\<close>

definition checkAllHostsSameFamily :: "net_ip list \<Rightarrow> unit res" where
  "checkAllHostsSameFamily nodeList = (case nodeList of [] \<Rightarrow> Inr ()
     | ip0 # _ \<Rightarrow> (if list_ex (\<lambda>ip. k8snet_IsIPv4 ip0 \<noteq> k8snet_IsIPv4 ip) nodeList
         then Inl (Errorf ''all hosts must be in same ip family, but the node list given are mixed with ipv4 and ipv6: %v''
                [strings_Join (IPsToIPStrs nodeList) '' ''])
         else Inr ()))"

text \<open>\<^verbatim>\<open>mergo.Merge(&host.SSH, &cluster.SSH)\<close>: fields of the host that are empty take the cluster's.\<close>

definition mergeSSH :: "SSH \<Rightarrow> SSH \<Rightarrow> SSH" where
  "mergeSSH dst src = \<lparr>
     s_Encrypted = (if s_Encrypted dst then True else s_Encrypted src),
     s_User = (if s_User dst = [] then s_User src else s_User dst),
     s_Passwd = (if s_Passwd dst = [] then s_Passwd src else s_Passwd dst),
     s_Pk = (if s_Pk dst = [] then s_Pk src else s_Pk dst),
     s_PkPasswd = (if s_PkPasswd dst = [] then s_PkPasswd src else s_PkPasswd dst),
     s_Port = (if s_Port dst = [] then s_Port src else s_Port dst)\<rparr>"

text \<open>\<^verbatim>\<open>ssh.NewSSHClient\<close> keeps the settings and defaults the user.\<close>

definition NewSSHClient :: "SSH \<Rightarrow> SSH" where
  "NewSSHClient ssh = (if s_User ssh = [] then ssh\<lparr>s_User := ''root''\<rparr> else ssh)"

definition put_ips :: "net_ip list \<Rightarrow> 'v \<Rightarrow> (string \<rightharpoonup> 'v) \<Rightarrow> (string \<rightharpoonup> 'v)" where
  "put_ips ips v m = fold (\<lambda>ip m. m(ip_String ip \<mapsto> v)) ips m"

text \<open>The role loop of one host, whose address slice is \<open>s\<close>.\<close>

fun addRoles :: "(nat \<Rightarrow> nat \<Rightarrow> nat) \<Rightarrow> slice \<Rightarrow> string list
    \<Rightarrow> net_ip heap \<times> (string \<rightharpoonup> slice) \<Rightarrow> net_ip heap \<times> (string \<rightharpoonup> slice)" where
  "addRoles grow s [] st = st"
| "addRoles grow s (role # roles) (h, m) = (case m role of
       None \<Rightarrow> addRoles grow s roles (h, m(role \<mapsto> s))
     | Some ips \<Rightarrow> (let (h', ips') = slice_append grow [] h ips (slice_read h s)
                     in addRoles grow s roles (h', m(role \<mapsto> ips'))))"

text \<open>
  The address list of host \<open>i\<close> is a slice of array \<open>i\<close> with \<open>spare i\<close> unused elements behind it.
\<close>

definition hostSlice :: "(nat \<Rightarrow> nat) \<Rightarrow> Host list \<Rightarrow> nat \<Rightarrow> slice" where
  "hostSlice spare hosts i = \<lparr>sl_arr = i, sl_len = length (h_IPS (hosts ! i)),
     sl_cap = length (h_IPS (hosts ! i)) + spare i\<rparr>"

definition initHeap :: "(nat \<Rightarrow> nat) \<Rightarrow> Host list \<Rightarrow> net_ip heap" where
  "initHeap spare hosts = \<lparr>hp_next = length hosts,
     hp_arr = (\<lambda>i. if i < length hosts then h_IPS (hosts ! i) @ replicate (spare i) [] else [])\<rparr>"

definition roleLoop :: "(nat \<Rightarrow> nat \<Rightarrow> nat) \<Rightarrow> (nat \<Rightarrow> nat) \<Rightarrow> Host list
    \<Rightarrow> net_ip heap \<times> (string \<rightharpoonup> slice)" where
  "roleLoop grow spare hosts =
     fold (\<lambda>i st. addRoles grow (hostSlice spare hosts i) (h_Roles (hosts ! i)) st)
       [0..<length hosts] (initHeap spare hosts, Map.empty)"

definition roleTable :: "(nat \<Rightarrow> nat \<Rightarrow> nat) \<Rightarrow> (nat \<Rightarrow> nat) \<Rightarrow> Host list \<Rightarrow> (string \<rightharpoonup> net_ip list)" where
  "roleTable grow spare hosts =
     (let (h, m) = roleLoop grow spare hosts in (\<lambda>role. map_option (slice_read h) (m role)))"

fun taintTable :: "Host list \<Rightarrow> (string \<rightharpoonup> Taint list) \<Rightarrow> (string \<rightharpoonup> Taint list) res" where
  "taintTable [] m = Inr m"
| "taintTable (h # hs) m =
     (if h_IPS h = [] then taintTable hs m
      else bindR (convertTaints (h_Taints h)) (\<lambda>ts. taintTable hs (put_ips (h_IPS h) ts m)))"

text \<open>
  \<open>cluster\<close> is edited through its pointer before the maps are built: the family variable is
  added for IPv6 hosts and each host's SSH settings are completed. The driver's own copy of the
  cluster was taken before that.
\<close>

definition withFamilyEnv :: "net_ip \<Rightarrow> string list \<Rightarrow> string list" where
  "withFamilyEnv ip0 env0 =
     (let hostIPFamilyEnv = EnvHostIPFamily @ ''='' @ ''6'' in
      if k8snet_IsIPv6String (ip_String ip0) \<and> \<not> IsInSlice hostIPFamilyEnv env0
      then env0 @ [hostIPFamilyEnv] else env0)"

definition NewInfraDriver :: "(nat \<Rightarrow> nat \<Rightarrow> nat) \<Rightarrow> (nat \<Rightarrow> nat) \<Rightarrow> Cluster \<Rightarrow> SSHInfraDriver res" where
  "NewInfraDriver grow spare cluster =
     (let hosts = c_Hosts (Spec cluster); ips = concat (map h_IPS hosts) in
      if length ips = 0 then Inl (Errorf ''no hosts specified'' [])
      else bindR (checkAllHostsSameFamily ips) (\<lambda>_.
        let cenv = ConvertStringSliceToMap (withFamilyEnv (hd ips) (c_Env (Spec cluster))) in
        bindR (taintTable hosts Map.empty) (\<lambda>taints.
          Inr \<lparr>
            sshConfigs = fold (\<lambda>h. put_ips (h_IPS h) (NewSSHClient (mergeSSH (h_SSH h) (c_SSH (Spec cluster))))) hosts Map.empty,
            d_hosts = ips,
            hostTaint = taints,
            hostRolesMap = fold (\<lambda>h. put_ips (h_IPS h) (h_Roles h)) hosts Map.empty,
            roleHostsMap = roleTable grow spare hosts,
            hostLabels = fold (\<lambda>h. put_ips (h_IPS h) (h_Labels h)) hosts Map.empty,
            hostEnvMap = fold (\<lambda>h. put_ips (h_IPS h) (maps_Merge (ConvertStringSliceToMap (h_Env h)) cenv)) hosts Map.empty,
            clusterEnv = cenv,
            d_cluster = cluster\<rparr>)))"

section \<open>Queries\<close>

definition GetHostTaints :: "SSHInfraDriver \<Rightarrow> net_ip \<Rightarrow> Taint list" where
  "GetHostTaints d host = nil_if_absent (hostTaint d (ip_String host))"

definition GetHostIPList :: "SSHInfraDriver \<Rightarrow> net_ip list" where
  "GetHostIPList d = d_hosts d"

definition GetHostIPListByRole :: "SSHInfraDriver \<Rightarrow> string \<Rightarrow> net_ip list" where
  "GetHostIPListByRole d role = nil_if_absent (roleHostsMap d role)"

definition GetRoleListByHostIP :: "SSHInfraDriver \<Rightarrow> string \<Rightarrow> string list" where
  "GetRoleListByHostIP d ip = nil_if_absent (hostRolesMap d ip)"

text \<open>
  \<^verbatim>\<open>GetHostEnv\<close> adds the host's own address to its environment, in the stored map. On a host the
  driver does not know the map is nil and the assignment panics.
\<close>

definition GetHostEnv :: "SSHInfraDriver \<Rightarrow> net_ip \<Rightarrow> (env \<times> SSHInfraDriver) res" where
  "GetHostEnv d host = (let k = ip_String host in case hostEnvMap d k of
       None \<Rightarrow> Inl (Panic ''assignment to entry in nil map'')
     | Some hostEnv \<Rightarrow>
         (let hostEnv' = (if map_of hostEnv EnvHostIP = None then env_put EnvHostIP k hostEnv else hostEnv)
          in Inr (hostEnv', d\<lparr>hostEnvMap := (hostEnvMap d)(k \<mapsto> hostEnv')\<rparr>)))"

definition GetHostLabels :: "SSHInfraDriver \<Rightarrow> net_ip \<Rightarrow> env" where
  "GetHostLabels d host = nil_if_absent (hostLabels d (ip_String host))"

definition GetClusterEnv :: "SSHInfraDriver \<Rightarrow> env" where
  "GetClusterEnv d = clusterEnv d"

definition AddClusterEnv :: "SSHInfraDriver \<Rightarrow> string list \<Rightarrow> SSHInfraDriver" where
  "AddClusterEnv d envs = d\<lparr>clusterEnv :=
     fold (\<lambda>(k, v) e. env_put k v e) (ConvertStringSliceToMap envs) (clusterEnv d)\<rparr>"

definition GetClusterRegistry :: "SSHInfraDriver \<Rightarrow> Registry" where
  "GetClusterRegistry d = c_Registry (Spec (d_cluster d))"

definition GetClusterName :: "SSHInfraDriver \<Rightarrow> string" where
  "GetClusterName d = Name (d_cluster d)"

definition GetClusterImageName :: "SSHInfraDriver \<Rightarrow> string" where
  "GetClusterImageName d = c_Image (Spec (d_cluster d))"

definition GetClusterLaunchCmds :: "SSHInfraDriver \<Rightarrow> string list" where
  "GetClusterLaunchCmds d = c_CMD (Spec (d_cluster d))"

definition GetClusterLaunchApps :: "SSHInfraDriver \<Rightarrow> string list option" where
  "GetClusterLaunchApps d = c_APPNames (Spec (d_cluster d))"

definition dataRootOf :: "SSHInfraDriver \<Rightarrow> string" where
  "dataRootOf d = (let dataRoot = c_DataRoot (Spec (d_cluster d)) in
     if dataRoot = [] then DefaultSealerDataDir else dataRoot)"

definition GetClusterRootfsPath :: "SSHInfraDriver \<Rightarrow> string" where
  "GetClusterRootfsPath d = filepath_Join [dataRootOf d, Name (d_cluster d), ''rootfs'']"

definition GetClusterBasePath :: "SSHInfraDriver \<Rightarrow> string" where
  "GetClusterBasePath d = filepath_Join [dataRootOf d, Name (d_cluster d)]"

section \<open>Remote operations\<close>

definition withClient :: "SSHInfraDriver \<Rightarrow> net_ip \<Rightarrow> 'a io \<Rightarrow> 'a io" where
  "withClient d host m = (case sshConfigs d (ip_String host) of
       None \<Rightarrow> throwE (Errorf ''ip(%s) is not in cluster'' [ip_String host])
     | Some _ \<Rightarrow> m)"

definition drv_Copy :: "SSHInfraDriver \<Rightarrow> net_ip \<Rightarrow> string \<Rightarrow> string \<Rightarrow> unit io" where
  "drv_Copy d host localFilePath remoteFilePath = withClient d host (perform (CopyTo host localFilePath remoteFilePath))"

definition drv_CopyR :: "SSHInfraDriver \<Rightarrow> net_ip \<Rightarrow> string \<Rightarrow> string \<Rightarrow> unit io" where
  "drv_CopyR d host remoteFilePath localFilePath = withClient d host (perform (CopyFrom host localFilePath remoteFilePath))"

definition drv_CmdAsync :: "SSHInfraDriver \<Rightarrow> net_ip \<Rightarrow> env \<Rightarrow> string list \<Rightarrow> unit io" where
  "drv_CmdAsync d host e cmd = withClient d host (perform (CmdAsyncOn host e cmd))"

definition drv_Cmd :: "SSHInfraDriver \<Rightarrow> net_ip \<Rightarrow> env \<Rightarrow> string \<Rightarrow> string io" where
  "drv_Cmd d host e cmd = withClient d host (askText (CmdOn host e cmd))"

definition drv_CmdToString :: "SSHInfraDriver \<Rightarrow> net_ip \<Rightarrow> env \<Rightarrow> string \<Rightarrow> string \<Rightarrow> string io" where
  "drv_CmdToString d host e cmd spilt = withClient d host (askText (CmdToStringOn host e cmd spilt))"

definition drv_IsFileExist :: "SSHInfraDriver \<Rightarrow> net_ip \<Rightarrow> string \<Rightarrow> bool io" where
  "drv_IsFileExist d host remoteFilePath = withClient d host (askFlag (StatFile host remoteFilePath))"

definition drv_IsDirExist :: "SSHInfraDriver \<Rightarrow> net_ip \<Rightarrow> string \<Rightarrow> bool io" where
  "drv_IsDirExist d host remoteDirPath = withClient d host (askFlag (StatDir host remoteDirPath))"

definition drv_GetPlatform :: "goRuntime \<Rightarrow> SSHInfraDriver \<Rightarrow> net_ip \<Rightarrow> Platform io" where
  "drv_GetPlatform gr d host = withClient d host (ssh_GetPlatform gr host)"

definition drv_Ping :: "SSHInfraDriver \<Rightarrow> net_ip \<Rightarrow> unit io" where
  "drv_Ping d host = withClient d host (perform (PingHost host))"

definition SetHostName :: "SSHInfraDriver \<Rightarrow> net_ip \<Rightarrow> string \<Rightarrow> unit io" where
  "SetHostName d host hostName = drv_CmdAsync d host [] [''hostnamectl set-hostname '' @ hostName]"

definition DefaultSealerHostAliasAnnotation :: string where
  "DefaultSealerHostAliasAnnotation = ''#hostalias-set-by-sealer''"

definition CommandSetHostAlias :: "string \<Rightarrow> string \<Rightarrow> string" where
  "CommandSetHostAlias hostName ip = fmt_Sprintf
     (''if grep \" %s \" /etc/hosts &>/dev/null;then sed -i \"/'' @ backslash @ '' %s'' @ backslash
      @ '' /d\" /etc/hosts; fi;echo \"%s %s %s\" >>/etc/hosts'')
     [hostName, hostName, ip, hostName, DefaultSealerHostAliasAnnotation]"

definition CommandUnSetHostAlias :: string where
  "CommandUnSetHostAlias = fmt_Sprintf ''echo \"$(sed \"/%s/d\" /etc/hosts)\" > /etc/hosts''
     [DefaultSealerHostAliasAnnotation]"

definition SetClusterHostAliases :: "SSHInfraDriver \<Rightarrow> net_ip list \<Rightarrow> unit io" where
  "SetClusterHostAliases d hosts = forE hosts (\<lambda>host.
     forE (c_HostAliases (Spec (d_cluster d))) (\<lambda>hostAliases.
       drv_CmdAsync d host [] [CommandSetHostAlias (strings_Join (a_Hostnames hostAliases) '' '') (a_IP hostAliases)]))"

definition DeleteClusterHostAliases :: "SSHInfraDriver \<Rightarrow> net_ip list \<Rightarrow> unit io" where
  "DeleteClusterHostAliases d hosts = forE hosts (\<lambda>host. drv_CmdAsync d host [] [CommandUnSetHostAlias])"

definition GetHostName :: "SSHInfraDriver \<Rightarrow> net_ip \<Rightarrow> string io" where
  "GetHostName d hostIP = bindE (drv_CmdToString d hostIP [] ''uname -n'' []) (\<lambda>hostName.
     if hostName = [] then throwE (Errorf ''faild to get remote hostname of host(%s)'' [ip_String hostIP])
     else returnE (strings_ToLower hostName))"

text \<open>The hosts of each platform, in the order given.\<close>

fun hostsPlatform_go :: "goRuntime \<Rightarrow> SSHInfraDriver \<Rightarrow> net_ip list \<Rightarrow> (Platform \<times> net_ip list) list \<Rightarrow> (Platform \<times> net_ip list) list io" where
  "hostsPlatform_go gr d [] m = returnE m"
| "hostsPlatform_go gr d (ip # ips) m = bindE (drv_GetPlatform gr d ip) (\<lambda>plat.
     hostsPlatform_go gr d ips
       (if map_of m plat = None then m @ [(plat, [ip])]
        else map (\<lambda>(p, hs). if p = plat then (p, hs @ [ip]) else (p, hs)) m))"

definition GetHostsPlatform :: "goRuntime \<Rightarrow> SSHInfraDriver \<Rightarrow> net_ip list \<Rightarrow> (Platform \<times> net_ip list) list io" where
  "GetHostsPlatform gr d hosts = hostsPlatform_go gr d hosts []"

section \<open>The role table on the heap\<close>

text \<open>
  The invariant of the role loop. \<open>E\<close> gives the addresses each role should have so far, \<open>U\<close> the
  arrays of hosts not processed yet, to which no role points, and \<open>F\<close> arrays without spare
  capacity. Two roles share an array only when both slices are full.
\<close>

definition role_inv :: "(string \<Rightarrow> net_ip list) \<Rightarrow> net_ip heap \<Rightarrow> (string \<rightharpoonup> slice) \<Rightarrow> nat set \<Rightarrow> nat set \<Rightarrow> bool" where
  "role_inv E h m U F \<longleftrightarrow>
     (\<forall>r s. m r = Some s \<longrightarrow> slice_ok h s \<and> slice_read h s = E r \<and> sl_arr s \<notin> U
        \<and> (sl_arr s \<in> F \<longrightarrow> slice_full s)) \<and>
     (\<forall>r. m r = None \<longrightarrow> E r = []) \<and>
     (\<forall>r1 r2 s1 s2. m r1 = Some s1 \<longrightarrow> m r2 = Some s2 \<longrightarrow> r1 \<noteq> r2 \<longrightarrow> sl_arr s1 = sl_arr s2
        \<longrightarrow> slice_full s1 \<and> slice_full s2)"

lemma role_invD:
  assumes "role_inv E h m U F" and "m r = Some s"
  shows "slice_ok h s" "slice_read h s = E r" "sl_arr s \<notin> U" "sl_arr s \<in> F \<Longrightarrow> slice_full s"
    "sl_arr s < hp_next h"
  using assms by (auto simp: role_inv_def slice_ok_def)

lemma role_inv_share:
  assumes "role_inv E h m U F" and "m r1 = Some s1" and "m r2 = Some s2" and "r1 \<noteq> r2" and "sl_arr s1 = sl_arr s2"
  shows "slice_full s1 \<and> slice_full s2"
  using assms(1) unfolding role_inv_def by (elim conjE) (use assms(2-) in blast)

lemma role_inv_new:
  assumes inv: "role_inv E h m U F" and none: "m r = None" and ok: "slice_ok h s" and "sl_arr s \<notin> U"
    and own: "slice_full s \<and> sl_arr s \<in> F \<or> sl_arr s \<notin> F \<and> (\<forall>r s'. m r = Some s' \<longrightarrow> sl_arr s' \<noteq> sl_arr s)"
  shows "role_inv (E(r := E r @ slice_read h s)) h (m(r \<mapsto> s)) U F"
proof -
  have "E r = []" using inv none by (simp add: role_inv_def)
  moreover have "slice_full s \<and> slice_full s'" if "m q = Some s'" "sl_arr s' = sl_arr s" for q s'
    using own role_invD(4) [OF inv that(1)] that by auto
  moreover have "sl_arr s \<in> F \<longrightarrow> slice_full s" using own by blast
  ultimately show ?thesis
    using inv ok assms(4) unfolding role_inv_def by (auto dest: sym)
qed

lemma role_inv_append:
  assumes inv: "role_inv E h m U F" and some: "m r = Some ips"
    and app: "slice_append grow z h ips vs = (h', ips')" and dom: "\<forall>a \<in> U \<union> F. a < hp_next h"
  shows "role_inv (E(r := E r @ vs)) h' (m(r \<mapsto> ips')) U F"
    and "\<forall>a \<in> U \<union> F. hp_arr h' a = hp_arr h a"
proof -
  note ips = role_invD [OF inv some]
  have share: "sl_arr s \<noteq> sl_arr ips \<or> slice_full ips" if "m q = Some s" "q \<noteq> r" for q s
    using inv some that by (force simp: role_inv_def)
  have frame: "hp_arr h' (sl_arr s) = hp_arr h (sl_arr s)" if "m q = Some s" "q \<noteq> r" for q s
    using append_frame [OF app share [OF that] _ ips(1)] role_invD(5) [OF inv that(1)] by simp
  have other: "slice_ok h' s \<and> slice_read h' s = E q" if "m q = Some s" "q \<noteq> r" for q s
    using role_invD(1,2) [OF inv that(1)] frame [OF that] append_next [OF app]
    by (auto simp: slice_ok_def slice_read_def)
  have mine: "slice_ok h' ips'" "slice_read h' ips' = E r @ vs"
    using append_ok [OF ips(1) app] append_read [OF ips(1) app] ips(2) by auto
  have place: "sl_arr ips' \<notin> U" "sl_arr ips' \<in> F \<longrightarrow> slice_full ips'"
    using append_arr [OF app] ips(3,4) dom by auto
  have alone: "slice_full ips' \<and> slice_full s" if "m q = Some s" "q \<noteq> r" "sl_arr s = sl_arr ips'" for q s
  proof -
    have "sl_arr ips' \<noteq> hp_next h" using role_invD(5) [OF inv that(1)] that(3) by simp
    with append_arr [OF app] have same: "sl_arr ips' = sl_arr ips" "slice_full ips \<longrightarrow> ips' = ips" by auto
    then have "slice_full ips \<and> slice_full s"
      using role_inv_share [OF inv some that(1)] that by simp
    with same show ?thesis by simp
  qed
  show "role_inv (E(r := E r @ vs)) h' (m(r \<mapsto> ips')) U F"
    unfolding role_inv_def
  proof (intro conjI allI impI)
    fix q s assume q: "(m(r \<mapsto> ips')) q = Some s"
    show "slice_ok h' s" "slice_read h' s = (E(r := E r @ vs)) q" "sl_arr s \<notin> U"
      using q mine place other role_invD(3) [OF inv] by (auto split: if_splits)
    assume "sl_arr s \<in> F"
    then show "slice_full s" using q place role_invD(4) [OF inv] by (auto split: if_splits)
  next
    fix q assume "(m(r \<mapsto> ips')) q = None"
    then show "(E(r := E r @ vs)) q = []" using inv by (auto simp: role_inv_def split: if_splits)
  next
    fix q1 q2 s1 s2
    assume q12: "(m(r \<mapsto> ips')) q1 = Some s1" "(m(r \<mapsto> ips')) q2 = Some s2" "q1 \<noteq> q2" "sl_arr s1 = sl_arr s2"
    then have "slice_full s1 \<and> slice_full s2"
    proof -
      consider "q1 = r" | "q2 = r" | "q1 \<noteq> r" "q2 \<noteq> r" by blast
      then show ?thesis
      proof cases
        case 1
        then have "s1 = ips'" "m q2 = Some s2" "q2 \<noteq> r" using q12(1-3) by auto
        with alone [of q2 s2] q12(4) show ?thesis by simp
      next
        case 2
        then have "s2 = ips'" "m q1 = Some s1" "q1 \<noteq> r" using q12(1-3) by auto
        with alone [of q1 s1] q12(4) show ?thesis by simp
      next
        case 3
        then have "m q1 = Some s1" "m q2 = Some s2" using q12(1,2) by simp_all
        from role_inv_share [OF inv this q12(3,4)] show ?thesis .
      qed
    qed
    then show "slice_full s1" "slice_full s2" by auto
  qed
  show "\<forall>a \<in> U \<union> F. hp_arr h' a = hp_arr h a"
  proof
    fix a assume a: "a \<in> U \<union> F"
    with ips(3,4) have "a \<noteq> sl_arr ips \<or> slice_full ips" by auto
    from append_frame [OF app this _ ips(1)] a dom show "hp_arr h' a = hp_arr h a" by simp
  qed
qed

lemma addRoles_inv:
  assumes "role_inv E h m U F" and "slice_ok h s" and "sl_arr s \<notin> U" and "\<forall>a \<in> insert (sl_arr s) (U \<union> F). a < hp_next h"
    and "slice_full s \<and> sl_arr s \<in> F \<or>
         sl_arr s \<notin> F \<and> length roles \<le> 1 \<and> (\<forall>r s'. m r = Some s' \<longrightarrow> sl_arr s' \<noteq> sl_arr s)"
    and "addRoles grow s roles (h, m) = (h', m')"
  shows "role_inv (\<lambda>r. E r @ concat (map (\<lambda>q. if r = q then slice_read h s else []) roles)) h' m' U F
    \<and> (\<forall>a \<in> U \<union> F. hp_arr h' a = hp_arr h a) \<and> hp_next h \<le> hp_next h'"
  using assms
proof (induction roles arbitrary: E h m)
  case Nil
  then show ?case by simp
next
  case (Cons r roles)
  let ?vs = "slice_read h s"
  have E': "(\<lambda>q. E q @ concat (map (\<lambda>p. if q = p then ?vs else []) (r # roles)))
      = (\<lambda>q. (E(r := E r @ ?vs)) q @ concat (map (\<lambda>p. if q = p then ?vs else []) roles))" by auto
  show ?case
  proof (cases "m r")
    case None
    have inv': "role_inv (E(r := E r @ ?vs)) h (m(r \<mapsto> s)) U F"
      by (rule role_inv_new) (use Cons.prems None in auto)
    show ?thesis
    proof (cases "slice_full s \<and> sl_arr s \<in> F")
      case True
      have run: "addRoles grow s roles (h, m(r \<mapsto> s)) = (h', m')" using Cons.prems(6) None by simp
      from Cons.IH [OF inv' Cons.prems(2-4) disjI1 [OF True] run] show ?thesis unfolding E' .
    next
      case False
      then have "roles = []" using Cons.prems(5) by auto
      then have "h' = h" "m' = m(r \<mapsto> s)" using Cons.prems(6) None by auto
      with inv' \<open>roles = []\<close> show ?thesis unfolding E' by (simp add: fun_upd_def)
    qed
  next
    case (Some ips)
    obtain h1 ips' where app: "slice_append grow [] h ips ?vs = (h1, ips')"
      by (cases "slice_append grow [] h ips ?vs")
    have dom: "\<forall>a \<in> U \<union> F. a < hp_next h" using Cons.prems(4) by blast
    note step = role_inv_append [OF Cons.prems(1) Some app dom]
    have next1: "hp_next h \<le> hp_next h1" by (rule append_next [OF app])
    have run: "addRoles grow s roles (h1, m(r \<mapsto> ips')) = (h', m')"
      using Cons.prems(6) Some app by simp
    show ?thesis
    proof (cases "slice_full s \<and> sl_arr s \<in> F")
      case True
      then have arr: "hp_arr h1 (sl_arr s) = hp_arr h (sl_arr s)" using step(2) by blast
      then have ok1: "slice_ok h1 s" and vs1: "slice_read h1 s = ?vs"
        using Cons.prems(2) next1 by (auto simp: slice_ok_def slice_read_def)
      have dom1: "\<forall>a \<in> insert (sl_arr s) (U \<union> F). a < hp_next h1" using Cons.prems(4) next1 order_less_le_trans by blast
      from Cons.IH [OF step(1) ok1 Cons.prems(3) dom1 disjI1 [OF True] run] step(2) next1
      show ?thesis unfolding E' vs1 by auto
    next
      case False
      then have "roles = []" using Cons.prems(5) by auto
      then have "h' = h1" "m' = m(r \<mapsto> ips')" using run by auto
      with step next1 \<open>roles = []\<close> show ?thesis unfolding E' by (simp add: fun_upd_def)
    qed
  qed
qed

lemma role_inv_move:
  assumes "role_inv E h m U F" and "j \<in> U" and "F' \<subseteq> insert j F"
  shows "role_inv E h m (U - {j}) F'"
proof -
  have "sl_arr s \<noteq> j" if "m r = Some s" for r s
    using role_invD(3) [OF assms(1) that] assms(2) by blast
  then show ?thesis
    using assms(1,3) unfolding role_inv_def by blast
qed

lemma roleLoop_inv:
  assumes safe: "\<forall>i < length hosts. spare i = 0 \<or> length (h_Roles (hosts ! i)) \<le> 1"
    and "n \<le> length hosts"
    and "fold (\<lambda>i st. addRoles grow (hostSlice spare hosts i) (h_Roles (hosts ! i)) st)
       [0..<n] (initHeap spare hosts, Map.empty) = (h, m)"
  shows "role_inv (\<lambda>r. concat (map (ipsOfHostByRole r) (take n hosts))) h m
      {n..<length hosts} {i. i < n \<and> spare i = 0}
    \<and> (\<forall>a \<in> {n..<length hosts} \<union> {i. i < n \<and> spare i = 0}. hp_arr h a = hp_arr (initHeap spare hosts) a)
    \<and> length hosts \<le> hp_next h"
  using assms(2,3)
proof (induction n arbitrary: h m)
  case 0
  then show ?case by (auto simp: role_inv_def initHeap_def)
next
  case (Suc n)
  obtain h0 m0 where st: "fold (\<lambda>i st. addRoles grow (hostSlice spare hosts i) (h_Roles (hosts ! i)) st)
       [0..<n] (initHeap spare hosts, Map.empty) = (h0, m0)" by (meson surj_pair)
  let ?F = "{i. i < n \<and> spare i = 0}" and ?U = "{n..<length hosts}" and ?s = "hostSlice spare hosts n"
  let ?E = "\<lambda>r. concat (map (ipsOfHostByRole r) (take n hosts))"
  have n: "n < length hosts" using Suc.prems(1) by simp
  have IH: "role_inv ?E h0 m0 ?U ?F" "\<forall>a \<in> ?U \<union> ?F. hp_arr h0 a = hp_arr (initHeap spare hosts) a"
    "length hosts \<le> hp_next h0"
    using Suc.IH [OF _ st] n by auto
  let ?F' = "{i. i < Suc n \<and> spare i = 0}" and ?U' = "{Suc n..<length hosts}"
  have U: "?U' = ?U - {n}" by auto
  have inv: "role_inv ?E h0 m0 ?U' ?F'"
    unfolding U by (rule role_inv_move [OF IH(1)]) (use n in auto)
  have arr: "hp_arr h0 n = h_IPS (hosts ! n) @ replicate (spare n) []"
    using IH(2) n by (auto simp: initHeap_def)
  have ok: "slice_ok h0 ?s" and vs: "slice_read h0 ?s = h_IPS (hosts ! n)"
    using arr IH(3) n by (auto simp: slice_ok_def slice_read_def hostSlice_def)
  have own: "slice_full ?s \<and> sl_arr ?s \<in> ?F' \<or> sl_arr ?s \<notin> ?F' \<and> length (h_Roles (hosts ! n)) \<le> 1
      \<and> (\<forall>r s'. m0 r = Some s' \<longrightarrow> sl_arr s' \<noteq> sl_arr ?s)"
    using safe n role_invD(3) [OF IH(1)] by (auto simp: slice_full_def hostSlice_def)
  have run: "addRoles grow ?s (h_Roles (hosts ! n)) (h0, m0) = (h, m)"
    using Suc.prems(2) st by simp
  have dom: "\<forall>a \<in> insert (sl_arr ?s) (?U' \<union> ?F'). a < hp_next h0"
    using IH(3) n by (auto simp: hostSlice_def)
  have "sl_arr ?s \<notin> ?U'" by (simp add: hostSlice_def)
  from addRoles_inv [OF inv ok this dom own run]
  have "role_inv (\<lambda>r. ?E r @ ipsOfHostByRole r (hosts ! n)) h m ?U' ?F'"
    and keep: "\<forall>a \<in> ?U' \<union> ?F'. hp_arr h a = hp_arr h0 a" and nx: "hp_next h0 \<le> hp_next h"
    unfolding vs ipsOfHostByRole_def by simp_all
  moreover have "hp_arr h0 a = hp_arr (initHeap spare hosts) a" if "a \<in> ?U' \<union> ?F'" for a
  proof -
    have "a \<in> ?U \<union> ?F" using that n by auto
    with IH(2) show ?thesis by blast
  qed
  ultimately show ?case
    using keep nx IH(3) n by (simp add: take_Suc_conv_app_nth)
qed

lemma roleTable_correct:
  assumes "\<forall>i < length hosts. spare i = 0 \<or> length (h_Roles (hosts ! i)) \<le> 1"
  shows "nil_if_absent (roleTable grow spare hosts role) = concat (map (ipsOfHostByRole role) hosts)"
proof -
  obtain h m where run: "roleLoop grow spare hosts = (h, m)" by (meson surj_pair)
  from roleLoop_inv [OF assms le_refl run [unfolded roleLoop_def]]
  have "role_inv (\<lambda>r. concat (map (ipsOfHostByRole r) hosts)) h m {} {i. i < length hosts \<and> spare i = 0}"
    by simp
  then show ?thesis
    by (auto simp: roleTable_def run role_inv_def nil_if_absent_def split: option.split)
qed

section \<open>The driver's tables\<close>

lemma put_ips_apply:
  "put_ips ips v m k = (if k \<in> ip_String ` set ips then Some v else m k)"
  by (induction ips arbitrary: m) (auto simp: put_ips_def)

lemma fold_put_ips_dom:
  "(\<exists>x. fold (\<lambda>h. put_ips (h_IPS h) (g h)) hosts m k = Some x)
     \<longleftrightarrow> k \<in> ip_String ` (\<Union>h \<in> set hosts. set (h_IPS h)) \<or> (\<exists>x. m k = Some x)"
  by (induction hosts arbitrary: m) (auto simp: put_ips_apply)

text \<open>The last host that lists the address decides.\<close>

lemma fold_put_ips_last:
  assumes "hosts = pre @ h # post" and "k \<in> ip_String ` set (h_IPS h)"
    and "\<forall>h' \<in> set post. k \<notin> ip_String ` set (h_IPS h')"
  shows "fold (\<lambda>h. put_ips (h_IPS h) (g h)) hosts m k = Some (g h)"
proof -
  have "fold (\<lambda>h. put_ips (h_IPS h) (g h)) post m' k = m' k" for m'
    using assms(3) by (induction post arbitrary: m') (auto simp: put_ips_apply)
  with assms(1,2) show ?thesis by (simp add: put_ips_apply)
qed

lemma NewInfraDriver_Inr_iff:
  "NewInfraDriver grow spare c = Inr d \<longleftrightarrow>
    (let hosts = c_Hosts (Spec c); ips = concat (map h_IPS hosts);
         cenv = ConvertStringSliceToMap (withFamilyEnv (hd ips) (c_Env (Spec c))) in
     ips \<noteq> [] \<and> checkAllHostsSameFamily ips = Inr () \<and> (\<exists>taints. taintTable hosts Map.empty = Inr taints \<and>
       d = \<lparr>
         sshConfigs = fold (\<lambda>h. put_ips (h_IPS h) (NewSSHClient (mergeSSH (h_SSH h) (c_SSH (Spec c))))) hosts Map.empty,
         d_hosts = ips, hostTaint = taints,
         hostRolesMap = fold (\<lambda>h. put_ips (h_IPS h) (h_Roles h)) hosts Map.empty,
         roleHostsMap = roleTable grow spare hosts,
         hostLabels = fold (\<lambda>h. put_ips (h_IPS h) (h_Labels h)) hosts Map.empty,
         hostEnvMap = fold (\<lambda>h. put_ips (h_IPS h) (maps_Merge (ConvertStringSliceToMap (h_Env h)) cenv)) hosts Map.empty,
         clusterEnv = cenv, d_cluster = c\<rparr>))"
  unfolding NewInfraDriver_def Let_def by (auto simp: bindR_Inr_iff)

lemma driver_clusterEnv:
  "NewInfraDriver grow spare c = Inr d \<Longrightarrow> clusterEnv d =
     ConvertStringSliceToMap (withFamilyEnv (hd (concat (map h_IPS (c_Hosts (Spec c))))) (c_Env (Spec c)))"
  by (auto simp: NewInfraDriver_Inr_iff Let_def)

lemma driver_role_lists:
  assumes "NewInfraDriver grow spare c = Inr d"
    and "\<forall>i < length (c_Hosts (Spec c)). spare i = 0 \<or> length (h_Roles (c_Hosts (Spec c) ! i)) \<le> 1"
  shows "GetHostIPListByRole d role = GetIPSByRole c role" and "GetHostIPList d = concat (map h_IPS (c_Hosts (Spec c)))"
  using assms(1) roleTable_correct [OF assms(2)]
  by (auto simp: NewInfraDriver_Inr_iff Let_def GetHostIPListByRole_def GetHostIPList_def GetIPSByRole_def)

text \<open>
  C5. The driver built from a cluster answers a role query with exactly the addresses the
  cluster object itself gives for the role, in the same order, whenever each host either carries
  at most one role or its address list has no spare capacity; and its host list is the
  concatenation of the hosts' address lists.
\<close>

theorem driver_roles_agree:
  assumes "NewInfraDriver grow spare c = Inr d"
    and "\<forall>i < length (c_Hosts (Spec c)). spare i = 0 \<or> length (h_Roles (c_Hosts (Spec c) ! i)) \<le> 1"
  shows "GetHostIPListByRole d role = GetIPSByRole c role \<and> GetHostIPList d = concat (map h_IPS (c_Hosts (Spec c)))"
  using driver_role_lists [OF assms] by blast

text \<open>A cluster of a master that is also a node and a second node, for examples.\<close>

definition demoCluster :: Cluster where
  "demoCluster = emptyCluster\<lparr>Name := ''demo'', Spec := emptyClusterSpec\<lparr>c_Env := [''A=1'', ''B=2''],
     c_Hosts := [emptyHost\<lparr>h_IPS := [[10, 0, 0, 1]], h_Roles := [MASTER, NODE], h_Env := [''A=7'']\<rparr>,
                 emptyHost\<lparr>h_IPS := [[10, 0, 0, 2]], h_Roles := [NODE]\<rparr>]\<rparr>\<rparr>"

lemmas demo_simps = demoCluster_def emptyHost_def emptyCluster_def emptyClusterSpec_def

definition demoDriver :: SSHInfraDriver where
  "demoDriver = projr (NewInfraDriver (\<lambda>c n. n) (\<lambda>i. 0) demoCluster)"

lemma demoDriver: "NewInfraDriver (\<lambda>c n. n) (\<lambda>i. 0) demoCluster = Inr demoDriver"
  unfolding demoDriver_def
  by (simp add: NewInfraDriver_def demo_simps Let_def
      checkAllHostsSameFamily_def k8snet_IsIPv4_def ip_To4_def convertTaints_def)

theorem driver_roles_agree_witness: "GetHostIPListByRole demoDriver NODE = [[10, 0, 0, 1], [10, 0, 0, 2]]"
  using driver_roles_agree [OF demoDriver, of NODE]
  by (simp add: GetIPSByRole_def ipsOfHostByRole_def demo_simps)

text \<open>
  With spare capacity behind the first host's address list (a slice the JSON decoder
  filled has some) the role lists of a driver can be wrong: with hosts A (master and node),
  B (master) and C (node), the appends of B and of C write to the same array element, and the
  list of masters comes out as A, C, whatever the growth policy of the runtime is.
\<close>

theorem driver_roles_clobbered:
  "GetHostIPListByRole (projr (NewInfraDriver grow (\<lambda>i. Suc n)
      (set_Hosts [emptyHost\<lparr>h_IPS := [[10, 0, 0, 1]], h_Roles := [MASTER, NODE]\<rparr>,
                  emptyHost\<lparr>h_IPS := [[10, 0, 0, 2]], h_Roles := [MASTER]\<rparr>,
                  emptyHost\<lparr>h_IPS := [[10, 0, 0, 3]], h_Roles := [NODE]\<rparr>] emptyCluster))) MASTER
    = [[10, 0, 0, 1], [10, 0, 0, 3]]"
  by (simp add: NewInfraDriver_def emptyHost_def emptyCluster_def emptyClusterSpec_def
      checkAllHostsSameFamily_def k8snet_IsIPv4_def ip_To4_def convertTaints_def GetHostIPListByRole_def
      nil_if_absent_def roleTable_def roleLoop_def hostSlice_def initHeap_def slice_append_def slice_read_def
      upt_rec numeral_3_eq_3 Let_def)

text \<open>
  The environment of a host: for an address listed by host entry \<open>h\<close> and by no later entry,
  the variables of \<open>h\<close> win over those of the cluster, and the variable \<open>HostIP\<close> holds the address
  itself unless the user set it. The address has an SSH configuration, which is that of \<open>h\<close>
  completed with the cluster's.
\<close>

theorem driver_host_env:
  assumes d: "NewInfraDriver grow spare c = Inr d" and hosts: "c_Hosts (Spec c) = pre @ h # post"
    and ip: "ip \<in> set (h_IPS h)" and last: "\<forall>h' \<in> set post. ip_String ip \<notin> ip_String ` set (h_IPS h')"
  shows "(\<exists>e d'. GetHostEnv d ip = Inr (e, d') \<and>
      map_of e = [EnvHostIP \<mapsto> ip_String ip] ++ map_of (GetClusterEnv d) ++ map_of (ConvertStringSliceToMap (h_Env h)))
    \<and> sshConfigs d (ip_String ip) = Some (NewSSHClient (mergeSSH (h_SSH h) (c_SSH (Spec c))))
    \<and> GetRoleListByHostIP d (ip_String ip) = h_Roles h"
proof -
  note last_host = fold_put_ips_last [OF hosts imageI [OF ip, of ip_String] last]
  let ?e = "maps_Merge (ConvertStringSliceToMap (h_Env h)) (clusterEnv d)"
  have tables: "hostEnvMap d (ip_String ip) = Some ?e"
    "sshConfigs d (ip_String ip) = Some (NewSSHClient (mergeSSH (h_SSH h) (c_SSH (Spec c))))"
    "hostRolesMap d (ip_String ip) = Some (h_Roles h)" "env_wf (clusterEnv d)"
    using d by (auto simp: NewInfraDriver_Inr_iff Let_def last_host env_wf_ConvertStringSliceToMap)
  then have "map_of ?e = map_of (clusterEnv d) ++ map_of (ConvertStringSliceToMap (h_Env h))"
    by (simp add: map_of_maps_Merge)
  with tables show ?thesis
    by (auto simp: GetHostEnv_def Let_def GetClusterEnv_def GetRoleListByHostIP_def nil_if_absent_def
        map_of_env_put fun_eq_iff map_add_def split: option.splits)
qed

theorem driver_host_env_witness:
  "\<exists>e d'. GetHostEnv demoDriver [10, 0, 0, 1] = Inr (e, d') \<and> map_of e ''A'' = Some ''7'' \<and> map_of e ''B'' = Some ''2''"
proof -
  have hosts: "c_Hosts (Spec demoCluster) =
      [] @ emptyHost\<lparr>h_IPS := [[10, 0, 0, 1]], h_Roles := [MASTER, NODE], h_Env := [''A=7'']\<rparr>
      # [emptyHost\<lparr>h_IPS := [[10, 0, 0, 2]], h_Roles := [NODE]\<rparr>]"
    by (simp add: demoCluster_def)
  have other: "ip_String [10, 0, 0, 1] \<noteq> ip_String [10, 0, 0, 2]" by code_simp
  have env: "ConvertStringSliceToMap [''A=7''] = [(''A'', ''7'')]" by code_simp
  have bs: "ConvertStringSliceToMap (withFamilyEnv [10, 0, 0, 1] [''A=1'', ''B=2'']) = [(''A'', ''1''), (''B'', ''2'')]"
    by code_simp
  have cenv: "map_of (GetClusterEnv demoDriver) ''B'' = Some ''2''"
    using driver_clusterEnv [OF demoDriver] bs by (simp add: GetClusterEnv_def demo_simps)
  show ?thesis
    using driver_host_env [OF demoDriver hosts, of "[10, 0, 0, 1]"] other env cenv
    by (auto simp: emptyHost_def EnvHostIP_def)
qed

section \<open>Remote operations stay in the cluster\<close>

fun action_host :: "action \<Rightarrow> net_ip option" where
  "action_host (CmdAsyncOn ip _ _) = Some ip"
| "action_host (CmdOn ip _ _) = Some ip"
| "action_host (CmdToStringOn ip _ _ _) = Some ip"
| "action_host (CopyTo ip _ _) = Some ip"
| "action_host (CopyFrom ip _ _) = Some ip"
| "action_host (StatFile ip _) = Some ip"
| "action_host (StatDir ip _) = Some ip"
| "action_host (ReadRemote ip _) = Some ip"
| "action_host (PingHost ip) = Some ip"
| "action_host (SshCall ip _ _) = Some ip"
| "action_host (Detached a) = action_host a"
| "action_host _ = None"

definition in_cluster :: "SSHInfraDriver \<Rightarrow> action \<Rightarrow> bool" where
  "in_cluster d a = (\<forall>ip. action_host a = Some ip \<longrightarrow> sshConfigs d (ip_String ip) \<noteq> None)"

definition on_hosts :: "net_ip set \<Rightarrow> action \<Rightarrow> bool" where
  "on_hosts H a = (\<forall>ip. action_host a = Some ip \<longrightarrow> ip \<in> H)"

lemma obeys_withClient:
  "(sshConfigs d (ip_String host) \<noteq> None \<Longrightarrow> obeys P m) \<Longrightarrow> obeys P (withClient d host m)"
  unfolding withClient_def by (auto split: option.split)

lemma obeys_drv [intro!]:
  "obeys (in_cluster d) (drv_Copy d host a b)"
  "obeys (in_cluster d) (drv_CopyR d host a b)"
  "obeys (in_cluster d) (drv_CmdAsync d host e cmds)"
  "obeys (in_cluster d) (drv_Cmd d host e cmd)"
  "obeys (in_cluster d) (drv_CmdToString d host e cmd sep)"
  "obeys (in_cluster d) (drv_IsFileExist d host a)"
  "obeys (in_cluster d) (drv_IsDirExist d host a)"
  "obeys (in_cluster d) (drv_GetPlatform gr d host)"
  "obeys (in_cluster d) (drv_Ping d host)"
  unfolding drv_Copy_def drv_CopyR_def drv_CmdAsync_def drv_Cmd_def drv_CmdToString_def drv_IsFileExist_def
    drv_IsDirExist_def drv_GetPlatform_def drv_Ping_def
  by (auto intro!: obeys_withClient obeys_ssh_GetPlatform simp: in_cluster_def)

lemma obeys_GetHostsPlatform [intro!]: "obeys (in_cluster d) (GetHostsPlatform gr d hosts)"
proof -
  have "obeys (in_cluster d) (hostsPlatform_go gr d hosts m)" for m by (induction hosts arbitrary: m) auto
  then show ?thesis by (simp add: GetHostsPlatform_def)
qed

lemma grows_drv [intro!]:
  "grows (drv_Copy d host a b)" "grows (drv_CopyR d host a b)" "grows (drv_CmdAsync d host e cmds)"
  "grows (drv_Cmd d host e cmd)" "grows (drv_CmdToString d host e cmd sep)" "grows (drv_IsFileExist d host a)"
  "grows (drv_IsDirExist d host a)" "grows (drv_GetPlatform gr d host)" "grows (drv_Ping d host)"
  by (rule obeys_mono [of "in_cluster d"]; blast)+

lemma ensures_drv:
  "ensures (CmdAsyncOn host e cmds) (drv_CmdAsync d host e cmds)"
  "ensures (CopyTo host a b) (drv_Copy d host a b)"
  unfolding drv_CmdAsync_def drv_Copy_def withClient_def
  by (auto intro: ensures_perform ensures_throw split: option.split)

lemma obeys_drv_host [intro!]:
  "host \<in> H \<Longrightarrow> obeys (on_hosts H) (drv_Copy d host a b)"
  "host \<in> H \<Longrightarrow> obeys (on_hosts H) (drv_CmdAsync d host e cmds)"
  "host \<in> H \<Longrightarrow> obeys (on_hosts H) (drv_Cmd d host e cmd)"
  "host \<in> H \<Longrightarrow> obeys (on_hosts H) (drv_CmdToString d host e cmd sep)"
  "host \<in> H \<Longrightarrow> obeys (on_hosts H) (drv_Ping d host)"
  unfolding drv_Copy_def drv_CmdAsync_def drv_Cmd_def drv_CmdToString_def drv_Ping_def
  by (auto intro!: obeys_withClient simp: on_hosts_def)

lemma in_cluster_iff:
  assumes "NewInfraDriver grow spare c = Inr d"
  shows "sshConfigs d (ip_String ip) \<noteq> None \<longleftrightarrow> ip_String ip \<in> ip_String ` set (GetHostIPList d)"
proof -
  have "set (GetHostIPList d) = (\<Union>h \<in> set (c_Hosts (Spec c)). set (h_IPS h))"
    using assms by (auto simp: NewInfraDriver_Inr_iff Let_def GetHostIPList_def)
  moreover have "sshConfigs d = fold (\<lambda>h. put_ips (h_IPS h) (NewSSHClient (mergeSSH (h_SSH h) (c_SSH (Spec c)))))
      (c_Hosts (Spec c)) Map.empty"
    using assms by (auto simp: NewInfraDriver_Inr_iff Let_def)
  ultimately show ?thesis using fold_put_ips_dom [of _ _ Map.empty] by (simp del: UN_simps)
qed

text \<open>In a calm environment an operation on a host of the cluster is the one action it stands for.\<close>

lemma does_drv:
  assumes "calm w" and "sshConfigs d (ip_String host) \<noteq> None"
  shows "does (drv_CmdAsync d host e cmds) w () [CmdAsyncOn host e cmds]"
    and "does (drv_Copy d host a b) w () [CopyTo host a b]"
  using assms by (auto simp: drv_CmdAsync_def drv_Copy_def withClient_def intro: does_perform_calm)

lemma smooth_drv [intro!]:
  assumes "sshConfigs d (ip_String host) \<noteq> None"
  shows "smooth (drv_CmdAsync d host e cmds)" and "smooth (drv_Copy d host a b)"
    and "smooth (drv_IsFileExist d host a)" and "smooth (drv_CmdToString d host e cmd sep)"
  using assms
  by (auto simp: drv_CmdAsync_def drv_Copy_def drv_IsFileExist_def drv_CmdToString_def withClient_def)

lemma demo_in_cluster: "sshConfigs demoDriver (ip_String [10, 0, 0, 1]) \<noteq> None"
  "sshConfigs demoDriver (ip_String [10, 0, 0, 2]) \<noteq> None"
  using in_cluster_iff [OF demoDriver] driver_role_lists [OF demoDriver]
  by (auto simp: demo_simps)

end
