(* ===== verification/Hooks.thy ===== *)
theory Hooks
  imports Infra_Driver
begin

text \<open>
  Model of \<^verbatim>\<open>pkg/cluster-runtime/hook.go\<close>: the hooks of a cluster image. Plugins are turned into
  a table from phases to hook lists; at a phase the hooks run in the order of their names, each
  on the hosts of its scope. Reading plugin files is file I/O and not modelled.

  \<^verbatim>\<open>sort.Sort\<close> leaves the order of equal names open, so the sorter is a parameter with the
  contract \<open>hook_sorter\<close>; the table is sorted in place by the code, which a sorter applied to
  the stored list each time covers.
\<close>

section \<open>Phases and hooks\<close>

definition PreInstallCluster :: string where "PreInstallCluster = ''pre-install''"
definition PostInstallCluster :: string where "PostInstallCluster = ''post-install''"
definition PreUnInstallCluster :: string where "PreUnInstallCluster = ''pre-uninstall''"
definition PostUnInstallCluster :: string where "PostUnInstallCluster = ''post-uninstall''"
definition PreScaleUpCluster :: string where "PreScaleUpCluster = ''pre-scaleup''"
definition PostScaleUpCluster :: string where "PostScaleUpCluster = ''post-scaleup''"
definition UpgradeCluster :: string where "UpgradeCluster = ''upgrade''"
definition RollbackCluster :: string where "RollbackCluster = ''rollback''"
definition PreInitHost :: string where "PreInitHost = ''pre-init-host''"
definition PostInitHost :: string where "PostInitHost = ''post-init-host''"
definition PreCleanHost :: string where "PreCleanHost = ''pre-clean-host''"
definition PostCleanHost :: string where "PostCleanHost = ''post-clean-host''"
definition UpgradeHost :: string where "UpgradeHost = ''upgrade-host''"
definition ShellHook :: string where "ShellHook = ''SHELL''"

definition ExtraOptionSkipWhenWorkspaceNotExists :: string where
  "ExtraOptionSkipWhenWorkspaceNotExists = ''SkipWhenWorkspaceNotExists''"

record HookConfig =
  hk_Name :: string
  hk_Type :: string
  hk_Data :: string
  hk_Phase :: string
  hk_Scope :: string

record Plugin =
  pl_Name :: string
  pl_Type :: string
  pl_Data :: string
  pl_Action :: string
  pl_Scope :: string

type_synonym hooks = "string \<rightharpoonup> HookConfig list"
type_synonym HookFunc = "string \<Rightarrow> net_ip list \<Rightarrow> SSHInfraDriver \<Rightarrow> (string \<times> bool) list \<Rightarrow> unit io"
type_synonym factories = "(string \<times> HookFunc) list"

section \<open>Hook functions\<close>

definition shellHookCmd :: "SSHInfraDriver \<Rightarrow> (string \<times> bool) list \<Rightarrow> string \<Rightarrow> string" where
  "shellHookCmd driver extraOpts cmd =
     (let rootfs = GetClusterRootfsPath driver in
      if map_of extraOpts ExtraOptionSkipWhenWorkspaceNotExists = Some True
      then fmt_Sprintf ''if [ ! -d %s ];then exit 0;fi; cd %s && %s'' [rootfs, rootfs, cmd]
      else fmt_Sprintf ''cd %s && %s'' [rootfs, cmd])"

definition NewShellHook :: HookFunc where
  "NewShellHook cmd hosts driver extraOpts = forE hosts (\<lambda>ip.
     let wrappedCmd = shellHookCmd driver extraOpts cmd in
     bindE (liftR (GetHostEnv driver ip)) (\<lambda>(hostEnv, _).
       mapErr (Wrapf ''failed to run shell hook(%s) on host(%s): %v'' [wrappedCmd, ip_String ip])
         (drv_CmdAsync driver ip hostEnv [wrappedCmd])))"

definition Register :: "string \<Rightarrow> HookFunc option \<Rightarrow> factories \<Rightarrow> factories res" where
  "Register name factory fs = (case factory of
       None \<Rightarrow> Inl (Panic ''Must not provide nil hookFactory'')
     | Some f \<Rightarrow> if map_of fs name \<noteq> None
         then Inl (Panic (fmt_Sprintf ''hookFactory named %s already registered'' [name]))
         else Inr ((name, f) # fs))"

text \<open>The table after the package's \<^verbatim>\<open>init\<close>.\<close>

definition hookFactories :: factories where
  "hookFactories = (case Register ShellHook (Some NewShellHook) [] of Inr fs \<Rightarrow> fs | Inl _ \<Rightarrow> [])"

section \<open>From plugins to hooks\<close>

definition hookOf :: "Plugin \<Rightarrow> string \<Rightarrow> HookConfig" where
  "hookOf p phase = \<lparr>hk_Name = pl_Name p, hk_Type = pl_Type p,
     hk_Data = strings_TrimSuffix (pl_Data p) ''\<newline>'', hk_Phase = phase, hk_Scope = pl_Scope p\<rparr>"

fun addPhases :: "Plugin \<Rightarrow> string list \<Rightarrow> hooks \<Rightarrow> hooks" where
  "addPhases p [] m = m"
| "addPhases p (phase # phases) m =
     (if phase = [] then addPhases p phases m
      else addPhases p phases (m(phase \<mapsto> (case m phase of
             None \<Rightarrow> [hookOf p phase] | Some l \<Rightarrow> l @ [hookOf p phase]))))"

fun transferPlugins :: "factories \<Rightarrow> Plugin list \<Rightarrow> hooks \<Rightarrow> hooks res" where
  "transferPlugins fs [] m = Inr m"
| "transferPlugins fs (p # ps) m =
     (if map_of fs (pl_Type p) = None then Inl (Errorf ''hook type: %s is not registered'' [pl_Type p])
      else transferPlugins fs ps (addPhases p (strings_Split (pl_Action p) ''|'') m))"

definition transferPluginsToHooks :: "Plugin list \<Rightarrow> hooks res" where
  "transferPluginsToHooks plugins = transferPlugins hookFactories plugins Map.empty"

section \<open>Running hooks\<close>

fun addNewHosts :: "net_ip list \<Rightarrow> net_ip list \<Rightarrow> net_ip list" where
  "addNewHosts ret [] = ret"
| "addNewHosts ret (h # hs) = (if \<not> IsInIPList h ret then addNewHosts (ret @ [h]) hs else addNewHosts ret hs)"

definition getHostIPListByScope :: "SSHInfraDriver \<Rightarrow> string \<Rightarrow> net_ip list" where
  "getHostIPListByScope d scope =
     fold (\<lambda>s ret. addNewHosts ret (GetHostIPListByRole d (strings_TrimSpace s))) (strings_Split scope ''|'') []"

definition hookTargets :: "SSHInfraDriver \<Rightarrow> net_ip list \<Rightarrow> HookConfig \<Rightarrow> net_ip list" where
  "hookTargets d hosts hk = filter (\<lambda>expected. IsInIPList expected hosts) (getHostIPListByScope d (hk_Scope hk))"

definition callHook :: "HookConfig \<Rightarrow> net_ip list \<Rightarrow> SSHInfraDriver \<Rightarrow> (string \<times> bool) list \<Rightarrow> unit io" where
  "callHook hk hosts d extraOpts = (case map_of hookFactories (hk_Type hk) of
       None \<Rightarrow> throwE (Panic ''invalid memory address or nil pointer dereference'')
     | Some f \<Rightarrow> mapErr (\<lambda>_. Errorf ''failed to run hook: %s'' [hk_Name hk]) (f (hk_Data hk) hosts d extraOpts))"

definition hostHookOpts :: "string \<Rightarrow> (string \<times> bool) list" where
  "hostHookOpts phase = (if phase = PostCleanHost \<or> phase = PreCleanHost
     then [(ExtraOptionSkipWhenWorkspaceNotExists, True)] else [])"

definition clusterHookOpts :: "string \<Rightarrow> (string \<times> bool) list" where
  "clusterHookOpts phase = (if phase = PreUnInstallCluster \<or> phase = PostUnInstallCluster
     then [(ExtraOptionSkipWhenWorkspaceNotExists, True)] else [])"

definition runHostHook :: "(HookConfig list \<Rightarrow> HookConfig list) \<Rightarrow> hooks \<Rightarrow> SSHInfraDriver \<Rightarrow> string \<Rightarrow> net_ip list \<Rightarrow> unit io" where
  "runHostHook sorter hs d phase hosts = (case hs phase of
       None \<Rightarrow> returnE ()
     | Some hookConfigList \<Rightarrow> forE (sorter hookConfigList) (\<lambda>hookConfig.
         let targetHosts = hookTargets d hosts hookConfig in
         if length targetHosts = 0 then returnE ()
         else callHook hookConfig targetHosts d (hostHookOpts phase)))"

definition runClusterHook :: "(HookConfig list \<Rightarrow> HookConfig list) \<Rightarrow> hooks \<Rightarrow> SSHInfraDriver \<Rightarrow> net_ip \<Rightarrow> string \<Rightarrow> unit io" where
  "runClusterHook sorter hs d master0 phase = (case hs phase of
       None \<Rightarrow> returnE ()
     | Some hookConfigList \<Rightarrow> forE (sorter hookConfigList) (\<lambda>hookConfig.
         callHook hookConfig [master0] d (clusterHookOpts phase)))"

section \<open>The contract of the sorter\<close>

locale hook_sorter =
  fixes sorter :: "HookConfig list \<Rightarrow> HookConfig list"
  assumes sorter_perm: "mset (sorter xs) = mset xs"
    and sorter_sorted: "sorted (map hk_Name (sorter xs))"
begin

lemma set_sorter [simp]: "set (sorter xs) = set xs"
  using sorter_perm mset_eq_setD by blast

lemma sorter_Nil [simp]: "sorter [] = []"
  using sorter_perm [of "[]"] by simp

end

interpretation insertion: hook_sorter "sort_key hk_Name"
  by unfold_locales simp_all

section \<open>The hook table\<close>

lemma hookFactories_eq: "hookFactories = [(ShellHook, NewShellHook)]"
  by (simp add: hookFactories_def Register_def)

text \<open>The hooks that a list of plugins asks for at a phase, in the order of the plugins.\<close>

definition hooksAt :: "Plugin list \<Rightarrow> string \<Rightarrow> HookConfig list" where
  "hooksAt ps phase = (if phase = [] then [] else
     concat (map (\<lambda>p. map (hookOf p) (filter (\<lambda>x. x = phase) (strings_Split (pl_Action p) ''|''))) ps))"

definition as_table :: "(string \<Rightarrow> HookConfig list) \<Rightarrow> hooks" where
  "as_table f = (\<lambda>phase. if f phase = [] then None else Some (f phase))"

lemma as_table_cong: "(\<And>phase. f phase = g phase) \<Longrightarrow> as_table f = as_table g"
  by presburger

lemma addPhases_as_table:
  "addPhases p phases (as_table f) =
    as_table (\<lambda>phase. f phase @ (if phase = [] then [] else map (hookOf p) (filter (\<lambda>x. x = phase) phases)))"
proof (induction phases arbitrary: f)
  case Nil
  then show ?case by (simp add: if_distrib cong: if_cong)
next
  case (Cons q phases)
  have "(as_table f)(q \<mapsto> (case as_table f q of None \<Rightarrow> [hookOf p q] | Some l \<Rightarrow> l @ [hookOf p q]))
      = as_table (f(q := f q @ [hookOf p q]))" by (auto simp: as_table_def fun_eq_iff)
  then have "addPhases p (q # phases) (as_table f) =
      addPhases p phases (as_table (if q = [] then f else f(q := f q @ [hookOf p q])))" by simp
  also have "\<dots> = as_table (\<lambda>phase. f phase @ (if phase = [] then [] else map (hookOf p) (filter (\<lambda>x. x = phase) (q # phases))))"
    unfolding Cons.IH by (rule as_table_cong) auto
  finally show ?case .
qed

lemma transferPlugins_as_table:
  "(\<forall>p \<in> set ps. pl_Type p = ShellHook) \<Longrightarrow>
    transferPlugins hookFactories ps (as_table f) = Inr (as_table (\<lambda>phase. f phase @ hooksAt ps phase))"
proof (induction ps arbitrary: f)
  case Nil
  then show ?case by (simp add: hooksAt_def if_distrib cong: if_cong)
next
  case (Cons p ps)
  let ?g = "\<lambda>phase. f phase @ (if phase = [] then [] else map (hookOf p) (filter (\<lambda>x. x = phase) (strings_Split (pl_Action p) ''|'')))"
  have "transferPlugins hookFactories (p # ps) (as_table f) = transferPlugins hookFactories ps (as_table ?g)"
    using Cons.prems by (simp add: hookFactories_eq addPhases_as_table)
  also have "\<dots> = Inr (as_table (\<lambda>phase. ?g phase @ hooksAt ps phase))" using Cons by simp
  also have "as_table (\<lambda>phase. ?g phase @ hooksAt ps phase) = as_table (\<lambda>phase. f phase @ hooksAt (p # ps) phase)"
    by (rule as_table_cong) (simp add: hooksAt_def)
  finally show ?case .
qed

lemma transferPlugins_unregistered:
  "p \<in> set ps \<Longrightarrow> pl_Type p \<noteq> ShellHook \<Longrightarrow> \<exists>q \<in> set ps. pl_Type q \<noteq> ShellHook \<and>
    transferPlugins hookFactories ps m = Inl (Errorf ''hook type: %s is not registered'' [pl_Type q])"
  by (induction ps arbitrary: m) (auto simp: hookFactories_eq)

lemma empty_table: "Map.empty = as_table (\<lambda>_. [])"
  by (simp add: as_table_def fun_eq_iff)

lemma transferPluginsToHooks_shell:
  "\<forall>p \<in> set ps. pl_Type p = ShellHook \<Longrightarrow> transferPluginsToHooks ps = Inr (as_table (hooksAt ps))"
  using transferPlugins_as_table [of ps "\<lambda>_. []"] by (simp add: transferPluginsToHooks_def empty_table)

lemma transferPluginsToHooks_other:
  "p \<in> set ps \<Longrightarrow> pl_Type p \<noteq> ShellHook \<Longrightarrow> \<exists>q \<in> set ps. pl_Type q \<noteq> ShellHook \<and>
    transferPluginsToHooks ps = Inl (Errorf ''hook type: %s is not registered'' [pl_Type q])"
  unfolding transferPluginsToHooks_def by (rule transferPlugins_unregistered)

text \<open>
  Plugins become hooks as documented: with only registered hook types, the hooks of a phase
  are the plugins whose action lists the phase between bars, in the order of the plugins and as
  often as it is listed, each with the final newline of its data removed; a plugin of another
  type makes the whole translation fail with an error that names such a type.
\<close>

theorem plugins_become_hooks:
  "if \<forall>p \<in> set ps. pl_Type p = ShellHook
   then transferPluginsToHooks ps = Inr (as_table (hooksAt ps))
   else (\<exists>q \<in> set ps. pl_Type q \<noteq> ShellHook \<and>
     transferPluginsToHooks ps = Inl (Errorf ''hook type: %s is not registered'' [pl_Type q]))"
  using transferPluginsToHooks_shell transferPluginsToHooks_other by auto

section \<open>Where and in which order hooks run\<close>

lemma IsInIPList_append [simp]: "IsInIPList h (xs @ ys) \<longleftrightarrow> IsInIPList h xs \<or> IsInIPList h ys"
  by (auto simp: IsInIPList_iff)

definition no_equals :: "net_ip list \<Rightarrow> bool" where
  "no_equals xs = (\<forall>i j. i < j \<longrightarrow> j < length xs \<longrightarrow> \<not> ip_Equal (xs ! i) (xs ! j))"

lemma no_equals_snoc: "no_equals xs \<Longrightarrow> \<not> IsInIPList h xs \<Longrightarrow> no_equals (xs @ [h])"
  by (auto simp: no_equals_def nth_append IsInIPList_iff less_Suc_eq)

lemma no_equals_filter: "no_equals xs \<Longrightarrow> no_equals (filter P xs)"
proof (induction xs rule: rev_induct)
  case (snoc x xs)
  have "no_equals xs" using snoc.prems
    unfolding no_equals_def by (metis (no_types) butlast_snoc length_append_singleton less_SucI nth_butlast order_less_trans length_butlast diff_Suc_1)
  moreover have "\<not> IsInIPList x xs"
    using snoc.prems unfolding no_equals_def IsInIPList_iff
    by (metis in_set_conv_nth length_append_singleton lessI nth_append nth_append_length)
  then have "\<not> IsInIPList x (filter P xs)" by (auto simp: IsInIPList_iff)
  ultimately show ?case using snoc.IH by (auto intro: no_equals_snoc)
qed simp

lemma addNewHosts_spec:
  assumes "no_equals ret"
  shows "no_equals (addNewHosts ret hs)"
    and "set ret \<subseteq> set (addNewHosts ret hs)" "set (addNewHosts ret hs) \<subseteq> set ret \<union> set hs"
    and "h \<in> set hs \<Longrightarrow> IsInIPList h (addNewHosts ret hs)"
proof -
  have "no_equals (addNewHosts ret hs) \<and> set ret \<subseteq> set (addNewHosts ret hs)
      \<and> set (addNewHosts ret hs) \<subseteq> set ret \<union> set hs \<and> (\<forall>h \<in> set hs. IsInIPList h (addNewHosts ret hs))"
    using assms
  proof (induction hs arbitrary: ret)
    case (Cons k hs)
    show ?case
    proof (cases "IsInIPList k ret")
      case True
      then obtain s where "s \<in> set ret" "ip_Equal s k" by (auto simp: IsInIPList_iff)
      moreover from Cons.IH [OF Cons.prems] have "set ret \<subseteq> set (addNewHosts ret hs)" by blast
      ultimately have "IsInIPList k (addNewHosts ret hs)" by (auto simp: IsInIPList_iff)
      with True Cons.IH [OF Cons.prems] show ?thesis by auto
    next
      case False
      from Cons.IH [OF no_equals_snoc [OF Cons.prems False]] False show ?thesis by auto
    qed
  qed auto
  then show "no_equals (addNewHosts ret hs)" "set ret \<subseteq> set (addNewHosts ret hs)"
    "set (addNewHosts ret hs) \<subseteq> set ret \<union> set hs" "h \<in> set hs \<Longrightarrow> IsInIPList h (addNewHosts ret hs)" by auto
qed

lemma scope_fold_spec:
  assumes "no_equals ret"
  shows "no_equals (fold (\<lambda>s ret. addNewHosts ret (f s)) ss ret)
    \<and> set ret \<subseteq> set (fold (\<lambda>s ret. addNewHosts ret (f s)) ss ret)
    \<and> set (fold (\<lambda>s ret. addNewHosts ret (f s)) ss ret) \<subseteq> set ret \<union> (\<Union>s \<in> set ss. set (f s))
    \<and> (\<forall>s \<in> set ss. \<forall>h \<in> set (f s). IsInIPList h (fold (\<lambda>s ret. addNewHosts ret (f s)) ss ret))"
  using assms
proof (induction ss arbitrary: ret)
  case (Cons s ss)
  note new = addNewHosts_spec [OF Cons.prems, where hs = "f s"]
  from Cons.IH [OF new(1)] new(2-) show ?case
    by (auto simp: IsInIPList_iff) (blast+)?
qed auto

text \<open>
  A hook runs on exactly the hosts that belong to one of the roles its scope names between
  bars and are in the list of hosts given, and on no host twice.
\<close>

theorem hook_targets_exact:
  "no_equals (hookTargets d hosts hk) \<and>
   (\<forall>ip \<in> set (hookTargets d hosts hk). IsInIPList ip hosts \<and>
      (\<exists>s \<in> set (strings_Split (hk_Scope hk) ''|''). ip \<in> set (GetHostIPListByRole d (strings_TrimSpace s)))) \<and>
   (\<forall>s \<in> set (strings_Split (hk_Scope hk) ''|''). \<forall>ip \<in> set (GetHostIPListByRole d (strings_TrimSpace s)).
      IsInIPList ip hosts \<longrightarrow> IsInIPList ip (hookTargets d hosts hk))"
proof -
  let ?all = "getHostIPListByScope d (hk_Scope hk)"
  have all: "no_equals ?all"
    "\<forall>ip \<in> set ?all. \<exists>s \<in> set (strings_Split (hk_Scope hk) ''|''). ip \<in> set (GetHostIPListByRole d (strings_TrimSpace s))"
    "\<forall>s \<in> set (strings_Split (hk_Scope hk) ''|''). \<forall>ip \<in> set (GetHostIPListByRole d (strings_TrimSpace s)). IsInIPList ip ?all"
    using scope_fold_spec [of "[]" "\<lambda>s. GetHostIPListByRole d (strings_TrimSpace s)" "strings_Split (hk_Scope hk) ''|''"]
    by (auto simp: getHostIPListByScope_def no_equals_def)
  have "IsInIPList ip (hookTargets d hosts hk)" if "IsInIPList ip ?all" "IsInIPList ip hosts" for ip
    using that by (auto simp: hookTargets_def IsInIPList_iff) (meson ip_Equal_sym ip_Equal_trans)
  with all show ?thesis
    by (auto simp: hookTargets_def no_equals_filter)
qed

section \<open>Execution\<close>

definition hostEnvOf :: "SSHInfraDriver \<Rightarrow> net_ip \<Rightarrow> env" where
  "hostEnvOf d ip = (case GetHostEnv d ip of Inr (e, _) \<Rightarrow> e | Inl _ \<Rightarrow> [])"

lemma host_env_known:
  assumes "NewInfraDriver grow spare c = Inr d" and "ip_String ip \<in> ip_String ` set (GetHostIPList d)"
  shows "\<exists>d'. GetHostEnv d ip = Inr (hostEnvOf d ip, d')" and "sshConfigs d (ip_String ip) \<noteq> None"
proof -
  show "sshConfigs d (ip_String ip) \<noteq> None" using assms in_cluster_iff by blast
  have "set (GetHostIPList d) = (\<Union>h \<in> set (c_Hosts (Spec c)). set (h_IPS h))"
    using assms(1) by (auto simp: NewInfraDriver_Inr_iff Let_def GetHostIPList_def)
  moreover obtain g where "hostEnvMap d = fold (\<lambda>h. put_ips (h_IPS h) (g h)) (c_Hosts (Spec c)) Map.empty"
    using assms(1) by (auto simp: NewInfraDriver_Inr_iff Let_def)
  ultimately have "\<exists>e. hostEnvMap d (ip_String ip) = Some e"
    using fold_put_ips_dom [of g "c_Hosts (Spec c)" Map.empty "ip_String ip"] assms(2) by simp
  then show "\<exists>d'. GetHostEnv d ip = Inr (hostEnvOf d ip, d')"
    by (auto simp: hostEnvOf_def GetHostEnv_def Let_def)
qed

lemma shell_hook_runs:
  assumes d: "NewInfraDriver grow spare c = Inr d" and "calm w"
    and known: "\<forall>ip \<in> set hosts. ip_String ip \<in> ip_String ` set (GetHostIPList d)"
  shows "does (NewShellHook cmd hosts d opts) w () (map (\<lambda>ip. CmdAsyncOn ip (hostEnvOf d ip) [shellHookCmd d opts cmd]) hosts)"
proof -
  have "does (forE hosts (\<lambda>ip. let wrappedCmd = shellHookCmd d opts cmd in
      bindE (liftR (GetHostEnv d ip)) (\<lambda>(hostEnv, _).
        mapErr (Wrapf ''failed to run shell hook(%s) on host(%s): %v'' [wrappedCmd, ip_String ip])
          (drv_CmdAsync d ip hostEnv [wrappedCmd])))) w ()
      (concat (map (\<lambda>ip. [CmdAsyncOn ip (hostEnvOf d ip) [shellHookCmd d opts cmd]]) hosts))"
  proof (rule does_forE_calm [OF assms(2)])
    fix ip w' assume "ip \<in> set hosts" "calm w'"
    then obtain d' where "GetHostEnv d ip = Inr (hostEnvOf d ip, d')" and "sshConfigs d (ip_String ip) \<noteq> None"
      using host_env_known [OF d] known by blast
    then show "does (let wrappedCmd = shellHookCmd d opts cmd in bindE (liftR (GetHostEnv d ip)) (\<lambda>(hostEnv, _).
        mapErr (Wrapf ''failed to run shell hook(%s) on host(%s): %v'' [wrappedCmd, ip_String ip])
          (drv_CmdAsync d ip hostEnv [wrappedCmd]))) w' () [CmdAsyncOn ip (hostEnvOf d ip) [shellHookCmd d opts cmd]]"
      using does_mapErr [OF does_drv(1) [OF \<open>calm w'\<close>]]
      by (simp add: does_def bindE_def liftR_def Let_def)
  qed
  then show ?thesis by (simp add: NewShellHook_def concat_map_singleton)
qed


definition demoPlugin :: "string \<Rightarrow> Plugin" where
  "demoPlugin name = \<lparr>pl_Name = name, pl_Type = ShellHook, pl_Data = ''date'', pl_Action = ''pre-init-host|post-init-host'',
     pl_Scope = ''master|node''\<rparr>"

theorem plugins_become_hooks_witness:
  "transferPluginsToHooks [demoPlugin ''b''] = Inr (as_table (hooksAt [demoPlugin ''b'']))"
  using plugins_become_hooks [of "[demoPlugin ''b'']"] by (simp add: demoPlugin_def)

theorem hook_targets_exact_witness:
  "IsInIPList [10, 0, 0, 2] (hookTargets demoDriver [[10, 0, 0, 2]] (hookOf (demoPlugin ''a'') PreInitHost))"
proof -
  have scope: "strings_Split ''master|node'' ''|'' = [''master'', ''node'']" by code_simp
  have node: "strings_TrimSpace ''node'' = NODE" by code_simp
  have "[10, 0, 0, 2] \<in> set (GetHostIPListByRole demoDriver NODE)"
    using driver_role_lists(1) [OF demoDriver, of NODE] by (simp add: GetIPSByRole_def ipsOfHostByRole_def demo_simps)
  then show ?thesis
    using hook_targets_exact [of demoDriver "[[10, 0, 0, 2]]" "hookOf (demoPlugin ''a'') PreInitHost"] scope node
    by (auto simp: hookOf_def demoPlugin_def ip_Equal_def)
qed


section \<open>Hooks stay in the cluster\<close>

lemma obeys_NewShellHook [intro!]: "obeys (in_cluster d) (NewShellHook cmd hosts d opts)"
  unfolding NewShellHook_def Let_def by auto

lemma obeys_callHook [intro!]: "obeys (in_cluster d) (callHook hk hosts d opts)"
  unfolding callHook_def hookFactories_eq by auto

lemma obeys_hooks [intro!]:
  "obeys (in_cluster d) (runHostHook sorter hs d phase hosts)"
  "obeys (in_cluster d) (runClusterHook sorter hs d m0 phase)"
  unfolding runHostHook_def runClusterHook_def Let_def by auto

lemma obeys_callHook_host: "set hosts \<subseteq> H \<Longrightarrow> obeys (on_hosts H) (callHook hk hosts d opts)"
  unfolding callHook_def hookFactories_eq NewShellHook_def Let_def by auto

text \<open>The hosts equal to one in a list, up to the two forms of an IPv4 address.\<close>

definition equal_to :: "net_ip list \<Rightarrow> net_ip set" where
  "equal_to hosts = {ip. IsInIPList ip hosts}"

lemma obeys_hook_hosts:
  "obeys (on_hosts (equal_to hosts)) (runHostHook sorter hs d phase hosts)"
  "obeys (on_hosts {m0}) (runClusterHook sorter hs d m0 phase)"
  unfolding runHostHook_def runClusterHook_def Let_def
  by (auto intro!: obeys_callHook_host simp: equal_to_def hookTargets_def)

end
