(* ===== verification/Container_Runtime.thy ===== *)
theory Container_Runtime
  imports Infra_Driver
begin

text \<open>
  Model of \<^verbatim>\<open>pkg/container-runtime\<close>: the installer of the container runtime on a set of hosts
  (\<^verbatim>\<open>default.go\<close>) and its construction (\<^verbatim>\<open>installer.go\<close>). The user's home directory is a
  parameter.
\<close>

record ContainerRuntimeInfo =
  ci_Type :: string
  ci_CgroupDriver :: string
  ci_CRISocket :: string
  ci_CertsDir :: string
  ci_ConfigFilePath :: string

record DefaultInstaller =
  di_Info :: ContainerRuntimeInfo
  di_envs :: env
  di_rootfs :: string
  di_driver :: SSHInfraDriver

definition getInstallScriptName :: "DefaultInstaller \<Rightarrow> string" where
  "getInstallScriptName d = fmt_Sprintf ''%s.sh'' [ci_Type (di_Info d)]"

definition getUnInstallScriptName :: "DefaultInstaller \<Rightarrow> string" where
  "getUnInstallScriptName d = fmt_Sprintf ''uninstall-%s.sh'' [ci_Type (di_Info d)]"

definition cri_InstallOn :: "DefaultInstaller \<Rightarrow> net_ip list \<Rightarrow> unit io" where
  "cri_InstallOn d hosts =
     (let installCmd = fmt_Sprintf ''bash %s'' [filepath_Join [di_rootfs d, ''scripts'', getInstallScriptName d]] in
      forE hosts (\<lambda>ip.
        mapErr (Wrapf ''failed to install %s: execute command(%s) on host (%s): error(%v)''
                 [ci_Type (di_Info d), installCmd, ip_String ip])
          (drv_CmdAsync (di_driver d) ip (di_envs d) [installCmd])))"

definition cri_UnInstallFrom :: "DefaultInstaller \<Rightarrow> net_ip list \<Rightarrow> unit io" where
  "cri_UnInstallFrom d hosts =
     (let cleanCmd = fmt_Sprintf ''bash %s'' [filepath_Join [di_rootfs d, ''scripts'', getUnInstallScriptName d]] in
      forE hosts (\<lambda>ip.
        mapErr (Wrapf ''failed to uninstall %s: execute command(%s) on host (%s): error(%v)''
                 [ci_Type (di_Info d), cleanCmd, ip_String ip])
          (drv_CmdAsync (di_driver d) ip (di_envs d) [cleanCmd])))"

definition cri_GetInfo :: "DefaultInstaller \<Rightarrow> ContainerRuntimeInfo" where
  "cri_GetInfo d = di_Info d"

definition cgroupDriverOf :: "env \<Rightarrow> string" where
  "cgroupDriverOf envs = (case map_of envs ''CgroupDriver'' of
       None \<Rightarrow> ''systemd''
     | Some cd \<Rightarrow> if cd \<noteq> [] then cd else ''systemd'')"

definition cri_NewInstaller :: "string \<Rightarrow> string \<Rightarrow> SSHInfraDriver \<Rightarrow> DefaultInstaller res" where
  "cri_NewInstaller home confType driver =
     (if confType = Docker \<or> confType = [] then
        Inr \<lparr>di_Info = \<lparr>ci_Type = Docker, ci_CgroupDriver = cgroupDriverOf (GetClusterEnv driver),
               ci_CRISocket = ''/var/run/dockershim.sock'', ci_CertsDir = ''/etc/docker/certs.d'',
               ci_ConfigFilePath = filepath_Join [home, ''.docker'', ''config.json'']\<rparr>,
             di_envs = GetClusterEnv driver, di_rootfs = GetClusterRootfsPath driver, di_driver = driver\<rparr>
      else if confType = Containerd then
        Inr \<lparr>di_Info = \<lparr>ci_Type = confType, ci_CgroupDriver = cgroupDriverOf (GetClusterEnv driver),
               ci_CRISocket = ''/run/containerd/containerd.sock'', ci_CertsDir = ''/etc/containerd/certs.d'',
               ci_ConfigFilePath = []\<rparr>,
             di_envs = GetClusterEnv driver, di_rootfs = GetClusterRootfsPath driver, di_driver = driver\<rparr>
      else Inl (Errorf ''invalid container runtime type'' []))"

section \<open>Where the commands go\<close>

lemma obeys_cri [intro!]:
  "obeys (in_cluster (di_driver d)) (cri_InstallOn d hosts)"
  "obeys (in_cluster (di_driver d)) (cri_UnInstallFrom d hosts)"
  unfolding cri_InstallOn_def cri_UnInstallFrom_def Let_def by auto

lemma obeys_cri_host [intro!]:
  "set hosts \<subseteq> H \<Longrightarrow> obeys (on_hosts H) (cri_InstallOn d hosts)"
  "set hosts \<subseteq> H \<Longrightarrow> obeys (on_hosts H) (cri_UnInstallFrom d hosts)"
  unfolding cri_InstallOn_def cri_UnInstallFrom_def Let_def by auto

lemma cri_NewInstaller_driver: "cri_NewInstaller home t d = Inr i \<Longrightarrow> di_driver i = d"
  by (auto simp: cri_NewInstaller_def split: if_splits)

end
