(* ===== verification/Local_Files.thy ===== *)
theory Local_Files
  imports Remote
begin

text \<open>
  The file utilities of \<^verbatim>\<open>utils/os\<close> and \<^verbatim>\<open>utils/os/fs\<close> that sealer uses on the host it runs on, and the
  template rendering of \<^verbatim>\<open>pkg/env\<close>. Every system call is a local action of the world, so each may fail
  at any moment; \<^verbatim>\<open>text/template\<close> is part of the world as well.
\<close>

section \<open>Reading\<close>

definition os_IsNotExist :: "string \<Rightarrow> bool io" where
  "os_IsNotExist p = (\<lambda>w. (Inr (w_flag w (w_log w) (LocalCall ''os.IsNotExist'' [p])),
     w\<lparr>w_log := w_log w @ [LocalCall ''os.IsNotExist'' [p]]\<rparr>))"

definition os_ReadFile :: "string \<Rightarrow> string io" where
  "os_ReadFile p = askText (LocalCall ''os.ReadFile'' [filepath_Clean p])"

definition noSuchFile :: gerror where "noSuchFile = Errorf ''no such file'' []"

definition fileReader_ReadAll :: "string \<Rightarrow> string io" where
  "fileReader_ReadAll fileName =
     thenE (mapErr (\<lambda>_. noSuchFile) (perform (LocalCall ''os.Stat'' [fileName])))
     (thenE (perform (LocalCall ''os.Open'' [filepath_Clean fileName]))
       (os_ReadFile fileName))"

text \<open>
  \<^verbatim>\<open>bufio.Reader.ReadLine\<close> until the end of the text: the buffer holds 4096 bytes, a line that does not
  fit comes in pieces, and a carriage return at the end of a full buffer is left for the next piece.
\<close>

function readLines :: "string \<Rightarrow> string list" where
  "readLines s =
     (if s = [] then []
      else if CHR 0x0A \<in> set (take 4096 s) then
        (let line = takeWhile (\<lambda>c. c \<noteq> CHR 0x0A) s in
         (if line \<noteq> [] \<and> last line = CHR 0x0D then butlast line else line) # readLines (drop (Suc (length line)) s))
      else if length s < 4096 then [s]
      else if s ! 4095 = CHR 0x0D then take 4095 s # readLines (drop 4095 s)
      else take 4096 s # readLines (drop 4096 s))"
  by pat_completeness auto
termination
  by (relation "measure length") auto

declare readLines.simps [simp del]

definition fileReader_ReadLines :: "string \<Rightarrow> string list io" where
  "fileReader_ReadLines fileName =
     thenE (mapErr (\<lambda>_. noSuchFile) (perform (LocalCall ''os.Stat'' [fileName])))
     (bindE (askText (LocalCall ''os.Open'' [filepath_Clean fileName])) (\<lambda>content. returnE (readLines content)))"

record FilterOptions =
  fo_All :: bool
  fo_OnlyDir :: bool
  fo_OnlyFile :: bool
  fo_WithFullPath :: bool

definition GetDirNameListInDir :: "string \<Rightarrow> FilterOptions \<Rightarrow> string list io" where
  "GetDirNameListInDir dir opts = bindE (askDir dir) (\<lambda>files.
     let show = (\<lambda>name. if fo_WithFullPath opts then filepath_Join [dir, name] else name) in
     returnE (if fo_All opts then map (\<lambda>(name, _). show name) files
       else if fo_OnlyDir opts then map (\<lambda>(name, _). show name) (filter (\<lambda>(_, isDir). isDir) files)
       else if fo_OnlyFile opts then map (\<lambda>(name, _). show name) (filter (\<lambda>(_, isDir). \<not> isDir) files)
       else []))"

section \<open>Writing\<close>

definition makeParent :: "string \<Rightarrow> unit io" where
  "makeParent fileName = (let dir = filepath_Dir fileName in
     bindE (os_IsNotExist dir) (\<lambda>missing. whenE missing (perform (LocalCall ''os.MkdirAll'' [dir]))))"

definition commonWriter_WriteFile :: "string \<Rightarrow> string \<Rightarrow> unit io" where
  "commonWriter_WriteFile fileName content = thenE (makeParent fileName) (os_WriteFile fileName content)"

record atomicFileWriter =
  aw_f :: string
  aw_path :: string

definition newAtomicFileWriter :: "string \<Rightarrow> atomicFileWriter io" where
  "newAtomicFileWriter path = bindE (askText (LocalCall ''os.CreateTemp'' [filepath_Dir path, ''.FTmp-'']))
     (\<lambda>tmpFile. returnE \<lparr>aw_f = tmpFile, aw_path = path\<rparr>)"

text \<open>When the file cannot be synchronised, the error that is returned is that of closing it.\<close>

definition afw_close :: "atomicFileWriter \<Rightarrow> unit io" where
  "afw_close a = bindE (tryE (perform (LocalCall ''file.Sync'' [aw_f a]))) (\<lambda>r. case r of
       Inl _ \<Rightarrow> perform (LocalCall ''file.Close'' [aw_f a])
     | Inr _ \<Rightarrow> thenE (perform (LocalCall ''file.Close'' [aw_f a]))
         (thenE (perform (LocalCall ''os.Chmod'' [aw_f a, ''0644'']))
           (perform (LocalCall ''os.Rename'' [aw_f a, aw_path a]))))"

definition atomicWriter_Clean :: "string \<Rightarrow> unit io" where
  "atomicWriter_Clean f = bindE (tryE (perform (LocalCall ''file.Close'' [f]))) (\<lambda>_.
     bindE (tryE (perform (LocalCall ''os.Remove'' [f]))) (\<lambda>_. returnE ()))"

text \<open>The deferred clean-up looks at the error of writing; that of closing is only returned.\<close>

definition atomicWriter_WriteFile :: "string \<Rightarrow> string \<Rightarrow> unit io" where
  "atomicWriter_WriteFile fileName content =
     thenE (makeParent fileName)
     (bindE (newAtomicFileWriter fileName) (\<lambda>afw.
       bindE (tryE (perform (LocalCall ''file.Write'' [aw_f afw, content]))) (\<lambda>r. case r of
         Inl e \<Rightarrow> thenE (atomicWriter_Clean (aw_f afw)) (throwE e)
       | Inr _ \<Rightarrow> afw_close afw)))"

section \<open>Directories\<close>

definition fs_MkdirAll :: "string \<Rightarrow> unit io" where
  "fs_MkdirAll path = perform (LocalCall ''os.MkdirAll'' [path])"

definition fs_RemoveAll :: "string list \<Rightarrow> unit io" where
  "fs_RemoveAll paths = forE paths (\<lambda>fi. mapErr (Wrapf ''failed to clean file %s: %v'' [fi]) (perform (LocalCall ''os.RemoveAll'' [fi])))"

definition fs_Rename :: "string \<Rightarrow> string \<Rightarrow> unit io" where
  "fs_Rename oldPath newPath =
     bindE (tryE (perform (LocalCall ''os.Stat'' [newPath]))) (\<lambda>r.
       thenE (whenE (\<not> isl r) (fs_RemoveAll [newPath]))
       (bindE (tryE (perform (LocalCall ''os.Stat'' [filepath_Dir newPath]))) (\<lambda>r2.
         thenE (whenE (isl r2) (fs_MkdirAll (filepath_Dir newPath)))
           (perform (LocalCall ''os.Rename'' [oldPath, newPath])))))"

definition fs_MkTmpdir :: "string \<Rightarrow> string io" where
  "fs_MkTmpdir path = bindE (askText (LocalCall ''os.MkdirTemp'' [path, ''.DTmp-''])) (\<lambda>tempDir.
     thenE (fs_MkdirAll tempDir) (returnE tempDir))"

section \<open>The root file system\<close>

text \<open>Where the applications of an image are, relative to its root.\<close>

definition appRootDir :: string where "appRootDir = ''application/apps/''"

text \<open>Sealer's own files below the home directory.\<close>

definition GetSealerWorkDir :: "string \<Rightarrow> string" where
  "GetSealerWorkDir home = filepath_Join [home, ''.sealer'']"

definition GetDefaultClusterfile :: "string \<Rightarrow> string" where
  "GetDefaultClusterfile home = filepath_Join [GetSealerWorkDir home, ''Clusterfile'']"

definition GetDefaultApplicationFile :: "string \<Rightarrow> string" where
  "GetDefaultApplicationFile home = filepath_Join [GetSealerWorkDir home, ''application.json'']"

section \<open>Templates\<close>

definition templateSuffix :: string where "templateSuffix = ''.tmpl''"

definition renderFile :: "env \<Rightarrow> string \<Rightarrow> unit io" where
  "renderFile renderData path = (let target = strings_TrimSuffix path templateSuffix in
     thenE (mapErr (Wrapf ''failed to open file [%s] when render env: %v'' [path]) (perform (LocalCall ''os.Create'' [target])))
     (thenE (mapErr (Wrapf ''failed to create template(%s): %v'' [path]) (perform (LocalCall ''template.ParseFiles'' [path])))
       (mapErr (Wrapf ''failed to render env template(%s): %v'' [path])
         (perform (LocalCall ''template.Execute'' (target # ConvertToSlice renderData))))))"

definition RenderTemplate :: "string \<Rightarrow> env \<Rightarrow> unit io" where
  "RenderTemplate dir renderData = bindE (askWalk dir) (\<lambda>paths.
     forE paths (\<lambda>(path, isDir).
       if isDir \<or> \<not> strings_HasSuffix (filepath_Base path) templateSuffix then returnE ()
       else renderFile renderData path))"

section \<open>Every action is local\<close>

definition localOK :: "(action \<Rightarrow> bool) \<Rightarrow> bool" where
  "localOK P = ((\<forall>f as. P (LocalCall f as)) \<and> (\<forall>p. P (ReadDir p)) \<and> (\<forall>p. P (WalkTree p)) \<and> (\<forall>p. P (StatPath p)))"

lemma localOKD [simp]:
  "localOK P \<Longrightarrow> P (LocalCall f as)" "localOK P \<Longrightarrow> P (ReadDir p)" "localOK P \<Longrightarrow> P (WalkTree p)" "localOK P \<Longrightarrow> P (StatPath p)"
  by (simp_all add: localOK_def)

lemma obeys_os_IsNotExist [intro!]: "localOK P \<Longrightarrow> obeys P (os_IsNotExist p)"
  by (auto simp: obeys_def os_IsNotExist_def)

lemma obeys_reading [intro!]:
  "localOK P \<Longrightarrow> obeys P (os_ReadFile p)"
  "localOK P \<Longrightarrow> obeys P (fileReader_ReadAll p)"
  "localOK P \<Longrightarrow> obeys P (fileReader_ReadLines p)"
  "localOK P \<Longrightarrow> obeys P (GetDirNameListInDir p opts)"
  by (auto simp: os_ReadFile_def fileReader_ReadAll_def fileReader_ReadLines_def GetDirNameListInDir_def Let_def)

lemma obeys_makeParent [intro!]: "localOK P \<Longrightarrow> obeys P (makeParent p)"
  by (auto simp: makeParent_def Let_def)

lemma obeys_commonWriter [intro!]: "localOK P \<Longrightarrow> obeys P (commonWriter_WriteFile p c)"
  by (auto simp: commonWriter_WriteFile_def)

lemma obeys_directories [intro!]:
  "localOK P \<Longrightarrow> obeys P (fs_MkdirAll p)" "localOK P \<Longrightarrow> obeys P (fs_RemoveAll ps)"
  "localOK P \<Longrightarrow> obeys P (fs_MkTmpdir p)"
  by (auto simp: fs_MkdirAll_def fs_RemoveAll_def fs_MkTmpdir_def)

lemma obeys_fs_Rename [intro!]: "localOK P \<Longrightarrow> obeys P (fs_Rename p q)"
  by (auto simp: fs_Rename_def)

lemma obeys_RenderTemplate [intro!]: "localOK P \<Longrightarrow> obeys P (RenderTemplate dir e)"
  by (auto simp: RenderTemplate_def renderFile_def Let_def)

lemma smooth_local [intro!]:
  "smooth (os_IsNotExist p)" "smooth (os_ReadFile p)" "smooth (askWalk p)"
  by (auto simp: os_ReadFile_def) (auto simp: smooth_def does_def calm_def os_IsNotExist_def askWalk_def)

lemma smooth_commonWriter [intro!]: "smooth (commonWriter_WriteFile p c)"
  by (auto simp: commonWriter_WriteFile_def makeParent_def Let_def)

lemma smooth_RenderTemplate [intro!]: "smooth (RenderTemplate dir e)"
  by (auto simp: RenderTemplate_def renderFile_def Let_def)

section \<open>Reading back what was written\<close>

text \<open>Lines that fit the buffer are read back as they were written.\<close>

lemma readLines_line:
  assumes "length l < 4096" and "CHR 0x0A \<notin> set l" and "l = [] \<or> last l \<noteq> CHR 0x0D"
  shows "readLines (l @ CHR 0x0A # rest) = l # readLines rest"
proof -
  have "takeWhile (\<lambda>c. c \<noteq> CHR 0x0A) (l @ CHR 0x0A # rest) = l"
    using assms(2) by (subst takeWhile_append2) auto
  moreover have "CHR 0x0A \<in> set (take 4096 (l @ CHR 0x0A # rest))"
    using assms(1) by (cases "4096 - length l") auto
  ultimately show ?thesis using assms(3) by (subst readLines.simps) (auto simp: Let_def)
qed

lemma readLines_unlines:
  assumes "\<forall>l \<in> set ls. length l < 4096 \<and> CHR 0x0A \<notin> set l \<and> (l = [] \<or> last l \<noteq> CHR 0x0D)"
  shows "readLines (concat (map (\<lambda>l. l @ [CHR 0x0A]) ls)) = ls"
  using assms by (induction ls) (auto simp: readLines_line, simp add: readLines.simps)

section \<open>The atomic writer\<close>

text \<open>
  Without failures the new content is written to a temporary file, which is then renamed.
  A failure to synchronise the temporary file is lost: when it can be closed the writer reports
  success, but the file has not been replaced and the temporary file is still there.
\<close>

definition syncFails :: "gerror \<Rightarrow> world \<Rightarrow> bool" where
  "syncFails e w = (\<forall>l a. w_err w l a = (case a of LocalCall f _ \<Rightarrow> if f = ''file.Sync'' then Some e else None | _ \<Rightarrow> None))"

lemma atomic_write_calm:
  assumes "calm w" and "\<not> w_flag w (w_log w) (LocalCall ''os.IsNotExist'' [filepath_Dir p])"
  shows "\<exists>tmp. does (atomicWriter_WriteFile p c) w () [LocalCall ''os.IsNotExist'' [filepath_Dir p],
    LocalCall ''os.CreateTemp'' [filepath_Dir p, ''.FTmp-''], LocalCall ''file.Write'' [tmp, c],
    LocalCall ''file.Sync'' [tmp], LocalCall ''file.Close'' [tmp], LocalCall ''os.Chmod'' [tmp, ''0644''],
    LocalCall ''os.Rename'' [tmp, p]]"
  using assms
  by (auto simp: calm_def does_def atomicWriter_WriteFile_def makeParent_def os_IsNotExist_def newAtomicFileWriter_def
      afw_close_def thenE_def bindE_def whenE_def returnE_def tryE_def perform_def askText_def Let_def)

lemma atomic_write_lost:
  assumes "syncFails (Errorf m as) w" and "\<not> w_flag w (w_log w) (LocalCall ''os.IsNotExist'' [filepath_Dir p])"
  shows "\<exists>tmp. does (atomicWriter_WriteFile p c) w () [LocalCall ''os.IsNotExist'' [filepath_Dir p],
    LocalCall ''os.CreateTemp'' [filepath_Dir p, ''.FTmp-''], LocalCall ''file.Write'' [tmp, c],
    LocalCall ''file.Sync'' [tmp], LocalCall ''file.Close'' [tmp]]"
  using assms
  by (auto simp: syncFails_def does_def atomicWriter_WriteFile_def makeParent_def os_IsNotExist_def newAtomicFileWriter_def
      afw_close_def thenE_def bindE_def whenE_def returnE_def tryE_def perform_def askText_def Let_def)

end
