(* ===== verification/Go_Base64.thy ===== *)
theory Go_Base64
  imports Prelude
begin

text \<open>
  The standard encoding of Go's package \<^verbatim>\<open>encoding/base64\<close>. Decoding passes over line ends, wants
  padding at the end and nowhere else, and does not look at the unused bits before the padding.
\<close>

definition b64alphabet :: string where
  "b64alphabet = ''ABCDEFGHIJKLMNOPQRSTUVWXYZabcdefghijklmnopqrstuvwxyz0123456789+/''"

definition b64char :: "nat \<Rightarrow> char" where
  "b64char n = b64alphabet ! n"

fun base64encode :: "string \<Rightarrow> string" where
  "base64encode [] = []"
| "base64encode [a] = (let x = of_char a :: nat in [b64char (x div 4), b64char ((x mod 4) * 16), CHR ''='', CHR ''=''])"
| "base64encode [a, b] = (let x = of_char a :: nat; y = of_char b in
     [b64char (x div 4), b64char ((x mod 4) * 16 + y div 16), b64char ((y mod 16) * 4), CHR ''=''])"
| "base64encode (a # b # c # rest) = (let x = of_char a :: nat; y = of_char b; z = of_char c in
     b64char (x div 4) # b64char ((x mod 4) * 16 + y div 16) # b64char ((y mod 16) * 4 + z div 64) # b64char (z mod 64)
       # base64encode rest)"

fun indexOf :: "char \<Rightarrow> string \<Rightarrow> nat option" where
  "indexOf c [] = None"
| "indexOf c (d # ds) = (if c = d then Some 0 else map_option Suc (indexOf c ds))"

definition b64val :: "char \<Rightarrow> nat option" where
  "b64val c = indexOf c b64alphabet"

fun b64decode_go :: "string \<Rightarrow> string option" where
  "b64decode_go [] = Some []"
| "b64decode_go (a # b # c # d # rest) = (case (b64val a, b64val b) of
       (Some x, Some y) \<Rightarrow>
         let c1 = char_of (x * 4 + y div 16) in
         if c = CHR ''='' then (if d = CHR ''='' \<and> rest = [] then Some [c1] else None)
         else (case b64val c of None \<Rightarrow> None | Some z \<Rightarrow>
           let c2 = char_of ((y mod 16) * 16 + z div 4) in
           if d = CHR ''='' then (if rest = [] then Some [c1, c2] else None)
           else (case (b64val d, b64decode_go rest) of
               (Some u, Some s) \<Rightarrow> Some (c1 # c2 # char_of ((z mod 4) * 64 + u) # s)
             | _ \<Rightarrow> None))
     | _ \<Rightarrow> None)"
| "b64decode_go _ = None"

definition base64decode :: "string \<Rightarrow> string res" where
  "base64decode s = (case b64decode_go (filter (\<lambda>c. c \<noteq> CHR 0x0A \<and> c \<noteq> CHR 0x0D) s) of
       None \<Rightarrow> Inl (Errorf ''illegal base64 data'' []) | Some t \<Rightarrow> Inr t)"

section \<open>Decoding undoes encoding\<close>

lemma b64_table:
  "list_all (\<lambda>n. b64val (b64char n) = Some n \<and> b64char n \<notin> {CHR ''='', CHR 0x0A, CHR 0x0D}) [0..<64]"
  by code_simp

lemma b64val_char [simp]: "n < 64 \<Longrightarrow> b64val (b64char n) = Some n"
  and b64char_other [simp]: "n < 64 \<Longrightarrow> b64char n \<noteq> CHR ''=''" "n < 64 \<Longrightarrow> b64char n \<noteq> CHR 0x0A" "n < 64 \<Longrightarrow> b64char n \<noteq> CHR 0x0D"
  using b64_table by (auto simp: list_all_iff)

lemma of_char_bound: "(of_char a :: nat) < 256"
  by (metis nat_of_char_less_256)

lemma sextets [simp]:
  "of_char a div 4 < (64 :: nat)" "of_char a mod 4 * 16 < (64 :: nat)" "of_char a mod 4 * 16 + of_char b div 16 < (64 :: nat)"
  "of_char a mod 16 * 4 < (64 :: nat)" "of_char a mod 16 * 4 + of_char b div 64 < (64 :: nat)" "of_char a mod 64 < (64 :: nat)"
proof -
  have m: "of_char a mod 4 < (4 :: nat)" "of_char a mod 16 < (16 :: nat)"
    by simp_all
  have d: "of_char c div 4 < (64 :: nat)" "of_char c div 16 < (16 :: nat)" "of_char c div 64 < (4 :: nat)" for c
    using of_char_bound [of c] by (simp_all add: div_less_iff_less_mult)
  show "of_char a div 4 < (64 :: nat)" "of_char a mod 4 * 16 < (64 :: nat)" "of_char a mod 4 * 16 + of_char b div 16 < (64 :: nat)"
    "of_char a mod 16 * 4 < (64 :: nat)" "of_char a mod 16 * 4 + of_char b div 64 < (64 :: nat)" "of_char a mod 64 < (64 :: nat)"
    using m d [of a] d [of b] by linarith+
qed

lemma byte_parts:
  fixes y :: nat
  assumes "y < 256"
  shows "y div 16 div 16 = 0" "y div 16 mod 16 * 16 + y mod 16 = y" "y div 64 mod 4 * 64 + y mod 64 = y" "y div 64 div 4 = 0"
    "y div 4 * 4 + y mod 4 = y"
proof -
  have "y div 16 < 16" "y div 64 < 4"
    using assms by (simp_all add: div_less_iff_less_mult)
  thus "y div 16 div 16 = 0" "y div 16 mod 16 * 16 + y mod 16 = y" "y div 64 mod 4 * 64 + y mod 64 = y" "y div 64 div 4 = 0"
    "y div 4 * 4 + y mod 4 = y"
    by simp_all
qed

lemma b64decode_encode: "b64decode_go (base64encode s) = Some s"
  by (induction s rule: base64encode.induct) (simp_all add: Let_def byte_parts [OF of_char_bound])

lemma base64encode_chars: "filter (\<lambda>c. c \<noteq> CHR 0x0A \<and> c \<noteq> CHR 0x0D) (base64encode s) = base64encode s"
  by (induction s rule: base64encode.induct) (simp_all add: Let_def)

lemma base64_roundtrip [simp]: "base64decode (base64encode s) = Inr s"
  by (simp add: base64decode_def base64encode_chars b64decode_encode)

end
