(* ===== verification/Config_Dump.thy ===== *)
theory Config_Dump
  imports Local_Files Go_Base64 "HOL-Library.AList"
begin

text \<open>
  Model of \<^verbatim>\<open>pkg/config\<close>: the \<^verbatim>\<open>Config\<close> objects of a Clusterfile are preprocessed (\<^verbatim>\<open>pre_process.go\<close>) and
  written into the mounted root file system of an image (\<^verbatim>\<open>config.go\<close>). The YAML libraries and
  \<^verbatim>\<open>mergo\<close> are third-party code: they are the fields of \<open>yamlLib\<close>, an argument of the definitions.
  Base64 is Go's standard encoding.
\<close>

section \<open>Types\<close>

record Config =
  cg_Name :: string
  cg_Labels :: env
  cg_Strategy :: string
  cg_Process :: string
  cg_Data :: string
  cg_APPName :: string
  cg_Path :: string

text \<open>Values of decoded YAML, and the parts of a Kubernetes secret the code looks at.\<close>

datatype yval = YStr string | YSeq "yval list" | YMap "(string \<times> yval) list"

type_synonym ymap = "(string \<times> yval) list"

record k8s_Secret =
  sec_Data :: "env option"
  sec_others :: string

text \<open>
  \<open>y3\<close>: \<^verbatim>\<open>gopkg.in/yaml.v3\<close> (\<open>y3_Decode\<close> is what successive calls of a decoder give before \<^verbatim>\<open>io.EOF\<close>),
  \<open>y2\<close>: \<^verbatim>\<open>gopkg.in/yaml.v2\<close>, \<open>ky\<close>: \<^verbatim>\<open>sigs.k8s.io/yaml\<close>, \<open>yl_Merge\<close>: \<^verbatim>\<open>mergo.Merge\<close> with override.
\<close>

record yamlLib =
  y3_Unmarshal :: "string \<Rightarrow> ymap res"
  y3_Decode :: "string \<Rightarrow> ymap res list"
  y3_Marshal :: "ymap \<Rightarrow> string res"
  y2_Marshal :: "ymap \<Rightarrow> string res"
  yl_Merge :: "ymap \<Rightarrow> ymap \<Rightarrow> ymap res"
  ky_YAMLToJSON :: "string \<Rightarrow> string res"
  ky_Unmarshal :: "string \<Rightarrow> ymap res"
  ky_MarshalValue :: "yval \<Rightarrow> string res"
  ky_UnmarshalStrings :: "string \<Rightarrow> env res"
  ky_MarshalStrings :: "env \<Rightarrow> string res"
  ky_UnmarshalSecret :: "string \<Rightarrow> k8s_Secret res"
  ky_MarshalSecret :: "k8s_Secret \<Rightarrow> string res"

section \<open>Preprocessing\<close>

definition trueLabelKey :: string where "trueLabelKey = ''preprocess.value''"

definition byValue :: "Config \<Rightarrow> bool" where
  "byValue config = (map_of (cg_Labels config) trueLabelKey = Some ''true'')"

definition valueProcessor :: "Config \<Rightarrow> Config res" where
  "valueProcessor config = Inr (config\<lparr>cg_Labels := [(trueLabelKey, ''true'')]\<rparr>)"

definition toJSONProcessor :: "yamlLib \<Rightarrow> Config \<Rightarrow> Config res" where
  "toJSONProcessor yl config =
     (if \<not> byValue config then
        bindR (mapErrR (Wrapf ''failed to resolve config data to json: %v'' []) (ky_YAMLToJSON yl (cg_Data config)))
          (\<lambda>json. Inr (config\<lparr>cg_Data := json\<rparr>))
      else
        bindR (mapErrR (Wrapf ''failed to convert yaml data to map: %v'' []) (ky_Unmarshal yl (cg_Data config))) (\<lambda>dataMap.
        bindR (mapR (\<lambda>(k, v).
            bindR (mapErrR (Wrapf ''failed to encode yaml: %v'' []) (ky_MarshalValue yl v)) (\<lambda>data.
            bindR (mapErrR (Wrapf ''toJson: failed to convert yaml to json, key is %s: %v'' [k]) (ky_YAMLToJSON yl data)) (\<lambda>bytes.
            Inr (k, YStr bytes)))) dataMap) (\<lambda>dataMap'.
        bindR (mapErrR (Wrapf ''failed to convert data map(%v): %v'' []) (y2_Marshal yl dataMap')) (\<lambda>data.
        Inr (config\<lparr>cg_Data := data\<rparr>)))))"

definition toBase64Processor :: "yamlLib \<Rightarrow> Config \<Rightarrow> Config res" where
  "toBase64Processor yl config =
     (if \<not> byValue config then Inr (config\<lparr>cg_Data := base64encode (cg_Data config)\<rparr>)
      else
        bindR (mapErrR (Wrapf ''tobase64: failed to convert yaml data to map: %v'' []) (ky_UnmarshalStrings yl (cg_Data config))) (\<lambda>dataMap.
        bindR (mapErrR (Wrapf ''failed to convert base64 to yaml: %v'' [])
            (ky_MarshalStrings yl (map (\<lambda>(k, v). (k, base64encode v)) dataMap))) (\<lambda>bs.
        Inr (config\<lparr>cg_Data := bs\<rparr>))))"

text \<open>An unknown name is only warned about; \<^verbatim>\<open>toSecret\<close> is known and has no processor.\<close>

definition processorOf :: "yamlLib \<Rightarrow> string \<Rightarrow> Config \<Rightarrow> Config res" where
  "processorOf yl pName =
     (if pName = ''value'' then valueProcessor
      else if pName = ''toJson'' then toJSONProcessor yl
      else if pName = ''toBase64'' then toBase64Processor yl
      else Inr)"

fun runProcessors :: "yamlLib \<Rightarrow> string list \<Rightarrow> Config \<Rightarrow> Config res" where
  "runProcessors yl [] config = Inr config"
| "runProcessors yl (p # ps) config = bindR (processorOf yl p config) (runProcessors yl ps)"

definition NewProcessorsAndRun :: "yamlLib \<Rightarrow> Config \<Rightarrow> Config res" where
  "NewProcessorsAndRun yl config = runProcessors yl (strings_Split (cg_Process config) ''|'') config"

section \<open>Writing\<close>

definition getMergeConfigData :: "yamlLib \<Rightarrow> string \<Rightarrow> string \<Rightarrow> string res" where
  "getMergeConfigData yl contents data =
     bindR (mapErrR (Wrapf ''failed to load config data: %v'' []) (y3_Unmarshal yl data)) (\<lambda>srcDataMap.
     bindR (mapR (\<lambda>rawCfgData.
         bindR (mapErrR (Wrapf ''failed to unmarshal config data: %v'' []) (y3_Unmarshal yl rawCfgData)) (\<lambda>destConfigMap.
         bindR (mapErrR (Wrapf ''failed to merge config: %v'' []) (yl_Merge yl destConfigMap srcDataMap)) (y3_Marshal yl)))
       (strings_Split contents [CHR ''-'', CHR ''-'', CHR ''-'', CHR 0x0A])) (\<lambda>configs.
     Inr (strings_Join configs [CHR ''-'', CHR ''-'', CHR ''-'', CHR 0x0A])))"

definition convertSecretYaml :: "yamlLib \<Rightarrow> string \<Rightarrow> string \<Rightarrow> string res" where
  "convertSecretYaml yl contents data =
     bindR (ky_UnmarshalStrings yl data) (\<lambda>dataMap.
     bindR (ky_UnmarshalSecret yl contents) (\<lambda>secret.
     ky_MarshalSecret yl (secret\<lparr>sec_Data := Some (fold (\<lambda>(k, v). AList.update k v) dataMap (nil_if_absent (sec_Data secret)))\<rparr>)))"

definition configTarget :: "string \<Rightarrow> Config \<Rightarrow> string" where
  "configTarget rootPath config = filepath_Join [rootPath,
     if cg_APPName config \<noteq> [] then filepath_Join [appRootDir, cg_APPName config, cg_Path config] else cg_Path config]"

text \<open>What is written over an existing file.\<close>

definition configContent :: "yamlLib \<Rightarrow> Config \<Rightarrow> string \<Rightarrow> string res" where
  "configContent yl config contents =
     bindR (if strings_Contains (cg_Process config) ''toSecret''
            then mapErrR (Wrapf ''faild to convert to secret file: %v'' []) (convertSecretYaml yl contents (cg_Data config))
            else Inr (cg_Data config)) (\<lambda>configData.
       if cg_Strategy config = ''merge'' then getMergeConfigData yl contents configData else Inr configData)"

definition writeConfig :: "yamlLib \<Rightarrow> string \<Rightarrow> Config \<Rightarrow> unit io" where
  "writeConfig yl rootPath config0 =
     bindE (liftR (NewProcessorsAndRun yl config0)) (\<lambda>config. let configPath = configTarget rootPath config in
       bindE (os_IsFileExist configPath) (\<lambda>ex.
         if \<not> ex then mapErr (Wrapf ''failed to overwrite config file %s: %v'' [configPath])
           (commonWriter_WriteFile configPath (cg_Data config))
         else bindE (os_ReadFile configPath) (\<lambda>contents.
           bindE (liftR (configContent yl config contents)) (\<lambda>configData.
             mapErr (Wrapf ''failed to write config file %s: %v'' [configPath])
               (commonWriter_WriteFile configPath configData)))))"

definition WriteFiles :: "yamlLib \<Rightarrow> string \<Rightarrow> Config list \<Rightarrow> unit io" where
  "WriteFiles yl rootPath configs = forE configs (writeConfig yl rootPath)"

definition Dump :: "yamlLib \<Rightarrow> string \<Rightarrow> Config list \<Rightarrow> unit io" where
  "Dump yl rootPath configs =
     (if length configs = 0 then returnE ()
      else mapErr (Wrapf ''failed to dump config files %v'' []) (WriteFiles yl rootPath configs))"

section \<open>Lemmas\<close>

lemma obeys_Dump [intro!]: "localOK P \<Longrightarrow> obeys P (Dump yl r cs)"
  by (auto simp: Dump_def WriteFiles_def writeConfig_def Let_def)

text \<open>The processors run from left to right, each on what the one before it made of the object.\<close>

lemma runProcessors_append: "runProcessors yl (ps @ qs) c = bindR (runProcessors yl ps c) (runProcessors yl qs)"
  by (induction ps arbitrary: c) (auto simp: bindR_def split: sum.split)

lemma processorOf_keeps:
  "processorOf yl p c = Inr c' \<Longrightarrow> cg_Name c' = cg_Name c \<and> cg_Strategy c' = cg_Strategy c \<and> cg_Process c' = cg_Process c
    \<and> cg_APPName c' = cg_APPName c \<and> cg_Path c' = cg_Path c"
  by (auto simp: processorOf_def valueProcessor_def toJSONProcessor_def toBase64Processor_def bindR_Inr_iff split: if_splits)

lemma NewProcessorsAndRun_keeps:
  assumes "NewProcessorsAndRun yl c = Inr c'"
  shows "cg_Strategy c' = cg_Strategy c" "cg_Process c' = cg_Process c" "configTarget r c' = configTarget r c"
proof -
  have "runProcessors yl ps c = Inr c' \<Longrightarrow> cg_Name c' = cg_Name c \<and> cg_Strategy c' = cg_Strategy c \<and> cg_Process c' = cg_Process c
    \<and> cg_APPName c' = cg_APPName c \<and> cg_Path c' = cg_Path c" for ps c
    by (induction ps arbitrary: c) (auto simp: bindR_Inr_iff dest!: processorOf_keeps)
  from this [of "strings_Split (cg_Process c) ''|''" c] assms
  show "cg_Strategy c' = cg_Strategy c" "cg_Process c' = cg_Process c" "configTarget r c' = configTarget r c"
    by (simp_all add: NewProcessorsAndRun_def configTarget_def)
qed

text \<open>A library that knows no YAML, for examples.\<close>

definition demoYaml :: yamlLib where
  "demoYaml = (let no = (\<lambda>_. Inl (Errorf ''no yaml'' [])) in
     \<lparr>y3_Unmarshal = no, y3_Decode = (\<lambda>_. []), y3_Marshal = (\<lambda>_. Inr []), y2_Marshal = (\<lambda>_. Inr []), yl_Merge = (\<lambda>a b. Inr (b @ a)),
      ky_YAMLToJSON = (\<lambda>_. Inl (Errorf ''no yaml'' [])), ky_Unmarshal = no, ky_MarshalValue = (\<lambda>_. Inr []),
      ky_UnmarshalStrings = (\<lambda>_. Inl (Errorf ''no yaml'' [])), ky_MarshalStrings = (\<lambda>_. Inr []),
      ky_UnmarshalSecret = (\<lambda>_. Inl (Errorf ''no yaml'' [])), ky_MarshalSecret = (\<lambda>_. Inr [])\<rparr>)"

end
