(* ===== verification/Image_Distributor.thy ===== *)
theory Image_Distributor
  imports Infra_Driver Config_Dump
begin

text \<open>
  Model of \<^verbatim>\<open>pkg/imagedistributor\<close>: the \<^verbatim>\<open>Distributor\<close> interface (\<^verbatim>\<open>interface.go\<close>) as a record
  of procedures with a locale for its contract, and the \<^verbatim>\<open>scp\<close> implementation
  (\<^verbatim>\<open>scp_distributor.go\<close>). The YAML library with which configuration files are merged is part of the
  distributor here.
\<close>

section \<open>The interface\<close>

record Distributor =
  Distribute :: "net_ip list \<Rightarrow> string \<Rightarrow> unit io"
  DistributeRegistry :: "net_ip list \<Rightarrow> string \<Rightarrow> unit io"
  Restore :: "string \<Rightarrow> net_ip list \<Rightarrow> unit io"

text \<open>
  The contract: a distributor works through the driver, so it reaches hosts of the cluster only,
  and the registry data and the clean-up only touch the hosts they are asked for.
\<close>

locale distributor_contract =
  fixes dist :: Distributor and d :: SSHInfraDriver
  assumes distribute_in_cluster: "obeys (in_cluster d) (Distribute dist hosts dest)"
    and registry_in_cluster: "obeys (in_cluster d) (DistributeRegistry dist hosts dir)"
    and restore_in_cluster: "obeys (in_cluster d) (Restore dist dir hosts)"
    and registry_on_hosts: "obeys (on_hosts (set hosts)) (DistributeRegistry dist hosts dir)"
    and restore_on_hosts: "obeys (on_hosts (set hosts)) (Restore dist dir hosts)"

section \<open>The scp distributor\<close>

record DistributeOption =
  do_IgnoreCache :: bool
  do_Prune :: bool

record ClusterImageMountInfo =
  mi_Hosts :: "net_ip list"
  mi_Platform :: Platform
  mi_MountDir :: string
  mi_ContainerID :: string
  mi_ImageID :: string

record scpDistributor =
  sd_configs :: "Config list"
  sd_yaml :: yamlLib
  sd_infraDriver :: SSHInfraDriver
  sd_imageMountInfo :: "ClusterImageMountInfo list"
  sd_registryCacheDir :: string
  sd_rootfsCacheDir :: string
  sd_options :: DistributeOption

definition NewScpDistributor :: "yamlLib \<Rightarrow> ClusterImageMountInfo list \<Rightarrow> SSHInfraDriver \<Rightarrow> Config list \<Rightarrow> DistributeOption \<Rightarrow> scpDistributor" where
  "NewScpDistributor yl imageMountInfo driver configs options =
     \<lparr>sd_configs = configs, sd_yaml = yl, sd_infraDriver = driver, sd_imageMountInfo = imageMountInfo,
      sd_registryCacheDir = filepath_Join [GetClusterRootfsPath driver, ''cache'', ''registry''],
      sd_rootfsCacheDir = filepath_Join [GetClusterRootfsPath driver, ''cache'', ''image''],
      sd_options = options\<rparr>"

definition writeCacheFlag :: "scpDistributor \<Rightarrow> string \<Rightarrow> string \<Rightarrow> net_ip \<Rightarrow> unit io" where
  "writeCacheFlag s localCacheFile remoteCacheFile host =
     bindE (os_IsFileExist localCacheFile) (\<lambda>ex.
       thenE (whenE (\<not> ex) (mapErr (Wrapf ''failed to write local cache file %s: %v'' [localCacheFile])
               (commonWriter_WriteFile localCacheFile [])))
         (mapErr (Wrapf ''failed to copy rootfs cache file: %v'' [])
           (drv_Copy (sd_infraDriver s) host localCacheFile remoteCacheFile)))"

definition scp_DistributeRegistry :: "scpDistributor \<Rightarrow> net_ip list \<Rightarrow> string \<Rightarrow> unit io" where
  "scp_DistributeRegistry s deployHosts dataDir = forE (sd_imageMountInfo s) (\<lambda>info.
     bindE (os_IsFileExist (filepath_Join [mi_MountDir info, ''registry''])) (\<lambda>ex.
       if \<not> ex then returnE ()
       else (let localCacheFile = filepath_Join [mi_MountDir info, mi_ImageID info];
                 remoteCacheFile = filepath_Join [sd_registryCacheDir s, mi_ImageID info];
                 send = (\<lambda>host. thenE
                   (mapErr (Wrapf ''failed to copy registry data %s: %v'' [mi_MountDir info])
                     (drv_Copy (sd_infraDriver s) host (filepath_Join [mi_MountDir info, ''registry'']) dataDir))
                   (mapErr (Wrapf ''failed to write registry cache %s on host %s: %v'' [remoteCacheFile, ip_String host])
                     (writeCacheFlag s localCacheFile remoteCacheFile host)))
             in errgroup deployHosts (\<lambda>host.
                  if \<not> do_IgnoreCache (sd_options s) then
                    bindE (mapErr (Wrapf ''failed to detect registry cache %s on host %s: %v'' [remoteCacheFile, ip_String host])
                            (drv_IsFileExist (sd_infraDriver s) host remoteCacheFile))
                      (\<lambda>existed. if existed then returnE () else send host)
                  else send host))))"

definition filterCopy :: "scpDistributor \<Rightarrow> string \<Rightarrow> string \<Rightarrow> net_ip \<Rightarrow> unit io" where
  "filterCopy s mountDir dest host =
     bindE (mapErr (Wrapf ''failed to read dir %s: %s'' [mountDir]) (askDir mountDir)) (\<lambda>files.
       forE files (\<lambda>(name, isDir).
         if isDir \<and> name = ''registry'' then returnE ()
         else mapErr (Wrapf ''failed to copy rootfs files: %v'' [])
           (drv_Copy (sd_infraDriver s) host (filepath_Join [mountDir, name]) (filepath_Join [dest, name]))))"

definition dumpConfigToRootfs :: "scpDistributor \<Rightarrow> string \<Rightarrow> unit io" where
  "dumpConfigToRootfs s mountDir = Dump (sd_yaml s) mountDir (sd_configs s)"

definition renderRootfs :: "scpDistributor \<Rightarrow> string \<Rightarrow> unit io" where
  "renderRootfs s mountDir = forE [filepath_Join [mountDir, ''etc''], filepath_Join [mountDir, ''charts''],
       filepath_Join [mountDir, ''manifests'']]
     (\<lambda>dir. bindE (os_IsFileExist dir) (\<lambda>ex.
        whenE ex (RenderTemplate dir (GetClusterEnv (sd_infraDriver s)))))"

text \<open>\<^verbatim>\<open>Distribute\<close> copies to the hosts recorded when the image was mounted; its host argument is not used.\<close>

definition scp_Distribute :: "scpDistributor \<Rightarrow> net_ip list \<Rightarrow> string \<Rightarrow> unit io" where
  "scp_Distribute s hosts dest = forE (sd_imageMountInfo s) (\<lambda>info.
     thenE (dumpConfigToRootfs s (mi_MountDir info))
     (thenE (renderRootfs s (mi_MountDir info))
       (let localCacheFile = filepath_Join [mi_MountDir info, mi_ImageID info];
            remoteCacheFile = filepath_Join [sd_rootfsCacheDir s, mi_ImageID info];
            send = (\<lambda>host. thenE
              (mapErr (Wrapf ''failed to copy rootfs files: %v'' []) (filterCopy s (mi_MountDir info) dest host))
              (mapErr (Wrapf ''failed to write rootfs cache %s on host %s: %v'' [remoteCacheFile, ip_String host])
                (writeCacheFlag s localCacheFile remoteCacheFile host)))
        in errgroup (mi_Hosts info) (\<lambda>host.
             if \<not> do_IgnoreCache (sd_options s) then
               bindE (mapErr (Wrapf ''failed to detect rootfs cache %s on host %s: %v'' [remoteCacheFile, ip_String host])
                       (drv_IsFileExist (sd_infraDriver s) host remoteCacheFile))
                 (\<lambda>existed. if existed then returnE () else send host)
             else send host))))"

definition scp_Restore :: "scpDistributor \<Rightarrow> string \<Rightarrow> net_ip list \<Rightarrow> unit io" where
  "scp_Restore s targetDir hosts =
     (if \<not> do_Prune (sd_options s) then returnE ()
      else (let rmRootfsCMD = fmt_Sprintf ''rm -rf %s'' [targetDir] in
        errgroup hosts (\<lambda>host.
          mapErr (Wrapf ''faild to delete rootfs on host [%s]: %v'' [ip_String host])
            (drv_CmdAsync (sd_infraDriver s) host [] [rmRootfsCMD]))))"

definition scpAsDistributor :: "scpDistributor \<Rightarrow> Distributor" where
  "scpAsDistributor s = \<lparr>Distribute = scp_Distribute s, DistributeRegistry = scp_DistributeRegistry s,
     Restore = scp_Restore s\<rparr>"

section \<open>The contract holds of the scp distributor\<close>

lemma local_actions [simp]: "in_cluster d (LocalCall f as)" "in_cluster d (ReadDir p)"
  "on_hosts H (LocalCall f as)" "on_hosts H (ReadDir p)"
  by (simp_all add: in_cluster_def on_hosts_def)

lemma localOK_hosts [simp, intro!]: "localOK (in_cluster d)" "localOK (on_hosts H)"
  by (simp_all add: localOK_def in_cluster_def on_hosts_def)

lemma obeys_writeCacheFlag [intro!]:
  "obeys (in_cluster (sd_infraDriver s)) (writeCacheFlag s l r host)"
  "host \<in> H \<Longrightarrow> obeys (on_hosts H) (writeCacheFlag s l r host)"
  unfolding writeCacheFlag_def by auto

lemma obeys_filterCopy [intro!]:
  "obeys (in_cluster (sd_infraDriver s)) (filterCopy s m dest host)"
  unfolding filterCopy_def by auto

lemma obeys_localSteps [intro!]:
  "obeys (in_cluster d) (dumpConfigToRootfs s m)"
  "obeys (in_cluster d) (renderRootfs s m)"
  unfolding dumpConfigToRootfs_def renderRootfs_def by auto

lemma drv_IsFileExist_on_host [intro!]: "host \<in> H \<Longrightarrow> obeys (on_hosts H) (drv_IsFileExist d host p)"
  unfolding drv_IsFileExist_def by (auto intro!: obeys_withClient simp: on_hosts_def)

interpretation scp: distributor_contract "scpAsDistributor s" "sd_infraDriver s" for s
proof unfold_locales
  fix hosts dest dir
  show "obeys (in_cluster (sd_infraDriver s)) (Distribute (scpAsDistributor s) hosts dest)"
    unfolding scpAsDistributor_def by (auto simp: scp_Distribute_def Let_def)
  show "obeys (in_cluster (sd_infraDriver s)) (DistributeRegistry (scpAsDistributor s) hosts dir)"
    unfolding scpAsDistributor_def by (auto simp: scp_DistributeRegistry_def Let_def)
  show "obeys (in_cluster (sd_infraDriver s)) (Restore (scpAsDistributor s) dir hosts)"
    unfolding scpAsDistributor_def by (auto simp: scp_Restore_def Let_def)
  show "obeys (on_hosts (set hosts)) (DistributeRegistry (scpAsDistributor s) hosts dir)"
    unfolding scpAsDistributor_def by (auto simp: scp_DistributeRegistry_def Let_def)
  show "obeys (on_hosts (set hosts)) (Restore (scpAsDistributor s) dir hosts)"
    unfolding scpAsDistributor_def by (auto simp: scp_Restore_def Let_def)
qed

end
