(* ===== verification/Registry_Service.thy ===== *)
theory Registry_Service
  imports Container_Runtime Image_Distributor
begin

text \<open>
  Model of \<^verbatim>\<open>pkg/registry\<close> and \<^verbatim>\<open>pkg/ipvs\<close>: the installer of the local registry
  (\<^verbatim>\<open>installer.go\<close>), the configurators of the local and of an external registry (\<^verbatim>\<open>local.go\<close>,
  \<^verbatim>\<open>external.go\<close>), their common interface and drivers (\<^verbatim>\<open>configurator.go\<close>, \<^verbatim>\<open>driver.go\<close>), and
  the static pod that balances the registry (\<^verbatim>\<open>ipvs.go\<close>).

  The encoders of other libraries (YAML of a pod, JSON of the docker daemon file, TOML of the
  containerd hosts file) are parameters, in the record \<open>codecs\<close>. Local file operations, the
  password hash, the certificate generator and the registry login are local actions.
\<close>

section \<open>The load-balancer pod\<close>

record Pod =
  pod_Name :: string
  pod_Namespace :: string
  pod_Image :: string
  pod_Command :: "string list"
  pod_Args :: "string list"
  pod_HostNetwork :: bool
  pod_Privileged :: bool
  pod_HostPath :: string

text \<open>The settings of the docker daemon file other than the mirrors stay as they were read.\<close>

record DaemonConfig =
  dc_RegistryMirrors :: "string list"
  dc_others :: "(string \<times> string) list"

record HostsToml =
  ht_Server :: string
  ht_CACerts :: "(string \<times> string) list"

record codecs =
  cx_podYaml :: "Pod \<Rightarrow> string res"
  cx_daemonUnmarshal :: "string \<Rightarrow> DaemonConfig res"
  cx_daemonMarshal :: "DaemonConfig \<Rightarrow> string res"
  cx_hostsToml :: "HostsToml \<Rightarrow> string res"

definition StaticPodDir :: string where "StaticPodDir = ''/etc/kubernetes/manifests''"

definition GetCreateLvscareStaticPodCmd :: "string \<Rightarrow> string \<Rightarrow> string" where
  "GetCreateLvscareStaticPodCmd content fileName = fmt_Sprintf ''mkdir -p %s && echo \"%s\" > %s''
     [StaticPodDir, content, filepath_Join [StaticPodDir, fileName]]"

definition componentPod :: "string \<Rightarrow> string \<Rightarrow> string list \<Rightarrow> string list \<Rightarrow> bool \<Rightarrow> Pod" where
  "componentPod podName img command args privileged =
     \<lparr>pod_Name = podName, pod_Namespace = ''kube-system'', pod_Image = img, pod_Command = command,
      pod_Args = args, pod_HostNetwork = True, pod_Privileged = privileged, pod_HostPath = ''/lib/modules''\<rparr>"

definition LvsStaticPodYaml :: "codecs \<Rightarrow> string \<Rightarrow> string \<Rightarrow> string list \<Rightarrow> string \<Rightarrow> string \<Rightarrow> string \<Rightarrow> string res" where
  "LvsStaticPodYaml cx podName virtualEndpoint realEndpoints img healthPath healthSchem =
     (if virtualEndpoint = [] \<or> length realEndpoints = 0 \<or> img = []
      then Inl (Errorf ''invalid args to create Lvs static pod'' [])
      else (let args = [''care'', ''--vs'', virtualEndpoint, ''--health-path'', healthPath, ''--health-schem'', healthSchem]
                  @ concat (map (\<lambda>re. [''--rs'', re]) realEndpoints)
            in case cx_podYaml cx (componentPod podName img [''/usr/bin/lvscare''] args True) of
                 Inl err \<Rightarrow> Inl (Wrapf ''failed to decode lvs care static pod yaml: %s'' [] err)
               | Inr yml \<Rightarrow> Inr yml))"

section \<open>The installer of the local registry\<close>

record localInstaller =
  li_reg :: LocalRegistry
  li_currentDeployHosts :: "net_ip list"
  li_infraDriver :: SSHInfraDriver
  li_distributor :: Distributor

definition reg_NewInstaller :: "net_ip list \<Rightarrow> LocalRegistry \<Rightarrow> SSHInfraDriver \<Rightarrow> Distributor \<Rightarrow> localInstaller" where
  "reg_NewInstaller currentDeployHost regConfig infraDriver distributor =
     \<lparr>li_reg = regConfig, li_currentDeployHosts = currentDeployHost, li_infraDriver = infraDriver,
      li_distributor = distributor\<rparr>"

definition GenerateHTTPBasicAuth :: "string \<Rightarrow> string \<Rightarrow> string io" where
  "GenerateHTTPBasicAuth username password =
     (if username = [] \<or> password = []
      then throwE (Errorf ''failed to generate HTTP basic authentication: registry username or password is empty'' [])
      else bindE (mapErr (Wrapf ''failed to generate registry password: %v'' [])
              (askText (LocalCall ''bcrypt.GenerateFromPassword'' [password])))
           (\<lambda>pwdHash. returnE (username @ '':'' @ pwdHash)))"

definition syncBasicAuthFile :: "localInstaller \<Rightarrow> net_ip list \<Rightarrow> unit io" where
  "syncBasicAuthFile l hosts =
     (if r_Username (li_reg l) = [] \<or> r_Password (li_reg l) = [] then returnE ()
      else (let basicAuthFile = filepath_Join [GetClusterRootfsPath (li_infraDriver l), ''etc'', ''registry_htpasswd''] in
        bindE (os_IsFileExist basicAuthFile) (\<lambda>ex.
          thenE (whenE (\<not> ex) (bindE (GenerateHTTPBasicAuth (r_Username (li_reg l)) (r_Password (li_reg l)))
                  (\<lambda>htpasswd. commonWriter_WriteFile basicAuthFile htpasswd)))
            (forE hosts (\<lambda>deployHost.
               mapErr (Wrapf ''failed to copy registry auth file to %s: %v'' [basicAuthFile])
                 (drv_Copy (li_infraDriver l) deployHost basicAuthFile basicAuthFile))))))"

definition gen_cert :: "localInstaller \<Rightarrow> string \<Rightarrow> string \<Rightarrow> unit io" where
  "gen_cert l certPath certName =
     (let dnsNames = r_Domain (li_reg l) # (case l_Cert (li_reg l) of None \<Rightarrow> [] | Some san \<Rightarrow> san_IPs san @ san_DNSNames san) in
      bindE (mapErr (Wrapf ''unable to generate registry cert: %v'' [])
              (askText (LocalCall ''AuthorityCertificateGenerator.Generate'' (''registry-ca'' # dnsNames))))
        (\<lambda>certAndKey. mapErr (Wrapf ''unable to save registry cert: %v'' [])
              (perform (LocalCall ''CertificateFileManger.Write'' [certPath, certName, certAndKey]))))"

definition syncRegistryCert :: "localInstaller \<Rightarrow> net_ip list \<Rightarrow> unit io" where
  "syncRegistryCert l hosts = bindE (deref (l_Insecure (li_reg l))) (\<lambda>insecure.
     if insecure then returnE ()
     else (let certPath = filepath_Join [GetClusterRootfsPath (li_infraDriver l), ''certs''];
               certName = r_Domain (li_reg l);
               fullCertName = certName @ ''.crt''; fullKeyName = certName @ ''.key'' in
       bindE (os_IsFileExist (filepath_Join [certPath, fullCertName])) (\<lambda>certExisted.
       bindE (os_IsFileExist (filepath_Join [certPath, fullKeyName])) (\<lambda>keyExisted.
         if certExisted \<and> \<not> keyExisted \<or> \<not> certExisted \<and> keyExisted
         then throwE (Errorf ''failed to sync registry cert file %s or %s is not existed'' [fullCertName, fullKeyName])
         else thenE (whenE (\<not> certExisted \<and> \<not> keyExisted) (gen_cert l certPath certName))
           (forE hosts (\<lambda>deployHost. mapErr (Wrapf ''failed to copy registry cert to deployHost: %v'' [])
              (drv_Copy (li_infraDriver l) deployHost certPath certPath)))))))"

definition reconcileRegistry :: "localInstaller \<Rightarrow> net_ip list \<Rightarrow> unit io" where
  "reconcileRegistry l hosts =
     (let rootfs = GetClusterRootfsPath (li_infraDriver l); dataDir = filepath_Join [rootfs, ''registry''] in
      thenE (DistributeRegistry (li_distributor l) hosts dataDir)
        (forE hosts (\<lambda>deployHost. drv_CmdAsync (li_infraDriver l) deployHost (GetClusterEnv (li_infraDriver l))
           [fmt_Sprintf ''cd %s/scripts && bash init-registry.sh %s %s %s''
              [rootfs, itoa (r_Port (li_reg l)), dataDir, r_Domain (li_reg l)]])))"

definition reg_install :: "localInstaller \<Rightarrow> net_ip list \<Rightarrow> unit io" where
  "reg_install l deployHosts = thenE (syncBasicAuthFile l deployHosts)
     (thenE (syncRegistryCert l deployHosts) (reconcileRegistry l deployHosts))"

definition deleteRegistryCommand :: string where
  "deleteRegistryCommand = ''if docker inspect sealer-registry 2>/dev/null;then docker rm -f sealer-registry;fi ''
     @ ''&& ((! nerdctl ps -a 2>/dev/null |grep sealer-registry) || (nerdctl stop sealer-registry ''
     @ ''&& nerdctl rmi -f sealer-registry))''"

definition reg_clean :: "localInstaller \<Rightarrow> net_ip list \<Rightarrow> unit io" where
  "reg_clean l cleanHosts = forE cleanHosts (\<lambda>deployHost.
     drv_CmdAsync (li_infraDriver l) deployHost [] [deleteRegistryCommand])"

definition reg_Clean :: "localInstaller \<Rightarrow> unit io" where
  "reg_Clean l = reg_clean l (li_currentDeployHosts l)"

definition Reconcile :: "localInstaller \<Rightarrow> net_ip list \<Rightarrow> net_ip list io" where
  "Reconcile l desiredHosts =
     (if length (li_currentDeployHosts l) = 0
      then thenE (reg_install l desiredHosts) (returnE desiredHosts)
      else (let (joinedHosts, deletedHosts) = Diff (li_currentDeployHosts l) desiredHosts in
        if length joinedHosts = 0 \<and> length deletedHosts = 0 then returnE (li_currentDeployHosts l)
        else if length joinedHosts \<noteq> 0
        then thenE (reg_install l joinedHosts) (returnE (li_currentDeployHosts l @ joinedHosts))
        else thenE (reg_clean l deletedHosts) (returnE (RemoveIPs (li_currentDeployHosts l) deletedHosts))))"

section \<open>The interface of a configurator\<close>

record LocalRegistryInfo =
  lri_LocalRegistry :: "LocalRegistry option"
  lri_DeployHosts :: "net_ip list"
  lri_Vip :: string

record RegistryInfo =
  ri_External :: "RegistryConfig option"
  ri_Local :: LocalRegistryInfo

record RegistryDriver =
  rd_UploadContainerImages2Registry :: "unit io"
  rd_URL :: string

record Configurator =
  cf_InstallOn :: "net_ip list \<Rightarrow> net_ip list \<Rightarrow> unit io"
  cf_UninstallFrom :: "net_ip list \<Rightarrow> net_ip list \<Rightarrow> unit io"
  cf_GetDriver :: RegistryDriver
  cf_GetRegistryInfo :: "RegistryInfo io"

definition newLocalRegistryDriver :: "string \<Rightarrow> string \<Rightarrow> net_ip list \<Rightarrow> Distributor \<Rightarrow> RegistryDriver" where
  "newLocalRegistryDriver endpoint dataDir deployHosts distributor =
     \<lparr>rd_UploadContainerImages2Registry = DistributeRegistry distributor deployHosts dataDir, rd_URL = endpoint\<rparr>"

definition newExternalRegistryDriver :: "string \<Rightarrow> RegistryDriver" where
  "newExternalRegistryDriver endpoint = \<lparr>rd_UploadContainerImages2Registry = returnE (), rd_URL = endpoint\<rparr>"

section \<open>An external registry\<close>

record externalConfigurator =
  ec_containerRuntimeInfo :: ContainerRuntimeInfo
  ec_infraDriver :: SSHInfraDriver
  ec_endpoint :: string
  ec_username :: string
  ec_password :: string

definition NewExternalConfigurator :: "RegistryConfig \<Rightarrow> ContainerRuntimeInfo \<Rightarrow> SSHInfraDriver \<Rightarrow> externalConfigurator" where
  "NewExternalConfigurator regConfig containerRuntimeInfo driver =
     \<lparr>ec_containerRuntimeInfo = containerRuntimeInfo, ec_infraDriver = driver,
      ec_endpoint = (if r_Port regConfig \<noteq> 0 then net_JoinHostPort (r_Domain regConfig) (itoa (r_Port regConfig))
                     else r_Domain regConfig),
      ec_username = r_Username regConfig, ec_password = r_Password regConfig\<rparr>"

text \<open>Both configurators copy a file to all hosts in this way.\<close>

definition copy2RemoteHosts :: "SSHInfraDriver \<Rightarrow> string \<Rightarrow> string \<Rightarrow> net_ip list \<Rightarrow> unit io" where
  "copy2RemoteHosts d src dest hosts = Execute hosts (\<lambda>host.
     mapErr (Wrapf ''failed to copy local file %s to remote %s : %v'' [src, dest]) (drv_Copy d host src dest))"

text \<open>The login writes a local credential file, which is copied out and removed again.\<close>

definition loginAndCopy :: "SSHInfraDriver \<Rightarrow> string \<Rightarrow> string \<Rightarrow> string \<Rightarrow> string \<Rightarrow> net_ip list \<Rightarrow> unit io" where
  "loginAndCopy d username password endpoint configFile hosts =
     (let tmpAuthFilePath = ''/tmp/config.json''; remoteKubeletAuthFilePath = ''/var/lib/kubelet/config.json'' in
      if username = [] \<or> password = [] then returnE ()
      else thenE (perform (LocalCall ''auth.Login'' [tmpAuthFilePath, username, password, endpoint]))
        (finallyE (thenE (copy2RemoteHosts d tmpAuthFilePath configFile hosts)
                         (copy2RemoteHosts d tmpAuthFilePath remoteKubeletAuthFilePath hosts))
          (perform (LocalCall ''os.Remove'' [tmpAuthFilePath]))))"

definition ext_InstallOn :: "externalConfigurator \<Rightarrow> net_ip list \<Rightarrow> net_ip list \<Rightarrow> unit io" where
  "ext_InstallOn e masters nodes = loginAndCopy (ec_infraDriver e) (ec_username e) (ec_password e) (ec_endpoint e)
     (ci_ConfigFilePath (ec_containerRuntimeInfo e)) (masters @ nodes)"

definition logoutCmd :: "ContainerRuntimeInfo \<Rightarrow> string \<Rightarrow> string" where
  "logoutCmd cri endpoint = (if ci_Type cri \<noteq> Docker then fmt_Sprintf ''nerdctl logout %s '' [endpoint]
     else fmt_Sprintf ''docker logout %s '' [endpoint])"

definition ext_UninstallFrom :: "externalConfigurator \<Rightarrow> net_ip list \<Rightarrow> net_ip list \<Rightarrow> unit io" where
  "ext_UninstallFrom e masters nodes =
     (if ec_username e = [] \<or> ec_password e = [] then returnE ()
      else forE (masters @ nodes) (\<lambda>host. mapErr (Wrapf ''failed to delete registry configuration: %v'' [])
        (drv_CmdAsync (ec_infraDriver e) host [] [logoutCmd (ec_containerRuntimeInfo e) (ec_endpoint e)])))"

definition ext_GetRegistryInfo :: "externalConfigurator \<Rightarrow> RegistryInfo" where
  "ext_GetRegistryInfo e = \<lparr>ri_External = g_External (GetClusterRegistry (ec_infraDriver e)),
     ri_Local = \<lparr>lri_LocalRegistry = None, lri_DeployHosts = [], lri_Vip = []\<rparr>\<rparr>"

definition externalAsConfigurator :: "externalConfigurator \<Rightarrow> Configurator" where
  "externalAsConfigurator e = \<lparr>cf_InstallOn = ext_InstallOn e, cf_UninstallFrom = ext_UninstallFrom e,
     cf_GetDriver = newExternalRegistryDriver (ec_endpoint e), cf_GetRegistryInfo = returnE (ext_GetRegistryInfo e)\<rparr>"

section \<open>The local registry\<close>

record localConfigurator =
  lc_reg :: LocalRegistry
  lc_deployHosts :: "net_ip list"
  lc_containerRuntimeInfo :: ContainerRuntimeInfo
  lc_infraDriver :: SSHInfraDriver
  lc_distributor :: Distributor

definition lc_endpoint :: "localConfigurator \<Rightarrow> string" where
  "lc_endpoint c = net_JoinHostPort (r_Domain (lc_reg c)) (itoa (r_Port (lc_reg c)))"

definition GetRegistryVIP :: "SSHInfraDriver \<Rightarrow> string" where
  "GetRegistryVIP d =
     (let vip0 = (case GetHostIPList d of [] \<Rightarrow> ''10.103.97.2''
                  | h # _ \<Rightarrow> if k8snet_IsIPv6 h then ''1248:4003:10bb:6a01:83b9:6360:c66d:0002'' else ''10.103.97.2'');
          vip1 = (case map_of (GetClusterEnv d) ''IPvsVIPv4'' of None \<Rightarrow> vip0 | Some ipv4 \<Rightarrow> ipv4)
      in case map_of (GetClusterEnv d) ''IPvsVIPv6'' of None \<Rightarrow> vip1 | Some ipv6 \<Rightarrow> ipv6)"

definition lc_GetRegistryInfo :: "localConfigurator \<Rightarrow> RegistryInfo io" where
  "lc_GetRegistryInfo c = bindE (deref (l_HA (lc_reg c))) (\<lambda>ha.
     if ha then returnE \<lparr>ri_External = None, ri_Local = \<lparr>lri_LocalRegistry = Some (lc_reg c),
                    lri_DeployHosts = lc_deployHosts c, lri_Vip = GetRegistryVIP (lc_infraDriver c)\<rparr>\<rparr>
     else bindE (firstE (lc_deployHosts c)) (\<lambda>h0.
       returnE \<lparr>ri_External = None, ri_Local = \<lparr>lri_LocalRegistry = Some (lc_reg c),
                    lri_DeployHosts = [h0], lri_Vip = []\<rparr>\<rparr>))"

definition lc_GetDriver :: "localConfigurator \<Rightarrow> RegistryDriver" where
  "lc_GetDriver c = newLocalRegistryDriver (lc_endpoint c)
     (filepath_Join [GetClusterRootfsPath (lc_infraDriver c), ''registry'']) (lc_deployHosts c) (lc_distributor c)"

definition configureLvs :: "codecs \<Rightarrow> localConfigurator \<Rightarrow> net_ip list \<Rightarrow> net_ip list \<Rightarrow> unit io" where
  "configureLvs cx c registryHosts clientHosts =
     (let port = itoa (r_Port (lc_reg c));
          hosts = sort (IPsToIPStrs registryHosts);
          realEndpoints = map (\<lambda>m. net_JoinHostPort m port) hosts;
          rs = map (\<lambda>ep. fmt_Sprintf ''--rs %s'' [ep]) realEndpoints;
          lvsImageURL = filepath_Join [lc_endpoint c, ''sealerio/lvscare:v1.1.3-beta.8''];
          vip = GetRegistryVIP (lc_infraDriver c);
          vs = net_JoinHostPort vip port;
          healthPath = ''/'' in
      bindE (deref (l_Insecure (lc_reg c))) (\<lambda>insecure.
        let healthSchem = (if insecure then ''http'' else ''https'') in
        bindE (liftR (LvsStaticPodYaml cx ''reg-lvscare'' vs realEndpoints lvsImageURL healthPath healthSchem)) (\<lambda>y.
          let lvscareStaticCmd = GetCreateLvscareStaticPodCmd y ''reg-lvscare.yaml'';
              ipvsCmd = fmt_Sprintf ''seautil ipvs --vs %s %s --health-path %s --health-schem %s --run-once''
                [vs, strings_Join rs '' '', healthPath, healthSchem] in
          errgroup clientHosts (\<lambda>n.
            thenE (mapErr (Wrapf ''failed to config nodes lvs policy: %s: %v'' [ipvsCmd])
                    (drv_CmdAsync (lc_infraDriver c) n [] [ipvsCmd, lvscareStaticCmd]))
                  (mapErr (Wrapf ''failed to config nodes hosts file cmd: %v'' [])
                    (drv_CmdAsync (lc_infraDriver c) n [] [CommandSetHostAlias (r_Domain (lc_reg c)) vip]))))))"

definition configureSingletonHostsFile :: "localConfigurator \<Rightarrow> net_ip list \<Rightarrow> unit io" where
  "configureSingletonHostsFile c hosts = Execute hosts (\<lambda>host.
     bindE (firstE (lc_deployHosts c)) (\<lambda>h0.
       mapErr (Wrapf ''failed to config cluster hosts file cmd: %v'' [])
         (drv_CmdAsync (lc_infraDriver c) host [] [CommandSetHostAlias (r_Domain (lc_reg c)) (ip_String h0)])))"

definition configureRegistryNetwork :: "codecs \<Rightarrow> localConfigurator \<Rightarrow> net_ip list \<Rightarrow> net_ip list \<Rightarrow> unit io" where
  "configureRegistryNetwork cx c masters nodes = bindE (deref (l_HA (lc_reg c))) (\<lambda>ha.
     if \<not> ha then configureSingletonHostsFile c (masters @ nodes)
     else thenE (errgroup masters (\<lambda>master.
            mapErr (Wrapf ''failed to config masters hosts file: %v'' [])
              (drv_CmdAsync (lc_infraDriver c) master [] [CommandSetHostAlias (r_Domain (lc_reg c)) (ip_String master)])))
       (if length masters = 0 then configureLvs cx c (lc_deployHosts c) nodes
        else configureLvs cx c (lc_deployHosts c) (GetHostIPListByRole (lc_infraDriver c) NODE)))"

definition configureRegistryCert :: "localConfigurator \<Rightarrow> net_ip list \<Rightarrow> unit io" where
  "configureRegistryCert c hosts = bindE (deref (l_Insecure (lc_reg c))) (\<lambda>insecure.
     if insecure then returnE ()
     else (let caFile = r_Domain (lc_reg c) @ ''.crt'' in
       copy2RemoteHosts (lc_infraDriver c) (filepath_Join [GetClusterRootfsPath (lc_infraDriver c), ''certs'', caFile])
         (filepath_Join [ci_CertsDir (lc_containerRuntimeInfo c), lc_endpoint c, caFile]) hosts))"

definition configureAccessCredential :: "localConfigurator \<Rightarrow> net_ip list \<Rightarrow> unit io" where
  "configureAccessCredential c hosts = loginAndCopy (lc_infraDriver c) (r_Username (lc_reg c)) (r_Password (lc_reg c))
     (lc_endpoint c) (ci_ConfigFilePath (lc_containerRuntimeInfo c)) hosts"

definition configureDockerDaemonService :: "codecs \<Rightarrow> string \<Rightarrow> string \<Rightarrow> unit io" where
  "configureDockerDaemonService cx endpoint daemonFile =
     bindE (askText (LocalCall ''os.ReadFile'' [filepath_Clean daemonFile])) (\<lambda>b0.
       let b = strings_TrimSpace b0 in
       bindE (if length b \<noteq> 0
              then mapErr (Wrapf ''failed to load %s to DaemonConfig: %v'' [daemonFile]) (liftR (cx_daemonUnmarshal cx b))
              else returnE \<lparr>dc_RegistryMirrors = [], dc_others = []\<rparr>) (\<lambda>conf.
         bindE (mapErr (Wrapf ''failed to marshal daemonFile: %v'' [])
                 (liftR (cx_daemonMarshal cx (conf\<lparr>dc_RegistryMirrors := dc_RegistryMirrors conf @ [''https://'' @ endpoint]\<rparr>))))
           (\<lambda>content. commonWriter_WriteFile daemonFile content)))"

definition configureContainerdDaemonService :: "codecs \<Rightarrow> localConfigurator \<Rightarrow> string \<Rightarrow> string \<Rightarrow> unit io" where
  "configureContainerdDaemonService cx c endpoint hostTomlFile =
     (let caFile = r_Domain (lc_reg c) @ ''.crt'';
          registryCaCertPath = filepath_Join [ci_CertsDir (lc_containerRuntimeInfo c), endpoint, caFile];
          url = ''https://'' @ endpoint in
      bindE (mapErr (Wrapf ''failed to marshal containerd hosts.toml file: %v'' [])
              (liftR (cx_hostsToml cx \<lparr>ht_Server = url, ht_CACerts = [(url, registryCaCertPath)]\<rparr>)))
        (\<lambda>bs. commonWriter_WriteFile hostTomlFile bs))"

definition configureDaemonService :: "codecs \<Rightarrow> localConfigurator \<Rightarrow> net_ip list \<Rightarrow> unit io" where
  "configureDaemonService cx c hosts =
     (let endpoint = lc_endpoint c; crt = ci_Type (lc_containerRuntimeInfo c);
          rootfs = GetClusterRootfsPath (lc_infraDriver c);
          src = (if crt = Docker then filepath_Join [rootfs, ''etc'', ''daemon.json'']
                 else if crt = Containerd then filepath_Join [rootfs, ''etc'', ''hosts.toml''] else []);
          dest = (if crt = Docker then ''/etc/docker/daemon.json''
                  else if crt = Containerd then filepath_Join [''/etc/containerd/certs.d'', endpoint, ''hosts.toml''] else []) in
      if endpoint = ''sea.hub:5000'' then returnE ()
      else thenE (if crt = Docker then configureDockerDaemonService cx endpoint src
                  else if crt = Containerd then configureContainerdDaemonService cx c endpoint src else returnE ())
        (errgroup hosts (\<lambda>ip. thenE (drv_Copy (lc_infraDriver c) ip src dest)
           (drv_CmdAsync (lc_infraDriver c) ip [] [''systemctl daemon-reload'']))))"

definition lc_InstallOn :: "codecs \<Rightarrow> localConfigurator \<Rightarrow> net_ip list \<Rightarrow> net_ip list \<Rightarrow> unit io" where
  "lc_InstallOn cx c masters nodes =
     thenE (configureRegistryNetwork cx c masters nodes)
     (thenE (configureRegistryCert c (masters @ nodes))
     (thenE (configureDaemonService cx c (masters @ nodes))
            (configureAccessCredential c (masters @ nodes))))"

definition removeRegistryConfig :: "localConfigurator \<Rightarrow> net_ip list \<Rightarrow> unit io" where
  "removeRegistryConfig c hosts =
     (let uninstallCmd = (if r_Username (lc_reg c) \<noteq> [] \<and> r_Password (lc_reg c) \<noteq> []
            then [logoutCmd (lc_containerRuntimeInfo c) (lc_endpoint c)] else []) in
      Execute hosts (\<lambda>host. mapErr (Wrapf ''failed to delete registry configuration: %v'' [])
        (drv_CmdAsync (lc_infraDriver c) host [] [strings_Join uninstallCmd ''&&''])))"

definition lc_UninstallFrom :: "codecs \<Rightarrow> localConfigurator \<Rightarrow> net_ip list \<Rightarrow> net_ip list \<Rightarrow> unit io" where
  "lc_UninstallFrom cx c deletedMasters deletedNodes =
     thenE (removeRegistryConfig c (deletedMasters @ deletedNodes))
       (bindE (deref (l_HA (lc_reg c))) (\<lambda>ha.
          if \<not> ha then returnE ()
          else if length (lc_deployHosts c) = 0 then returnE ()
          else if length deletedMasters = 0 then returnE ()
          else configureLvs cx c (lc_deployHosts c)
                 (RemoveIPs (GetHostIPListByRole (lc_infraDriver c) NODE) deletedNodes)))"

definition localAsConfigurator :: "codecs \<Rightarrow> localConfigurator \<Rightarrow> Configurator" where
  "localAsConfigurator cx c = \<lparr>cf_InstallOn = lc_InstallOn cx c, cf_UninstallFrom = lc_UninstallFrom cx c,
     cf_GetDriver = lc_GetDriver c, cf_GetRegistryInfo = lc_GetRegistryInfo c\<rparr>"

definition NewConfigurator :: "codecs \<Rightarrow> net_ip list \<Rightarrow> ContainerRuntimeInfo \<Rightarrow> Registry \<Rightarrow> SSHInfraDriver \<Rightarrow> Distributor \<Rightarrow> Configurator res" where
  "NewConfigurator cx deployHosts containerRuntimeInfo regConfig infraDriver distributor =
     (case g_Local regConfig of
        Some loc \<Rightarrow> Inr (localAsConfigurator cx \<lparr>lc_reg = loc, lc_deployHosts = deployHosts,
          lc_containerRuntimeInfo = containerRuntimeInfo, lc_infraDriver = infraDriver, lc_distributor = distributor\<rparr>)
      | None \<Rightarrow> (case g_External regConfig of
          Some ext \<Rightarrow> Inr (externalAsConfigurator (NewExternalConfigurator ext containerRuntimeInfo infraDriver))
        | None \<Rightarrow> Inl (Errorf ''unsupported registry type'' [])))"

section \<open>Where the actions go\<close>

text \<open>
  The contract of a configurator: it works through the driver, so it reaches hosts of the
  cluster only, and so does the driver it hands out when the distributor does.
\<close>

locale configurator_contract =
  fixes cf :: Configurator and d :: SSHInfraDriver
  assumes install_in_cluster: "obeys (in_cluster d) (cf_InstallOn cf masters nodes)"
    and uninstall_in_cluster: "obeys (in_cluster d) (cf_UninstallFrom cf masters nodes)"
    and info_in_cluster: "obeys (in_cluster d) (cf_GetRegistryInfo cf)"

lemma obeys_copy2RemoteHosts [intro!]:
  "obeys (in_cluster d) (copy2RemoteHosts d src dest hosts)"
  unfolding copy2RemoteHosts_def by auto

lemma obeys_loginAndCopy [intro!]:
  "obeys (in_cluster d) (loginAndCopy d u p ep f hosts)"
  unfolding loginAndCopy_def Let_def by auto

lemma obeys_configureLvs [intro!]:
  "obeys (in_cluster (lc_infraDriver c)) (configureLvs cx c rh ch)"
  unfolding configureLvs_def Let_def by auto

lemma obeys_lc_steps [intro!]:
  "obeys (in_cluster (lc_infraDriver c)) (configureSingletonHostsFile c hosts)"
  "obeys (in_cluster (lc_infraDriver c)) (configureRegistryNetwork cx c masters nodes)"
  "obeys (in_cluster (lc_infraDriver c)) (configureRegistryCert c hosts)"
  "obeys (in_cluster (lc_infraDriver c)) (configureAccessCredential c hosts)"
  "obeys (in_cluster (lc_infraDriver c)) (configureDaemonService cx c hosts)"
  "obeys (in_cluster (lc_infraDriver c)) (removeRegistryConfig c hosts)"
proof -
  show net1: "obeys (in_cluster (lc_infraDriver c)) (configureSingletonHostsFile c hosts)" for hosts
    unfolding configureSingletonHostsFile_def by auto
  show "obeys (in_cluster (lc_infraDriver c)) (configureRegistryNetwork cx c masters nodes)"
    unfolding configureRegistryNetwork_def using net1 by auto
  show "obeys (in_cluster (lc_infraDriver c)) (configureRegistryCert c hosts)"
    unfolding configureRegistryCert_def Let_def by auto
  show "obeys (in_cluster (lc_infraDriver c)) (configureAccessCredential c hosts)"
    unfolding configureAccessCredential_def by auto
  show "obeys (in_cluster (lc_infraDriver c)) (configureDaemonService cx c hosts)"
    unfolding configureDaemonService_def configureDockerDaemonService_def configureContainerdDaemonService_def Let_def
    by auto
  show "obeys (in_cluster (lc_infraDriver c)) (removeRegistryConfig c hosts)"
    unfolding removeRegistryConfig_def Let_def by auto
qed

interpretation local_reg: configurator_contract "localAsConfigurator cx c" "lc_infraDriver c" for cx c
proof unfold_locales
  fix masters nodes
  show "obeys (in_cluster (lc_infraDriver c)) (cf_InstallOn (localAsConfigurator cx c) masters nodes)"
    unfolding localAsConfigurator_def by (auto simp: lc_InstallOn_def)
  show "obeys (in_cluster (lc_infraDriver c)) (cf_UninstallFrom (localAsConfigurator cx c) masters nodes)"
    unfolding localAsConfigurator_def by (auto simp: lc_UninstallFrom_def)
  show "obeys (in_cluster (lc_infraDriver c)) (cf_GetRegistryInfo (localAsConfigurator cx c))"
    unfolding localAsConfigurator_def by (auto simp: lc_GetRegistryInfo_def)
qed

interpretation external_reg: configurator_contract "externalAsConfigurator e" "ec_infraDriver e" for e
proof unfold_locales
  fix masters nodes
  show "obeys (in_cluster (ec_infraDriver e)) (cf_InstallOn (externalAsConfigurator e) masters nodes)"
    unfolding externalAsConfigurator_def by (auto simp: ext_InstallOn_def)
  show "obeys (in_cluster (ec_infraDriver e)) (cf_UninstallFrom (externalAsConfigurator e) masters nodes)"
    unfolding externalAsConfigurator_def by (auto simp: ext_UninstallFrom_def)
  show "obeys (in_cluster (ec_infraDriver e)) (cf_GetRegistryInfo (externalAsConfigurator e))"
    unfolding externalAsConfigurator_def by auto
qed

lemma NewConfigurator_contract:
  assumes "NewConfigurator cx hosts cri reg d dist = Inr cf"
  shows "configurator_contract cf d"
proof (cases "g_Local reg")
  case (Some loc)
  with assms local_reg.configurator_contract_axioms [of cx "\<lparr>lc_reg = loc, lc_deployHosts = hosts,
      lc_containerRuntimeInfo = cri, lc_infraDriver = d, lc_distributor = dist\<rparr>"]
  show ?thesis by (auto simp: NewConfigurator_def)
next
  case None
  with assms obtain ext where "cf = externalAsConfigurator (NewExternalConfigurator ext cri d)"
    by (auto simp: NewConfigurator_def split: option.splits)
  with external_reg.configurator_contract_axioms [of "NewExternalConfigurator ext cri d"]
  show ?thesis by (simp add: NewExternalConfigurator_def)
qed

context distributor_contract
begin

lemmas reg_install_unfold = reg_install_def syncBasicAuthFile_def syncRegistryCert_def reconcileRegistry_def
  gen_cert_def GenerateHTTPBasicAuth_def reg_NewInstaller_def Let_def

lemma reg_install_in_cluster: "obeys (in_cluster d) (reg_install (reg_NewInstaller cur reg d dist) hosts)"
  unfolding reg_install_unfold by (auto intro!: registry_in_cluster)

lemma reg_install_on_hosts: "obeys (on_hosts (set hosts)) (reg_install (reg_NewInstaller cur reg d dist) hosts)"
  unfolding reg_install_unfold by (auto intro!: registry_on_hosts)

lemma grows_DistributeRegistry: "grows (DistributeRegistry dist hosts dir)"
  by (rule obeys_mono [OF registry_in_cluster]) simp

lemma reg_install_launches:
  assumes "h \<in> set hosts"
  shows "ensures (CmdAsyncOn h (GetClusterEnv d)
      [fmt_Sprintf ''cd %s/scripts && bash init-registry.sh %s %s %s''
         [GetClusterRootfsPath d, itoa (r_Port reg), filepath_Join [GetClusterRootfsPath d, ''registry''], r_Domain reg]])
    (reg_install (reg_NewInstaller cur reg d dist) hosts)"
  unfolding reg_install_def reconcileRegistry_def reg_NewInstaller_def Let_def
  by (intro ensures_then_second) (auto intro!: ensures_forE [OF assms] ensures_drv)

end

lemma reg_clean_in_cluster [intro!]: "li_infraDriver l = d \<Longrightarrow> obeys (in_cluster d) (reg_clean l hosts)"
  unfolding reg_clean_def by auto

lemma reg_clean_on_hosts [intro!]: "set hosts \<subseteq> H \<Longrightarrow> obeys (on_hosts H) (reg_clean l hosts)"
  unfolding reg_clean_def by auto

section \<open>Reconciliation\<close>

lemma RemoveIPs_texts:
  assumes "set ys \<subseteq> set xs" and "\<And>x y. x \<in> set xs \<Longrightarrow> y \<in> set ys \<Longrightarrow> ip_String x = ip_String y \<Longrightarrow> x \<in> set ys"
  shows "set (RemoveIPs xs ys) = set xs - set ys"
  using assms unfolding set_RemoveIPs IsInIPList_iff
  by (auto dest: ip_Equal_String)

context distributor_contract
begin

lemma Reconcile_hosts:
  assumes run: "Reconcile (reg_NewInstaller current reg d dist) desired w = (Inr hosts, w')"
    and distinct: "distinct (map ip_String desired)"
  shows "ip_String ` set hosts = (if current = [] \<or> ip_String ` set desired \<subseteq> ip_String ` set current
      then ip_String ` set desired else ip_String ` set current \<union> ip_String ` set desired)"
proof (cases "current = []")
  case True
  with run show ?thesis by (auto simp: Reconcile_def reg_NewInstaller_def thenE_Inr_iff returnE_def)
next
  case False
  define join del where "join = filter (\<lambda>v. ip_String v \<notin> ip_String ` set current) desired"
    and "del = filter (\<lambda>v. ip_String v \<notin> ip_String ` set desired) current"
  have keep: "set (RemoveIPs current del) = set current - set del"
    by (rule RemoveIPs_texts) (auto simp: del_def)
  have "hosts = (if join = [] \<and> del = [] then current else if join \<noteq> [] then current @ join else RemoveIPs current del)"
    using run False Diff_spec [OF distinct, of current]
    by (auto simp: Reconcile_def reg_NewInstaller_def thenE_Inr_iff returnE_def Let_def join_def del_def split: if_splits)
  then have "ip_String ` set hosts = (if join = [] \<and> del = [] then ip_String ` set current
      else if join \<noteq> [] then ip_String ` set current \<union> ip_String ` set join else ip_String ` (set current - set del))"
    using keep by (simp add: image_Un)
  moreover have "join = [] \<longleftrightarrow> ip_String ` set desired \<subseteq> ip_String ` set current"
    and "del = [] \<longleftrightarrow> ip_String ` set current \<subseteq> ip_String ` set desired"
    by (auto simp: join_def del_def filter_empty_conv)
  moreover have "ip_String ` set join = ip_String ` set desired - ip_String ` set current"
    and "ip_String ` (set current - set del) = ip_String ` set current \<inter> ip_String ` set desired"
    by (auto simp: join_def del_def)
  ultimately show ?thesis using False by auto
qed

lemma Reconcile_launches:
  assumes run: "Reconcile (reg_NewInstaller current reg d dist) desired w = (Inr hosts, w')"
    and distinct: "distinct (map ip_String desired)"
    and h: "h \<in> set hosts" "ip_String h \<notin> ip_String ` set current"
  shows "CmdAsyncOn h (GetClusterEnv d)
      [fmt_Sprintf ''cd %s/scripts && bash init-registry.sh %s %s %s''
         [GetClusterRootfsPath d, itoa (r_Port reg), filepath_Join [GetClusterRootfsPath d, ''registry''], r_Domain reg]]
    \<in> set (w_log w')"
proof -
  let ?l = "reg_NewInstaller current reg d dist"
  have "\<exists>new. h \<in> set new \<and> thenE (reg_install ?l new) (returnE hosts) w = (Inr hosts, w')"
  proof (cases "current = []")
    case True
    with run h show ?thesis
      by (auto simp: Reconcile_def reg_NewInstaller_def thenE_Inr_iff returnE_def)
  next
    case False
    define join where "join = filter (\<lambda>v. ip_String v \<notin> ip_String ` set current) desired"
    from run h(2) False Diff_spec [OF distinct, of current]
    have "thenE (reg_install ?l join) (returnE (current @ join)) w = (Inr hosts, w')" if "h \<notin> set current"
      using that h by (auto simp: Reconcile_def reg_NewInstaller_def thenE_Inr_iff returnE_def Let_def join_def
          set_RemoveIPs split: if_splits)
    moreover have "h \<notin> set current" using h(2) by auto
    ultimately show ?thesis using h
      by (intro exI [of _ join]) (auto simp: thenE_Inr_iff returnE_def)
  qed
  then obtain new u where "h \<in> set new" and "reg_install ?l new w = (Inr u, w')"
    by (auto simp: thenE_Inr_iff returnE_def)
  then show ?thesis by (rule ensuresD [OF reg_install_launches])
qed

end

text \<open>
  C33. Reconciling the registry's deploy hosts, when it succeeds, ends with exactly the desired
  hosts if there was no deployment yet or the desired hosts are among the current ones, and with
  the current and the desired hosts otherwise: hosts that should leave stay deployed whenever
  another host joins. Every host of the result that was not deployed before has been sent the
  command that launches the registry.
\<close>

theorem Reconcile_deploys:
  assumes "Reconcile (reg_NewInstaller current reg (sd_infraDriver s) (scpAsDistributor s)) desired w = (Inr hosts, w')"
    and "distinct (map ip_String desired)"
  shows "ip_String ` set hosts = (if current = [] \<or> ip_String ` set desired \<subseteq> ip_String ` set current
      then ip_String ` set desired else ip_String ` set current \<union> ip_String ` set desired)
    \<and> (\<forall>h \<in> set hosts. ip_String h \<notin> ip_String ` set current \<longrightarrow>
        CmdAsyncOn h (GetClusterEnv (sd_infraDriver s))
          [fmt_Sprintf ''cd %s/scripts && bash init-registry.sh %s %s %s''
             [GetClusterRootfsPath (sd_infraDriver s), itoa (r_Port reg),
              filepath_Join [GetClusterRootfsPath (sd_infraDriver s), ''registry''], r_Domain reg]]
        \<in> set (w_log w'))"
  using scp.Reconcile_hosts [OF assms] scp.Reconcile_launches [OF assms] by blast

definition demoRegistry :: LocalRegistry where
  "demoRegistry = \<lparr>r_Domain = ''sea.hub'', r_Port = 5000, r_Username = [], r_Password = [],
     l_HA = Some False, l_Insecure = Some True, l_Cert = None\<rparr>"

definition demoDistributor :: scpDistributor where
  "demoDistributor = NewScpDistributor demoYaml [] demoDriver [] \<lparr>do_IgnoreCache = False, do_Prune = False\<rparr>"

theorem Reconcile_deploys_witness:
  "\<exists>w'. Reconcile (reg_NewInstaller [] demoRegistry demoDriver (scpAsDistributor demoDistributor)) [[10, 0, 0, 1]] calmWorld
      = (Inr [[10, 0, 0, 1]], w')
    \<and> (\<exists>cmd. CmdAsyncOn [10, 0, 0, 1] (GetClusterEnv demoDriver) cmd \<in> set (w_log w'))"
proof -
  have d [simp]: "sd_infraDriver demoDistributor = demoDriver" "sd_imageMountInfo demoDistributor = []"
    by (simp_all add: demoDistributor_def NewScpDistributor_def)
  have run: "does (Reconcile (reg_NewInstaller [] demoRegistry demoDriver (scpAsDistributor demoDistributor)) [[10, 0, 0, 1]])
      calmWorld [[10, 0, 0, 1]] [CmdAsyncOn [10, 0, 0, 1] (GetClusterEnv demoDriver)
          [fmt_Sprintf ''cd %s/scripts && bash init-registry.sh %s %s %s''
             [GetClusterRootfsPath demoDriver, itoa 5000,
              filepath_Join [GetClusterRootfsPath demoDriver, ''registry''], ''sea.hub'']]]"
    using does_drv(1) [OF calm_calmWorld demo_in_cluster(1)]
    by (auto simp: Reconcile_def reg_NewInstaller_def reg_install_def syncBasicAuthFile_def syncRegistryCert_def
        reconcileRegistry_def demoRegistry_def scpAsDistributor_def scp_DistributeRegistry_def deref_def Let_def
        does_def thenE_def bindE_def returnE_def)
  then obtain w' where w': "Reconcile (reg_NewInstaller [] demoRegistry demoDriver (scpAsDistributor demoDistributor))
      [[10, 0, 0, 1]] calmWorld = (Inr [[10, 0, 0, 1]], w')" by (auto simp: does_def)
  with Reconcile_deploys [of "[]" demoRegistry demoDistributor "[[10, 0, 0, 1]]" calmWorld "[[10, 0, 0, 1]]" w']
  show ?thesis by auto
qed

section \<open>The network of a replicated registry\<close>

text \<open>The policy command: the virtual address in front of exactly the given registry hosts, sorted.\<close>

definition ipvsPolicy :: "localConfigurator \<Rightarrow> net_ip list \<Rightarrow> string" where
  "ipvsPolicy c registryHosts =
     (let port = itoa (r_Port (lc_reg c)) in
      fmt_Sprintf ''seautil ipvs --vs %s %s --health-path %s --health-schem %s --run-once''
        [net_JoinHostPort (GetRegistryVIP (lc_infraDriver c)) port,
         strings_Join (map (\<lambda>m. fmt_Sprintf ''--rs %s'' [net_JoinHostPort m port]) (sort (map ip_String registryHosts))) '' '',
         ''/'', if l_Insecure (lc_reg c) = Some True then ''http'' else ''https''])"

lemma configureLvs_done:
  assumes run: "configureLvs cx c registryHosts clientHosts w = (Inr u, w')" and n: "n \<in> set clientHosts"
  shows "CmdAsyncOn n [] [CommandSetHostAlias (r_Domain (lc_reg c)) (GetRegistryVIP (lc_infraDriver c))] \<in> set (w_log w')"
    and "\<exists>pod. CmdAsyncOn n [] [ipvsPolicy c registryHosts, pod] \<in> set (w_log w')"
proof -
  let ?f = "\<lambda>pod n. thenE (mapErr (Wrapf ''failed to config nodes lvs policy: %s: %v'' [ipvsPolicy c registryHosts])
        (drv_CmdAsync (lc_infraDriver c) n [] [ipvsPolicy c registryHosts, pod]))
      (mapErr (Wrapf ''failed to config nodes hosts file cmd: %v'' [])
        (drv_CmdAsync (lc_infraDriver c) n [] [CommandSetHostAlias (r_Domain (lc_reg c)) (GetRegistryVIP (lc_infraDriver c))]))"
  from run obtain pod where pod: "errgroup clientHosts (?f pod) w = (Inr u, w')"
    by (auto simp: configureLvs_def Let_def bindE_Inr_iff deref_Inr_iff liftR_Inr_iff ipvsPolicy_def IPsToIPStrs_def comp_def
        simp del: fmt_Sprintf.simps)
  have "ensures (CmdAsyncOn n [] [CommandSetHostAlias (r_Domain (lc_reg c)) (GetRegistryVIP (lc_infraDriver c))])
      (errgroup clientHosts (?f pod))"
    by (rule ensures_errgroup [OF n]) (auto intro!: ensures_then_second ensures_mapErr ensures_drv)
  from ensuresD [OF this pod]
  show "CmdAsyncOn n [] [CommandSetHostAlias (r_Domain (lc_reg c)) (GetRegistryVIP (lc_infraDriver c))] \<in> set (w_log w')" .
  have "ensures (CmdAsyncOn n [] [ipvsPolicy c registryHosts, pod]) (errgroup clientHosts (?f pod))"
    by (rule ensures_errgroup [OF n]) (auto intro!: ensures_then_first ensures_mapErr ensures_drv)
  from ensuresD [OF this pod] show "\<exists>pod. CmdAsyncOn n [] [ipvsPolicy c registryHosts, pod] \<in> set (w_log w')" ..
qed

lemma grows_lc [intro!]:
  "grows (configureLvs cx c rh ch)" "grows (configureRegistryCert c hosts)" "grows (configureDaemonService cx c hosts)"
  "grows (configureAccessCredential c hosts)" "grows (removeRegistryConfig c hosts)"
  by (rule obeys_mono [of "in_cluster (lc_infraDriver c)"]; blast)+

text \<open>
  In the replicated mode, a successful configuration of new masters and nodes leaves every
  new master with the registry domain at its own address, and every client with the policy that
  balances over exactly the deploy hosts and with the domain at the virtual address. The clients
  are all nodes of the cluster if there are new masters, and the new nodes otherwise.
\<close>

theorem ha_registry_network:
  assumes run: "lc_InstallOn cx c masters nodes w = (Inr u, w')" and ha: "l_HA (lc_reg c) = Some True"
  shows "(\<forall>m \<in> set masters. CmdAsyncOn m [] [CommandSetHostAlias (r_Domain (lc_reg c)) (ip_String m)] \<in> set (w_log w'))
    \<and> (\<forall>n \<in> set (if masters = [] then nodes else GetHostIPListByRole (lc_infraDriver c) NODE).
        CmdAsyncOn n [] [CommandSetHostAlias (r_Domain (lc_reg c)) (GetRegistryVIP (lc_infraDriver c))] \<in> set (w_log w')
        \<and> (\<exists>pod. CmdAsyncOn n [] [ipvsPolicy c (lc_deployHosts c), pod] \<in> set (w_log w')))"
proof -
  let ?setAlias = "\<lambda>m. mapErr (Wrapf ''failed to config masters hosts file: %v'' [])
      (drv_CmdAsync (lc_infraDriver c) m [] [CommandSetHostAlias (r_Domain (lc_reg c)) (ip_String m)])"
  let ?clients = "if masters = [] then nodes else GetHostIPListByRole (lc_infraDriver c) NODE"
  from run ha obtain w1 w2 where m: "errgroup masters ?setAlias w = (Inr (), w1)"
    and lvs: "configureLvs cx c (lc_deployHosts c) ?clients w1 = (Inr (), w2)"
    and rest: "thenE (configureRegistryCert c (masters @ nodes)) (thenE (configureDaemonService cx c (masters @ nodes))
        (configureAccessCredential c (masters @ nodes))) w2 = (Inr u, w')"
    by (cases "masters = []") (auto simp: lc_InstallOn_def configureRegistryNetwork_def thenE_Inr_iff bindE_Inr_iff deref_Inr_iff)
  have "grows (thenE (configureRegistryCert c (masters @ nodes)) (thenE (configureDaemonService cx c (masters @ nodes))
        (configureAccessCredential c (masters @ nodes))))" by blast
  from grows_log [OF this rest] have late: "set (w_log w2) \<subseteq> set (w_log w')" .
  have mid: "set (w_log w1) \<subseteq> set (w_log w2)" by (rule grows_log [OF grows_lc(1) lvs])
  have "CmdAsyncOn m [] [CommandSetHostAlias (r_Domain (lc_reg c)) (ip_String m)] \<in> set (w_log w1)" if "m \<in> set masters" for m
  proof -
    have "ensures (CmdAsyncOn m [] [CommandSetHostAlias (r_Domain (lc_reg c)) (ip_String m)]) (errgroup masters ?setAlias)"
      by (rule ensures_errgroup [OF that]) (auto intro!: ensures_mapErr ensures_drv)
    from ensuresD [OF this m] show ?thesis .
  qed
  with mid late configureLvs_done [OF lvs] show ?thesis by blast
qed

definition demoCodecs :: codecs where
  "demoCodecs = \<lparr>cx_podYaml = (\<lambda>p. Inr (pod_Name p)), cx_daemonUnmarshal = (\<lambda>s. Inr \<lparr>dc_RegistryMirrors = [], dc_others = []\<rparr>),
     cx_daemonMarshal = (\<lambda>c. Inr (strings_Join (dc_RegistryMirrors c) '' '')), cx_hostsToml = (\<lambda>h. Inr (ht_Server h))\<rparr>"

definition demoConfigurator :: localConfigurator where
  "demoConfigurator = \<lparr>lc_reg = demoRegistry\<lparr>l_HA := Some True\<rparr>, lc_deployHosts = [[10, 0, 0, 1]],
     lc_containerRuntimeInfo = \<lparr>ci_Type = Docker, ci_CgroupDriver = [], ci_CRISocket = [], ci_CertsDir = [], ci_ConfigFilePath = []\<rparr>,
     lc_infraDriver = demoDriver, lc_distributor = scpAsDistributor demoDistributor\<rparr>"

lemma net_JoinHostPort_nonempty [simp]: "net_JoinHostPort h p \<noteq> []"
  by (simp add: net_JoinHostPort_def)

lemma smooth_configureLvs:
  assumes "l_Insecure (lc_reg c) = Some ins" and "\<forall>n \<in> set clientHosts. sshConfigs (lc_infraDriver c) (ip_String n) \<noteq> None"
    and "registryHosts \<noteq> []" and "\<forall>p. \<exists>y. cx_podYaml cx p = Inr y"
    and "filepath_Join [lc_endpoint c, ''sealerio/lvscare:v1.1.3-beta.8''] \<noteq> []"
  shows "smooth (configureLvs cx c registryHosts clientHosts)"
proof -
  have "\<exists>y. LvsStaticPodYaml cx ''reg-lvscare'' (net_JoinHostPort h p) (map g (sort (IPsToIPStrs registryHosts)))
      (filepath_Join [lc_endpoint c, ''sealerio/lvscare:v1.1.3-beta.8'']) hp hs = Inr y" for h p g hp hs
    using assms(3-5) unfolding LvsStaticPodYaml_def Let_def IPsToIPStrs_def
    by (auto split: sum.split) (metis sum.distinct(1))
  then show ?thesis
    using assms(1,2) unfolding configureLvs_def Let_def
    by (intro smooth_bindE smooth_basic smooth_errgroup smooth_thenE smooth_mapErr smooth_drv) simp_all
qed

theorem ha_registry_network_witness:
  "\<exists>w'. lc_InstallOn demoCodecs demoConfigurator [[10, 0, 0, 1]] [] calmWorld = (Inr (), w') \<and>
    (\<exists>pod. CmdAsyncOn [10, 0, 0, 2] [] [ipvsPolicy demoConfigurator [[10, 0, 0, 1]], pod] \<in> set (w_log w'))"
proof -
  have url: "filepath_Join [lc_endpoint demoConfigurator, ''sealerio/lvscare:v1.1.3-beta.8''] \<noteq> []"
    and ep: "lc_endpoint demoConfigurator = ''sea.hub:5000''"
    by (simp_all add: lc_endpoint_def demoConfigurator_def demoRegistry_def) code_simp+
  have nodes: "GetHostIPListByRole demoDriver NODE = [[10, 0, 0, 1], [10, 0, 0, 2]]"
    using driver_role_lists(1) [OF demoDriver, of NODE] by (simp add: GetIPSByRole_def ipsOfHostByRole_def demo_simps)
  have c: "lc_infraDriver demoConfigurator = demoDriver" "lc_deployHosts demoConfigurator = [[10, 0, 0, 1]]"
    "l_HA (lc_reg demoConfigurator) = Some True" "l_Insecure (lc_reg demoConfigurator) = Some True"
    "r_Username (lc_reg demoConfigurator) = []" "\<forall>p. \<exists>y. cx_podYaml demoCodecs p = Inr y"
    by (simp_all add: demoConfigurator_def demoRegistry_def demoCodecs_def)
  have "smooth (configureLvs demoCodecs demoConfigurator [[10, 0, 0, 1]] [[10, 0, 0, 1], [10, 0, 0, 2]])"
    by (rule smooth_configureLvs) (use c url demo_in_cluster in auto)
  then have "smooth (configureRegistryNetwork demoCodecs demoConfigurator [[10, 0, 0, 1]] [])"
    using c nodes demo_in_cluster by (auto simp: configureRegistryNetwork_def deref_def)
  moreover have "smooth (configureRegistryCert demoConfigurator hosts)" "smooth (configureDaemonService demoCodecs demoConfigurator hosts)"
    "smooth (configureAccessCredential demoConfigurator hosts)" for hosts
    using c ep by (auto simp: configureRegistryCert_def configureDaemonService_def configureAccessCredential_def loginAndCopy_def
        deref_def Let_def)
  ultimately have "smooth (lc_InstallOn demoCodecs demoConfigurator [[10, 0, 0, 1]] [])"
    unfolding lc_InstallOn_def by blast
  from smoothD [OF this calm_calmWorld] obtain u w' where
    run: "lc_InstallOn demoCodecs demoConfigurator [[10, 0, 0, 1]] [] calmWorld = (Inr u, w')" by auto
  with ha_registry_network [OF run] nodes show ?thesis
    by (auto simp: demoConfigurator_def)
qed

end
