(* ===== verification/Kubeadm_Config.thy ===== *)
theory Kubeadm_Config
  imports Registry_Service
begin

text \<open>
  Model of \<^verbatim>\<open>utils/version/version.go\<close> and of
  \<^verbatim>\<open>pkg/runtime/kubernetes/kubeadm/kubeadm_config.go\<close>: the kubeadm configuration of a cluster,
  merged from the Clusterfile, the file in the image and the built-in default. The record has the
  fields sealer itself reads or writes; \<^verbatim>\<open>mergo.Merge\<close> fills the fields that are empty. The
  decoder of configuration documents is a parameter: for a source and a document kind it gives
  the update the document stands for, if there is one.
\<close>

section \<open>Versions\<close>

definition strings_RemoveAll :: "string \<Rightarrow> char \<Rightarrow> string" where
  "strings_RemoveAll s c = filter (\<lambda>x. x \<noteq> c) s"

definition splitVersion :: "string \<Rightarrow> string list" where
  "splitVersion version = strings_Split (hd (strings_Split (strings_RemoveAll version (CHR ''v'')) ''-'')) ''.''"

definition GreaterThan :: "string \<Rightarrow> string \<Rightarrow> bool res" where
  "GreaterThan v oldVersion =
     (let givenVersion = splitVersion v; ov = splitVersion oldVersion in
      if length givenVersion \<noteq> 3 \<or> length ov \<noteq> 3
      then Inl (Errorf ''error version format %s %s'' [v, strings_Join ov '' ''])
      else if ov ! 0 < givenVersion ! 0 then Inr True
      else if givenVersion ! 0 < ov ! 0 then Inr False
      else if ov ! 1 < givenVersion ! 1 then Inr True
      else if givenVersion ! 1 < ov ! 1 then Inr False
      else if ov ! 2 < givenVersion ! 2 then Inr True
      else Inr True)"

section \<open>The configuration\<close>

record BootstrapToken =
  bt_Token :: string
  bt_APIServerEndpoint :: string
  bt_CACertHashes :: "string list"

record JoinControlPlane =
  jc_AdvertiseAddress :: string
  jc_BindPort :: int
  jc_CertificateKey :: string

record KubeadmConfig =
  kc_InitAPIVersion :: string
  kc_InitAdvertiseAddress :: string
  kc_InitCRISocket :: string
  kc_ClusterAPIVersion :: string
  kc_KubernetesVersion :: string
  kc_ControlPlaneEndpoint :: string
  kc_ImageRepository :: string
  kc_DNSImageRepository :: string
  kc_ServiceSubnet :: string
  kc_DNSDomain :: string
  kc_CertSANs :: "string list"
  kc_ExtraArgs :: env
  kc_ExcludeCIDRs :: "string list"
  kc_CgroupDriver :: string
  kc_JoinAPIVersion :: string
  kc_JoinCRISocket :: string
  kc_BootstrapToken :: "BootstrapToken option"
  kc_ControlPlane :: "JoinControlPlane option"

definition emptyKubeadmConfig :: KubeadmConfig where
  "emptyKubeadmConfig = \<lparr>kc_InitAPIVersion = [], kc_InitAdvertiseAddress = [], kc_InitCRISocket = [],
     kc_ClusterAPIVersion = [], kc_KubernetesVersion = [], kc_ControlPlaneEndpoint = [], kc_ImageRepository = [],
     kc_DNSImageRepository = [], kc_ServiceSubnet = [], kc_DNSDomain = [], kc_CertSANs = [], kc_ExtraArgs = [],
     kc_ExcludeCIDRs = [], kc_CgroupDriver = [], kc_JoinAPIVersion = [], kc_JoinCRISocket = [],
     kc_BootstrapToken = None, kc_ControlPlane = None\<rparr>"

definition fill :: "'a list \<Rightarrow> 'a list \<Rightarrow> 'a list" where
  "fill dst src = (if dst = [] then src else dst)"

definition fillToken :: "BootstrapToken option \<Rightarrow> BootstrapToken option \<Rightarrow> BootstrapToken option" where
  "fillToken dst src = (case (dst, src) of
       (None, _) \<Rightarrow> src
     | (Some d, None) \<Rightarrow> dst
     | (Some d, Some s) \<Rightarrow> Some \<lparr>bt_Token = fill (bt_Token d) (bt_Token s),
         bt_APIServerEndpoint = fill (bt_APIServerEndpoint d) (bt_APIServerEndpoint s),
         bt_CACertHashes = fill (bt_CACertHashes d) (bt_CACertHashes s)\<rparr>)"

definition fillControlPlane :: "JoinControlPlane option \<Rightarrow> JoinControlPlane option \<Rightarrow> JoinControlPlane option" where
  "fillControlPlane dst src = (case (dst, src) of
       (None, _) \<Rightarrow> src
     | (Some d, None) \<Rightarrow> dst
     | (Some d, Some s) \<Rightarrow> Some \<lparr>jc_AdvertiseAddress = fill (jc_AdvertiseAddress d) (jc_AdvertiseAddress s),
         jc_BindPort = (if jc_BindPort d = 0 then jc_BindPort s else jc_BindPort d),
         jc_CertificateKey = fill (jc_CertificateKey d) (jc_CertificateKey s)\<rparr>)"

definition mergo_Merge :: "KubeadmConfig \<Rightarrow> KubeadmConfig \<Rightarrow> KubeadmConfig" where
  "mergo_Merge dst src = \<lparr>
     kc_InitAPIVersion = fill (kc_InitAPIVersion dst) (kc_InitAPIVersion src),
     kc_InitAdvertiseAddress = fill (kc_InitAdvertiseAddress dst) (kc_InitAdvertiseAddress src),
     kc_InitCRISocket = fill (kc_InitCRISocket dst) (kc_InitCRISocket src),
     kc_ClusterAPIVersion = fill (kc_ClusterAPIVersion dst) (kc_ClusterAPIVersion src),
     kc_KubernetesVersion = fill (kc_KubernetesVersion dst) (kc_KubernetesVersion src),
     kc_ControlPlaneEndpoint = fill (kc_ControlPlaneEndpoint dst) (kc_ControlPlaneEndpoint src),
     kc_ImageRepository = fill (kc_ImageRepository dst) (kc_ImageRepository src),
     kc_DNSImageRepository = fill (kc_DNSImageRepository dst) (kc_DNSImageRepository src),
     kc_ServiceSubnet = fill (kc_ServiceSubnet dst) (kc_ServiceSubnet src),
     kc_DNSDomain = fill (kc_DNSDomain dst) (kc_DNSDomain src),
     kc_CertSANs = fill (kc_CertSANs dst) (kc_CertSANs src),
     kc_ExtraArgs = maps_Merge (kc_ExtraArgs dst) (kc_ExtraArgs src),
     kc_ExcludeCIDRs = fill (kc_ExcludeCIDRs dst) (kc_ExcludeCIDRs src),
     kc_CgroupDriver = fill (kc_CgroupDriver dst) (kc_CgroupDriver src),
     kc_JoinAPIVersion = fill (kc_JoinAPIVersion dst) (kc_JoinAPIVersion src),
     kc_JoinCRISocket = fill (kc_JoinCRISocket dst) (kc_JoinCRISocket src),
     kc_BootstrapToken = fillToken (kc_BootstrapToken dst) (kc_BootstrapToken src),
     kc_ControlPlane = fillControlPlane (kc_ControlPlane dst) (kc_ControlPlane src)\<rparr>"

section \<open>Loading and merging\<close>

type_synonym decoder = "string \<Rightarrow> string \<Rightarrow> (KubeadmConfig \<Rightarrow> KubeadmConfig) option res"

definition io_EOF :: gerror where "io_EOF = Errorf ''EOF'' []"

definition loadPart :: "decoder \<Rightarrow> string \<Rightarrow> string \<Rightarrow> KubeadmConfig \<Rightarrow> KubeadmConfig res" where
  "loadPart decode arg kind conf = (case decode arg kind of
       Inl err \<Rightarrow> if err \<noteq> io_EOF then Inl err else Inr conf
     | Inr None \<Rightarrow> Inr conf
     | Inr (Some f) \<Rightarrow> Inr (f conf))"

definition LoadKubeadmConfigs :: "decoder \<Rightarrow> string \<Rightarrow> KubeadmConfig res" where
  "LoadKubeadmConfigs decode arg =
     bindR (loadPart decode arg ''InitConfiguration'' emptyKubeadmConfig) (\<lambda>c1.
     bindR (loadPart decode arg ''ClusterConfiguration'' c1) (\<lambda>c2.
     bindR (loadPart decode arg ''KubeProxyConfiguration'' c2) (\<lambda>c3.
     bindR (loadPart decode arg ''KubeletConfiguration'' c3) (\<lambda>c4.
     loadPart decode arg ''JoinConfiguration'' c4))))"

definition LoadFromClusterfile :: "KubeadmConfig \<Rightarrow> KubeadmConfig \<Rightarrow> KubeadmConfig" where
  "LoadFromClusterfile k kubeadmConfig =
     mergo_Merge (k\<lparr>kc_CertSANs := RemoveDuplicate (kc_CertSANs k @ kc_CertSANs kubeadmConfig)\<rparr>) kubeadmConfig"

definition kc_Merge :: "decoder \<Rightarrow> KubeadmConfig \<Rightarrow> string \<Rightarrow> KubeadmConfig res" where
  "kc_Merge decode k arg = (case LoadKubeadmConfigs decode arg of
       Inl err \<Rightarrow> Inl (Wrapf ''failed to found kubeadm config from %s: %v'' [arg] err)
     | Inr newConfig \<Rightarrow> Inr (mergo_Merge (k\<lparr>kc_CertSANs := RemoveDuplicate (kc_CertSANs k @ kc_CertSANs newConfig)\<rparr>) newConfig))"

definition setAPIVersion :: "KubeadmConfig \<Rightarrow> string \<Rightarrow> KubeadmConfig" where
  "setAPIVersion k apiVersion = k\<lparr>kc_InitAPIVersion := apiVersion, kc_ClusterAPIVersion := apiVersion,
     kc_JoinAPIVersion := apiVersion\<rparr>"

text \<open>A version that cannot be compared counts as not greater; the error is only logged.\<close>

definition setKubeadmAPIVersion :: "KubeadmConfig \<Rightarrow> KubeadmConfig" where
  "setKubeadmAPIVersion k =
     (let gt1150 = (case GreaterThan (kc_KubernetesVersion k) ''v1.15.0'' of Inr b \<Rightarrow> b | Inl _ \<Rightarrow> False);
          gt1230 = (case GreaterThan (kc_KubernetesVersion k) ''v1.23.0'' of Inr b \<Rightarrow> b | Inl _ \<Rightarrow> False)
      in if gt1150 \<and> \<not> gt1230 then setAPIVersion k ''kubeadm.k8s.io/v1beta2''
         else if gt1230 then setAPIVersion k ''kubeadm.k8s.io/v1beta3''
         else setAPIVersion k ''kubeadm.k8s.io/v1beta1'')"

definition GetCertSANS :: "KubeadmConfig \<Rightarrow> string list" where "GetCertSANS k = kc_CertSANs k"
definition GetDNSDomain :: "KubeadmConfig \<Rightarrow> string" where "GetDNSDomain k = kc_DNSDomain k"
definition GetSvcCIDR :: "KubeadmConfig \<Rightarrow> string" where "GetSvcCIDR k = kc_ServiceSubnet k"

definition getEtcdEndpointsWithHTTPSPrefix :: "net_ip list \<Rightarrow> string" where
  "getEtcdEndpointsWithHTTPSPrefix masters =
     strings_Join (map (\<lambda>ip. fmt_Sprintf ''https://%s'' [net_JoinHostPort (ip_String ip) ''2379'']) masters) '',''"

text \<open>\<^verbatim>\<open>masters[0]\<close> panics on an empty list.\<close>

definition withClusterSettings :: "KubeadmConfig \<Rightarrow> net_ip list \<Rightarrow> net_ip \<Rightarrow> string \<Rightarrow> string \<Rightarrow> net_ip \<Rightarrow> string list \<Rightarrow> KubeadmConfig" where
  "withClusterSettings conf masters master0 apiServerDomain cgroupDriver apiServerVIP extraSANs =
     conf\<lparr>kc_InitAdvertiseAddress := ip_String master0,
       kc_ControlPlaneEndpoint := net_JoinHostPort apiServerDomain ''6443'',
       kc_ExtraArgs := env_put ''etcd-servers'' (getEtcdEndpointsWithHTTPSPrefix masters) (kc_ExtraArgs conf),
       kc_ExcludeCIDRs := kc_ExcludeCIDRs conf @ [ip_String apiServerVIP @ ''/32''],
       kc_CgroupDriver := cgroupDriver,
       kc_CertSANs := [''127.0.0.1'', apiServerDomain, ip_String apiServerVIP] @ extraSANs @ map ip_String masters\<rparr>"

definition NewKubeadmConfig :: "decoder \<Rightarrow> decoder \<Rightarrow> string \<Rightarrow> KubeadmConfig \<Rightarrow> string \<Rightarrow> net_ip list \<Rightarrow> string
    \<Rightarrow> string \<Rightarrow> string \<Rightarrow> net_ip \<Rightarrow> string list \<Rightarrow> KubeadmConfig res" where
  "NewKubeadmConfig decodeFile decodeString defaultConfig fromClusterFile fromFile masters apiServerDomain
     cgroupDriver imageRepo apiServerVIP extraSANs =
     (let conf0 = LoadFromClusterfile emptyKubeadmConfig fromClusterFile in
      case masters of [] \<Rightarrow> Inl (Panic ''index out of range'') | master0 # _ \<Rightarrow>
        bindR (kc_Merge decodeFile
                (withClusterSettings conf0 masters master0 apiServerDomain cgroupDriver apiServerVIP extraSANs) fromFile) (\<lambda>conf1.
        bindR (kc_Merge decodeString conf1 defaultConfig) (\<lambda>conf2.
          let conf3 = setKubeadmAPIVersion conf2;
              conf4 = (if kc_DNSDomain conf3 = [] then conf3\<lparr>kc_DNSDomain := ''cluster.local''\<rparr> else conf3);
              conf5 = (if kc_BootstrapToken conf4 = None
                then conf4\<lparr>kc_BootstrapToken := Some \<lparr>bt_Token = [], bt_APIServerEndpoint = [], bt_CACertHashes = []\<rparr>\<rparr> else conf4);
              conf6 = (if kc_ImageRepository conf5 = [] then conf5\<lparr>kc_ImageRepository := imageRepo\<rparr> else conf5);
              conf7 = (if kc_DNSImageRepository conf6 = []
                then conf6\<lparr>kc_DNSImageRepository := fmt_Sprintf ''%s/%s'' [imageRepo, ''coredns'']\<rparr> else conf6)
          in Inr conf7)))"

section \<open>Version comparison\<close>

text \<open>
  The version comparison on versions of three parts: the major and the minor parts are
  compared as texts and the patch part is not looked at, so of two versions that agree in major
  and minor parts each counts as greater than the other.
\<close>

theorem version_comparison:
  assumes "splitVersion v = [a, b, c]" and "splitVersion v' = [a', b', c']"
  shows "GreaterThan v v' = Inr (a' < a \<or> a = a' \<and> b' \<le> b)"
  using assms by (auto simp: GreaterThan_def Let_def not_less)

theorem version_comparison_witness:
  "GreaterThan ''v1.19.1'' ''v1.19.2'' = Inr True \<and> GreaterThan ''v1.9.0'' ''v1.15.0'' = Inr True"
proof -
  have "splitVersion ''v1.19.1'' = [''1'', ''19'', ''1'']" "splitVersion ''v1.19.2'' = [''1'', ''19'', ''2'']"
    "splitVersion ''v1.9.0'' = [''1'', ''9'', ''0'']" "splitVersion ''v1.15.0'' = [''1'', ''15'', ''0'']"
    by code_simp+
  moreover have "''15'' \<le> ''9''" by code_simp
  ultimately show ?thesis using version_comparison by simp
qed

section \<open>The certificate names\<close>

lemma RemoveDuplicate_eq_Nil [simp]: "RemoveDuplicate xs = [] \<longleftrightarrow> xs = []"
  by (cases xs) (simp_all add: RemoveDuplicate_rec)

lemma kc_Merge_SANs:
  "kc_Merge decode k arg = Inr k' \<Longrightarrow> kc_CertSANs k \<noteq> [] \<Longrightarrow>
    \<exists>new. LoadKubeadmConfigs decode arg = Inr new \<and> kc_CertSANs k' = RemoveDuplicate (kc_CertSANs k @ kc_CertSANs new)"
  by (auto simp: kc_Merge_def mergo_Merge_def fill_def split: sum.splits)

lemma setKubeadmAPIVersion_SANs [simp]: "kc_CertSANs (setKubeadmAPIVersion k) = kc_CertSANs k"
  by (simp add: setKubeadmAPIVersion_def setAPIVersion_def Let_def)

text \<open>
  The names in the API server certificate: exactly the loopback address, the API server
  domain, the virtual address, the extra names, the masters and the names in the image's file and
  in the default configuration, each once. The names in the Clusterfile's own kubeadm
  configuration are not among the sources.
\<close>

theorem certificate_names:
  assumes "NewKubeadmConfig decodeFile decodeString defaultConfig fromClusterFile fromFile masters domain
      cgroup repo vip extra = Inr conf"
  shows "\<exists>fl dflt. LoadKubeadmConfigs decodeFile fromFile = Inr fl \<and> LoadKubeadmConfigs decodeString defaultConfig = Inr dflt
    \<and> set (GetCertSANS conf) = {''127.0.0.1'', domain, ip_String vip} \<union> set extra \<union> ip_String ` set masters
        \<union> set (kc_CertSANs fl) \<union> set (kc_CertSANs dflt)
    \<and> distinct (GetCertSANS conf)"
proof -
  obtain m0 ms where masters: "masters = m0 # ms"
    using assms by (cases masters) (auto simp: NewKubeadmConfig_def Let_def)
  let ?base = "withClusterSettings (LoadFromClusterfile emptyKubeadmConfig fromClusterFile) masters m0 domain cgroup vip extra"
  obtain c1 c2 where c1: "kc_Merge decodeFile ?base fromFile = Inr c1" and c2: "kc_Merge decodeString c1 defaultConfig = Inr c2"
    and conf: "kc_CertSANs conf = kc_CertSANs c2"
    using assms by (auto simp: NewKubeadmConfig_def masters Let_def bindR_Inr_iff)
  have base: "kc_CertSANs ?base = [''127.0.0.1'', domain, ip_String vip] @ extra @ map ip_String masters"
    by (simp add: withClusterSettings_def)
  from kc_Merge_SANs [OF c1] base obtain fl where fl: "LoadKubeadmConfigs decodeFile fromFile = Inr fl"
    "kc_CertSANs c1 = RemoveDuplicate (kc_CertSANs ?base @ kc_CertSANs fl)" by auto
  with kc_Merge_SANs [OF c2] base obtain dflt where dflt: "LoadKubeadmConfigs decodeString defaultConfig = Inr dflt"
    "kc_CertSANs c2 = RemoveDuplicate (kc_CertSANs c1 @ kc_CertSANs dflt)" by auto
  show ?thesis
    using fl dflt base conf by (auto simp: GetCertSANS_def set_RemoveDuplicate distinct_RemoveDuplicate)
qed

definition demoDecoder :: "string list \<Rightarrow> decoder" where
  "demoDecoder sans arg kind = (if kind = ''ClusterConfiguration'' then Inr (Some (\<lambda>c. c\<lparr>kc_CertSANs := sans\<rparr>)) else Inl io_EOF)"

theorem certificate_names_witness:
  "\<exists>conf. NewKubeadmConfig (demoDecoder [''a'']) (demoDecoder []) [] (emptyKubeadmConfig\<lparr>kc_CertSANs := [''lost'']\<rparr>) []
      [[10, 0, 0, 1]] ''d'' [] [] [10, 0, 0, 9] [] = Inr conf \<and> ''a'' \<in> set (GetCertSANS conf)"
proof -
  have "\<not> isl (NewKubeadmConfig (demoDecoder [''a'']) (demoDecoder []) [] (emptyKubeadmConfig\<lparr>kc_CertSANs := [''lost'']\<rparr>) []
      [[10, 0, 0, 1]] ''d'' [] [] [10, 0, 0, 9] [])"
    by (simp add: NewKubeadmConfig_def Let_def kc_Merge_def LoadKubeadmConfigs_def loadPart_def demoDecoder_def)
  then obtain conf where conf: "NewKubeadmConfig (demoDecoder [''a'']) (demoDecoder []) []
      (emptyKubeadmConfig\<lparr>kc_CertSANs := [''lost'']\<rparr>) [] [[10, 0, 0, 1]] ''d'' [] [] [10, 0, 0, 9] [] = Inr conf"
    by (metis sum.collapse(2))
  from certificate_names [OF this] show ?thesis
    using conf by (auto simp: LoadKubeadmConfigs_def loadPart_def demoDecoder_def emptyKubeadmConfig_def)
qed

end
