(* ===== verification/Kube_Runtime.thy ===== *)
theory Kube_Runtime
  imports Kubeadm_Config
begin

text \<open>
  Model of \<^verbatim>\<open>pkg/runtime/kubernetes\<close>: the kubeadm runtime, one implementation of the interface
  \<^verbatim>\<open>runtime.Installer\<close> (\<^verbatim>\<open>pkg/runtime/interface.go\<close>), here the record \<open>RuntimeInstaller\<close> with a
  locale for its contract. Certificates and kubeconfig files are generated on the local host by
  \<^verbatim>\<open>pkg/clustercert\<close>, whose calls are local actions. The encoders and decoders of configuration
  documents, the log level and whether sealer runs in a container are parameters.
\<close>

section \<open>The interface\<close>

record RuntimeInstaller =
  rt_Install :: "unit io"
  rt_GetCurrentRuntimeDriver :: "unit io"
  rt_Reset :: "unit io"
  rt_ScaleUp :: "net_ip list \<Rightarrow> net_ip list \<Rightarrow> unit io"
  rt_ScaleDown :: "net_ip list \<Rightarrow> net_ip list \<Rightarrow> unit io"

type_synonym newRuntime = "SSHInfraDriver \<Rightarrow> ContainerRuntimeInfo \<Rightarrow> string \<Rightarrow> RuntimeInstaller res"

definition emptyCRInfo :: ContainerRuntimeInfo where
  "emptyCRInfo = \<lparr>ci_Type = [], ci_CgroupDriver = [], ci_CRISocket = [], ci_CertsDir = [], ci_ConfigFilePath = []\<rparr>"

section \<open>State and parameters\<close>

record kubeExternals =
  kx_codecs :: codecs
  kx_decodeFile :: decoder
  kx_decodeString :: decoder
  kx_DefaultKubeadmConfig :: string
  kx_joinYaml :: "KubeadmConfig \<Rightarrow> string res"
  kx_allYaml :: "KubeadmConfig \<Rightarrow> string res"
  kx_inContainer :: bool
  kx_IsAlreadyExists :: "gerror \<Rightarrow> bool"
  kx_debug :: bool

record KubeRuntime =
  kr_infra :: SSHInfraDriver
  kr_Vlog :: int
  kr_VIP :: string
  kr_RegistryURL :: string
  kr_containerRuntimeInfo :: ContainerRuntimeInfo
  kr_KubeadmConfigFromClusterFile :: KubeadmConfig
  kr_APIServerDomain :: string

definition newKubeadmRuntime :: "kubeExternals \<Rightarrow> KubeadmConfig \<Rightarrow> SSHInfraDriver \<Rightarrow> ContainerRuntimeInfo \<Rightarrow> string \<Rightarrow> KubeRuntime" where
  "newKubeadmRuntime kx clusterFileKubeConfig infra containerRuntimeInfo registryURL =
     \<lparr>kr_infra = infra, kr_Vlog = (if kx_debug kx then 6 else 0), kr_VIP = GetRegistryVIP infra,
      kr_RegistryURL = registryURL, kr_containerRuntimeInfo = containerRuntimeInfo,
      kr_KubeadmConfigFromClusterFile = clusterFileKubeConfig, kr_APIServerDomain = ''apiserver.cluster.local''\<rparr>"

definition getPKIPath :: "KubeRuntime \<Rightarrow> string" where
  "getPKIPath k = filepath_Join [GetClusterRootfsPath (kr_infra k), ''pki'']"

definition getEtcdCertPath :: "KubeRuntime \<Rightarrow> string" where
  "getEtcdCertPath k = filepath_Join [getPKIPath k, ''etcd'']"

definition getStaticFileDir :: "KubeRuntime \<Rightarrow> string" where
  "getStaticFileDir k = filepath_Join [GetClusterRootfsPath (kr_infra k), ''statics'']"

definition getDefaultKubeadmConfig :: "KubeRuntime \<Rightarrow> string" where
  "getDefaultKubeadmConfig k = filepath_Join [GetClusterRootfsPath (kr_infra k), ''etc'', ''kubeadm.yml'']"

definition getAPIServerVIP :: "KubeRuntime \<Rightarrow> net_ip" where
  "getAPIServerVIP k = net_ParseIP (kr_VIP k)"

definition KubeadmFileYml :: string where "KubeadmFileYml = ''/etc/kubernetes/kubeadm.yaml''"
definition GetCustomizeCRISocket :: string where "GetCustomizeCRISocket = ''cat /etc/sealerio/cri/socket-path''"

section \<open>Commands\<close>

definition vlogToStr :: "int \<Rightarrow> string" where
  "vlogToStr vlog = '' -v '' @ itoa vlog"

datatype CommandType = InitMaster | JoinMaster | JoinNode

definition k8s_Command :: "kubeExternals \<Rightarrow> KubeRuntime \<Rightarrow> CommandType \<Rightarrow> string \<Rightarrow> string" where
  "k8s_Command kx k name nodeNameOverride =
     (let v0 = (case name of
            InitMaster \<Rightarrow> fmt_Sprintf ''kubeadm init --config=%s --upload-certs'' [KubeadmFileYml]
          | JoinMaster \<Rightarrow> fmt_Sprintf ''kubeadm join --config=%s'' [KubeadmFileYml]
          | JoinNode \<Rightarrow> fmt_Sprintf ''kubeadm join --config=%s'' [KubeadmFileYml]);
          v = (if nodeNameOverride \<noteq> [] then fmt_Sprintf ''%s --node-name %s'' [v0, nodeNameOverride] else v0) in
      if kx_inContainer kx then v @ vlogToStr (kr_Vlog k) @ '' --ignore-preflight-errors=all''
      else if name = InitMaster \<or> name = JoinMaster
      then v @ vlogToStr (kr_Vlog k) @ '' --ignore-preflight-errors=SystemVerification,Port-10250,DirAvailable--etc-kubernetes-manifests''
      else v @ vlogToStr (kr_Vlog k) @ '' --ignore-preflight-errors=Port-10250,DirAvailable--etc-kubernetes-manifests'')"

definition getNodeNameOverride :: "KubeRuntime \<Rightarrow> net_ip \<Rightarrow> string" where
  "getNodeNameOverride k ip = (if map_of (GetClusterEnv (kr_infra k)) ''UseIPasNodeName'' = Some ''true'' then ip_String ip else [])"

definition RemoteCertCmd :: "string list \<Rightarrow> net_ip \<Rightarrow> string \<Rightarrow> string \<Rightarrow> string \<Rightarrow> string" where
  "RemoteCertCmd altNames hostIP hostName serviceCIRD dnsDomain =
     ''seautil cert gen ''
     @ (if hostIP \<noteq> [] then fmt_Sprintf '' --node-ip %s'' [ip_String hostIP] else [])
     @ (if hostName \<noteq> [] then fmt_Sprintf '' --node-name %s'' [hostName] else [])
     @ (if serviceCIRD \<noteq> [] then fmt_Sprintf '' --service-cidr %s'' [serviceCIRD] else [])
     @ (if dnsDomain \<noteq> [] then fmt_Sprintf '' --dns-domain %s'' [dnsDomain] else [])
     @ concat (map (\<lambda>name. if name \<noteq> [] then fmt_Sprintf '' --alt-names %s'' [name] else []) (altNames @ [''apiserver.cluster.local'']))"

definition cont :: string where "cont = '' && '' @ backslash @ ''\<newline>''"

definition RemoteCleanK8sOnHost :: "string \<Rightarrow> string" where
  "RemoteCleanK8sOnHost vlog =
     ''systemctl restart docker kubelet; if which kubeadm > /dev/null 2>&1;then kubeadm reset -f '' @ vlog @ '';fi'' @ cont
     @ ''rm -rf /etc/kubernetes/'' @ cont
     @ ''rm -rf /etc/systemd/system/kubelet.service.d && rm -rf /etc/systemd/system/kubelet.service'' @ cont
     @ ''rm -rf /usr/bin/kubeadm && rm -rf /usr/bin/kubelet-pre-start.sh'' @ cont
     @ ''rm -rf /usr/bin/kubelet && rm -rf /usr/bin/kubectl'' @ cont
     @ ''rm -rf /var/lib/kubelet/* && rm -rf /etc/sysctl.d/k8s.conf'' @ cont
     @ ''rm -rf /etc/cni && rm -rf /opt/cni'' @ cont
     @ ''rm -rf /var/lib/etcd/* && rm -rf /var/etcd/* && rm -rf /root/.kube/config\<newline>''"

definition RemoteRemoveAPIServerEtcHost :: "string \<Rightarrow> string" where
  "RemoteRemoveAPIServerEtcHost domain = fmt_Sprintf ''echo \"$(sed \"/%s/d\" /etc/hosts)\" > /etc/hosts'' [domain]"

definition RemoteDelRoute :: "net_ip \<Rightarrow> net_ip \<Rightarrow> string" where
  "RemoteDelRoute host gateway = fmt_Sprintf
     ''if command -v seautil > /dev/null 2>&1; then seautil route del --host %s --gateway %s; fi'' [ip_String host, ip_String gateway]"

definition KubeDeleteNode :: "string \<Rightarrow> string" where
  "KubeDeleteNode name = fmt_Sprintf ''kubectl delete node %s'' [name]"

section \<open>The join command\<close>

definition elementAt1 :: "string list \<Rightarrow> string res" where
  "elementAt1 rest = (case rest of [] \<Rightarrow> Inl (Panic ''index out of range'') | x # _ \<Rightarrow> Inr x)"

definition cleanWord :: "string \<Rightarrow> string" where
  "cleanWord r = strings_TrimSpace (filter (\<lambda>c. c \<noteq> CHR 0x09 \<and> c \<noteq> CHR 0x0A \<and> c \<noteq> CHR 0x5C) r)"

fun decodeJoin_go :: "string list \<Rightarrow> BootstrapToken \<Rightarrow> string \<Rightarrow> (BootstrapToken \<times> string) res" where
  "decodeJoin_go [] token certKey = Inr (token, certKey)"
| "decodeJoin_go (r0 # rest) token certKey =
     (let r = cleanWord r0 in
      bindR (if strings_Contains r ''--token'' then bindR (elementAt1 rest) (\<lambda>x. Inr (token\<lparr>bt_Token := x\<rparr>)) else Inr token) (\<lambda>t1.
      bindR (if strings_Contains r ''--discovery-token-ca-cert-hash''
             then bindR (elementAt1 rest) (\<lambda>x. Inr (t1\<lparr>bt_CACertHashes := [x]\<rparr>)) else Inr t1) (\<lambda>t2.
      bindR (if strings_Contains r ''--certificate-key''
             then bindR (elementAt1 rest) (\<lambda>x. if length x < 64 then Inl (Panic ''slice bounds out of range'') else Inr (take 64 x))
             else Inr certKey) (\<lambda>key.
      decodeJoin_go rest t2 key))))"

definition emptyToken :: BootstrapToken where
  "emptyToken = \<lparr>bt_Token = [], bt_APIServerEndpoint = [], bt_CACertHashes = []\<rparr>"

definition decodeJoinCmd :: "string \<Rightarrow> (BootstrapToken \<times> string) res" where
  "decodeJoinCmd cmd = decodeJoin_go (strings_Split cmd '' '') emptyToken []"

definition decodeMaster0Output :: "string \<Rightarrow> (BootstrapToken \<times> string) res" where
  "decodeMaster0Output output =
     bindR (elementAt1 (tl (strings_Split output ''kubeadm join''))) (\<lambda>s1.
       decodeJoinCmd (hd (strings_Split s1 ''Please note'')))"


definition getJoinTokenHashAndKey :: "KubeRuntime \<Rightarrow> net_ip \<Rightarrow> (BootstrapToken \<times> string) io" where
  "getJoinTokenHashAndKey k master0 =
     bindE (drv_CmdToString (kr_infra k) master0 []
             (fmt_Sprintf ''kubeadm init phase upload-certs --upload-certs -v %d'' [itoa (kr_Vlog k)]) [CHR 0x0D, CHR 0x0A]) (\<lambda>output.
       let parts = strings_Split output ''Using certificate key:'' in
       if length parts \<noteq> 2 then throwE (Errorf ''failed to get certifacate key: %s'' [strings_Join parts '' ''])
       else (let key = strings_ReplaceAll (parts ! 1) [CHR 0x0D, CHR 0x0A] [];
                 certKey = strings_ReplaceAll key [CHR 0x0A] [] in
         bindE (mapErr (Wrapf ''failed to create kubeadm join token: %v'' [])
                 (drv_Cmd (kr_infra k) master0 [] (fmt_Sprintf ''kubeadm token create --print-join-command -v %d'' [itoa (kr_Vlog k)]))) (\<lambda>out.
           bindE (liftR (decodeMaster0Output out)) (\<lambda>(token, certKey2).
             returnE (token, if certKey = [] then certKey2 else certKey)))))"

section \<open>The client of the API server\<close>

text \<open>
  \<^verbatim>\<open>GetClientFromConfig\<close> polls, but its condition answers either done or an error, and an error
  ends the poll: there is one attempt.
\<close>

definition GetClientFromConfig :: "string \<Rightarrow> unit io" where
  "GetClientFromConfig adminConfPath =
     thenE (perform (LocalCall ''clientcmd.BuildConfigFromFlags'' [adminConfPath]))
     (thenE (perform (LocalCall ''runtimeClient.New'' [adminConfPath]))
            (perform (LocalCall ''client.Get'' [''default''])))"

definition NewKubeDriver :: "string \<Rightarrow> unit io" where
  "NewKubeDriver kubeConfig = mapErr (Wrapf ''failed to new k8s runtime client via adminconf: %v'' []) (GetClientFromConfig kubeConfig)"

definition AdminKubeConfPath :: string where "AdminKubeConfPath = ''/etc/kubernetes/admin.conf''"

definition kube_GetCurrentRuntimeDriver :: "unit io" where
  "kube_GetCurrentRuntimeDriver = NewKubeDriver AdminKubeConfPath"

definition nodeNameOf :: "net_ip \<Rightarrow> k8s_Node list \<Rightarrow> string option" where
  "nodeNameOf host nodes = map_option n_Name
     (find (\<lambda>n. \<exists>addr \<in> set (n_Addresses n). na_Type addr = ''InternalIP'' \<and> ip_String host = na_Address addr) nodes)"

definition getNodeNameByCmd :: "net_ip \<Rightarrow> string io" where
  "getNodeNameByCmd host = thenE kube_GetCurrentRuntimeDriver (bindE askNodes (\<lambda>nodes.
     case nodeNameOf host nodes of
       Some name \<Rightarrow> returnE name
     | None \<Rightarrow> throwE (Errorf ''failed to find node name for %s'' [ip_String host])))"

section \<open>Preparing hosts\<close>

definition kube_configureLvs :: "kubeExternals \<Rightarrow> KubeRuntime \<Rightarrow> net_ip list \<Rightarrow> net_ip list \<Rightarrow> unit io" where
  "kube_configureLvs kx k masterHosts clientHosts =
     (let lvsImageURL = filepath_Join [kr_RegistryURL k, ''sealerio/lvscare:v1.1.3-beta.8''];
          realEndpoints = map (\<lambda>m. net_JoinHostPort m ''6443'') (sort (IPsToIPStrs masterHosts));
          rs = map (\<lambda>rep. fmt_Sprintf ''--rs %s'' [rep]) realEndpoints;
          vs = net_JoinHostPort (ip_String (getAPIServerVIP k)) ''6443'';
          ipvsCmd = fmt_Sprintf ''seautil ipvs --vs %s %s --health-path /healthz --health-schem https --run-once''
            [vs, strings_Join rs '' ''] in
      bindE (liftR (LvsStaticPodYaml (kx_codecs kx) ''kube-lvscare'' vs realEndpoints lvsImageURL ''/healthz'' ''https'')) (\<lambda>y.
        let lvscareStaticCmd = GetCreateLvscareStaticPodCmd y ''kube-lvscare.yaml'' in
        errgroup clientHosts (\<lambda>node. mapErr (Wrapf ''failed to config ndoes lvs policy %s: %v'' [ipvsCmd])
          (drv_CmdAsync (kr_infra k) node []
            [ipvsCmd, lvscareStaticCmd, CommandSetHostAlias (kr_APIServerDomain k) (ip_String (getAPIServerVIP k))]))))"

text \<open>The customized socket of a host, when the host has one.\<close>

definition customCRISocket :: "KubeRuntime \<Rightarrow> net_ip \<Rightarrow> string option io" where
  "customCRISocket k host = bindE (tryE (drv_CmdToString (kr_infra k) host [] GetCustomizeCRISocket [])) (\<lambda>r.
     returnE (case r of Inr output \<Rightarrow> if output \<noteq> [] then Some output else None | Inl _ \<Rightarrow> None))"

definition setInitSocket :: "string option \<Rightarrow> KubeadmConfig \<Rightarrow> KubeadmConfig" where
  "setInitSocket s conf = (case s of None \<Rightarrow> conf | Some v \<Rightarrow> conf\<lparr>kc_InitCRISocket := v\<rparr>)"

definition setJoinSocket :: "string option \<Rightarrow> KubeadmConfig \<Rightarrow> KubeadmConfig" where
  "setJoinSocket s conf = (case s of None \<Rightarrow> conf | Some v \<Rightarrow> conf\<lparr>kc_JoinCRISocket := v\<rparr>)"

definition initKubeadmConfig :: "kubeExternals \<Rightarrow> KubeRuntime \<Rightarrow> net_ip list \<Rightarrow> KubeadmConfig io" where
  "initKubeadmConfig kx k masters =
     (let extraSANsStr = (case map_of (GetClusterEnv (kr_infra k)) ''CertSANs'' of None \<Rightarrow> [] | Some v \<Rightarrow> v);
          extraSANs = (if extraSANsStr \<noteq> [] then strings_Split extraSANsStr '','' else []);
          localTmpFile = ''/tmp/kubeadm.yaml'' in
      bindE (liftR (NewKubeadmConfig (kx_decodeFile kx) (kx_decodeString kx) (kx_DefaultKubeadmConfig kx)
               (kr_KubeadmConfigFromClusterFile k) (getDefaultKubeadmConfig k) masters (kr_APIServerDomain k)
               (ci_CgroupDriver (kr_containerRuntimeInfo k)) (kr_RegistryURL k) (getAPIServerVIP k) extraSANs)) (\<lambda>conf0.
      bindE (firstE masters) (\<lambda>master0.
      bindE (customCRISocket k master0) (\<lambda>s.
      let conf = setInitSocket s conf0 in
      bindE (liftR (kx_allYaml kx conf)) (\<lambda>bs.
      thenE (os_WriteFile localTmpFile bs)
      (thenE (drv_Copy (kr_infra k) master0 localTmpFile KubeadmFileYml)
      (thenE (drv_Copy (kr_infra k) master0 localTmpFile (filepath_Join [GetClusterRootfsPath (kr_infra k), ''kubeadm.yaml'']))
      (thenE (perform (LocalCall ''os.Remove'' [localTmpFile]))
             (returnE conf)))))))))"

definition generateCert :: "KubeRuntime \<Rightarrow> KubeadmConfig \<Rightarrow> net_ip \<Rightarrow> unit io" where
  "generateCert k kubeadmConf master0 = bindE (GetHostName (kr_infra k) master0) (\<lambda>hostName.
     perform (LocalCall ''clustercert.GenerateAllKubernetesCerts''
       ([getPKIPath k, getEtcdCertPath k, hostName, GetSvcCIDR kubeadmConf, GetDNSDomain kubeadmConf, ip_String master0]
         @ GetCertSANS kubeadmConf)))"

definition createKubeConfig :: "KubeRuntime \<Rightarrow> net_ip \<Rightarrow> unit io" where
  "createKubeConfig k master0 = bindE (GetHostName (kr_infra k) master0) (\<lambda>hostName0.
     let nno = getNodeNameOverride k master0;
         hostName = (if nno \<noteq> [] then nno else hostName0);
         controlPlaneEndpoint = fmt_Sprintf ''https://%s'' [net_JoinHostPort (kr_APIServerDomain k) ''6443''] in
     perform (LocalCall ''clustercert.CreateJoinControlPlaneKubeConfigFiles''
       [GetClusterRootfsPath (kr_infra k), getPKIPath k, ''ca'', hostName, controlPlaneEndpoint, ''kubernetes'']))"

definition MasterStaticFiles :: "(string \<times> string) list" where
  "MasterStaticFiles = [(''/etc/kubernetes'', ''audit-policy.yml'')]"

definition copyStaticFiles :: "KubeRuntime \<Rightarrow> net_ip list \<Rightarrow> unit io" where
  "copyStaticFiles k nodes = forE MasterStaticFiles (\<lambda>(destinationDir, name).
     let cmdLinkStatic = fmt_Sprintf ''mkdir -p %s && cp -f %s %s''
           [destinationDir, filepath_Join [getStaticFileDir k, name], filepath_Join [destinationDir, name]] in
     errgroup nodes (\<lambda>h. mapErr (Wrapf ''[%s] failed to link static file: %s'' [ip_String h])
       (drv_CmdAsync (kr_infra k) h [] [cmdLinkStatic])))"

definition initKube :: "KubeRuntime \<Rightarrow> net_ip list \<Rightarrow> unit io" where
  "initKube k hosts =
     (let initKubeletCmd = fmt_Sprintf ''cd %s && export RegistryURL=%s && bash %s''
            [filepath_Join [GetClusterRootfsPath (kr_infra k), ''scripts''], kr_RegistryURL k, ''init-kube.sh''] in
      errgroup hosts (\<lambda>host. mapErr (Wrapf ''failed to init Kubelet Service on (%s): %s'' [ip_String host])
        (drv_CmdAsync (kr_infra k) host [] [initKubeletCmd])))"

definition sendClusterCert :: "KubeRuntime \<Rightarrow> net_ip list \<Rightarrow> unit io" where
  "sendClusterCert k hosts = Execute hosts (\<lambda>host.
     thenE (mapErr (Wrapf ''failed to copy cluster cert: %v'' []) (drv_Copy (kr_infra k) host (getPKIPath k) ''/etc/kubernetes/pki''))
           (mapErr (Wrapf ''failed to copy cluster cert: %v'' []) (drv_Copy (kr_infra k) host (getPKIPath k) (getPKIPath k))))"

definition sendKubeadmFile :: "KubeRuntime \<Rightarrow> net_ip list \<Rightarrow> unit io" where
  "sendKubeadmFile k hosts =
     (let f = filepath_Join [GetClusterRootfsPath (kr_infra k), ''kubeadm.yaml''] in
      Execute hosts (\<lambda>host. mapErr (Wrapf ''failed to copy kubeadm file: %v'' []) (drv_Copy (kr_infra k) host f f)))"

definition sendKubeConfigFilesToMaster :: "KubeRuntime \<Rightarrow> net_ip list \<Rightarrow> string list \<Rightarrow> unit io" where
  "sendKubeConfigFilesToMaster k masters files = forE files (\<lambda>kubeFile.
     let src = filepath_Join [GetClusterRootfsPath (kr_infra k), kubeFile];
         dest = filepath_Join [''/etc/kubernetes'', kubeFile] in
     Execute masters (\<lambda>host.
       thenE (mapErr (Wrapf ''failed to copy cluster kubeconfig file : %v'' []) (drv_Copy (kr_infra k) host src dest))
             (mapErr (Wrapf ''failed to copy cluster kubeconfig file : %v'' []) (drv_Copy (kr_infra k) host src src))))"

definition copyAdminConfCmd :: string where
  "copyAdminConfCmd = ''rm -rf .kube/config && mkdir -p /root/.kube && cp /etc/kubernetes/admin.conf /root/.kube/config''"

section \<open>Joining hosts\<close>

definition initMaster0 :: "kubeExternals \<Rightarrow> KubeRuntime \<Rightarrow> net_ip \<Rightarrow> (BootstrapToken \<times> string) io" where
  "initMaster0 kx k master0 =
     thenE (initKube k [master0])
     (thenE (sendClusterCert k [master0])
     (thenE (sendKubeConfigFilesToMaster k [master0] [''admin.conf'', ''controller-manager.conf'', ''scheduler.conf'', ''kubelet.conf''])
     (thenE (mapErr (Wrapf ''failed to config cluster hosts file cmd: %v'' [])
              (drv_CmdAsync (kr_infra k) master0 [] [CommandSetHostAlias (kr_APIServerDomain k) (ip_String master0)]))
     (bindE (tryE (drv_Cmd (kr_infra k) master0 [] (k8s_Command kx k InitMaster (getNodeNameOverride k master0)))) (\<lambda>r.
       case r of
         Inl err \<Rightarrow> bindE (tryE (perform (LocalCall ''StdOut.WriteString'' []))) (\<lambda>wr. case wr of
             Inl _ \<Rightarrow> throwE err
           | Inr _ \<Rightarrow> throwE (Wrapf ''failed to init master0: %s. Please clean and reinstall'' [] err))
       | Inr output \<Rightarrow> thenE (drv_CmdAsync (kr_infra k) master0 [] [copyAdminConfCmd])
           (liftR (decodeMaster0Output output)))))))"

text \<open>
  The configuration of the masters that join: it is changed in place, host after host. The
  control-plane part is behind a pointer that must not be nil.
\<close>

definition masterJoinConfig :: "string \<Rightarrow> net_ip \<Rightarrow> BootstrapToken \<Rightarrow> string \<Rightarrow> KubeadmConfig \<Rightarrow> KubeadmConfig io" where
  "masterJoinConfig vs m token certKey conf = bindE (deref (kc_ControlPlane conf)) (\<lambda>cp.
     returnE (conf\<lparr>kc_BootstrapToken := Some (token\<lparr>bt_APIServerEndpoint := vs\<rparr>),
       kc_ControlPlane := Some (cp\<lparr>jc_AdvertiseAddress := ip_String m, jc_BindPort := 6443, jc_CertificateKey := certKey\<rparr>)\<rparr>))"

fun joinMasters_go :: "kubeExternals \<Rightarrow> KubeRuntime \<Rightarrow> net_ip \<Rightarrow> BootstrapToken \<Rightarrow> string \<Rightarrow> net_ip list \<Rightarrow> KubeadmConfig \<Rightarrow> unit io" where
  "joinMasters_go kx k master0 token certKey [] conf = returnE ()"
| "joinMasters_go kx k master0 token certKey (m # ms) conf0 =
     (let joinCmd = k8s_Command kx k JoinMaster (getNodeNameOverride k m);
          vs = net_JoinHostPort (ip_String master0) ''6443'' in
      bindE (GetHostName (kr_infra k) m) (\<lambda>hostname.
      bindE (customCRISocket k m) (\<lambda>s.
      bindE (masterJoinConfig vs m token certKey (setJoinSocket s conf0)) (\<lambda>conf.
      bindE (liftR (kx_joinYaml kx conf)) (\<lambda>str.
      let cmd = fmt_Sprintf ''mkdir -p /etc/kubernetes && echo \"%s\" > %s'' [str, KubeadmFileYml];
          certCMD = RemoteCertCmd (GetCertSANS conf) m hostname (GetSvcCIDR conf) [] in
      thenE (mapErr (Wrapf ''failed to set join kubeadm config on host(%s) with cmd(%s): %v'' [ip_String m, cmd])
              (drv_CmdAsync (kr_infra k) m [] [cmd]))
      (thenE (mapErr (Wrapf ''failed to config cluster hosts file cmd: %v'' [])
              (drv_CmdAsync (kr_infra k) m [] [CommandSetHostAlias (kr_APIServerDomain k) (ip_String master0)]))
      (thenE (mapErr (Wrapf ''failed to exec command(%s) on master(%s): %v'' [certCMD, ip_String m])
              (drv_CmdAsync (kr_infra k) m [] [certCMD]))
      (thenE (mapErr (Wrapf ''failed to exec command(%s) on master(%s): %v'' [joinCmd, ip_String m])
              (drv_CmdAsync (kr_infra k) m [] [joinCmd]))
      (thenE (mapErr (Wrapf ''failed to config cluster hosts file cmd: %v'' [])
              (drv_CmdAsync (kr_infra k) m [] [CommandSetHostAlias (kr_APIServerDomain k) (ip_String m)]))
      (thenE (drv_CmdAsync (kr_infra k) m [] [copyAdminConfCmd])
      (thenE (drv_CmdAsync (kr_infra k) m []
               [''mv /etc/kubernetes/manifests/kube-scheduler.yaml /tmp/ && mv /tmp/kube-scheduler.yaml /etc/kubernetes/manifests/''])
      (thenE (drv_CmdAsync (kr_infra k) m []
               [''mv /etc/kubernetes/manifests/kube-controller-manager.yaml /tmp/ && mv /tmp/kube-controller-manager.yaml /etc/kubernetes/manifests/''])
        (joinMasters_go kx k master0 token certKey ms conf)))))))))))))"

definition joinMasters :: "kubeExternals \<Rightarrow> KubeRuntime \<Rightarrow> net_ip list \<Rightarrow> net_ip \<Rightarrow> KubeadmConfig \<Rightarrow> BootstrapToken \<Rightarrow> string \<Rightarrow> unit io" where
  "joinMasters kx k newMasters master0 kubeadmConfig token certKey =
     (if length newMasters = 0 then returnE ()
      else thenE (initKube k newMasters)
        (thenE (copyStaticFiles k newMasters)
        (thenE (sendKubeConfigFilesToMaster k newMasters [''admin.conf'', ''controller-manager.conf'', ''scheduler.conf''])
        (thenE (sendKubeadmFile k newMasters)
        (thenE (sendClusterCert k newMasters)
               (joinMasters_go kx k master0 token certKey newMasters kubeadmConfig))))))"

definition RemoteCheckRoute :: "net_ip \<Rightarrow> string" where
  "RemoteCheckRoute host = fmt_Sprintf ''seautil route check --host %s'' [ip_String host]"

definition RemoteAddRoute :: "net_ip \<Rightarrow> net_ip \<Rightarrow> string" where
  "RemoteAddRoute host gateway = fmt_Sprintf ''seautil route add --host %s --gateway %s'' [ip_String host, ip_String gateway]"

definition checkMultiNetworkAddVIPRoute :: "KubeRuntime \<Rightarrow> net_ip \<Rightarrow> unit io" where
  "checkMultiNetworkAddVIPRoute k node = bindE (drv_CmdToString (kr_infra k) node [] (RemoteCheckRoute node) []) (\<lambda>result.
     if result = ''ok'' then returnE ()
     else bindE (drv_Cmd (kr_infra k) node [] (RemoteAddRoute (getAPIServerVIP k) node)) (\<lambda>_. returnE ()))"

definition joinNodes :: "kubeExternals \<Rightarrow> KubeRuntime \<Rightarrow> net_ip list \<Rightarrow> net_ip list \<Rightarrow> KubeadmConfig \<Rightarrow> BootstrapToken \<Rightarrow> unit io" where
  "joinNodes kx k newNodes masters kubeadmConfig token =
     (if length newNodes = 0 then returnE ()
      else thenE (initKube k newNodes)
        (let conf = kubeadmConfig\<lparr>kc_BootstrapToken :=
               Some (token\<lparr>bt_APIServerEndpoint := net_JoinHostPort (ip_String (getAPIServerVIP k)) ''6443''\<rparr>),
               kc_ControlPlane := None\<rparr> in
         thenE (mapErr (Wrapf ''failed to configure lvs rule for apiserver: %v'' []) (kube_configureLvs kx k masters newNodes))
           (errgroup newNodes (\<lambda>node.
              let joinNodeCmd = k8s_Command kx k JoinNode (getNodeNameOverride k node) in
              bindE (customCRISocket k node) (\<lambda>s.
              bindE (liftR (kx_joinYaml kx (setJoinSocket s conf))) (\<lambda>joinConfig.
              let writeJoinConfigCmd = fmt_Sprintf ''mkdir -p /etc/kubernetes && echo \"%s\" > %s'' [joinConfig, KubeadmFileYml] in
              thenE (mapErr (Wrapf ''failed to check multi network: %v'' []) (checkMultiNetworkAddVIPRoute k node))
              (thenE (mapErr (Wrapf ''failed to set join kubeadm config on host(%s) with cmd(%s): %v'' [ip_String node, writeJoinConfigCmd])
                       (drv_CmdAsync (kr_infra k) node [] [writeJoinConfigCmd]))
                     (mapErr (Wrapf ''failed to join node %s: %v'' [ip_String node])
                       (drv_CmdAsync (kr_infra k) node [] [joinNodeCmd])))))))))"

section \<open>Removing hosts\<close>

definition RemoteCleanCustomizeCRISocket :: string where
  "RemoteCleanCustomizeCRISocket = ''rm -f /etc/sealerio/cri/socket-path''"

definition deleteVIPRouteIfExist :: "KubeRuntime \<Rightarrow> net_ip \<Rightarrow> unit io" where
  "deleteVIPRouteIfExist k node = bindE (drv_Cmd (kr_infra k) node [] (RemoteDelRoute (getAPIServerVIP k) node)) (\<lambda>_. returnE ())"

definition kube_reset :: "KubeRuntime \<Rightarrow> net_ip list \<Rightarrow> net_ip list \<Rightarrow> unit io" where
  "kube_reset k mastersToDelete workersToDelete =
     (let all = mastersToDelete @ workersToDelete;
          remoteCleanCmd = [RemoteCleanK8sOnHost (vlogToStr (kr_Vlog k)), RemoteRemoveAPIServerEtcHost (kr_APIServerDomain k)] in
      thenE (errgroup all (\<lambda>n. drv_CmdAsync (kr_infra k) n [] remoteCleanCmd))
        (forE workersToDelete (\<lambda>node. mapErr (Wrapf ''failed to delete vip route %s: %v'' [ip_String node]) (deleteVIPRouteIfExist k node))))"

text \<open>
  Removal of a host from the cluster: the clean-up on the host is attempted, a host that is no
  node of the cluster is skipped, and the node object is deleted on the first remaining master.
\<close>

definition deleteFromCluster :: "KubeRuntime \<Rightarrow> string \<Rightarrow> net_ip \<Rightarrow> net_ip option \<Rightarrow> string list \<Rightarrow> unit io" where
  "deleteFromCluster k what host remainMaster0 remoteCleanCmd =
     bindE (tryE (drv_CmdAsync (kr_infra k) host [] remoteCleanCmd)) (\<lambda>_.
       case remainMaster0 of
         None \<Rightarrow> returnE ()
       | Some master0 \<Rightarrow> bindE (tryE (getNodeNameByCmd host)) (\<lambda>r. case r of
             Inl _ \<Rightarrow> returnE ()
           | Inr hostname \<Rightarrow> mapErr (Wrapf what [hostname])
               (drv_CmdAsync (kr_infra k) master0 [] [KubeDeleteNode (strings_TrimSpace hostname)])))"

definition deleteMaster :: "KubeRuntime \<Rightarrow> net_ip \<Rightarrow> net_ip option \<Rightarrow> unit io" where
  "deleteMaster k master remainMaster0 = deleteFromCluster k ''failed to delete master %s: %v'' master remainMaster0
     [RemoteCleanK8sOnHost (vlogToStr (kr_Vlog k)), RemoteRemoveAPIServerEtcHost (kr_APIServerDomain k), RemoteCleanCustomizeCRISocket]"

definition deleteNode :: "KubeRuntime \<Rightarrow> net_ip \<Rightarrow> net_ip option \<Rightarrow> unit io" where
  "deleteNode k node remainMaster0 = deleteFromCluster k ''failed to delete node %s: %v'' node remainMaster0
     [RemoteCleanK8sOnHost (vlogToStr (kr_Vlog k)), RemoteRemoveAPIServerEtcHost (kr_APIServerDomain k), RemoteCleanCustomizeCRISocket,
      RemoteDelRoute (getAPIServerVIP k) node]"

definition first_opt :: "'a list \<Rightarrow> 'a option" where
  "first_opt xs = (case xs of [] \<Rightarrow> None | x # _ \<Rightarrow> Some x)"

definition deleteMasters :: "KubeRuntime \<Rightarrow> net_ip list \<Rightarrow> net_ip list \<Rightarrow> unit io" where
  "deleteMasters k mastersToDelete remainMasters = errgroup mastersToDelete (\<lambda>master.
     mapErr (Wrapf ''failed to delete master %s: %v'' [ip_String master]) (deleteMaster k master (first_opt remainMasters)))"

definition deleteNodes :: "KubeRuntime \<Rightarrow> net_ip list \<Rightarrow> net_ip list \<Rightarrow> unit io" where
  "deleteNodes k nodesToDelete remainMasters = errgroup nodesToDelete (\<lambda>n.
     mapErr (Wrapf ''failed to delete node %s: %v'' [ip_String n]) (deleteNode k n (first_opt remainMasters)))"

section \<open>The operations of the runtime\<close>

definition dumpKubeConfigIntoCluster :: "kubeExternals \<Rightarrow> net_ip \<Rightarrow> unit io" where
  "dumpKubeConfigIntoCluster kx master0 =
     bindE (askText (LocalCall ''os.ReadFile'' [AdminKubeConfPath])) (\<lambda>content0.
       let content = strings_ReplaceAll content0 ''apiserver.cluster.local'' (ip_String master0);
           dat = [(''admin.conf'', content)] in
       bindE (tryE (perform (CreateSecret ''kube-system'' ''admin.conf'' dat))) (\<lambda>r. case r of
           Inr _ \<Rightarrow> returnE ()
         | Inl err \<Rightarrow> if \<not> kx_IsAlreadyExists kx err then throwE (Wrapf ''unable to create secret: %v'' [] err)
             else mapErr (Wrapf ''unable to update secret: %v'' []) (perform (UpdateSecret ''kube-system'' ''admin.conf'' dat))))"

definition kube_Install :: "kubeExternals \<Rightarrow> KubeRuntime \<Rightarrow> unit io" where
  "kube_Install kx k =
     (let masters = GetHostIPListByRole (kr_infra k) MASTER; workers = GetHostIPListByRole (kr_infra k) NODE in
      bindE (initKubeadmConfig kx k masters) (\<lambda>kubeadmConf.
      bindE (firstE masters) (\<lambda>master0.
      thenE (generateCert k kubeadmConf master0)
      (thenE (createKubeConfig k master0)
      (thenE (copyStaticFiles k (take 1 masters))
      (bindE (initMaster0 kx k master0) (\<lambda>(token, certKey).
      thenE (joinMasters kx k (drop 1 masters) master0 kubeadmConf token certKey)
      (thenE (joinNodes kx k workers masters kubeadmConf token)
      (thenE kube_GetCurrentRuntimeDriver
             (dumpKubeConfigIntoCluster kx master0))))))))))"

definition kube_Reset :: "KubeRuntime \<Rightarrow> unit io" where
  "kube_Reset k = kube_reset k (GetHostIPListByRole (kr_infra k) MASTER) (GetHostIPListByRole (kr_infra k) NODE)"

definition kube_ScaleUp :: "kubeExternals \<Rightarrow> KubeRuntime \<Rightarrow> net_ip list \<Rightarrow> net_ip list \<Rightarrow> unit io" where
  "kube_ScaleUp kx k newMasters newWorkers =
     (let masters = GetHostIPListByRole (kr_infra k) MASTER; workers = GetHostIPListByRole (kr_infra k) NODE in
      bindE (liftR (LoadKubeadmConfigs (kx_decodeFile kx) (filepath_Join [GetClusterRootfsPath (kr_infra k), ''kubeadm.yaml'']))) (\<lambda>kubeadmConfig.
      bindE (firstE masters) (\<lambda>master0.
      bindE (getJoinTokenHashAndKey k master0) (\<lambda>(token, certKey).
      thenE (joinMasters kx k newMasters master0 kubeadmConfig token certKey)
      (thenE (whenE (length newMasters > 0) (kube_configureLvs kx k masters (RemoveIPs workers newWorkers)))
             (joinNodes kx k newWorkers masters kubeadmConfig token))))))"

definition allMastersErr :: gerror where
  "allMastersErr = Errorf ''cleaning up all masters is illegal, unless you give the --all flag, which will delete the entire cluster'' []"

definition kube_ScaleDown :: "kubeExternals \<Rightarrow> KubeRuntime \<Rightarrow> net_ip list \<Rightarrow> net_ip list \<Rightarrow> unit io" where
  "kube_ScaleDown kx k mastersToDelete workersToDelete =
     (let masters = GetHostIPListByRole (kr_infra k) MASTER; workers = GetHostIPListByRole (kr_infra k) NODE;
          remainMasters = RemoveIPs masters mastersToDelete in
      if length remainMasters = 0 then throwE allMastersErr
      else thenE (whenE (length workersToDelete > 0) (deleteNodes k workersToDelete remainMasters))
        (whenE (length mastersToDelete > 0)
          (thenE (deleteMasters k mastersToDelete remainMasters)
                 (kube_configureLvs kx k remainMasters (RemoveIPs workers workersToDelete)))))"

definition kubeAsInstaller :: "kubeExternals \<Rightarrow> KubeRuntime \<Rightarrow> RuntimeInstaller" where
  "kubeAsInstaller kx k = \<lparr>rt_Install = kube_Install kx k, rt_GetCurrentRuntimeDriver = kube_GetCurrentRuntimeDriver,
     rt_Reset = kube_Reset k, rt_ScaleUp = kube_ScaleUp kx k, rt_ScaleDown = kube_ScaleDown kx k\<rparr>"

definition NewKubeadmRuntime :: "kubeExternals \<Rightarrow> KubeadmConfig \<Rightarrow> newRuntime" where
  "NewKubeadmRuntime kx clusterFileKubeConfig infra containerRuntimeInfo registryURL =
     Inr (kubeAsInstaller kx (newKubeadmRuntime kx clusterFileKubeConfig infra containerRuntimeInfo registryURL))"

section \<open>The contract of a runtime\<close>

text \<open>Every operation of a runtime reaches hosts of the cluster only.\<close>

locale runtime_contract =
  fixes rt :: RuntimeInstaller and d :: SSHInfraDriver
  assumes install_in_cluster: "obeys (in_cluster d) (rt_Install rt)"
    and driver_in_cluster: "obeys (in_cluster d) (rt_GetCurrentRuntimeDriver rt)"
    and reset_in_cluster: "obeys (in_cluster d) (rt_Reset rt)"
    and scaleUp_in_cluster: "obeys (in_cluster d) (rt_ScaleUp rt newMasters newWorkers)"
    and scaleDown_in_cluster: "obeys (in_cluster d) (rt_ScaleDown rt mastersToDelete workersToDelete)"

lemma api_actions [simp]:
  "in_cluster d ListNodes" "in_cluster d (PatchNode a b)" "in_cluster d (UpdateNode a)"
  "in_cluster d (CreateConfigMap ns n e)" "in_cluster d (UpdateConfigMap ns n e)"
  "in_cluster d (CreateSecret ns n e)" "in_cluster d (UpdateSecret ns n e)"
  by (simp_all add: in_cluster_def)

lemma obeys_GetHostName [intro!]: "obeys (in_cluster d) (GetHostName d host)"
  unfolding GetHostName_def by auto

lemma obeys_kube_client [intro!]:
  "obeys (in_cluster d) kube_GetCurrentRuntimeDriver" "obeys (in_cluster d) (getNodeNameByCmd host)"
  unfolding getNodeNameByCmd_def kube_GetCurrentRuntimeDriver_def NewKubeDriver_def GetClientFromConfig_def
  by auto

lemma obeys_kube_prepare [intro!]:
  "obeys (in_cluster (kr_infra k)) (customCRISocket k host)"
  "obeys (in_cluster (kr_infra k)) (kube_configureLvs kx k ms cs)"
  "obeys (in_cluster (kr_infra k)) (generateCert k conf host)"
  "obeys (in_cluster (kr_infra k)) (createKubeConfig k host)"
  "obeys (in_cluster (kr_infra k)) (copyStaticFiles k hosts)"
  "obeys (in_cluster (kr_infra k)) (initKube k hosts)"
  "obeys (in_cluster (kr_infra k)) (sendClusterCert k hosts)"
  "obeys (in_cluster (kr_infra k)) (sendKubeadmFile k hosts)"
  "obeys (in_cluster (kr_infra k)) (sendKubeConfigFilesToMaster k hosts files)"
  "obeys (in_cluster (kr_infra k)) (getJoinTokenHashAndKey k host)"
  "obeys (in_cluster (kr_infra k)) (masterJoinConfig vs m token certKey conf)"
  "obeys (in_cluster (kr_infra k)) (checkMultiNetworkAddVIPRoute k host)"
  "obeys (in_cluster (kr_infra k)) (deleteVIPRouteIfExist k host)"
  unfolding customCRISocket_def kube_configureLvs_def generateCert_def createKubeConfig_def copyStaticFiles_def
    initKube_def sendClusterCert_def sendKubeadmFile_def sendKubeConfigFilesToMaster_def getJoinTokenHashAndKey_def
    masterJoinConfig_def checkMultiNetworkAddVIPRoute_def deleteVIPRouteIfExist_def Let_def
  by auto

lemma obeys_initKubeadmConfig [intro!]: "obeys (in_cluster (kr_infra k)) (initKubeadmConfig kx k masters)"
  unfolding initKubeadmConfig_def Let_def by auto

lemma obeys_initMaster0 [intro!]: "obeys (in_cluster (kr_infra k)) (initMaster0 kx k master0)"
  unfolding initMaster0_def by auto

lemma obeys_joinMasters_go [intro!]: "obeys (in_cluster (kr_infra k)) (joinMasters_go kx k master0 token certKey ms conf)"
  by (induction ms arbitrary: conf) (auto simp: Let_def simp del: fmt_Sprintf.simps)

declare joinMasters_go.simps [simp del]

lemma obeys_kube_join [intro!]:
  "obeys (in_cluster (kr_infra k)) (joinMasters kx k ms master0 conf token certKey)"
  "obeys (in_cluster (kr_infra k)) (joinNodes kx k ns ms conf token)"
  unfolding joinMasters_def joinNodes_def Let_def by auto

lemma obeys_kube_remove [intro!]:
  "obeys (in_cluster (kr_infra k)) (deleteFromCluster k what host rm cmds)"
  "obeys (in_cluster (kr_infra k)) (kube_reset k ms ns)"
  unfolding deleteFromCluster_def kube_reset_def Let_def by auto

lemma obeys_kube_delete [intro!]:
  "obeys (in_cluster (kr_infra k)) (deleteMasters k ms rs)"
  "obeys (in_cluster (kr_infra k)) (deleteNodes k ns rs)"
  unfolding deleteMasters_def deleteNodes_def deleteMaster_def deleteNode_def by auto

lemma obeys_dumpKubeConfig [intro!]: "obeys (in_cluster d) (dumpKubeConfigIntoCluster kx master0)"
  unfolding dumpKubeConfigIntoCluster_def Let_def by auto

interpretation kubeadm: runtime_contract "kubeAsInstaller kx k" "kr_infra k" for kx k
proof unfold_locales
  show "obeys (in_cluster (kr_infra k)) (rt_Install (kubeAsInstaller kx k))"
    by (auto simp: kubeAsInstaller_def kube_Install_def Let_def)
  show "obeys (in_cluster (kr_infra k)) (rt_GetCurrentRuntimeDriver (kubeAsInstaller kx k))"
    by (auto simp: kubeAsInstaller_def)
  show "obeys (in_cluster (kr_infra k)) (rt_Reset (kubeAsInstaller kx k))"
    by (auto simp: kubeAsInstaller_def kube_Reset_def)
  fix ms ns
  show "obeys (in_cluster (kr_infra k)) (rt_ScaleUp (kubeAsInstaller kx k) ms ns)"
    by (auto simp: kubeAsInstaller_def kube_ScaleUp_def Let_def)
  show "obeys (in_cluster (kr_infra k)) (rt_ScaleDown (kubeAsInstaller kx k) ms ns)"
    by (auto simp: kubeAsInstaller_def kube_ScaleDown_def Let_def)
qed

end
