(* ===== verification/Cluster_Cmd.thy ===== *)
theory Cluster_Cmd
  imports Cluster_Types
begin

text \<open>
  Model of \<^verbatim>\<open>cmd/sealer/cmd/utils\<close>: validation of the address arguments
  (\<^verbatim>\<open>validate.go\<close>), hosts from address lists (\<^verbatim>\<open>hosts.go\<close>), construction and editing of the
  cluster object for run, merge, scale-up and scale-down (\<^verbatim>\<open>cluster.go\<close>), and of the
  application object (\<^verbatim>\<open>application.go\<close>); the flag structs are those of
  \<^verbatim>\<open>cmd/sealer/cmd/types/types.go\<close>.

  Functions that edit the caller's cluster through a pointer return the edited cluster next to
  their result, also when the result is an error. Ranges may diverge, see \<open>Ip_Utils\<close>.
\<close>

section \<open>Validation of address arguments\<close>

definition ValidateIPStr :: "string \<Rightarrow> unit res" where
  "ValidateIPStr inputStr =
     (if length inputStr = 0 then Inl (Errorf ''input IP info cannot be empty'' [])
      else if strings_Contains inputStr ''-'' then
        (let ips = strings_Split inputStr ''-'' in
         if length ips \<noteq> 2 then
           Inl (Errorf ''input IP(%s) is range format but invalid, IP range format must be xxx.xxx.xxx.1-xxx.xxx.xxx.70'' [inputStr])
         else if net_ParseIP (ips ! 0) = [] then Inl (Errorf ''input IP(%s) is invalid'' [ips ! 0])
         else if net_ParseIP (ips ! 1) = [] then Inl (Errorf ''input IP(%s) is invalid'' [ips ! 1])
         else if 0 \<le> CompareIP (ips ! 0) (ips ! 1) then
           Inl (Errorf ''input IP(%s) must be less than input IP(%s)'' [ips ! 0, ips ! 1])
         else Inr ())
      else (case find (\<lambda>ip. net_ParseIP ip = []) (strings_Split inputStr '','') of
          Some ip \<Rightarrow> Inl (Errorf ''input IP(%s) is invalid'' [ip])
        | None \<Rightarrow> Inr ()))"

text \<open>The messages of the two checks, joined; no message means no error.\<close>

definition errOf :: "unit res \<Rightarrow> gerror list" where
  "errOf r = (case r of Inl e \<Rightarrow> [e] | Inr _ \<Rightarrow> [])"

definition joinErrs :: "gerror list \<Rightarrow> unit res" where
  "joinErrs errs = (if length errs = 0 then Inr () else Inl (Errorf (strings_Join (map err_Error errs) '','') []))"

definition ValidateRunHosts :: "string \<Rightarrow> string \<Rightarrow> unit res" where
  "ValidateRunHosts runMasters runNodes =
     joinErrs ((if length runMasters \<noteq> 0 then errOf (ValidateIPStr runMasters) else [])
             @ (if length runNodes \<noteq> 0 then errOf (ValidateIPStr runNodes) else []))"

definition ValidateScaleIPStr :: "string \<Rightarrow> string \<Rightarrow> unit res" where
  "ValidateScaleIPStr masters nodes =
     (if nodes = [] \<and> masters = [] then Inl (Errorf ''master and node cannot both be empty'' [])
      else joinErrs ((if length masters \<noteq> 0 then errOf (ValidateIPStr masters) else [])
                   @ (if length nodes \<noteq> 0 then errOf (ValidateIPStr nodes) else [])))"

definition ParseToNetIPList :: "string \<Rightarrow> string \<Rightarrow> (net_ip list \<times> net_ip list) res option" where
  "ParseToNetIPList masters workers =
     bindD (TransferToIPList masters) (\<lambda>newMasters.
     bindD (TransferToIPList workers) (\<lambda>newNodes.
       Some (Inr (IPStrsToIPs (strings_Split newMasters '',''), IPStrsToIPs (strings_Split newNodes '','')))))"

section \<open>Hosts and flags\<close>

definition TransferIPToHosts :: "net_ip list \<Rightarrow> net_ip list \<Rightarrow> SSH \<Rightarrow> Host list" where
  "TransferIPToHosts masterIPList nodeIPList sshAuthOnHosts =
     (if length masterIPList \<noteq> 0
      then [emptyHost\<lparr>h_Roles := [MASTER], h_IPS := masterIPList, h_SSH := sshAuthOnHosts\<rparr>] else [])
     @ (if length nodeIPList \<noteq> 0
        then [emptyHost\<lparr>h_Roles := [NODE], h_IPS := nodeIPList, h_SSH := sshAuthOnHosts\<rparr>] else [])"

text \<open>The flags the commands share, and those of each command that builds a cluster.\<close>

record HostFlags =
  f_Masters :: string
  f_Nodes :: string
  f_User :: string
  f_Password :: string
  f_Port :: "16 word"
  f_Pk :: string
  f_PkPassword :: string
  f_CustomEnv :: "string list"

record ScaleUpFlags = HostFlags +
  su_IgnoreCache :: bool

record MergeFlags = HostFlags +
  f_Cmds :: "string list"
  f_AppNames :: "string list option"

record RunFlags = MergeFlags +
  f_Mode :: string
  f_ClusterFile :: string
  f_IgnoreCache :: bool
  f_Distributor :: string

definition sshOfFlags :: "('a) HostFlags_scheme \<Rightarrow> SSH" where
  "sshOfFlags f = emptySSH\<lparr>s_User := f_User f, s_Passwd := f_Password f,
     s_PkPasswd := f_PkPassword f, s_Pk := f_Pk f, s_Port := itoa (uint (f_Port f))\<rparr>"

section \<open>Building and editing the cluster\<close>

text \<open>The image's environment is a Go map: the association list is its iteration order.\<close>

definition MergeClusterWithImageExtension :: "Cluster \<Rightarrow> env \<Rightarrow> Cluster" where
  "MergeClusterWithImageExtension cluster imageEnv =
     (if length imageEnv > 0
      then cluster\<lparr>Spec := (Spec cluster)\<lparr>c_Env := ConvertToSlice imageEnv @ c_Env (Spec cluster)\<rparr>\<rparr>
      else cluster)"

definition MergeClusterWithFlags :: "Cluster \<Rightarrow> ('a) MergeFlags_scheme \<Rightarrow> Cluster res option" where
  "MergeClusterWithFlags cluster0 mergeFlags =
     (let s0 = Spec cluster0;
          s1 = (if length (f_CustomEnv mergeFlags) > 0
                then s0\<lparr>c_Env := c_Env s0 @ f_CustomEnv mergeFlags\<rparr> else s0);
          s2 = (if length (f_Cmds mergeFlags) > 0 then s1\<lparr>c_CMD := f_Cmds mergeFlags\<rparr> else s1);
          s3 = (if length (nil_if_absent (f_AppNames mergeFlags)) > 0 then s2\<lparr>c_APPNames := f_AppNames mergeFlags\<rparr> else s2);
          cluster = cluster0\<lparr>Spec := s3\<rparr>
      in if length (f_Masters mergeFlags) = 0 \<and> length (f_Nodes mergeFlags) = 0 then Some (Inr cluster)
         else (case ParseToNetIPList (f_Masters mergeFlags) (f_Nodes mergeFlags) of
             None \<Rightarrow> None
           | Some (Inl err) \<Rightarrow> Some (Inl (Wrapf ''failed to parse ip string to net IP list: %v'' [] err))
           | Some (Inr (flagMasters, flagNodes)) \<Rightarrow>
               (case find (\<lambda>ip. IsInIPList ip (GetMasterIPList cluster)) flagMasters of
                  Some ip \<Rightarrow> Some (Inl (Errorf ''failed to merge master ip form flags, duplicated ip is: %s'' [ip_String ip]))
                | None \<Rightarrow>
                    (case find (\<lambda>ip. IsInIPList ip (GetNodeIPList cluster)) flagNodes of
                       Some ip \<Rightarrow> Some (Inl (Errorf ''failed to merge node ip form flags, duplicated ip is: %s'' [ip_String ip]))
                     | None \<Rightarrow> Some (Inr (set_Hosts (c_Hosts (Spec cluster)
                          @ TransferIPToHosts flagMasters flagNodes (sshOfFlags mergeFlags)) cluster))))))"

definition ConstructClusterForRun :: "string \<Rightarrow> RunFlags \<Rightarrow> Cluster res option" where
  "ConstructClusterForRun imageName runFlags =
     (case ParseToNetIPList (f_Masters runFlags) (f_Nodes runFlags) of
        None \<Rightarrow> None
      | Some (Inl err) \<Rightarrow> Some (Inl (Wrapf ''failed to parse ip string to net IP list: %v'' [] err))
      | Some (Inr (masterIPList, nodeIPList)) \<Rightarrow>
          Some (Inr (emptyCluster\<lparr>
            Spec := emptyClusterSpec\<lparr>c_SSH := sshOfFlags runFlags, c_Image := imageName,
              c_Hosts := TransferIPToHosts masterIPList nodeIPList emptySSH,
              c_Env := f_CustomEnv runFlags, c_CMD := f_Cmds runFlags, c_APPNames := f_AppNames runFlags\<rparr>,
            APIVersion := ''sealer.io/v2'', Kind := ''Cluster'', Name := ''my-cluster''\<rparr>)))"

definition constructHost :: "string \<Rightarrow> net_ip list \<Rightarrow> ScaleUpFlags \<Rightarrow> SSH \<Rightarrow> Host" where
  "constructHost role joinIPs scaleFlags clusterSSH =
     (let host = emptyHost\<lparr>h_IPS := joinIPs, h_Roles := [role], h_Env := f_CustomEnv scaleFlags\<rparr>
      in if sshOfFlags scaleFlags = clusterSSH then host
         else host\<lparr>h_SSH := sshOfFlags scaleFlags\<rparr>)"

definition ConstructClusterForScaleUp ::
  "Cluster \<Rightarrow> ScaleUpFlags \<Rightarrow> net_ip list \<Rightarrow> net_ip list \<Rightarrow> net_ip list
    \<Rightarrow> Cluster \<times> (net_ip list \<times> net_ip list) res" where
  "ConstructClusterForScaleUp cluster scaleFlags currentNodes joinMasters joinWorkers =
     (let mj = fst (Diff currentNodes joinMasters);
          nj = fst (Diff currentNodes joinWorkers)
      in if length mj = 0 \<and> length nj = 0 then
           (cluster, Inl (Errorf ''scale ip %v is already in the current cluster %v''
              [strings_Join (IPsToIPStrs (joinMasters @ joinWorkers)) '' '', strings_Join (IPsToIPStrs currentNodes) '' '']))
         else (let nodes = GetAllIPList cluster in
           case find (\<lambda>ip. IsInIPList ip nodes) mj of
             Some ip \<Rightarrow> (cluster, Inl (Errorf ''failed to scale master for duplicated ip: %s'' [ip_String ip]))
           | None \<Rightarrow>
               (let c1 = (if length mj \<noteq> 0
                      then set_Hosts (c_Hosts (Spec cluster) @ [constructHost MASTER mj scaleFlags (c_SSH (Spec cluster))]) cluster
                      else cluster) in
                case find (\<lambda>ip. IsInIPList ip nodes) nj of
                  Some ip \<Rightarrow> (c1, Inl (Errorf ''failed to scale node for duplicated ip: %s'' [ip_String ip]))
                | None \<Rightarrow>
                    (let c2 = (if length nj \<noteq> 0
                           then set_Hosts (c_Hosts (Spec c1) @ [constructHost NODE nj scaleFlags (c_SSH (Spec c1))]) c1
                           else c1)
                     in (c2, Inr (mj, nj))))))"

definition removeRoleIPs :: "string \<Rightarrow> net_ip list \<Rightarrow> Host list \<Rightarrow> Host list" where
  "removeRoleIPs role del hosts =
     map (\<lambda>h. if IsInSlice role (h_Roles h) then h\<lparr>h_IPS := RemoveIPs (h_IPS h) del\<rparr> else h) hosts"

definition ConstructClusterForScaleDown :: "Cluster \<Rightarrow> net_ip list \<Rightarrow> net_ip list \<Rightarrow> Cluster" where
  "ConstructClusterForScaleDown cluster mastersToDelete workersToDelete =
     (let h0 = c_Hosts (Spec cluster);
          h1 = (if length mastersToDelete \<noteq> 0 then removeRoleIPs MASTER mastersToDelete h0 else h0);
          h2 = (if length workersToDelete \<noteq> 0 then removeRoleIPs NODE workersToDelete h1 else h1)
      in set_Hosts (filter (\<lambda>h. length (h_IPS h) \<noteq> 0) h2) cluster)"

section \<open>The running cluster\<close>

definition getNodeAddress :: "k8s_Node \<Rightarrow> net_ip" where
  "getNodeAddress node = (if length (n_Addresses node) < 1 then []
     else net_ParseIP (case find (\<lambda>a. na_Type a = ''InternalIP'') (n_Addresses node) of
         None \<Rightarrow> [] | Some a \<Rightarrow> na_Address a))"

fun sortNodes :: "k8s_Node list \<Rightarrow> net_ip list \<Rightarrow> net_ip list \<Rightarrow> (net_ip list \<times> net_ip list) res" where
  "sortNodes [] masterIPList nodeIPList = Inr (masterIPList, nodeIPList)"
| "sortNodes (node # nodes) masterIPList nodeIPList =
     (let addr = getNodeAddress node in
      if addr = [] then Inl (Errorf ''failed to get node address for node %s'' [n_Name node])
      else if map_of (labels_of node) MasterRoleLabel \<noteq> None
      then sortNodes nodes (masterIPList @ [addr]) nodeIPList
      else sortNodes nodes masterIPList (nodeIPList @ [addr]))"

definition GetCurrentCluster :: "k8s_Node list res \<Rightarrow> Cluster res" where
  "GetCurrentCluster listNodes = bindR listNodes (\<lambda>nodes.
     bindR (sortNodes nodes [] []) (\<lambda>(masterIPList, nodeIPList).
       Inr (set_Hosts [emptyHost\<lparr>h_IPS := masterIPList, h_Roles := [MASTER]\<rparr>,
                       emptyHost\<lparr>h_IPS := nodeIPList, h_Roles := [NODE]\<rparr>] emptyCluster)))"

section \<open>Applications\<close>

record AppFile =
  af_Path :: string
  af_Strategy :: string
  af_Data :: string

text \<open>\<open>ac_Launch\<close> is \<open>None\<close> for a nil pointer and \<open>Some None\<close> for a launch section whose command list is nil.\<close>

record ApplicationConfig =
  ac_Name :: string
  ac_Env :: "string list"
  ac_Files :: "AppFile list"
  ac_Launch :: "string list option option"

record Application =
  app_Name :: string
  app_Kind :: string
  app_APIVersion :: string
  app_Cmds :: "string list"
  app_LaunchApps :: "string list option"
  app_Configs :: "ApplicationConfig list"

definition newApplication :: Application where
  "newApplication = \<lparr>app_Name = ''my-application'', app_Kind = ''sealer.io/v2'',
     app_APIVersion = ''Application'', app_Cmds = [], app_LaunchApps = None, app_Configs = []\<rparr>"

text \<open>
  The loop over the configurations assigns \<^verbatim>\<open>append(globalEnvs, appConfig.Env...)\<close> to each. While the
  array behind \<^verbatim>\<open>globalEnvs\<close> has room for the variables of a configuration they are written there, so
  all such configurations share one array: \<open>spare\<close> is the room behind \<^verbatim>\<open>globalEnvs\<close> and \<open>sharedEnv\<close> its
  content after the loop.
\<close>

definition sharedEnv :: "nat \<Rightarrow> ApplicationConfig list \<Rightarrow> string list" where
  "sharedEnv spare cfgs = fold (\<lambda>cfg a. if length (ac_Env cfg) \<le> spare
     then ac_Env cfg @ drop (length (ac_Env cfg)) a else a) cfgs (replicate spare [])"

definition configWithEnvs :: "nat \<Rightarrow> ApplicationConfig list \<Rightarrow> string list \<Rightarrow> ApplicationConfig \<Rightarrow> ApplicationConfig" where
  "configWithEnvs spare cfgs globalEnvs cfg = cfg\<lparr>ac_Env := globalEnvs @
     (if length (ac_Env cfg) \<le> spare then take (length (ac_Env cfg)) (sharedEnv spare cfgs) else ac_Env cfg)\<rparr>"

text \<open>\<open>appNames\<close> is \<open>None\<close> for a nil slice, which leaves the applications to launch as they are.\<close>

definition ConstructApplication ::
  "nat \<Rightarrow> Application option \<Rightarrow> string list \<Rightarrow> string list option \<Rightarrow> string list \<Rightarrow> Application" where
  "ConstructApplication spare app cmds appNames globalEnvs =
     (let a0 = (case app of Some a \<Rightarrow> a | None \<Rightarrow> newApplication);
          a1 = (if length cmds > 0 then a0\<lparr>app_Cmds := cmds\<rparr> else a0);
          a2 = (case appNames of Some ns \<Rightarrow> a1\<lparr>app_LaunchApps := Some ns\<rparr> | None \<Rightarrow> a1)
      in if length globalEnvs > 0
         then a2\<lparr>app_Configs := map (configWithEnvs spare (app_Configs a2) globalEnvs) (app_Configs a2)\<rparr>
         else a2)"

section \<open>Lemmas on validation and parsing\<close>

lemma find_None_all: "find P xs = None \<longleftrightarrow> (\<forall>x \<in> set xs. \<not> P x)"
  by (auto simp: find_None_iff)

lemma IPStrsToIPs_valid:
  "\<forall>s \<in> set ss. net_ParseIP s \<noteq> [] \<Longrightarrow> IPStrsToIPs ss = map net_ParseIP ss"
proof -
  assume v: "\<forall>s \<in> set ss. net_ParseIP s \<noteq> []"
  have "net_ParseIP [] = []" by (simp add: net_ParseIP_def)
  with v have "filter (\<lambda>s. s \<noteq> []) ss = ss" by (auto simp: filter_id_conv)
  then show ?thesis by (simp add: IPStrsToIPs_def)
qed

text \<open>A validated argument that does not diverge expands to parseable addresses.\<close>

lemma validated_expansion:
  assumes val: "ValidateIPStr s = Inr ()" and ret: "TransferToIPList s = Some r"
  shows "\<exists>t. r = Inr t \<and> (\<forall>ip \<in> set (strings_Split t '',''). net_ParseIP ip \<noteq> [])"
proof (cases "strings_Contains s ''-''")
  case False
  with val have "\<forall>ip \<in> set (strings_Split s '',''). net_ParseIP ip \<noteq> []"
    by (auto simp: ValidateIPStr_def find_None_all split: if_splits option.splits)
  moreover have "r = Inr s" using ret False by (simp add: TransferToIPList_def)
  ultimately show ?thesis by blast
next
  case True
  let ?ips = "strings_Split s ''-''"
  have ips: "length ?ips = 2" "net_ParseIP (?ips ! 0) \<noteq> []" "net_ParseIP (?ips ! 1) \<noteq> []"
    "\<not> 0 \<le> CompareIP (?ips ! 0) (?ips ! 1)"
    using val True by (auto simp: ValidateIPStr_def Let_def split: if_splits)
  then have le: "ip_val (?ips ! 0) < ip_val (?ips ! 1)"
    by (simp add: CompareIP_def IPToInt_Some split: if_splits)
  have range: "\<forall>ip \<in> set (ip_range (?ips ! 0) (?ips ! 1)). net_ParseIP ip \<noteq> []"
    if "\<not> (ip_val (?ips ! 0) + 1 < 2 ^ 24 \<or> ip_val (?ips ! 1) = 2 ^ 32 - 1)"
  proof
    fix ip assume "ip \<in> set (ip_range (?ips ! 0) (?ips ! 1))"
    then consider "ip = ?ips ! 0" | n where "ip = dotted (big_Bytes n)" "ip_val (?ips ! 0) < n" "n \<le> ip_val (?ips ! 1)"
      by (auto simp: ip_range_def split: if_splits)
    then show "net_ParseIP ip \<noteq> []"
    proof cases
      case 2
      then have "length (big_Bytes n) = 4"
        using that ip_val_bound [of "?ips ! 1"] by (intro length_Bytes_4) linarith+
      with 2 show ?thesis by (simp add: ParseIP_dotted4)
    qed (use ips in simp)
  qed
  have r: "r = Inr (strings_Join (ip_range (?ips ! 0) (?ips ! 1)) '','')"
    and ok: "\<not> (ip_val (?ips ! 0) + 1 < 2 ^ 24 \<or> ip_val (?ips ! 1) = 2 ^ 32 - 1)"
    using ret True ips le
    by (auto simp: TransferToIPList_def Let_def ip_range_loop_cases ip_range_def split: if_splits)
  have "ip_range (?ips ! 0) (?ips ! 1) \<noteq> []" using le by (simp add: ip_range_def)
  then have "strings_Split (strings_Join (ip_range (?ips ! 0) (?ips ! 1)) '','') '','' = ip_range (?ips ! 0) (?ips ! 1)"
    using range [OF ok] by (intro strings_Split_Join) (auto dest: ParseIP_no_comma)
  with r range [OF ok] show ?thesis by simp
qed

section \<open>Lemmas on the host lists\<close>

lemma TransferIPToHosts_roles:
  "concat (map (ipsOfHostByRole MASTER) (TransferIPToHosts ms ns ssh)) = ms"
  "concat (map (ipsOfHostByRole NODE) (TransferIPToHosts ms ns ssh)) = ns"
  by (auto simp: TransferIPToHosts_def)

lemma constructHost_simps [simp]:
  "h_IPS (constructHost role ips f ssh) = ips" "h_Roles (constructHost role ips f ssh) = [role]"
  by (simp_all add: constructHost_def Let_def)

lemma scaleUp_cases:
  assumes "ConstructClusterForScaleUp c fl cur jm jw = (c', Inr (mj, nj))"
  shows "mj = fst (Diff cur jm)" and "nj = fst (Diff cur jw)" and "mj \<noteq> [] \<or> nj \<noteq> []"
    and "\<forall>ip \<in> set mj \<union> set nj. \<not> IsInIPList ip (GetAllIPList c)"
    and "c' = set_Hosts (c_Hosts (Spec c)
         @ (if mj = [] then [] else [constructHost MASTER mj fl (c_SSH (Spec c))])
         @ (if nj = [] then [] else [constructHost NODE nj fl (c_SSH (Spec c))])) c"
  using assms
  by (auto simp: ConstructClusterForScaleUp_def Let_def find_None_all split: if_splits option.splits)

lemma GetIPSByRole_append_hosts:
  "GetIPSByRole (set_Hosts (c_Hosts (Spec c) @ hs) c) role
    = GetIPSByRole c role @ concat (map (ipsOfHostByRole role) hs)"
  by (simp add: GetIPSByRole_def)

lemma RemoveIPs_disjoint: "\<forall>d \<in> set del. \<not> IsInIPList d ips \<Longrightarrow> RemoveIPs ips del = ips"
  by (auto simp: RemoveIPs_def filter_id_conv IsInIPList_iff ip_Equal_sym [of _ "_ :: net_ip"])
     (metis ip_Equal_sym)

lemma RemoveIPs_self [simp]: "RemoveIPs ips ips = []"
  by (auto simp: RemoveIPs_def filter_empty_conv)

lemma ipsOfHost_removeRole:
  "concat (map (ipsOfHostByRole role) (removeRoleIPs role del hs))
    = RemoveIPs (concat (map (ipsOfHostByRole role) hs)) del"
proof (induction hs)
  case (Cons h hs)
  show ?case
  proof (cases "role \<in> set (h_Roles h)")
    case True
    with Cons show ?thesis
      by (simp add: removeRoleIPs_def RemoveIPs_def ipsOfHostByRole_filter)
  next
    case False
    with Cons show ?thesis by (simp add: removeRoleIPs_def ipsOfHostByRole_not_role)
  qed
qed (simp add: removeRoleIPs_def)

lemma ipsOfHost_removeOther:
  "\<forall>h \<in> set hs. role \<notin> set (h_Roles h) \<or> other \<notin> set (h_Roles h) \<Longrightarrow>
    concat (map (ipsOfHostByRole role) (removeRoleIPs other del hs))
      = concat (map (ipsOfHostByRole role) hs)"
proof (induction hs)
  case (Cons h hs)
  then show ?case by (auto simp: removeRoleIPs_def ipsOfHostByRole_not_role)
qed (simp add: removeRoleIPs_def)

lemma ipsOfHost_drop_empty:
  "concat (map (ipsOfHostByRole role) (filter (\<lambda>h. length (h_IPS h) \<noteq> 0) hs))
    = concat (map (ipsOfHostByRole role) hs)"
  by (induction hs) auto

lemma roles_removeRoleIPs: "h \<in> set (removeRoleIPs r del hs) \<Longrightarrow> \<exists>h' \<in> set hs. h_Roles h = h_Roles h'"
  by (auto simp: removeRoleIPs_def split: if_splits)

lemma removeRoleIPs_simps:
  "removeRoleIPs r del [] = []"
  "removeRoleIPs r del (h # hs) =
     (if r \<in> set (h_Roles h) then h\<lparr>h_IPS := RemoveIPs (h_IPS h) del\<rparr> else h) # removeRoleIPs r del hs"
  "removeRoleIPs r del (xs @ ys) = removeRoleIPs r del xs @ removeRoleIPs r del ys"
  by (simp_all add: removeRoleIPs_def)

lemma removeRoleIPs_disjoint:
  "\<forall>h \<in> set hs. role \<in> set (h_Roles h) \<longrightarrow> RemoveIPs (h_IPS h) del = h_IPS h \<Longrightarrow> removeRoleIPs role del hs = hs"
  by (induction hs) (auto simp: removeRoleIPs_def)

section \<open>Properties\<close>

text \<open>
  Arguments that pass \<^verbatim>\<open>ValidateIPStr\<close> parse without an error: whenever
  \<^verbatim>\<open>ParseToNetIPList\<close> returns, it returns two non-empty lists none of whose elements is the nil
  address.
\<close>

theorem validated_arguments_parse:
  assumes "ValidateIPStr ms = Inr ()" and "ValidateIPStr ns = Inr ()" and "ParseToNetIPList ms ns = Some r"
  shows "\<exists>mips nips. r = Inr (mips, nips) \<and> mips \<noteq> [] \<and> nips \<noteq> [] \<and> [] \<notin> set mips \<and> [] \<notin> set nips"
proof -
  obtain rm where rm: "TransferToIPList ms = Some rm"
    using assms(3) by (cases "TransferToIPList ms") (auto simp: ParseToNetIPList_def)
  from validated_expansion [OF assms(1) rm] obtain tm where tm: "rm = Inr tm"
    and vm: "\<forall>ip \<in> set (strings_Split tm '',''). net_ParseIP ip \<noteq> []" by blast
  obtain rn where rn: "TransferToIPList ns = Some rn"
    using assms(3) rm tm by (cases "TransferToIPList ns") (auto simp: ParseToNetIPList_def)
  from validated_expansion [OF assms(2) rn] obtain tn where tn: "rn = Inr tn"
    and vn: "\<forall>ip \<in> set (strings_Split tn '',''). net_ParseIP ip \<noteq> []" by blast
  have "r = Inr (map net_ParseIP (strings_Split tm '',''), map net_ParseIP (strings_Split tn '',''))"
    using assms(3) rm rn tm tn by (simp add: ParseToNetIPList_def IPStrsToIPs_valid vm vn)
  with vm vn show ?thesis by (auto simp: image_iff)
qed

theorem validated_arguments_parse_witness:
  "\<exists>mips nips. ParseToNetIPList ''10.0.0.1,10.0.0.2'' ''10.0.0.3'' = Some (Inr (mips, nips))
     \<and> mips \<noteq> [] \<and> nips \<noteq> [] \<and> [] \<notin> set mips \<and> [] \<notin> set nips"
proof -
  have v: "ValidateIPStr ''10.0.0.1,10.0.0.2'' = Inr ()" "ValidateIPStr ''10.0.0.3'' = Inr ()"
    by code_simp+
  have "TransferToIPList ''10.0.0.1,10.0.0.2'' = Some (Inr ''10.0.0.1,10.0.0.2'')"
    "TransferToIPList ''10.0.0.3'' = Some (Inr ''10.0.0.3'')"
    by (simp_all add: TransferToIPList_def)
  then obtain r where "ParseToNetIPList ''10.0.0.1,10.0.0.2'' ''10.0.0.3'' = Some r"
    by (simp add: ParseToNetIPList_def)
  with validated_arguments_parse [OF v this] show ?thesis by auto
qed

text \<open>
  A range that passes validation can nevertheless make \<^verbatim>\<open>ParseToNetIPList\<close> run for ever:
  validation does not exclude the ranges on which the expansion diverges.
\<close>

theorem validated_range_diverges:
  "ValidateIPStr ''0.0.0.1-0.0.0.5'' = Inr () \<and> ParseToNetIPList ''0.0.0.1-0.0.0.5'' [] = None"
proof -
  have v: "ValidateIPStr ''0.0.0.1-0.0.0.5'' = Inr ()" by code_simp
  have "CompareIP ''0.0.0.1'' ''0.0.0.5'' \<le> 0" "IPToInt ''0.0.0.1'' = Some 1"
    "net_ParseIP ''0.0.0.1'' \<noteq> []" "net_ParseIP ''0.0.0.5'' \<noteq> []"
    by code_simp+
  then have "TransferToIPList (''0.0.0.1'' @ ''-'' @ ''0.0.0.5'') = None"
    by (subst TransferToIPList_cases) (simp_all add: CompareIP_le ip_val_def)
  with v show ?thesis by (simp add: ParseToNetIPList_def)
qed



text \<open>
  Scaling down removes from the master list exactly the masters to delete and from the node
  list exactly the workers to delete, when no host has both roles; it leaves no host without an
  address.
\<close>

theorem scale_down_removes_hosts:
  assumes "\<forall>h \<in> set (c_Hosts (Spec c)). MASTER \<notin> set (h_Roles h) \<or> NODE \<notin> set (h_Roles h)"
  shows "GetMasterIPList (ConstructClusterForScaleDown c md wd) = RemoveIPs (GetMasterIPList c) md
    \<and> GetNodeIPList (ConstructClusterForScaleDown c md wd) = RemoveIPs (GetNodeIPList c) wd
    \<and> (\<forall>h \<in> set (c_Hosts (Spec (ConstructClusterForScaleDown c md wd))). h_IPS h \<noteq> [])"
proof (intro conjI)
  have two: "\<forall>h \<in> set (removeRoleIPs r d (c_Hosts (Spec c))).
      MASTER \<notin> set (h_Roles h) \<or> NODE \<notin> set (h_Roles h)" for r d
    using assms by (fastforce dest: roles_removeRoleIPs)
  show "GetMasterIPList (ConstructClusterForScaleDown c md wd) = RemoveIPs (GetMasterIPList c) md"
    using assms two
    by (auto simp: ConstructClusterForScaleDown_def Let_def accessors ipsOfHost_drop_empty [simplified]
        ipsOfHost_removeRole ipsOfHost_removeOther)
  show "GetNodeIPList (ConstructClusterForScaleDown c md wd) = RemoveIPs (GetNodeIPList c) wd"
    using assms
    by (auto simp: ConstructClusterForScaleDown_def Let_def accessors ipsOfHost_drop_empty [simplified]
        ipsOfHost_removeRole ipsOfHost_removeOther disj_commute)
  show "\<forall>h \<in> set (c_Hosts (Spec (ConstructClusterForScaleDown c md wd))). h_IPS h \<noteq> []"
    by (auto simp: ConstructClusterForScaleDown_def Let_def)
qed

theorem scale_down_removes_hosts_witness:
  "GetMasterIPList (ConstructClusterForScaleDown
     (set_Hosts [emptyHost\<lparr>h_IPS := [[10, 0, 0, 1], [10, 0, 0, 2]], h_Roles := [MASTER]\<rparr>] emptyCluster)
     [[10, 0, 0, 2]] []) = [[10, 0, 0, 1]]"
  using scale_down_removes_hosts [of
    "set_Hosts [emptyHost\<lparr>h_IPS := [[10, 0, 0, 1], [10, 0, 0, 2]], h_Roles := [MASTER]\<rparr>] emptyCluster"
    "[[10, 0, 0, 2]]" "[]"]
  by (simp add: accessors RemoveIPs_def ip_Equal_def)

text \<open>
  C26. Scaling down by what a scale-up added gives back the cluster as it was, when every host of
  it had an address and the role master or node.
\<close>

theorem scale_down_undoes_scale_up:
  assumes up: "ConstructClusterForScaleUp c fl cur jm jw = (c', Inr (mj, nj))"
    and hosts: "\<forall>h \<in> set (c_Hosts (Spec c)). h_IPS h \<noteq> []"
  shows "ConstructClusterForScaleDown c' mj nj = c"
proof -
  note fresh = scaleUp_cases(4) [OF up]
  have keep: "removeRoleIPs r del (c_Hosts (Spec c)) = c_Hosts (Spec c)"
    if "set del \<subseteq> set mj \<union> set nj" "r = MASTER \<or> r = NODE" for r del
  proof (rule removeRoleIPs_disjoint, intro ballI impI RemoveIPs_disjoint)
    fix h d assume h: "h \<in> set (c_Hosts (Spec c))" "r \<in> set (h_Roles h)" and d: "d \<in> set del"
    have "set (h_IPS h) \<subseteq> set (GetAllIPList c)"
      using h that(2) by (auto simp: GetAllIPList_def set_GetIPSByRole)
    then show "\<not> IsInIPList d (h_IPS h)"
      using fresh d that(1) by (auto simp: IsInIPList_iff)
  qed
  have old: "filter (\<lambda>h. h_IPS h \<noteq> []) (c_Hosts (Spec c)) = c_Hosts (Spec c)"
    using hosts by (simp add: filter_id_conv)
  show ?thesis
    unfolding scaleUp_cases(5) [OF up] ConstructClusterForScaleDown_def Let_def
    by (cases "mj = []"; cases "nj = []") (simp_all add: removeRoleIPs_simps keep old)
qed

theorem scale_down_undoes_scale_up_witness:
  "let c = set_Hosts [emptyHost\<lparr>h_IPS := [[10, 0, 0, 1]], h_Roles := [MASTER]\<rparr>] emptyCluster;
       fl = \<lparr>f_Masters = ''10.0.0.2'', f_Nodes = ''10.0.0.3'', f_User = ''root'', f_Password = [],
         f_Port = 22, f_Pk = [], f_PkPassword = [], f_CustomEnv = [], su_IgnoreCache = False\<rparr>;
       c' = fst (ConstructClusterForScaleUp c fl [[10, 0, 0, 1]] [[10, 0, 0, 2]] [[10, 0, 0, 3]])
   in ConstructClusterForScaleDown c' [[10, 0, 0, 2]] [[10, 0, 0, 3]] = c"
proof -
  let ?c = "set_Hosts [emptyHost\<lparr>h_IPS := [[10, 0, 0, 1]], h_Roles := [MASTER]\<rparr>] emptyCluster"
  let ?fl = "\<lparr>f_Masters = ''10.0.0.2'', f_Nodes = ''10.0.0.3'', f_User = ''root'', f_Password = [],
         f_Port = 22, f_Pk = [], f_PkPassword = [], f_CustomEnv = [], su_IgnoreCache = False\<rparr>"
  let ?r = "ConstructClusterForScaleUp ?c ?fl [[10, 0, 0, 1]] [[10, 0, 0, 2]] [[10, 0, 0, 3]]"
  have "snd ?r = Inr ([[10, 0, 0, 2]], [[10, 0, 0, 3]])" by code_simp
  then have "?r = (fst ?r, Inr ([[10, 0, 0, 2]], [[10, 0, 0, 3]]))" by (simp add: prod_eq_iff)
  from scale_down_undoes_scale_up [OF this] show ?thesis by (simp add: Let_def)
qed

text \<open>
  The environment of the image only supplies defaults: whatever order the image's map is
  iterated in, a key set in the cluster's own environment keeps the cluster's value, and the
  other keys get the image's.
\<close>

lemma merged_image_env:
  assumes "env_wf imageEnv" and "\<forall>(k, v) \<in> set imageEnv. CHR ''='' \<notin> set k"
    and "mset order = mset imageEnv"
  shows "map_of (ConvertStringSliceToMap (c_Env (Spec (MergeClusterWithImageExtension cluster order))))
    = map_of imageEnv ++ map_of (ConvertStringSliceToMap (c_Env (Spec cluster)))"
proof (cases "order = []")
  case True
  with assms(3) show ?thesis by (simp add: MergeClusterWithImageExtension_def)
next
  case False
  have s: "set order = set imageEnv" using assms(3) by (metis set_mset_mset)
  have d: "env_wf order"
    using assms(1,3) unfolding env_wf_def by (metis mset_eq_imp_distinct_iff mset_map)
  have "map_of order = map_of imageEnv"
    using assms(1) d s unfolding env_wf_def by (metis map_of_inject_set)
  moreover have "map_of (ConvertStringSliceToMap (ConvertToSlice order)) = map_of order"
    using assms(2) s d by (intro ConvertToSlice_roundtrip) auto
  ultimately show ?thesis
    using False by (simp add: MergeClusterWithImageExtension_def ConvertStringSliceToMap_append)
qed

text \<open>
  The variables of the cluster are put in front of those of every application configuration.
  When the array that holds them has room behind it, the variables of the last configuration that
  fits replace those of every earlier one that has no more of them.
\<close>

theorem application_envs_overwritten:
  assumes "app_Configs a = pre @ [c]" and "envs \<noteq> []" and "i < length pre"
    and "length (ac_Env (pre ! i)) \<le> length (ac_Env c)" and "length (ac_Env c) \<le> spare"
  shows "ac_Name (app_Configs (ConstructApplication spare (Some a) cmds names envs) ! i) = ac_Name (pre ! i) \<and>
    ac_Env (app_Configs (ConstructApplication spare (Some a) cmds names envs) ! i) =
      envs @ take (length (ac_Env (pre ! i))) (ac_Env c)"
proof -
  have configs: "app_Configs (ConstructApplication spare (Some a) cmds names envs) =
      map (configWithEnvs spare (app_Configs a) envs) (app_Configs a)"
    using assms(2) by (simp add: ConstructApplication_def Let_def split: option.split)
  have "take (length (ac_Env (pre ! i))) (sharedEnv spare (pre @ [c])) = take (length (ac_Env (pre ! i))) (ac_Env c)"
    using assms(4,5) by (simp add: sharedEnv_def)
  then show ?thesis using assms unfolding configs by (simp add: nth_append configWithEnvs_def)
qed

definition demoConfig :: "string \<Rightarrow> string list \<Rightarrow> ApplicationConfig" where
  "demoConfig name envs = \<lparr>ac_Name = name, ac_Env = envs, ac_Files = [], ac_Launch = None\<rparr>"

theorem application_envs_overwritten_witness:
  "app_Configs (ConstructApplication 1 (Some (newApplication\<lparr>app_Configs := [demoConfig ''a'' [''x=1''], demoConfig ''b'' [''x=2'']]\<rparr>)) [] None [''g=0''])
     = [demoConfig ''a'' [''g=0'', ''x=2''], demoConfig ''b'' [''g=0'', ''x=2'']]"
proof -
  let ?a = "newApplication\<lparr>app_Configs := [demoConfig ''a'' [''x=1''], demoConfig ''b'' [''x=2'']]\<rparr>"
  have "ac_Env (app_Configs (ConstructApplication 1 (Some ?a) [] None [''g=0'']) ! 0) = [''g=0'', ''x=2'']"
    using application_envs_overwritten [of ?a "[demoConfig ''a'' [''x=1'']]" "demoConfig ''b'' [''x=2'']" "[''g=0'']" 0 1 "[]" None]
    by (simp add: demoConfig_def)
  then show ?thesis
    by (simp add: ConstructApplication_def configWithEnvs_def sharedEnv_def demoConfig_def Let_def)
qed

end
