(* ===== verification/Go_Cidr.thy ===== *)
theory Go_Cidr
  imports Ip_Utils
begin

unbundle bit_operations_syntax

text \<open>
  Subnets written in CIDR notation: the functions of Go's package \<^verbatim>\<open>net\<close> that read them, and the address at an
  index of a subnet as \<^verbatim>\<open>k8s.io/utils/net\<close> computes it.
\<close>

text \<open>\<^verbatim>\<open>net.CIDRMask\<close>, \<^verbatim>\<open>IP.Mask\<close> and \<^verbatim>\<open>net.ParseCIDR\<close> (its network).\<close>

fun CIDRMask_go :: "nat \<Rightarrow> int \<Rightarrow> byte list" where
  "CIDRMask_go 0 n = []"
| "CIDRMask_go (Suc l) n = (if n \<ge> 8 then 255 # CIDRMask_go l (n - 8)
     else (of_int (255 - (255 div 2 ^ nat n)) :: byte) # CIDRMask_go l 0)"

definition ip_Mask :: "net_ip \<Rightarrow> byte list \<Rightarrow> net_ip" where
  "ip_Mask ip mk =
     (let m' = (if length mk = 16 \<and> length ip = 4 \<and> take 12 mk = replicate 12 255 then drop 12 mk else mk);
          ip' = (if length m' = 4 \<and> length ip = 16 \<and> take 12 ip = v4InV6Prefix then drop 12 ip else ip) in
      if length ip' \<noteq> length m' then [] else map2 (AND) ip' m')"

definition net_ParseCIDR :: "string \<Rightarrow> ip_net res" where
  "net_ParseCIDR s =
     (let err = Inl (Errorf ''invalid CIDR address: %s'' [s]); addr = takeWhile (\<lambda>c. c \<noteq> CHR ''/'') s in
      if length addr = length s then err
      else (let mk = drop (Suc (length addr)) s; ip4 = parseIPv4 True addr;
                iplen = (if ip4 = [] then 16 else 4); ip = (if ip4 = [] then parseIPv6 True addr else ip4);
                (n, i, ok) = dtoi mk in
        if ip = [] \<or> \<not> ok \<or> i \<noteq> length mk \<or> n < 0 \<or> n > 8 * int iplen then err
        else (let m = CIDRMask_go iplen n in Inr \<lparr>net_IP = ip_Mask ip m, net_Mask = m\<rparr>)))"

text \<open>\<^verbatim>\<open>GetIndexedIP\<close> of \<^verbatim>\<open>k8s.io/utils/net\<close> works on sixteen bytes for both families.\<close>

definition AddIPOffset :: "int \<Rightarrow> int \<Rightarrow> net_ip" where
  "AddIPOffset base offset = (let r = replicate 16 0 @ big_Bytes (base + offset) in drop (length r - 16) r)"

definition utilnet_GetIndexedIP :: "ip_net \<Rightarrow> int \<Rightarrow> net_ip res" where
  "utilnet_GetIndexedIP subnet index = (let ip = AddIPOffset (big_SetBytes (ip_To16 (net_IP subnet))) index in
     if ipnet_Contains subnet ip then Inr ip
     else Inl (Errorf ''can't generate IP with index %d from subnet. subnet too small. subnet: %q''
                 [itoa index, ip_String (net_IP subnet)]))"

end
