(* ===== verification/Clusterfile.thy ===== *)
theory Clusterfile
  imports Hooks Kube_Runtime Cluster_Cmd Go_Cidr
begin

text \<open>
  Model of \<^verbatim>\<open>pkg/clusterfile\<close>: decoding of Clusterfiles (\<^verbatim>\<open>decoder.go\<close>) with the completion of the
  cluster object, and where Clusterfiles are kept (\<^verbatim>\<open>clusterfile.go\<close>): on the local disk and in a config
  map of the cluster. The YAML decoder and encoder are third-party code, here the fields of
  \<open>clusterfileLib\<close>; a document of a kubeadm kind stands for an update of the kubeadm configuration.
\<close>

section \<open>Completion of the cluster object\<close>

definition derivedEnvs :: "string list" where
  "derivedEnvs = [''LocalRegistryDomain'', ''LocalRegistryPort'', ''LocalRegistryURL'', ''ExternalRegistryDomain'',
     ''ExternalRegistryPort'', ''ExternalRegistryURL'', ''RegistryDomain'', ''RegistryPort'', ''RegistryURL'',
     ''ContainerRuntime'', ''DNSSvcIP'', ''KubeSvcIP'']"

definition emptyLocalRegistry :: LocalRegistry where
  "emptyLocalRegistry = \<lparr>r_Domain = [], r_Port = 0, r_Username = [], r_Password = [], l_HA = None, l_Insecure = None, l_Cert = None\<rparr>"

definition fillLocalRegistry :: "LocalRegistry \<Rightarrow> LocalRegistry" where
  "fillLocalRegistry r = r\<lparr>
     r_Domain := (if r_Domain r = [] then ''sea.hub'' else r_Domain r),
     r_Port := (if r_Port r = 0 then 5000 else r_Port r),
     l_Insecure := (if l_Insecure r = None then Some False else l_Insecure r),
     l_HA := (if l_HA r = None then Some True else l_HA r)\<rparr>"

definition registryURL :: "('a) RegistryConfig_scheme \<Rightarrow> string" where
  "registryURL r = (if r_Port r = 0 then r_Domain r else net_JoinHostPort (r_Domain r) (itoa (r_Port r)))"

definition registryEnv :: "string \<Rightarrow> ('a) RegistryConfig_scheme \<Rightarrow> string list" where
  "registryEnv p r = [p @ ''RegistryDomain='' @ r_Domain r, p @ ''RegistryPort='' @ itoa (r_Port r), p @ ''RegistryURL='' @ registryURL r]"

definition svcEnv :: "string list \<Rightarrow> string list res" where
  "svcEnv envs = (case map_of (ConvertStringSliceToMap envs) ''SvcCIDR'' of
       None \<Rightarrow> Inr []
     | Some svcCIDR \<Rightarrow> if svcCIDR = [] then Inr []
         else bindR (mapErrR (Wrapf ''failed to parse svc CIDR: %v'' []) (net_ParseCIDR (hd (strings_Split svcCIDR '','')))) (\<lambda>cidr.
              bindR (mapErrR (Wrapf ''failed to get 1th ip from svc CIDR: %v'' []) (GetIndexIP cidr 1)) (\<lambda>kubeIP.
              bindR (mapErrR (Wrapf ''failed to get 10th ip from svc CIDR: %v'' []) (GetIndexIP cidr 10)) (\<lambda>dnsIP.
              Inr [''KubeSvcIP='' @ kubeIP, ''DNSSvcIP='' @ dnsIP]))))"

definition finalRegistryEnv :: "('a) RegistryConfig_scheme \<Rightarrow> string list" where
  "finalRegistryEnv r = [''RegistryDomain='' @ r_Domain r, ''RegistryPort='' @ (if r_Port r = 0 then [] else itoa (r_Port r)),
     ''RegistryURL='' @ registryURL r]"

definition usedRegistry :: "Registry \<Rightarrow> RegistryConfig" where
  "usedRegistry g = (case g_External g of Some r \<Rightarrow> r
     | None \<Rightarrow> (case g_Local g of Some l \<Rightarrow> RegistryConfig.truncate l
       | None \<Rightarrow> \<lparr>r_Domain = [], r_Port = 0, r_Username = [], r_Password = []\<rparr>))"

definition fillRegistry :: "Registry \<Rightarrow> Registry" where
  "fillRegistry g = \<lparr>g_Local = (if g_Local g = None \<and> g_External g = None then Some (fillLocalRegistry emptyLocalRegistry)
     else map_option fillLocalRegistry (g_Local g)), g_External = g_External g\<rparr>"

definition userEnv :: "string list \<Rightarrow> string list" where
  "userEnv envs = filter (\<lambda>env. \<not> list_ex (strings_HasPrefix env) derivedEnvs) envs"

definition derivedEnv :: "Registry \<Rightarrow> string \<Rightarrow> string list" where
  "derivedEnv g containerRuntime =
     (case g_Local g of None \<Rightarrow> [] | Some r \<Rightarrow> registryEnv ''Local'' r)
     @ (case g_External g of None \<Rightarrow> [] | Some r \<Rightarrow> registryEnv ''External'' r)
     @ finalRegistryEnv (usedRegistry g)
     @ (if containerRuntime \<noteq> [] then [''ContainerRuntime='' @ containerRuntime] else [])"

definition checkAndFillCluster :: "Cluster \<Rightarrow> Cluster res" where
  "checkAndFillCluster cluster =
     (let spec = Spec cluster; g = fillRegistry (c_Registry spec) in
      if (case g_External g of Some r \<Rightarrow> r_Domain r = [] | None \<Rightarrow> False)
      then Inl (Errorf ''external registry domain can not be empty'' [])
      else bindR (svcEnv (userEnv (c_Env spec))) (\<lambda>svc.
        Inr (cluster\<lparr>Spec := spec\<lparr>c_Registry := g,
          c_Env := userEnv (c_Env spec) @ svc @ derivedEnv g (c_ContainerRuntime spec),
          c_DataRoot := (if c_DataRoot spec = [] then DefaultSealerDataDir else c_DataRoot spec)\<rparr>\<rparr>)))"

section \<open>Clusterfiles\<close>

text \<open>The cluster and the application are pointers; \<open>cf_kinds\<close> are the kubeadm documents that were given.\<close>

record ClusterFile =
  cf_cluster :: "Cluster option"
  cf_configs :: "Config list"
  cf_kubeadmConfig :: KubeadmConfig
  cf_kinds :: "string list"
  cf_plugins :: "Plugin list"
  cf_app :: "Application option"

definition newClusterFile :: ClusterFile where
  "newClusterFile = \<lparr>cf_cluster = None, cf_configs = [], cf_kubeadmConfig = emptyKubeadmConfig, cf_kinds = [], cf_plugins = [], cf_app = None\<rparr>"

record clusterfileLib =
  cl_Decode :: "string \<Rightarrow> string res list"
  cl_TypeMeta :: "string \<Rightarrow> (string \<times> string) res"
  cl_Cluster :: "string \<Rightarrow> Cluster res"
  cl_Config :: "string \<Rightarrow> Config res"
  cl_Plugin :: "string \<Rightarrow> Plugin res"
  cl_Application :: "string \<Rightarrow> Application res"
  cl_Kubeadm :: "string \<Rightarrow> string \<Rightarrow> (KubeadmConfig \<Rightarrow> KubeadmConfig) res"
  cl_marshalCluster :: "Cluster \<Rightarrow> string res"
  cl_marshalConfig :: "Config \<Rightarrow> string res"
  cl_marshalPlugin :: "Plugin \<Rightarrow> string res"
  cl_marshalApplication :: "Application \<Rightarrow> string res"
  cl_marshalKubeadm :: "string \<Rightarrow> KubeadmConfig \<Rightarrow> string res"

definition kubeadmKinds :: "string list" where
  "kubeadmKinds = [''InitConfiguration'', ''JoinConfiguration'', ''ClusterConfiguration'', ''KubeletConfiguration'', ''KubeProxyConfiguration'']"

fun checkAppFiles :: "string \<Rightarrow> AppFile list \<Rightarrow> unit res" where
  "checkAppFiles name [] = Inr ()"
| "checkAppFiles name (f # fs) =
     (if af_Data f = [] then Inl (Errorf ''failed to decode application config %s. data is empty'' [name])
      else if af_Path f = [] then Inl (Errorf ''failed to decode application config %s. path is empty'' [name])
      else checkAppFiles name fs)"

fun checkAppConfigs :: "ApplicationConfig list \<Rightarrow> unit res" where
  "checkAppConfigs [] = Inr ()"
| "checkAppConfigs (config # rest) =
     (if ac_Name config = [] then Inl (Errorf ''application configs name coule not be nil'' [])
      else if ac_Launch config = Some None then Inl (Errorf ''failed to get launchCmds from application configs'' [])
      else bindR (checkAppFiles (ac_Name config) (ac_Files config)) (\<lambda>_. checkAppConfigs rest))"

definition decodeDoc :: "clusterfileLib \<Rightarrow> string \<Rightarrow> ClusterFile \<Rightarrow> ClusterFile res" where
  "decodeDoc cl raw cf =
     bindR (mapErrR (Wrapf ''failed to decode TypeMeta: %v'' []) (cl_TypeMeta cl raw)) (\<lambda>(kind, apiVersion).
       let bad = Wrapf ''failed to decode %s[%s]: %v'' [kind, apiVersion] in
       if kind = ''Cluster'' then
         bindR (mapErrR bad (cl_Cluster cl raw)) (\<lambda>cluster0.
         bindR (mapErrR (Wrapf ''failed to check and complete cluster: %v'' []) (checkAndFillCluster cluster0)) (\<lambda>cluster.
         Inr (cf\<lparr>cf_cluster := Some cluster\<rparr>)))
       else if kind = ''Config'' then
         bindR (mapErrR bad (cl_Config cl raw)) (\<lambda>cfg.
           if cg_Path cfg = [] then Inl (Errorf ''failed to decode config %s, config path is empty'' [cg_Name cfg])
           else if cg_Data cfg = [] then Inl (Errorf ''failed to decode config %s, config data is empty'' [cg_Name cfg])
           else Inr (cf\<lparr>cf_configs := cf_configs cf @ [cfg]\<rparr>))
       else if kind = ''Plugin'' then
         bindR (mapErrR bad (cl_Plugin cl raw)) (\<lambda>plu. Inr (cf\<lparr>cf_plugins := cf_plugins cf @ [plu]\<rparr>))
       else if kind = ''Application'' then
         bindR (mapErrR bad (cl_Application cl raw)) (\<lambda>app.
         bindR (checkAppConfigs (app_Configs app)) (\<lambda>_. Inr (cf\<lparr>cf_app := Some app\<rparr>)))
       else if kind \<in> set kubeadmKinds then
         bindR (mapErrR bad (cl_Kubeadm cl kind raw)) (\<lambda>upd.
           Inr (cf\<lparr>cf_kubeadmConfig := upd (cf_kubeadmConfig cf), cf_kinds := List.insert kind (cf_kinds cf)\<rparr>))
       else Inr cf)"

fun decodeDocs :: "clusterfileLib \<Rightarrow> string res list \<Rightarrow> ClusterFile \<Rightarrow> ClusterFile res" where
  "decodeDocs cl [] cf = Inr cf"
| "decodeDocs cl (Inl e # docs) cf = Inl e"
| "decodeDocs cl (Inr ext # docs) cf = (let raw = strings_TrimSpace ext in
     if raw = [] \<or> raw = ''null'' then decodeDocs cl docs cf
     else bindR (decodeDoc cl raw cf) (decodeDocs cl docs))"

definition decodeClusterFile :: "clusterfileLib \<Rightarrow> string \<Rightarrow> ClusterFile res" where
  "decodeClusterFile cl data = decodeDocs cl (cl_Decode cl data) newClusterFile"

definition NewClusterFile :: "clusterfileLib \<Rightarrow> string \<Rightarrow> ClusterFile res" where
  "NewClusterFile cl b =
     (if length b = 0 then Inl (Errorf ''empty clusterfile'' [])
      else mapErrR (Wrapf ''failed to load clusterfile: %v'' []) (decodeClusterFile cl b))"

section \<open>Where Clusterfiles are kept\<close>

definition cf_GetCluster :: "ClusterFile \<Rightarrow> Cluster io" where
  "cf_GetCluster c = deref (cf_cluster c)"

definition cf_SetCluster :: "Cluster \<Rightarrow> ClusterFile \<Rightarrow> ClusterFile" where
  "cf_SetCluster cluster c = c\<lparr>cf_cluster := Some cluster\<rparr>"

definition cf_SetApplication :: "Application \<Rightarrow> ClusterFile \<Rightarrow> ClusterFile" where
  "cf_SetApplication app c = c\<lparr>cf_app := Some app\<rparr>"

record SaveOptions =
  so_CommitToCluster :: bool
  so_ConfPath :: string

definition optDoc :: "('a \<Rightarrow> string res) \<Rightarrow> 'a option \<Rightarrow> string list res" where
  "optDoc f x = (case x of None \<Rightarrow> Inr [] | Some v \<Rightarrow> bindR (f v) (\<lambda>d. Inr [d]))"

text \<open>A nil cluster is written as the document null.\<close>

definition clusterfileBytes :: "clusterfileLib \<Rightarrow> ClusterFile \<Rightarrow> string list res" where
  "clusterfileBytes cl c =
     bindR (case cf_cluster c of Some x \<Rightarrow> cl_marshalCluster cl x | None \<Rightarrow> Inr (''null'' @ [CHR 0x0A])) (\<lambda>cluster.
     bindR (optDoc (cl_marshalApplication cl) (cf_app c)) (\<lambda>app.
     bindR (mapR (cl_marshalConfig cl) (cf_configs c)) (\<lambda>configs.
     bindR (mapR (cl_marshalPlugin cl) (cf_plugins c)) (\<lambda>plugins.
     bindR (mapR (\<lambda>kind. cl_marshalKubeadm cl kind (cf_kubeadmConfig c)) (filter (\<lambda>k. k \<in> set (cf_kinds c)) kubeadmKinds)) (\<lambda>kubeadm.
     Inr ([cluster] @ app @ configs @ plugins @ kubeadm))))))"

definition docSep :: string where "docSep = ''---'' @ [CHR 0x0A]"

definition saveToCluster :: "(gerror \<Rightarrow> bool) \<Rightarrow> string \<Rightarrow> string \<Rightarrow> unit io" where
  "saveToCluster isAlreadyExists data confPath0 =
     (let confPath = (if confPath0 = [] then AdminKubeConfPath else confPath0) in
      thenE (mapErr (Wrapf ''failed to new k8s runtime client via adminconf: %v'' [])
              (GetClientFromConfig confPath))
      (bindE (tryE (perform (CreateConfigMap ''kube-system'' ''sealer-clusterfile'' [(''Clusterfile'', data)]))) (\<lambda>r. case r of
         Inr _ \<Rightarrow> returnE ()
       | Inl err \<Rightarrow> if \<not> isAlreadyExists err then throwE (Wrapf ''unable to create configmap: %v'' [] err)
           else mapErr (Wrapf ''unable to update configmap: %v'' [])
             (perform (UpdateConfigMap ''kube-system'' ''sealer-clusterfile'' [(''Clusterfile'', data)])))))"

definition SaveAll :: "clusterfileLib \<Rightarrow> (gerror \<Rightarrow> bool) \<Rightarrow> string \<Rightarrow> ClusterFile \<Rightarrow> SaveOptions \<Rightarrow> unit io" where
  "SaveAll cl isAlreadyExists home c opts =
     (let fileName = GetDefaultClusterfile home in
      thenE (mapErr (Wrapf ''failed to mkdir %s: %v'' [fileName]) (perform (LocalCall ''os.MkdirAll'' [filepath_Dir fileName])))
      (bindE (liftR (clusterfileBytes cl c)) (\<lambda>docs. let content = strings_Join docs docSep in
        thenE (mapErr (Wrapf ''failed to save clusterfile to disk:%v'' []) (commonWriter_WriteFile fileName content))
          (if so_CommitToCluster opts then saveToCluster isAlreadyExists content (so_ConfPath opts) else returnE ()))))"

definition getClusterfileFromCluster :: "clusterfileLib \<Rightarrow> ClusterFile io" where
  "getClusterfileFromCluster cl =
     thenE (perform (LocalCall ''k8s.NewK8sClient'' []))
     (bindE (askText (LocalCall ''ConfigMap.Get'' [''kube-system'', ''sealer-clusterfile'', ''Clusterfile''])) (\<lambda>data.
       if length data > 0 then liftR (decodeClusterFile cl data)
       else throwE (Errorf ''failed to get clusterfile from cluster'' [])))"

definition GetActualClusterFile :: "clusterfileLib \<Rightarrow> string \<Rightarrow> (ClusterFile \<times> bool) io" where
  "GetActualClusterFile cl home =
     bindE (tryE (getClusterfileFromCluster cl)) (\<lambda>r. case r of
       Inr fromCluster \<Rightarrow> returnE (fromCluster, True)
     | Inl _ \<Rightarrow> bindE (os_ReadFile (GetDefaultClusterfile home)) (\<lambda>clusterFileData.
         bindE (mapErr (Wrapf ''failed to load clusterfile: %v'' []) (liftR (decodeClusterFile cl clusterFileData)))
           (\<lambda>cf. returnE (cf, False))))"

section \<open>Lemmas on the completion\<close>

lemma derived_prefix:
  "x \<in> set (registryEnv p r) \<Longrightarrow> p \<in> {''Local'', ''External''} \<Longrightarrow> list_ex (strings_HasPrefix x) derivedEnvs"
  "x \<in> set (finalRegistryEnv r) \<Longrightarrow> list_ex (strings_HasPrefix x) derivedEnvs"
  "list_ex (strings_HasPrefix (''ContainerRuntime='' @ t)) derivedEnvs"
  "list_ex (strings_HasPrefix (''KubeSvcIP='' @ t)) derivedEnvs" "list_ex (strings_HasPrefix (''DNSSvcIP='' @ t)) derivedEnvs"
  by (auto simp: registryEnv_def finalRegistryEnv_def derivedEnvs_def strings_HasPrefix_def)

lemmas derived_prefix_cons = derived_prefix(3-5) [simplified]

lemma userEnv_derived: "\<forall>x \<in> set xs. list_ex (strings_HasPrefix x) derivedEnvs \<Longrightarrow> userEnv (ys @ xs) = userEnv ys"
  by (auto simp: userEnv_def)

lemma userEnv_idem: "userEnv (userEnv xs) = userEnv xs"
  by (simp add: userEnv_def)

lemma derivedEnv_prefix: "x \<in> set (derivedEnv g t) \<Longrightarrow> list_ex (strings_HasPrefix x) derivedEnvs"
  unfolding derivedEnv_def by (auto split: option.splits if_splits intro: derived_prefix derived_prefix_cons)

lemma svcEnv_prefix: "svcEnv e = Inr svc \<Longrightarrow> x \<in> set svc \<Longrightarrow> list_ex (strings_HasPrefix x) derivedEnvs"
  by (auto simp: svcEnv_def bindR_Inr_iff split: option.splits if_splits intro: derived_prefix derived_prefix_cons)

lemma fillRegistry_idem: "fillRegistry (fillRegistry g) = fillRegistry g"
proof -
  have fill: "fillLocalRegistry (fillLocalRegistry r) = fillLocalRegistry r" for r by (auto simp: fillLocalRegistry_def)
  show ?thesis by (auto simp: fillRegistry_def fill option.map_comp comp_def)
qed

lemma checkAndFillCluster_again:
  assumes "checkAndFillCluster c = Inr c'"
  shows "checkAndFillCluster c' = Inr c' \<and> (\<exists>derived. c_Env (Spec c') = userEnv (c_Env (Spec c)) @ derived \<and> userEnv (c_Env (Spec c')) = userEnv (c_Env (Spec c)))"
proof -
  let ?u = "userEnv (c_Env (Spec c))" and ?g = "fillRegistry (c_Registry (Spec c))"
  obtain svc where svc: "svcEnv ?u = Inr svc" and ext: "\<not> (case g_External ?g of Some r \<Rightarrow> r_Domain r = [] | None \<Rightarrow> False)"
    and c': "c' = c\<lparr>Spec := (Spec c)\<lparr>c_Registry := ?g, c_Env := ?u @ svc @ derivedEnv ?g (c_ContainerRuntime (Spec c)),
          c_DataRoot := (if c_DataRoot (Spec c) = [] then DefaultSealerDataDir else c_DataRoot (Spec c))\<rparr>\<rparr>"
    using assms by (auto simp: checkAndFillCluster_def Let_def bindR_Inr_iff split: if_splits)
  have u: "userEnv (?u @ svc @ derivedEnv ?g t) = ?u" for t
    using userEnv_derived [of "svc @ derivedEnv ?g t" ?u] svcEnv_prefix [OF svc] derivedEnv_prefix by (auto simp: userEnv_idem)
  have "DefaultSealerDataDir \<noteq> []" by (simp add: DefaultSealerDataDir_def)
  then show ?thesis
    using svc ext by (auto simp: c' checkAndFillCluster_def Let_def u fillRegistry_idem)
qed


definition svcCluster :: Cluster where
  "svcCluster = emptyCluster\<lparr>Spec := emptyClusterSpec\<lparr>c_Env := [''RegistryURL=old'', ''SvcCIDR=10.96.0.0/12''], c_ContainerRuntime := Docker\<rparr>\<rparr>"


section \<open>Lemmas on saving and loading\<close>

lemma obeys_saveToCluster:
  "localOK P \<Longrightarrow> (\<And>ns n e. P (CreateConfigMap ns n e)) \<Longrightarrow> (\<And>ns n e. P (UpdateConfigMap ns n e)) \<Longrightarrow> obeys P (saveToCluster f d p)"
  by (auto simp: saveToCluster_def GetClientFromConfig_def Let_def split: sum.split)

lemma obeys_SaveAll:
  "localOK P \<Longrightarrow> (\<And>ns n e. P (CreateConfigMap ns n e)) \<Longrightarrow> (\<And>ns n e. P (UpdateConfigMap ns n e)) \<Longrightarrow> obeys P (SaveAll cl f h c opts)"
  by (auto simp: SaveAll_def Let_def intro!: obeys_saveToCluster)

lemma obeys_GetActualClusterFile [intro!]: "localOK P \<Longrightarrow> obeys P (GetActualClusterFile cl home)"
  by (auto simp: GetActualClusterFile_def getClusterfileFromCluster_def split: sum.split)

lemma obeys_cf_GetCluster [intro!]: "obeys P (cf_GetCluster c)"
  by (auto simp: cf_GetCluster_def)

end
