(* ===== verification/Clusterfile_Properties.thy ===== *)
theory Clusterfile_Properties
  imports Clusterfile
begin

text \<open>
  Clusterfiles that were decoded are well-formed, and a well-formed Clusterfile that is saved can be
  loaded again unchanged.
\<close>

section \<open>Well-formed Clusterfiles\<close>

definition wf_clusterfile :: "ClusterFile \<Rightarrow> bool" where
  "wf_clusterfile cf =
     ((case cf_cluster cf of None \<Rightarrow> True | Some c \<Rightarrow> checkAndFillCluster c = Inr c)
      \<and> (case cf_app cf of None \<Rightarrow> True | Some app \<Rightarrow> checkAppConfigs (app_Configs app) = Inr ())
      \<and> list_all (\<lambda>cfg. cg_Path cfg \<noteq> [] \<and> cg_Data cfg \<noteq> []) (cf_configs cf)
      \<and> distinct (cf_kinds cf) \<and> set (cf_kinds cf) \<subseteq> set kubeadmKinds)"

lemma wf_newClusterFile [simp]: "wf_clusterfile newClusterFile"
  by (simp add: wf_clusterfile_def newClusterFile_def)

lemma mapErrR_Inr_iff: "mapErrR f r = Inr x \<longleftrightarrow> r = Inr x"
  by (auto simp: mapErrR_def split: sum.split)

lemma decodeDoc_cases:
  assumes "decodeDoc cl raw cf = Inr cf'"
  shows "(\<exists>c0 c. checkAndFillCluster c0 = Inr c \<and> cf' = cf\<lparr>cf_cluster := Some c\<rparr>)
    \<or> (\<exists>cfg. cg_Path cfg \<noteq> [] \<and> cg_Data cfg \<noteq> [] \<and> cf' = cf\<lparr>cf_configs := cf_configs cf @ [cfg]\<rparr>)
    \<or> (\<exists>plu. cf' = cf\<lparr>cf_plugins := cf_plugins cf @ [plu]\<rparr>)
    \<or> (\<exists>app. checkAppConfigs (app_Configs app) = Inr () \<and> cf' = cf\<lparr>cf_app := Some app\<rparr>)
    \<or> (\<exists>kind upd. kind \<in> set kubeadmKinds \<and> cf' = cf\<lparr>cf_kubeadmConfig := upd (cf_kubeadmConfig cf), cf_kinds := List.insert kind (cf_kinds cf)\<rparr>)
    \<or> cf' = cf"
proof -
  from assms obtain kind v where meta: "cl_TypeMeta cl raw = Inr (kind, v)" by (auto simp: decodeDoc_def bindR_Inr_iff mapErrR_Inr_iff)
  note run = assms [unfolded decodeDoc_def meta mapErrR_def bindR_def sum.case prod.case Let_def]
  consider "kind = ''Cluster''" | "kind = ''Config''" | "kind = ''Plugin''" | "kind = ''Application''"
    | "kind \<notin> {''Cluster'', ''Config'', ''Plugin'', ''Application''}" "kind \<in> set kubeadmKinds"
    | "kind \<notin> {''Cluster'', ''Config'', ''Plugin'', ''Application''}" "kind \<notin> set kubeadmKinds" by blast
  then show ?thesis
  proof cases
    case 1
    with run have "\<exists>c0 c. checkAndFillCluster c0 = Inr c \<and> cf' = cf\<lparr>cf_cluster := Some c\<rparr>" by (auto split: sum.splits)
    then show ?thesis by blast
  next
    case 2
    with run have "\<exists>cfg. cg_Path cfg \<noteq> [] \<and> cg_Data cfg \<noteq> [] \<and> cf' = cf\<lparr>cf_configs := cf_configs cf @ [cfg]\<rparr>"
      by (auto split: sum.splits if_splits)
    then show ?thesis by blast
  next
    case 3
    with run have "\<exists>plu. cf' = cf\<lparr>cf_plugins := cf_plugins cf @ [plu]\<rparr>" by (auto split: sum.splits)
    then show ?thesis by blast
  next
    case 4
    with run have "\<exists>app. checkAppConfigs (app_Configs app) = Inr () \<and> cf' = cf\<lparr>cf_app := Some app\<rparr>" by (auto split: sum.splits)
    then show ?thesis by blast
  next
    case 5
    from run 5(2) have "\<exists>upd. cf' = cf\<lparr>cf_kubeadmConfig := upd (cf_kubeadmConfig cf), cf_kinds := List.insert kind (cf_kinds cf)\<rparr>"
      using 5(1) by (simp split: sum.splits) (metis (no_types))
    with 5(2) show ?thesis by blast
  next
    case 6
    with run show ?thesis by simp
  qed
qed

lemma decodeDoc_wf:
  assumes "decodeDoc cl raw cf = Inr cf'" and "wf_clusterfile cf"
  shows "wf_clusterfile cf'"
  using decodeDoc_cases [OF assms(1)] assms(2)
proof (elim disjE exE conjE)
  fix c0 c assume "checkAndFillCluster c0 = Inr c" "cf' = cf\<lparr>cf_cluster := Some c\<rparr>"
  with checkAndFillCluster_again assms(2) show ?thesis by (simp add: wf_clusterfile_def)
qed (auto simp: wf_clusterfile_def)

lemma decodeDocs_wf: "decodeDocs cl docs cf = Inr cf' \<Longrightarrow> wf_clusterfile cf \<Longrightarrow> wf_clusterfile cf'"
  by (induction cl docs cf rule: decodeDocs.induct) (auto simp: Let_def bindR_Inr_iff intro: decodeDoc_wf split: if_splits)

section \<open>Documents\<close>

text \<open>Reading the document \<open>d\<close> does \<open>upd\<close> to a Clusterfile.\<close>

definition document :: "clusterfileLib \<Rightarrow> string \<Rightarrow> (ClusterFile \<Rightarrow> ClusterFile) \<Rightarrow> bool" where
  "document cl d upd = (strings_TrimSpace d \<notin> {[], ''null''} \<and> (\<forall>cf. decodeDoc cl (strings_TrimSpace d) cf = Inr (upd cf)))"

lemma decode_document: "document cl d upd \<Longrightarrow> decodeDocs cl (Inr d # docs) cf = decodeDocs cl docs (upd cf)"
  by (simp add: document_def Let_def bindR_def)

lemma decode_documents:
  assumes "mapR f xs = Inr ds" and "\<And>x d. x \<in> set xs \<Longrightarrow> f x = Inr d \<Longrightarrow> document cl d (upd x)"
  shows "decodeDocs cl (map Inr ds @ rest) cf = decodeDocs cl rest (fold upd xs cf)"
  using assms
proof (induction xs arbitrary: ds cf)
  case (Cons x xs)
  from Cons.prems(1) obtain d ds' where ds: "ds = d # ds'" and d: "f x = Inr d" and ds': "mapR f xs = Inr ds'"
    by (auto simp: bindR_Inr_iff)
  from Cons.IH [OF ds'] Cons.prems(2) have "decodeDocs cl (map Inr ds' @ rest) cf' = decodeDocs cl rest (fold upd xs cf')" for cf' by simp
  with decode_document [OF Cons.prems(2) [OF _ d]] ds show ?case by simp
qed simp

text \<open>The library reads what it wrote for the object \<open>x\<close>: the document is of the kind, and decodes to \<open>x\<close>.\<close>

definition readsBack :: "clusterfileLib \<Rightarrow> string \<Rightarrow> string res \<Rightarrow> (string \<Rightarrow> 'a res) \<Rightarrow> 'a \<Rightarrow> bool" where
  "readsBack cl kind written dec x = (\<forall>d. written = Inr d \<longrightarrow> (let raw = strings_TrimSpace d in
     raw \<notin> {[], ''null''} \<and> (\<exists>v. cl_TypeMeta cl raw = Inr (kind, v)) \<and> dec raw = Inr x))"

lemma document_cluster:
  assumes "readsBack cl ''Cluster'' (Inr d) (cl_Cluster cl) c" "checkAndFillCluster c = Inr c"
  shows "document cl d (\<lambda>cf. cf\<lparr>cf_cluster := Some c\<rparr>)"
  using assms by (auto simp: readsBack_def Let_def document_def decodeDoc_def mapErrR_def bindR_def)

lemma document_config:
  assumes "readsBack cl ''Config'' (Inr d) (cl_Config cl) cfg" "cg_Path cfg \<noteq> []" "cg_Data cfg \<noteq> []"
  shows "document cl d (\<lambda>cf. cf\<lparr>cf_configs := cf_configs cf @ [cfg]\<rparr>)"
  using assms by (auto simp: readsBack_def Let_def document_def decodeDoc_def mapErrR_def bindR_def)

lemma document_plugin:
  assumes "readsBack cl ''Plugin'' (Inr d) (cl_Plugin cl) plu"
  shows "document cl d (\<lambda>cf. cf\<lparr>cf_plugins := cf_plugins cf @ [plu]\<rparr>)"
  using assms by (auto simp: readsBack_def Let_def document_def decodeDoc_def mapErrR_def bindR_def)

lemma document_application:
  assumes "readsBack cl ''Application'' (Inr d) (cl_Application cl) app" "checkAppConfigs (app_Configs app) = Inr ()"
  shows "document cl d (\<lambda>cf. cf\<lparr>cf_app := Some app\<rparr>)"
  using assms by (auto simp: readsBack_def Let_def document_def decodeDoc_def mapErrR_def bindR_def)

lemma document_kubeadm:
  assumes "readsBack cl kind (Inr d) (cl_Kubeadm cl kind) upd" "kind \<in> set kubeadmKinds"
  shows "document cl d (\<lambda>cf. cf\<lparr>cf_kubeadmConfig := upd (cf_kubeadmConfig cf), cf_kinds := List.insert kind (cf_kinds cf)\<rparr>)"
proof -
  from assms(2) have "kind \<noteq> ''Cluster''" "kind \<noteq> ''Config''" "kind \<noteq> ''Plugin''" "kind \<noteq> ''Application''"
    by (auto simp: kubeadmKinds_def)
  with assms show ?thesis by (auto simp: readsBack_def Let_def document_def decodeDoc_def mapErrR_def bindR_def)
qed

section \<open>Saving and loading\<close>

definition savedKinds :: "ClusterFile \<Rightarrow> string list" where
  "savedKinds cf = filter (\<lambda>k. k \<in> set (cf_kinds cf)) kubeadmKinds"

definition codecLaws :: "clusterfileLib \<Rightarrow> (string \<Rightarrow> KubeadmConfig \<Rightarrow> KubeadmConfig) \<Rightarrow> ClusterFile \<Rightarrow> bool" where
  "codecLaws cl parts cf =
     ((\<forall>c. cf_cluster cf = Some c \<longrightarrow> readsBack cl ''Cluster'' (cl_marshalCluster cl c) (cl_Cluster cl) c)
      \<and> (\<forall>a. cf_app cf = Some a \<longrightarrow> readsBack cl ''Application'' (cl_marshalApplication cl a) (cl_Application cl) a)
      \<and> (\<forall>x \<in> set (cf_configs cf). readsBack cl ''Config'' (cl_marshalConfig cl x) (cl_Config cl) x)
      \<and> (\<forall>x \<in> set (cf_plugins cf). readsBack cl ''Plugin'' (cl_marshalPlugin cl x) (cl_Plugin cl) x)
      \<and> (\<forall>k \<in> set (savedKinds cf). readsBack cl k (cl_marshalKubeadm cl k (cf_kubeadmConfig cf)) (cl_Kubeadm cl k) (parts k))
      \<and> fold parts (savedKinds cf) emptyKubeadmConfig = cf_kubeadmConfig cf)"

lemma fold_append_configs: "fold (\<lambda>x cf. cf\<lparr>cf_configs := cf_configs cf @ [x]\<rparr>) xs cf = cf\<lparr>cf_configs := cf_configs cf @ xs\<rparr>"
  by (induction xs arbitrary: cf) auto

lemma fold_append_plugins: "fold (\<lambda>x cf. cf\<lparr>cf_plugins := cf_plugins cf @ [x]\<rparr>) xs cf = cf\<lparr>cf_plugins := cf_plugins cf @ xs\<rparr>"
  by (induction xs arbitrary: cf) auto

lemma fold_kubeadm:
  "distinct (ks @ cf_kinds cf) \<Longrightarrow>
    fold (\<lambda>k cf. cf\<lparr>cf_kubeadmConfig := parts k (cf_kubeadmConfig cf), cf_kinds := List.insert k (cf_kinds cf)\<rparr>) ks cf
      = cf\<lparr>cf_kubeadmConfig := fold parts ks (cf_kubeadmConfig cf), cf_kinds := rev ks @ cf_kinds cf\<rparr>"
  by (induction ks arbitrary: cf) auto

lemma decode_saved:
  assumes wf: "wf_clusterfile cf" and c: "cf_cluster cf = Some c" and laws: "codecLaws cl parts cf"
    and docs: "clusterfileBytes cl cf = Inr docs"
  shows "decodeDocs cl (map Inr docs) newClusterFile = Inr (cf\<lparr>cf_kinds := rev (savedKinds cf)\<rparr>)"
proof -
  from docs c obtain d as gs ps ks where d: "cl_marshalCluster cl c = Inr d" and a: "optDoc (cl_marshalApplication cl) (cf_app cf) = Inr as"
    and g: "mapR (cl_marshalConfig cl) (cf_configs cf) = Inr gs" and p: "mapR (cl_marshalPlugin cl) (cf_plugins cf) = Inr ps"
    and k: "mapR (\<lambda>kind. cl_marshalKubeadm cl kind (cf_kubeadmConfig cf)) (savedKinds cf) = Inr ks"
    and docs: "docs = d # as @ gs @ ps @ ks"
    by (auto simp: clusterfileBytes_def bindR_Inr_iff savedKinds_def)
  have cluster: "document cl d (\<lambda>cf. cf\<lparr>cf_cluster := Some c\<rparr>)"
    using laws c d wf by (intro document_cluster) (auto simp: codecLaws_def wf_clusterfile_def)
  have app: "decodeDocs cl (map Inr as @ rest) x = decodeDocs cl rest (x\<lparr>cf_app := cf_app cf\<rparr>)" if "cf_app x = None" for rest x
  proof (cases "cf_app cf")
    case None
    moreover from that have "x\<lparr>cf_app := None\<rparr> = x" by (cases x) simp
    ultimately show ?thesis using a by (simp add: optDoc_def)
  next
    case (Some v)
    with a obtain e where e: "cl_marshalApplication cl v = Inr e" "as = [e]" by (auto simp: optDoc_def bindR_Inr_iff)
    have "document cl e (\<lambda>cf. cf\<lparr>cf_app := Some v\<rparr>)"
      using laws wf Some e(1) by (intro document_application) (auto simp: codecLaws_def wf_clusterfile_def)
    from decode_document [OF this] e(2) Some show ?thesis by simp
  qed
  have configs: "decodeDocs cl (map Inr gs @ rest) x = decodeDocs cl rest (x\<lparr>cf_configs := cf_configs x @ cf_configs cf\<rparr>)" for rest x
  proof -
    have "decodeDocs cl (map Inr gs @ rest) x = decodeDocs cl rest (fold (\<lambda>v cf. cf\<lparr>cf_configs := cf_configs cf @ [v]\<rparr>) (cf_configs cf) x)"
      using laws wf by (intro decode_documents [OF g] document_config) (auto simp: codecLaws_def wf_clusterfile_def list_all_iff)
    then show ?thesis by (simp only: fold_append_configs)
  qed
  have plugins: "decodeDocs cl (map Inr ps @ rest) x = decodeDocs cl rest (x\<lparr>cf_plugins := cf_plugins x @ cf_plugins cf\<rparr>)" for rest x
  proof -
    have "decodeDocs cl (map Inr ps @ rest) x = decodeDocs cl rest (fold (\<lambda>v cf. cf\<lparr>cf_plugins := cf_plugins cf @ [v]\<rparr>) (cf_plugins cf) x)"
      using laws by (intro decode_documents [OF p] document_plugin) (auto simp: codecLaws_def)
    then show ?thesis by (simp only: fold_append_plugins)
  qed
  have kinds: "decodeDocs cl (map Inr ks @ rest) x = decodeDocs cl rest
      (fold (\<lambda>k cf. cf\<lparr>cf_kubeadmConfig := parts k (cf_kubeadmConfig cf), cf_kinds := List.insert k (cf_kinds cf)\<rparr>) (savedKinds cf) x)" for rest x
    using laws by (intro decode_documents [OF k] document_kubeadm) (auto simp: codecLaws_def savedKinds_def)
  have dist: "distinct (savedKinds cf)" by (simp add: savedKinds_def kubeadmKinds_def)
  have last: "cf_kubeadmConfig cf = fold parts (savedKinds cf) emptyKubeadmConfig" using laws by (simp add: codecLaws_def)
  let ?x = "newClusterFile\<lparr>cf_cluster := Some c, cf_app := cf_app cf, cf_configs := cf_configs cf, cf_plugins := cf_plugins cf\<rparr>"
  have "decodeDocs cl (map Inr docs) newClusterFile = decodeDocs cl (map Inr as @ map Inr gs @ map Inr ps @ map Inr ks) (newClusterFile\<lparr>cf_cluster := Some c\<rparr>)"
    using decode_document [OF cluster] by (simp add: docs del: decodeDocs.simps)
  also have "\<dots> = decodeDocs cl (map Inr ks) ?x"
    by (simp add: app configs plugins newClusterFile_def)
  also have "\<dots> = Inr (fold (\<lambda>k cf. cf\<lparr>cf_kubeadmConfig := parts k (cf_kubeadmConfig cf), cf_kinds := List.insert k (cf_kinds cf)\<rparr>) (savedKinds cf) ?x)"
    using kinds [of "[]" ?x] by simp
  also have "\<dots> = Inr (cf\<lparr>cf_kinds := rev (savedKinds cf)\<rparr>)"
    using fold_kubeadm [of "savedKinds cf" ?x parts] dist last c by (cases cf) (simp add: newClusterFile_def)
  finally show ?thesis .
qed



text \<open>A library that knows two documents: a cluster and a kubelet configuration.\<close>

definition twoDocs :: clusterfileLib where
  "twoDocs = \<lparr>cl_Decode = (\<lambda>s. map Inr (strings_Split s docSep)),
     cl_TypeMeta = (\<lambda>s. if s = ''c'' then Inr (''Cluster'', ''v2'') else Inr (''KubeletConfiguration'', ''v1beta1'')),
     cl_Cluster = (\<lambda>_. Inr (projr (checkAndFillCluster svcCluster))), cl_Config = (\<lambda>_. Inl (Errorf ''no config'' [])),
     cl_Plugin = (\<lambda>_. Inl (Errorf ''no plugin'' [])), cl_Application = (\<lambda>_. Inl (Errorf ''no application'' [])),
     cl_Kubeadm = (\<lambda>_ _. Inr id), cl_marshalCluster = (\<lambda>_. Inr ''c''), cl_marshalConfig = (\<lambda>_. Inr []),
     cl_marshalPlugin = (\<lambda>_. Inr []), cl_marshalApplication = (\<lambda>_. Inr []), cl_marshalKubeadm = (\<lambda>_ _. Inr ''k'')\<rparr>"



end
