(* ===== verification/Kube_Properties.thy ===== *)
theory Kube_Properties
  imports Kube_Runtime
begin

text \<open>
  Correctness of the kubeadm runtime: the decoder of kubeadm's output, what scaling down may
  touch, the configurations of the masters that join, and progress of a reset.
\<close>

section \<open>The join command\<close>

text \<open>A word of the command that is a value, not a flag.\<close>

definition valueWord :: "string \<Rightarrow> bool" where
  "valueWord s \<longleftrightarrow> CHR '' '' \<notin> set s \<and> \<not> strings_Contains (cleanWord s) ''--''"

lemma valueWord_no_flag:
  "valueWord s \<Longrightarrow> \<not> strings_Contains (cleanWord s) (CHR ''-'' # CHR ''-'' # f)"
proof -
  have "sublist ''--'' (CHR ''-'' # CHR ''-'' # f)" by (simp add: sublist_Cons_right)
  then show "valueWord s \<Longrightarrow> ?thesis"
    unfolding valueWord_def strings_Contains_sublist by (meson sublist_order.order_trans)
qed

definition lineBreak :: string where "lineBreak = backslash @ ''\<newline>'' @ [CHR 0x09]"

definition joinWords :: "string \<Rightarrow> string \<Rightarrow> string \<Rightarrow> string \<Rightarrow> string list" where
  "joinWords ep token hash key = [[], ep, ''--token'', token, lineBreak @ ''--discovery-token-ca-cert-hash'', hash,
     lineBreak @ ''--control-plane'', ''--certificate-key'', key]"

lemma lineBreak_words:
  "cleanWord (lineBreak @ ''--discovery-token-ca-cert-hash'') = ''--discovery-token-ca-cert-hash''"
  "cleanWord (lineBreak @ ''--control-plane'') = ''--control-plane''"
  "cleanWord ''--token'' = ''--token''" "cleanWord ''--certificate-key'' = ''--certificate-key''" "cleanWord [] = []"
  by code_simp+

lemma decodeJoin_words:
  assumes "valueWord ep" "valueWord token" "valueWord hash" "valueWord key" "64 \<le> length key"
  shows "decodeJoin_go (joinWords ep token hash key) t0 k0 = Inr (t0\<lparr>bt_Token := token, bt_CACertHashes := [hash]\<rparr>, take 64 key)"
  using assms unfolding joinWords_def
  by (simp add: lineBreak_words valueWord_no_flag elementAt1_def not_le)

text \<open>
  The output of kubeadm is decoded as printed: whatever stands before the first join command
  and after it (a second command for the workers included), its token, the hash of the
  certificate authority and its certificate key are returned, line breaks of the command
  notwithstanding.
\<close>

theorem join_output_decoded:
  assumes words: "valueWord ep" "valueWord token" "valueWord hash" "valueWord (key @ ''\<newline>\<newline>'')" and key: "length key = 64"
    and command: "command = strings_Join (joinWords ep token hash (key @ ''\<newline>\<newline>'')) '' ''"
    and first: "\<not> strings_Contains (pre @ butlast ''kubeadm join'') ''kubeadm join''"
      "\<not> strings_Contains (command @ ''Please note'' @ mid @ butlast ''kubeadm join'') ''kubeadm join''"
      "\<not> strings_Contains (command @ butlast ''Please note'') ''Please note''"
    and rest: "rest = [] \<or> (\<exists>r. rest = ''kubeadm join'' @ r)"
  shows "decodeMaster0Output (pre @ ''kubeadm join'' @ command @ ''Please note'' @ mid @ rest)
    = Inr (\<lparr>bt_Token = token, bt_APIServerEndpoint = [], bt_CACertHashes = [hash]\<rparr>, key)"
proof -
  let ?cmd = "command @ ''Please note'' @ mid"
  have "hd (strings_Split (?cmd @ rest) ''kubeadm join'') = ?cmd"
    by (rule hd_split_none_or_first) (use first rest in auto)
  then have "elementAt1 (tl (strings_Split (pre @ ''kubeadm join'' @ command @ ''Please note'' @ mid @ rest) ''kubeadm join'')) = Inr ?cmd"
    using strings_Split_first [OF _ first(1), of "?cmd @ rest"]
    by (auto simp: elementAt1_def split: list.split)
  moreover have "hd (strings_Split ?cmd ''Please note'') = command"
    using strings_Split_first [OF _ first(3)] by simp
  moreover have "strings_Split command '' '' = joinWords ep token hash (key @ ''\<newline>\<newline>'')"
    unfolding command by (rule strings_Split_Join)
      (use words in \<open>auto simp: joinWords_def valueWord_def lineBreak_def backslash_def\<close>)
  ultimately show ?thesis
    using decodeJoin_words [OF words] key
    by (simp add: decodeMaster0Output_def decodeJoinCmd_def emptyToken_def)
qed

theorem join_output_decoded_witness:
  "decodeMaster0Output (''ok '' @ ''kubeadm join'' @ strings_Join (joinWords ''lb:6443'' ''ab.cd'' ''sha256:77'' (replicate 64 (CHR ''f'') @ ''\<newline>\<newline>'')) '' ''
      @ ''Please note'' @ ''.'' @ ''kubeadm join'' @ '' lb:6443'')
    = Inr (\<lparr>bt_Token = ''ab.cd'', bt_APIServerEndpoint = [], bt_CACertHashes = [''sha256:77'']\<rparr>, replicate 64 (CHR ''f''))"
  by (rule join_output_decoded [OF _ _ _ _ _ refl]) ((rule disjI2, rule exI, rule refl) | code_simp)+

section \<open>Scaling down\<close>

text \<open>
  What a scale-down may do to the hosts: run the clean-up on a host to delete, delete node
  objects on the first remaining master, and reconfigure the load balancer of the remaining
  workers.
\<close>

definition scaleDownAction :: "KubeRuntime \<Rightarrow> net_ip list \<Rightarrow> net_ip list \<Rightarrow> action \<Rightarrow> bool" where
  "scaleDownAction k ms ws a \<longleftrightarrow>
     (let remain = RemoveIPs (GetHostIPListByRole (kr_infra k) MASTER) ms;
          clean = [RemoteCleanK8sOnHost (vlogToStr (kr_Vlog k)), RemoteRemoveAPIServerEtcHost (kr_APIServerDomain k),
                   RemoteCleanCustomizeCRISocket] in
      action_host a = None
      \<or> (\<exists>m \<in> set ms. a = CmdAsyncOn m [] clean)
      \<or> (\<exists>n \<in> set ws. a = CmdAsyncOn n [] (clean @ [RemoteDelRoute (getAPIServerVIP k) n]))
      \<or> (\<exists>name. a = CmdAsyncOn (hd remain) [] [KubeDeleteNode name] \<and> \<not> IsInIPList (hd remain) ms)
      \<or> (\<exists>n \<in> set (RemoveIPs (GetHostIPListByRole (kr_infra k) NODE) ws). \<exists>ipvs pod. a = CmdAsyncOn n []
            [ipvs, pod, CommandSetHostAlias (kr_APIServerDomain k) (ip_String (getAPIServerVIP k))]))"

lemma obeys_client: "(\<And>a. action_host a = None \<Longrightarrow> P a) \<Longrightarrow> obeys P (getNodeNameByCmd host)"
  unfolding getNodeNameByCmd_def kube_GetCurrentRuntimeDriver_def NewKubeDriver_def GetClientFromConfig_def by auto

lemma obeys_CmdAsync: "P (CmdAsyncOn host e cmds) \<Longrightarrow> obeys P (drv_CmdAsync d host e cmds)"
  unfolding drv_CmdAsync_def by (auto intro!: obeys_withClient)

lemma obeys_deleteFromCluster:
  assumes "\<And>a. action_host a = None \<Longrightarrow> P a" and "P (CmdAsyncOn host [] cmds)"
    and "\<And>m name. rm = Some m \<Longrightarrow> P (CmdAsyncOn m [] [KubeDeleteNode name])"
  shows "obeys P (deleteFromCluster k what host rm cmds)"
  unfolding deleteFromCluster_def using assms by (auto intro!: obeys_CmdAsync obeys_client)

lemma obeys_kube_configureLvs_hosts:
  assumes "\<And>n ipvs pod. n \<in> set cs \<Longrightarrow> P (CmdAsyncOn n [] [ipvs, pod, CommandSetHostAlias (kr_APIServerDomain k) (ip_String (getAPIServerVIP k))])"
  shows "obeys P (kube_configureLvs kx k ms cs)"
  unfolding kube_configureLvs_def Let_def using assms by (auto intro!: obeys_CmdAsync)

text \<open>
  C7. Scaling down never removes the last master and never touches more than it should: when
  every master is to be deleted the call fails before any action, and otherwise a host to delete
  only gets the clean-up commands, node objects are only deleted on the first remaining master,
  and the only other hosts reached are the remaining workers, for their load balancer.
\<close>

theorem kube_scale_down_safe:
  "if RemoveIPs (GetHostIPListByRole (kr_infra k) MASTER) ms = [] then kube_ScaleDown kx k ms ws w = (Inl allMastersErr, w)
   else obeys (scaleDownAction k ms ws) (kube_ScaleDown kx k ms ws)"
proof (cases "RemoveIPs (GetHostIPListByRole (kr_infra k) MASTER) ms")
  case Nil
  then show ?thesis by (simp add: kube_ScaleDown_def throwE_def)
next
  case (Cons m0 rest)
  then have m0: "\<not> IsInIPList m0 ms" by (auto simp: RemoveIPs_def filter_eq_Cons_iff)
  have "obeys (scaleDownAction k ms ws) (deleteMasters k ms (m0 # rest))"
    unfolding deleteMasters_def deleteMaster_def
    by (intro obeys_errgroup obeys_mapErr obeys_deleteFromCluster) (auto simp: scaleDownAction_def Let_def Cons first_opt_def m0)
  moreover have "obeys (scaleDownAction k ms ws) (deleteNodes k ws (m0 # rest))"
    unfolding deleteNodes_def deleteNode_def
    by (intro obeys_errgroup obeys_mapErr obeys_deleteFromCluster) (auto simp: scaleDownAction_def Let_def Cons first_opt_def m0)
  moreover have "obeys (scaleDownAction k ms ws) (kube_configureLvs kx k (m0 # rest) (RemoveIPs (GetHostIPListByRole (kr_infra k) NODE) ws))"
    by (rule obeys_kube_configureLvs_hosts) (auto simp: scaleDownAction_def Let_def)
  ultimately show ?thesis by (auto simp: kube_ScaleDown_def Cons Let_def)
qed

section \<open>The socket of a master\<close>

definition socketAnswer :: "(action \<Rightarrow> string) \<Rightarrow> net_ip \<Rightarrow> string" where
  "socketAnswer ans m = ans (CmdToStringOn m [] GetCustomizeCRISocket [])"

definition lastSocket :: "(action \<Rightarrow> string) \<Rightarrow> string \<Rightarrow> net_ip list \<Rightarrow> string" where
  "lastSocket ans s ms = foldl (\<lambda>s m. if socketAnswer ans m = [] then s else socketAnswer ans m) s ms"

definition writeJoinConfigCmd :: "string \<Rightarrow> string" where
  "writeJoinConfigCmd str = fmt_Sprintf ''mkdir -p /etc/kubernetes && echo \"%s\" > %s'' [str, KubeadmFileYml]"

text \<open>An environment without failures whose answers depend on the question only.\<close>

definition answers :: "(action \<Rightarrow> string) \<Rightarrow> world \<Rightarrow> bool" where
  "answers ans w \<longleftrightarrow> calm w \<and> (\<forall>l a. w_text w l a = ans a)"

lemma answers_log [simp]: "answers ans (w\<lparr>w_log := l\<rparr>) = answers ans w"
  by (simp add: answers_def)

lemma joinMasters_step:
  assumes w: "answers ans w" and m: "sshConfigs (kr_infra k) (ip_String m) \<noteq> None" and host: "ans (CmdToStringOn m [] ''uname -n'' []) \<noteq> []"
    and yaml: "\<And>c. \<exists>y. kx_joinYaml kx c = Inr y" and cp: "kc_ControlPlane conf = Some cp"
  shows "\<exists>as conf' y. joinMasters_go kx k master0 token key (m # ms) conf w
      = joinMasters_go kx k master0 token key ms conf' (w\<lparr>w_log := w_log w @ as\<rparr>)
    \<and> kx_joinYaml kx conf' = Inr y \<and> CmdAsyncOn m [] [writeJoinConfigCmd y] \<in> set as
    \<and> kc_JoinCRISocket conf' = lastSocket ans (kc_JoinCRISocket conf) [m]
    \<and> kc_ControlPlane conf' = Some (cp\<lparr>jc_AdvertiseAddress := ip_String m, jc_BindPort := 6443, jc_CertificateKey := key\<rparr>)
    \<and> kc_BootstrapToken conf' = Some (token\<lparr>bt_APIServerEndpoint := net_JoinHostPort (ip_String master0) ''6443''\<rparr>)"
proof -
  define s where "s = (if socketAnswer ans m = [] then None else Some (socketAnswer ans m))"
  define conf1 where "conf1 = (setJoinSocket s conf)\<lparr>kc_BootstrapToken := Some (token\<lparr>bt_APIServerEndpoint := net_JoinHostPort (ip_String master0) ''6443''\<rparr>),
     kc_ControlPlane := Some (cp\<lparr>jc_AdvertiseAddress := ip_String m, jc_BindPort := 6443, jc_CertificateKey := key\<rparr>)\<rparr>"
  obtain y where y: "kx_joinYaml kx conf1 = Inr y" using yaml by blast
  obtain c where c: "sshConfigs (kr_infra k) (ip_String m) = Some c" using m by blast
  have quiet: "w_err w l a = None" and reply: "w_text w l a = ans a" for l a using w by (auto simp: answers_def calm_def)
  have host': "GetHostName (kr_infra k) m w = (Inr (strings_ToLower (ans (CmdToStringOn m [] ''uname -n'' []))),
      w\<lparr>w_log := w_log w @ [CmdToStringOn m [] ''uname -n'' []]\<rparr>)"
    using host by (simp add: GetHostName_def drv_CmdToString_def withClient_def c askText_def bindE_def quiet reply returnE_def)
  have socket: "customCRISocket k m (w\<lparr>w_log := l\<rparr>) = (Inr s, w\<lparr>w_log := l @ [CmdToStringOn m [] GetCustomizeCRISocket []]\<rparr>)" for l
    by (simp add: customCRISocket_def drv_CmdToString_def withClient_def c askText_def tryE_def bindE_def quiet reply returnE_def socketAnswer_def s_def)
  have conf': "masterJoinConfig (net_JoinHostPort (ip_String master0) ''6443'') m token key (setJoinSocket s conf) v = (Inr conf1, v)" for v
    using cp by (simp add: masterJoinConfig_def deref_def bindE_def returnE_def setJoinSocket_def conf1_def split: option.split)
  have cmd: "drv_CmdAsync (kr_infra k) m [] cs (w\<lparr>w_log := l\<rparr>) = (Inr (), w\<lparr>w_log := l @ [CmdAsyncOn m [] cs]\<rparr>)" for cs l
    by (simp add: drv_CmdAsync_def withClient_def c perform_def quiet)
  have "\<exists>as. joinMasters_go kx k master0 token key (m # ms) conf w
      = joinMasters_go kx k master0 token key ms conf1 (w\<lparr>w_log := w_log w @ as\<rparr>) \<and> CmdAsyncOn m [] [writeJoinConfigCmd y] \<in> set as"
    apply (simp add: joinMasters_go.simps(2) Let_def bindE_def thenE_def liftR_def mapErr_def host' socket conf' y cmd del: fmt_Sprintf.simps)
    apply (rule exI, rule conjI, rule refl)
    apply (simp add: writeJoinConfigCmd_def del: fmt_Sprintf.simps)
    done
  then obtain as where run: "joinMasters_go kx k master0 token key (m # ms) conf w
      = joinMasters_go kx k master0 token key ms conf1 (w\<lparr>w_log := w_log w @ as\<rparr>)"
    and wrote: "CmdAsyncOn m [] [writeJoinConfigCmd y] \<in> set as" by blast
  have fields: "kc_JoinCRISocket conf1 = lastSocket ans (kc_JoinCRISocket conf) [m]"
    "kc_ControlPlane conf1 = Some (cp\<lparr>jc_AdvertiseAddress := ip_String m, jc_BindPort := 6443, jc_CertificateKey := key\<rparr>)"
    "kc_BootstrapToken conf1 = Some (token\<lparr>bt_APIServerEndpoint := net_JoinHostPort (ip_String master0) ''6443''\<rparr>)"
    by (simp_all add: conf1_def s_def setJoinSocket_def lastSocket_def)
  show ?thesis
    by (intro exI [of _ as] exI [of _ conf1] exI [of _ y] conjI run y wrote fields)
qed

lemma joinMasters_total:
  assumes "answers ans w"
    and "\<forall>x \<in> set ms. sshConfigs (kr_infra k) (ip_String x) \<noteq> None \<and> ans (CmdToStringOn x [] ''uname -n'' []) \<noteq> []"
    and "\<And>c. \<exists>y. kx_joinYaml kx c = Inr y" and "kc_ControlPlane conf = Some cp"
  shows "\<exists>as. joinMasters_go kx k master0 token key ms conf w = (Inr (), w\<lparr>w_log := w_log w @ as\<rparr>)"
  using assms
proof (induction ms arbitrary: w conf cp)
  case Nil
  then show ?case by (auto simp: joinMasters_go.simps(1) returnE_def intro!: exI [of _ "[]"])
next
  case (Cons m ms)
  obtain as conf' where step: "joinMasters_go kx k master0 token key (m # ms) conf w
      = joinMasters_go kx k master0 token key ms conf' (w\<lparr>w_log := w_log w @ as\<rparr>)"
    "kc_ControlPlane conf' = Some (cp\<lparr>jc_AdvertiseAddress := ip_String m, jc_BindPort := 6443, jc_CertificateKey := key\<rparr>)"
    using joinMasters_step [OF Cons.prems(1) _ _ Cons.prems(3,4), of k m master0 token key ms] Cons.prems(2) by auto
  obtain bs where "joinMasters_go kx k master0 token key ms conf' (w\<lparr>w_log := w_log w @ as\<rparr>)
      = (Inr (), w\<lparr>w_log := w_log w @ as @ bs\<rparr>)"
    using Cons.IH [of "w\<lparr>w_log := w_log w @ as\<rparr>" conf', OF _ _ Cons.prems(3) step(2)] Cons.prems(1,2) by auto
  with step(1) show ?case by metis
qed

text \<open>
  Joining masters in an environment without failures: every master gets a configuration with
  its own advertise address and the first master as the endpoint to join through. Its runtime
  socket is the customized socket of the last host, among it and the masters joined before it,
  that has one: a master without a customized socket inherits that of a master before it.
\<close>

theorem join_masters_configs:
  assumes "answers ans w" and "masters = pre @ m # post"
    and "\<forall>x \<in> set masters. sshConfigs (kr_infra k) (ip_String x) \<noteq> None \<and> ans (CmdToStringOn x [] ''uname -n'' []) \<noteq> []"
    and "\<And>c. \<exists>y. kx_joinYaml kx c = Inr y" and "kc_ControlPlane conf = Some cp"
  shows "\<exists>w' conf' y. joinMasters_go kx k master0 token key masters conf w = (Inr (), w')
    \<and> kx_joinYaml kx conf' = Inr y \<and> CmdAsyncOn m [] [writeJoinConfigCmd y] \<in> set (w_log w')
    \<and> kc_JoinCRISocket conf' = lastSocket ans (kc_JoinCRISocket conf) (pre @ [m])
    \<and> map_option jc_AdvertiseAddress (kc_ControlPlane conf') = Some (ip_String m)
    \<and> map_option bt_APIServerEndpoint (kc_BootstrapToken conf') = Some (net_JoinHostPort (ip_String master0) ''6443'')"
  using assms
proof (induction pre arbitrary: masters w conf cp)
  case Nil
  obtain as conf' y where step: "joinMasters_go kx k master0 token key (m # post) conf w
      = joinMasters_go kx k master0 token key post conf' (w\<lparr>w_log := w_log w @ as\<rparr>)"
    "kx_joinYaml kx conf' = Inr y" "CmdAsyncOn m [] [writeJoinConfigCmd y] \<in> set as"
    "kc_JoinCRISocket conf' = lastSocket ans (kc_JoinCRISocket conf) [m]"
    "kc_ControlPlane conf' = Some (cp\<lparr>jc_AdvertiseAddress := ip_String m, jc_BindPort := 6443, jc_CertificateKey := key\<rparr>)"
    "kc_BootstrapToken conf' = Some (token\<lparr>bt_APIServerEndpoint := net_JoinHostPort (ip_String master0) ''6443''\<rparr>)"
    using joinMasters_step [OF Nil.prems(1) _ _ Nil.prems(4,5), of k m master0 token key post] Nil.prems(2,3) by auto
  obtain bs where "joinMasters_go kx k master0 token key post conf' (w\<lparr>w_log := w_log w @ as\<rparr>)
      = (Inr (), w\<lparr>w_log := w_log w @ as @ bs\<rparr>)"
    using joinMasters_total [where ans = ans and k = k and w = "w\<lparr>w_log := w_log w @ as\<rparr>" and ms = post and ?master0.0 = master0 and token = token and key = key, OF _ _ Nil.prems(4) step(5)] Nil.prems(1-3) by auto
  with step Nil.prems(2) show ?case
    by (intro exI [of _ "w\<lparr>w_log := w_log w @ as @ bs\<rparr>"] exI [of _ conf'] exI [of _ y]) simp
next
  case (Cons x pre)
  obtain as conf1 where step: "joinMasters_go kx k master0 token key (x # pre @ m # post) conf w
      = joinMasters_go kx k master0 token key (pre @ m # post) conf1 (w\<lparr>w_log := w_log w @ as\<rparr>)"
    "kc_JoinCRISocket conf1 = lastSocket ans (kc_JoinCRISocket conf) [x]"
    "kc_ControlPlane conf1 = Some (cp\<lparr>jc_AdvertiseAddress := ip_String x, jc_BindPort := 6443, jc_CertificateKey := key\<rparr>)"
    using joinMasters_step [OF Cons.prems(1) _ _ Cons.prems(4,5), of k x master0 token key "pre @ m # post"] Cons.prems(2,3) by auto
  have "lastSocket ans (kc_JoinCRISocket conf) ((x # pre) @ [m]) = lastSocket ans (kc_JoinCRISocket conf1) (pre @ [m])"
    using step(2) by (simp add: lastSocket_def)
  then show ?case
    using Cons.IH [of "w\<lparr>w_log := w_log w @ as\<rparr>" "pre @ m # post" conf1, OF _ refl _ Cons.prems(4) step(3)] Cons.prems(1-3) step(1)
    by simp
qed

text \<open>Parameters for examples: the encoder of join configurations writes the socket only.\<close>

definition demoKube :: kubeExternals where
  "demoKube = \<lparr>kx_codecs = \<lparr>cx_podYaml = (\<lambda>_. Inr ''pod''), cx_daemonUnmarshal = (\<lambda>_. Inr \<lparr>dc_RegistryMirrors = [], dc_others = []\<rparr>),
       cx_daemonMarshal = (\<lambda>_. Inr []), cx_hostsToml = (\<lambda>_. Inr [])\<rparr>,
     kx_decodeFile = demoDecoder [], kx_decodeString = demoDecoder [], kx_DefaultKubeadmConfig = [],
     kx_joinYaml = (\<lambda>c. Inr (kc_JoinCRISocket c)), kx_allYaml = (\<lambda>c. Inr []), kx_inContainer = False,
     kx_IsAlreadyExists = (\<lambda>_. False), kx_debug = False\<rparr>"

definition demoRuntime :: KubeRuntime where
  "demoRuntime = newKubeadmRuntime demoKube emptyKubeadmConfig demoDriver emptyCRInfo ''reg''"

definition demoAnswers :: "action \<Rightarrow> string" where
  "demoAnswers a = (if a = CmdToStringOn [10, 0, 0, 2] [] GetCustomizeCRISocket [] then [] else ''sock'')"

theorem join_masters_configs_witness:
  "\<exists>w'. joinMasters_go demoKube demoRuntime [10, 0, 0, 9] emptyToken [] [[10, 0, 0, 1], [10, 0, 0, 2]]
      (emptyKubeadmConfig\<lparr>kc_ControlPlane := Some \<lparr>jc_AdvertiseAddress = [], jc_BindPort = 0, jc_CertificateKey = []\<rparr>\<rparr>)
      (calmWorld\<lparr>w_text := \<lambda>l. demoAnswers\<rparr>) = (Inr (), w')
    \<and> CmdAsyncOn [10, 0, 0, 2] [] [writeJoinConfigCmd ''sock''] \<in> set (w_log w')"
proof -
  have ans: "answers demoAnswers (calmWorld\<lparr>w_text := \<lambda>l. demoAnswers\<rparr>)"
    by (simp add: answers_def calm_def calmWorld_def)
  have infra: "kr_infra demoRuntime = demoDriver" by (simp add: demoRuntime_def newKubeadmRuntime_def)
  have yaml: "\<exists>y. kx_joinYaml demoKube c = Inr y" for c by (simp add: demoKube_def)
  have "lastSocket demoAnswers [] ([[10, 0, 0, 1]] @ [[10, 0, 0, 2]]) = ''sock''"
    by (simp add: lastSocket_def socketAnswer_def demoAnswers_def)
  then show ?thesis
    using join_masters_configs [OF ans _ _ yaml, where m = "[10, 0, 0, 2]" and pre = "[[10, 0, 0, 1]]" and post = "[]"
        and k = demoRuntime and masters = "[[10, 0, 0, 1], [10, 0, 0, 2]]" and key = "[]" and token = emptyToken and ?master0.0 = "[10, 0, 0, 9]"
        and conf = "emptyKubeadmConfig\<lparr>kc_ControlPlane := Some \<lparr>jc_AdvertiseAddress = [], jc_BindPort = 0, jc_CertificateKey = []\<rparr>\<rparr>"]
      demo_in_cluster
    by (auto simp: infra demoAnswers_def GetCustomizeCRISocket_def demoKube_def emptyKubeadmConfig_def)
qed

section \<open>Reset\<close>

lemma smooth_Cmd [intro!]: "sshConfigs d (ip_String host) \<noteq> None \<Longrightarrow> smooth (drv_Cmd d host e cmd)"
  by (auto simp: drv_Cmd_def withClient_def)

lemma smooth_kube_reset:
  assumes "\<forall>h \<in> set (ms @ ws). sshConfigs (kr_infra k) (ip_String h) \<noteq> None"
  shows "smooth (kube_reset k ms ws)"
  unfolding kube_reset_def deleteVIPRouteIfExist_def Let_def using assms by (auto simp: ball_Un)

lemma ensures_kube_reset:
  assumes "h \<in> set (ms @ ws)"
  shows "ensures (CmdAsyncOn h [] [RemoteCleanK8sOnHost (vlogToStr (kr_Vlog k)), RemoteRemoveAPIServerEtcHost (kr_APIServerDomain k)]) (kube_reset k ms ws)"
  unfolding kube_reset_def Let_def
  by (intro ensures_then_first ensures_errgroup [OF assms]) (auto simp: deleteVIPRouteIfExist_def intro: ensures_drv)

lemma role_hosts_known:
  assumes "NewInfraDriver grow spare c = Inr d"
    and "\<forall>i < length (c_Hosts (Spec c)). spare i = 0 \<or> length (h_Roles (c_Hosts (Spec c) ! i)) \<le> 1"
    and "h \<in> set (GetHostIPListByRole d role)"
  shows "sshConfigs d (ip_String h) \<noteq> None"
proof -
  have "h \<in> set (GetHostIPList d)"
    using driver_role_lists [OF assms(1,2)] assms(3)
    by (auto simp: GetIPSByRole_def ipsOfHostByRole_def split: if_splits)
  with in_cluster_iff [OF assms(1)] show ?thesis by blast
qed

text \<open>
  C35. A reset in an environment without failures succeeds, and the Kubernetes clean-up has then
  run on every master and every worker.
\<close>

theorem reset_cleans_every_host:
  assumes "NewInfraDriver grow spare c = Inr (kr_infra k)"
    and "\<forall>i < length (c_Hosts (Spec c)). spare i = 0 \<or> length (h_Roles (c_Hosts (Spec c) ! i)) \<le> 1" and "calm w"
  shows "\<exists>w'. kube_Reset k w = (Inr (), w') \<and>
    (\<forall>h \<in> set (GetHostIPListByRole (kr_infra k) MASTER) \<union> set (GetHostIPListByRole (kr_infra k) NODE).
       CmdAsyncOn h [] [RemoteCleanK8sOnHost (vlogToStr (kr_Vlog k)), RemoteRemoveAPIServerEtcHost (kr_APIServerDomain k)] \<in> set (w_log w'))"
proof -
  have "smooth (kube_Reset k)"
    unfolding kube_Reset_def using role_hosts_known [OF assms(1,2)] by (intro smooth_kube_reset) auto
  from smoothD [OF this assms(3)] obtain w' where run: "kube_Reset k w = (Inr (), w')" by auto
  moreover have "CmdAsyncOn h [] [RemoteCleanK8sOnHost (vlogToStr (kr_Vlog k)), RemoteRemoveAPIServerEtcHost (kr_APIServerDomain k)] \<in> set (w_log w')"
    if "h \<in> set (GetHostIPListByRole (kr_infra k) MASTER) \<union> set (GetHostIPListByRole (kr_infra k) NODE)" for h
    using ensuresD [OF ensures_kube_reset run [unfolded kube_Reset_def]] that by simp
  ultimately show ?thesis by blast
qed

theorem reset_cleans_every_host_witness:
  "\<exists>w'. kube_Reset demoRuntime calmWorld = (Inr (), w') \<and>
    CmdAsyncOn [10, 0, 0, 2] [] [RemoteCleanK8sOnHost (vlogToStr 0), RemoteRemoveAPIServerEtcHost ''apiserver.cluster.local''] \<in> set (w_log w')"
proof -
  have k: "kr_infra demoRuntime = demoDriver" "kr_Vlog demoRuntime = 0" "kr_APIServerDomain demoRuntime = ''apiserver.cluster.local''"
    by (simp_all add: demoRuntime_def newKubeadmRuntime_def demoKube_def)
  have node: "[10, 0, 0, 2] \<in> set (GetHostIPListByRole demoDriver NODE)"
    using driver_role_lists(1) [OF demoDriver, of NODE] by (simp add: GetIPSByRole_def ipsOfHostByRole_def demo_simps)
  obtain w' where "kube_Reset demoRuntime calmWorld = (Inr (), w')"
    and "\<forall>h \<in> set (GetHostIPListByRole demoDriver MASTER) \<union> set (GetHostIPListByRole demoDriver NODE).
       CmdAsyncOn h [] [RemoteCleanK8sOnHost (vlogToStr 0), RemoteRemoveAPIServerEtcHost ''apiserver.cluster.local''] \<in> set (w_log w')"
    using reset_cleans_every_host [of "\<lambda>c n. n" "\<lambda>i. 0" demoCluster demoRuntime calmWorld] demoDriver unfolding k by auto
  with node show ?thesis by blast
qed

end
