(* ===== verification/Cluster_Runtime.thy ===== *)
theory Cluster_Runtime
  imports Hooks Kube_Properties
begin

text \<open>
  Model of \<^verbatim>\<open>pkg/cluster-runtime\<close>: the life cycle of a cluster as the composition of the hooks,
  the image distributor, the container-runtime installer, the registry and the Kubernetes
  runtime (\<^verbatim>\<open>installer.go\<close>, \<^verbatim>\<open>scale.go\<close>, \<^verbatim>\<open>uninstall.go\<close>, \<^verbatim>\<open>upgrader.go\<close>, \<^verbatim>\<open>rollback.go\<close>,
  \<^verbatim>\<open>utils.go\<close>).

  The Kubernetes runtimes are values of the interface \<^verbatim>\<open>runtime.Installer\<close>, here the record
  \<open>RuntimeInstaller\<close>; what the installer does with the API server are actions on node objects
  and config maps. The record \<open>externals\<close> collects the parameters: the encoders, the sorter,
  the constructors of the two runtimes and the error classification of the API client.
\<close>

section \<open>Parameters and state\<close>

record externals =
  ex_codecs :: codecs
  ex_sorter :: "HookConfig list \<Rightarrow> HookConfig list"
  ex_NewKubeadmRuntime :: newRuntime
  ex_NewK0sRuntime :: newRuntime
  ex_home :: string
  ex_IsAlreadyExists :: "gerror \<Rightarrow> bool"
  ex_registryYaml :: "RegistryInfo \<Rightarrow> string res"

record InstallInfo =
  ii_ContainerRuntimeType :: string
  ii_ClusterRuntimeType :: string

record Installer =
  in_Distributor :: Distributor
  in_Plugins :: "Plugin list"
  in_infraDriver :: SSHInfraDriver
  in_containerRuntimeInstaller :: DefaultInstaller
  in_clusterRuntimeType :: string
  in_hooks :: hooks
  in_regConfig :: Registry

definition CRILabel :: string where "CRILabel = ''cluster.alpha.sealer.io/container-runtime-type''"
definition CRTLabel :: string where "CRTLabel = ''cluster.alpha.sealer.io/cluster-runtime-type''"

section \<open>Construction\<close>

definition getCRIInstaller :: "externals \<Rightarrow> string \<Rightarrow> SSHInfraDriver \<Rightarrow> DefaultInstaller res" where
  "getCRIInstaller ex containerRuntime infraDriver =
     (if containerRuntime = Docker then cri_NewInstaller (ex_home ex) Docker infraDriver
      else if containerRuntime = Containerd then cri_NewInstaller (ex_home ex) Containerd infraDriver
      else Inl (Errorf ''not support container runtime %s'' [containerRuntime]))"

definition getClusterRuntimeInstaller :: "externals \<Rightarrow> string \<Rightarrow> newRuntime" where
  "getClusterRuntimeInstaller ex clusterRuntimeType driver crInfo registryURL =
     (if clusterRuntimeType = K8s then ex_NewKubeadmRuntime ex driver crInfo registryURL
      else if clusterRuntimeType = K0s then ex_NewK0sRuntime ex driver crInfo registryURL
      else Inl (Errorf ''not support cluster runtime %s'' [clusterRuntimeType]))"

definition NewInstaller :: "externals \<Rightarrow> SSHInfraDriver \<Rightarrow> Distributor \<Rightarrow> Plugin list \<Rightarrow> InstallInfo \<Rightarrow> Installer res" where
  "NewInstaller ex infraDriver distributor plugins installInfo =
     bindR (getCRIInstaller ex (ii_ContainerRuntimeType installInfo) infraDriver) (\<lambda>cri.
       bindR (transferPluginsToHooks plugins) (\<lambda>hs.
         Inr \<lparr>in_Distributor = distributor, in_Plugins = plugins, in_infraDriver = infraDriver,
              in_containerRuntimeInstaller = cri, in_clusterRuntimeType = ii_ClusterRuntimeType installInfo,
              in_hooks = hs, in_regConfig = GetClusterRegistry infraDriver\<rparr>))"

definition GetClusterInstallInfo :: "env \<Rightarrow> string \<Rightarrow> InstallInfo" where
  "GetClusterInstallInfo imageLabels criConfigType =
     (let cri0 = (case map_of imageLabels CRILabel of None \<Rightarrow> [] | Some v \<Rightarrow> v);
          cri1 = (if cri0 = [] then Docker else cri0);
          cri = (if criConfigType \<noteq> [] then criConfigType else cri1);
          crt0 = (case map_of imageLabels CRTLabel of None \<Rightarrow> [] | Some v \<Rightarrow> v)
      in \<lparr>ii_ContainerRuntimeType = cri, ii_ClusterRuntimeType = (if crt0 = [] then K8s else crt0)\<rparr>)"

definition GetClusterConfPath :: "env \<Rightarrow> string" where
  "GetClusterConfPath labels =
     (let crt0 = (case map_of labels CRTLabel of None \<Rightarrow> [] | Some v \<Rightarrow> v);
          crt = (if crt0 = [] then K8s else crt0)
      in if crt = K8s then ''/etc/kubernetes/admin.conf''
         else if crt = K0s then ''/var/lib/k0s/pki/admin.conf'' else ''/etc/kubernetes/admin.conf'')"

section \<open>Helpers\<close>

text \<open>
  The worker list has a length computed from the number of distinct masters and is filled by
  index: a length below zero and an index beyond the end panic, places left over stay nil.
\<close>

definition getWorkerIPList :: "SSHInfraDriver \<Rightarrow> net_ip list res" where
  "getWorkerIPList d =
     (let masters = remdups (map ip_String (GetHostIPListByRole d MASTER));
          allHosts = GetHostIPList d;
          size = int (length allHosts) - int (length masters);
          ws = filter (\<lambda>ip. ip_String ip \<notin> set masters) allHosts
      in if size < 0 then Inl (Panic ''makeslice: len out of range'')
         else if int (length ws) > size then Inl (Panic ''index out of range'')
         else Inr (ws @ replicate (nat size - length ws) []))"

definition LoadToRegistry :: "SSHInfraDriver \<Rightarrow> Distributor \<Rightarrow> unit io" where
  "LoadToRegistry d dist = (case g_Local (GetClusterRegistry d) of
       None \<Rightarrow> returnE ()
     | Some reg \<Rightarrow> (case GetHostIPListByRole d MASTER of
         [] \<Rightarrow> throwE (Errorf ''local registry host can not be nil'' [])
       | master0 # rest \<Rightarrow> bindE (deref (l_HA reg)) (\<lambda>ha.
           DistributeRegistry dist (if \<not> ha then [master0] else master0 # rest)
             (filepath_Join [GetClusterRootfsPath d, ''registry'']))))"

text \<open>The hosts that cannot be reached, with the error that names them if there are any.\<close>

fun checkSSH_go :: "SSHInfraDriver \<Rightarrow> net_ip list \<Rightarrow> net_ip list \<Rightarrow> net_ip list io" where
  "checkSSH_go d [] failed = returnE failed"
| "checkSSH_go d (n # ns) failed = bindE (tryE (drv_CmdAsync d n [] [''ls >> /dev/null'']))
     (\<lambda>r. checkSSH_go d ns (case r of Inl _ \<Rightarrow> failed @ [n] | Inr _ \<Rightarrow> failed))"

definition unreachableErr :: "net_ip list \<Rightarrow> gerror option" where
  "unreachableErr failed = (if length failed > 0
     then Some (Errorf (''failed to connect node: %v, maybe you have change its sshpasswd, if so, please correct passwd via cmd ''
         @ ''(kubectl -n kube-system edit cm sealer-clusterfile) or check other errors by yourself'')
       [strings_Join (map ip_String failed) '' ''])
     else None)"

definition CheckNodeSSH :: "SSHInfraDriver \<Rightarrow> net_ip list \<Rightarrow> (net_ip list \<times> gerror option) io" where
  "CheckNodeSSH d clientHosts = bindE (checkSSH_go d clientHosts []) (\<lambda>failed.
     returnE (failed, unreachableErr failed))"

definition requireSSH :: "SSHInfraDriver \<Rightarrow> net_ip list \<Rightarrow> (gerror \<Rightarrow> gerror) \<Rightarrow> unit io" where
  "requireSSH d hosts wrap = bindE (CheckNodeSSH d hosts) (\<lambda>(_, err).
     case err of None \<Rightarrow> returnE () | Some e \<Rightarrow> throwE (wrap e))"

section \<open>Node objects\<close>

definition getAddress :: "NodeAddress list \<Rightarrow> string" where
  "getAddress addresses = (case find (\<lambda>v. strings_EqualFold (na_Type v) ''InternalIP'') addresses of
       None \<Rightarrow> [] | Some v \<Rightarrow> na_Address v)"

definition nodesByAddress :: "k8s_Node list \<Rightarrow> (string \<rightharpoonup> k8s_Node)" where
  "nodesByAddress nodes = fold (\<lambda>n m. m(getAddress (n_Addresses n) \<mapsto> n)) nodes Map.empty"

definition putLabels :: "k8s_Node \<Rightarrow> env \<Rightarrow> k8s_Node io" where
  "putLabels node labels = (case n_Labels node of
       None \<Rightarrow> throwE (Panic ''assignment to entry in nil map'')
     | Some m \<Rightarrow> returnE (node\<lparr>n_Labels := Some (fold (\<lambda>(k, v) e. env_put k v e) labels m)\<rparr>))"

definition genRoleLabel :: "string \<Rightarrow> string" where
  "genRoleLabel role = fmt_Sprintf ''node-role.kubernetes.io/%s'' [role]"

definition setRoles :: "Installer \<Rightarrow> unit io" where
  "setRoles i = bindE askNodes (\<lambda>nodes. forE nodes (\<lambda>node. forE (n_Addresses node) (\<lambda>address.
     if na_Type address \<noteq> ''InternalIP'' then returnE ()
     else (let roles = GetRoleListByHostIP (in_infraDriver i) (na_Address address) in
       if length roles = 0 then returnE ()
       else bindE (putLabels node (map (\<lambda>r. (genRoleLabel r, [])) roles)) (\<lambda>newNode. perform (PatchNode node newNode))))))"

definition setNodeLabels :: "Installer \<Rightarrow> net_ip list \<Rightarrow> unit io" where
  "setNodeLabels i hosts =
     bindE (mapErr (Wrapf ''failed to list cluster nodes: %v'' []) askNodes) (\<lambda>nodes.
       forE hosts (\<lambda>ip.
         let labels = GetHostLabels (in_infraDriver i) ip in
         if length labels = 0 then returnE ()
         else (case nodesByAddress nodes (ip_String ip) of
             None \<Rightarrow> returnE ()
           | Some node \<Rightarrow> bindE (putLabels node labels) (\<lambda>newNode.
               mapErr (Wrapf ''failed to label cluster nodes %s: %v'' [ip_String ip])
                 (perform (UpdateNode (newNode\<lparr>n_ResourceVersion := []\<rparr>)))))))"

definition applyTaint :: "Taint list \<Rightarrow> Taint \<Rightarrow> Taint list \<Rightarrow> Taint list" where
  "applyTaint taints taint cur =
     (if strings_Contains (t_Key taint) ''-'' then fst (DeleteTaintsByKey cur (strings_TrimSuffix (t_Key taint) ''-''))
      else if strings_Contains (t_Effect taint) ''-'' then fst (DeleteTaint cur taint)
      else taints)"

definition setNodeTaints :: "Installer \<Rightarrow> net_ip list \<Rightarrow> unit io" where
  "setNodeTaints i hosts =
     bindE (mapErr (Wrapf ''failed to list cluster nodes: %v'' []) askNodes) (\<lambda>nodes.
       forE hosts (\<lambda>ip.
         let taints = GetHostTaints (in_infraDriver i) ip in
         if length taints = 0 then returnE ()
         else (case nodesByAddress nodes (ip_String ip) of
             None \<Rightarrow> returnE ()
           | Some k8snode \<Rightarrow> Retry 10 (perform (UpdateNode
               (k8snode\<lparr>n_Taints := fold (applyTaint taints) taints (n_Taints k8snode), n_ResourceVersion := []\<rparr>))))))"

definition saveRegistryInfo :: "externals \<Rightarrow> RegistryInfo \<Rightarrow> unit io" where
  "saveRegistryInfo ex registryInfo =
     bindE (liftR (ex_registryYaml ex registryInfo)) (\<lambda>info.
       let dat = [(''registry'', info)] in
       bindE (tryE (perform (CreateConfigMap ''kube-system'' ''sealer-registry'' dat))) (\<lambda>r. case r of
           Inr _ \<Rightarrow> returnE ()
         | Inl err \<Rightarrow> if \<not> ex_IsAlreadyExists ex err then throwE (Wrapf ''unable to create configmap: %v'' [] err)
             else mapErr (Wrapf ''unable to update configmap: %v'' [])
               (perform (UpdateConfigMap ''kube-system'' ''sealer-registry'' dat))))"

section \<open>The life cycle\<close>

abbreviation hostHook :: "externals \<Rightarrow> Installer \<Rightarrow> string \<Rightarrow> net_ip list \<Rightarrow> unit io" where
  "hostHook ex i phase hosts \<equiv> runHostHook (ex_sorter ex) (in_hooks i) (in_infraDriver i) phase hosts"

abbreviation clusterHook :: "externals \<Rightarrow> Installer \<Rightarrow> net_ip \<Rightarrow> string \<Rightarrow> unit io" where
  "clusterHook ex i master0 phase \<equiv> runClusterHook (ex_sorter ex) (in_hooks i) (in_infraDriver i) master0 phase"

abbreviation crInfo :: "Installer \<Rightarrow> ContainerRuntimeInfo" where
  "crInfo i \<equiv> cri_GetInfo (in_containerRuntimeInstaller i)"

text \<open>The deploy hosts of the registry at install, upgrade and rollback.\<close>

definition deployRegistry :: "Installer \<Rightarrow> net_ip list \<Rightarrow> net_ip \<Rightarrow> net_ip list io" where
  "deployRegistry i masters master0 = (case g_Local (in_regConfig i) of
       None \<Rightarrow> returnE []
     | Some reg \<Rightarrow> (let installer = reg_NewInstaller [] reg (in_infraDriver i) (in_Distributor i) in
         bindE (deref (l_HA reg)) (\<lambda>ha.
           if ha then Reconcile installer masters else Reconcile installer [master0])))"

definition newConfigurator :: "externals \<Rightarrow> Installer \<Rightarrow> net_ip list \<Rightarrow> Configurator io" where
  "newConfigurator ex i deployHosts = liftR (NewConfigurator (ex_codecs ex) deployHosts (crInfo i) (in_regConfig i)
     (in_infraDriver i) (in_Distributor i))"

definition newRuntimeInstaller :: "externals \<Rightarrow> Installer \<Rightarrow> Configurator \<Rightarrow> RuntimeInstaller io" where
  "newRuntimeInstaller ex i cf = liftR (getClusterRuntimeInstaller ex (in_clusterRuntimeType i) (in_infraDriver i)
     (crInfo i) (rd_URL (cf_GetDriver cf)))"

definition Install :: "externals \<Rightarrow> Installer \<Rightarrow> unit io" where
  "Install ex i =
     (let d = in_infraDriver i; masters = GetHostIPListByRole d MASTER; rootfs = GetClusterRootfsPath d in
      bindE (firstE masters) (\<lambda>master0.
      bindE (liftR (getWorkerIPList d)) (\<lambda>workers.
      let all = masters @ workers in
      thenE (SetClusterHostAliases d all)
      (thenE (Distribute (in_Distributor i) all rootfs)
      (thenE (clusterHook ex i master0 PreInstallCluster)
      (thenE (hostHook ex i PreInitHost all)
      (thenE (cri_InstallOn (in_containerRuntimeInstaller i) all)
      (bindE (deployRegistry i masters master0) (\<lambda>deployHosts.
       bindE (newConfigurator ex i deployHosts) (\<lambda>registryConfigurator.
       thenE (cf_InstallOn registryConfigurator masters workers)
       (bindE (cf_GetRegistryInfo registryConfigurator) (\<lambda>registryInfo.
        bindE (newRuntimeInstaller ex i registryConfigurator) (\<lambda>kubeRuntimeInstaller.
        thenE (rt_Install kubeRuntimeInstaller)
        (thenE (hostHook ex i PostInitHost all)
        (thenE (clusterHook ex i master0 PostInstallCluster)
        (thenE (rt_GetCurrentRuntimeDriver kubeRuntimeInstaller)
        (thenE (setRoles i)
        (thenE (setNodeLabels i all)
        (thenE (setNodeTaints i all)
               (saveRegistryInfo ex registryInfo))))))))))))))))))))"

definition haDeploy :: "Installer \<Rightarrow> net_ip \<Rightarrow> net_ip list \<Rightarrow> net_ip list \<Rightarrow> net_ip list io" where
  "haDeploy i master0 current desired = (case g_Local (in_regConfig i) of
       None \<Rightarrow> returnE [master0]
     | Some reg \<Rightarrow> bindE (deref (l_HA reg)) (\<lambda>ha.
         if ha then Reconcile (reg_NewInstaller current reg (in_infraDriver i) (in_Distributor i)) desired
         else returnE [master0]))"

definition ScaleUp :: "externals \<Rightarrow> Installer \<Rightarrow> net_ip list \<Rightarrow> net_ip list \<Rightarrow> RegistryDriver io" where
  "ScaleUp ex i newMasters newWorkers =
     (let d = in_infraDriver i; masters = GetHostIPListByRole d MASTER; rootfs = GetClusterRootfsPath d;
          all = newMasters @ newWorkers in
      bindE (firstE masters) (\<lambda>master0.
      bindE (liftR (getWorkerIPList d)) (\<lambda>workers.
      thenE (requireSSH d all id)
      (thenE (whenE (length newMasters \<noteq> 0) (requireSSH d workers id))
      (thenE (SetClusterHostAliases d all)
      (thenE (Distribute (in_Distributor i) all rootfs)
      (thenE (clusterHook ex i master0 PreScaleUpCluster)
      (thenE (hostHook ex i PreInitHost all)
      (thenE (cri_InstallOn (in_containerRuntimeInstaller i) all)
      (bindE (haDeploy i master0 (RemoveIPs masters newMasters) masters) (\<lambda>registryDeployHosts.
       bindE (newConfigurator ex i registryDeployHosts) (\<lambda>registryConfigurator.
       thenE (cf_InstallOn registryConfigurator newMasters newWorkers)
       (bindE (newRuntimeInstaller ex i registryConfigurator) (\<lambda>kubeRuntimeInstaller.
        thenE (rt_ScaleUp kubeRuntimeInstaller newMasters newWorkers)
        (thenE (hostHook ex i PostInitHost all)
        (thenE (clusterHook ex i master0 PostScaleUpCluster)
        (thenE (rt_GetCurrentRuntimeDriver kubeRuntimeInstaller)
        (thenE (setRoles i)
        (thenE (setNodeLabels i all)
        (thenE (setNodeTaints i all)
               (returnE (cf_GetDriver registryConfigurator))))))))))))))))))))))"

definition resetAndScaleDown :: "externals \<Rightarrow> Installer \<Rightarrow> RuntimeInstaller \<Rightarrow> Configurator \<Rightarrow> net_ip list \<Rightarrow> net_ip list \<Rightarrow> unit io" where
  "resetAndScaleDown ex i kubeRuntimeInstaller registryConfigurator mastersToDelete workersToDelete =
     (let allToDelete = mastersToDelete @ workersToDelete in
      thenE (hostHook ex i PreCleanHost allToDelete)
      (thenE (rt_ScaleDown kubeRuntimeInstaller mastersToDelete workersToDelete)
      (thenE (cf_UninstallFrom registryConfigurator mastersToDelete workersToDelete)
      (thenE (cri_UnInstallFrom (in_containerRuntimeInstaller i) allToDelete)
      (thenE (hostHook ex i PostCleanHost allToDelete)
      (thenE (DeleteClusterHostAliases (in_infraDriver i) allToDelete)
             (Restore (in_Distributor i) (GetClusterBasePath (in_infraDriver i)) allToDelete)))))))"

definition onlyScaleDown :: "RuntimeInstaller \<Rightarrow> net_ip list \<Rightarrow> net_ip list \<Rightarrow> unit io" where
  "onlyScaleDown kubeRuntimeInstaller mastersToDelete workersToDelete =
     rt_ScaleDown kubeRuntimeInstaller mastersToDelete workersToDelete"

definition ScaleDown :: "externals \<Rightarrow> Installer \<Rightarrow> net_ip list \<Rightarrow> net_ip list \<Rightarrow> RegistryDriver io" where
  "ScaleDown ex i mastersToDelete workersToDelete =
     (let d = in_infraDriver i; masters = GetHostIPListByRole d MASTER in
      bindE (firstE masters) (\<lambda>master0.
      bindE (liftR (getWorkerIPList d)) (\<lambda>workers.
      let remainWorkers = RemoveIPs workers workersToDelete in
      bindE (haDeploy i master0 masters (RemoveIPs masters mastersToDelete)) (\<lambda>registryDeployHosts.
      bindE (newConfigurator ex i registryDeployHosts) (\<lambda>registryConfigurator.
      bindE (newRuntimeInstaller ex i registryConfigurator) (\<lambda>kubeRuntimeInstaller.
      thenE (rt_GetCurrentRuntimeDriver kubeRuntimeInstaller)
      (thenE (whenE (length mastersToDelete \<noteq> 0) (requireSSH d remainWorkers
         (Wrapf (''because master list changed, we need connect to all existing workers to maintain some configs, ''
           @ ''but failed: %v'') [])))
      (bindE (CheckNodeSSH d mastersToDelete) (\<lambda>(disconnetedMasters, _).
       bindE (CheckNodeSSH d workersToDelete) (\<lambda>(disconnetedWorkers, _).
       thenE (resetAndScaleDown ex i kubeRuntimeInstaller registryConfigurator
               (RemoveIPs mastersToDelete disconnetedMasters) (RemoveIPs workersToDelete disconnetedWorkers))
       (thenE (onlyScaleDown kubeRuntimeInstaller disconnetedMasters disconnetedWorkers)
              (returnE (cf_GetDriver registryConfigurator)))))))))))))"

definition cleanRegistry :: "Installer \<Rightarrow> net_ip list \<Rightarrow> net_ip \<Rightarrow> unit io" where
  "cleanRegistry i masters master0 = (case g_Local (in_regConfig i) of
       None \<Rightarrow> returnE ()
     | Some reg \<Rightarrow> bindE (deref (l_HA reg)) (\<lambda>ha.
         thenE (whenE ha (reg_Clean (reg_NewInstaller masters reg (in_infraDriver i) (in_Distributor i))))
               (reg_Clean (reg_NewInstaller [master0] reg (in_infraDriver i) (in_Distributor i)))))"

definition UnInstall :: "externals \<Rightarrow> Installer \<Rightarrow> unit io" where
  "UnInstall ex i =
     (let d = in_infraDriver i; masters = GetHostIPListByRole d MASTER in
      bindE (firstE masters) (\<lambda>master0.
      bindE (liftR (getWorkerIPList d)) (\<lambda>workers.
      let all = masters @ workers in
      thenE (requireSSH d all id)
      (thenE (clusterHook ex i master0 PreUnInstallCluster)
      (thenE (hostHook ex i PreCleanHost all)
      (bindE (liftR (getClusterRuntimeInstaller ex (in_clusterRuntimeType i) d emptyCRInfo [])) (\<lambda>kubeRuntimeInstaller.
       thenE (rt_Reset kubeRuntimeInstaller)
       (thenE (cleanRegistry i masters master0)
       (bindE (newConfigurator ex i []) (\<lambda>registryConfigurator.
        thenE (cf_UninstallFrom registryConfigurator masters workers)
        (thenE (cri_UnInstallFrom (in_containerRuntimeInstaller i) all)
        (thenE (hostHook ex i PostCleanHost all)
        (thenE (clusterHook ex i master0 PostUnInstallCluster)
        (thenE (DeleteClusterHostAliases d all)
               (Restore (in_Distributor i) (GetClusterBasePath d) all)))))))))))))))"

definition Upgrade :: "externals \<Rightarrow> Installer \<Rightarrow> unit io" where
  "Upgrade ex i =
     (let d = in_infraDriver i; masters = GetHostIPListByRole d MASTER; rootfs = GetClusterRootfsPath d in
      bindE (firstE masters) (\<lambda>master0.
      bindE (liftR (getWorkerIPList d)) (\<lambda>workers.
      let all = masters @ workers in
      thenE (Distribute (in_Distributor i) all rootfs)
      (thenE (hostHook ex i UpgradeHost all)
      (bindE (deployRegistry i masters master0) (\<lambda>deployHosts.
       bindE (newConfigurator ex i deployHosts) (\<lambda>registryConfigurator.
       thenE (cf_InstallOn registryConfigurator masters workers)
             (clusterHook ex i master0 UpgradeCluster))))))))"

definition Rollback :: "externals \<Rightarrow> Installer \<Rightarrow> unit io" where
  "Rollback ex i =
     (let d = in_infraDriver i; masters = GetHostIPListByRole d MASTER; rootfs = GetClusterRootfsPath d in
      bindE (firstE masters) (\<lambda>master0.
      bindE (liftR (getWorkerIPList d)) (\<lambda>workers.
      let all = masters @ workers in
      bindE (deployRegistry i masters master0) (\<lambda>deployHosts.
      bindE (newConfigurator ex i deployHosts) (\<lambda>registryConfigurator.
      thenE (cf_InstallOn registryConfigurator masters workers)
      (thenE (clusterHook ex i master0 RollbackCluster)
             (Distribute (in_Distributor i) all rootfs)))))))"

definition GetCurrentDriver :: "externals \<Rightarrow> Installer \<Rightarrow> RegistryDriver io" where
  "GetCurrentDriver ex i =
     (let masters = GetHostIPListByRole (in_infraDriver i) MASTER in
      bindE (firstE masters) (\<lambda>master0.
      bindE (case g_Local (in_regConfig i) of
               None \<Rightarrow> returnE masters
             | Some reg \<Rightarrow> bindE (deref (l_HA reg)) (\<lambda>ha. returnE (if \<not> ha then [master0] else masters))) (\<lambda>registryDeployHosts.
      bindE (newConfigurator ex i registryDeployHosts) (\<lambda>registryConfigurator.
      bindE (liftR (ex_NewKubeadmRuntime ex (in_infraDriver i) (crInfo i) (rd_URL (cf_GetDriver registryConfigurator))))
        (\<lambda>kubeRuntimeInstaller.
      thenE (rt_GetCurrentRuntimeDriver kubeRuntimeInstaller)
            (returnE (cf_GetDriver registryConfigurator)))))))"

section \<open>Workers\<close>

lemma length_filter_remdups:
  assumes "T \<subseteq> set xs" and "finite T"
  shows "card T \<le> length (filter (\<lambda>x. x \<in> T) xs)"
proof -
  have "T = set (filter (\<lambda>x. x \<in> T) xs)" using assms(1) by auto
  then show ?thesis by (metis card_length)
qed

text \<open>
  The workers of a cluster whose masters are among its hosts: the call never panics and
  returns the hosts that are not masters, in order, followed by one nil address for every
  repeated occurrence of a master in the host list. Without such repetitions the list is exact.
\<close>

theorem worker_list_exact:
  assumes "ip_String ` set (GetHostIPListByRole d MASTER) \<subseteq> ip_String ` set (GetHostIPList d)"
  shows "getWorkerIPList d =
    Inr (filter (\<lambda>ip. ip_String ip \<notin> ip_String ` set (GetHostIPListByRole d MASTER)) (GetHostIPList d)
      @ replicate (length (filter (\<lambda>ip. ip_String ip \<in> ip_String ` set (GetHostIPListByRole d MASTER)) (GetHostIPList d))
                   - card (ip_String ` set (GetHostIPListByRole d MASTER))) [])"
proof -
  let ?T = "ip_String ` set (GetHostIPListByRole d MASTER)" and ?all = "GetHostIPList d"
  let ?ms = "filter (\<lambda>ip. ip_String ip \<in> ?T) ?all" and ?ws = "filter (\<lambda>ip. ip_String ip \<notin> ?T) ?all"
  have "length (remdups (map ip_String (GetHostIPListByRole d MASTER))) = card ?T"
    by (simp add: length_remdups_card_conv)
  moreover have "length ?ms + length ?ws = length ?all" by (rule sum_length_filter_compl)
  moreover have "card ?T \<le> length ?ms"
    using length_filter_remdups [of ?T "map ip_String ?all"] assms by (simp add: filter_map comp_def)
  ultimately show ?thesis by (auto simp: getWorkerIPList_def Let_def nat_diff_distrib)
qed

theorem worker_list_exact_witness: "getWorkerIPList demoDriver = Inr [[10, 0, 0, 2]]"
proof -
  have masters: "GetHostIPListByRole demoDriver MASTER = [[10, 0, 0, 1]]"
    using driver_role_lists(1) [OF demoDriver, of MASTER] by (simp add: GetIPSByRole_def ipsOfHostByRole_def demo_simps)
  have all: "GetHostIPList demoDriver = [[10, 0, 0, 1], [10, 0, 0, 2]]"
    using driver_role_lists(2) [OF demoDriver] by (simp add: demo_simps)
  have "ip_String [10, 0, 0, 1] \<noteq> ip_String [10, 0, 0, 2]" by code_simp
  with worker_list_exact [of demoDriver] masters all show ?thesis by auto
qed

section \<open>Reachability of hosts\<close>

text \<open>An environment in which the probe of a host fails or succeeds regardless of the history.\<close>

definition probe :: "net_ip \<Rightarrow> action" where
  "probe n = CmdAsyncOn n [] [''ls >> /dev/null'']"

definition steady :: "(net_ip \<Rightarrow> bool) \<Rightarrow> world \<Rightarrow> bool" where
  "steady down w = (\<forall>l n. if down n then (\<exists>f as. w_err w l (probe n) = Some (Errorf f as)) else w_err w l (probe n) = None)"

lemma steady_log [simp]: "steady down (w\<lparr>w_log := l\<rparr>) = steady down w"
  by (simp add: steady_def)

lemma checkSSH_go_result:
  assumes "steady down w"
  shows "\<exists>as. does (checkSSH_go d hosts failed) w
    (failed @ filter (\<lambda>n. down n \<or> sshConfigs d (ip_String n) = None) hosts) as"
  using assms
proof (induction hosts arbitrary: failed w)
  case Nil
  then show ?case by (auto simp: does_def returnE_def intro!: exI [of _ "[]"])
next
  case (Cons n hosts)
  let ?bad = "down n \<or> sshConfigs d (ip_String n) = None"
  obtain r as where r: "does (tryE (drv_CmdAsync d n [] [''ls >> /dev/null''])) w r as" "?bad \<longleftrightarrow> isl r"
  proof (cases "sshConfigs d (ip_String n)")
    case None
    then show ?thesis
      by (intro that [of "Inl (Errorf ''ip(%s) is not in cluster'' [ip_String n])" "[]"])
        (auto simp: does_def tryE_def drv_CmdAsync_def withClient_def throwE_def)
  next
    case (Some c)
    have "if down n then \<exists>f as. w_err w (w_log w) (probe n) = Some (Errorf f as) else w_err w (w_log w) (probe n) = None"
      using Cons.prems by (simp add: steady_def)
    then have "\<exists>r. does (tryE (perform (probe n))) w r [probe n] \<and> (down n \<longleftrightarrow> isl r)"
      by (auto simp: does_def tryE_def perform_def split: if_splits)
    with Some show ?thesis by (auto simp: drv_CmdAsync_def withClient_def probe_def intro: that)
  qed
  let ?failed = "if ?bad then failed @ [n] else failed"
  have "(case r of Inl _ \<Rightarrow> failed @ [n] | Inr _ \<Rightarrow> failed) = ?failed"
    using r(2) by (cases r) auto
  then obtain bs where bs: "does (checkSSH_go d hosts (case r of Inl _ \<Rightarrow> failed @ [n] | Inr _ \<Rightarrow> failed)) (w\<lparr>w_log := w_log w @ as\<rparr>)
      (?failed @ filter (\<lambda>n. down n \<or> sshConfigs d (ip_String n) = None) hosts) bs"
    using Cons.IH [of "w\<lparr>w_log := w_log w @ as\<rparr>" ?failed] Cons.prems by auto
  have "does (checkSSH_go d (n # hosts) failed) w
      (?failed @ filter (\<lambda>n. down n \<or> sshConfigs d (ip_String n) = None) hosts) (as @ bs)"
    unfolding checkSSH_go.simps by (rule does_bindE [OF r(1)]) (rule bs)
  then show ?case by (auto split: if_splits)
qed

text \<open>
  The reachability check tells exactly the hosts that cannot be reached (or are not hosts of
  the cluster), in order, and reports an error exactly if there are any; what scale-down then
  resets are the hosts that can be reached, none of which equals an unreachable one.
\<close>

theorem unreachable_hosts_found:
  assumes "steady down w"
  shows "\<exists>err as. does (CheckNodeSSH d hosts) w
      (filter (\<lambda>n. down n \<or> sshConfigs d (ip_String n) = None) hosts, err) as
    \<and> (err = None \<longleftrightarrow> (\<forall>n \<in> set hosts. \<not> down n \<and> sshConfigs d (ip_String n) \<noteq> None))
    \<and> (\<forall>n \<in> set (RemoveIPs hosts (filter (\<lambda>n. down n \<or> sshConfigs d (ip_String n) = None) hosts)).
         n \<in> set hosts \<and> \<not> down n \<and> sshConfigs d (ip_String n) \<noteq> None)"
proof -
  let ?failed = "filter (\<lambda>n. down n \<or> sshConfigs d (ip_String n) = None) hosts"
  obtain as where as: "does (checkSSH_go d hosts []) w ?failed as"
    using checkSSH_go_result [OF assms, of d hosts "[]"] by auto
  have run: "does (CheckNodeSSH d hosts) w (?failed, unreachableErr ?failed) (as @ [])"
    unfolding CheckNodeSSH_def by (rule does_bindE [OF as]) (rule does_return)
  have err: "unreachableErr ?failed = None \<longleftrightarrow> (\<forall>n \<in> set hosts. \<not> down n \<and> sshConfigs d (ip_String n) \<noteq> None)"
    by (auto simp: unreachableErr_def filter_empty_conv)
  have rest: "n \<in> set hosts \<and> \<not> down n \<and> sshConfigs d (ip_String n) \<noteq> None"
    if "n \<in> set (RemoveIPs hosts ?failed)" for n
  proof -
    from that have "n \<in> set hosts" and "\<not> IsInIPList n ?failed" by (auto simp: set_RemoveIPs)
    then have "n \<notin> set ?failed" by blast
    with \<open>n \<in> set hosts\<close> show ?thesis by auto
  qed
  show ?thesis
  proof (intro exI conjI)
    show "does (CheckNodeSSH d hosts) w (?failed, unreachableErr ?failed) (as @ [])" by (rule run)
  qed (use err rest in blast)+
qed

theorem unreachable_hosts_found_witness:
  "\<exists>err as. does (CheckNodeSSH demoDriver [[10, 0, 0, 2], [10, 0, 0, 9]]) calmWorld ([[10, 0, 0, 9]], err) as \<and> err \<noteq> None"
proof -
  have all: "GetHostIPList demoDriver = [[10, 0, 0, 1], [10, 0, 0, 2]]"
    using driver_role_lists(2) [OF demoDriver] by (simp add: demo_simps)
  have "ip_String [10, 0, 0, 9] \<noteq> ip_String [10, 0, 0, 1]" "ip_String [10, 0, 0, 9] \<noteq> ip_String [10, 0, 0, 2]" by code_simp+
  then have "sshConfigs demoDriver (ip_String [10, 0, 0, 9]) = None"
    using in_cluster_iff [OF demoDriver, of "[10, 0, 0, 9]"] all by auto
  moreover have "steady (\<lambda>_. False) calmWorld" by (simp add: steady_def calmWorld_def)
  ultimately show ?thesis
    using unreachable_hosts_found [of "\<lambda>_. False" calmWorld demoDriver "[[10, 0, 0, 2], [10, 0, 0, 9]]"] demo_in_cluster(2)
    by auto
qed

section \<open>Taints of nodes\<close>

lemma strings_Contains_dash: "strings_Contains s ''-'' \<longleftrightarrow> CHR ''-'' \<in> set s"
  by (rule strings_Contains_char)

text \<open>
  What the taint update of a node does: with arguments that only add taints the node ends up
  with exactly the given taints, whatever it had; the argument \<^verbatim>\<open>key-\<close> removes all taints of that
  key and keeps the others.
\<close>

theorem taint_update_adds_and_removes:
  assumes "taints \<noteq> []" and "\<forall>t \<in> set taints. CHR ''-'' \<notin> set (t_Key t) \<and> CHR ''-'' \<notin> set (t_Effect t)" and "plain key"
  shows "fold (applyTaint taints) taints old = taints
    \<and> (\<exists>t. formatData (key @ ''-'') = Inr t \<and> fold (applyTaint [t]) [t] old = filter (\<lambda>u. t_Key u \<noteq> key) old)"
proof
  have "fold (applyTaint ts) us cur = ts"
    if "us \<noteq> []" "\<forall>t \<in> set us. CHR ''-'' \<notin> set (t_Key t) \<and> CHR ''-'' \<notin> set (t_Effect t)" for us ts cur
    using that
  proof (induction us arbitrary: cur)
    case (Cons u us)
    then show ?case by (cases "us = []") (auto simp: applyTaint_def strings_Contains_dash)
  qed simp
  from this [OF assms(1,2)] show "fold (applyTaint taints) taints old = taints" .
  have "formatData (key @ ''-'') = Inr \<lparr>t_Key = key @ ''-'', t_Value = [], t_Effect = []\<rparr>"
    using plain_no_space [OF assms(3)] delims_no_space splitTaint_key_effect(3) [OF assms(3), of "[]"]
    by (intro formatData_split) (auto simp: plain_def)
  then show "\<exists>t. formatData (key @ ''-'') = Inr t \<and> fold (applyTaint [t]) [t] old = filter (\<lambda>u. t_Key u \<noteq> key) old"
    by (auto simp: applyTaint_def strings_Contains_dash TrimSuffix_present DeleteTaintsByKey_def Let_def intro!: filter_cong)
qed

theorem taint_update_adds_and_removes_witness:
  "fold (applyTaint [\<lparr>t_Key = ''a'', t_Value = [], t_Effect = ''NoSchedule''\<rparr>])
     [\<lparr>t_Key = ''a'', t_Value = [], t_Effect = ''NoSchedule''\<rparr>] [\<lparr>t_Key = ''b'', t_Value = [], t_Effect = ''NoExecute''\<rparr>]
   = [\<lparr>t_Key = ''a'', t_Value = [], t_Effect = ''NoSchedule''\<rparr>]"
  using taint_update_adds_and_removes [of "[\<lparr>t_Key = ''a'', t_Value = [], t_Effect = ''NoSchedule''\<rparr>]" "''b''"
      "[\<lparr>t_Key = ''b'', t_Value = [], t_Effect = ''NoExecute''\<rparr>]"]
  by (simp add: plain_def is_space_def)

text \<open>
  The documented removal \<^verbatim>\<open>key:effect-\<close> removes nothing: the deletion mark stays in the
  effect, so it never matches a taint with a legal effect. And a key with a hyphen in it is taken
  for a removal: the argument \<^verbatim>\<open>a-b:effect\<close> does not add the taint but removes the taints of that
  key.
\<close>

theorem taint_effect_removal_ineffective:
  assumes "plain key" and "plain key2" and "effect \<in> set TaintEffectValues"
    and "\<forall>u \<in> set old. t_Effect u \<in> set TaintEffectValues"
  shows "(\<exists>t. formatData (key @ '':'' @ effect @ ''-'') = Inr t \<and> fold (applyTaint [t]) [t] old = old)
    \<and> (\<exists>t. formatData (key @ ''-'' @ key2 @ '':'' @ effect) = Inr t \<and>
         fold (applyTaint [t]) [t] old = filter (\<lambda>u. t_Key u \<noteq> strings_TrimSuffix (key @ ''-'' @ key2) ''-'') old)"
proof
  have pe: "plain effect" using effects_plain [OF assms(3)] by auto
  have e: "strings_TrimSuffix effect ''-'' = effect" by (rule TrimSuffix_absent [OF plain_chars(3) [OF pe]])
  have "formatData (key @ '':'' @ effect @ ''-'') = Inr \<lparr>t_Key = key, t_Value = [], t_Effect = effect @ ''-''\<rparr>"
    using plain_no_space [OF assms(1)] plain_no_space [OF pe] delims_no_space splitTaint_key_effect(2) [OF assms(1) pe] assms(3)
    by (intro formatData_split) (auto simp: TrimSuffix_present)
  moreover have "filter (\<lambda>u. \<not> (key = t_Key u \<and> effect @ ''-'' = t_Effect u)) old = old"
  proof (intro filter_True ballI notI)
    fix u assume "u \<in> set old" and u: "key = t_Key u \<and> effect @ ''-'' = t_Effect u"
    with assms(4) have "CHR ''-'' \<notin> set (t_Effect u)" using effects_plain plain_chars(3) by blast
    with u show False by (metis in_set_conv_decomp)
  qed
  ultimately show "\<exists>t. formatData (key @ '':'' @ effect @ ''-'') = Inr t \<and> fold (applyTaint [t]) [t] old = old"
    using plain_chars(3) [OF assms(1)]
    by (auto simp: applyTaint_def strings_Contains_dash DeleteTaint_def MatchTaint_def Let_def)
  note c = plain_chars [OF assms(1)] plain_chars [OF assms(2)] plain_chars [OF pe]
  have split: "strings_Split ((key @ ''-'' @ key2) @ CHR '':'' # effect) '':'' = [key @ ''-'' @ key2, effect]"
    using c by (subst strings_Split_at_sep) (auto simp: strings_Split_no_sep)
  have "splitTaint (key @ ''-'' @ key2 @ '':'' @ effect) = Inr (key @ ''-'' @ key2, [], effect)"
    using c split by (simp add: splitTaint_def strings_Contains_char)
  then have "formatData (key @ ''-'' @ key2 @ '':'' @ effect) = Inr \<lparr>t_Key = key @ ''-'' @ key2, t_Value = [], t_Effect = effect\<rparr>"
    using plain_no_space [OF assms(1)] plain_no_space [OF assms(2)] plain_no_space [OF pe] delims_no_space assms(3)
    by (intro formatData_split) (auto simp: e)
  then show "\<exists>t. formatData (key @ ''-'' @ key2 @ '':'' @ effect) = Inr t \<and>
      fold (applyTaint [t]) [t] old = filter (\<lambda>u. t_Key u \<noteq> strings_TrimSuffix (key @ ''-'' @ key2) ''-'') old"
    by (auto simp: applyTaint_def strings_Contains_dash DeleteTaintsByKey_def Let_def intro!: filter_cong)
qed

theorem taint_effect_removal_ineffective_witness:
  "\<exists>t. formatData ''node-role:NoSchedule'' = Inr t \<and>
     fold (applyTaint [t]) [t] [\<lparr>t_Key = ''b'', t_Value = [], t_Effect = ''NoExecute''\<rparr>]
       = [\<lparr>t_Key = ''b'', t_Value = [], t_Effect = ''NoExecute''\<rparr>]"
  using taint_effect_removal_ineffective [of "''node''" "''role''" "''NoSchedule''" "[\<lparr>t_Key = ''b'', t_Value = [], t_Effect = ''NoExecute''\<rparr>]"]
  by (simp add: plain_def is_space_def TaintEffectValues_def strings_TrimSuffix_def strings_HasSuffix_def suffix_def)

section \<open>The choice of runtimes\<close>

lemma NewInstaller_cri:
  assumes "NewInstaller ex d dist plugins info = Inr i"
  shows "ii_ContainerRuntimeType info \<in> {Docker, Containerd}" and "ci_Type (crInfo i) = ii_ContainerRuntimeType info"
    and "di_driver (in_containerRuntimeInstaller i) = d" and "in_infraDriver i = d" and "in_Distributor i = dist"
proof -
  from assms obtain cri where cri: "getCRIInstaller ex (ii_ContainerRuntimeType info) d = Inr cri"
    and i: "in_containerRuntimeInstaller i = cri" "in_infraDriver i = d" "in_Distributor i = dist"
    by (auto simp: NewInstaller_def bindR_Inr_iff)
  from cri have "ii_ContainerRuntimeType info \<in> {Docker, Containerd} \<and> ci_Type (di_Info cri) = ii_ContainerRuntimeType info
      \<and> di_driver cri = d"
    by (auto simp: getCRIInstaller_def cri_NewInstaller_def Docker_def Containerd_def split: if_splits)
  then show "ii_ContainerRuntimeType info \<in> {Docker, Containerd}" "ci_Type (crInfo i) = ii_ContainerRuntimeType info"
    "di_driver (in_containerRuntimeInstaller i) = d" "in_infraDriver i = d" "in_Distributor i = dist"
    using i by (simp_all add: cri_GetInfo_def)
qed

text \<open>
  Which runtimes are installed: the user's container runtime wins over the label of the
  image, docker and Kubernetes are the defaults, and an installer is built only for docker and
  containerd; the cluster runtime is checked when it is needed, and only Kubernetes and k0s are
  known.
\<close>

theorem runtime_choice:
  assumes "info = GetClusterInstallInfo labels userCRI"
  shows "(userCRI \<noteq> [] \<longrightarrow> ii_ContainerRuntimeType info = userCRI)
    \<and> (userCRI = [] \<longrightarrow> ii_ContainerRuntimeType info =
        (case map_of labels CRILabel of Some (c # cs) \<Rightarrow> c # cs | _ \<Rightarrow> Docker))
    \<and> ii_ClusterRuntimeType info = (case map_of labels CRTLabel of Some (c # cs) \<Rightarrow> c # cs | _ \<Rightarrow> K8s)
    \<and> (\<forall>i. NewInstaller ex d dist plugins info = Inr i \<longrightarrow>
         ii_ContainerRuntimeType info \<in> {Docker, Containerd} \<and> ci_Type (crInfo i) = ii_ContainerRuntimeType info
         \<and> di_driver (in_containerRuntimeInstaller i) = d)
    \<and> (ii_ClusterRuntimeType info \<notin> {K8s, K0s} \<longrightarrow>
         getClusterRuntimeInstaller ex (ii_ClusterRuntimeType info) d cri url
           = Inl (Errorf ''not support cluster runtime %s'' [ii_ClusterRuntimeType info]))"
proof (intro conjI allI impI)
  show "userCRI \<noteq> [] \<Longrightarrow> ii_ContainerRuntimeType info = userCRI"
    by (simp add: assms GetClusterInstallInfo_def Let_def)
  show "userCRI = [] \<Longrightarrow> ii_ContainerRuntimeType info =
      (case map_of labels CRILabel of Some (c # cs) \<Rightarrow> c # cs | _ \<Rightarrow> Docker)"
    by (simp add: assms GetClusterInstallInfo_def Let_def split: option.split list.split)
  show "ii_ClusterRuntimeType info = (case map_of labels CRTLabel of Some (c # cs) \<Rightarrow> c # cs | _ \<Rightarrow> K8s)"
    by (simp add: assms GetClusterInstallInfo_def Let_def split: option.split list.split)
  fix i assume "NewInstaller ex d dist plugins info = Inr i"
  from NewInstaller_cri [OF this]
  show "ii_ContainerRuntimeType info \<in> {Docker, Containerd}" "ci_Type (crInfo i) = ii_ContainerRuntimeType info"
    "di_driver (in_containerRuntimeInstaller i) = d" by auto
next
  assume "ii_ClusterRuntimeType info \<notin> {K8s, K0s}"
  then show "getClusterRuntimeInstaller ex (ii_ClusterRuntimeType info) d cri url
      = Inl (Errorf ''not support cluster runtime %s'' [ii_ClusterRuntimeType info])"
    by (simp add: getClusterRuntimeInstaller_def)
qed

theorem runtime_choice_witness:
  "ii_ContainerRuntimeType (GetClusterInstallInfo [(CRILabel, ''containerd'')] []) = ''containerd''
    \<and> ii_ClusterRuntimeType (GetClusterInstallInfo [(CRILabel, ''containerd'')] []) = K8s"
  using runtime_choice [OF refl, where labels = "[(CRILabel, ''containerd'')]" and userCRI = "[]"]
  by (simp add: CRILabel_def CRTLabel_def)

end
