(* ===== verification/K0s_Runtime.thy ===== *)
theory K0s_Runtime
  imports Kube_Runtime
begin

text \<open>
  Model of \<^verbatim>\<open>pkg/runtime/k0s\<close>: the k0s runtime, the second implementation of
  \<^verbatim>\<open>runtime.Installer\<close>. Waiting times are left out of the model; the number of attempts is not.
\<close>

record K0sRuntime =
  ks_infra :: SSHInfraDriver
  ks_Vlog :: int
  ks_containerRuntimeInfo :: ContainerRuntimeInfo
  ks_registryURL :: string

definition DefaultAdminConfPath :: string where "DefaultAdminConfPath = ''/var/lib/k0s/pki/admin.conf''"
definition DefaultK0sConfigPath :: string where "DefaultK0sConfigPath = ''/etc/k0s/k0s.yaml''"
definition DefaultK0sWorkerJoin :: string where "DefaultK0sWorkerJoin = ''/etc/k0s/worker''"
definition DefaultK0sControllerJoin :: string where "DefaultK0sControllerJoin = ''/etc/k0s/controller''"
definition ExternalCRIAddress :: string where "ExternalCRIAddress = ''remote:/run/containerd/containerd.sock''"
definition WorkerRole :: string where "WorkerRole = ''worker''"
definition ControllerRole :: string where "ControllerRole = ''controller''"

definition newK0sRuntime :: "bool \<Rightarrow> SSHInfraDriver \<Rightarrow> ContainerRuntimeInfo \<Rightarrow> string \<Rightarrow> K0sRuntime" where
  "newK0sRuntime debug infra containerRuntimeInfo registryURL =
     \<lparr>ks_infra = infra, ks_Vlog = (if debug then 6 else 0), ks_containerRuntimeInfo = containerRuntimeInfo,
      ks_registryURL = registryURL\<rparr>"

section \<open>Helpers\<close>

definition cmdUnit :: "K0sRuntime \<Rightarrow> net_ip \<Rightarrow> string \<Rightarrow> unit io" where
  "cmdUnit k host cmd = bindE (drv_Cmd (ks_infra k) host [] cmd) (\<lambda>_. returnE ())"

text \<open>The counter is decremented before it is tested, so there are four attempts.\<close>

fun waitK0s_go :: "K0sRuntime \<Rightarrow> net_ip \<Rightarrow> nat \<Rightarrow> unit io" where
  "waitK0s_go k host 0 = throwE (Errorf ''failed to start k0s: failed to get k0s status after 10 seconds'' [])"
| "waitK0s_go k host (Suc n) = bindE (drv_Cmd (ks_infra k) host [] ''k0s status'') (\<lambda>bytes.
     if strings_Contains bytes ''Process'' then returnE () else waitK0s_go k host n)"

definition WaitK0sReady :: "K0sRuntime \<Rightarrow> net_ip \<Rightarrow> unit io" where
  "WaitK0sReady k host = waitK0s_go k host 4"

fun pingRetry :: "K0sRuntime \<Rightarrow> net_ip \<Rightarrow> nat \<Rightarrow> unit io" where
  "pingRetry k host 0 = throwE (Errorf ''wait for [%s] ssh ready timeout, ensure that the IP address or password is correct'' [ip_String host])"
| "pingRetry k host (Suc n) = bindE (tryE (drv_Ping (ks_infra k) host)) (\<lambda>r.
     case r of Inr _ \<Rightarrow> returnE () | Inl _ \<Rightarrow> pingRetry k host n)"

definition WaitSSHReady :: "K0sRuntime \<Rightarrow> nat \<Rightarrow> net_ip list \<Rightarrow> unit io" where
  "WaitSSHReady k tryTimes hosts = errgroup hosts (\<lambda>host. pingRetry k host tryTimes)"

definition k0s_GetCurrentRuntimeDriver :: "unit io" where
  "k0s_GetCurrentRuntimeDriver = NewKubeDriver DefaultAdminConfPath"

definition matchNodeName :: "string \<Rightarrow> string list \<Rightarrow> string" where
  "matchNodeName hostName hosts = (case find (\<lambda>h. strings_TrimSpace h \<noteq> [] \<and> strings_ToLower h = strings_ToLower hostName) hosts of
       None \<Rightarrow> [] | Some h \<Rightarrow> h)"

definition getNodeName :: "K0sRuntime \<Rightarrow> net_ip \<Rightarrow> string io" where
  "getNodeName k host = thenE (perform (LocalCall ''k8s.NewK8sClient'' [])) (bindE askNodes (\<lambda>nodes.
     bindE (drv_CmdToString (ks_infra k) host [] ''hostname'' []) (\<lambda>hostName.
       returnE (matchNodeName hostName (map n_Name nodes)))))"

section \<open>The first master\<close>

definition k0s_initKube :: "K0sRuntime \<Rightarrow> net_ip list \<Rightarrow> unit io" where
  "k0s_initKube k hosts =
     (let initKubeletCmd = fmt_Sprintf ''cd %s && export RegistryURL=%s && bash %s''
            [filepath_Join [GetClusterRootfsPath (ks_infra k), ''scripts''], ks_registryURL k, ''init-kube.sh''] in
      errgroup hosts (\<lambda>host. mapErr (Wrapf ''failed to init Kubelet Service on (%s): %s'' [ip_String host])
        (drv_CmdAsync (ks_infra k) host [] [initKubeletCmd])))"

definition generateK0sConfig :: "K0sRuntime \<Rightarrow> net_ip \<Rightarrow> unit io" where
  "generateK0sConfig k master0 = thenE (cmdUnit k master0 ''mkdir -p /etc/k0s'')
     (cmdUnit k master0 (fmt_Sprintf ''k0s config create > %s'' [DefaultK0sConfigPath]))"

definition modifyConfigRepo :: "K0sRuntime \<Rightarrow> net_ip \<Rightarrow> string \<Rightarrow> unit io" where
  "modifyConfigRepo k master0 registryInfo = cmdUnit k master0
     (fmt_Sprintf (''sed -i '' @ [CHR 0x27] @ ''/  images/ a'' @ backslash @ ''    repository: %s'' @ [CHR 0x27] @ '' %s'')
        [registryInfo, DefaultK0sConfigPath])"

definition generateConfigOnMaster0 :: "K0sRuntime \<Rightarrow> net_ip \<Rightarrow> string \<Rightarrow> unit io" where
  "generateConfigOnMaster0 k master0 registryInfo =
     thenE (mapErr (Wrapf ''failed to generate config: %v'' []) (generateK0sConfig k master0))
           (mapErr (Wrapf ''failed to modify config to private repository: %s'' []) (modifyConfigRepo k master0 registryInfo))"

definition generateJoinToken :: "K0sRuntime \<Rightarrow> net_ip \<Rightarrow> unit io" where
  "generateJoinToken k master0 = drv_CmdAsync (ks_infra k) master0 []
     [fmt_Sprintf ''k0s token create --role=%s --expiry=876000h > %s'' [WorkerRole, DefaultK0sWorkerJoin],
      fmt_Sprintf ''k0s token create --role=%s --expiry=876000h > %s'' [ControllerRole, DefaultK0sControllerJoin]]"

definition fetchConfCmd :: string where
  "fetchConfCmd = ''rm -rf .kube/config && mkdir -p /root/.kube && cp /var/lib/k0s/pki/admin.conf /root/.kube/config''"

definition bootstrapMaster0 :: "K0sRuntime \<Rightarrow> net_ip \<Rightarrow> unit io" where
  "bootstrapMaster0 k master0 =
     thenE (cmdUnit k master0 (fmt_Sprintf ''k0s install controller -c %s --cri-socket %s'' [DefaultK0sConfigPath, ExternalCRIAddress]))
     (thenE (cmdUnit k master0 ''k0s start'')
     (thenE (WaitK0sReady k master0)
            (cmdUnit k master0 fetchConfCmd)))"

section \<open>Joining hosts\<close>

definition joinCertPath :: "string \<Rightarrow> string" where
  "joinCertPath role = (if role = ControllerRole then DefaultK0sControllerJoin else DefaultK0sWorkerJoin)"

text \<open>
  \<^verbatim>\<open>CopyJoinToken\<close> starts a goroutine per host and returns without waiting for them. A goroutine
  for a host without a connection does nothing.
\<close>

definition CopyJoinToken :: "K0sRuntime \<Rightarrow> string \<Rightarrow> net_ip list \<Rightarrow> unit io" where
  "CopyJoinToken k role hosts = forE hosts (\<lambda>host.
     if sshConfigs (ks_infra k) (ip_String host) = None then returnE ()
     else detach (CopyTo host (joinCertPath role) (joinCertPath role)))"

definition JoinCommand :: "string \<Rightarrow> string \<Rightarrow> string list option" where
  "JoinCommand role registryInfo =
     (if role = ControllerRole then Some
        [''mkdir -p /etc/k0s'', fmt_Sprintf ''k0s config create > %s'' [DefaultK0sConfigPath],
         fmt_Sprintf (''sed -i '' @ [CHR 0x27] @ ''/  images/ a'' @ backslash @ ''    repository: \"%s\"'' @ [CHR 0x27] @ '' %s'')
           [registryInfo, DefaultK0sConfigPath],
         fmt_Sprintf ''k0s install controller --token-file %s -c %s --cri-socket %s''
           [DefaultK0sControllerJoin, DefaultK0sConfigPath, ExternalCRIAddress],
         ''k0s start'']
      else if role = WorkerRole then Some
        [fmt_Sprintf ''k0s install worker --cri-socket %s --token-file %s'' [ExternalCRIAddress, DefaultK0sWorkerJoin],
         ''k0s start'']
      else None)"

definition fetchKubeconfig :: "K0sRuntime \<Rightarrow> net_ip \<Rightarrow> unit io" where
  "fetchKubeconfig k m = drv_CmdAsync (ks_infra k) m [] [fetchConfCmd]"

definition k0s_joinMasters :: "K0sRuntime \<Rightarrow> net_ip list \<Rightarrow> string \<Rightarrow> unit io" where
  "k0s_joinMasters k masters registryInfo =
     (if length masters = 0 then returnE ()
      else thenE (k0s_initKube k masters)
        (thenE (mapErr (Wrapf ''join masters wait for ssh ready time out: %v'' []) (WaitSSHReady k 6 masters))
        (thenE (CopyJoinToken k ControllerRole masters)
        (case JoinCommand ControllerRole registryInfo of
           None \<Rightarrow> throwE (Errorf ''failed to get join master command'' [])
         | Some cmds \<Rightarrow> forE masters (\<lambda>master.
             thenE (mapErr (Wrapf ''failed to exec command(%s) on master(%s): %v'' [strings_Join cmds '' '', ip_String master])
                     (drv_CmdAsync (ks_infra k) master [] cmds))
                   (mapErr (Wrapf ''failed to fetch admin.conf on master(%s): %v'' [ip_String master])
                     (fetchKubeconfig k master)))))))"

definition k0s_joinNodes :: "K0sRuntime \<Rightarrow> net_ip list \<Rightarrow> unit io" where
  "k0s_joinNodes k nodes =
     (if length nodes = 0 then returnE ()
      else thenE (k0s_initKube k nodes)
        (thenE (mapErr (Wrapf ''join nodes wait for ssh ready time out: %v'' []) (WaitSSHReady k 6 nodes))
        (thenE (CopyJoinToken k WorkerRole nodes)
        (case JoinCommand WorkerRole [] of
           None \<Rightarrow> throwE (Errorf ''failed to get join node command'' [])
         | Some cmds \<Rightarrow> errgroup nodes (\<lambda>node.
             mapErr (Wrapf ''failed to join node %s: %v'' [ip_String node]) (drv_CmdAsync (ks_infra k) node [] cmds))))))"

section \<open>Removing hosts\<close>

definition umountPods :: string where
  "umountPods = ''umount $(df -HT | grep '' @ [CHR 0x27] @ ''/var/lib/k0s/kubelet/pods'' @ [CHR 0x27]
     @ '' | awk '' @ [CHR 0x27] @ ''{print $7}'' @ [CHR 0x27] @ '')''"

definition k0s_deleteMaster :: "K0sRuntime \<Rightarrow> net_ip \<Rightarrow> unit io" where
  "k0s_deleteMaster k master = drv_CmdAsync (ks_infra k) master []
     [''k0s stop'', ''k0s reset'', ''rm -rf /etc/k0s/'', ''rm -rf /usr/bin/kube* && rm -rf ~/.kube/'', ''rm -rf /usr/bin/k0s'']"

definition k0s_deleteMasters :: "K0sRuntime \<Rightarrow> net_ip list \<Rightarrow> net_ip list \<Rightarrow> unit io" where
  "k0s_deleteMasters k mastersToDelete remainMasters = errgroup mastersToDelete (\<lambda>master.
     mapErr (Wrapf ''failed to delete master %s: %v'' [ip_String master]) (k0s_deleteMaster k master))"

definition deleteNodeFromCluster :: "string \<Rightarrow> unit io" where
  "deleteNodeFromCluster nodeName = thenE k0s_GetCurrentRuntimeDriver (perform (DeleteNode nodeName))"

definition k0s_deleteNode :: "K0sRuntime \<Rightarrow> net_ip \<Rightarrow> net_ip option \<Rightarrow> unit io" where
  "k0s_deleteNode k node remainMaster0 =
     thenE (case remainMaster0 of None \<Rightarrow> returnE ()
            | Some _ \<Rightarrow> bindE (getNodeName k node) deleteNodeFromCluster)
       (drv_CmdAsync (ks_infra k) node []
         [''k0s stop'', umountPods, ''k0s reset'', ''rm -rf /etc/k0s/'', ''rm -rf /usr/bin/kube* && rm -rf ~/.kube/'', ''rm -rf /usr/bin/k0s''])"

definition k0s_deleteNodes :: "K0sRuntime \<Rightarrow> net_ip list \<Rightarrow> net_ip list \<Rightarrow> unit io" where
  "k0s_deleteNodes k nodesToDelete remainMasters = errgroup nodesToDelete (\<lambda>node.
     mapErr (Wrapf ''failed to delete node %s: %v'' [ip_String node]) (k0s_deleteNode k node (first_opt remainMasters)))"

definition resetNodes :: "K0sRuntime \<Rightarrow> net_ip list \<Rightarrow> unit io" where
  "resetNodes k nodes = errgroup nodes (\<lambda>node. mapErr (Wrapf ''failed to reset node %s: %v'' [ip_String node])
     (drv_CmdAsync (ks_infra k) node []
       [''k0s stop'', umountPods, ''k0s reset'', ''rm -rf /etc/k0s/'', ''rm -rf /usr/bin/k0s'',
        ''rm -rf /usr/bin/kube* && rm -rf ~/.kube/'', ''rm -rf /etc/cni && rm -rf /opt/cni'']))"

definition resetMasters :: "K0sRuntime \<Rightarrow> net_ip list \<Rightarrow> unit io" where
  "resetMasters k nodes = errgroup nodes (\<lambda>node. mapErr (Wrapf ''failed to reset master %s: %v'' [ip_String node])
     (drv_CmdAsync (ks_infra k) node []
       [''k0s stop'', ''k0s reset'', ''rm -rf /etc/k0s/'', ''rm -rf /usr/bin/k0s'',
        ''rm -rf /usr/bin/kube* && rm -rf ~/.kube/'', ''rm -rf /etc/cni && rm -rf /opt/cni'', ''rm -rf .kube/config'']))"

definition k0s_reset :: "K0sRuntime \<Rightarrow> net_ip list \<Rightarrow> net_ip list \<Rightarrow> unit io" where
  "k0s_reset k mastersToDelete workersToDelete = thenE (resetNodes k workersToDelete) (resetMasters k mastersToDelete)"

section \<open>The operations of the runtime\<close>

definition k0s_dumpKubeConfigIntoCluster :: "kubeExternals \<Rightarrow> net_ip \<Rightarrow> unit io" where
  "k0s_dumpKubeConfigIntoCluster kx master0 =
     bindE (askText (LocalCall ''os.ReadFile'' [DefaultAdminConfPath])) (\<lambda>content0.
       let content = strings_ReplaceAll content0 ''apiserver.cluster.local'' (ip_String master0);
           dat = [(''admin.conf'', content)] in
       bindE (tryE (perform (CreateSecret ''kube-system'' ''admin.conf'' dat))) (\<lambda>r. case r of
           Inr _ \<Rightarrow> returnE ()
         | Inl err \<Rightarrow> if \<not> kx_IsAlreadyExists kx err then throwE (Wrapf ''unable to create secret: %v'' [] err)
             else mapErr (Wrapf ''unable to update secret: %v'' []) (perform (UpdateSecret ''kube-system'' ''admin.conf'' dat))))"

definition k0s_Install :: "kubeExternals \<Rightarrow> K0sRuntime \<Rightarrow> unit io" where
  "k0s_Install kx k =
     (let masters = GetHostIPListByRole (ks_infra k) MASTER; workers = GetHostIPListByRole (ks_infra k) NODE in
      bindE (firstE masters) (\<lambda>master0.
      thenE (k0s_initKube k [master0])
      (thenE (generateConfigOnMaster0 k master0 (ks_registryURL k))
      (thenE (bootstrapMaster0 k master0)
      (thenE (generateJoinToken k master0)
      (thenE (k0s_joinMasters k (drop 1 masters) (ks_registryURL k))
      (thenE (k0s_joinNodes k workers)
      (thenE k0s_GetCurrentRuntimeDriver
             (k0s_dumpKubeConfigIntoCluster kx master0)))))))))"

definition k0s_ScaleUp :: "K0sRuntime \<Rightarrow> net_ip list \<Rightarrow> net_ip list \<Rightarrow> unit io" where
  "k0s_ScaleUp k newMasters newWorkers =
     thenE (k0s_joinMasters k newMasters (ks_registryURL k)) (k0s_joinNodes k newWorkers)"

definition k0s_ScaleDown :: "K0sRuntime \<Rightarrow> net_ip list \<Rightarrow> net_ip list \<Rightarrow> unit io" where
  "k0s_ScaleDown k mastersToDelete workersToDelete =
     (let remainMasters = RemoveIPs (GetHostIPListByRole (ks_infra k) MASTER) mastersToDelete in
      if length remainMasters = 0 then throwE allMastersErr
      else thenE (whenE (length workersToDelete > 0) (k0s_deleteNodes k workersToDelete remainMasters))
                 (whenE (length mastersToDelete > 0) (k0s_deleteMasters k mastersToDelete remainMasters)))"

definition k0s_Reset :: "K0sRuntime \<Rightarrow> unit io" where
  "k0s_Reset k = k0s_reset k (GetHostIPListByRole (ks_infra k) MASTER) (GetHostIPListByRole (ks_infra k) NODE)"

definition k0sAsInstaller :: "kubeExternals \<Rightarrow> K0sRuntime \<Rightarrow> RuntimeInstaller" where
  "k0sAsInstaller kx k = \<lparr>rt_Install = k0s_Install kx k, rt_GetCurrentRuntimeDriver = k0s_GetCurrentRuntimeDriver,
     rt_Reset = k0s_Reset k, rt_ScaleUp = k0s_ScaleUp k, rt_ScaleDown = k0s_ScaleDown k\<rparr>"

definition NewK0sRuntime :: "kubeExternals \<Rightarrow> newRuntime" where
  "NewK0sRuntime kx infra containerRuntimeInfo registryURL =
     Inr (k0sAsInstaller kx (newK0sRuntime (kx_debug kx) infra containerRuntimeInfo registryURL))"

section \<open>The contract\<close>

lemma api_DeleteNode [simp]: "in_cluster d (DeleteNode n)"
  by (simp add: in_cluster_def)

lemma in_cluster_Detached [simp]: "in_cluster d (Detached a) = in_cluster d a"
  by (simp add: in_cluster_def)

lemma obeys_k0s_helpers [intro!]:
  "obeys (in_cluster d) k0s_GetCurrentRuntimeDriver"
  "obeys (in_cluster (ks_infra k)) (cmdUnit k host cmd)"
  "obeys (in_cluster (ks_infra k)) (getNodeName k host)"
  "obeys (in_cluster d) (deleteNodeFromCluster name)"
  unfolding k0s_GetCurrentRuntimeDriver_def NewKubeDriver_def GetClientFromConfig_def cmdUnit_def getNodeName_def
    deleteNodeFromCluster_def by auto

lemma obeys_waitK0s [intro!]: "obeys (in_cluster (ks_infra k)) (waitK0s_go k host n)"
  by (induction n) auto

lemma obeys_pingRetry [intro!]: "obeys (in_cluster (ks_infra k)) (pingRetry k host n)"
  by (induction n) auto

lemma obeys_k0s_first [intro!]:
  "obeys (in_cluster (ks_infra k)) (k0s_initKube k hosts)"
  "obeys (in_cluster (ks_infra k)) (generateConfigOnMaster0 k host reg)"
  "obeys (in_cluster (ks_infra k)) (bootstrapMaster0 k host)"
  "obeys (in_cluster (ks_infra k)) (generateJoinToken k host)"
  "obeys (in_cluster d) (k0s_dumpKubeConfigIntoCluster kx host)"
  unfolding k0s_initKube_def generateConfigOnMaster0_def generateK0sConfig_def modifyConfigRepo_def bootstrapMaster0_def
    WaitK0sReady_def generateJoinToken_def k0s_dumpKubeConfigIntoCluster_def Let_def
  by auto

lemma obeys_CopyJoinToken [intro!]: "obeys (in_cluster (ks_infra k)) (CopyJoinToken k role hosts)"
  unfolding CopyJoinToken_def by (auto simp: in_cluster_def)

lemma obeys_k0s_join [intro!]:
  "obeys (in_cluster (ks_infra k)) (k0s_joinMasters k hosts reg)"
  "obeys (in_cluster (ks_infra k)) (k0s_joinNodes k hosts)"
  unfolding k0s_joinMasters_def k0s_joinNodes_def WaitSSHReady_def fetchKubeconfig_def by auto

lemma obeys_k0s_remove [intro!]:
  "obeys (in_cluster (ks_infra k)) (k0s_deleteMasters k ms rs)"
  "obeys (in_cluster (ks_infra k)) (k0s_deleteNodes k ns rs)"
  "obeys (in_cluster (ks_infra k)) (k0s_reset k ms ns)"
  unfolding k0s_deleteMasters_def k0s_deleteMaster_def k0s_deleteNodes_def k0s_deleteNode_def k0s_reset_def resetNodes_def
    resetMasters_def by auto

interpretation k0s: runtime_contract "k0sAsInstaller kx k" "ks_infra k" for kx k
proof unfold_locales
  show "obeys (in_cluster (ks_infra k)) (rt_Install (k0sAsInstaller kx k))"
    by (auto simp: k0sAsInstaller_def k0s_Install_def Let_def)
  show "obeys (in_cluster (ks_infra k)) (rt_GetCurrentRuntimeDriver (k0sAsInstaller kx k))"
    by (auto simp: k0sAsInstaller_def)
  show "obeys (in_cluster (ks_infra k)) (rt_Reset (k0sAsInstaller kx k))"
    by (auto simp: k0sAsInstaller_def k0s_Reset_def)
  fix ms ns
  show "obeys (in_cluster (ks_infra k)) (rt_ScaleUp (k0sAsInstaller kx k) ms ns)"
    by (auto simp: k0sAsInstaller_def k0s_ScaleUp_def)
  show "obeys (in_cluster (ks_infra k)) (rt_ScaleDown (k0sAsInstaller kx k) ms ns)"
    by (auto simp: k0sAsInstaller_def k0s_ScaleDown_def Let_def)
qed


section \<open>Join tokens\<close>

lemma ensures_detach: "ensures (Detached a) (detach a)"
  by (auto simp: ensures_def detach_def)

lemma grows_k0s [intro!]: "grows (k0s_initKube k hosts)" "grows (CopyJoinToken k role hosts)" "grows (pingRetry k h n)"
  by (rule obeys_mono [of "in_cluster (ks_infra k)"]; blast)+

definition noCopy :: "action \<Rightarrow> bool" where
  "noCopy a = (case a of CopyTo _ _ _ \<Rightarrow> False | _ \<Rightarrow> True)"

lemma noCopy_drv [intro!]:
  "obeys noCopy (drv_CmdAsync d host e cmds)" "obeys noCopy (drv_Ping d host)"
  unfolding drv_CmdAsync_def drv_Ping_def by (auto intro!: obeys_withClient simp: noCopy_def)

lemma noCopy_pingRetry [intro!]: "obeys noCopy (pingRetry k host n)"
  by (induction n) auto

lemma CopyJoinToken_starts:
  assumes "n \<in> set hosts" and "sshConfigs (ks_infra k) (ip_String n) \<noteq> None"
  shows "ensures (Detached (CopyTo n (joinCertPath role) (joinCertPath role))) (CopyJoinToken k role hosts)"
  unfolding CopyJoinToken_def using assms(2) by (intro ensures_forE [OF assms(1)]) (auto intro: ensures_detach)

text \<open>
  Joining workers to a k0s cluster does not wait for the join token: when the call succeeds
  the copy of the token to each worker has been started, but no copy is among the actions whose
  outcome the call knows, before or after the command that needs the token.
\<close>

theorem k0s_token_copy_not_awaited:
  assumes "n \<in> set nodes" and "sshConfigs (ks_infra k) (ip_String n) \<noteq> None"
  shows "obeys noCopy (k0s_joinNodes k nodes)
    \<and> ensures (Detached (CopyTo n DefaultK0sWorkerJoin DefaultK0sWorkerJoin)) (k0s_joinNodes k nodes)"
proof
  show "obeys noCopy (k0s_joinNodes k nodes)"
    unfolding k0s_joinNodes_def k0s_initKube_def WaitSSHReady_def CopyJoinToken_def Let_def by (auto simp: noCopy_def)
  have "joinCertPath WorkerRole = DefaultK0sWorkerJoin" by (simp add: joinCertPath_def WorkerRole_def ControllerRole_def)
  with CopyJoinToken_starts [OF assms, of WorkerRole]
  have "ensures (Detached (CopyTo n DefaultK0sWorkerJoin DefaultK0sWorkerJoin)) (CopyJoinToken k WorkerRole nodes)" by simp
  moreover have "length nodes \<noteq> 0" using assms(1) by auto
  ultimately show "ensures (Detached (CopyTo n DefaultK0sWorkerJoin DefaultK0sWorkerJoin)) (k0s_joinNodes k nodes)"
    unfolding k0s_joinNodes_def if_not_P [OF \<open>length nodes \<noteq> 0\<close>]
    by (intro ensures_then_second ensures_then_first) auto
qed

theorem k0s_token_copy_not_awaited_witness:
  "ensures (Detached (CopyTo [10, 0, 0, 2] DefaultK0sWorkerJoin DefaultK0sWorkerJoin))
    (k0s_joinNodes (newK0sRuntime False demoDriver emptyCRInfo ''reg'') [[10, 0, 0, 2]])"
  using k0s_token_copy_not_awaited [of "[10, 0, 0, 2]" "[[10, 0, 0, 2]]" "newK0sRuntime False demoDriver emptyCRInfo ''reg''"]
    demo_in_cluster(2) by (simp add: newK0sRuntime_def)

section \<open>Waiting for the service\<close>

lemma waitK0s_log:
  assumes "waitK0s_go k host n w = (r, w')"
  shows "\<exists>m \<le> n. w_log w' = w_log w @ replicate m (CmdOn host [] ''k0s status'')"
  using assms
proof (induction n arbitrary: w)
  case 0
  then show ?case by (simp add: throwE_def)
next
  case (Suc n)
  show ?case
  proof (cases "sshConfigs (ks_infra k) (ip_String host)")
    case None
    with Suc.prems have "w' = w" by (auto simp: drv_Cmd_def withClient_def bindE_def throwE_def)
    then show ?thesis by (intro exI [of _ 0]) simp
  next
    case (Some c)
    let ?w = "w\<lparr>w_log := w_log w @ [CmdOn host [] ''k0s status'']\<rparr>"
    from Suc.prems Some consider "w' = ?w" | "waitK0s_go k host n ?w = (r, w')"
      by (auto simp: drv_Cmd_def withClient_def bindE_def askText_def returnE_def split: option.splits if_splits)
    then show ?thesis
    proof cases
      case 1
      then show ?thesis by (intro exI [of _ 1]) simp
    next
      case 2
      from Suc.IH [OF 2] obtain m where "m \<le> n" "w_log w' = w_log ?w @ replicate m (CmdOn host [] ''k0s status'')" by blast
      then show ?thesis by (intro exI [of _ "Suc m"]) simp
    qed
  qed
qed

text \<open>
  Waiting for the k0s service ends: whatever the host answers, the status is asked for at
  most four times and nothing else is done.
\<close>

theorem k0s_wait_is_bounded:
  "\<exists>m \<le> 4. w_log (snd (WaitK0sReady k host w)) = w_log w @ replicate m (CmdOn host [] ''k0s status'')"
  using waitK0s_log [of k host 4 w] unfolding WaitK0sReady_def by (metis prod.collapse)

end
