(* ===== verification/Lifecycle.thy ===== *)
theory Lifecycle
  imports Cluster_Runtime K0s_Runtime
begin

text \<open>
  Properties of the life cycle as a whole: every operation of the cluster installer reaches hosts
  of the cluster only, whatever distributor and runtimes it is given as long as these keep their
  contracts, and what the operations do with hosts that cannot be reached.
\<close>

section \<open>The contract of the installer's parts\<close>

lemma reg_NewInstaller_driver [simp]: "li_infraDriver (reg_NewInstaller cur reg d dist) = d"
  by (simp add: reg_NewInstaller_def)

lemma obeys_CheckNodeSSH [intro!]: "obeys (in_cluster d) (checkSSH_go d hosts failed)" "obeys (in_cluster d) (CheckNodeSSH d hosts)"
proof -
  show go: "obeys (in_cluster d) (checkSSH_go d hosts failed)" for failed
    by (induction hosts arbitrary: failed) auto
  then show "obeys (in_cluster d) (CheckNodeSSH d hosts)" unfolding CheckNodeSSH_def by blast
qed

lemma obeys_requireSSH [intro!]: "obeys (in_cluster d) (requireSSH d hosts f)"
  unfolding requireSSH_def by auto

lemma obeys_hostAliases [intro!]:
  "obeys (in_cluster d) (SetClusterHostAliases d hosts)" "obeys (in_cluster d) (DeleteClusterHostAliases d hosts)"
  unfolding SetClusterHostAliases_def DeleteClusterHostAliases_def by auto

lemma obeys_nodeObjects [intro!]:
  "obeys (in_cluster d) (setRoles i)" "obeys (in_cluster d) (setNodeLabels i hosts)"
  "obeys (in_cluster d) (setNodeTaints i hosts)" "obeys (in_cluster d) (saveRegistryInfo ex info)"
  unfolding setRoles_def setNodeLabels_def setNodeTaints_def saveRegistryInfo_def putLabels_def Let_def by auto

text \<open>An installer whose parts work through the same driver and keep their contracts.\<close>

locale installer_parts = distributor_contract "in_Distributor i" "in_infraDriver i"
  for ex :: externals and i :: Installer +
  assumes cri_driver: "di_driver (in_containerRuntimeInstaller i) = in_infraDriver i"
    and runtime: "getClusterRuntimeInstaller ex t (in_infraDriver i) cr url = Inr rt \<Longrightarrow> runtime_contract rt (in_infraDriver i)"
begin

lemma cri_within [intro!]:
  "obeys (in_cluster (in_infraDriver i)) (cri_InstallOn (in_containerRuntimeInstaller i) hosts)"
  "obeys (in_cluster (in_infraDriver i)) (cri_UnInstallFrom (in_containerRuntimeInstaller i) hosts)"
  using obeys_cri [of "in_containerRuntimeInstaller i"] by (simp_all add: cri_driver)

lemma Reconcile_within [intro!]:
  "obeys (in_cluster (in_infraDriver i)) (Reconcile (reg_NewInstaller cur reg (in_infraDriver i) (in_Distributor i)) desired)"
  unfolding Reconcile_def Let_def by (auto intro!: reg_install_in_cluster)

lemma registry_within [intro!]:
  "obeys (in_cluster (in_infraDriver i)) (deployRegistry i masters master0)"
  "obeys (in_cluster (in_infraDriver i)) (haDeploy i master0 cur desired)"
  "obeys (in_cluster (in_infraDriver i)) (cleanRegistry i masters master0)"
  unfolding deployRegistry_def haDeploy_def cleanRegistry_def reg_Clean_def Let_def by auto

lemma configurator_within:
  assumes "\<And>cf. configurator_contract cf (in_infraDriver i) \<Longrightarrow> obeys (in_cluster (in_infraDriver i)) (f cf)"
  shows "obeys (in_cluster (in_infraDriver i)) (bindE (newConfigurator ex i hosts) f)"
  unfolding newConfigurator_def by (rule obeys_bind_liftR) (rule assms, rule NewConfigurator_contract)

lemma runtime_within:
  assumes "\<And>rt. runtime_contract rt (in_infraDriver i) \<Longrightarrow> obeys (in_cluster (in_infraDriver i)) (f rt)"
  shows "obeys (in_cluster (in_infraDriver i)) (bindE (newRuntimeInstaller ex i cf) f)"
    and "obeys (in_cluster (in_infraDriver i)) (bindE (liftR (getClusterRuntimeInstaller ex t (in_infraDriver i) cr url)) f)"
  unfolding newRuntimeInstaller_def by (rule obeys_bind_liftR, rule assms, erule runtime)+

lemmas parts = configurator_within runtime_within distribute_in_cluster restore_in_cluster
  configurator_contract.install_in_cluster configurator_contract.uninstall_in_cluster
  configurator_contract.info_in_cluster runtime_contract.install_in_cluster runtime_contract.driver_in_cluster
  runtime_contract.reset_in_cluster runtime_contract.scaleUp_in_cluster runtime_contract.scaleDown_in_cluster

lemma Install_within: "obeys (in_cluster (in_infraDriver i)) (Install ex i)"
  unfolding Install_def Let_def by (intro obeys_bindE obeys_thenE parts; (auto intro!: parts)?)

lemma ScaleUp_within: "obeys (in_cluster (in_infraDriver i)) (ScaleUp ex i ms ws)"
  unfolding ScaleUp_def Let_def by (auto intro!: parts)

lemma ScaleDown_within: "obeys (in_cluster (in_infraDriver i)) (ScaleDown ex i ms ws)"
  unfolding ScaleDown_def resetAndScaleDown_def onlyScaleDown_def Let_def by (auto intro!: parts)

lemma UnInstall_within: "obeys (in_cluster (in_infraDriver i)) (UnInstall ex i)"
  unfolding UnInstall_def Let_def by (auto intro!: parts)

lemma Upgrade_within: "obeys (in_cluster (in_infraDriver i)) (Upgrade ex i)"
  unfolding Upgrade_def Let_def by (auto intro!: parts)

lemma Rollback_within: "obeys (in_cluster (in_infraDriver i)) (Rollback ex i)"
  unfolding Rollback_def Let_def by (auto intro!: parts)

end


section \<open>Sealer's own parts\<close>

text \<open>The parameters of an installer with both runtimes in place, as \<^verbatim>\<open>getClusterRuntimeInstaller\<close> builds them.\<close>

definition sealerExternals :: "kubeExternals \<Rightarrow> KubeadmConfig \<Rightarrow> (HookConfig list \<Rightarrow> HookConfig list) \<Rightarrow> string
    \<Rightarrow> (RegistryInfo \<Rightarrow> string res) \<Rightarrow> externals" where
  "sealerExternals kx conf sorter home registryYaml = \<lparr>ex_codecs = kx_codecs kx, ex_sorter = sorter,
     ex_NewKubeadmRuntime = NewKubeadmRuntime kx conf, ex_NewK0sRuntime = NewK0sRuntime kx, ex_home = home,
     ex_IsAlreadyExists = kx_IsAlreadyExists kx, ex_registryYaml = registryYaml\<rparr>"

lemma sealer_runtimes:
  "getClusterRuntimeInstaller (sealerExternals kx conf sorter home ry) t d cr url = Inr rt \<Longrightarrow> runtime_contract rt d"
  using kubeadm.runtime_contract_axioms [of kx "newKubeadmRuntime kx conf d cr url"]
    k0s.runtime_contract_axioms [of kx "newK0sRuntime (kx_debug kx) d cr url"]
  by (auto simp: getClusterRuntimeInstaller_def sealerExternals_def NewKubeadmRuntime_def NewK0sRuntime_def
      newKubeadmRuntime_def newK0sRuntime_def split: if_splits)

interpretation sealer: installer_parts "sealerExternals kx conf sorter home ry"
  "\<lparr>in_Distributor = scpAsDistributor s, in_Plugins = ps, in_infraDriver = sd_infraDriver s,
    in_containerRuntimeInstaller = \<lparr>di_Info = info, di_envs = e, di_rootfs = r, di_driver = sd_infraDriver s\<rparr>,
    in_clusterRuntimeType = t, in_hooks = hs, in_regConfig = reg\<rparr>"
  for kx conf sorter home ry s ps info e r t hs reg
  by unfold_locales (auto intro: scp.distribute_in_cluster scp.registry_in_cluster scp.restore_in_cluster
      scp.registry_on_hosts scp.restore_on_hosts
      dest!: sealer_runtimes simp: runtime_contract_def)

lemma NewInstaller_parts:
  assumes "NewInstaller (sealerExternals kx conf sorter home ry) (sd_infraDriver s) (scpAsDistributor s) plugins info = Inr i"
  shows "installer_parts (sealerExternals kx conf sorter home ry) i"
proof -
  note i = NewInstaller_cri [OF assms]
  have "i = \<lparr>in_Distributor = scpAsDistributor s, in_Plugins = in_Plugins i, in_infraDriver = sd_infraDriver s,
      in_containerRuntimeInstaller = \<lparr>di_Info = di_Info (in_containerRuntimeInstaller i),
        di_envs = di_envs (in_containerRuntimeInstaller i), di_rootfs = di_rootfs (in_containerRuntimeInstaller i),
        di_driver = sd_infraDriver s\<rparr>,
      in_clusterRuntimeType = in_clusterRuntimeType i, in_hooks = in_hooks i, in_regConfig = in_regConfig i\<rparr>"
    using i(3-5) by (cases i) (auto intro: DefaultInstaller.equality)
  with sealer.installer_parts_axioms show ?thesis by metis
qed

text \<open>
  Every operation of the life cycle, with the scp distributor and either Kubernetes runtime,
  acts on hosts of the cluster only: whatever the environment answers, each remote command, copy
  or query goes to an address that is in the host list of the cluster.
\<close>

theorem lifecycle_stays_in_cluster:
  assumes "NewInfraDriver grow spare c = Inr (sd_infraDriver s)"
    and "NewInstaller (sealerExternals kx conf sorter home ry) (sd_infraDriver s) (scpAsDistributor s) plugins info = Inr i"
    and "ex = sealerExternals kx conf sorter home ry"
    and "P = (\<lambda>a. \<forall>ip. action_host a = Some ip \<longrightarrow> ip_String ip \<in> ip_String ` set (GetHostIPList (sd_infraDriver s)))"
  shows "obeys P (Install ex i) \<and> obeys P (ScaleUp ex i ms ws) \<and> obeys P (ScaleDown ex i ms ws)
    \<and> obeys P (UnInstall ex i) \<and> obeys P (Upgrade ex i) \<and> obeys P (Rollback ex i)"
proof -
  note parts = NewInstaller_parts [OF assms(2), folded assms(3)]
  have P: "in_cluster (in_infraDriver i) = P"
    using NewInstaller_cri(4) [OF assms(2)] in_cluster_iff [OF assms(1)]
    by (simp add: in_cluster_def assms(4) fun_eq_iff)
  show ?thesis
    using installer_parts.Install_within [OF parts] installer_parts.ScaleUp_within [OF parts] installer_parts.ScaleDown_within [OF parts]
      installer_parts.UnInstall_within [OF parts] installer_parts.Upgrade_within [OF parts] installer_parts.Rollback_within [OF parts]
    unfolding P by blast
qed

definition demoScp :: scpDistributor where
  "demoScp = NewScpDistributor demoYaml [] demoDriver [] \<lparr>do_IgnoreCache = False, do_Prune = True\<rparr>"

theorem lifecycle_stays_in_cluster_witness:
  "\<exists>i. NewInstaller (sealerExternals demoKube emptyKubeadmConfig (sort_key hk_Name) ''/root'' (\<lambda>_. Inr []))
      demoDriver (scpAsDistributor demoScp) [] \<lparr>ii_ContainerRuntimeType = Docker, ii_ClusterRuntimeType = K8s\<rparr> = Inr i
    \<and> obeys (\<lambda>a. \<forall>ip. action_host a = Some ip \<longrightarrow> ip_String ip \<in> ip_String ` set (GetHostIPList demoDriver))
        (Install (sealerExternals demoKube emptyKubeadmConfig (sort_key hk_Name) ''/root'' (\<lambda>_. Inr [])) i)"
proof -
  let ?ex = "sealerExternals demoKube emptyKubeadmConfig (sort_key hk_Name) ''/root'' (\<lambda>_. Inr [])"
  have d: "sd_infraDriver demoScp = demoDriver" by (simp add: demoScp_def NewScpDistributor_def)
  have "\<exists>i. NewInstaller ?ex demoDriver (scpAsDistributor demoScp) [] \<lparr>ii_ContainerRuntimeType = Docker, ii_ClusterRuntimeType = K8s\<rparr> = Inr i"
    by (simp add: NewInstaller_def getCRIInstaller_def cri_NewInstaller_def transferPluginsToHooks_def)
  then obtain i where i: "NewInstaller ?ex demoDriver (scpAsDistributor demoScp) []
      \<lparr>ii_ContainerRuntimeType = Docker, ii_ClusterRuntimeType = K8s\<rparr> = Inr i" ..
  from lifecycle_stays_in_cluster [OF _ _ refl refl, of "\<lambda>c n. n" "\<lambda>i. 0" demoCluster demoScp, unfolded d, OF demoDriver i] i
  show ?thesis by blast
qed

section \<open>Unreachable masters and a registry on every master\<close>

lemma forE_each_succeeds:
  assumes "forE xs f w = (Inr u, w')" and "x \<in> set xs" and "\<And>y. grows (f y)"
  shows "\<exists>as v. f x (w\<lparr>w_log := w_log w @ as\<rparr>) = (Inr (), v)"
  using assms(1,2)
proof (induction xs arbitrary: w)
  case (Cons y ys)
  then obtain w1 where y: "f y w = (Inr (), w1)" and rest: "forE ys f w1 = (Inr u, w')" by (auto simp: thenE_Inr_iff)
  from obeysD [OF assms(3), of y w] y obtain as where w1: "w1 = w\<lparr>w_log := w_log w @ as\<rparr>" by auto
  show ?case
  proof (cases "x = y")
    case True
    with y show ?thesis by (intro exI [of _ "[]"] exI [of _ w1]) simp
  next
    case False
    with Cons.IH [OF rest] Cons.prems(2) obtain bs v where "f x (w1\<lparr>w_log := w_log w1 @ bs\<rparr>) = (Inr (), v)" by auto
    with w1 show ?thesis by (intro exI [of _ "as @ bs"] exI [of _ v]) simp
  qed
qed simp

text \<open>A host on which no command succeeds.\<close>

definition dead :: "world \<Rightarrow> net_ip \<Rightarrow> bool" where
  "dead w h = (\<forall>l e cmds. w_err w l (CmdAsyncOn h e cmds) \<noteq> None)"

lemma reg_clean_dead: "h \<in> set hosts \<Longrightarrow> dead w h \<Longrightarrow> reg_clean l hosts w \<noteq> (Inr u, w')"
proof
  assume h: "h \<in> set hosts" "dead w h" and run: "reg_clean l hosts w = (Inr u, w')"
  from forE_each_succeeds [OF run [unfolded reg_clean_def] h(1)] obtain as v
    where "drv_CmdAsync (li_infraDriver l) h [] [deleteRegistryCommand] (w\<lparr>w_log := w_log w @ as\<rparr>) = (Inr (), v)" by blast
  moreover from h(2) obtain e where "w_err w (w_log w @ as) (CmdAsyncOn h [] [deleteRegistryCommand]) = Some e"
    unfolding dead_def by blast
  ultimately show False
    by (auto simp: drv_CmdAsync_def withClient_def perform_def throwE_def split: option.splits)
qed

text \<open>
  With a registry on every master, scaling down cannot remove a master on which no command
  runs any more: the registry is reconciled before the reachability of the hosts is looked at,
  its clean-up needs the host, and the whole operation fails. (A master that cannot be reached is
  meant to be removed from the cluster without touching it.)
\<close>

theorem ha_scale_down_of_dead_master_fails:
  assumes "g_Local (in_regConfig i) = Some reg" and "l_HA reg = Some True"
    and "masters = GetHostIPListByRole (in_infraDriver i) MASTER" and "distinct (map ip_String masters)"
    and "m \<in> set masters" and "IsInIPList m mastersToDelete" and "dead w m"
  shows "ScaleDown ex i mastersToDelete workersToDelete w \<noteq> (Inr x, w')"
proof
  assume run: "ScaleDown ex i mastersToDelete workersToDelete w = (Inr x, w')"
  let ?remain = "RemoveIPs masters mastersToDelete"
  have dist: "distinct (map ip_String ?remain)"
    using assms(4) by (simp add: RemoveIPs_def distinct_map_filter)
  have sub: "set ?remain \<subseteq> set masters" by (auto simp: RemoveIPs_def)
  have gone: "ip_String m \<notin> ip_String ` set ?remain"
  proof
    assume "ip_String m \<in> ip_String ` set ?remain"
    then obtain y where y: "y \<in> set ?remain" "ip_String m = ip_String y" by auto
    with sub assms(4,5) have "y = m" by (metis distinct_map inj_onD subset_iff)
    with y(1) assms(6) show False by (auto simp: RemoveIPs_def)
  qed
  then have m: "m \<in> set (filter (\<lambda>v. ip_String v \<notin> ip_String ` set ?remain) masters)" using assms(5) by simp
  have nil: "filter (\<lambda>v. ip_String v \<notin> ip_String ` set masters) ?remain = []" using sub by (auto simp: filter_empty_conv)
  have ne: "masters \<noteq> []" using assms(5) by auto
  from run obtain hosts w1 where "Reconcile (reg_NewInstaller masters reg (in_infraDriver i) (in_Distributor i)) ?remain w = (Inr hosts, w1)"
    by (auto simp: ScaleDown_def Let_def bindE_Inr_iff firstE_Inr_iff liftR_Inr_iff haDeploy_def assms(1,2,3) deref_def)
  then obtain u where "reg_clean (reg_NewInstaller masters reg (in_infraDriver i) (in_Distributor i))
      (filter (\<lambda>v. ip_String v \<notin> ip_String ` set ?remain) masters) w = (Inr u, w1)"
    using m ne by (auto simp: Reconcile_def reg_NewInstaller_def Diff_spec [OF dist] nil thenE_Inr_iff returnE_def filter_empty_conv split: if_splits)
  with reg_clean_dead [OF m assms(7)] show False by blast
qed


theorem ha_scale_down_of_dead_master_fails_witness:
  "\<forall>ex x w'. ScaleDown ex \<lparr>in_Distributor = scpAsDistributor demoScp, in_Plugins = [], in_infraDriver = demoDriver,
      in_containerRuntimeInstaller = \<lparr>di_Info = emptyCRInfo, di_envs = [], di_rootfs = [], di_driver = demoDriver\<rparr>,
      in_clusterRuntimeType = K8s, in_hooks = Map.empty, in_regConfig = \<lparr>g_Local = Some (demoRegistry\<lparr>l_HA := Some True\<rparr>), g_External = None\<rparr>\<rparr>
      [[10, 0, 0, 1]] [] (calmWorld\<lparr>w_err := \<lambda>l a. Some (Errorf ''timeout'' [])\<rparr>) \<noteq> (Inr x, w')"
proof (intro allI)
  fix ex x w'
  let ?i = "\<lparr>in_Distributor = scpAsDistributor demoScp, in_Plugins = [], in_infraDriver = demoDriver,
      in_containerRuntimeInstaller = \<lparr>di_Info = emptyCRInfo, di_envs = [], di_rootfs = [], di_driver = demoDriver\<rparr>,
      in_clusterRuntimeType = K8s, in_hooks = Map.empty, in_regConfig = \<lparr>g_Local = Some (demoRegistry\<lparr>l_HA := Some True\<rparr>), g_External = None\<rparr>\<rparr>"
  have masters: "[[10, 0, 0, 1]] = GetHostIPListByRole (in_infraDriver ?i) MASTER"
    using driver_role_lists(1) [OF demoDriver, of MASTER] by (simp add: GetIPSByRole_def ipsOfHostByRole_def demo_simps)
  show "ScaleDown ex ?i [[10, 0, 0, 1]] [] (calmWorld\<lparr>w_err := \<lambda>l a. Some (Errorf ''timeout'' [])\<rparr>) \<noteq> (Inr x, w')"
    by (rule ha_scale_down_of_dead_master_fails [OF _ _ masters, of "demoRegistry\<lparr>l_HA := Some True\<rparr>" "[10, 0, 0, 1]"])
      (auto simp: demoRegistry_def dead_def)
qed

end
