(* ===== verification/Image_Mount.thy ===== *)
theory Image_Mount
  imports Image_Distributor "HOL-Library.Multiset"
begin

text \<open>
  Model of \<^verbatim>\<open>pkg/imagedistributor/mount.go\<close>: an image is mounted once for every platform of the hosts it
  goes to. The image engine (buildah) is reached through local actions; Go ranges over the map of
  platforms in an order that is not specified, here the argument \<open>order\<close>.
\<close>

section \<open>Mounting\<close>

definition buildAh_Mount :: "string \<Rightarrow> Platform \<Rightarrow> string \<Rightarrow> (string \<times> string \<times> string) io" where
  "buildAh_Mount imageName platform dest =
     (let mountDir = filepath_Join [dest, strings_ReplaceAll imageName ''/'' ''_'',
            strings_Join [p_OS platform, p_Architecture platform, p_Variant platform] ''_''] in
      bindE (askText (LocalCall ''imageEngine.Pull'' [imageName, ToString platform, ''missing''])) (\<lambda>imageID.
      thenE (fs_MkdirAll (filepath_Dir mountDir))
      (bindE (askText (LocalCall ''imageEngine.CreateWorkingContainer'' [mountDir, imageID])) (\<lambda>cid.
        returnE (mountDir, cid, imageID)))))"

definition buildAh_Umount :: "string \<Rightarrow> string \<Rightarrow> unit io" where
  "buildAh_Umount mountDir cid =
     thenE (mapErr (Wrapf ''failed to remove mount dir %s: %v'' [mountDir]) (fs_RemoveAll [mountDir]))
       (mapErr (Wrapf ''failed to remove working container: %v'' []) (perform (LocalCall ''imageEngine.RemoveContainer'' [cid])))"

record ImagerMounter =
  im_rootDir :: string
  im_hostsPlatform :: "(Platform \<times> net_ip list) list"

definition NewImageMounter :: "(Platform \<times> net_ip list) list \<Rightarrow> ImagerMounter io" where
  "NewImageMounter hostsPlatform =
     bindE (mapErr (Wrapf ''failed to create tmp mount dir, err: %v'' []) (askText (LocalCall ''os.MkdirTemp'' [[], ''sealer-mount-tmp''])))
       (\<lambda>tempDir. returnE \<lparr>im_rootDir = tempDir, im_hostsPlatform = hostsPlatform\<rparr>)"

fun mount_go :: "string \<Rightarrow> string \<Rightarrow> (Platform \<times> net_ip list) list \<Rightarrow> ClusterImageMountInfo list io" where
  "mount_go imageName rootDir [] = returnE []"
| "mount_go imageName rootDir ((platform, hosts) # rest) =
     bindE (mapErr (Wrapf ''failed to mount image %s with platform %s:%v'' [imageName, ToString platform])
        (buildAh_Mount imageName platform rootDir)) (\<lambda>(mountDir, cid, imageID).
     bindE (mount_go imageName rootDir rest) (\<lambda>infos.
       returnE (\<lparr>mi_Hosts = hosts, mi_Platform = platform, mi_MountDir = mountDir, mi_ContainerID = cid, mi_ImageID = imageID\<rparr> # infos)))"

type_synonym mapOrder = "(Platform \<times> net_ip list) list \<Rightarrow> (Platform \<times> net_ip list) list"

definition Mount :: "mapOrder \<Rightarrow> ImagerMounter \<Rightarrow> string \<Rightarrow> ClusterImageMountInfo list io" where
  "Mount order c imageName = mount_go imageName (im_rootDir c) (order (im_hostsPlatform c))"

definition Umount :: "ImagerMounter \<Rightarrow> ClusterImageMountInfo list \<Rightarrow> unit io" where
  "Umount c imageMountInfo =
     thenE (forE imageMountInfo (\<lambda>info. mapErr (Wrapf ''failed to umount %s:%v'' [mi_MountDir info])
        (buildAh_Umount (mi_MountDir info) (mi_ContainerID info))))
       (fs_RemoveAll [im_rootDir c])"

section \<open>Which hosts an image is mounted for\<close>

lemma localOK_mount [intro!]: "localOK P \<Longrightarrow> obeys P (NewImageMounter hp)" "localOK P \<Longrightarrow> obeys P (Umount c infos)"
  by (auto simp: NewImageMounter_def Umount_def buildAh_Umount_def)

lemma obeys_Mount [intro!]: "localOK P \<Longrightarrow> obeys P (Mount order c imageName)"
proof -
  assume "localOK P"
  then have "obeys P (mount_go imageName r hp)" for r hp
    by (induction hp) (auto simp: buildAh_Mount_def Let_def)
  then show ?thesis by (simp add: Mount_def)
qed

lemma mount_go_infos:
  "mount_go imageName r hp w = (Inr infos, w') \<Longrightarrow> map (\<lambda>i. (mi_Platform i, mi_Hosts i)) infos = hp"
  by (induction hp arbitrary: infos w) (auto simp: returnE_def bindE_Inr_iff)

text \<open>The hosts of every platform, grouped.\<close>

definition grouped :: "('p \<times> 'h list) list \<Rightarrow> 'h list \<Rightarrow> bool" where
  "grouped m hosts = (distinct (map fst m) \<and> mset (concat (map snd m)) = mset hosts)"

lemma grouped_insert:
  assumes "grouped m hosts"
  shows "grouped (if map_of m p = None then m @ [(p, [h])] else map (\<lambda>(q, hs). if q = p then (q, hs @ [h]) else (q, hs)) m) (hosts @ [h])"
proof (cases "map_of m p")
  case None
  with assms show ?thesis by (auto simp: grouped_def map_of_eq_None_iff)
next
  case (Some hs)
  have keys: "map fst (map (\<lambda>(q, hs). if q = p then (q, hs @ [h]) else (q, hs)) m) = map fst m" by (induction m) auto
  have one: "distinct (map fst m) \<Longrightarrow> p \<in> set (map fst m) \<Longrightarrow>
      mset (concat (map snd (map (\<lambda>(q, hs). if q = p then (q, hs @ [h]) else (q, hs)) m))) = mset (concat (map snd m)) + {#h#}"
  proof (induction m)
    case (Cons a m)
    have "p \<notin> fst ` set m \<Longrightarrow>
      concat (map (snd \<circ> (\<lambda>(q, hs). if q = p then (q, hs @ [h]) else (q, hs))) m) = concat (map snd m)" by (induction m) auto
    with Cons show ?case by (cases a) auto
  qed simp
  from Some have "p \<in> set (map fst m)" by (metis map_of_eq_None_iff list.set_map option.discI)
  with one assms have "grouped (map (\<lambda>(q, hs). if q = p then (q, hs @ [h]) else (q, hs)) m) (hosts @ [h])"
    unfolding grouped_def keys by simp
  with Some show ?thesis by simp
qed

lemma hostsPlatform_grouped:
  "hostsPlatform_go gr d hosts m w = (Inr hp, w') \<Longrightarrow> grouped m done \<Longrightarrow> grouped hp (done @ hosts)"
proof (induction hosts arbitrary: m "done" w)
  case (Cons h hosts)
  then obtain p w1 where step: "hostsPlatform_go gr d hosts (if map_of m p = None then m @ [(p, [h])]
      else map (\<lambda>(q, hs). if q = p then (q, hs @ [h]) else (q, hs)) m) w1 = (Inr hp, w')"
    by (auto simp: bindE_Inr_iff)
  from Cons.IH [OF step grouped_insert [OF Cons.prems(2)]] show ?case by simp
qed (simp add: returnE_def)



end
