(* ===== verification/App_Driver.thy ===== *)
theory App_Driver
  imports Kubefile Cluster_Cmd Infra_Driver Config_Dump
begin

text \<open>
  Model of \<^verbatim>\<open>pkg/application\<close> (\<^verbatim>\<open>appdriver.go\<close>, \<^verbatim>\<open>files.go\<close>): the applications of an image unified with the
  application object of the user, which of them are launched and with which commands, and how
  their files are changed before they are distributed. The image extension is that of
  \<^verbatim>\<open>pkg/define/image/v1\<close>; the root of the applications is that of \<^verbatim>\<open>pkg/rootfs/v1\<close>.

  Where the code tells a nil slice from an empty one the model has an option. The processors of a
  driver are ranged over in an order that is a parameter. The YAML library, as in the configuration
  files of a Clusterfile, and the JSON text of an extension are parameters.
\<close>

section \<open>Types\<close>

definition KubeInstallerType :: string where "KubeInstallerType = ''kube-installer''"
definition AppInstallerType :: string where "AppInstallerType = ''app-installer''"

record ImageExtension =
  ie_Type :: string
  ie_Applications :: "V1Application list"
  ie_Labels :: env
  ie_Env :: env
  ie_LaunchCmds :: "string list option"
  ie_LaunchAppNames :: "string list option"

datatype FileProcessor = overWriteProcessor AppFile | mergeProcessor AppFile | envRender env

record applicationDriver =
  ad_app :: Application
  ad_launchApps :: "string list option"
  ad_registeredApps :: "string list"
  ad_globalCmds :: "string list option"
  ad_globalEnv :: env
  ad_appLaunchCmdsMap :: "string \<rightharpoonup> string list"
  ad_extension :: ImageExtension
  ad_appRootMap :: "string \<rightharpoonup> string"
  ad_appEnvMap :: "string \<rightharpoonup> env"
  ad_appFileProcessorMap :: "(string \<times> FileProcessor list) list"

abbreviation orNil :: "'a list option \<Rightarrow> 'a list" where
  "orNil \<equiv> nil_if_absent"

section \<open>Construction\<close>

definition registerApp :: "env \<Rightarrow> V1Application \<Rightarrow> applicationDriver \<Rightarrow> applicationDriver" where
  "registerApp extEnv app d =
     (let appName = NameVar app; appRoot = makeItDir (filepath_Join [appRootDir, appName]);
          appEnv = maps_Merge (AppEnv app) extEnv in
      d\<lparr>ad_registeredApps := ad_registeredApps d @ [appName],
        ad_appRootMap := (ad_appRootMap d)(appName \<mapsto> appRoot),
        ad_appLaunchCmdsMap := (ad_appLaunchCmdsMap d)(appName \<mapsto> [GetAppLaunchCmd appRoot app]),
        ad_appEnvMap := (ad_appEnvMap d)(appName \<mapsto> appEnv),
        ad_appFileProcessorMap := (if length appEnv > 0
          then AList.update appName [envRender appEnv] (ad_appFileProcessorMap d) else ad_appFileProcessorMap d)\<rparr>)"

definition formatImageExtension :: "ImageExtension \<Rightarrow> applicationDriver" where
  "formatImageExtension extension = fold (registerApp (ie_Env extension)) (ie_Applications extension)
     \<lparr>ad_app = newApplication, ad_launchApps = ie_LaunchAppNames extension, ad_registeredApps = [],
      ad_globalCmds = ie_LaunchCmds extension, ad_globalEnv = ie_Env extension, ad_appLaunchCmdsMap = Map.empty,
      ad_extension = extension, ad_appRootMap = Map.empty, ad_appEnvMap = Map.empty, ad_appFileProcessorMap = []\<rparr>"

definition newFileProcessor :: "AppFile \<Rightarrow> FileProcessor res" where
  "newFileProcessor appFile =
     (if af_Strategy appFile = ''overwrite'' then Inr (overWriteProcessor appFile)
      else if af_Strategy appFile = ''merge'' then Inr (mergeProcessor appFile)
      else Inl (Errorf ''failed to init fileProcessor,%s is not register'' [af_Strategy appFile]))"

definition parseLaunchCmds :: "string list option \<Rightarrow> string list option" where
  "parseLaunchCmds launchCmds = launchCmds"

definition configLaunch :: "ApplicationConfig \<Rightarrow> applicationDriver \<Rightarrow> applicationDriver res" where
  "configLaunch config d = (case ac_Launch config of None \<Rightarrow> Inr d
     | Some l \<Rightarrow> (case parseLaunchCmds l of
         None \<Rightarrow> Inl (Errorf ''failed to get launchCmds from application configs'' [])
       | Some cmds \<Rightarrow> Inr (d\<lparr>ad_appLaunchCmdsMap := (ad_appLaunchCmdsMap d)(ac_Name config \<mapsto> cmds)\<rparr>)))"

definition configEnv :: "ApplicationConfig \<Rightarrow> applicationDriver \<Rightarrow> applicationDriver" where
  "configEnv config d = (if length (ac_Env config) > 0
     then d\<lparr>ad_appEnvMap := (ad_appEnvMap d)(ac_Name config \<mapsto>
       maps_Merge (ConvertStringSliceToMap (ac_Env config)) (orNil (ad_appEnvMap d (ac_Name config))))\<rparr>
     else d)"

fun addConfigs :: "ApplicationConfig list \<Rightarrow> applicationDriver \<Rightarrow> applicationDriver res" where
  "addConfigs [] d = Inr d"
| "addConfigs (config # rest) d =
     (let name = ac_Name config in
      if name = [] then Inl (Errorf ''application configs name could not be nil'' [])
      else if \<not> IsInSlice name (orNil (ad_launchApps d)) then addConfigs rest d
      else bindR (configLaunch config d) (\<lambda>d1. let d2 = configEnv config d1; e = orNil (ad_appEnvMap d2 name) in
        bindR (mapR newFileProcessor (ac_Files config)) (\<lambda>fps.
          addConfigs rest (d2\<lparr>ad_appFileProcessorMap :=
            AList.update name ((if length e > 0 then [envRender e] else []) @ fps) (ad_appFileProcessorMap d2)\<rparr>))))"

definition NewAppDriver :: "Application \<Rightarrow> ImageExtension \<Rightarrow> applicationDriver res" where
  "NewAppDriver app extension =
     (let d0 = (formatImageExtension extension)\<lparr>ad_app := app\<rparr>;
          d1 = (if length (app_Cmds app) > 0 then d0\<lparr>ad_globalCmds := Some (app_Cmds app)\<rparr> else d0) in
      bindR (case app_LaunchApps app of None \<Rightarrow> Inr d1
        | Some wanted \<Rightarrow> (case find (\<lambda>x. x \<noteq> [] \<and> \<not> IsInSlice x (ad_registeredApps d1)) wanted of
            Some x \<Rightarrow> Inl (Errorf ''app name `%s` is not found in %s'' [x, strings_Join (ad_registeredApps d1) '' ''])
          | None \<Rightarrow> Inr (d1\<lparr>ad_launchApps := Some wanted\<rparr>))) (\<lambda>d2.
        addConfigs (app_Configs app) d2))"

section \<open>Queries\<close>

definition GetAppLaunchCmds :: "applicationDriver \<Rightarrow> string \<Rightarrow> string list" where
  "GetAppLaunchCmds a appName = orNil (ad_appLaunchCmdsMap a appName)"

definition GetAppNames :: "applicationDriver \<Rightarrow> string list" where
  "GetAppNames a = orNil (ad_launchApps a)"

definition GetAppRoot :: "applicationDriver \<Rightarrow> string \<Rightarrow> string" where
  "GetAppRoot a appName = orNil (ad_appRootMap a appName)"

definition GetImageLaunchCmds :: "applicationDriver \<Rightarrow> string list" where
  "GetImageLaunchCmds a = (case ad_globalCmds a of Some cmds \<Rightarrow> cmds
     | None \<Rightarrow> concat (map (\<lambda>appName. orNil (ad_appLaunchCmdsMap a appName)) (orNil (ad_launchApps a))))"

definition GetApplication :: "applicationDriver \<Rightarrow> Application" where
  "GetApplication a = ad_app a"

section \<open>Effects\<close>

definition app_Launch :: "applicationDriver \<Rightarrow> SSHInfraDriver \<Rightarrow> unit io" where
  "app_Launch a d =
     bindE (firstE (GetHostIPListByRole d MASTER)) (\<lambda>master0.
       forE (GetImageLaunchCmds a) (\<lambda>cmdline.
         if cmdline = [] then returnE ()
         else drv_CmdAsync d master0 [] [fmt_Sprintf ''cd %s && %s'' [GetClusterRootfsPath d, cmdline]]))"

text \<open>The file is opened for appending: a second save puts its text behind that of the first.\<close>

definition app_Save :: "(ImageExtension \<Rightarrow> string res) \<Rightarrow> string \<Rightarrow> applicationDriver \<Rightarrow> unit io" where
  "app_Save extJson home a =
     (let applicationFile = GetDefaultApplicationFile home in
      thenE (perform (LocalCall ''os.OpenFile(O_APPEND)'' [filepath_Clean applicationFile]))
      (thenE (mapErr (Wrapf ''cannot flock file %s - %s'' [applicationFile]) (perform (LocalCall ''syscall.Flock'' [applicationFile])))
      (bindE (mapErr (Wrapf ''failed to marshal image extension: %v'' []) (liftR (extJson (ad_extension a)))) (\<lambda>content.
        perform (LocalCall ''file.Write'' [applicationFile, content])))))"

definition overWrite_Process :: "AppFile \<Rightarrow> string \<Rightarrow> unit io" where
  "overWrite_Process f appRoot = (let target = filepath_Join [appRoot, af_Path f] in
     mapErr (Wrapf ''failed to write to file %s with raw mode: %v'' [target]) (commonWriter_WriteFile target (af_Data f)))"

definition merge_Process :: "yamlLib \<Rightarrow> AppFile \<Rightarrow> string \<Rightarrow> unit io" where
  "merge_Process yl f appRoot =
     bindE (mapErr (Wrapf ''failed to load config data: %v'' []) (liftR (y3_Unmarshal yl (af_Data f)))) (\<lambda>srcDataMap.
       let target = filepath_Join [appRoot, af_Path f] in
       bindE (askText (LocalCall ''os.Open'' [filepath_Clean target])) (\<lambda>content.
       bindE (liftR (mapR (\<lambda>r.
           bindR (mapErrR (Wrapf ''failed to unmarshal config data: %v'' []) r) (\<lambda>destDataMap.
           bindR (mapErrR (Wrapf ''failed to merge config: %v'' []) (yl_Merge yl destDataMap srcDataMap)) (y3_Marshal yl)))
         (y3_Decode yl content))) (\<lambda>result.
       mapErr (Wrapf ''failed to write to file %s with raw mode: %v'' [target])
         (commonWriter_WriteFile target (strings_Join result ([CHR 0x0A] @ ''---'' @ [CHR 0x0A]))))))"

definition fp_Process :: "yamlLib \<Rightarrow> FileProcessor \<Rightarrow> string \<Rightarrow> unit io" where
  "fp_Process yl fp appRoot = (case fp of
       overWriteProcessor f \<Rightarrow> overWrite_Process f appRoot
     | mergeProcessor f \<Rightarrow> merge_Process yl f appRoot
     | envRender envData \<Rightarrow> if length envData = 0 then returnE () else RenderTemplate appRoot envData)"

definition FileProcess :: "yamlLib \<Rightarrow> ((string \<times> FileProcessor list) list \<Rightarrow> (string \<times> FileProcessor list) list)
    \<Rightarrow> applicationDriver \<Rightarrow> string \<Rightarrow> unit io" where
  "FileProcess yl order a mountDir = forE (order (ad_appFileProcessorMap a)) (\<lambda>(appName, processors).
     forE processors (\<lambda>fp. mapErr (Wrapf ''failed to process appFiles for %s: %v'' [appName])
       (fp_Process yl fp (filepath_Join [mountDir, GetAppRoot a appName]))))"

section \<open>What is launched\<close>

text \<open>
  The plan: raw commands of the user, else raw commands of the image, else for every application to
  launch the commands of its last configuration that has some, or the command of its type.
\<close>

definition appPlan :: "Application \<Rightarrow> ImageExtension \<Rightarrow> string \<Rightarrow> string list" where
  "appPlan app ext n = (case find (\<lambda>c. ac_Name c = n \<and> ac_Launch c \<noteq> None) (rev (app_Configs app)) of
       Some c \<Rightarrow> the (the (ac_Launch c))
     | None \<Rightarrow> (case find (\<lambda>v. NameVar v = n) (rev (ie_Applications ext)) of
         Some v \<Rightarrow> [GetAppLaunchCmd (makeItDir (filepath_Join [appRootDir, n])) v] | None \<Rightarrow> []))"

definition launchNamesOf :: "Application \<Rightarrow> ImageExtension \<Rightarrow> string list" where
  "launchNamesOf app ext = (case app_LaunchApps app of Some ns \<Rightarrow> ns | None \<Rightarrow> orNil (ie_LaunchAppNames ext))"

definition launchPlan :: "Application \<Rightarrow> ImageExtension \<Rightarrow> string list" where
  "launchPlan app ext = (if app_Cmds app \<noteq> [] then app_Cmds app
     else (case ie_LaunchCmds ext of Some cmds \<Rightarrow> cmds
       | None \<Rightarrow> concat (map (appPlan app ext) (launchNamesOf app ext))))"

lemma orNil_None: "orNil None = []"
  by (simp add: nil_if_absent_def)

lemma find_app: "find P (xs @ ys) = (case find P xs of None \<Rightarrow> find P ys | Some x \<Rightarrow> Some x)"
  by (induction xs) auto

lemma registerAll_cmds:
  "orNil (ad_appLaunchCmdsMap (fold (registerApp e) apps d) n) = (case find (\<lambda>v. NameVar v = n) (rev apps) of
     Some v \<Rightarrow> [GetAppLaunchCmd (makeItDir (filepath_Join [appRootDir, n])) v] | None \<Rightarrow> orNil (ad_appLaunchCmdsMap d n))"
  by (induction apps arbitrary: d)
     (auto simp: registerApp_def Let_def find_app nil_if_absent_def split: option.splits)

lemma registerAll_rest:
  "ad_launchApps (fold (registerApp e) apps d) = ad_launchApps d"
  "ad_globalCmds (fold (registerApp e) apps d) = ad_globalCmds d"
  by (induction apps arbitrary: d) (auto simp: registerApp_def Let_def)

lemma configLaunch_Inr:
  assumes "configLaunch c d = Inr d1"
  shows "ad_launchApps d1 = ad_launchApps d" "ad_globalCmds d1 = ad_globalCmds d"
    "ad_appLaunchCmdsMap d1 = (case ac_Launch c of None \<Rightarrow> ad_appLaunchCmdsMap d | Some l \<Rightarrow> (ad_appLaunchCmdsMap d)(ac_Name c \<mapsto> the l))"
  using assms by (auto simp: configLaunch_def parseLaunchCmds_def split: option.splits)

lemma addConfigs_launch:
  assumes "addConfigs cs d = Inr a"
  shows "ad_launchApps a = ad_launchApps d \<and> ad_globalCmds a = ad_globalCmds d \<and>
    (\<forall>n \<in> set (orNil (ad_launchApps d)). orNil (ad_appLaunchCmdsMap a n) =
      (case find (\<lambda>c. ac_Name c = n \<and> ac_Launch c \<noteq> None) (rev cs) of Some c \<Rightarrow> the (the (ac_Launch c))
       | None \<Rightarrow> orNil (ad_appLaunchCmdsMap d n)))"
  using assms
proof (induction cs arbitrary: d)
  case (Cons c cs)
  show ?case
  proof (cases "IsInSlice (ac_Name c) (orNil (ad_launchApps d))")
    case False
    with Cons have IH: "ad_launchApps a = ad_launchApps d \<and> ad_globalCmds a = ad_globalCmds d \<and>
      (\<forall>n \<in> set (orNil (ad_launchApps d)). orNil (ad_appLaunchCmdsMap a n) =
        (case find (\<lambda>c. ac_Name c = n \<and> ac_Launch c \<noteq> None) (rev cs) of Some c \<Rightarrow> the (the (ac_Launch c))
         | None \<Rightarrow> orNil (ad_appLaunchCmdsMap d n)))" by (auto simp: Let_def split: if_splits)
    moreover have "ac_Name c \<notin> set (orNil (ad_launchApps d))" using False by (simp add: IsInSlice_iff)
    ultimately show ?thesis by (auto simp: find_app split: option.splits)
  next
    case True
    with Cons.prems obtain d1 fps where d1: "configLaunch c d = Inr d1" and
      rest: "addConfigs cs ((configEnv c d1)\<lparr>ad_appFileProcessorMap := fps\<rparr>) = Inr a"
      by (auto simp: Let_def bindR_Inr_iff split: if_splits)
    have keep: "ad_launchApps (configEnv c d1) = ad_launchApps d1" "ad_globalCmds (configEnv c d1) = ad_globalCmds d1"
      "ad_appLaunchCmdsMap (configEnv c d1) = ad_appLaunchCmdsMap d1" by (simp_all add: configEnv_def)
    from Cons.IH [OF rest] configLaunch_Inr [OF d1] keep show ?thesis
      by (auto simp: find_app nil_if_absent_def split: option.splits)
  qed
qed simp

lemma formatImageExtension_cmds:
  "orNil (ad_appLaunchCmdsMap (formatImageExtension ext) n) = (case find (\<lambda>v. NameVar v = n) (rev (ie_Applications ext)) of
     Some v \<Rightarrow> [GetAppLaunchCmd (makeItDir (filepath_Join [appRootDir, n])) v] | None \<Rightarrow> [])"
  by (simp add: formatImageExtension_def registerAll_cmds orNil_None cong: option.case_cong)

lemma NewAppDriver_launch:
  assumes "NewAppDriver app ext = Inr a"
  shows "GetImageLaunchCmds a = launchPlan app ext"
proof -
  obtain d where d: "addConfigs (app_Configs app) d = Inr a"
    "ad_launchApps d = Some (launchNamesOf app ext) \<or> ad_launchApps d = ie_LaunchAppNames ext \<and> app_LaunchApps app = None"
    "ad_globalCmds d = (if app_Cmds app \<noteq> [] then Some (app_Cmds app) else ie_LaunchCmds ext)"
    "ad_appLaunchCmdsMap d = ad_appLaunchCmdsMap (formatImageExtension ext)"
    using assms
    by (auto simp: NewAppDriver_def Let_def bindR_Inr_iff launchNamesOf_def formatImageExtension_def registerAll_rest split: option.splits if_splits)
  have names: "orNil (ad_launchApps d) = launchNamesOf app ext" using d(2) by (auto simp: launchNamesOf_def nil_if_absent_def)
  note ac = addConfigs_launch [OF d(1)]
  have "orNil (ad_appLaunchCmdsMap a n) = appPlan app ext n" if "n \<in> set (launchNamesOf app ext)" for n
    using ac that names d(4) formatImageExtension_cmds [of ext n] by (simp add: appPlan_def split: option.split)
  then show ?thesis using ac d(3) unfolding GetImageLaunchCmds_def launchPlan_def
    by (cases "app_Cmds app"; cases "ie_LaunchCmds ext") (simp_all add: names cong: map_cong)
qed

text \<open>
  C30. Launching the applications of an image runs, on the first master and in order, exactly the
  commands of the launch plan inside the root file system of the cluster, without the empty ones:
  the user's raw commands if there are any, else those of the image, else for every application to
  launch the commands of its configuration or those of its type.
\<close>

theorem launch_runs_the_plan:
  assumes "NewAppDriver app ext = Inr a" and "calm w" and "GetHostIPListByRole d MASTER = master0 # ms"
    and "sshConfigs d (ip_String master0) \<noteq> None"
  shows "does (app_Launch a d) w () (map (\<lambda>c. CmdAsyncOn master0 [] [fmt_Sprintf ''cd %s && %s'' [GetClusterRootfsPath d, c]])
    (filter (\<lambda>c. c \<noteq> []) (launchPlan app ext)))"
proof -
  let ?act = "\<lambda>c. CmdAsyncOn master0 [] [fmt_Sprintf ''cd %s && %s'' [GetClusterRootfsPath d, c]]"
  let ?g = "\<lambda>c. if c = [] then [] else [?act c]"
  have step: "does (if c = [] then returnE () else drv_CmdAsync d master0 [] [fmt_Sprintf ''cd %s && %s'' [GetClusterRootfsPath d, c]]) v () (?g c)"
    if "calm v" for c v
    using assms(4) does_perform_calm [OF that]
    by (auto simp: drv_CmdAsync_def withClient_def does_def returnE_def split: option.splits)
  have "does (forE (launchPlan app ext) (\<lambda>c. if c = [] then returnE () else drv_CmdAsync d master0 [] [fmt_Sprintf ''cd %s && %s'' [GetClusterRootfsPath d, c]]))
      w () (concat (map ?g (launchPlan app ext)))"
    by (rule does_forE_calm [OF assms(2) step])
  moreover have "concat (map ?g cs) = map ?act (filter (\<lambda>c. c \<noteq> []) cs)" for cs by (induction cs) auto
  ultimately show ?thesis
    by (simp add: app_Launch_def assms(3) firstE_def NewAppDriver_launch [OF assms(1)])
qed

definition demoExtension :: ImageExtension where
  "demoExtension = \<lparr>ie_Type = KubeInstallerType,
     ie_Applications = [NewV1Application ''nginx'' KubeApp [''nginx.yaml''], NewV1Application ''redis'' HelmApp [''redis'']],
     ie_Labels = [], ie_Env = [], ie_LaunchCmds = None, ie_LaunchAppNames = Some [''nginx'', ''redis'']\<rparr>"

lemma launch_runs_the_plan_witness:
  "\<exists>a. NewAppDriver (newApplication\<lparr>app_Configs := [\<lparr>ac_Name = ''redis'', ac_Env = [], ac_Files = [], ac_Launch = Some (Some [''make up''])\<rparr>]\<rparr>) demoExtension = Inr a \<and>
     does (app_Launch a demoDriver) calmWorld ()
       [CmdAsyncOn [10, 0, 0, 1] [] [fmt_Sprintf ''cd %s && %s'' [GetClusterRootfsPath demoDriver, ''kubectl apply -f application/apps/nginx/nginx.yaml'']],
        CmdAsyncOn [10, 0, 0, 1] [] [fmt_Sprintf ''cd %s && %s'' [GetClusterRootfsPath demoDriver, ''make up'']]]"
proof -
  let ?app = "newApplication\<lparr>app_Configs := [\<lparr>ac_Name = ''redis'', ac_Env = [], ac_Files = [], ac_Launch = Some (Some [''make up''])\<rparr>]\<rparr>"
  have "\<not> isl (NewAppDriver ?app demoExtension)" by code_simp
  then obtain a where a: "NewAppDriver ?app demoExtension = Inr a" by (cases "NewAppDriver ?app demoExtension") auto
  have plan: "launchPlan ?app demoExtension = [''kubectl apply -f application/apps/nginx/nginx.yaml'', ''make up'']" by code_simp
  have masters: "GetHostIPListByRole demoDriver MASTER = [10, 0, 0, 1] # []"
    using driver_role_lists(1) [OF demoDriver, of MASTER] by (simp add: GetIPSByRole_def ipsOfHostByRole_def demo_simps)
  from launch_runs_the_plan [OF a calm_calmWorld masters demo_in_cluster(1)] a plan show ?thesis by simp
qed

end
