(* ===== verification/Cluster_Installer.thy ===== *)
theory Cluster_Installer
  imports Lifecycle Clusterfile Image_Mount App_Driver
begin

text \<open>
  Model of \<^verbatim>\<open>cmd/sealer/cmd/cluster/installer.go\<close>: what the commands do with a cluster image
  (\<^verbatim>\<open>KubeInstaller\<close>) and with an application image (\<^verbatim>\<open>AppInstaller\<close>), from the mounted image to the saved
  Clusterfile, and of the plugin files of an image (\<^verbatim>\<open>pkg/cluster-runtime/hook.go\<close>).

  The record \<open>context\<close> collects the parameters: the libraries, the runtime of Go, the unspecified
  orders and slice capacities, the decoder of an image's metadata and the peer-to-peer distributor.
  A nil interface is a record of procedures that panic.
\<close>

section \<open>Parameters\<close>

record ImageSpec =
  is_ID :: string
  is_ImageExtension :: ImageExtension

record cmdContext =
  cx_kube :: kubeExternals
  cx_sorter :: "HookConfig list \<Rightarrow> HookConfig list"
  cx_home :: string
  cx_registryYaml :: "RegistryInfo \<Rightarrow> string res"
  cx_yaml :: yamlLib
  cx_clusterfile :: clusterfileLib
  cx_runtime :: goRuntime
  cx_order :: mapOrder
  cx_fpOrder :: "(string \<times> FileProcessor list) list \<Rightarrow> (string \<times> FileProcessor list) list"
  cx_extJson :: "ImageExtension \<Rightarrow> string res"
  cx_grow :: "nat \<Rightarrow> nat \<Rightarrow> nat"
  cx_spare :: "nat \<Rightarrow> nat"
  cx_envSpare :: nat
  cx_imageSpec :: "string \<Rightarrow> ImageSpec res"
  cx_NewP2PDistributor :: "ClusterImageMountInfo list \<Rightarrow> SSHInfraDriver \<Rightarrow> Config list \<Rightarrow> DistributeOption \<Rightarrow> Distributor io"

definition cx_externals :: "cmdContext \<Rightarrow> KubeadmConfig \<Rightarrow> externals" where
  "cx_externals cx conf = sealerExternals (cx_kube cx) conf (cx_sorter cx) (cx_home cx) (cx_registryYaml cx)"

definition nilPanic :: "'a io" where
  "nilPanic = throwE (Panic ''invalid memory address or nil pointer dereference'')"

definition nilDistributor :: Distributor where
  "nilDistributor = \<lparr>Distribute = (\<lambda>_ _. nilPanic), DistributeRegistry = (\<lambda>_ _. nilPanic), Restore = (\<lambda>_ _. nilPanic)\<rparr>"

definition ApplyModeLoadImage :: string where "ApplyModeLoadImage = ''loadImage''"

section \<open>Plugin files\<close>

definition yaml_Matcher :: "string \<Rightarrow> bool" where
  "yaml_Matcher path = (strings_ToLower (filepath_Ext path) \<in> {''.yaml'', ''.yml''})"

fun decodePlugins :: "clusterfileLib \<Rightarrow> string res list \<Rightarrow> Plugin list res" where
  "decodePlugins cl [] = Inr []"
| "decodePlugins cl (Inl e # docs) = Inl e"
| "decodePlugins cl (Inr ext # docs) = (let raw = strings_TrimSpace ext in
     if raw = [] \<or> raw = ''null'' then decodePlugins cl docs
     else bindR (mapErrR (Wrapf ''failed to decode TypeMeta: %v'' []) (cl_TypeMeta cl raw)) (\<lambda>(kind, apiVersion).
          bindR (mapErrR (Wrapf ''failed to decode %s[%s]: %v'' [kind, apiVersion]) (cl_Plugin cl raw)) (\<lambda>plu.
          bindR (decodePlugins cl docs) (\<lambda>rest.
            Inr (plu\<lparr>pl_Data := strings_TrimSuffix (pl_Data plu) [CHR 0x0A]\<rparr> # rest)))))"

definition decodePluginFile :: "clusterfileLib \<Rightarrow> string \<Rightarrow> Plugin list io" where
  "decodePluginFile cl pluginFile = bindE (os_ReadFile pluginFile) (\<lambda>data. liftR (decodePlugins cl (cl_Decode cl data)))"

fun loadPlugins_go :: "clusterfileLib \<Rightarrow> string \<Rightarrow> (string \<times> bool) list \<Rightarrow> Plugin list io" where
  "loadPlugins_go cl pluginPath [] = returnE []"
| "loadPlugins_go cl pluginPath ((name, isDir) # files) =
     (if \<not> yaml_Matcher name then loadPlugins_go cl pluginPath files
      else (let pluginFile = filepath_Join [pluginPath, name] in
        bindE (mapErr (Wrapf ''failed to decode plugin file %s: %v'' [pluginFile]) (decodePluginFile cl pluginFile)) (\<lambda>pluginList.
        bindE (loadPlugins_go cl pluginPath files) (\<lambda>rest. returnE (pluginList @ rest)))))"

definition LoadPluginsFromFile :: "clusterfileLib \<Rightarrow> string \<Rightarrow> Plugin list io" where
  "LoadPluginsFromFile cl pluginPath =
     bindE (os_IsNotExist pluginPath) (\<lambda>missing. if missing then returnE []
       else bindE (mapErr (Wrapf ''failed to ReadDir plugin dir %s: %v'' [pluginPath]) (askDir pluginPath))
         (loadPlugins_go cl pluginPath))"

text \<open>The plugins of the last mount that is for the platform sealer runs on.\<close>

fun loadFromMounts :: "cmdContext \<Rightarrow> ClusterImageMountInfo list \<Rightarrow> Plugin list \<Rightarrow> Plugin list io" where
  "loadFromMounts cx [] plugins = returnE plugins"
| "loadFromMounts cx (info # infos) plugins =
     (if ToString (mi_Platform info) = ToString (GetDefaultPlatform (cx_runtime cx))
      then bindE (LoadPluginsFromFile (cx_clusterfile cx) (filepath_Join [mi_MountDir info, ''plugins''])) (loadFromMounts cx infos)
      else loadFromMounts cx infos plugins)"

definition loadPluginsFromImage :: "cmdContext \<Rightarrow> ClusterImageMountInfo list \<Rightarrow> Plugin list io" where
  "loadPluginsFromImage cx imageMountInfo = loadFromMounts cx imageMountInfo []"

section \<open>Mounted images\<close>

text \<open>The image is mounted for the platforms of the hosts; the deferred unmount only logs its error.\<close>

definition withMounted :: "cmdContext \<Rightarrow> (Platform \<times> net_ip list) list \<Rightarrow> string \<Rightarrow> (ClusterImageMountInfo list \<Rightarrow> 'a io) \<Rightarrow> 'a io" where
  "withMounted cx hostsPlatform imageName body =
     bindE (NewImageMounter hostsPlatform) (\<lambda>mounter.
     bindE (Mount (cx_order cx) mounter imageName) (\<lambda>infos. finallyE (body infos) (Umount mounter infos)))"

definition withImage :: "cmdContext \<Rightarrow> SSHInfraDriver \<Rightarrow> net_ip list \<Rightarrow> string \<Rightarrow> (ClusterImageMountInfo list \<Rightarrow> 'a io) \<Rightarrow> 'a io" where
  "withImage cx d hosts imageName body = bindE (GetHostsPlatform (cx_runtime cx) d hosts) (\<lambda>hp. withMounted cx hp imageName body)"

definition fileProcessAll :: "cmdContext \<Rightarrow> applicationDriver \<Rightarrow> ClusterImageMountInfo list \<Rightarrow> unit io" where
  "fileProcessAll cx app infos = forE infos (\<lambda>info.
     mapErr (Wrapf ''failed to execute file processor: %v'' []) (FileProcess (cx_yaml cx) (cx_fpOrder cx) app (mi_MountDir info)))"

text \<open>A peer-to-peer distributor that cannot be made is only warned about and stays nil.\<close>

definition chooseDistributor :: "cmdContext \<Rightarrow> bool \<Rightarrow> ClusterImageMountInfo list \<Rightarrow> SSHInfraDriver \<Rightarrow> Config list \<Rightarrow> DistributeOption \<Rightarrow> Distributor io" where
  "chooseDistributor cx p2p infos d configs options =
     (if p2p then bindE (tryE (cx_NewP2PDistributor cx infos d configs options)) (\<lambda>r. case r of
          Inr dist \<Rightarrow> returnE dist | Inl _ \<Rightarrow> returnE nilDistributor)
      else returnE (scpAsDistributor (NewScpDistributor (cx_yaml cx) infos d configs options)))"

section \<open>Cluster images\<close>

record KubeInstaller =
  ki_cf :: ClusterFile
  ki_infraDriver :: SSHInfraDriver
  ki_imageSpec :: ImageSpec

definition NewKubeInstaller :: "cmdContext \<Rightarrow> ClusterFile \<Rightarrow> ImageSpec \<Rightarrow> KubeInstaller io" where
  "NewKubeInstaller cx cf imageSpec =
     bindE (cf_GetCluster cf) (\<lambda>cluster.
       let mergedWithExt = MergeClusterWithImageExtension cluster (ie_Env (is_ImageExtension imageSpec)) in
       bindE (liftR (NewInfraDriver (cx_grow cx) (cx_spare cx) mergedWithExt)) (\<lambda>infraDriver.
         returnE \<lparr>ki_cf = cf_SetCluster mergedWithExt cf, ki_infraDriver = infraDriver, ki_imageSpec = imageSpec\<rparr>))"

definition ki_labels :: "KubeInstaller \<Rightarrow> env" where
  "ki_labels k = ie_Labels (is_ImageExtension (ki_imageSpec k))"

definition ki_SaveAll :: "cmdContext \<Rightarrow> ClusterFile \<Rightarrow> SaveOptions \<Rightarrow> unit io" where
  "ki_SaveAll cx cf opts = SaveAll (cx_clusterfile cx) (kx_IsAlreadyExists (cx_kube cx)) (cx_home cx) cf opts"

definition commitOptions :: "env \<Rightarrow> SaveOptions" where
  "commitOptions labels = \<lparr>so_CommitToCluster = True, so_ConfPath = GetClusterConfPath labels\<rparr>"

definition localOptions :: SaveOptions where
  "localOptions = \<lparr>so_CommitToCluster = False, so_ConfPath = []\<rparr>"

text \<open>The application of the Clusterfile is changed in place; without one the new object is the driver's alone.\<close>

definition mergedApplication :: "cmdContext \<Rightarrow> ClusterFile \<Rightarrow> string list \<Rightarrow> string list option \<Rightarrow> string list \<Rightarrow> Application \<times> ClusterFile" where
  "mergedApplication cx cf cmds appNames envs =
     (let app = ConstructApplication (cx_envSpare cx) (cf_app cf) cmds appNames envs in
      (app, case cf_app cf of None \<Rightarrow> cf | Some _ \<Rightarrow> cf_SetApplication app cf))"

definition newKubeInstallation :: "cmdContext \<Rightarrow> KubeInstaller \<Rightarrow> Cluster \<Rightarrow> Distributor \<Rightarrow> Plugin list \<Rightarrow> Installer io" where
  "newKubeInstallation cx k cluster dist plugins =
     liftR (NewInstaller (cx_externals cx (cf_kubeadmConfig (ki_cf k))) (ki_infraDriver k) dist plugins
       (GetClusterInstallInfo (ki_labels k) (c_ContainerRuntime (Spec cluster))))"

record KubeInstallOptions =
  io_RunMode :: string
  io_IgnoreCache :: bool
  io_P2PDistribution :: bool

definition ki_Install :: "cmdContext \<Rightarrow> KubeInstaller \<Rightarrow> string \<Rightarrow> KubeInstallOptions \<Rightarrow> unit io" where
  "ki_Install cx k kubeImageName options =
     (let d = ki_infraDriver k; ext = is_ImageExtension (ki_imageSpec k) in
      bindE (cf_GetCluster (ki_cf k)) (\<lambda>cluster.
      withImage cx d (GetHostIPList d) kubeImageName (\<lambda>infos.
        let (app, cf) = mergedApplication cx (ki_cf k) (GetClusterLaunchCmds d) (GetClusterLaunchApps d) (c_Env (Spec cluster)) in
        bindE (mapErr (Wrapf ''failed to parse application from Clusterfile:%v '' []) (liftR (NewAppDriver app ext))) (\<lambda>v2App.
        thenE (fileProcessAll cx v2App infos)
        (bindE (chooseDistributor cx (io_P2PDistribution options) infos d (cf_configs cf) \<lparr>do_IgnoreCache = io_IgnoreCache options, do_Prune = False\<rparr>) (\<lambda>dist.
        if io_RunMode options = ApplyModeLoadImage then LoadToRegistry d dist
        else
          bindE (loadPluginsFromImage cx infos) (\<lambda>plugins.
          bindE (newKubeInstallation cx k cluster dist (plugins @ cf_plugins cf)) (\<lambda>installer.
          thenE (ki_SaveAll cx cf localOptions)
          (thenE (Install (cx_externals cx (cf_kubeadmConfig cf)) installer)
          (thenE (app_Launch v2App d)
          (thenE (app_Save (cx_extJson cx) (cx_home cx) v2App)
            (ki_SaveAll cx cf (commitOptions (ki_labels k))))))))))))))"

definition ki_ScaleUp :: "cmdContext \<Rightarrow> KubeInstaller \<Rightarrow> net_ip list \<Rightarrow> net_ip list \<Rightarrow> bool \<Rightarrow> unit io" where
  "ki_ScaleUp cx k newMasters newNodes ignoreCache =
     (let d = ki_infraDriver k; cf = ki_cf k in
      bindE (cf_GetCluster cf) (\<lambda>cluster.
      withImage cx d (newMasters @ newNodes) (GetClusterImageName d) (\<lambda>infos.
        let dist = scpAsDistributor (NewScpDistributor (cx_yaml cx) infos d (cf_configs cf) \<lparr>do_IgnoreCache = ignoreCache, do_Prune = False\<rparr>) in
        bindE (loadPluginsFromImage cx infos) (\<lambda>plugins.
        bindE (newKubeInstallation cx k cluster dist (plugins @ cf_plugins cf)) (\<lambda>installer.
        thenE (ki_SaveAll cx cf localOptions)
        (bindE (ScaleUp (cx_externals cx (cf_kubeadmConfig cf)) installer newMasters newNodes) (\<lambda>_.
          ki_SaveAll cx cf (commitOptions (ki_labels k)))))))))"

text \<open>
  Scaling down asks the hosts \<^verbatim>\<open>append(deleteMasterIPList, deleteMasterIPList...)\<close> for their platform. When
  that fails the distributor stays nil and no plugin is loaded.
\<close>

definition finishScaleDown :: "cmdContext \<Rightarrow> KubeInstaller \<Rightarrow> Cluster \<Rightarrow> net_ip list \<Rightarrow> net_ip list \<Rightarrow> Distributor \<Rightarrow> Plugin list \<Rightarrow> unit io" where
  "finishScaleDown cx k cluster delMasters delNodes dist plugins =
     bindE (newKubeInstallation cx k cluster dist plugins) (\<lambda>installer.
     bindE (ScaleDown (cx_externals cx (cf_kubeadmConfig (ki_cf k))) installer delMasters delNodes) (\<lambda>_.
       ki_SaveAll cx (cf_SetCluster (ConstructClusterForScaleDown cluster delMasters delNodes) (ki_cf k))
         (commitOptions (ki_labels k))))"

definition ki_ScaleDown :: "cmdContext \<Rightarrow> KubeInstaller \<Rightarrow> net_ip list \<Rightarrow> net_ip list \<Rightarrow> bool \<Rightarrow> unit io" where
  "ki_ScaleDown cx k delMasters delNodes prune =
     (let d = ki_infraDriver k; cf = ki_cf k in
      bindE (cf_GetCluster cf) (\<lambda>cluster.
      bindE (tryE (GetHostsPlatform (cx_runtime cx) d (delMasters @ delMasters))) (\<lambda>r. case r of
        Inl _ \<Rightarrow> finishScaleDown cx k cluster delMasters delNodes nilDistributor []
      | Inr hp \<Rightarrow> withMounted cx hp (GetClusterImageName d) (\<lambda>infos.
          bindE (loadPluginsFromImage cx infos) (\<lambda>plugins.
            finishScaleDown cx k cluster delMasters delNodes
              (scpAsDistributor (NewScpDistributor (cx_yaml cx) infos d [] \<lparr>do_IgnoreCache = False, do_Prune = prune\<rparr>))
              (plugins @ cf_plugins cf))))))"

definition DefaultKubeConfigDir :: "string \<Rightarrow> string" where
  "DefaultKubeConfigDir home = filepath_Join [home, ''.kube'']"

definition ki_Delete :: "cmdContext \<Rightarrow> KubeInstaller \<Rightarrow> bool \<Rightarrow> unit io" where
  "ki_Delete cx k prune =
     (let d = ki_infraDriver k; cf = ki_cf k in
      bindE (cf_GetCluster cf) (\<lambda>cluster.
      withImage cx d (GetHostIPList d) (GetClusterImageName d) (\<lambda>infos.
        let dist = scpAsDistributor (NewScpDistributor (cx_yaml cx) infos d [] \<lparr>do_IgnoreCache = False, do_Prune = prune\<rparr>) in
        bindE (loadPluginsFromImage cx infos) (\<lambda>plugins.
        bindE (newKubeInstallation cx k cluster dist (plugins @ cf_plugins cf)) (\<lambda>installer.
        thenE (UnInstall (cx_externals cx (cf_kubeadmConfig cf)) installer)
        (thenE (perform (LocalCall ''os.Remove'' [GetDefaultClusterfile (cx_home cx)]))
        (thenE (perform (LocalCall ''os.Remove'' [GetDefaultApplicationFile (cx_home cx)]))
          (fs_RemoveAll [DefaultKubeConfigDir (cx_home cx)]))))))))"

section \<open>Application images\<close>

record AppInstaller =
  ai_cf :: ClusterFile
  ai_imageExtension :: ImageExtension
  ai_infraDriver :: SSHInfraDriver
  ai_appDriver :: applicationDriver

record AppInstallOptions =
  ao_Envs :: "string list"
  ao_RunMode :: string
  ao_SkipPrepareAppMaterials :: bool
  ao_IgnoreCache :: bool
  ao_P2P :: bool

definition NewApplicationInstaller :: "cmdContext \<Rightarrow> Application \<Rightarrow> ImageExtension \<Rightarrow> AppInstaller io" where
  "NewApplicationInstaller cx appSpec extension =
     bindE (mapErr (Wrapf ''failed to parse application:%v '' []) (liftR (NewAppDriver appSpec extension))) (\<lambda>v2App.
     bindE (GetActualClusterFile (cx_clusterfile cx) (cx_home cx)) (\<lambda>(cf, _).
     bindE (cf_GetCluster cf) (\<lambda>cluster.
     bindE (liftR (NewInfraDriver (cx_grow cx) (cx_spare cx) cluster)) (\<lambda>infraDriver.
       returnE \<lparr>ai_cf = cf, ai_imageExtension = extension, ai_infraDriver = infraDriver, ai_appDriver = v2App\<rparr>))))"

definition ai_loadToRegistry :: "SSHInfraDriver \<Rightarrow> Distributor \<Rightarrow> unit io" where
  "ai_loadToRegistry d dist = (case g_Local (GetClusterRegistry d) of
       None \<Rightarrow> returnE ()
     | Some reg \<Rightarrow> (case GetHostIPListByRole d MASTER of
         [] \<Rightarrow> throwE (Errorf ''local registry host can not be nil'' [])
       | master0 # rest \<Rightarrow> bindE (deref (l_HA reg)) (\<lambda>ha.
           DistributeRegistry dist (if \<not> ha then [master0] else master0 # rest)
             (filepath_Join [GetClusterRootfsPath d, ''registry'']))))"

definition prepareMaterials :: "cmdContext \<Rightarrow> AppInstaller \<Rightarrow> string \<Rightarrow> AppInstallOptions \<Rightarrow> unit io" where
  "prepareMaterials cx i appImageName options =
     (let d = ai_infraDriver i in
      withImage cx d (GetHostIPList d) appImageName (\<lambda>infos.
        thenE (fileProcessAll cx (ai_appDriver i) infos)
        (bindE (chooseDistributor cx (ao_P2P options) infos d [] \<lparr>do_IgnoreCache = ao_IgnoreCache options, do_Prune = False\<rparr>) (\<lambda>dist.
        if ao_RunMode options = ApplyModeLoadImage then ai_loadToRegistry d dist
        else (let masters = GetHostIPListByRole d MASTER; regConfig = GetClusterRegistry d in
          thenE (Distribute dist masters (GetClusterRootfsPath d))
          (case g_Local regConfig of
             None \<Rightarrow> returnE ()
           | Some reg \<Rightarrow> bindE (deref (l_HA reg)) (\<lambda>ha.
               bindE (if ha then returnE masters else bindE (firstE masters) (\<lambda>m0. returnE [m0])) (\<lambda>deployHosts.
               bindE (liftR (NewConfigurator (kx_codecs (cx_kube cx)) deployHosts emptyCRInfo regConfig d dist)) (\<lambda>configurator.
                 rd_UploadContainerImages2Registry (cf_GetDriver configurator))))))))))"

definition ai_Install :: "cmdContext \<Rightarrow> AppInstaller \<Rightarrow> string \<Rightarrow> AppInstallOptions \<Rightarrow> unit io" where
  "ai_Install cx i0 imageName options =
     (let i = i0\<lparr>ai_infraDriver := AddClusterEnv (ai_infraDriver i0) (ao_Envs options)\<rparr> in
      thenE (whenE (\<not> ao_SkipPrepareAppMaterials options) (prepareMaterials cx i imageName options))
      (if ao_RunMode options = ApplyModeLoadImage then returnE ()
       else thenE (app_Launch (ai_appDriver i) (ai_infraDriver i))
         (thenE (app_Save (cx_extJson cx) (cx_home cx) (ai_appDriver i))
           (ki_SaveAll cx (cf_SetApplication (GetApplication (ai_appDriver i)) (ai_cf i))
             (commitOptions (ie_Labels (ai_imageExtension i)))))))"

end
