(* ===== verification/Installer_Properties.thy ===== *)
theory Installer_Properties
  imports Cluster_Installer
begin

text \<open>
  Properties of the command-level installers: they reach hosts of the cluster only, what happens to
  the hosts of a scale-down that cannot be reached, which plugins run, and what a distributor that
  could not be made leads to.
\<close>

section \<open>Reaching hosts of the cluster only\<close>

lemma obeys_plugins [intro!]:
  "localOK P \<Longrightarrow> obeys P (LoadPluginsFromFile cl p)" "localOK P \<Longrightarrow> obeys P (loadPluginsFromImage cx infos)"
proof -
  assume P: "localOK P"
  have go: "obeys P (loadPlugins_go cl p files)" for cl p files
    using P by (induction files) (auto simp: decodePluginFile_def Let_def)
  show fromFile: "obeys P (LoadPluginsFromFile cl p)" for cl p
    using P go by (auto simp: LoadPluginsFromFile_def)
  have "obeys P (loadFromMounts cx infos ps)" for ps by (induction infos arbitrary: ps) (auto intro!: fromFile)
  then show "obeys P (loadPluginsFromImage cx infos)" by (simp add: loadPluginsFromImage_def)
qed

lemma obeys_withMounted [intro!]:
  "localOK P \<Longrightarrow> (\<And>infos. obeys P (body infos)) \<Longrightarrow> obeys P (withMounted cx hp img body)"
  unfolding withMounted_def by blast

lemma obeys_withImage [intro!]:
  "(\<And>infos. obeys (in_cluster d) (body infos)) \<Longrightarrow> obeys (in_cluster d) (withImage cx d hosts img body)"
  unfolding withImage_def by auto

lemma obeys_fileProcessAll [intro!]: "localOK P \<Longrightarrow> obeys P (fileProcessAll cx app infos)"
  unfolding fileProcessAll_def FileProcess_def fp_Process_def overWrite_Process_def merge_Process_def
  by (auto simp: Let_def split: FileProcessor.split)

lemma obeys_ki_SaveAll [intro!]: "obeys (in_cluster d) (ki_SaveAll cx cf opts)"
  unfolding ki_SaveAll_def by (auto intro!: obeys_SaveAll)

lemma obeys_app [intro!]: "obeys (in_cluster d) (app_Launch a d)" "localOK P \<Longrightarrow> obeys P (app_Save f h a)"
  unfolding app_Launch_def app_Save_def by (auto simp: Let_def)

lemma scp_driver [simp]: "sd_infraDriver (NewScpDistributor yl infos d cs opts) = d"
  by (simp add: NewScpDistributor_def)

text \<open>A nil distributor does nothing at all, so it keeps the contract of a distributor.\<close>

interpretation nil: distributor_contract nilDistributor d for d
  by unfold_locales (auto simp: nilDistributor_def nilPanic_def)

lemma parts_of_installer:
  assumes "NewInstaller (cx_externals cx conf) d dist plugins info = Inr i" and "distributor_contract dist d"
  shows "installer_parts (cx_externals cx conf) i" "in_infraDriver i = d"
proof -
  note i = NewInstaller_cri [OF assms(1)]
  from i show "in_infraDriver i = d" by simp
  from i assms(2) show "installer_parts (cx_externals cx conf) i"
    unfolding installer_parts_def installer_parts_axioms_def cx_externals_def by (auto intro: sealer_runtimes)
qed

lemma newKubeInstallation_within:
  assumes "distributor_contract dist (ki_infraDriver k)"
    and "\<And>i. installer_parts (cx_externals cx (cf_kubeadmConfig (ki_cf k))) i \<Longrightarrow> in_infraDriver i = ki_infraDriver k \<Longrightarrow> obeys P (f i)"
  shows "obeys P (bindE (newKubeInstallation cx k cluster dist plugins) f)"
  unfolding newKubeInstallation_def
proof (rule obeys_bind_liftR)
  fix i
  assume "NewInstaller (cx_externals cx (cf_kubeadmConfig (ki_cf k))) (ki_infraDriver k) dist plugins
      (GetClusterInstallInfo (ki_labels k) (c_ContainerRuntime (Spec cluster))) = Inr i"
  from parts_of_installer [OF this assms(1)] show "obeys P (f i)" by (rule assms(2))
qed

lemma scp_contract [intro!]: "distributor_contract (scpAsDistributor (NewScpDistributor yl infos d cs opts)) d"
  using scp.distributor_contract_axioms [of "NewScpDistributor yl infos d cs opts"] by simp

lemma ki_Install_within:
  assumes "\<not> io_P2PDistribution opts"
  shows "obeys (in_cluster (ki_infraDriver k)) (ki_Install cx k name opts)"
proof -
  have cf: "cf_kubeadmConfig (snd (mergedApplication cx (ki_cf k) a b c)) = cf_kubeadmConfig (ki_cf k)" for a b c
    by (auto simp: mergedApplication_def Let_def cf_SetApplication_def split: option.split)
  have load: "obeys (in_cluster d) (LoadToRegistry d (scpAsDistributor (NewScpDistributor yl infos d cs o')))" for d yl infos cs o'
    using scp.registry_in_cluster [of "NewScpDistributor yl infos d cs o'"]
    unfolding LoadToRegistry_def by (auto split: option.split list.split)
  show ?thesis using assms cf unfolding ki_Install_def chooseDistributor_def
    by (auto simp: Let_def case_prod_beta intro!: newKubeInstallation_within load)
       (metis installer_parts.Install_within)
qed

lemma ki_ScaleUp_within: "obeys (in_cluster (ki_infraDriver k)) (ki_ScaleUp cx k ms ns c)"
  unfolding ki_ScaleUp_def
  by (auto simp: Let_def intro!: newKubeInstallation_within) (metis installer_parts.ScaleUp_within)

lemma ki_Delete_within: "obeys (in_cluster (ki_infraDriver k)) (ki_Delete cx k prune)"
  unfolding ki_Delete_def
  by (auto simp: Let_def intro!: newKubeInstallation_within) (metis installer_parts.UnInstall_within)

lemma ki_ScaleDown_within: "obeys (in_cluster (ki_infraDriver k)) (ki_ScaleDown cx k ms ns prune)"
proof -
  have finish: "obeys (in_cluster (ki_infraDriver k)) (finishScaleDown cx k cluster ms ns dist ps)"
    if "distributor_contract dist (ki_infraDriver k)" for cluster dist ps
    unfolding finishScaleDown_def using that
    by (auto intro!: newKubeInstallation_within) (metis installer_parts.ScaleDown_within)
  show ?thesis unfolding ki_ScaleDown_def
    by (auto simp: Let_def split: sum.split intro!: finish nil.distributor_contract_axioms)
qed

lemma in_cluster_AddClusterEnv [simp]: "in_cluster (AddClusterEnv d e) = in_cluster d"
  by (simp add: in_cluster_def AddClusterEnv_def fun_eq_iff)

lemma ai_Install_within:
  assumes "\<not> ao_P2P opts"
  shows "obeys (in_cluster (ai_infraDriver i)) (ai_Install cx i name opts)"
proof -
  let ?d = "AddClusterEnv (ai_infraDriver i) (ao_Envs opts)"
  have load: "obeys (in_cluster d) (ai_loadToRegistry d dist)" if "distributor_contract dist d" for d dist
    using distributor_contract.registry_in_cluster [OF that] unfolding ai_loadToRegistry_def by (auto split: option.split list.split)
  have upload: "obeys (in_cluster d) (bindE (liftR (NewConfigurator c h cr reg d dist)) (\<lambda>cf. rd_UploadContainerImages2Registry (cf_GetDriver cf)))"
    if "distributor_contract dist d" for c h cr reg d dist
    using distributor_contract.registry_in_cluster [OF that]
    by (auto intro!: obeys_bind_liftR simp: NewConfigurator_def localAsConfigurator_def lc_GetDriver_def newLocalRegistryDriver_def
        externalAsConfigurator_def newExternalRegistryDriver_def split: option.splits)
  have mat: "obeys (in_cluster d) (prepareMaterials cx j name opts)" if "d = ai_infraDriver j" for j d
    using assms distributor_contract.distribute_in_cluster [OF scp_contract]
    unfolding prepareMaterials_def chooseDistributor_def that
    by (auto simp: Let_def split: option.split intro!: load upload scp_contract)
  have "obeys (in_cluster ?d) (ai_Install cx i name opts)"
    using obeys_app(1) [of ?d] unfolding ai_Install_def by (auto simp: Let_def intro!: mat simp del: in_cluster_AddClusterEnv)
  then show ?thesis by simp
qed


lemma NewKubeInstaller_driver:
  "NewKubeInstaller cx cf spec w = (Inr k, w') \<Longrightarrow>
    \<exists>c. cf_cluster cf = Some c \<and> ki_imageSpec k = spec
      \<and> NewInfraDriver (cx_grow cx) (cx_spare cx) (MergeClusterWithImageExtension c (ie_Env (is_ImageExtension spec))) = Inr (ki_infraDriver k)
      \<and> ki_cf k = cf_SetCluster (MergeClusterWithImageExtension c (ie_Env (is_ImageExtension spec))) cf"
  by (auto simp: NewKubeInstaller_def cf_GetCluster_def deref_def Let_def bindE_Inr_iff liftR_Inr_iff returnE_def throwE_def split: option.splits)

lemma NewApplicationInstaller_driver:
  "NewApplicationInstaller cx app ext w = (Inr i, w') \<Longrightarrow>
    \<exists>c. NewInfraDriver (cx_grow cx) (cx_spare cx) c = Inr (ai_infraDriver i)"
  by (auto simp: NewApplicationInstaller_def bindE_Inr_iff liftR_Inr_iff returnE_def split: prod.splits)

text \<open>
  C1. Every command-level operation on a cluster image, and the installation of an application
  image, reaches hosts of the cluster only: whatever the environment answers, each remote
  command, copy or query goes to an address in the host list of the cluster object. (The
  peer-to-peer distributor is not covered.)
\<close>

theorem commands_stay_in_cluster:
  assumes "NewKubeInstaller cx cf spec w0 = (Inr k, w1)" and "\<not> io_P2PDistribution o1"
    and "NewApplicationInstaller cx app ext v0 = (Inr i, v1)" and "\<not> ao_P2P o2"
    and "reaches = (\<lambda>d a. \<forall>ip. action_host a = Some ip \<longrightarrow> ip_String ip \<in> ip_String ` set (GetHostIPList d))"
  shows "obeys (reaches (ki_infraDriver k)) (ki_Install cx k name o1)
    \<and> obeys (reaches (ki_infraDriver k)) (ki_ScaleUp cx k ms ns ignoreCache)
    \<and> obeys (reaches (ki_infraDriver k)) (ki_ScaleDown cx k ms ns prune)
    \<and> obeys (reaches (ki_infraDriver k)) (ki_Delete cx k prune)
    \<and> obeys (reaches (ai_infraDriver i)) (ai_Install cx i name o2)"
proof -
  have reaches: "in_cluster d = reaches d" if "NewInfraDriver grow spare c = Inr d" for grow spare c d
    using in_cluster_iff [OF that] by (simp add: in_cluster_def assms(5) fun_eq_iff)
  from NewKubeInstaller_driver [OF assms(1)] have k: "in_cluster (ki_infraDriver k) = reaches (ki_infraDriver k)" by (auto dest: reaches)
  from NewApplicationInstaller_driver [OF assms(3)] have i: "in_cluster (ai_infraDriver i) = reaches (ai_infraDriver i)" by (auto dest: reaches)
  show ?thesis
    using ki_Install_within [OF assms(2), of k cx name] ki_ScaleUp_within [of k cx ms ns ignoreCache]
      ki_ScaleDown_within [of k cx ms ns prune] ki_Delete_within [of k cx prune] ai_Install_within [OF assms(4), of i cx name]
    unfolding k i by blast
qed

text \<open>Parameters for examples: a YAML library that reads every document as the same cluster.\<close>

definition demoLib :: clusterfileLib where
  "demoLib =
     \<lparr>cl_Decode = (\<lambda>s. [Inr s]), cl_TypeMeta = (\<lambda>_. Inr (''Cluster'', ''sealer.io/v2'')), cl_Cluster = (\<lambda>_. Inr demoCluster),
      cl_Config = (\<lambda>_. Inl (Errorf ''no yaml'' [])), cl_Plugin = (\<lambda>_. Inl (Errorf ''no yaml'' [])), cl_Application = (\<lambda>_. Inl (Errorf ''no yaml'' [])),
      cl_Kubeadm = (\<lambda>_ _. Inr id), cl_marshalCluster = (\<lambda>_. Inr ''cluster''), cl_marshalConfig = (\<lambda>_. Inr []), cl_marshalPlugin = (\<lambda>_. Inr []),
      cl_marshalApplication = (\<lambda>_. Inr []), cl_marshalKubeadm = (\<lambda>_ _. Inr [])\<rparr>"

definition demoContext :: cmdContext where
  "demoContext = \<lparr>cx_kube = demoKube, cx_sorter = sort_key hk_Name, cx_home = ''/root'', cx_registryYaml = (\<lambda>_. Inr []), cx_yaml = demoYaml,
     cx_clusterfile = demoLib, cx_runtime = \<lparr>gr_GOOS = ''linux'', gr_GOARCH = ''amd64'', gr_cpuinfo = Inr []\<rparr>, cx_order = rev, cx_fpOrder = rev,
     cx_extJson = (\<lambda>_. Inr []), cx_grow = (\<lambda>c n. n), cx_spare = (\<lambda>i. 0), cx_envSpare = 0,
     cx_imageSpec = (\<lambda>_. Inl (Errorf ''no image'' [])), cx_NewP2PDistributor = (\<lambda>_ _ _ _. throwE (Errorf ''no tracker'' []))\<rparr>"

definition demoFile :: ClusterFile where
  "demoFile = newClusterFile\<lparr>cf_cluster := Some demoCluster\<rparr>"

definition demoSpec :: "env \<Rightarrow> ImageSpec" where
  "demoSpec e = \<lparr>is_ID = ''id'', is_ImageExtension = demoExtension\<lparr>ie_Env := e\<rparr>\<rparr>"

lemma demoInstaller:
  "NewKubeInstaller demoContext demoFile (demoSpec []) w =
    (Inr \<lparr>ki_cf = demoFile, ki_infraDriver = demoDriver, ki_imageSpec = demoSpec []\<rparr>, w)"
  using demoDriver
  by (simp add: NewKubeInstaller_def demoContext_def demoFile_def demoSpec_def cf_GetCluster_def deref_def Let_def
      MergeClusterWithImageExtension_def cf_SetCluster_def liftR_def bindE_def returnE_def)

text \<open>The cluster answers with a Clusterfile, on which an application can be installed.\<close>

lemma demoAppInstaller:
  "\<exists>i w1. NewApplicationInstaller demoContext newApplication demoExtension (calmWorld\<lparr>w_text := \<lambda>_ _. ''x''\<rparr>) = (Inr i, w1)
     \<and> GetHostIPList (ai_infraDriver i) = [[10, 0, 0, 1], [10, 0, 0, 2]]"
proof -
  have "case NewApplicationInstaller demoContext newApplication demoExtension (calmWorld\<lparr>w_text := \<lambda>_ _. ''x''\<rparr>) of
      (Inr i, _) \<Rightarrow> GetHostIPList (ai_infraDriver i) = [[10, 0, 0, 1], [10, 0, 0, 2]] | _ \<Rightarrow> False" by code_simp
  then show ?thesis by (auto split: prod.splits sum.splits)
qed

theorem commands_stay_in_cluster_witness:
  "let k = \<lparr>ki_cf = demoFile, ki_infraDriver = demoDriver, ki_imageSpec = demoSpec []\<rparr> in
   obeys (\<lambda>a. \<forall>ip. action_host a = Some ip \<longrightarrow> ip_String ip \<in> ip_String ` set (GetHostIPList demoDriver)) (ki_Delete demoContext k True)"
proof -
  obtain i w1 where i: "NewApplicationInstaller demoContext newApplication demoExtension (calmWorld\<lparr>w_text := \<lambda>_ _. ''x''\<rparr>) = (Inr i, w1)"
    using demoAppInstaller by blast
  show ?thesis
    using commands_stay_in_cluster [OF demoInstaller [of calmWorld] _ i _ refl,
        of "\<lparr>io_RunMode = [], io_IgnoreCache = False, io_P2PDistribution = False\<rparr>"
           "\<lparr>ao_Envs = [], ao_RunMode = [], ao_SkipPrepareAppMaterials = False, ao_IgnoreCache = False, ao_P2P = False\<rparr>"]
    by (simp add: Let_def)
qed

section \<open>Scaling down\<close>

lemma tryE_return [simp]: "tryE (returnE x) = returnE (Inr x)"
  by (simp add: tryE_def returnE_def)

lemma nil_never:
  "Restore nilDistributor p hs w \<noteq> (Inr u, w')" "Distribute nilDistributor hs p w \<noteq> (Inr u, w')"
  "DistributeRegistry nilDistributor hs p w \<noteq> (Inr u, w')"
  by (simp_all add: nilDistributor_def nilPanic_def throwE_def)

text \<open>
  C32. A host to delete whose platform cannot be found is to be removed without touching it, as the
  warning says. In fact the distributor stays nil then, and the removal of the hosts that can be
  reached, which comes first, panics on it in the end: scaling down never succeeds, whatever else
  happens.
\<close>

theorem unreachable_master_never_removed:
  assumes "GetHostsPlatform (cx_runtime cx) (ki_infraDriver k) (ms @ ms) w = (Inl e, w1)"
  shows "ki_ScaleDown cx k ms ns prune w \<noteq> (Inr u, w')"
proof
  assume run: "ki_ScaleDown cx k ms ns prune w = (Inr u, w')"
  have never: "ScaleDown ex i ms ns v \<noteq> (Inr r, v')" if "in_Distributor i = nilDistributor" for ex i v r v'
    using that by (auto simp: ScaleDown_def resetAndScaleDown_def Let_def bindE_Inr_iff thenE_Inr_iff nil_never)
  have fin: "finishScaleDown cx k c ms ns nilDistributor ps v \<noteq> (Inr u, w')" for c ps v
    unfolding finishScaleDown_def newKubeInstallation_def
    by (auto simp: bindE_Inr_iff liftR_Inr_iff never dest: NewInstaller_cri(5))
  from run obtain c where "bindE (tryE (GetHostsPlatform (cx_runtime cx) (ki_infraDriver k) (ms @ ms))) (\<lambda>r. case r of
        Inl _ \<Rightarrow> finishScaleDown cx k c ms ns nilDistributor []
      | Inr hp \<Rightarrow> withMounted cx hp (GetClusterImageName (ki_infraDriver k)) (\<lambda>infos.
          bindE (loadPluginsFromImage cx infos) (\<lambda>plugins.
            finishScaleDown cx k c ms ns
              (scpAsDistributor (NewScpDistributor (cx_yaml cx) infos (ki_infraDriver k) [] \<lparr>do_IgnoreCache = False, do_Prune = prune\<rparr>))
              (plugins @ cf_plugins (ki_cf k))))) w = (Inr u, w')"
    by (auto simp: ki_ScaleDown_def Let_def cf_GetCluster_def deref_def returnE_def throwE_def bindE_def split: option.splits)
  with assms fin show False by (cases e) (auto simp: bindE_Inr_iff tryE_def)
qed

theorem unreachable_master_never_removed_witness:
  "\<forall>u w'. ki_ScaleDown demoContext \<lparr>ki_cf = demoFile, ki_infraDriver = demoDriver, ki_imageSpec = demoSpec []\<rparr> [[10, 0, 0, 1]] [] True
     (calmWorld\<lparr>w_err := \<lambda>l a. if action_host a = Some [10, 0, 0, 1] then Some (Errorf ''timeout'' []) else None\<rparr>) \<noteq> (Inr u, w')"
proof -
  let ?w = "calmWorld\<lparr>w_err := \<lambda>l a. if action_host a = Some [10, 0, 0, 1] then Some (Errorf ''timeout'' []) else None\<rparr>"
  have "isl (fst (GetHostsPlatform (cx_runtime demoContext) demoDriver ([[10, 0, 0, 1]] @ [[10, 0, 0, 1]]) ?w))" by code_simp
  then obtain e w1 where "GetHostsPlatform (cx_runtime demoContext) demoDriver ([[10, 0, 0, 1]] @ [[10, 0, 0, 1]]) ?w = (Inl e, w1)"
    by (metis eq_fst_iff isl_def)
  then show ?thesis
    by (intro allI unreachable_master_never_removed [where e = e]) simp
qed

text \<open>
  Scaling down workers only is the same as scaling down with no image mounted at all: the hosts
  whose platform is asked for are the masters to delete, taken twice. The plugins of the image are
  never loaded, so that its clean-up hooks do not run on the workers; only the plugins of the
  Clusterfile do.
\<close>

theorem worker_scale_down_ignores_image:
  assumes "mset (cx_order cx []) = {#}"
  shows "ki_ScaleDown cx k [] ns prune =
    bindE (cf_GetCluster (ki_cf k)) (\<lambda>cluster.
    bindE (NewImageMounter []) (\<lambda>mounter.
      finallyE (finishScaleDown cx k cluster [] ns
          (scpAsDistributor (NewScpDistributor (cx_yaml cx) [] (ki_infraDriver k) [] \<lparr>do_IgnoreCache = False, do_Prune = prune\<rparr>))
          (cf_plugins (ki_cf k)))
        (Umount mounter [])))"
proof -
  have "GetHostsPlatform (cx_runtime cx) (ki_infraDriver k) [] = returnE []" by (simp add: GetHostsPlatform_def)
  moreover have "Mount (cx_order cx) m img = returnE []" if "im_hostsPlatform m = []" for m img
    using assms that by (simp add: Mount_def)
  ultimately show ?thesis
    unfolding ki_ScaleDown_def withMounted_def Let_def
    by (auto simp: NewImageMounter_def loadPluginsFromImage_def bindE_assoc)
qed

theorem worker_scale_down_ignores_image_witness:
  "\<forall>k ns prune. ki_ScaleDown demoContext k [] ns prune = bindE (cf_GetCluster (ki_cf k)) (\<lambda>cluster. bindE (NewImageMounter []) (\<lambda>mounter.
      finallyE (finishScaleDown demoContext k cluster [] ns
          (scpAsDistributor (NewScpDistributor (cx_yaml demoContext) [] (ki_infraDriver k) [] \<lparr>do_IgnoreCache = False, do_Prune = prune\<rparr>))
          (cf_plugins (ki_cf k)))
        (Umount mounter [])))"
  by (intro allI worker_scale_down_ignores_image) (simp add: demoContext_def)

section \<open>Distributors that cannot be made\<close>

lemma no_p2p:
  assumes "cx_NewP2PDistributor cx = (\<lambda>_ _ _ _. throwE (Errorf msg args))"
  shows "chooseDistributor cx True infos d cs o' = returnE nilDistributor"
  by (simp add: chooseDistributor_def assms tryE_def throwE_def bindE_def returnE_def)

lemma finallyE_Inr_iff: "finallyE m c w = (Inr x, w') \<longleftrightarrow> (\<exists>v. m w = (Inr x, v) \<and> w' = snd (c v))"
  by (cases "m w") (auto simp: finallyE_def)

lemma withImage_success:
  "withImage cx d hosts img body w = (Inr x, w') \<Longrightarrow> \<exists>infos v v'. body infos v = (Inr x, v')"
  by (auto simp: withImage_def withMounted_def bindE_Inr_iff finallyE_Inr_iff)

lemma ai_Install_no_p2p:
  assumes "cx_NewP2PDistributor cx = (\<lambda>_ _ _ _. throwE (Errorf msg args))"
    and "ao_P2P opts" "ao_RunMode opts \<noteq> ApplyModeLoadImage" "\<not> ao_SkipPrepareAppMaterials opts"
  shows "ai_Install cx i name opts w \<noteq> (Inr u, w')"
proof
  assume "ai_Install cx i name opts w = (Inr u, w')"
  with assms(2-) show False
    by (auto simp: ai_Install_def prepareMaterials_def Let_def bindE_Inr_iff thenE_Inr_iff whenE_def no_p2p [OF assms(1)] nil_never dest!: withImage_success)
qed

text \<open>
  The constructor of the peer-to-peer distributor may fail (it opens connections); the error is
  only warned about and the nil distributor is used. Installing a cluster with peer-to-peer
  distribution then never succeeds, and neither does installing an application whose files have
  to be distributed, unless the image is only to be loaded into the registry.
\<close>

theorem failed_p2p_is_fatal:
  assumes "cx_NewP2PDistributor cx = (\<lambda>_ _ _ _. throwE (Errorf msg args))"
  shows "(io_P2PDistribution o1 \<longrightarrow> io_RunMode o1 \<noteq> ApplyModeLoadImage \<longrightarrow> ki_Install cx k name o1 w \<noteq> (Inr u, w'))
    \<and> (ao_P2P o2 \<longrightarrow> ao_RunMode o2 \<noteq> ApplyModeLoadImage \<longrightarrow> \<not> ao_SkipPrepareAppMaterials o2 \<longrightarrow>
      ai_Install cx i name o2 w \<noteq> (Inr u, w'))"
proof (intro conjI impI)
  have never: "Install ex j v \<noteq> (Inr r, v')" if "in_Distributor j = nilDistributor" for ex j v r v'
    using that by (auto simp: Install_def Let_def bindE_Inr_iff thenE_Inr_iff nil_never)
  have dist: "in_Distributor j = nilDistributor" if "newKubeInstallation cx k c nilDistributor ps v = (Inr j, v')" for j c ps v v'
    using that by (auto simp: newKubeInstallation_def liftR_Inr_iff dest: NewInstaller_cri(5))
  show "ki_Install cx k name o1 w \<noteq> (Inr u, w')" if "io_P2PDistribution o1" "io_RunMode o1 \<noteq> ApplyModeLoadImage"
  proof
    assume "ki_Install cx k name o1 w = (Inr u, w')"
    with that show False
      by (auto simp: ki_Install_def Let_def bindE_Inr_iff thenE_Inr_iff case_prod_beta no_p2p [OF assms] never dest!: withImage_success dist)
  qed
  show "ai_Install cx i name o2 w \<noteq> (Inr u, w')"
    if "ao_P2P o2" "ao_RunMode o2 \<noteq> ApplyModeLoadImage" "\<not> ao_SkipPrepareAppMaterials o2"
    using ai_Install_no_p2p [OF assms that] .
qed

theorem failed_p2p_is_fatal_witness:
  "\<forall>k name w u w'. ki_Install demoContext k name \<lparr>io_RunMode = [], io_IgnoreCache = False, io_P2PDistribution = True\<rparr> w \<noteq> (Inr u, w')"
  using failed_p2p_is_fatal [of demoContext "''no tracker''" "[]" "\<lparr>io_RunMode = [], io_IgnoreCache = False, io_P2PDistribution = True\<rparr>"]
  by (simp add: demoContext_def ApplyModeLoadImage_def)

section \<open>Image variables\<close>

text \<open>
  The variables of an image are defaults for the user's: they are put in front of those of the
  cluster object. The merged list becomes the cluster object that is saved, so that after a second
  image (an upgrade) the variables of the first one are taken for the user's: they win over those
  of the new image.
\<close>

theorem image_defaults_go_stale:
  assumes "NewKubeInstaller cx cf old w0 = (Inr k1, w1)" and "NewKubeInstaller cx (ki_cf k1) new v0 = (Inr k2, v1)"
    and "cf_cluster cf = Some c" and "cf_cluster (ki_cf k2) = Some c2"
    and "env_wf (ie_Env (is_ImageExtension old))" and "\<forall>(k, v) \<in> set (ie_Env (is_ImageExtension old)). CHR ''='' \<notin> set k"
    and "env_wf (ie_Env (is_ImageExtension new))" and "\<forall>(k, v) \<in> set (ie_Env (is_ImageExtension new)). CHR ''='' \<notin> set k"
  shows "map_of (ConvertStringSliceToMap (c_Env (Spec c2))) =
    map_of (ie_Env (is_ImageExtension new)) ++ map_of (ie_Env (is_ImageExtension old)) ++ map_of (ConvertStringSliceToMap (c_Env (Spec c)))"
proof -
  from NewKubeInstaller_driver [OF assms(1)] assms(3)
  have k1: "ki_cf k1 = cf_SetCluster (MergeClusterWithImageExtension c (ie_Env (is_ImageExtension old))) cf" by auto
  from NewKubeInstaller_driver [OF assms(2)] assms(4)
  have c2: "c2 = MergeClusterWithImageExtension (MergeClusterWithImageExtension c (ie_Env (is_ImageExtension old))) (ie_Env (is_ImageExtension new))"
    by (auto simp: k1 cf_SetCluster_def)
  show ?thesis
    unfolding c2 merged_image_env [OF assms(7,8) refl] merged_image_env [OF assms(5,6) refl] by (simp add: map_add_assoc)
qed

theorem image_defaults_go_stale_witness:
  "\<exists>k1 w1 k2 w2 c2. NewKubeInstaller demoContext demoFile (demoSpec [(''V'', ''1'')]) calmWorld = (Inr k1, w1)
     \<and> NewKubeInstaller demoContext (ki_cf k1) (demoSpec [(''V'', ''2''), (''W'', ''3'')]) w1 = (Inr k2, w2)
     \<and> cf_cluster (ki_cf k2) = Some c2
     \<and> map_of (ConvertStringSliceToMap (c_Env (Spec c2))) ''V'' = Some ''1'' \<and> map_of (ConvertStringSliceToMap (c_Env (Spec c2))) ''W'' = Some ''3''"
proof -
  have "\<not> isl (fst (NewKubeInstaller demoContext demoFile (demoSpec [(''V'', ''1'')]) calmWorld))" by code_simp
  then obtain k1 w1 where k1: "NewKubeInstaller demoContext demoFile (demoSpec [(''V'', ''1'')]) calmWorld = (Inr k1, w1)"
    by (metis eq_fst_iff isl_def obj_sumE)
  have "case NewKubeInstaller demoContext demoFile (demoSpec [(''V'', ''1'')]) calmWorld of (Inr k, w) \<Rightarrow>
      \<not> isl (fst (NewKubeInstaller demoContext (ki_cf k) (demoSpec [(''V'', ''2''), (''W'', ''3'')]) w)) | _ \<Rightarrow> False" by code_simp
  then obtain k2 w2 where k2: "NewKubeInstaller demoContext (ki_cf k1) (demoSpec [(''V'', ''2''), (''W'', ''3'')]) w1 = (Inr k2, w2)"
    unfolding k1 by (simp; metis eq_fst_iff isl_def obj_sumE)
  from NewKubeInstaller_driver [OF k2] obtain c2 where c2: "cf_cluster (ki_cf k2) = Some c2" by (auto simp: cf_SetCluster_def)
  have user: "ConvertStringSliceToMap (c_Env (Spec demoCluster)) = [(''A'', ''1''), (''B'', ''2'')]" by code_simp
  show ?thesis
    using image_defaults_go_stale [OF k1 k2 _ c2, of demoCluster] k1 k2 c2
    by (auto simp: demoFile_def demoSpec_def env_wf_def user)
qed

end
