(* ===== verification/Commands.thy ===== *)
theory Commands
  imports Installer_Properties
begin

text \<open>
  Model of the commands of \<^verbatim>\<open>cmd/sealer/cmd/cluster\<close>: \<^verbatim>\<open>apply.go\<close>, \<^verbatim>\<open>run.go\<close>, \<^verbatim>\<open>delete.go\<close>,
  \<^verbatim>\<open>scale-up.go\<close>, \<^verbatim>\<open>upgrade.go\<close>, \<^verbatim>\<open>rollback.go\<close> and \<^verbatim>\<open>cert.go\<close>, each as the procedure cobra runs, from the
  parsed flags on. The image engine is asked by local actions whose answers the context decodes.
  The expansion of an address range may never end (it appends to a slice for ever); the process
  then dies for lack of memory, which is a panic of the model.
\<close>

section \<open>Flags\<close>

record ApplyFlags = HostFlags +
  ap_ClusterFile :: string
  ap_Mode :: string
  ap_ForceDelete :: bool
  ap_IgnoreCache :: bool

record DeleteFlags =
  dl_Masters :: string
  dl_Nodes :: string
  dl_CustomEnv :: "string list"
  dl_ClusterFile :: string
  dl_DeleteAll :: bool
  dl_ForceDelete :: bool
  dl_Prune :: bool

record UpgradeFlags =
  up_ClusterFile :: string
  up_AppNames :: "string list option"
  up_IgnoreCache :: bool

record RollbackFlags =
  rb_AppNames :: "string list option"
  rb_IgnoreCache :: bool

definition mergeFlagsOf :: "('a) HostFlags_scheme \<Rightarrow> string list \<Rightarrow> string list option \<Rightarrow> MergeFlags" where
  "mergeFlagsOf f cmds appNames = \<lparr>f_Masters = f_Masters f, f_Nodes = f_Nodes f, f_User = f_User f, f_Password = f_Password f,
     f_Port = f_Port f, f_Pk = f_Pk f, f_PkPassword = f_PkPassword f, f_CustomEnv = f_CustomEnv f, f_Cmds = cmds, f_AppNames = appNames\<rparr>"

section \<open>What the commands share\<close>

definition liftD :: "'a res option \<Rightarrow> 'a io" where
  "liftD r = (case r of None \<Rightarrow> throwE (Panic ''out of memory'') | Some x \<Rightarrow> liftR x)"

definition inspectImage :: "cmdContext \<Rightarrow> string \<Rightarrow> string \<Rightarrow> ImageSpec io" where
  "inspectImage cx what imageName =
     thenE (perform (LocalCall ''imageengine.NewImageEngine'' []))
     (bindE (askText (LocalCall ''imageEngine.Pull'' [imageName, ''missing'', ''local''])) (\<lambda>id.
       mapErr (Wrapf what []) (bindE (askText (LocalCall ''imageEngine.Inspect'' [id])) (\<lambda>raw. liftR (cx_imageSpec cx raw)))))"

definition noExtension :: string where
  "noExtension = ''failed to get sealer image extension: %s''"

definition readClusterfile :: "cmdContext \<Rightarrow> string \<Rightarrow> ClusterFile io" where
  "readClusterfile cx path = bindE (os_ReadFile path) (\<lambda>data. liftR (NewClusterFile (cx_clusterfile cx) data))"

definition actualClusterfile :: "cmdContext \<Rightarrow> ClusterFile io" where
  "actualClusterfile cx = bindE (GetActualClusterFile (cx_clusterfile cx) (cx_home cx)) (\<lambda>(cf, _). returnE cf)"

text \<open>A cluster object written out and read again, as a Clusterfile of its own.\<close>

definition reloadCluster :: "cmdContext \<Rightarrow> Cluster \<Rightarrow> ClusterFile io" where
  "reloadCluster cx cluster = liftR (bindR (cl_marshalCluster (cx_clusterfile cx) cluster) (NewClusterFile (cx_clusterfile cx)))"

definition GetClusterClient :: "bool io" where
  "GetClusterClient = bindE (tryE (perform (LocalCall ''k8s.NewK8sClient'' []))) (\<lambda>r. returnE (\<not> isl r))"

definition currentCluster_io :: "Cluster io" where
  "currentCluster_io = bindE (mapErr (Wrapf ''failed to get cluster nodes: %v'' []) askNodes) (\<lambda>nodes. liftR (GetCurrentCluster (Inr nodes)))"

text \<open>
  \<^verbatim>\<open>utils.ConfirmOperation\<close> reads what the user types, line by line, until an answer, an error or the end of
  the input; \<^verbatim>\<open>fmt.Scanln\<close> wants exactly one word in a line.
\<close>

fun confirm_go :: "string list \<Rightarrow> bool res" where
  "confirm_go [] = Inl (Errorf ''EOF'' [])"
| "confirm_go (line # rest) = (case filter (\<lambda>t. t \<noteq> []) (strings_Split line '' '') of
       [] \<Rightarrow> Inl (Errorf (if rest = [] then ''EOF'' else ''unexpected newline'') [])
     | [input] \<Rightarrow> if input \<in> {''y'', ''yes''} then Inr True else if input \<in> {''n'', ''no''} then Inr False else confirm_go rest
     | _ \<Rightarrow> Inl (Errorf ''expected newline'' []))"

definition ConfirmOperation :: "string \<Rightarrow> bool io" where
  "ConfirmOperation promptInfo = bindE (askText (LocalCall ''os.Stdin'' [promptInfo @ '' Yes [y/yes], No [n/no] : '']))
     (\<lambda>typed. liftR (confirm_go (strings_Split typed [CHR 0x0A])))"

definition showIPs :: "net_ip list \<Rightarrow> string" where
  "showIPs ips = ''['' @ strings_Join (map ip_String ips) '' '' @ '']''"

definition confirmDeleteHosts :: "net_ip list \<Rightarrow> net_ip list \<Rightarrow> unit io" where
  "confirmDeleteHosts masterToDelete nodeToDelete =
     (let p1 = ''Are you sure to delete:'';
          p2 = (if length masterToDelete \<noteq> 0 then fmt_Sprintf ''%s %s %v'' [p1, MASTER, showIPs masterToDelete] else p1);
          p3 = (if length nodeToDelete \<noteq> 0 then fmt_Sprintf ''%s %s %v'' [p2, NODE, showIPs nodeToDelete] else p2) in
      bindE (ConfirmOperation p3) (\<lambda>pass.
        if \<not> pass then throwE (Errorf ''exit the operation of delete these nodes'' []) else returnE ()))"

section \<open>Applying a Clusterfile\<close>

definition applyClusterWithNew :: "cmdContext \<Rightarrow> ClusterFile \<Rightarrow> string \<Rightarrow> ImageSpec \<Rightarrow> ApplyFlags \<Rightarrow> unit io" where
  "applyClusterWithNew cx cf applyMode imageSpec applyFlags =
     bindE (cf_GetCluster cf) (\<lambda>desiredCluster.
     bindE (mapErr (Wrapf ''failed to merge cluster with apply args: %v'' [])
        (liftD (MergeClusterWithFlags desiredCluster (mergeFlagsOf applyFlags [] None)))) (\<lambda>cluster.
       let mergedWithExt = MergeClusterWithImageExtension cluster (ie_Env (is_ImageExtension imageSpec)) in
       bindE (NewKubeInstaller cx (cf_SetCluster mergedWithExt cf) imageSpec) (\<lambda>kubeInstaller.
         ki_Install cx kubeInstaller (c_Image (Spec mergedWithExt))
           \<lparr>io_RunMode = applyMode, io_IgnoreCache = ap_IgnoreCache applyFlags, io_P2PDistribution = False\<rparr>)))"

definition applyClusterWithExisted :: "cmdContext \<Rightarrow> ClusterFile \<Rightarrow> ImageSpec \<Rightarrow> ApplyFlags \<Rightarrow> bool io" where
  "applyClusterWithExisted cx cf imageSpec applyFlags =
     bindE (cf_GetCluster cf) (\<lambda>desiredCluster.
     bindE (mapErr (Wrapf ''failed to get current cluster: %v'' []) currentCluster_io) (\<lambda>currentCluster.
       let (mj, md) = Diff (GetMasterIPList currentCluster) (GetMasterIPList desiredCluster);
           (nj, nd) = Diff (GetNodeIPList currentCluster) (GetNodeIPList desiredCluster) in
       if length mj = 0 \<and> length md = 0 \<and> length nj = 0 \<and> length nd = 0 then returnE False
       else if length md > 0 \<or> length nd > 0 then returnE False
       else (let mergedWithExt = MergeClusterWithImageExtension desiredCluster (ie_Env (is_ImageExtension imageSpec)) in
         bindE (NewKubeInstaller cx (cf_SetCluster mergedWithExt cf) imageSpec) (\<lambda>kubeInstaller.
           thenE (ki_ScaleUp cx kubeInstaller mj nj (ap_IgnoreCache applyFlags)) (returnE True)))))"

definition NewApplyCmd :: "cmdContext \<Rightarrow> ApplyFlags \<Rightarrow> unit io" where
  "NewApplyCmd cx applyFlags =
     (if ap_ClusterFile applyFlags = [] then throwE (Errorf ''you must input Clusterfile'' []) else
      bindE (readClusterfile cx (ap_ClusterFile applyFlags)) (\<lambda>cf.
      bindE (cf_GetCluster cf) (\<lambda>desiredCluster. let imageName = c_Image (Spec desiredCluster) in
      bindE (inspectImage cx noExtension imageName) (\<lambda>imageSpec. let ext = is_ImageExtension imageSpec in
      bindE (if ie_Type ext = KubeInstallerType then GetClusterClient else returnE True) (\<lambda>client.
      if \<not> client then applyClusterWithNew cx cf (ap_Mode applyFlags) imageSpec applyFlags
      else
        bindE (if ie_Type ext = KubeInstallerType then applyClusterWithExisted cx cf imageSpec applyFlags else returnE False) (\<lambda>skipPrepare.
        let spec = Spec desiredCluster;
            appSpec = ConstructApplication (cx_envSpare cx) (cf_app cf) (c_CMD spec) (c_APPNames spec) (c_Env spec) in
        bindE (NewApplicationInstaller cx appSpec ext) (\<lambda>appInstaller.
          ai_Install cx appInstaller imageName
            \<lparr>ao_Envs = c_Env spec, ao_RunMode = ap_Mode applyFlags, ao_SkipPrepareAppMaterials = skipPrepare,
             ao_IgnoreCache = ap_IgnoreCache applyFlags, ao_P2P = False\<rparr>)))))))"

section \<open>Running an image\<close>

definition distributorFlag :: "string \<Rightarrow> bool io" where
  "distributorFlag d = (if d = ''sftp'' then returnE False else if d = ''p2p'' then returnE True
     else throwE (Errorf ''invalid distributor %s'' [d]))"

definition installApplication :: "cmdContext \<Rightarrow> Application \<Rightarrow> ImageExtension \<Rightarrow> string \<Rightarrow> RunFlags \<Rightarrow> unit io" where
  "installApplication cx appSpec ext imageName runFlags =
     bindE (NewApplicationInstaller cx appSpec ext) (\<lambda>appInstaller.
       ai_Install cx appInstaller imageName
         \<lparr>ao_Envs = f_CustomEnv runFlags, ao_RunMode = f_Mode runFlags, ao_SkipPrepareAppMaterials = False,
          ao_IgnoreCache = f_IgnoreCache runFlags, ao_P2P = True\<rparr>)"

definition runWithClusterfile :: "cmdContext \<Rightarrow> string \<Rightarrow> RunFlags \<Rightarrow> unit io" where
  "runWithClusterfile cx clusterFile runFlags =
     bindE (distributorFlag (f_Distributor runFlags)) (\<lambda>p2p.
     bindE (readClusterfile cx clusterFile) (\<lambda>cf0.
     bindE (cf_GetCluster cf0) (\<lambda>cluster0.
     bindE (mapErr (Wrapf ''failed to merge cluster with run args: %v'' [])
        (liftD (MergeClusterWithFlags cluster0 (mergeFlagsOf runFlags (f_Cmds runFlags) (f_AppNames runFlags))))) (\<lambda>cluster.
     let cf = cf_SetCluster cluster cf0; imageName = c_Image (Spec cluster) in
     bindE (inspectImage cx noExtension imageName) (\<lambda>imageSpec. let ext = is_ImageExtension imageSpec in
     if ie_Type ext = AppInstallerType then
       installApplication cx (ConstructApplication (cx_envSpare cx) (cf_app cf) (c_CMD (Spec cluster)) (c_APPNames (Spec cluster)) (f_CustomEnv runFlags))
         ext imageName runFlags
     else
       bindE (NewKubeInstaller cx cf imageSpec) (\<lambda>kubeInstaller.
         ki_Install cx kubeInstaller imageName
           \<lparr>io_RunMode = f_Mode runFlags, io_IgnoreCache = f_IgnoreCache runFlags, io_P2PDistribution = p2p\<rparr>))))))"

definition runWithArgs :: "cmdContext \<Rightarrow> string \<Rightarrow> RunFlags \<Rightarrow> unit io" where
  "runWithArgs cx imageName runFlags =
     bindE (distributorFlag (f_Distributor runFlags)) (\<lambda>p2p.
     bindE (inspectImage cx noExtension imageName) (\<lambda>imageSpec. let ext = is_ImageExtension imageSpec in
     if ie_Type ext = AppInstallerType then
       installApplication cx (ConstructApplication (cx_envSpare cx) None (f_Cmds runFlags) (f_AppNames runFlags) (f_CustomEnv runFlags))
         ext imageName runFlags
     else
       bindE (liftD (ConstructClusterForRun imageName runFlags)) (\<lambda>cluster.
       bindE (reloadCluster cx cluster) (\<lambda>cf.
       bindE (NewKubeInstaller cx cf imageSpec) (\<lambda>kubeInstaller.
         ki_Install cx kubeInstaller imageName
           \<lparr>io_RunMode = f_Mode runFlags, io_IgnoreCache = f_IgnoreCache runFlags, io_P2PDistribution = p2p\<rparr>)))))"

definition NewRunCmd :: "cmdContext \<Rightarrow> string list \<Rightarrow> RunFlags \<Rightarrow> unit io" where
  "NewRunCmd cx args runFlags =
     (if length args = 0 \<and> f_ClusterFile runFlags = [] then throwE (Errorf ''you must input image name Or use Clusterfile'' []) else
      bindE (liftR (mapErrR (Wrapf ''failed to validate input run master or node: %v'' []) (ValidateRunHosts (f_Masters runFlags) (f_Nodes runFlags)))) (\<lambda>_.
        if f_ClusterFile runFlags \<noteq> [] then runWithClusterfile cx (f_ClusterFile runFlags) runFlags
        else runWithArgs cx (hd args) runFlags))"

section \<open>Deleting\<close>

definition deleteCluster :: "cmdContext \<Rightarrow> string \<Rightarrow> bool \<Rightarrow> DeleteFlags \<Rightarrow> unit io" where
  "deleteCluster cx workClusterfile forceDelete deleteFlags =
     bindE (if workClusterfile = [] then actualClusterfile cx else readClusterfile cx workClusterfile) (\<lambda>cf0.
     bindE (cf_GetCluster cf0) (\<lambda>cluster0.
     let cluster = cluster0\<lparr>Spec := (Spec cluster0)\<lparr>c_Env := c_Env (Spec cluster0) @ dl_CustomEnv deleteFlags\<rparr>\<rparr>;
         cf = cf_SetCluster cluster cf0 in
     thenE (whenE (\<not> forceDelete) (confirmDeleteHosts (GetMasterIPList cluster) (GetNodeIPList cluster)))
     (bindE (inspectImage cx noExtension (c_Image (Spec cluster))) (\<lambda>imageSpec.
      bindE (NewKubeInstaller cx cf imageSpec) (\<lambda>kubeInstaller.
        ki_Delete cx kubeInstaller (dl_Prune deleteFlags))))))"

text \<open>Masters outside the cluster are passed over; the host sealer runs on must not be among them.\<close>

fun filterMasters :: "Cluster \<Rightarrow> net_ip list \<Rightarrow> net_ip list io" where
  "filterMasters cluster [] = returnE []"
| "filterMasters cluster (ip # ips) =
     (if IsInIPList ip (GetMasterIPList cluster) then
        bindE (isLocalHost ip) (\<lambda>l. if l
          then throwE (Errorf ''not allow delete master %s from itself, you can login other master to execute this deletation'' [ip_String ip])
          else bindE (filterMasters cluster ips) (\<lambda>rest. returnE (ip # rest)))
      else filterMasters cluster ips)"

definition deleteArguments :: "cmdContext \<Rightarrow> string \<Rightarrow> string \<Rightarrow> string \<Rightarrow> (net_ip list \<times> net_ip list \<times> ClusterFile) io" where
  "deleteArguments cx workClusterfile masters workers =
     bindE (liftR (mapErrR (Wrapf ''failed to validate input run args: %v'' []) (ValidateScaleIPStr masters workers))) (\<lambda>_.
     bindE (mapErr (Wrapf ''failed to parse ip string to net IP list: %v'' []) (liftD (ParseToNetIPList masters workers))) (\<lambda>(delMasters, delNodes).
     bindE (actualClusterfile cx) (\<lambda>cf0.
     bindE (if workClusterfile \<noteq> [] then readClusterfile cx workClusterfile else returnE cf0) (\<lambda>cf.
       returnE (delMasters, delNodes, cf)))))"

definition guardMaster0 :: "Cluster \<Rightarrow> net_ip list \<Rightarrow> unit io" where
  "guardMaster0 cluster delMasters =
     bindE (case g_Local (c_Registry (Spec cluster)) of None \<Rightarrow> returnE True | Some reg \<Rightarrow> deref (l_HA reg)) (\<lambda>ha.
     if \<not> ha \<and> IsInIPList (GetMaster0IP cluster) delMasters
     then throwE (Errorf ''master0 machine(%s) cannot be deleted when registry is noHA mode'' [ip_String (GetMaster0IP cluster)])
     else returnE ())"

definition scaleDownCluster :: "cmdContext \<Rightarrow> string \<Rightarrow> string \<Rightarrow> string \<Rightarrow> bool \<Rightarrow> DeleteFlags \<Rightarrow> unit io" where
  "scaleDownCluster cx workClusterfile masters workers forceDelete deleteFlags =
     bindE (deleteArguments cx workClusterfile masters workers) (\<lambda>(delMasters, delNodes, cf).
     bindE (cf_GetCluster cf) (\<lambda>cluster.
     thenE (guardMaster0 cluster delMasters)
     (bindE (filterMasters cluster delMasters) (\<lambda>ms. let ns = filter (\<lambda>ip. IsInIPList ip (GetNodeIPList cluster)) delNodes in
       if length ms = 0 \<and> length ns = 0 then returnE ()
       else
         thenE (whenE (\<not> forceDelete) (confirmDeleteHosts ms ns))
         (bindE (inspectImage cx noExtension (c_Image (Spec cluster))) (\<lambda>imageSpec.
          bindE (NewKubeInstaller cx cf imageSpec) (\<lambda>kubeInstaller.
            ki_ScaleDown cx kubeInstaller ms ns (dl_Prune deleteFlags))))))))"

definition NewDeleteCmd :: "cmdContext \<Rightarrow> DeleteFlags \<Rightarrow> unit io" where
  "NewDeleteCmd cx fl =
     (if dl_Masters fl = [] \<and> dl_Nodes fl = [] \<and> \<not> dl_DeleteAll fl then throwE (Errorf ''you must input node ip Or set flag -a'' [])
      else if dl_DeleteAll fl then deleteCluster cx (dl_ClusterFile fl) (dl_ForceDelete fl) fl
      else scaleDownCluster cx (dl_ClusterFile fl) (dl_Masters fl) (dl_Nodes fl) (dl_ForceDelete fl) fl)"

section \<open>Scaling up\<close>

definition scaleUpRunFunc :: "cmdContext \<Rightarrow> ScaleUpFlags \<Rightarrow> unit io" where
  "scaleUpRunFunc cx fl =
     bindE (liftR (mapErrR (Wrapf ''failed to validate input run args: %v'' []) (ValidateScaleIPStr (f_Masters fl) (f_Nodes fl)))) (\<lambda>_.
     bindE (mapErr (Wrapf ''failed to parse ip string to net IP list: %v'' []) (liftD (ParseToNetIPList (f_Masters fl) (f_Nodes fl)))) (\<lambda>(upMasters, upNodes).
     bindE (actualClusterfile cx) (\<lambda>cf.
     bindE (cf_GetCluster cf) (\<lambda>cluster0.
     bindE GetClusterClient (\<lambda>client.
     if \<not> client then throwE (Errorf ''failed to get cluster client'' []) else
     bindE (mapErr (Wrapf ''failed to get current cluster: %v'' []) currentCluster_io) (\<lambda>currentCluster.
     let (cluster, r) = ConstructClusterForScaleUp cluster0 fl (GetAllIPList currentCluster) upMasters upNodes in
     bindE (liftR r) (\<lambda>(mj, nj).
     bindE (inspectImage cx noExtension (c_Image (Spec cluster))) (\<lambda>imageSpec.
     let mergedWithExt = MergeClusterWithImageExtension cluster (ie_Env (is_ImageExtension imageSpec)) in
     bindE (NewKubeInstaller cx (cf_SetCluster mergedWithExt cf) imageSpec) (\<lambda>kubeInstaller.
       ki_ScaleUp cx kubeInstaller mj nj (su_IgnoreCache fl))))))))))"

section \<open>Upgrading and rolling back\<close>

text \<open>
  Both install another image on the same hosts. They differ in where the plugins come from: an
  upgrade takes those of the mounted image, a rollback those in the root file system on this host.
  The object that is saved is the one that was given, without the variables of the image.
\<close>

definition replaceImage :: "cmdContext \<Rightarrow> (externals \<Rightarrow> Installer \<Rightarrow> unit io)
    \<Rightarrow> (SSHInfraDriver \<Rightarrow> ClusterImageMountInfo list \<Rightarrow> Plugin list io) \<Rightarrow> string
    \<Rightarrow> ClusterFile \<Rightarrow> ImageSpec \<Rightarrow> bool \<Rightarrow> unit io" where
  "replaceImage cx operate loadPlugins wrongType cf imageSpec ignoreCache =
     (let ext = is_ImageExtension imageSpec; ex = cx_externals cx emptyKubeadmConfig in
      if ie_Type ext \<noteq> KubeInstallerType then throwE (Errorf wrongType [ie_Type ext]) else
      bindE (cf_GetCluster cf) (\<lambda>cluster0. let cluster = MergeClusterWithImageExtension cluster0 (ie_Env ext) in
      bindE (liftR (NewInfraDriver (cx_grow cx) (cx_spare cx) cluster)) (\<lambda>d.
      withImage cx d (GetHostIPList d) (GetClusterImageName d) (\<lambda>infos.
        let dist = scpAsDistributor (NewScpDistributor (cx_yaml cx) infos d (cf_configs cf) \<lparr>do_IgnoreCache = ignoreCache, do_Prune = False\<rparr>) in
        bindE (loadPlugins d infos) (\<lambda>plugins.
        bindE (liftR (NewInstaller ex d dist (plugins @ cf_plugins cf)
            (GetClusterInstallInfo (ie_Labels ext) (c_ContainerRuntime (Spec cluster))))) (\<lambda>i.
        thenE (ki_SaveAll cx cf localOptions)
        (thenE (operate ex i)
        (let (app, cf') = mergedApplication cx cf (GetClusterLaunchCmds d) (GetClusterLaunchApps d) (c_Env (Spec cluster)) in
         bindE (mapErr (Wrapf ''failed to parse application from Clusterfile:%v '' []) (liftR (NewAppDriver app ext))) (\<lambda>v2App.
         thenE (app_Launch v2App d)
         (thenE (app_Save (cx_extJson cx) (cx_home cx) v2App)
           (ki_SaveAll cx cf' (commitOptions (ie_Labels ext)))))))))))))"

definition upgradeCluster :: "cmdContext \<Rightarrow> ClusterFile \<Rightarrow> ImageSpec \<Rightarrow> UpgradeFlags \<Rightarrow> unit io" where
  "upgradeCluster cx cf imageSpec fl =
     replaceImage cx Upgrade (\<lambda>d. loadPluginsFromImage cx) ''exit upgrade process, wrong sealer image type: %s'' cf imageSpec (up_IgnoreCache fl)"

definition rollbackCluster :: "cmdContext \<Rightarrow> ClusterFile \<Rightarrow> ImageSpec \<Rightarrow> RollbackFlags \<Rightarrow> unit io" where
  "rollbackCluster cx cf imageSpec fl =
     replaceImage cx Rollback (\<lambda>d infos. LoadPluginsFromFile (cx_clusterfile cx) (filepath_Join [GetClusterRootfsPath d, ''plugins'']))
       ''exit rollback process, wrong cluster image type: %s'' cf imageSpec (rb_IgnoreCache fl)"

definition withNewImage :: "Cluster \<Rightarrow> string list option \<Rightarrow> string \<Rightarrow> Cluster" where
  "withNewImage cluster appNames imageName = cluster\<lparr>Spec := (Spec cluster)\<lparr>c_APPNames := appNames, c_Image := imageName\<rparr>\<rparr>"

definition upgradeWithClusterfile :: "cmdContext \<Rightarrow> string \<Rightarrow> UpgradeFlags \<Rightarrow> unit io" where
  "upgradeWithClusterfile cx clusterFile fl =
     bindE (readClusterfile cx clusterFile) (\<lambda>cf.
     bindE (cf_GetCluster cf) (\<lambda>cluster.
     bindE (inspectImage cx noExtension (c_Image (Spec cluster))) (\<lambda>imageSpec. upgradeCluster cx cf imageSpec fl)))"

definition NewUpgradeCmd :: "cmdContext \<Rightarrow> string list \<Rightarrow> UpgradeFlags \<Rightarrow> unit io" where
  "NewUpgradeCmd cx args fl =
     (if length args = 0 \<and> up_ClusterFile fl = [] then throwE (Errorf ''you must input image name Or use Clusterfile'' [])
      else if up_ClusterFile fl \<noteq> [] then upgradeWithClusterfile cx (up_ClusterFile fl) fl
      else
        bindE (inspectImage cx noExtension (hd args)) (\<lambda>imageSpec.
        bindE (actualClusterfile cx) (\<lambda>current.
        bindE (cf_GetCluster current) (\<lambda>cluster.
        bindE (reloadCluster cx (withNewImage cluster (up_AppNames fl) (hd args))) (\<lambda>newClusterfile.
          upgradeCluster cx newClusterfile imageSpec fl)))))"

definition NewRollbackCmd :: "cmdContext \<Rightarrow> string list \<Rightarrow> RollbackFlags \<Rightarrow> unit io" where
  "NewRollbackCmd cx args fl =
     (if length args = 0 then throwE (Errorf ''you must input image name'' [])
      else
        bindE (inspectImage cx ''failed to get cluster image extension: %s'' (hd args)) (\<lambda>imageSpec.
        bindE (actualClusterfile cx) (\<lambda>current.
        bindE (cf_GetCluster current) (\<lambda>cluster.
        bindE (reloadCluster cx (withNewImage cluster (rb_AppNames fl) (hd args))) (\<lambda>newClusterfile.
          rollbackCluster cx newClusterfile imageSpec fl)))))"

section \<open>Certificates\<close>

definition NewCertCmd :: "cmdContext \<Rightarrow> string list \<Rightarrow> unit io" where
  "NewCertCmd cx altNames =
     (if length altNames = 0 then throwE (Errorf ''IP address or DNS domain needed for cert Subject Alternative Names'' [])
      else
        bindE (actualClusterfile cx) (\<lambda>cf.
        bindE (cf_GetCluster cf) (\<lambda>cluster.
        bindE (liftR (NewInfraDriver (cx_grow cx) (cx_spare cx) cluster)) (\<lambda>infraDriver.
        forE (GetMasterIPList cluster) (\<lambda>ip.
          mapErr (Wrapf ''failed to update cluster api server cert: %v'' [])
            (drv_CmdAsync infraDriver ip [] [''seautil cert update --alt-names '' @ strings_Join altNames '','']))))))"

section \<open>Which hosts are deleted\<close>

lemma isLocalHost_Inr: "isLocalHost ip w = (Inr b, w') \<Longrightarrow> \<exists>as. b = w_flag w (w_log w) (LocalCall ''net.IsLocalIP'' [ip_String ip]) \<and> w' = w\<lparr>w_log := w_log w @ as\<rparr>"
  by (auto simp: isLocalHost_def)

lemma filterMasters_spec:
  assumes "filterMasters c ips w = (Inr ms, w')" and "\<And>l ip. w_flag w l (LocalCall ''net.IsLocalIP'' [ip_String ip]) = local ip"
  shows "ms = filter (\<lambda>ip. IsInIPList ip (GetMasterIPList c)) ips \<and> (\<forall>m \<in> set ms. \<not> local m)"
  using assms
proof (induction ips arbitrary: ms w)
  case (Cons ip ips)
  show ?case
  proof (cases "IsInIPList ip (GetMasterIPList c)")
    case True
    with Cons.prems(1) obtain b w1 where l: "isLocalHost ip w = (Inr b, w1)" "\<not> b"
      and rest: "bindE (filterMasters c ips) (\<lambda>rest. returnE (ip # rest)) w1 = (Inr ms, w')"
      by (auto simp: bindE_Inr_iff throwE_def split: if_splits)
    from isLocalHost_Inr [OF l(1)] obtain as where b: "b = w_flag w (w_log w) (LocalCall ''net.IsLocalIP'' [ip_String ip])"
      and w1: "w1 = w\<lparr>w_log := w_log w @ as\<rparr>" by blast
    from b l(2) Cons.prems(2) have local: "\<not> local ip" by simp
    from rest obtain ms1 where "filterMasters c ips w1 = (Inr ms1, w')" "ms = ip # ms1" by (auto simp: bindE_Inr_iff returnE_def)
    moreover from w1 Cons.prems(2) have "\<And>l ip. w_flag w1 l (LocalCall ''net.IsLocalIP'' [ip_String ip]) = local ip" by simp
    ultimately show ?thesis using Cons.IH [of w1 ms1] True local by simp
  next
    case False
    with Cons.prems(1) have "filterMasters c ips w = (Inr ms, w')" by simp
    from Cons.IH [OF this Cons.prems(2)] False show ?thesis by simp
  qed
qed (simp add: returnE_def)

lemma obeys_liftD [intro!]: "obeys P (liftD r)"
  by (auto simp: liftD_def split: option.split)

lemma obeys_command_parts [intro!]:
  "localOK P \<Longrightarrow> obeys P (readClusterfile cx p)" "localOK P \<Longrightarrow> obeys P (actualClusterfile cx)"
  "localOK P \<Longrightarrow> obeys P (inspectImage cx what img)" "localOK P \<Longrightarrow> obeys P (ConfirmOperation prompt)"
  "localOK P \<Longrightarrow> obeys P (deleteArguments cx path masters workers)" "obeys P (guardMaster0 c dm)"
  "localOK P \<Longrightarrow> obeys P (isLocalHost ip)" "localOK P \<Longrightarrow> obeys P (filterMasters c ips)"
proof -
  show rd: "localOK P \<Longrightarrow> obeys P (readClusterfile cx p)" for p by (auto simp: readClusterfile_def)
  show act: "localOK P \<Longrightarrow> obeys P (actualClusterfile cx)" by (auto simp: actualClusterfile_def)
  show "localOK P \<Longrightarrow> obeys P (inspectImage cx what img)" by (auto simp: inspectImage_def)
  show "localOK P \<Longrightarrow> obeys P (ConfirmOperation prompt)" by (auto simp: ConfirmOperation_def)
  show "localOK P \<Longrightarrow> obeys P (deleteArguments cx path masters workers)"
    unfolding deleteArguments_def by (intro obeys_bindE obeys_case_prod obeys_liftR obeys_mapErr obeys_liftD obeys_if rd act obeys_return)
  show "obeys P (guardMaster0 c dm)" by (auto simp: guardMaster0_def)
  show l: "localOK P \<Longrightarrow> obeys P (isLocalHost ip)" for ip by (auto simp: obeys_def isLocalHost_def)
  show "localOK P \<Longrightarrow> obeys P (filterMasters c ips)" by (induction ips) (auto intro!: l)
qed

lemma localOK_any [simp]: "localOK (\<lambda>_. True)"
  by (simp add: localOK_def)

lemma grows_env:
  assumes "grows m" and "m w = (r, w')"
  shows "w_flag w' = w_flag w" "w_text w' = w_text w"
  using obeysD [OF assms(1), of w] assms(2) by auto

text \<open>
  C2. What a successful \<^verbatim>\<open>sealer delete\<close> of hosts has done. It has scaled the cluster of the Clusterfile in
  force down by exactly those masters given that are masters of the cluster and those workers
  given that are its workers, in the order given; when there are none, nothing was scaled. No
  master deleted is the host sealer runs on, and with a registry on the first master alone that
  master was not among those to delete.
\<close>

theorem delete_command_deletes_members:
  assumes "scaleDownCluster cx path masters workers force fl w = (Inr u, w')"
    and "\<And>l ip. w_flag w l (LocalCall ''net.IsLocalIP'' [ip_String ip]) = local ip"
  shows "\<exists>dm dn cf c ms ns. ParseToNetIPList masters workers = Some (Inr (dm, dn))
    \<and> (\<exists>v v'. (if path = [] then actualClusterfile cx else readClusterfile cx path) v = (Inr cf, v')) \<and> cf_cluster cf = Some c
    \<and> ms = filter (\<lambda>ip. IsInIPList ip (GetMasterIPList c)) dm \<and> ns = filter (\<lambda>ip. IsInIPList ip (GetNodeIPList c)) dn
    \<and> (\<forall>m \<in> set ms. \<not> local m)
    \<and> (\<forall>reg. g_Local (c_Registry (Spec c)) = Some reg \<longrightarrow> l_HA reg = Some False \<longrightarrow> \<not> IsInIPList (GetMaster0IP c) dm)
    \<and> (ms = [] \<and> ns = [] \<or> (\<exists>spec k v v'. NewKubeInstaller cx cf spec v = (Inr k, v') \<and> ki_ScaleDown cx k ms ns (dl_Prune fl) v' = (Inr u, w')))"
proof -
  from assms(1) obtain dm dn cf v1 c v2 v3 ms v4
    where args: "deleteArguments cx path masters workers w = (Inr (dm, dn, cf), v1)"
      and c: "cf_GetCluster cf v1 = (Inr c, v2)" and g: "guardMaster0 c dm v2 = (Inr (), v3)"
      and ms: "filterMasters c dm v3 = (Inr ms, v4)"
      and rest: "(let ns = filter (\<lambda>ip. IsInIPList ip (GetNodeIPList c)) dn in
       if length ms = 0 \<and> length ns = 0 then returnE ()
       else thenE (whenE (\<not> force) (confirmDeleteHosts ms ns))
         (bindE (inspectImage cx noExtension (c_Image (Spec c))) (\<lambda>imageSpec.
          bindE (NewKubeInstaller cx cf imageSpec) (\<lambda>kubeInstaller. ki_ScaleDown cx kubeInstaller ms ns (dl_Prune fl))))) v4 = (Inr u, w')"
    unfolding scaleDownCluster_def by (auto simp: bindE_Inr_iff thenE_Inr_iff split: prod.splits)
  have "w_flag v3 = w_flag w"
    using grows_env(1) [OF obeys_command_parts(5) [OF localOK_any] args] grows_env(1) [OF obeys_cf_GetCluster c]
      grows_env(1) [OF obeys_command_parts(6) g] by simp
  with filterMasters_spec [OF ms, of local] assms(2)
  have sel: "ms = filter (\<lambda>ip. IsInIPList ip (GetMasterIPList c)) dm" "\<forall>m \<in> set ms. \<not> local m" by auto
  from args have arg: "ParseToNetIPList masters workers = Some (Inr (dm, dn))"
    "\<exists>v v'. (if path = [] then actualClusterfile cx else readClusterfile cx path) v = (Inr cf, v')"
    by (auto simp: deleteArguments_def bindE_Inr_iff liftD_def mapErr_def liftR_def throwE_def returnE_def
        split: option.splits prod.splits sum.splits gerror.splits if_splits)
  from c have c': "cf_cluster cf = Some c" by (auto simp: cf_GetCluster_def deref_def throwE_def returnE_def split: option.splits)
  from g have g': "\<forall>reg. g_Local (c_Registry (Spec c)) = Some reg \<longrightarrow> l_HA reg = Some False \<longrightarrow> \<not> IsInIPList (GetMaster0IP c) dm"
    by (auto simp: guardMaster0_def deref_def throwE_def)
  from rest have "ms = [] \<and> filter (\<lambda>ip. IsInIPList ip (GetNodeIPList c)) dn = [] \<or> (\<exists>spec k v v'. NewKubeInstaller cx cf spec v = (Inr k, v')
      \<and> ki_ScaleDown cx k ms (filter (\<lambda>ip. IsInIPList ip (GetNodeIPList c)) dn) (dl_Prune fl) v' = (Inr u, w'))"
    by (auto simp: Let_def bindE_Inr_iff thenE_Inr_iff split: if_splits)
  with sel arg c' g' show ?thesis by blast
qed

definition demoDelete :: DeleteFlags where
  "demoDelete = \<lparr>dl_Masters = [], dl_Nodes = ''10.0.0.9'', dl_CustomEnv = [], dl_ClusterFile = [], dl_DeleteAll = False, dl_ForceDelete = False, dl_Prune = False\<rparr>"

theorem delete_command_deletes_members_witness:
  "\<exists>dm dn w'. scaleDownCluster demoContext [] [] ''10.0.0.9'' True demoDelete (calmWorld\<lparr>w_text := \<lambda>_ _. ''x''\<rparr>) = (Inr (), w')
     \<and> ParseToNetIPList [] ''10.0.0.9'' = Some (Inr (dm, dn))"
proof -
  let ?w = "calmWorld\<lparr>w_text := \<lambda>_ _. ''x''\<rparr>"
  have "\<not> isl (fst (scaleDownCluster demoContext [] [] ''10.0.0.9'' True demoDelete ?w))" by code_simp
  then obtain w' where run: "scaleDownCluster demoContext [] [] ''10.0.0.9'' True demoDelete ?w = (Inr (), w')"
    by (cases "scaleDownCluster demoContext [] [] ''10.0.0.9'' True demoDelete ?w"; cases "fst (scaleDownCluster demoContext [] [] ''10.0.0.9'' True demoDelete ?w)") auto
  from delete_command_deletes_members [OF run, of "\<lambda>_. False"] run show ?thesis by (auto simp: calmWorld_def)
qed

section \<open>Applying to an existing cluster\<close>

text \<open>
  C4. Applying a Clusterfile to a running cluster never scales it down. When every host of the
  running cluster is listed, exactly the hosts that are listed and not yet in the cluster are
  joined; when some host is no longer listed, nothing at all is done, new hosts included, and the
  command goes on as if the cluster were up to date.
\<close>

theorem apply_scales_up_only:
  assumes "cf_cluster cf = Some desired" and "currentCluster_io w = (Inr current, w1)"
    and "distinct (map ip_String (GetMasterIPList desired))" and "distinct (map ip_String (GetNodeIPList desired))"
    and "listed = (\<lambda>xs ys. ip_String ` set xs \<subseteq> ip_String ` set ys)"
    and "fresh = (\<lambda>xs ys. filter (\<lambda>ip. ip_String ip \<notin> ip_String ` set ys) xs)"
    and "mj = fresh (GetMasterIPList desired) (GetMasterIPList current)" and "nj = fresh (GetNodeIPList desired) (GetNodeIPList current)"
  shows "applyClusterWithExisted cx cf spec fl w =
    (if listed (GetMasterIPList current) (GetMasterIPList desired) \<and> listed (GetNodeIPList current) (GetNodeIPList desired) \<and> (mj \<noteq> [] \<or> nj \<noteq> [])
     then bindE (NewKubeInstaller cx (cf_SetCluster (MergeClusterWithImageExtension desired (ie_Env (is_ImageExtension spec))) cf) spec)
            (\<lambda>k. thenE (ki_ScaleUp cx k mj nj (ap_IgnoreCache fl)) (returnE True)) w1
     else (Inr False, w1))"
proof -
  have run: "applyClusterWithExisted cx cf spec fl w =
      (let (mj, md) = Diff (GetMasterIPList current) (GetMasterIPList desired);
           (nj, nd) = Diff (GetNodeIPList current) (GetNodeIPList desired) in
       if length mj = 0 \<and> length md = 0 \<and> length nj = 0 \<and> length nd = 0 then returnE False
       else if length md > 0 \<or> length nd > 0 then returnE False
       else (let mergedWithExt = MergeClusterWithImageExtension desired (ie_Env (is_ImageExtension spec)) in
         bindE (NewKubeInstaller cx (cf_SetCluster mergedWithExt cf) spec) (\<lambda>kubeInstaller.
           thenE (ki_ScaleUp cx kubeInstaller mj nj (ap_IgnoreCache fl)) (returnE True)))) w1"
    using assms(1,2) by (simp add: applyClusterWithExisted_def cf_GetCluster_def deref_def bindE_def mapErr_def returnE_def)
  have gone: "filter (\<lambda>ip. ip_String ip \<notin> ip_String ` set ys) xs = [] \<longleftrightarrow> listed xs ys" for xs ys
    by (auto simp: assms(5) filter_empty_conv)
  show ?thesis
    unfolding run assms(7,8) Diff_spec [OF assms(3)] Diff_spec [OF assms(4)]
    by (auto simp: Let_def gone assms(6) returnE_def)
qed

definition demoApply :: ApplyFlags where
  "demoApply = \<lparr>f_Masters = [], f_Nodes = [], f_User = ''root'', f_Password = [], f_Port = 22, f_Pk = [], f_PkPassword = [], f_CustomEnv = [],
     ap_ClusterFile = ''Clusterfile'', ap_Mode = ''apply'', ap_ForceDelete = False, ap_IgnoreCache = False\<rparr>"

text \<open>A worker 10.0.0.9 runs in the cluster and is no longer listed; the hosts that are listed do not join.\<close>

theorem apply_scales_up_only_witness:
  "\<exists>w1. applyClusterWithExisted demoContext demoFile (demoSpec []) demoApply
      (calmWorld\<lparr>w_nodes := \<lambda>_. [\<lparr>n_Name = ''n9'', n_ResourceVersion = [], n_Labels = None, n_Addresses = [\<lparr>na_Type = ''InternalIP'', na_Address = ''10.0.0.9''\<rparr>], n_Taints = []\<rparr>]\<rparr>)
     = (Inr False, w1)"
proof -
  let ?w = "calmWorld\<lparr>w_nodes := \<lambda>_. [\<lparr>n_Name = ''n9'', n_ResourceVersion = [], n_Labels = None, n_Addresses = [\<lparr>na_Type = ''InternalIP'', na_Address = ''10.0.0.9''\<rparr>], n_Taints = []\<rparr>]\<rparr>"
  have "case currentCluster_io ?w of (Inr c, _) \<Rightarrow> map ip_String (GetNodeIPList c) = [''10.0.0.9''] | _ \<Rightarrow> False" by code_simp
  then obtain c w1 where c: "currentCluster_io ?w = (Inr c, w1)" "map ip_String (GetNodeIPList c) = [''10.0.0.9'']"
    by (auto split: prod.splits sum.splits)
  from arg_cong [OF c(2), of set] have cur: "ip_String ` set (GetNodeIPList c) = {''10.0.0.9''}" by simp
  have des: "map ip_String (GetMasterIPList demoCluster) = [''10.0.0.1'']" "map ip_String (GetNodeIPList demoCluster) = [''10.0.0.1'', ''10.0.0.2'']"
    by code_simp+
  from arg_cong [OF des(2), of set] have "ip_String ` set (GetNodeIPList demoCluster) = {''10.0.0.1'', ''10.0.0.2''}" by simp
  with apply_scales_up_only [OF _ c(1) _ _ refl refl refl refl, of demoFile demoCluster] show ?thesis
    by (simp add: demoFile_def des cur)
qed

section \<open>Running an application image\<close>

text \<open>
  \<^verbatim>\<open>sealer run\<close> of an application image always uses peer-to-peer distribution, whatever distributor was
  asked for: when the peer-to-peer distributor cannot be made, the command never succeeds, also
  with \<^verbatim>\<open>--distributor sftp\<close>, unless the image is only to be loaded into the registry.
\<close>

theorem run_application_needs_p2p:
  assumes "cx_NewP2PDistributor cx = (\<lambda>_ _ _ _. throwE (Errorf msg as))" and "f_Mode fl \<noteq> ApplyModeLoadImage"
    and "\<And>raw spec. cx_imageSpec cx raw = Inr spec \<Longrightarrow> ie_Type (is_ImageExtension spec) = AppInstallerType"
  shows "NewRunCmd cx args fl w \<noteq> (Inr u, w')"
proof
  assume run: "NewRunCmd cx args fl w = (Inr u, w')"
  have never: "installApplication cx app ext name fl v \<noteq> (Inr (), w')" for app ext name v
    using assms(2) by (auto simp: installApplication_def bindE_Inr_iff ai_Install_no_p2p [OF assms(1)])
  have spec: "ie_Type (is_ImageExtension spec) = AppInstallerType" if "inspectImage cx what img v = (Inr spec, v')" for what img v spec v'
  proof -
    from that obtain raw where "cx_imageSpec cx raw = Inr spec"
      by (auto simp: inspectImage_def bindE_def thenE_def mapErr_def liftR_def split: prod.splits sum.splits gerror.splits)
    then show ?thesis by (rule assms(3))
  qed
  from run show False
    by (auto simp: NewRunCmd_def runWithClusterfile_def runWithArgs_def bindE_Inr_iff Let_def never throwE_def dest!: spec split: if_splits)
qed

theorem run_application_needs_p2p_witness:
  "\<forall>w u w'. NewRunCmd (demoContext\<lparr>cx_imageSpec := \<lambda>_. Inr (demoSpec []\<lparr>is_ImageExtension := demoExtension\<lparr>ie_Type := AppInstallerType\<rparr>\<rparr>)\<rparr>) [''nginx:v1'']
     \<lparr>f_Masters = [], f_Nodes = [], f_User = ''root'', f_Password = [], f_Port = 22, f_Pk = [], f_PkPassword = [], f_CustomEnv = [], f_Cmds = [],
      f_AppNames = None, f_Mode = ''apply'', f_ClusterFile = [], f_IgnoreCache = False, f_Distributor = ''sftp''\<rparr> w \<noteq> (Inr u, w')"
  by (intro allI run_application_needs_p2p) (auto simp: demoContext_def ApplyModeLoadImage_def)

section \<open>Consent\<close>

definition asksOnly :: "action \<Rightarrow> bool" where
  "asksOnly a = (\<exists>f xs. a = LocalCall f xs \<and>
     f \<in> {''os.ReadFile'', ''k8s.NewK8sClient'', ''ConfigMap.Get'', ''net.IsLocalIP'', ''os.Stdin''})"

lemma asksOnly_simps [simp]:
  "asksOnly (LocalCall f xs) = (f \<in> {''os.ReadFile'', ''k8s.NewK8sClient'', ''ConfigMap.Get'', ''net.IsLocalIP'', ''os.Stdin''})"
  by (auto simp: asksOnly_def)

text \<open>What happens from \<open>w\<close> on only asks.\<close>

definition asking :: "'a io \<Rightarrow> world \<Rightarrow> bool" where
  "asking m w = (\<exists>as. snd (m w) = w\<lparr>w_log := w_log w @ as\<rparr> \<and> list_all asksOnly as)"

lemma asking_obeys: "obeys asksOnly m \<Longrightarrow> asking m w"
  by (simp add: asking_def obeys_def)

lemma asking_bindE:
  assumes "obeys asksOnly m" and "\<And>x v. m w = (Inr x, v) \<Longrightarrow> w_text v = w_text w \<Longrightarrow> asking (f x) v"
  shows "asking (bindE m f) w"
proof -
  obtain r v where mw: "m w = (r, v)" by (cases "m w")
  with obeysD [OF assms(1), of w] obtain as where v: "v = w\<lparr>w_log := w_log w @ as\<rparr>" "list_all asksOnly as" by auto
  show ?thesis
  proof (cases r)
    case (Inl e)
    with mw v show ?thesis by (auto simp: asking_def bindE_def)
  next
    case (Inr x)
    with mw v(1) assms(2) obtain bs where "snd (f x v) = v\<lparr>w_log := w_log v @ bs\<rparr>" "list_all asksOnly bs" by (auto simp: asking_def)
    with mw v Inr show ?thesis by (auto simp: asking_def bindE_def intro!: exI [of _ "as @ bs"])
  qed
qed

lemma obeys_asks [intro!]:
  "obeys asksOnly (os_ReadFile p)" "obeys asksOnly (isLocalHost ip)" "obeys asksOnly (ConfirmOperation prompt)"
  "obeys asksOnly (getClusterfileFromCluster cl)"
proof -
  show "obeys asksOnly (isLocalHost ip)" by (auto simp: obeys_def isLocalHost_def)
qed (auto simp: os_ReadFile_def ConfirmOperation_def getClusterfileFromCluster_def)

lemma obeys_asks_more [intro!]:
  "obeys asksOnly (readClusterfile cx p)" "obeys asksOnly (actualClusterfile cx)" "obeys asksOnly (confirmDeleteHosts ms ns)"
  "obeys asksOnly (filterMasters c ips)"
proof -
  show "obeys asksOnly (readClusterfile cx p)" by (auto simp: readClusterfile_def)
  show "obeys asksOnly (actualClusterfile cx)" by (auto simp: actualClusterfile_def GetActualClusterFile_def split: sum.split)
  show "obeys asksOnly (confirmDeleteHosts ms ns)" by (auto simp: confirmDeleteHosts_def Let_def)
  show "obeys asksOnly (filterMasters c ips)" by (induction ips) auto
qed

lemma obeys_asks_delete [intro!]: "obeys asksOnly (deleteArguments cx path ms ns)"
  unfolding deleteArguments_def
  by (intro obeys_bindE obeys_case_prod obeys_liftR obeys_mapErr obeys_liftD obeys_if obeys_return obeys_asks_more)

definition refuses :: "world \<Rightarrow> bool" where
  "refuses w = (\<forall>l p. confirm_go (strings_Split (w_text w l (LocalCall ''os.Stdin'' [p])) [CHR 0x0A]) \<noteq> Inr True)"

lemma refused: "refuses w \<Longrightarrow> confirmDeleteHosts ms ns w \<noteq> (Inr u, v)"
  by (auto simp: refuses_def confirmDeleteHosts_def ConfirmOperation_def Let_def bindE_Inr_iff askText_def liftR_def throwE_def
      split: option.splits if_splits)

lemma refuses_text: "w_text v = w_text w \<Longrightarrow> refuses v = refuses w"
  by (simp add: refuses_def)

text \<open>
  C3. Without \<^verbatim>\<open>--force\<close> and without an answer \<^verbatim>\<open>y\<close> or \<^verbatim>\<open>yes\<close> of the user, \<^verbatim>\<open>sealer delete\<close> does nothing but ask:
  it reads the Clusterfile, asks whether an address is local, and prompts; no host and no object
  of the cluster is touched, and no file is removed.
\<close>

theorem nothing_deleted_without_consent:
  assumes "\<not> dl_ForceDelete fl"
    and "\<And>l p. confirm_go (strings_Split (w_text w l (LocalCall ''os.Stdin'' [p])) [CHR 0x0A]) \<noteq> Inr True"
  shows "\<exists>as. snd (NewDeleteCmd cx fl w) = w\<lparr>w_log := w_log w @ as\<rparr> \<and> (\<forall>a \<in> set as. \<exists>f xs. a = LocalCall f xs \<and>
     f \<in> {''os.ReadFile'', ''k8s.NewK8sClient'', ''ConfigMap.Get'', ''net.IsLocalIP'', ''os.Stdin''})"
proof -
  have w: "refuses w" using assms(2) by (simp add: refuses_def)
  have stop: "asking (thenE (whenE (\<not> dl_ForceDelete fl) (confirmDeleteHosts ms ns)) k) v" if "refuses v" for ms ns k v
    unfolding thenE_def using assms(1) refused [OF that] by (intro asking_bindE) (auto simp: whenE_def)
  have all: "asking (deleteCluster cx p (dl_ForceDelete fl) fl) w" for p
    unfolding deleteCluster_def
    by (intro asking_bindE obeys_if obeys_asks_more obeys_cf_GetCluster) (auto simp: Let_def refuses_text w intro!: stop)
  have some: "asking (scaleDownCluster cx p ms ns (dl_ForceDelete fl) fl) w" for p ms ns
    unfolding scaleDownCluster_def thenE_def [of "guardMaster0 c m" for c m] case_prod_beta
    by (intro asking_bindE obeys_asks_delete obeys_cf_GetCluster obeys_command_parts(6) obeys_asks_more)
       (simp add: Let_def refuses_text w stop asking_obeys obeys_return)
  have "asking (NewDeleteCmd cx fl) w"
    using all some by (auto simp: NewDeleteCmd_def intro!: asking_obeys)
  then show ?thesis by (auto simp: asking_def asksOnly_def list_all_iff)
qed

theorem nothing_deleted_without_consent_witness:
  "\<forall>cx. \<exists>as. snd (NewDeleteCmd cx (demoDelete\<lparr>dl_DeleteAll := True\<rparr>) (calmWorld\<lparr>w_text := \<lambda>_ _. ''no''\<rparr>)) = (calmWorld\<lparr>w_text := \<lambda>_ _. ''no''\<rparr>)\<lparr>w_log := as\<rparr>
     \<and> (\<forall>a \<in> set as. action_host a = None)"
proof
  fix cx
  have no: "confirm_go (strings_Split ''no'' [CHR 0x0A]) = Inr False" by code_simp
  let ?w = "calmWorld\<lparr>w_text := \<lambda>_ _. ''no''\<rparr>"
  have flag: "\<not> dl_ForceDelete (demoDelete\<lparr>dl_DeleteAll := True\<rparr>)" by (simp add: demoDelete_def)
  have "confirm_go (strings_Split (w_text ?w l (LocalCall ''os.Stdin'' [p])) [CHR 0x0A]) \<noteq> Inr True" for l p by (simp add: no)
  from nothing_deleted_without_consent [OF flag this, of cx]
  obtain as where run: "snd (NewDeleteCmd cx (demoDelete\<lparr>dl_DeleteAll := True\<rparr>) ?w) = ?w\<lparr>w_log := w_log ?w @ as\<rparr>"
    and asks: "\<forall>a \<in> set as. \<exists>f xs. a = LocalCall f xs \<and> f \<in> {''os.ReadFile'', ''k8s.NewK8sClient'', ''ConfigMap.Get'', ''net.IsLocalIP'', ''os.Stdin''}"
    by (elim exE conjE)
  have "\<forall>a \<in> set as. action_host a = None"
  proof
    fix a assume "a \<in> set as"
    from bspec [OF asks this] obtain f xs where "a = LocalCall f xs" by (elim exE conjE)
    then show "action_host a = None" by simp
  qed
  with run show "\<exists>as. snd (NewDeleteCmd cx (demoDelete\<lparr>dl_DeleteAll := True\<rparr>) ?w) = ?w\<lparr>w_log := as\<rparr> \<and> (\<forall>a \<in> set as. action_host a = None)"
    by (intro exI [of _ as]) (simp add: calmWorld_def)
qed

end
