(* ===== verification/File_Copy.thy ===== *)
theory File_Copy
  imports Local_Files
begin

text \<open>
  Copying on the local host: \<^verbatim>\<open>CopyFile\<close> and \<^verbatim>\<open>CopyDir\<close> of \<^verbatim>\<open>utils/os/fs/filesystem.go\<close> and the helpers
  of \<^verbatim>\<open>utils/os/fs.go\<close> that use them.

  A path is at most 4096 bytes long (\<^verbatim>\<open>PATH_MAX\<close>), and one level of a directory tree adds at least two:
  the system refuses to read a directory that is deeper. This is the bound on the depth of recursion
  in \<open>CopyDir\<close>, and what happens below it.
\<close>

definition PATH_MAX :: nat where "PATH_MAX = 4096"

definition ENAMETOOLONG :: gerror where "ENAMETOOLONG = Errorf ''file name too long'' []"

text \<open>
  The answer to \<^verbatim>\<open>os.Stat\<close> in \<^verbatim>\<open>CopyFile\<close> is the kind of the file: a character device with numbers 0 and 0
  (the mark of a deleted file in an overlay), a regular file, or anything else.
\<close>

definition fs_CopyFile :: "string \<Rightarrow> string \<Rightarrow> unit io" where
  "fs_CopyFile src dst =
     bindE (askText (LocalCall ''os.Stat'' [src])) (\<lambda>kind.
     thenE (mapErr (Wrapf ''failed to get file info header for %s, err: %v'' [src]) (perform (LocalCall ''tar.FileInfoHeader'' [src])))
     (if kind = ''char 0:0''
      then thenE (perform (LocalCall ''unix.Mknod'' [dst])) (perform (LocalCall ''os.Chown'' [dst, src]))
      else if kind \<noteq> ''regular'' then throwE (Errorf ''%s is not a regular file'' [src])
      else thenE (perform (LocalCall ''os.Open'' [filepath_Clean src]))
       (finallyE
         (thenE (perform (LocalCall ''os.Create'' [filepath_Clean dst]))
           (finallyE
             (thenE (perform (LocalCall ''file.Chmod'' [dst, src]))
             (thenE (perform (LocalCall ''os.Chown'' [dst, src]))
               (perform (LocalCall ''io.Copy'' [dst, src]))))
             (perform (LocalCall ''file.Close'' [dst]))))
         (perform (LocalCall ''file.Close'' [src])))))"

primrec fs_CopyDir_go :: "nat \<Rightarrow> string \<Rightarrow> string \<Rightarrow> unit io" where
  "fs_CopyDir_go 0 srcPath dstPath = throwE ENAMETOOLONG"
| "fs_CopyDir_go (Suc n) srcPath dstPath =
     thenE (fs_MkdirAll dstPath)
     (bindE (askDir srcPath) (\<lambda>fis.
       forE fis (\<lambda>(name, isDir).
         let src = filepath_Join [srcPath, name]; dst = filepath_Join [dstPath, name] in
         if isDir then fs_CopyDir_go n src dst else fs_CopyFile src dst)))"

definition fs_CopyDir :: "string \<Rightarrow> string \<Rightarrow> unit io" where
  "fs_CopyDir srcPath dstPath = fs_CopyDir_go PATH_MAX srcPath dstPath"

definition os_IsDir :: "string \<Rightarrow> bool io" where
  "os_IsDir path = bindE (tryE (os_StatIsDir path)) (\<lambda>r. returnE (case r of Inr d \<Rightarrow> d | Inl _ \<Rightarrow> False))"

definition RecursionCopy :: "string \<Rightarrow> string \<Rightarrow> unit io" where
  "RecursionCopy src dst = bindE (os_IsDir src) (\<lambda>d.
     if d then fs_CopyDir src dst
     else thenE (mapErr (Wrapf ''failed to mkdir for recursion copy, err: %v'' []) (fs_MkdirAll (filepath_Dir dst)))
       (fs_CopyFile src dst))"

text \<open>The callback of the walk reads the file information before it looks at the error, so an error panics.\<close>

definition CountDirFiles :: "string \<Rightarrow> nat io" where
  "CountDirFiles dirName = (\<lambda>w. case askWalk dirName w of
       (Inl _, w') \<Rightarrow> (Inl (Panic ''invalid memory address or nil pointer dereference''), w')
     | (Inr ps, w') \<Rightarrow> (Inr (length (filter (\<lambda>(p, isDir). \<not> isDir) ps)), w'))"

text \<open>The sizes of files are an argument; the sum is an \<^verbatim>\<open>int64\<close>, which wraps.\<close>

definition int64 :: "int \<Rightarrow> int" where
  "int64 n = (n + 2 ^ 63) mod 2 ^ 64 - 2 ^ 63"

fun sumSizes :: "(string \<Rightarrow> int) \<Rightarrow> (string \<times> bool) list \<Rightarrow> int \<Rightarrow> int" where
  "sumSizes sz [] acc = acc"
| "sumSizes sz ((p, isDir) # ps) acc = sumSizes sz ps (if isDir then acc else int64 (acc + sz p))"

definition fs_getFileSize :: "(string \<Rightarrow> int) \<Rightarrow> string \<Rightarrow> int io" where
  "fs_getFileSize sz path = thenE (perform (LocalCall ''os.Stat'' [path]))
     (bindE (askWalk path) (\<lambda>ps. returnE (sumSizes sz ps 0)))"

fun fs_GetFilesSize_go :: "(string \<Rightarrow> int) \<Rightarrow> string list \<Rightarrow> int \<Rightarrow> int io" where
  "fs_GetFilesSize_go sz [] acc = returnE acc"
| "fs_GetFilesSize_go sz (p # ps) acc = bindE (fs_getFileSize sz p) (\<lambda>s. fs_GetFilesSize_go sz ps (int64 (acc + s)))"

definition fs_GetFilesSize :: "(string \<Rightarrow> int) \<Rightarrow> string list \<Rightarrow> int io" where
  "fs_GetFilesSize sz paths = fs_GetFilesSize_go sz paths 0"

end
