(* ===== verification/Aes.thy ===== *)
theory Aes
  imports Go_Base64 Go_Net
begin

unbundle bit_operations_syntax

text \<open>
  The encryption of passwords in a Clusterfile (\<^verbatim>\<open>utils/hash/aes.go\<close>), with the block cipher of Go's
  \<^verbatim>\<open>crypto/aes\<close>, the block chaining of \<^verbatim>\<open>crypto/cipher\<close> and the padding the file writes out itself.
  Main result: whatever the password, decryption gives back what was encrypted.
\<close>

definition byteOf :: "char \<Rightarrow> byte" where
  "byteOf c = word_of_nat (of_char c)"

definition charOf :: "byte \<Rightarrow> char" where
  "charOf b = char_of (unat b)"

lemma charOf_byteOf [simp]: "charOf (byteOf c) = c"
  using of_char_bound [of c] by (simp add: charOf_def byteOf_def unat_of_nat)

lemma unat_byte: "unat (b :: byte) < 256"
proof -
  have "unat b < 2 ^ LENGTH(8)"
    by (rule unsigned_less)
  thus ?thesis
    by simp
qed

lemma byteOf_charOf [simp]: "byteOf (charOf b) = b"
  using unat_byte [of b] by (simp add: charOf_def byteOf_def)

section \<open>The block cipher\<close>

definition sbox0 :: "nat list list" where
  "sbox0 = [[99, 124, 119, 123, 242, 107, 111, 197, 48, 1, 103, 43, 254, 215, 171, 118],
     [202, 130, 201, 125, 250, 89, 71, 240, 173, 212, 162, 175, 156, 164, 114, 192],
     [183, 253, 147, 38, 54, 63, 247, 204, 52, 165, 229, 241, 113, 216, 49, 21],
     [4, 199, 35, 195, 24, 150, 5, 154, 7, 18, 128, 226, 235, 39, 178, 117],
     [9, 131, 44, 26, 27, 110, 90, 160, 82, 59, 214, 179, 41, 227, 47, 132],
     [83, 209, 0, 237, 32, 252, 177, 91, 106, 203, 190, 57, 74, 76, 88, 207],
     [208, 239, 170, 251, 67, 77, 51, 133, 69, 249, 2, 127, 80, 60, 159, 168],
     [81, 163, 64, 143, 146, 157, 56, 245, 188, 182, 218, 33, 16, 255, 243, 210],
     [205, 12, 19, 236, 95, 151, 68, 23, 196, 167, 126, 61, 100, 93, 25, 115],
     [96, 129, 79, 220, 34, 42, 144, 136, 70, 238, 184, 20, 222, 94, 11, 219],
     [224, 50, 58, 10, 73, 6, 36, 92, 194, 211, 172, 98, 145, 149, 228, 121],
     [231, 200, 55, 109, 141, 213, 78, 169, 108, 86, 244, 234, 101, 122, 174, 8],
     [186, 120, 37, 46, 28, 166, 180, 198, 232, 221, 116, 31, 75, 189, 139, 138],
     [112, 62, 181, 102, 72, 3, 246, 14, 97, 53, 87, 185, 134, 193, 29, 158],
     [225, 248, 152, 17, 105, 217, 142, 148, 155, 30, 135, 233, 206, 85, 40, 223],
     [140, 161, 137, 13, 191, 230, 66, 104, 65, 153, 45, 15, 176, 84, 187, 22]]"

definition sbox1 :: "nat list list" where
  "sbox1 = [[82, 9, 106, 213, 48, 54, 165, 56, 191, 64, 163, 158, 129, 243, 215, 251],
     [124, 227, 57, 130, 155, 47, 255, 135, 52, 142, 67, 68, 196, 222, 233, 203],
     [84, 123, 148, 50, 166, 194, 35, 61, 238, 76, 149, 11, 66, 250, 195, 78],
     [8, 46, 161, 102, 40, 217, 36, 178, 118, 91, 162, 73, 109, 139, 209, 37],
     [114, 248, 246, 100, 134, 104, 152, 22, 212, 164, 92, 204, 93, 101, 182, 146],
     [108, 112, 72, 80, 253, 237, 185, 218, 94, 21, 70, 87, 167, 141, 157, 132],
     [144, 216, 171, 0, 140, 188, 211, 10, 247, 228, 88, 5, 184, 179, 69, 6],
     [208, 44, 30, 143, 202, 63, 15, 2, 193, 175, 189, 3, 1, 19, 138, 107],
     [58, 145, 17, 65, 79, 103, 220, 234, 151, 242, 207, 206, 240, 180, 230, 115],
     [150, 172, 116, 34, 231, 173, 53, 133, 226, 249, 55, 232, 28, 117, 223, 110],
     [71, 241, 26, 113, 29, 41, 197, 137, 111, 183, 98, 14, 170, 24, 190, 27],
     [252, 86, 62, 75, 198, 210, 121, 32, 154, 219, 192, 254, 120, 205, 90, 244],
     [31, 221, 168, 51, 136, 7, 199, 49, 177, 18, 16, 89, 39, 128, 236, 95],
     [96, 81, 127, 169, 25, 181, 74, 13, 45, 229, 122, 159, 147, 201, 156, 239],
     [160, 224, 59, 77, 174, 42, 245, 176, 200, 235, 187, 60, 131, 83, 153, 97],
     [23, 43, 4, 126, 186, 119, 214, 38, 225, 105, 20, 99, 85, 33, 12, 125]]"

definition lookup16 :: "nat list list \<Rightarrow> nat \<Rightarrow> nat" where
  "lookup16 t n = t ! (n div 16) ! (n mod 16)"

definition subByte :: "byte \<Rightarrow> byte" where
  "subByte b = word_of_nat (lookup16 sbox0 (unat b))"

definition invSubByte :: "byte \<Rightarrow> byte" where
  "invSubByte b = word_of_nat (lookup16 sbox1 (unat b))"

definition pick :: "nat list \<Rightarrow> byte list \<Rightarrow> byte list" where
  "pick is s = map (\<lambda>i. s ! i) is"

definition shiftRows :: "byte list \<Rightarrow> byte list" where
  "shiftRows = pick [0, 5, 10, 15, 4, 9, 14, 3, 8, 13, 2, 7, 12, 1, 6, 11]"

definition invShiftRows :: "byte list \<Rightarrow> byte list" where
  "invShiftRows = pick [0, 13, 10, 7, 4, 1, 14, 11, 8, 5, 2, 15, 12, 9, 6, 3]"

text \<open>Multiplication by the indeterminate in the field of 256 elements.\<close>

definition xtime :: "byte \<Rightarrow> byte" where
  "xtime b = push_bit 1 b XOR (if bit b 7 then 27 else 0)"

fun mixColumns :: "byte list \<Rightarrow> byte list" where
  "mixColumns (a # b # c # d # r) =
     (xtime a XOR xtime b XOR b XOR c XOR d) # (a XOR xtime b XOR xtime c XOR c XOR d)
     # (a XOR b XOR xtime c XOR xtime d XOR d) # (xtime a XOR a XOR b XOR c XOR xtime d) # mixColumns r"
| "mixColumns r = r"

definition mul9 :: "byte \<Rightarrow> byte" where "mul9 b = xtime (xtime (xtime b)) XOR b"
definition mul11 :: "byte \<Rightarrow> byte" where "mul11 b = xtime (xtime (xtime b)) XOR xtime b XOR b"
definition mul13 :: "byte \<Rightarrow> byte" where "mul13 b = xtime (xtime (xtime b)) XOR xtime (xtime b) XOR b"
definition mul14 :: "byte \<Rightarrow> byte" where "mul14 b = xtime (xtime (xtime b)) XOR xtime (xtime b) XOR xtime b"

fun invMixColumns :: "byte list \<Rightarrow> byte list" where
  "invMixColumns (a # b # c # d # r) =
     (mul14 a XOR mul11 b XOR mul13 c XOR mul9 d) # (mul9 a XOR mul14 b XOR mul11 c XOR mul13 d)
     # (mul13 a XOR mul9 b XOR mul14 c XOR mul11 d) # (mul11 a XOR mul13 b XOR mul9 c XOR mul14 d) # invMixColumns r"
| "invMixColumns r = r"

definition xorBytes :: "byte list \<Rightarrow> byte list \<Rightarrow> byte list" where
  "xorBytes s k = map2 (XOR) s k"

fun encryptRounds :: "byte list list \<Rightarrow> byte list \<Rightarrow> byte list" where
  "encryptRounds [] s = s"
| "encryptRounds [k] s = xorBytes (shiftRows (map subByte s)) k"
| "encryptRounds (k # ks) s = encryptRounds ks (xorBytes (mixColumns (shiftRows (map subByte s))) k)"

fun decryptRounds :: "byte list list \<Rightarrow> byte list \<Rightarrow> byte list" where
  "decryptRounds [] s = s"
| "decryptRounds [k] s = map invSubByte (invShiftRows (xorBytes s k))"
| "decryptRounds (k # ks) s = map invSubByte (invShiftRows (invMixColumns (xorBytes (decryptRounds ks s) k)))"

text \<open>Key expansion: words of four bytes, the first of which are the key itself.\<close>

definition rcon :: "nat \<Rightarrow> byte" where
  "rcon i = (xtime ^^ i) 1"

definition nextWord :: "nat \<Rightarrow> byte list list \<Rightarrow> byte list" where
  "nextWord nk ws = (let i = length ws; t = last ws in
     xorBytes (ws ! (i - nk))
       (if i mod nk = 0 then xorBytes (map subByte (pick [1, 2, 3, 0] t)) [rcon (i div nk - 1), 0, 0, 0]
        else if 6 < nk \<and> i mod nk = 4 then map subByte t else t))"

fun expandWords :: "nat \<Rightarrow> nat \<Rightarrow> byte list list \<Rightarrow> byte list list" where
  "expandWords nk 0 ws = ws"
| "expandWords nk (Suc n) ws = expandWords nk n (ws @ [nextWord nk ws])"

fun chunks :: "nat \<Rightarrow> 'a list \<Rightarrow> 'a list list" where
  "chunks 0 xs = []"
| "chunks (Suc n) xs = take 16 xs # chunks n (drop 16 xs)"

fun words4 :: "byte list \<Rightarrow> byte list list" where
  "words4 (a # b # c # d # r) = [a, b, c, d] # words4 r"
| "words4 _ = []"

text \<open>\<^verbatim>\<open>aes.NewCipher\<close>: the round keys, for a key of 16, 24 or 32 bytes.\<close>

definition aes_NewCipher :: "byte list \<Rightarrow> byte list list res" where
  "aes_NewCipher key = (if length key \<in> {16, 24, 32} then
       let nk = length key div 4; rounds = nk + 7 in
       Inr (chunks rounds (concat (expandWords nk (4 * rounds - nk) (words4 key))))
     else Inl (Errorf ''crypto/aes: invalid key size %s'' [itoa (int (length key))]))"

definition encryptBlock :: "byte list list \<Rightarrow> byte list \<Rightarrow> byte list" where
  "encryptBlock ks s = encryptRounds (tl ks) (xorBytes s (hd ks))"

definition decryptBlock :: "byte list list \<Rightarrow> byte list \<Rightarrow> byte list" where
  "decryptBlock ks s = xorBytes (decryptRounds (tl ks) s) (hd ks)"

text \<open>\<^verbatim>\<open>CryptBlocks\<close> of the two chaining modes; a length that is no multiple of the block size panics.\<close>

fun cbcEncrypt :: "byte list list \<Rightarrow> byte list \<Rightarrow> byte list list \<Rightarrow> byte list list" where
  "cbcEncrypt ks iv [] = []"
| "cbcEncrypt ks iv (b # bs) = (let c = encryptBlock ks (xorBytes b iv) in c # cbcEncrypt ks c bs)"

fun cbcDecrypt :: "byte list list \<Rightarrow> byte list \<Rightarrow> byte list list \<Rightarrow> byte list list" where
  "cbcDecrypt ks iv [] = []"
| "cbcDecrypt ks iv (c # cs) = xorBytes (decryptBlock ks c) iv # cbcDecrypt ks c cs"

definition CryptBlocks :: "(byte list list \<Rightarrow> byte list list) \<Rightarrow> byte list \<Rightarrow> byte list res" where
  "CryptBlocks mode src = (if length src mod 16 \<noteq> 0 then Inl (Panic ''crypto/cipher: input not full blocks'')
     else Inr (concat (mode (chunks (length src div 16) src))))"

section \<open>aes.go\<close>

definition aesKey :: string where
  "aesKey = ''ZU9WbzRMVXRQZ2pzTGowR2hNWUpIZjRkWld4aWVRWko=''"

definition pkcs7Padding :: "byte list \<Rightarrow> nat \<Rightarrow> byte list" where
  "pkcs7Padding origData blockSize = (let padding = blockSize - length origData mod blockSize in
     origData @ replicate padding (word_of_nat padding))"

definition pkcs7UnPadding :: "byte list \<Rightarrow> byte list res" where
  "pkcs7UnPadding origData = (if origData = [] then Inl (Panic ''index out of range'') else
     let unPadding = unat (last origData) in
     if length origData < unPadding then Inl (Panic ''slice bounds out of range'')
     else Inr (take (length origData - unPadding) origData))"

definition AesEncrypt :: "string \<Rightarrow> string res" where
  "AesEncrypt origData =
     bindR (mapErrR (Wrapf ''failed to decode key base64: %v'' []) (base64decode aesKey)) (\<lambda>keyText.
     let key = map byteOf keyText in
     bindR (aes_NewCipher key) (\<lambda>block.
     bindR (CryptBlocks (cbcEncrypt block (take 16 key)) (pkcs7Padding (map byteOf origData) 16)) (\<lambda>ciphertext.
     Inr (base64encode (map charOf ciphertext)))))"

definition AesDecrypt :: "string \<Rightarrow> string res" where
  "AesDecrypt ciphertext =
     bindR (mapErrR (Wrapf ''failed to decode key base64: %v'' []) (base64decode aesKey)) (\<lambda>keyText.
     let key = map byteOf keyText in
     bindR (mapErrR (Wrapf ''failed to decode key base64: %v'' []) (base64decode ciphertext)) (\<lambda>cipher.
     bindR (aes_NewCipher key) (\<lambda>block.
     if length cipher < 16 then Inl (Errorf ''ciphertext short than block size'' []) else
     bindR (CryptBlocks (cbcDecrypt block (take 16 key)) (map byteOf cipher)) (\<lambda>plaintext.
     bindR (pkcs7UnPadding plaintext) (\<lambda>plain.
     Inr (map charOf plain))))))"

section \<open>Decryption undoes encryption\<close>

lemma sbox0_rows:
  "sbox0 ! 0 = [99, 124, 119, 123, 242, 107, 111, 197, 48, 1, 103, 43, 254, 215, 171, 118]"
  "sbox0 ! Suc 0 = [202, 130, 201, 125, 250, 89, 71, 240, 173, 212, 162, 175, 156, 164, 114, 192]"
  "sbox0 ! 2 = [183, 253, 147, 38, 54, 63, 247, 204, 52, 165, 229, 241, 113, 216, 49, 21]"
  "sbox0 ! 3 = [4, 199, 35, 195, 24, 150, 5, 154, 7, 18, 128, 226, 235, 39, 178, 117]"
  "sbox0 ! 4 = [9, 131, 44, 26, 27, 110, 90, 160, 82, 59, 214, 179, 41, 227, 47, 132]"
  "sbox0 ! 5 = [83, 209, 0, 237, 32, 252, 177, 91, 106, 203, 190, 57, 74, 76, 88, 207]"
  "sbox0 ! 6 = [208, 239, 170, 251, 67, 77, 51, 133, 69, 249, 2, 127, 80, 60, 159, 168]"
  "sbox0 ! 7 = [81, 163, 64, 143, 146, 157, 56, 245, 188, 182, 218, 33, 16, 255, 243, 210]"
  "sbox0 ! 8 = [205, 12, 19, 236, 95, 151, 68, 23, 196, 167, 126, 61, 100, 93, 25, 115]"
  "sbox0 ! 9 = [96, 129, 79, 220, 34, 42, 144, 136, 70, 238, 184, 20, 222, 94, 11, 219]"
  "sbox0 ! 10 = [224, 50, 58, 10, 73, 6, 36, 92, 194, 211, 172, 98, 145, 149, 228, 121]"
  "sbox0 ! 11 = [231, 200, 55, 109, 141, 213, 78, 169, 108, 86, 244, 234, 101, 122, 174, 8]"
  "sbox0 ! 12 = [186, 120, 37, 46, 28, 166, 180, 198, 232, 221, 116, 31, 75, 189, 139, 138]"
  "sbox0 ! 13 = [112, 62, 181, 102, 72, 3, 246, 14, 97, 53, 87, 185, 134, 193, 29, 158]"
  "sbox0 ! 14 = [225, 248, 152, 17, 105, 217, 142, 148, 155, 30, 135, 233, 206, 85, 40, 223]"
  "sbox0 ! 15 = [140, 161, 137, 13, 191, 230, 66, 104, 65, 153, 45, 15, 176, 84, 187, 22]"
  by (simp_all add: sbox0_def)

lemma sbox1_rows:
  "sbox1 ! 0 = [82, 9, 106, 213, 48, 54, 165, 56, 191, 64, 163, 158, 129, 243, 215, 251]"
  "sbox1 ! Suc 0 = [124, 227, 57, 130, 155, 47, 255, 135, 52, 142, 67, 68, 196, 222, 233, 203]"
  "sbox1 ! 2 = [84, 123, 148, 50, 166, 194, 35, 61, 238, 76, 149, 11, 66, 250, 195, 78]"
  "sbox1 ! 3 = [8, 46, 161, 102, 40, 217, 36, 178, 118, 91, 162, 73, 109, 139, 209, 37]"
  "sbox1 ! 4 = [114, 248, 246, 100, 134, 104, 152, 22, 212, 164, 92, 204, 93, 101, 182, 146]"
  "sbox1 ! 5 = [108, 112, 72, 80, 253, 237, 185, 218, 94, 21, 70, 87, 167, 141, 157, 132]"
  "sbox1 ! 6 = [144, 216, 171, 0, 140, 188, 211, 10, 247, 228, 88, 5, 184, 179, 69, 6]"
  "sbox1 ! 7 = [208, 44, 30, 143, 202, 63, 15, 2, 193, 175, 189, 3, 1, 19, 138, 107]"
  "sbox1 ! 8 = [58, 145, 17, 65, 79, 103, 220, 234, 151, 242, 207, 206, 240, 180, 230, 115]"
  "sbox1 ! 9 = [150, 172, 116, 34, 231, 173, 53, 133, 226, 249, 55, 232, 28, 117, 223, 110]"
  "sbox1 ! 10 = [71, 241, 26, 113, 29, 41, 197, 137, 111, 183, 98, 14, 170, 24, 190, 27]"
  "sbox1 ! 11 = [252, 86, 62, 75, 198, 210, 121, 32, 154, 219, 192, 254, 120, 205, 90, 244]"
  "sbox1 ! 12 = [31, 221, 168, 51, 136, 7, 199, 49, 177, 18, 16, 89, 39, 128, 236, 95]"
  "sbox1 ! 13 = [96, 81, 127, 169, 25, 181, 74, 13, 45, 229, 122, 159, 147, 201, 156, 239]"
  "sbox1 ! 14 = [160, 224, 59, 77, 174, 42, 245, 176, 200, 235, 187, 60, 131, 83, 153, 97]"
  "sbox1 ! 15 = [23, 43, 4, 126, 186, 119, 214, 38, 225, 105, 20, 99, 85, 33, 12, 125]"
  by (simp_all add: sbox1_def)

definition nibbles :: "nat list" where
  "nibbles = [0, 1, 2, 3, 4, 5, 6, 7, 8, 9, 10, 11, 12, 13, 14, 15]"

lemma nibbles:
  assumes "n < 16"
  shows "n \<in> set nibbles"
proof -
  have eq: "nibbles = [0..<16]"
    by code_simp
  show ?thesis
    unfolding eq set_upt using assms by simp
qed

lemma sbox_grid:
  "list_all (\<lambda>r. list_all (\<lambda>c. lookup16 sbox1 (sbox0 ! r ! c) = 16 * r + c \<and> sbox0 ! r ! c < 256) nibbles) nibbles"
  by (simp add: nibbles_def lookup16_def sbox0_rows sbox1_rows)

lemma sbox_table: "n < 256 \<Longrightarrow> lookup16 sbox1 (lookup16 sbox0 n) = n \<and> lookup16 sbox0 n < 256"
proof -
  assume "n < 256"
  hence "n div 16 \<in> set nibbles" "n mod 16 \<in> set nibbles"
    by (auto intro!: nibbles simp: div_less_iff_less_mult)
  hence "lookup16 sbox1 (lookup16 sbox0 n) = 16 * (n div 16) + n mod 16 \<and> lookup16 sbox0 n < 256"
    using sbox_grid unfolding list_all_iff lookup16_def [of sbox0] by blast
  thus ?thesis
    by simp
qed
lemma invSub_sub [simp]: "invSubByte (subByte b) = b"
  using sbox_table [OF unat_byte, of b] by (simp add: subByte_def invSubByte_def unat_of_nat)

lemma length16E:
  assumes "length s = 16"
  obtains a0 a1 a2 a3 a4 a5 a6 a7 a8 a9 b0 b1 b2 b3 b4 b5 where "s = [a0, a1, a2, a3, a4, a5, a6, a7, a8, a9, b0, b1, b2, b3, b4, b5]"
  using assms by (auto simp: length_Suc_conv numeral_eq_Suc)

lemma length_pick [simp]: "length (pick is s) = length is"
  by (simp add: pick_def)

lemma length_shiftRows [simp]: "length (shiftRows s) = 16"
  by (simp add: shiftRows_def)

lemma invShift_shift [simp]: "length s = 16 \<Longrightarrow> invShiftRows (shiftRows s) = s"
  by (erule length16E) (simp add: invShiftRows_def shiftRows_def pick_def)

lemma xtime_xor: "xtime (a XOR b) = xtime a XOR xtime b"
  by (simp add: xtime_def push_bit_xor bit_xor_iff ac_simps)

lemma length_mixColumns [simp]: "length (mixColumns s) = length s"
  by (induction s rule: mixColumns.induct) simp_all

lemma invMix_mix [simp]: "invMixColumns (mixColumns s) = s"
  by (induction s rule: mixColumns.induct)
    (simp_all add: mul9_def mul11_def mul13_def mul14_def xtime_xor ac_simps)

lemma length_xorBytes [simp]: "length (xorBytes s k) = min (length s) (length k)"
  by (simp add: xorBytes_def)

lemma xorBytes_twice [simp]: "length s \<le> length k \<Longrightarrow> xorBytes (xorBytes s k) k = s"
  by (rule nth_equalityI) (simp_all add: xorBytes_def xor.assoc)

lemma length_encryptRounds:
  "length s = 16 \<Longrightarrow> \<forall>k \<in> set ks. length k = 16 \<Longrightarrow> length (encryptRounds ks s) = 16"
  by (induction ks s rule: encryptRounds.induct) simp_all

lemma decryptRounds_encrypt:
  "length s = 16 \<Longrightarrow> \<forall>k \<in> set ks. length k = 16 \<Longrightarrow> decryptRounds ks (encryptRounds ks s) = s"
  by (induction ks s rule: encryptRounds.induct) (simp_all add: comp_def)

lemma decryptBlock_encrypt:
  assumes "length s = 16" "ks \<noteq> []" "\<forall>k \<in> set ks. length k = 16"
  shows "decryptBlock ks (encryptBlock ks s) = s" "length (encryptBlock ks s) = 16"
proof -
  have t: "\<forall>k \<in> set (tl ks). length k = 16" and h: "length (hd ks) = 16"
    using assms by (cases ks; simp)+
  show "decryptBlock ks (encryptBlock ks s) = s" "length (encryptBlock ks s) = 16"
    using assms(1) h t by (simp_all add: decryptBlock_def encryptBlock_def decryptRounds_encrypt length_encryptRounds)
qed

lemma cbcDecrypt_encrypt:
  assumes "ks \<noteq> []" "\<forall>k \<in> set ks. length k = 16" "length iv = 16" "\<forall>b \<in> set bs. length b = 16"
  shows "cbcDecrypt ks iv (cbcEncrypt ks iv bs) = bs \<and> (\<forall>c \<in> set (cbcEncrypt ks iv bs). length c = 16)"
  using assms(3,4)
proof (induction bs arbitrary: iv)
  case (Cons b bs)
  hence "length (xorBytes b iv) = 16"
    by simp
  note e = decryptBlock_encrypt [OF this assms(1,2)]
  show ?case
    using Cons.IH [OF e(2)] Cons.prems e by (simp add: Let_def)
qed simp

lemma length_cbcEncrypt [simp]: "length (cbcEncrypt ks iv bs) = length bs"
  by (induction bs arbitrary: iv) (simp_all add: Let_def)

subsection \<open>The round keys\<close>

lemma length_nextWord:
  "\<forall>v \<in> set ws. length v = 4 \<Longrightarrow> 0 < nk \<Longrightarrow> nk \<le> length ws \<Longrightarrow> length (nextWord nk ws) = 4"
  by (cases "ws = []") (auto simp: nextWord_def Let_def)

lemma expandWords_len:
  assumes "\<forall>v \<in> set ws. length v = 4" "0 < nk" "nk \<le> length ws"
  shows "(\<forall>v \<in> set (expandWords nk n ws). length v = 4) \<and> length (expandWords nk n ws) = length ws + n"
  using assms
proof (induction n arbitrary: ws)
  case (Suc n)
  have "\<forall>v \<in> set (ws @ [nextWord nk ws]). length v = 4"
    using Suc.prems length_nextWord [OF Suc.prems] by simp
  from Suc.IH [OF this] show ?case
    using Suc.prems by simp
qed simp

lemma words4_len: "(\<forall>v \<in> set (words4 k). length v = 4) \<and> length (words4 k) = length k div 4"
  by (induction k rule: words4.induct) auto

lemma length_concat_same: "\<forall>v \<in> set vs. length v = n \<Longrightarrow> length (concat vs) = n * length vs"
  by (induction vs) simp_all

lemma chunks_len: "16 * n \<le> length xs \<Longrightarrow> \<forall>c \<in> set (chunks n xs). length c = 16"
proof (induction n arbitrary: xs)
  case (Suc n)
  hence "16 * n \<le> length (drop 16 xs)"
    by simp
  from Suc.IH [OF this] show ?case
    using Suc.prems by simp
qed simp

lemma length_chunks [simp]: "length (chunks n xs) = n"
  by (induction n arbitrary: xs) simp_all

lemma concat_chunks: "length xs = 16 * n \<Longrightarrow> concat (chunks n xs) = xs"
  by (induction n arbitrary: xs) simp_all

lemma chunks_concat: "\<forall>c \<in> set cs. length c = 16 \<Longrightarrow> chunks (length cs) (concat cs) = cs"
  by (induction cs) simp_all

lemma aes_NewCipher_ok:
  assumes "length key = 32"
  obtains ks where "aes_NewCipher key = Inr ks" "ks \<noteq> []" "\<forall>k \<in> set ks. length k = 16"
proof -
  let ?ws = "expandWords 8 52 (words4 key)"
  have w: "(\<forall>v \<in> set ?ws. length v = 4) \<and> length ?ws = 60"
    using expandWords_len [of "words4 key" 8 52] words4_len [of key] assms by simp
  hence "length (concat ?ws) = 240"
    using length_concat_same [of ?ws 4] by simp
  hence "\<forall>k \<in> set (chunks 15 (concat ?ws)). length k = 16"
    by (intro chunks_len) simp
  moreover have "aes_NewCipher key = Inr (chunks 15 (concat ?ws))"
    using assms by (simp add: aes_NewCipher_def Let_def)
  moreover have "chunks 15 (concat ?ws) \<noteq> []"
    using length_chunks [of 15 "concat ?ws"] by fastforce
  ultimately show thesis
    by (rule that [rotated -1])
qed

lemma aesKey_decoded: "case base64decode aesKey of Inl e \<Rightarrow> False | Inr k \<Rightarrow> length k = 32"
  by code_simp

subsection \<open>Padding\<close>

lemma pkcs7_roundtrip: "pkcs7UnPadding (pkcs7Padding d 16) = Inr d"
proof -
  let ?p = "16 - length d mod 16"
  have p: "0 < ?p" "?p \<le> 16"
    by simp_all
  have "unat (word_of_nat n :: byte) = n" if "n \<le> 16" for n
    using that by (simp add: unat_of_nat)
  from this [OF p(2)] have "unat (word_of_nat ?p :: byte) = ?p" .
  thus ?thesis
    using p by (simp add: pkcs7Padding_def pkcs7UnPadding_def Let_def)
qed

lemma pkcs7Padding_len: "length (pkcs7Padding d 16) mod 16 = 0" "16 \<le> length (pkcs7Padding d 16)"
proof -
  have "length (pkcs7Padding d 16) = 16 * (length d div 16) + 16"
    using mult_div_mod_eq [of 16 "length d"] mod_less_divisor [of 16 "length d"]
    unfolding pkcs7Padding_def Let_def length_append length_replicate by linarith
  thus "length (pkcs7Padding d 16) mod 16 = 0" "16 \<le> length (pkcs7Padding d 16)"
    by simp_all
qed

lemma aes_roundtrip: "\<exists>c. AesEncrypt s = Inr c \<and> AesDecrypt c = Inr s"
proof -
  obtain kt where kt: "base64decode aesKey = Inr kt" "length kt = 32"
    using aesKey_decoded by (auto split: sum.splits)
  let ?key = "map byteOf kt"
  obtain ks where ks: "aes_NewCipher ?key = Inr ks" "ks \<noteq> []" "\<forall>k \<in> set ks. length k = 16"
    using aes_NewCipher_ok [of ?key] kt(2) by auto
  let ?d = "pkcs7Padding (map byteOf s) 16" and ?iv = "take 16 ?key"
  let ?bs = "chunks (length ?d div 16) ?d"
  let ?cs = "cbcEncrypt ks ?iv ?bs"
  have iv: "length ?iv = 16"
    using kt(2) by simp
  have d: "length ?d = 16 * (length ?d div 16)" "0 < length ?d div 16"
    using pkcs7Padding_len [of "map byteOf s"] by auto
  have bs: "\<forall>b \<in> set ?bs. length b = 16"
    using d by (intro chunks_len) simp
  note cbc = conjunct1 [OF cbcDecrypt_encrypt [OF ks(2,3) iv bs]] conjunct2 [OF cbcDecrypt_encrypt [OF ks(2,3) iv bs]]
  have len: "length (concat ?cs) = 16 * (length ?d div 16)"
    using length_concat_same [OF cbc(2)] by simp
  have enc: "AesEncrypt s = Inr (base64encode (map charOf (concat ?cs)))"
    using kt ks pkcs7Padding_len [of "map byteOf s"] by (simp add: AesEncrypt_def CryptBlocks_def mapErrR_def)
  have "chunks (length ?d div 16) (concat ?cs) = ?cs"
    using chunks_concat [OF cbc(2)] by simp
  hence "CryptBlocks (cbcDecrypt ks ?iv) (concat ?cs) = Inr ?d"
    using len cbc(1) concat_chunks [OF d(1)] by (simp add: CryptBlocks_def)
  hence "AesDecrypt (base64encode (map charOf (concat ?cs))) = Inr s"
    using kt ks len d by (simp add: AesDecrypt_def comp_def pkcs7_roundtrip mapErrR_def)
  thus ?thesis
    using enc by blast
qed

end
