(* ===== verification/Ssh_Client.thy ===== *)
theory Ssh_Client
  imports Infra_Driver File_Copy Aes "HOL-Library.AList"
begin

text \<open>
  The client of \<^verbatim>\<open>utils/ssh\<close>: connections, commands, and the transfer of files over sftp. It implements
  the interface whose calls are the remote actions (\<^const>\<open>CmdAsyncOn\<close>, \<^const>\<open>CopyTo\<close> and so on) of the other
  theories; here each of them is what the client does for it. The calls of \<^verbatim>\<open>golang.org/x/crypto/ssh\<close> and
  \<^verbatim>\<open>github.com/pkg/sftp\<close> on a host are actions \<open>SshCall\<close>.

  A client is the \<^typ>\<open>SSH\<close> record it was made from (\<^verbatim>\<open>NewSSHClient\<close>). \<^verbatim>\<open>connect\<close> writes the decrypted
  password and the default port back into the client; a second call finds nothing left to do
  (\<open>connectSettings_again\<close>), so that the settings are computed from the original record each time.
  Progress bars and log messages have no influence on the results and are left out.
\<close>

section \<open>Connections\<close>

definition ROOT :: string where "ROOT = ''root''"
definition DefaultSSHPort :: string where "DefaultSSHPort = ''22''"

datatype AuthMethod = PublicKeys string | PasswordAuth string

fun authText :: "AuthMethod \<Rightarrow> string list" where
  "authText (PublicKeys k) = [''publickey'', k]"
| "authText (PasswordAuth p) = [''password'', p]"

definition ignoreE :: "'a io \<Rightarrow> unit io" where
  "ignoreE m = bindE (tryE m) (\<lambda>_. returnE ())"

definition sshPrivateKeyMethod :: "string \<Rightarrow> string \<Rightarrow> AuthMethod io" where
  "sshPrivateKeyMethod pkFile pkPassword =
     bindE (askText (LocalCall ''os.ReadFile'' [filepath_Clean pkFile])) (\<lambda>pkData.
       thenE (perform (if pkPassword = [] then LocalCall ''ssh.ParsePrivateKey'' [pkData]
                       else LocalCall ''ssh.ParsePrivateKeyWithPassphrase'' [pkData, pkPassword]))
         (returnE (PublicKeys pkData)))"

text \<open>\<^verbatim>\<open>fileExist\<close> of this package is the same function as \<^verbatim>\<open>osutils.IsFileExist\<close>.\<close>

definition sshAuthMethod :: "string \<Rightarrow> string \<Rightarrow> string \<Rightarrow> AuthMethod list io" where
  "sshAuthMethod password pkFile pkPasswd =
     bindE (os_IsFileExist pkFile) (\<lambda>ex.
     bindE (if ex then bindE (tryE (sshPrivateKeyMethod pkFile pkPasswd)) (\<lambda>r.
              returnE (case r of Inr am \<Rightarrow> [am] | Inl _ \<Rightarrow> []))
            else returnE []) (\<lambda>auth.
     returnE (auth @ (if password \<noteq> [] then [PasswordAuth password] else []))))"

definition connectSettings :: "SSH \<Rightarrow> SSH res" where
  "connectSettings s =
     bindR (if s_Encrypted s
            then bindR (AesDecrypt (s_Passwd s)) (\<lambda>passwd. Inr (s\<lparr>s_Passwd := passwd, s_Encrypted := False\<rparr>))
            else Inr s)
       (\<lambda>s. Inr (if s_Port s = [] then s\<lparr>s_Port := DefaultSSHPort\<rparr> else s))"

definition connect :: "SSH \<Rightarrow> net_ip \<Rightarrow> unit io" where
  "connect s0 host = bindE (liftR (connectSettings s0)) (\<lambda>s.
     bindE (sshAuthMethod (s_Passwd s) (s_Pk s) (s_PkPasswd s)) (\<lambda>auth.
       perform (SshCall host ''ssh.Dial''
         ([s_User s, net_JoinHostPort (ip_String host) (s_Port s)] @ concat (map authText auth)))))"

definition closeClient :: "net_ip \<Rightarrow> unit io" where
  "closeClient host = perform (SshCall host ''client.Close'' [])"

definition closeSession :: "net_ip \<Rightarrow> unit io" where
  "closeSession host = perform (SshCall host ''session.Close'' [])"

definition Connect :: "SSH \<Rightarrow> net_ip \<Rightarrow> unit io" where
  "Connect s host = thenE (connect s host)
     (bindE (tryE (perform (SshCall host ''client.NewSession'' []))) (\<lambda>r. case r of
        Inl e \<Rightarrow> thenE (ignoreE (closeClient host)) (throwE e)
      | Inr _ \<Rightarrow> bindE (tryE (perform (SshCall host ''session.RequestPty'' [''xterm'', ''80'', ''40'']))) (\<lambda>r. case r of
          Inl e \<Rightarrow> thenE (ignoreE (closeSession host)) (thenE (ignoreE (closeClient host)) (throwE e))
        | Inr _ \<Rightarrow> returnE ())))"

definition Ping :: "SSH \<Rightarrow> net_ip \<Rightarrow> unit io" where
  "Ping s host = bindE (isLocalHost host) (\<lambda>l. if l then returnE () else
     thenE (mapErr (Wrapf ''failed to ping node %s using ssh session: %v'' [ip_String host]) (Connect s host))
       (closeClient host))"

fun waitReady_go :: "nat \<Rightarrow> gerror \<Rightarrow> (net_ip \<Rightarrow> unit io) \<Rightarrow> net_ip \<Rightarrow> unit io" where
  "waitReady_go 0 err ping host = throwE
     (Wrapf ''wait for [%s] ssh ready timeout: %v, ensure that the IP address or password is correct'' [ip_String host] err)"
| "waitReady_go (Suc n) err ping host = bindE (tryE (ping host)) (\<lambda>r. case r of
     Inr _ \<Rightarrow> returnE () | Inl e \<Rightarrow> waitReady_go n e ping host)"

definition ssh_WaitSSHReady :: "SSH \<Rightarrow> nat \<Rightarrow> net_ip list \<Rightarrow> unit io" where
  "ssh_WaitSSHReady s tryTimes hosts = errgroup hosts (waitReady_go tryTimes (Errorf ''<nil>'' []) (Ping s))"

text \<open>The client of a host of a cluster; the merged settings stay in the cluster object.\<close>

fun findHostSSH :: "net_ip \<Rightarrow> SSH \<Rightarrow> Host list \<Rightarrow> (SSH \<times> Host list) option" where
  "findHostSSH ip clusterSSH [] = None"
| "findHostSSH ip clusterSSH (h # hs) = (if list_ex (ip_Equal ip) (h_IPS h)
     then let s = NewSSHClient (mergeSSH (h_SSH h) clusterSSH) in Some (s, h\<lparr>h_SSH := s\<rparr> # hs)
     else map_option (\<lambda>(s, hs'). (s, h # hs')) (findHostSSH ip clusterSSH hs))"

definition GetHostSSHClient :: "net_ip \<Rightarrow> Cluster \<Rightarrow> (SSH \<times> Cluster) res" where
  "GetHostSSHClient hostIP cluster = (case findHostSSH hostIP (c_SSH (Spec cluster)) (c_Hosts (Spec cluster)) of
       None \<Rightarrow> Inl (Errorf ''failed to get host ssh client: host ip %s not in hosts ip list'' [ip_String hostIP])
     | Some (s, hs) \<Rightarrow> Inr (s, cluster\<lparr>Spec := (Spec cluster)\<lparr>c_Hosts := hs\<rparr>\<rparr>))"

section \<open>Commands\<close>

definition defaultPATH :: string where
  "defaultPATH = ''/sbin:/bin:/usr/sbin:/usr/bin:/usr/local/bin''"

definition withPATH :: "env \<Rightarrow> env" where
  "withPATH hostEnv = (if map_of hostEnv ''PATH'' \<in> {None, Some []} then AList.update ''PATH'' defaultPATH hostEnv else hostEnv)"

definition wrapCommand :: "SSH \<Rightarrow> env \<Rightarrow> string \<Rightarrow> string" where
  "wrapCommand s hostEnv cmd = WrapperShell
     (if s_User s \<noteq> ROOT then fmt_Sprintf ''sudo -E /bin/bash <<EOF\<newline>%s\<newline>EOF'' [cmd] else cmd) (withPATH hostEnv)"

definition execLocal :: "net_ip \<Rightarrow> string \<Rightarrow> unit io" where
  "execLocal host cmd =
     thenE (perform (LocalCall ''exec.Cmd.StdoutPipe'' []))
     (thenE (perform (LocalCall ''exec.Cmd.StderrPipe'' []))
     (thenE (mapErr (Wrapf ''failed to start command %s: %v'' [cmd]) (perform (LocalCall ''exec.Cmd.Start'' [''/bin/bash'', ''-c'', cmd])))
       (mapErr (Wrapf ''failed to execute command(%s) on host(%s): error(%v)'' [cmd, ip_String host])
         (perform (LocalCall ''exec.Cmd.Wait'' [cmd])))))"

definition execRemote :: "SSH \<Rightarrow> net_ip \<Rightarrow> string \<Rightarrow> unit io" where
  "execRemote s host cmd =
     thenE (mapErr (Wrapf ''failed to create ssh session for %s: %v'' [ip_String host]) (Connect s host))
     (finallyE (finallyE
       (thenE (mapErr (Wrapf ''failed to create stdout pipe for %s: %v'' [ip_String host]) (perform (SshCall host ''session.StdoutPipe'' [])))
       (thenE (mapErr (Wrapf ''failed to create stderr pipe for %s: %v'' [ip_String host]) (perform (SshCall host ''session.StderrPipe'' [])))
       (thenE (mapErr (Wrapf ''failed to start command %s on %s: %v'' [cmd, ip_String host]) (perform (SshCall host ''session.Start'' [cmd])))
         (mapErr (Wrapf ''failed to execute command(%s) on host(%s): error(%v)'' [cmd, ip_String host])
           (perform (SshCall host ''session.Wait'' [cmd]))))))
       (closeSession host)) (closeClient host))"

definition CmdAsync :: "SSH \<Rightarrow> net_ip \<Rightarrow> env \<Rightarrow> string list \<Rightarrow> unit io" where
  "CmdAsync s host hostEnv cmds = bindE (isLocalHost host) (\<lambda>l.
     forE cmds (\<lambda>cmd. if cmd = [] then returnE ()
       else (let cmd' = wrapCommand s hostEnv cmd in if l then execLocal host cmd' else execRemote s host cmd')))"

text \<open>
  A command run to its end: what it wrote to its standard output and, when it failed, to its standard
  error, which the environment answers when asked after the run.
\<close>

definition runCapture :: "action \<Rightarrow> (string \<times> string option) io" where
  "runCapture a = (\<lambda>w. (Inr (w_text w (w_log w) a,
       if w_err w (w_log w) a = None then None else Some (w_text w (w_log w @ [a]) a)), w\<lparr>w_log := w_log w @ [a]\<rparr>))"

text \<open>
  \<^verbatim>\<open>Cmd\<close> returns the output together with the error, so its result is a pair. Without a connection the
  output is a nil slice; once a command has run its buffer is allocated, empty or not.
\<close>

definition Cmd :: "SSH \<Rightarrow> net_ip \<Rightarrow> env \<Rightarrow> string \<Rightarrow> (string option \<times> gerror option) io" where
  "Cmd s host hostEnv cmd0 = (let cmd = wrapCommand s hostEnv cmd0 in
     bindE (isLocalHost host) (\<lambda>l.
     if l then bindE (runCapture (LocalCall ''exec.Cmd.Run'' [''/bin/bash'', ''-c'', cmd])) (\<lambda>(out, err).
       returnE (Some out, map_option (\<lambda>e. Errorf ''failed to execute command(%s) on host(%s): error(%v)'' [cmd, ip_String host, e]) err))
     else bindE (tryE (Connect s host)) (\<lambda>r. case r of
       Inl e \<Rightarrow> returnE (None, Some (Wrapf ''[ssh][%s] failed to create ssh session: %s'' [ip_String host] e))
     | Inr _ \<Rightarrow> finallyE (finallyE
         (bindE (runCapture (SshCall host ''session.Run'' [cmd])) (\<lambda>(out, err).
           returnE (Some out, map_option (\<lambda>e. Errorf ''[ssh][%s]failed to run command[%s]: %s'' [ip_String host, cmd, e]) err)))
         (closeSession host)) (closeClient host))))"

definition CR :: string where "CR = [CHR 0x0D]"
definition LF :: string where "LF = [CHR 0x0A]"

definition replaceLineEnds :: "string \<Rightarrow> string \<Rightarrow> string" where
  "replaceLineEnds str split = strings_ReplaceAll (strings_ReplaceAll (strings_ReplaceAll str CR split) (CR @ LF) split) LF split"

definition CmdToString :: "SSH \<Rightarrow> net_ip \<Rightarrow> env \<Rightarrow> string \<Rightarrow> string \<Rightarrow> (string \<times> gerror option) io" where
  "CmdToString s host e cmd split = bindE (Cmd s host e cmd) (\<lambda>(data, err).
     returnE (case (err, data) of
       (Some er, _) \<Rightarrow> (case data of None \<Rightarrow> [] | Some str \<Rightarrow> str, Some er)
     | (None, Some str) \<Rightarrow> (replaceLineEnds str split, None)
     | (None, None) \<Rightarrow> ([], Some (Errorf ''command %s %s return nil'' [ip_String host, cmd]))))"

section \<open>The sftp connections\<close>

text \<open>
  The process keeps one sftp connection per host in the global map \<^verbatim>\<open>sshClientMap\<close>. A write to it is
  recorded in the log, and the map is what the log says. \<open>True\<close> is a live client, \<open>False\<close> a nil pointer,
  on which every method panics.
\<close>

type_synonym sftpClient = bool

definition setClient :: "string \<Rightarrow> sftpClient \<Rightarrow> action" where
  "setClient host c = LocalCall ''sshClientMap'' [host, if c then ''client'' else ''nil'']"

fun sshClientMap :: "action list \<Rightarrow> string \<Rightarrow> sftpClient option" where
  "sshClientMap [] h = None"
| "sshClientMap (a # as) h = (case sshClientMap as h of Some c \<Rightarrow> Some c
     | None \<Rightarrow> if a = setClient h True then Some True else if a = setClient h False then Some False else None)"

definition recordE :: "action \<Rightarrow> unit io" where
  "recordE a = (\<lambda>w. (Inr (), w\<lparr>w_log := w_log w @ [a]\<rparr>))"

definition SUDO :: string where "SUDO = ''sudo ''"

definition grepSftp :: string where
  "grepSftp = ''sudo grep -oP \"Subsystem'' @ [CHR 0x5C] @ ''s+sftp'' @ [CHR 0x5C] @ ''s+'' @ [CHR 0x5C] @ ''K.*\" /etc/ssh/sshd_config''"

definition NewSudoSftpClient :: "net_ip \<Rightarrow> unit io" where
  "NewSudoSftpClient host =
     thenE (perform (SshCall host ''client.NewSession'' []))
     (finallyE
       (let cmd = grepSftp in
        bindE (mapErr (Wrapf ''failed to execute cmd(%s): %v'' [cmd]) (askText (SshCall host ''session.Output'' [cmd]))) (\<lambda>buff.
        thenE (perform (SshCall host ''client.NewSession'' []))
        (let path = strings_ReplaceAll buff CR []; path' = (if strings_HasPrefix path SUDO then path else SUDO @ path) in
         bindE (tryE (askFlag (SshCall host ''session.SendRequest'' [''exec'', path']))) (\<lambda>r.
         if r = Inr False then throwE (Errorf ''ssh: failed to exec request'' [])
         else thenE (perform (SshCall host ''session.StdinPipe'' []))
           (thenE (perform (SshCall host ''session.StdoutPipe'' []))
             (perform (SshCall host ''sftp.NewClientPipe'' [])))))))
       (closeSession host))"

definition sftpConnect :: "SSH \<Rightarrow> net_ip \<Rightarrow> sftpClient io" where
  "sftpConnect s host = (\<lambda>w. case sshClientMap (w_log w) (ip_String host) of
       Some c \<Rightarrow> (Inr c, w)
     | None \<Rightarrow> thenE (connect s host)
         (bindE (tryE (if s_User s \<noteq> ROOT then NewSudoSftpClient host else perform (SshCall host ''sftp.NewClient'' []))) (\<lambda>r.
            thenE (recordE (setClient (ip_String host) (\<not> isl r)))
              (case r of Inl e \<Rightarrow> throwE e | Inr _ \<Rightarrow> returnE True))) w)"

definition onClient :: "sftpClient \<Rightarrow> 'a io \<Rightarrow> 'a io" where
  "onClient c m = (if c then m else throwE (Panic ''invalid memory address or nil pointer dereference''))"

definition sftpDo :: "sftpClient \<Rightarrow> net_ip \<Rightarrow> string \<Rightarrow> string list \<Rightarrow> unit io" where
  "sftpDo c host op args = onClient c (perform (SshCall host op args))"

section \<open>Transfers\<close>

definition ErrNotExist :: gerror where "ErrNotExist = Errorf ''file does not exist'' []"

definition ssh_IsFileExist :: "SSH \<Rightarrow> net_ip \<Rightarrow> string \<Rightarrow> bool io" where
  "ssh_IsFileExist s host remoteFilePath =
     bindE (mapErr (Wrapf ''failed to new sftp client of host(%s): %s'' [ip_String host]) (sftpConnect s host)) (\<lambda>c.
     bindE (tryE (sftpDo c host ''sftp.Stat'' [remoteFilePath])) (\<lambda>r. case r of
       Inr _ \<Rightarrow> returnE True
     | Inl e \<Rightarrow> if e = ErrNotExist then returnE False else throwE e))"

definition RemoteDirExist :: "SSH \<Rightarrow> net_ip \<Rightarrow> string \<Rightarrow> bool io" where
  "RemoteDirExist s host remoteDirPath =
     bindE (mapErr (Wrapf ''new sftp client failed %v'' []) (sftpConnect s host)) (\<lambda>c.
       thenE (sftpDo c host ''sftp.ReadDir'' [remoteDirPath]) (returnE True))"

text \<open>The sums of local files are a call of \<^verbatim>\<open>hash.FileMD5\<close>; an error is logged and gives the empty sum.\<close>

definition localMd5Sum :: "string \<Rightarrow> string io" where
  "localMd5Sum localPath = bindE (tryE (thenE (perform (LocalCall ''os.Open'' [filepath_Clean localPath]))
       (askText (LocalCall ''md5'' [localPath])))) (\<lambda>r. returnE (case r of Inr md5 \<Rightarrow> md5 | Inl _ \<Rightarrow> []))"

definition remoteMd5Sum :: "SSH \<Rightarrow> net_ip \<Rightarrow> string \<Rightarrow> string io" where
  "remoteMd5Sum s host remoteFilePath =
     bindE (CmdToString s host [] (fmt_Sprintf ''md5sum %s | cut -d\" \" -f1'' [remoteFilePath]) []) (\<lambda>(out, err).
       returnE (strings_ReplaceAll out CR []))"

definition copyLocalFileToRemote :: "SSH \<Rightarrow> net_ip \<Rightarrow> sftpClient \<Rightarrow> string \<Rightarrow> string \<Rightarrow> unit io" where
  "copyLocalFileToRemote s host c localPath remotePath =
     bindE (localMd5Sum localPath) (\<lambda>srcMd5.
     bindE (ssh_IsFileExist s host remotePath) (\<lambda>exist.
     bindE (if exist then bindE (remoteMd5Sum s host remotePath) (\<lambda>dstMd5. returnE (srcMd5 = dstMd5)) else returnE False) (\<lambda>same.
     if same then returnE () else
     thenE (perform (LocalCall ''os.Open'' [filepath_Clean localPath]))
     (finallyE
       (thenE (sftpDo c host ''sftp.Create'' [remotePath])
       (thenE (mapErr (Wrapf ''failed to get file stat: %v'' []) (perform (LocalCall ''file.Stat'' [localPath])))
       (thenE (mapErr (Wrapf ''failed to chmod remote file: %v'' []) (perform (SshCall host ''sftp.Chmod'' [remotePath])))
       (finallyE
         (thenE (perform (SshCall host ''sftp.Write'' [remotePath, localPath]))
         (bindE (remoteMd5Sum s host remotePath) (\<lambda>dstMd5.
           if srcMd5 \<noteq> dstMd5 then throwE (Errorf ''[ssh][%s] failed to validate md5sum: (%s != %s)'' [ip_String host, srcMd5, dstMd5])
           else returnE ())))
         (perform (SshCall host ''sftp.Close'' [remotePath]))))))
       (perform (LocalCall ''file.Close'' [localPath]))))))"

text \<open>
  The copy of a directory has no result: an error is logged and ends the loop of the directory it
  happened in, not that of the directories above.
\<close>

primrec copyLocalDirToRemote :: "nat \<Rightarrow> SSH \<Rightarrow> net_ip \<Rightarrow> sftpClient \<Rightarrow> string \<Rightarrow> string \<Rightarrow> unit io" where
  "copyLocalDirToRemote 0 s host c localPath remotePath = returnE ()"
| "copyLocalDirToRemote (Suc n) s host c localPath remotePath =
     ignoreE (bindE (askDir localPath) (\<lambda>localFiles.
       thenE (sftpDo c host ''sftp.MkdirAll'' [remotePath])
         (forE localFiles (\<lambda>(name, isDir).
            let lfp = filepath_Join [localPath, name]; rfp = filepath_Join [remotePath, name] in
            if isDir then thenE (sftpDo c host ''sftp.MkdirAll'' [rfp]) (copyLocalDirToRemote n s host c lfp rfp)
            else copyLocalFileToRemote s host c lfp rfp))))"

definition ssh_Copy :: "SSH \<Rightarrow> net_ip \<Rightarrow> string \<Rightarrow> string \<Rightarrow> unit io" where
  "ssh_Copy s host localPath remotePath = bindE (isLocalHost host) (\<lambda>l.
     if l then (if localPath = remotePath then returnE () else RecursionCopy localPath remotePath) else
     bindE (mapErr (Wrapf ''failed to new sftp client of host(%s): %s'' [ip_String host]) (sftpConnect s host)) (\<lambda>c.
     bindE (mapErr (Wrapf ''failed to get file stat of path(%s): %s'' [localPath]) (os_StatIsDir localPath)) (\<lambda>isDir.
     bindE (tryE (sftpDo c host ''sftp.ReadDir'' [filepath_Dir remotePath])) (\<lambda>r.
     thenE (whenE (isl r) (sftpDo c host ''sftp.MkdirAll'' [filepath_Dir remotePath]))
     (bindE (if isDir then CountDirFiles localPath else returnE 1) (\<lambda>number.
     if number = 0 then returnE ()
     else if isDir then copyLocalDirToRemote PATH_MAX s host c localPath remotePath
     else ignoreE (copyLocalFileToRemote s host c localPath remotePath)))))))"

definition ssh_CopyR :: "SSH \<Rightarrow> net_ip \<Rightarrow> string \<Rightarrow> string \<Rightarrow> unit io" where
  "ssh_CopyR s host localFilePath remoteFilePath = bindE (isLocalHost host) (\<lambda>l.
     if l then (if remoteFilePath \<noteq> localFilePath then RecursionCopy remoteFilePath localFilePath else returnE ()) else
     bindE (mapErr (Wrapf ''failed to new sftp client: %v'' []) (sftpConnect s host)) (\<lambda>c.
     thenE (mapErr (Wrapf ''failed to open remote file(%s): %v'' [remoteFilePath]) (sftpDo c host ''sftp.Open'' [remoteFilePath]))
     (finallyE
       (thenE (fs_MkdirAll (filepath_Dir localFilePath))
       (thenE (mapErr (Wrapf ''failed to create local file: %v'' []) (perform (LocalCall ''os.Create'' [filepath_Clean localFilePath])))
       (finallyE (perform (SshCall host ''sftp.WriteTo'' [remoteFilePath, localFilePath]))
         (perform (LocalCall ''file.Close'' [localFilePath])))))
       (perform (SshCall host ''sftp.Close'' [remoteFilePath])))))"

end
