(* ===== verification/Ssh_Properties.thy ===== *)
theory Ssh_Properties
  imports Kube_Properties Ssh_Client
begin

text \<open>
  What the ssh client guarantees: commands run wrapped, in order and until the first failure; and where
  it falls short of its interface: failed transfers, clients that were not created, passwords that
  are not encrypted, and line ends.
\<close>

section \<open>Traces\<close>

text \<open>\<open>traces Q m\<close>: whatever the environment, the result of \<open>m\<close> and the actions it performs are related by \<open>Q\<close>.\<close>

definition traces :: "('a res \<Rightarrow> action list \<Rightarrow> bool) \<Rightarrow> 'a io \<Rightarrow> bool" where
  "traces Q m = (\<forall>w. \<exists>as. snd (m w) = w\<lparr>w_log := w_log w @ as\<rparr> \<and> Q (fst (m w)) as)"

lemma tracesD: "traces Q m \<Longrightarrow> \<exists>as. snd (m w) = w\<lparr>w_log := w_log w @ as\<rparr> \<and> Q (fst (m w)) as"
  by (simp add: traces_def)

lemma traces_obeys: "obeys P m \<Longrightarrow> traces (\<lambda>r as. list_all P as) m"
  by (simp add: traces_def obeys_def)

lemma traces_mono: "traces Q m \<Longrightarrow> (\<And>r as. Q r as \<Longrightarrow> R r as) \<Longrightarrow> traces R m"
  unfolding traces_def by blast

lemma traces_return: "Q (Inr x) [] \<Longrightarrow> traces Q (returnE x)"
  unfolding traces_def returnE_def by (auto intro!: exI [of _ "[]"])

lemma traces_perform: "Q (Inr ()) [a] \<Longrightarrow> (\<And>e. Q (Inl e) [a]) \<Longrightarrow> traces Q (perform a)"
  by (auto simp: traces_def perform_def split: option.splits)

lemma traces_bindE:
  assumes m: "traces Q m" and f: "\<And>x. traces (R x) (f x)"
    and err: "\<And>e as. Q (Inl e) as \<Longrightarrow> S (Inl e) as"
    and ok: "\<And>x r as bs. Q (Inr x) as \<Longrightarrow> R x r bs \<Longrightarrow> S r (as @ bs)"
  shows "traces S (bindE m f)"
  unfolding traces_def
proof
  fix w
  obtain r w1 where mw: "m w = (r, w1)"
    by (cases "m w")
  with tracesD [OF m, of w] obtain as where w1: "w1 = w\<lparr>w_log := w_log w @ as\<rparr>" "Q r as"
    by auto
  show "\<exists>as. snd (bindE m f w) = w\<lparr>w_log := w_log w @ as\<rparr> \<and> S (fst (bindE m f w)) as"
  proof (cases r)
    case (Inl e)
    thus ?thesis
      using mw w1 err by (auto simp: bindE_def)
  next
    case (Inr x)
    from tracesD [OF f, of x w1] obtain bs where "snd (f x w1) = w1\<lparr>w_log := w_log w1 @ bs\<rparr>" "R x (fst (f x w1)) bs"
      by auto
    thus ?thesis
      using mw w1 Inr ok [of x as "fst (f x w1)" bs] by (auto simp: bindE_def intro!: exI [of _ "as @ bs"])
  qed
qed

lemma traces_thenE:
  assumes "traces Q m" "traces R k" "\<And>e as. Q (Inl e) as \<Longrightarrow> S (Inl e) as" "\<And>r as bs. Q (Inr ()) as \<Longrightarrow> R r bs \<Longrightarrow> S r (as @ bs)"
  shows "traces S (thenE m k)"
  unfolding thenE_def by (rule traces_bindE [OF assms(1,2)]) (use assms(3,4) in auto)

lemma traces_mapErr:
  assumes "traces Q m" "\<And>e as. Q (Inl e) as \<Longrightarrow> R (Inl e) as \<and> R (Inl (f e)) as" "\<And>x as. Q (Inr x) as \<Longrightarrow> R (Inr x) as"
  shows "traces R (mapErr f m)"
  unfolding traces_def
proof
  fix w
  obtain as where "snd (m w) = w\<lparr>w_log := w_log w @ as\<rparr>" "Q (fst (m w)) as"
    using tracesD [OF assms(1)] by blast
  thus "\<exists>as. snd (mapErr f m w) = w\<lparr>w_log := w_log w @ as\<rparr> \<and> R (fst (mapErr f m w)) as"
    using assms(2,3) by (auto simp: mapErr_def split: prod.splits sum.splits gerror.splits)
qed

lemma traces_finallyE:
  assumes m: "traces Q m" and c: "obeys P c" and ok: "\<And>r as bs. Q r as \<Longrightarrow> list_all P bs \<Longrightarrow> R r (as @ bs)"
  shows "traces R (finallyE m c)"
  unfolding traces_def
proof
  fix w
  obtain as where as: "snd (m w) = w\<lparr>w_log := w_log w @ as\<rparr>" "Q (fst (m w)) as"
    using tracesD [OF m] by blast
  obtain bs where bs: "snd (c (snd (m w))) = (snd (m w))\<lparr>w_log := w_log (snd (m w)) @ bs\<rparr>" "list_all P bs"
    using obeysD [OF c] by blast
  show "\<exists>as. snd (finallyE m c w) = w\<lparr>w_log := w_log w @ as\<rparr> \<and> R (fst (finallyE m c w)) as"
    using as bs ok [OF as(2) bs(2)] by (auto simp: finallyE_def split: prod.splits intro!: exI [of _ "as @ bs"])
qed

lemma traces_ignoreE: "grows m \<Longrightarrow> traces (\<lambda>r as. r = Inr () \<or> (\<exists>p. r = Inl (Panic p))) (ignoreE m)"
proof -
  assume "grows m"
  hence "\<exists>as. snd (ignoreE m w) = w\<lparr>w_log := w_log w @ as\<rparr>" for w
    using obeysD [of "\<lambda>_. True" "ignoreE m" w] by (auto simp: ignoreE_def)
  moreover have "fst (ignoreE m w) = Inr () \<or> (\<exists>p. fst (ignoreE m w) = Inl (Panic p))" for w
    by (auto simp: ignoreE_def bindE_def tryE_def returnE_def split: prod.splits sum.splits gerror.splits)
  ultimately show ?thesis
    unfolding traces_def by blast
qed

lemma obeys_ignoreE [intro!]: "obeys P m \<Longrightarrow> obeys P (ignoreE m)"
  by (auto simp: ignoreE_def)

section \<open>Commands run in order\<close>

fun commandStarted :: "action \<Rightarrow> string list" where
  "commandStarted (SshCall h f args) = (if f = ''session.Start'' then args else [])"
| "commandStarted (LocalCall f args) = (if f = ''exec.Cmd.Start'' then drop 2 args else [])"
| "commandStarted _ = []"

definition commandsStarted :: "action list \<Rightarrow> string list" where
  "commandsStarted as = concat (map commandStarted as)"

lemma commandsStarted_simps [simp]:
  "commandsStarted [] = []" "commandsStarted (a # as) = commandStarted a @ commandsStarted as"
  "commandsStarted (as @ bs) = commandsStarted as @ commandsStarted bs"
  by (simp_all add: commandsStarted_def)

lemma commandsStarted_none: "list_all (\<lambda>a. commandStarted a = []) as \<Longrightarrow> commandsStarted as = []"
  by (induction as) auto

definition quiet :: "action \<Rightarrow> bool" where
  "quiet a \<longleftrightarrow> commandStarted a = []"

lemma quietE: "list_all quiet as \<Longrightarrow> commandsStarted as = []"
  by (rule commandsStarted_none) (auto simp: quiet_def list_all_iff)

lemma obeys_connect:
  assumes "\<And>f args. f \<in> {''os.Stat'', ''os.ReadFile'', ''ssh.ParsePrivateKey'', ''ssh.ParsePrivateKeyWithPassphrase''} \<Longrightarrow> P (LocalCall f args)"
    and "\<And>args. P (SshCall host ''ssh.Dial'' args)"
  shows "obeys P (connect s host)"
  unfolding connect_def sshAuthMethod_def sshPrivateKeyMethod_def
  by (auto split: sum.splits intro!: assms)

lemma quiet_connect: "obeys quiet (connect s host)"
  by (rule obeys_connect) (auto simp: quiet_def)

lemma quiet_close [intro!]: "obeys quiet (closeSession host)" "obeys quiet (closeClient host)"
  by (auto simp: closeSession_def closeClient_def quiet_def)

lemma quiet_Connect [intro!]: "obeys quiet (Connect s host)"
  unfolding Connect_def by (auto intro!: quiet_connect simp: quiet_def split: sum.splits)

lemma quiet_isLocalHost [intro!]: "obeys quiet (isLocalHost host)"
  by (auto simp: isLocalHost_def obeys_def quiet_def)

text \<open>One command was started, or none and the run failed.\<close>

definition one :: "string \<Rightarrow> unit res \<Rightarrow> action list \<Rightarrow> bool" where
  "one cmd r as \<longleftrightarrow> commandsStarted as = [cmd] \<or> commandsStarted as = [] \<and> isl r"

lemma traces_then_quiet:
  assumes "obeys quiet m" "traces (one cmd) k"
  shows "traces (one cmd) (thenE m k)"
  by (rule traces_thenE [OF traces_obeys [OF assms(1)] assms(2)]) (auto simp: one_def quietE)

lemma traces_start:
  assumes "commandStarted a = [cmd]" "obeys quiet k"
  shows "traces (one cmd) (thenE (mapErr f (perform a)) k)"
proof -
  have "traces (\<lambda>r as. as = [a]) (mapErr f (perform a))"
    by (rule traces_mapErr [OF traces_perform [of "\<lambda>r as. as = [a]"]]) auto
  thus ?thesis
    by (rule traces_thenE [OF _ traces_obeys [OF assms(2)]]) (auto simp: one_def quietE assms(1))
qed

lemma traces_finally_quiet: "traces (one cmd) m \<Longrightarrow> obeys quiet c \<Longrightarrow> traces (one cmd) (finallyE m c)"
  by (rule traces_finallyE [where Q = "one cmd" and P = quiet]) (auto simp: one_def quietE)

lemma exec_one: "traces (one cmd) (execLocal host cmd)" "traces (one cmd) (execRemote s host cmd)"
  unfolding execLocal_def execRemote_def
  by (intro traces_then_quiet traces_start traces_finally_quiet quiet_close obeys_mapErr obeys_perform quiet_Connect;
      simp add: quiet_def)+

lemma forE_one:
  assumes "\<And>x. x \<in> set xs \<Longrightarrow> traces (one (g x)) (f x)"
  shows "traces (\<lambda>r as. prefix (commandsStarted as) (map g xs) \<and> (r = Inr () \<longrightarrow> commandsStarted as = map g xs)) (forE xs f)"
  using assms
proof (induction xs)
  case Nil
  show ?case
    by (auto intro!: traces_return)
next
  case (Cons x xs)
  have IH: "traces (\<lambda>r as. prefix (commandsStarted as) (map g xs) \<and> (r = Inr () \<longrightarrow> commandsStarted as = map g xs)) (forE xs f)"
    using Cons by simp
  have x: "traces (one (g x)) (f x)"
    using Cons.prems by simp
  show ?case
    unfolding forE.simps by (rule traces_thenE [OF x IH]) (auto simp: one_def)
qed

lemma forE_skip: "forE xs (\<lambda>x. if P x then returnE () else f x) = forE (filter (Not \<circ> P) xs) f"
  by (induction xs) auto




section \<open>Transfers that fail\<close>

definition transfers :: "action \<Rightarrow> bool" where
  "transfers a = (case a of SshCall h f args \<Rightarrow> f \<in> {''sftp.Create'', ''sftp.Chmod'', ''sftp.Write''} | _ \<Rightarrow> False)"

lemma obeys_recordE [intro!]: "P a \<Longrightarrow> obeys P (recordE a)"
  by (auto simp: obeys_def recordE_def)

lemma obeys_runCapture [intro!]: "P a \<Longrightarrow> obeys P (runCapture a)"
  by (auto simp: obeys_def runCapture_def)

lemma obeys_onClient [intro!]: "(c \<Longrightarrow> obeys P m) \<Longrightarrow> obeys P (onClient c m)"
  by (auto simp: onClient_def)

lemma obeys_isLocalHost: "P (LocalCall ''net.IsLocalIP'' [ip_String host]) \<Longrightarrow> obeys P (isLocalHost host)"
  by (auto simp: isLocalHost_def obeys_def)

lemma obeys_world_case: "(\<And>w. \<exists>m. f w = m w \<and> obeys P m) \<Longrightarrow> obeys P f"
  unfolding obeys_def by metis

lemma obeys_NewSudoSftpClient:
  assumes "\<And>f args. f \<notin> {''sftp.Create'', ''sftp.Chmod'', ''sftp.Write''} \<Longrightarrow> P (SshCall host f args)"
  shows "obeys P (NewSudoSftpClient host)"
  unfolding NewSudoSftpClient_def Let_def closeSession_def
  by (intro obeys_thenE obeys_finallyE obeys_bindE obeys_mapErr obeys_askText obeys_perform obeys_tryE obeys_askFlag
      obeys_throw obeys_if assms; simp)

lemma obeys_sftpConnect:
  assumes "obeys P (connect s host)" "\<And>f args. f \<notin> {''sftp.Create'', ''sftp.Chmod'', ''sftp.Write''} \<Longrightarrow> P (SshCall host f args)"
    and "\<And>c. P (setClient (ip_String host) c)"
  shows "obeys P (sftpConnect s host)"
proof (rule obeys_world_case)
  fix w
  have new: "obeys P (thenE (connect s host)
         (bindE (tryE (if s_User s \<noteq> ROOT then NewSudoSftpClient host else perform (SshCall host ''sftp.NewClient'' []))) (\<lambda>r.
            thenE (recordE (setClient (ip_String host) (\<not> isl r)))
              (case r of Inl e \<Rightarrow> throwE e | Inr _ \<Rightarrow> returnE True))))"
    by (intro obeys_thenE obeys_bindE obeys_tryE obeys_if obeys_NewSudoSftpClient obeys_perform obeys_recordE obeys_case_sum
        obeys_throw obeys_return assms; simp)
  show "\<exists>m. sftpConnect s host w = m w \<and> obeys P m"
  proof (cases "sshClientMap (w_log w) (ip_String host)")
    case None
    thus ?thesis
      using new by (auto simp: sftpConnect_def)
  next
    case (Some c)
    thus ?thesis
      by (intro exI [of _ "returnE c"] conjI obeys_return) (simp add: sftpConnect_def returnE_def)
  qed
qed

lemma grows_sftpConnect [intro!]: "grows (sftpConnect s host)"
  by (intro obeys_sftpConnect obeys_connect) auto

lemma grows_fileCopy: "grows (fs_CopyFile a b)" "grows (fs_CopyDir_go n a b)"
proof -
  show fileC: "grows (fs_CopyFile a b)" for a b
    unfolding fs_CopyFile_def by auto
  show "grows (fs_CopyDir_go n a b)"
    by (induction n arbitrary: a b) (auto simp: fs_MkdirAll_def Let_def intro!: fileC)
qed

lemma grows_RecursionCopy [intro!]: "grows (RecursionCopy a b)"
  unfolding RecursionCopy_def os_IsDir_def os_StatIsDir_def fs_CopyDir_def fs_MkdirAll_def
  by (auto intro!: grows_fileCopy)

lemma grows_Connect: "grows (Connect s host)"
  using quiet_Connect by (rule obeys_mono) simp

lemma grows_copyFile: "grows (copyLocalFileToRemote s host c a b)"
proof -
  have cmd: "grows (Cmd s host e cmd)" for e cmd
    unfolding Cmd_def Let_def closeSession_def closeClient_def by (auto intro!: obeys_isLocalHost grows_Connect split: sum.splits)
  have "grows (remoteMd5Sum s host p)" for p
    unfolding remoteMd5Sum_def CmdToString_def by (auto intro!: cmd)
  thus ?thesis
    unfolding copyLocalFileToRemote_def localMd5Sum_def ssh_IsFileExist_def sftpDo_def by (auto split: sum.splits)
qed

lemma grows_copyDir: "grows (copyLocalDirToRemote n s host c a b)"
  by (induction n arbitrary: a b) (auto simp: sftpDo_def Let_def intro!: grows_copyFile)

text \<open>Once a transfer has begun the copy does not fail.\<close>

definition silent :: "unit res \<Rightarrow> action list \<Rightarrow> bool" where
  "silent r as \<longleftrightarrow> ((\<exists>a \<in> set as. transfers a) \<longrightarrow> r = Inr () \<or> (\<exists>p. r = Inl (Panic p)))"

lemma traces_silent_bind:
  assumes "obeys (Not \<circ> transfers) m" "\<And>x. traces silent (f x)"
  shows "traces silent (bindE m f)"
  by (rule traces_bindE [OF traces_obeys [OF assms(1)] assms(2)]) (auto simp: silent_def list_all_iff)

lemma traces_silent_quiet: "obeys (Not \<circ> transfers) m \<Longrightarrow> traces silent m"
  by (rule traces_mono [OF traces_obeys]) (auto simp: silent_def list_all_iff)

lemma traces_if: "(b \<Longrightarrow> traces Q m) \<Longrightarrow> (\<not> b \<Longrightarrow> traces Q n) \<Longrightarrow> traces Q (if b then m else n)"
  by simp

lemma silent_return: "traces silent (returnE x)"
  by (rule traces_return) (simp add: silent_def)

lemma silent_copyDir: "traces silent (copyLocalDirToRemote n s host c a b)"
proof (cases n)
  case (Suc m)
  have "grows (copyLocalDirToRemote m s host c a b)" for a b
    by (rule grows_copyDir)
  hence "traces (\<lambda>r as. r = Inr () \<or> (\<exists>p. r = Inl (Panic p))) (copyLocalDirToRemote n s host c a b)"
    unfolding Suc copyLocalDirToRemote.simps by (intro traces_ignoreE) (auto simp: sftpDo_def Let_def intro!: grows_copyFile)
  thus ?thesis
    by (rule traces_mono) (auto simp: silent_def)
qed (auto intro!: traces_return simp: silent_def)

lemma silent_copyFile: "traces silent (ignoreE (copyLocalFileToRemote s host c a b))"
  by (rule traces_mono [OF traces_ignoreE [OF grows_copyFile]]) (auto simp: silent_def)

lemma not_transfers [simp]:
  "\<not> transfers (LocalCall f args)" "\<not> transfers (StatPath p)" "\<not> transfers (WalkTree p)" "\<not> transfers (ReadDir p)"
  "f \<notin> {''sftp.Create'', ''sftp.Chmod'', ''sftp.Write''} \<Longrightarrow> \<not> transfers (SshCall h f args)"
  by (auto simp: transfers_def)

lemma obeys_CountDirFiles: "P (WalkTree p) \<Longrightarrow> obeys P (CountDirFiles p)"
  by (auto simp: obeys_def CountDirFiles_def askWalk_def split: option.splits)

lemma silent_Copy: "traces silent (ssh_Copy s host a b)"
proof -
  have local: "obeys (Not \<circ> transfers) (RecursionCopy a b)"
  proof -
    have fileC: "obeys (Not \<circ> transfers) (fs_CopyFile x y)" for x y
      unfolding fs_CopyFile_def by auto
    have "obeys (Not \<circ> transfers) (fs_CopyDir_go n x y)" for n x y
      by (induction n arbitrary: x y) (auto simp: fs_MkdirAll_def Let_def intro!: fileC)
    thus ?thesis
      unfolding RecursionCopy_def os_IsDir_def os_StatIsDir_def fs_CopyDir_def fs_MkdirAll_def by (auto intro!: fileC)
  qed
  have conn: "obeys (Not \<circ> transfers) (sftpConnect s host)"
    by (intro obeys_sftpConnect obeys_connect) (auto simp: setClient_def)
  show ?thesis
    unfolding ssh_Copy_def thenE_def sftpDo_def os_StatIsDir_def
    by (intro traces_silent_bind traces_if silent_copyDir silent_copyFile silent_return traces_silent_quiet [OF local]
          obeys_mapErr obeys_tryE obeys_onClient obeys_perform obeys_askFlag obeys_whenE obeys_if obeys_return conn
          obeys_CountDirFiles obeys_isLocalHost) simp_all
qed

text \<open>
  C20. A failed transfer is not reported: once a copy to a host has created or written a remote file it returns
  no error, although a file could not be written or its checksum differs from the local one.
\<close>

theorem failed_transfer_reported_as_success:
  assumes "ssh_Copy s host a b w = (r, w')" "w_log w' = w_log w @ as" "x \<in> set as" "transfers x"
  shows "r = Inr () \<or> (\<exists>p. r = Inl (Panic p))"
  using tracesD [OF silent_Copy, of s host a b w] assms by (auto simp: silent_def)


definition badSum :: world where
  "badSum = calmWorld\<lparr>w_text := \<lambda>l a. if a = LocalCall ''md5'' [''/root/a''] then ''0123'' else ''4567''\<rparr>"

theorem failed_transfer_reported_as_success_witness:
  "\<exists>r w' as. ssh_Copy (NewSSHClient emptySSH) [10, 0, 0, 1] ''/root/a'' ''/root/b'' badSum = (r, w') \<and> w_log w' = as
    \<and> (r = Inr () \<or> (\<exists>p. r = Inl (Panic p)))
    \<and> fst (copyLocalFileToRemote (NewSSHClient emptySSH) [10, 0, 0, 1] True ''/root/a'' ''/root/b'' badSum)
      = Inl (Errorf ''[ssh][%s] failed to validate md5sum: (%s != %s)'' [''10.0.0.1'', ''0123'', ''4567''])"
proof -
  let ?c = "ssh_Copy (NewSSHClient emptySSH) [10, 0, 0, 1] ''/root/a'' ''/root/b'' badSum"
  have t: "list_ex (\<lambda>a. a = SshCall [10, 0, 0, 1] ''sftp.Write'' [''/root/b'', ''/root/a'']) (w_log (snd ?c))"
    by code_simp
  have e: "fst (copyLocalFileToRemote (NewSSHClient emptySSH) [10, 0, 0, 1] True ''/root/a'' ''/root/b'' badSum)
      = Inl (Errorf ''[ssh][%s] failed to validate md5sum: (%s != %s)'' [''10.0.0.1'', ''0123'', ''4567''])"
    by code_simp
  have l: "w_log badSum = []"
    by (simp add: badSum_def calmWorld_def)
  have "fst ?c = Inr () \<or> (\<exists>p. fst ?c = Inl (Panic p))"
    by (rule failed_transfer_reported_as_success [where as = "w_log (snd ?c)" and x = "SshCall [10, 0, 0, 1] ''sftp.Write'' [''/root/b'', ''/root/a'']", OF prod.collapse [symmetric]])
      (use t l in \<open>simp_all add: list_ex_iff transfers_def\<close>)
  thus ?thesis
    using e by (metis prod.collapse)
qed

section \<open>Clients that were not created\<close>

lemma sshClientMap_snoc [simp]: "sshClientMap (l @ [setClient h c]) h = Some c"
proof (induction l)
  case Nil
  show ?case
    by (cases c) (simp_all add: setClient_def)
next
  case (Cons a l)
  thus ?case
    by simp
qed

text \<open>
  When the connection to a host succeeds and the sftp client cannot be created, the nil client is kept for the
  host: the next use of it does not try again, it panics.
\<close>

theorem missing_sftp_client_is_kept:
  assumes "sftpConnect s host w = (Inl e, w')" "fst (connect s host w) = Inr ()" "\<And>p. e \<noteq> Panic p"
  shows "sftpConnect s' host w' = (Inr False, w') \<and> (\<exists>p. fst (ssh_IsFileExist s' host path w') = Inl (Panic p))"
proof -
  let ?new = "if s_User s \<noteq> ROOT then NewSudoSftpClient host else perform (SshCall host ''sftp.NewClient'' [])"
  obtain w1 where w1: "connect s host w = (Inr (), w1)"
    using assms(2) by (cases "connect s host w") auto
  obtain r w2 where r: "?new w1 = (r, w2)"
    by (cases "?new w1")
  have "sshClientMap (w_log w) (ip_String host) = None"
    using assms(1) by (auto simp: sftpConnect_def split: option.splits)
  hence run: "(Inl e, w') = bindE (tryE ?new) (\<lambda>r. thenE (recordE (setClient (ip_String host) (\<not> isl r)))
              (case r of Inl e \<Rightarrow> throwE e | Inr _ \<Rightarrow> returnE True)) w1"
    using assms(1) w1 by (simp add: sftpConnect_def thenE_def bindE_def)
  have "w' = w2\<lparr>w_log := w_log w2 @ [setClient (ip_String host) False]\<rparr>"
  proof (cases r)
    case (Inl e')
    thus ?thesis
      using run r assms(3) by (cases e') (auto simp: bindE_def tryE_def thenE_def recordE_def throwE_def)
  next
    case (Inr x)
    thus ?thesis
      using run r by (auto simp: bindE_def tryE_def thenE_def recordE_def returnE_def)
  qed
  hence c: "sftpConnect s' host w' = (Inr False, w')"
    by (simp add: sftpConnect_def)
  thus ?thesis
    by (simp add: ssh_IsFileExist_def sftpDo_def onClient_def bindE_def mapErr_def tryE_def throwE_def)
qed

definition noSftp :: world where
  "noSftp = calmWorld\<lparr>w_err := \<lambda>l a. if a = SshCall [10, 0, 0, 1] ''sftp.NewClient'' [] then Some (Errorf ''EOF'' []) else None\<rparr>"

theorem missing_sftp_client_is_kept_witness:
  "\<exists>e w'. sftpConnect (NewSSHClient emptySSH) [10, 0, 0, 1] noSftp = (Inl e, w')
    \<and> (\<exists>p. fst (ssh_IsFileExist (NewSSHClient emptySSH) [10, 0, 0, 1] ''/etc/hosts'' w') = Inl (Panic p))"
proof -
  let ?s = "NewSSHClient emptySSH"
  have f: "fst (sftpConnect ?s [10, 0, 0, 1] noSftp) = Inl (Errorf ''EOF'' [])"
    by code_simp
  have c: "fst (connect ?s [10, 0, 0, 1] noSftp) = Inr ()"
    by code_simp
  obtain w' where w': "sftpConnect ?s [10, 0, 0, 1] noSftp = (Inl (Errorf ''EOF'' []), w')"
    using f by (metis prod.collapse)
  show ?thesis
    using missing_sftp_client_is_kept [OF w' c] w' by blast
qed

section \<open>Passwords\<close>

lemma connectSettings_again: "connectSettings s = Inr s' \<Longrightarrow> connectSettings s' = Inr s'"
  by (auto simp: connectSettings_def bindR_Inr_iff DefaultSSHPort_def split: if_splits)

text \<open>
  C19. An encrypted password works as the plain one does: every password can be encrypted, and a client that
  has the result with the mark of encryption connects as the client that has the password itself.
\<close>

theorem encrypted_password_connects:
  "\<exists>c. AesEncrypt p = Inr c \<and> connect (s\<lparr>s_Encrypted := True, s_Passwd := c\<rparr>) host = connect (s\<lparr>s_Encrypted := False, s_Passwd := p\<rparr>) host"
proof -
  obtain c where c: "AesEncrypt p = Inr c" "AesDecrypt c = Inr p"
    using aes_roundtrip by blast
  hence "connectSettings (s\<lparr>s_Encrypted := True, s_Passwd := c\<rparr>) = connectSettings (s\<lparr>s_Encrypted := False, s_Passwd := p\<rparr>)"
    by (simp add: connectSettings_def)
  thus ?thesis
    using c(1) by (auto simp: connect_def)
qed

text \<open>
  A password with the mark of encryption that is not the result of encryption ends the program: when it decodes to
  more than a block but not to full blocks, connecting panics instead of returning an error.
\<close>

theorem bad_encrypted_password_panics:
  assumes "s_Encrypted s" "base64decode (s_Passwd s) = Inr b" "16 \<le> length b" "length b mod 16 \<noteq> 0"
  shows "connect s host w = (Inl (Panic ''crypto/cipher: input not full blocks''), w)"
proof -
  obtain kt where kt: "base64decode aesKey = Inr kt" "length kt = 32"
    using aesKey_decoded by (auto split: sum.splits)
  obtain ks where "aes_NewCipher (map byteOf kt) = Inr ks"
    using aes_NewCipher_ok [of "map byteOf kt"] kt(2) by auto
  hence "AesDecrypt (s_Passwd s) = Inl (Panic ''crypto/cipher: input not full blocks'')"
    using assms kt by (simp add: AesDecrypt_def mapErrR_def CryptBlocks_def)
  thus ?thesis
    using assms(1) by (simp add: connect_def connectSettings_def liftR_def bindE_def)
qed

theorem bad_encrypted_password_panics_witness:
  "connect (emptySSH\<lparr>s_Encrypted := True, s_Passwd := ''c2VhbGVyc2VhbGVyc2VhbGVy''\<rparr>) [10, 0, 0, 1] calmWorld
    = (Inl (Panic ''crypto/cipher: input not full blocks''), calmWorld)"
proof -
  have "base64decode ''c2VhbGVyc2VhbGVyc2VhbGVy'' = Inr ''sealersealersealer''"
    by code_simp
  thus ?thesis
    by (intro bad_encrypted_password_panics [where b = "''sealersealersealer''"]) (simp_all add: emptySSH_def)
qed

section \<open>Line ends\<close>

lemma split_go_char: "strings_Join (split_go [c] acc s) t = rev acc @ concat (map (\<lambda>x. if x = c then t else [x]) s)"
proof (induction s arbitrary: acc)
  case (Cons x s)
  show ?case
  proof (cases "x = c")
    case True
    obtain y ys where "split_go [c] [] s = y # ys"
      by (cases "split_go [c] [] s") auto
    thus ?thesis
      using Cons [of "[]"] True by simp
  next
    case False
    thus ?thesis
      using Cons [of "x # acc"] by simp
  qed
qed simp

lemma ReplaceAll_char: "strings_ReplaceAll s [c] t = concat (map (\<lambda>x. if x = c then t else [x]) s)"
  by (simp add: strings_ReplaceAll_def strings_Split_def split_go_char)

lemma split_go_same: "sep \<noteq> [] \<Longrightarrow> strings_Join (split_go sep acc s) sep = rev acc @ s"
proof (induction sep acc s rule: split_go.induct)
  case (2 sep acc c cs)
  show ?case
  proof (cases "prefix sep (c # cs)")
    case True
    then obtain r where r: "c # cs = sep @ r"
      by (auto simp: prefix_def)
    hence d: "drop (length sep - 1) cs = r"
      using 2(3) by (metis drop_Cons' append_eq_conv_conj length_greater_0_conv less_numeral_extra(3))
    obtain y ys where y: "split_go sep [] r = y # ys"
      by (cases "split_go sep [] r") auto
    have "strings_Join (split_go sep acc (c # cs)) sep = rev acc @ sep @ r"
      using 2 True d y by simp
    thus ?thesis
      by (simp only: r)
  next
    case False
    thus ?thesis
      using 2 by simp
  qed
qed simp

lemma ReplaceAll_same: "sep \<noteq> [] \<Longrightarrow> strings_ReplaceAll s sep sep = s"
  by (simp add: strings_ReplaceAll_def strings_Split_def split_go_same)

definition lineEnd :: "char \<Rightarrow> string" where
  "lineEnd x = (if x = CHR 0x0D then [CHR 0x0D, CHR 0x0D, CHR 0x0A] else if x = CHR 0x0A then [CHR 0x0D, CHR 0x0A] else [x])"

lemma replaceLineEnds_CRLF: "replaceLineEnds s (CR @ LF) = concat (map lineEnd s)"
proof -
  have "replaceLineEnds s (CR @ LF) = strings_ReplaceAll (strings_ReplaceAll s CR (CR @ LF)) LF (CR @ LF)"
    using ReplaceAll_same [of "CR @ LF"] by (simp add: replaceLineEnds_def CR_def)
  also have "\<dots> = concat (map lineEnd s)"
    unfolding CR_def LF_def ReplaceAll_char by (induction s) (simp_all add: lineEnd_def)
  finally show ?thesis .
qed

lemma lineEnd_plain: "CHR 0x0D \<notin> set s \<Longrightarrow> CHR 0x0A \<notin> set s \<Longrightarrow> concat (map lineEnd s) = s"
  by (induction s) (auto simp: lineEnd_def)


lemma split_go_pass: "c \<notin> set s \<Longrightarrow> split_go [c, d] acc (s @ t) = split_go [c, d] (rev s @ acc) t"
  by (induction s arbitrary: acc) auto

lemma certKey_text:
  assumes "CHR 0x0D \<notin> set key" "CHR 0x0A \<notin> set key"
  shows "strings_ReplaceAll ([CHR 0x0D, CHR 0x0A] @ key @ [CHR 0x0D, CHR 0x0A]) [CHR 0x0D, CHR 0x0A] [] = key"
    and "strings_ReplaceAll ([CHR 0x0D, CHR 0x0D, CHR 0x0A, CHR 0x0D, CHR 0x0A] @ key @ [CHR 0x0D, CHR 0x0D, CHR 0x0A, CHR 0x0D, CHR 0x0A]) [CHR 0x0D, CHR 0x0A] []
      = CHR 0x0D # key @ [CHR 0x0D]"
  using assms by (simp_all add: strings_ReplaceAll_def strings_Split_def split_go_pass)

lemma ReplaceAll_absent: "c \<notin> set s \<Longrightarrow> strings_ReplaceAll s [c] t = s"
  unfolding ReplaceAll_char by (induction s) auto

text \<open>
  The certificate key of a remote first master keeps carriage returns: the client asks for a terminal, which ends
  lines with a carriage return and a line feed, and the two are replaced one after the other. When
  kubeadm runs on the local host, where lines end with a line feed, the key is what it prints.
\<close>

theorem certificate_key_of_remote_master:
  assumes member: "sshConfigs (kr_infra k) (ip_String m) \<noteq> None" and calm: "calm w"
    and cmd: "cmd = fmt_Sprintf ''kubeadm init phase upload-certs --upload-certs -v %d'' [itoa (kr_Vlog k)]"
    and eol: "eol = LF \<or> eol = CR @ LF"
    and answer: "w_text w (w_log w) (CmdToStringOn m [] cmd (CR @ LF))
      = replaceLineEnds (pre @ ''Using certificate key:'' @ eol @ key @ eol) (CR @ LF)"
    and pre: "\<not> strings_Contains (replaceLineEnds pre (CR @ LF) @ butlast ''Using certificate key:'') ''Using certificate key:''"
    and key: "key \<noteq> []" "CHR 0x0D \<notin> set key" "CHR 0x0A \<notin> set key" "CHR '' '' \<notin> set key"
    and token: "\<And>l c. decodeMaster0Output (w_text w l (CmdOn m [] c)) = Inr (token, key2)"
  shows "fst (getJoinTokenHashAndKey k m w) = Inr (token, if eol = LF then key else CR @ key @ CR)"
proof -
  let ?sep = "''Using certificate key:''"
  define ends where "ends = concat (map lineEnd eol)"
  have ends: "ends = (if eol = LF then [CHR 0x0D, CHR 0x0A] else [CHR 0x0D, CHR 0x0D, CHR 0x0A, CHR 0x0D, CHR 0x0A])"
    using eol by (auto simp: ends_def lineEnd_def CR_def LF_def)
  have sep: "concat (map lineEnd ?sep) = ?sep"
    by (rule lineEnd_plain) simp_all
  have out: "replaceLineEnds (pre @ ?sep @ eol @ key @ eol) (CR @ LF) = replaceLineEnds pre (CR @ LF) @ ?sep @ ends @ key @ ends"
    unfolding replaceLineEnds_CRLF map_append concat_append sep lineEnd_plain [OF key(2,3)] ends_def by (rule refl)
  have "\<not> strings_Contains (ends @ key @ ends) ?sep"
  proof
    assume "strings_Contains (ends @ key @ ends) ?sep"
    hence "set ?sep \<subseteq> set (ends @ key @ ends)"
      unfolding strings_Contains_sublist by (rule set_mono_sublist)
    thus False
      using key(4) ends by (auto split: if_splits)
  qed
  hence split: "strings_Split (replaceLineEnds (pre @ ?sep @ eol @ key @ eol) (CR @ LF)) ?sep = [replaceLineEnds pre (CR @ LF), ends @ key @ ends]"
    unfolding out using strings_Split_first [OF _ pre] strings_Split_none by simp
  have k: "strings_ReplaceAll (strings_ReplaceAll (ends @ key @ ends) [CHR 0x0D, CHR 0x0A] []) [CHR 0x0A] [] = (if eol = LF then key else CR @ key @ CR)"
    using key certKey_text [OF key(2,3)] by (simp add: ends ReplaceAll_absent CR_def)
  have e: "w_err w l a = None" for l a
    using calm by (simp add: calm_def)
  show ?thesis
    using member answer split k key(1) token e
    by (auto simp: getJoinTokenHashAndKey_def drv_CmdToString_def drv_Cmd_def withClient_def askText_def bindE_def mapErr_def
        liftR_def returnE_def Let_def cmd CR_def LF_def)
qed

definition ptyAnswers :: "action \<Rightarrow> string" where
  "ptyAnswers a = (case a of CmdToStringOn m e c sep \<Rightarrow> replaceLineEnds (''Using certificate key:'' @ (CR @ LF) @ ''beef'' @ (CR @ LF)) (CR @ LF)
     | _ \<Rightarrow> ''kubeadm join lb'')"

theorem certificate_key_of_remote_master_witness:
  "fst (getJoinTokenHashAndKey demoRuntime [10, 0, 0, 1] (calmWorld\<lparr>w_text := \<lambda>l. ptyAnswers\<rparr>)) = Inr (emptyToken, CR @ ''beef'' @ CR)"
proof -
  have infra: "kr_infra demoRuntime = demoDriver"
    by (simp add: demoRuntime_def newKubeadmRuntime_def)
  have t: "decodeMaster0Output ''kubeadm join lb'' = Inr (emptyToken, [])"
    by code_simp
  have p: "\<not> strings_Contains (replaceLineEnds [] (CR @ LF) @ butlast ''Using certificate key:'') ''Using certificate key:''"
    by code_simp
  have "fst (getJoinTokenHashAndKey demoRuntime [10, 0, 0, 1] (calmWorld\<lparr>w_text := \<lambda>l. ptyAnswers\<rparr>))
      = Inr (emptyToken, if CR @ LF = LF then ''beef'' else CR @ ''beef'' @ CR)"
    by (rule certificate_key_of_remote_master [OF _ _ refl disjI2 [OF refl] _ p])
      (simp_all add: infra demo_in_cluster calm_def calmWorld_def ptyAnswers_def t)
  thus ?thesis
    by (simp add: CR_def LF_def)
qed

end
