(* ===== verification/Cluster_Cert.thy ===== *)
theory Cluster_Cert
  imports Go_Cidr "HOL-Library.AList"
begin

text \<open>
  The certificates of a cluster (\<^verbatim>\<open>pkg/clustercert\<close> and \<^verbatim>\<open>pkg/clustercert/cert\<close>): three authorities with the
  certificates they sign, the key pair of the service accounts, the renewal of the certificate of the API
  server, and the kubeconfig files.

  Keys are symbolic: a private key and its public key are the same number, and a certificate names the key
  that signed it. The state is the disk with the key, clock and random sources of the process. The
  environment may refuse any operation: \<open>pk_err\<close> says so from the number of operations before it, its name and its path.
\<close>

section \<open>State\<close>

datatype ExtKeyUsage = ServerAuth | ClientAuth

type_synonym privateKey = nat

record x509 =
  x_CommonName :: string
  x_Organization :: "string list"
  x_DNSNames :: "string list"
  x_IPAddresses :: "net_ip list"
  x_SerialNumber :: int
  x_NotBefore :: int
  x_NotAfter :: int
  x_CertSign :: bool
  x_IsCA :: bool
  x_ExtKeyUsage :: "ExtKeyUsage list"
  x_Issuer :: string
  x_PublicKey :: privateKey
  x_SignedBy :: privateKey

record kubeCluster =
  kk_Server :: string
  kk_CA :: string

record kubeContext =
  kk_Cluster :: string
  kk_AuthInfo :: string

datatype kubeAuth = TokenInfo string | CertInfo privateKey x509

record KubeConfig =
  kk_Clusters :: "(string \<times> kubeCluster) list"
  kk_Contexts :: "(string \<times> kubeContext) list"
  kk_AuthInfos :: "(string \<times> kubeAuth) list"
  kk_CurrentContext :: string

datatype pkiFile = CertFile "x509 list" | KeyFile privateKey | PubFile privateKey | ConfFile KubeConfig | OtherFile string

record pki =
  pk_files :: "string \<Rightarrow> pkiFile option"
  pk_keys :: nat
  pk_clock :: "nat \<Rightarrow> int"
  pk_serial :: "nat \<Rightarrow> int"
  pk_pem :: "x509 \<Rightarrow> string"
  pk_err :: "nat \<Rightarrow> string \<Rightarrow> string \<Rightarrow> gerror option"
  pk_steps :: nat

type_synonym 'a pkiM = "pki \<Rightarrow> 'a res \<times> pki"

definition returnP :: "'a \<Rightarrow> 'a pkiM" where
  "returnP x = (\<lambda>s. (Inr x, s))"

definition throwP :: "gerror \<Rightarrow> 'a pkiM" where
  "throwP e = (\<lambda>s. (Inl e, s))"

definition bindP :: "'a pkiM \<Rightarrow> ('a \<Rightarrow> 'b pkiM) \<Rightarrow> 'b pkiM" where
  "bindP m f = (\<lambda>s. case m s of (Inl e, s') \<Rightarrow> (Inl e, s') | (Inr x, s') \<Rightarrow> f x s')"

definition thenP :: "unit pkiM \<Rightarrow> 'b pkiM \<Rightarrow> 'b pkiM" where
  "thenP m k = bindP m (\<lambda>_. k)"

definition mapErrP :: "(gerror \<Rightarrow> gerror) \<Rightarrow> 'a pkiM \<Rightarrow> 'a pkiM" where
  "mapErrP f m = (\<lambda>s. case m s of (Inl e, s') \<Rightarrow> (Inl (f e), s') | (Inr x, s') \<Rightarrow> (Inr x, s'))"

fun forP :: "'a list \<Rightarrow> ('a \<Rightarrow> unit pkiM) \<Rightarrow> unit pkiM" where
  "forP [] f = returnP ()"
| "forP (x # xs) f = thenP (f x) (forP xs f)"

text \<open>An operation the environment may refuse.\<close>

definition attempt :: "string \<Rightarrow> string \<Rightarrow> unit pkiM" where
  "attempt op path = (\<lambda>s. (case pk_err s (pk_steps s) op path of Some e \<Rightarrow> Inl e | None \<Rightarrow> Inr (), s\<lparr>pk_steps := Suc (pk_steps s)\<rparr>))"

text \<open>\<^verbatim>\<open>os.IsNotExist\<close> of the error of \<^verbatim>\<open>os.Stat\<close>: any other error counts as a file that exists.\<close>

definition statNotExist :: "string \<Rightarrow> bool pkiM" where
  "statNotExist path = (\<lambda>s. (Inr (pk_err s (pk_steps s) ''os.Stat'' path = None \<and> pk_files s path = None), s\<lparr>pk_steps := Suc (pk_steps s)\<rparr>))"

definition writeFileP :: "string \<Rightarrow> pkiFile \<Rightarrow> unit pkiM" where
  "writeFileP path c = thenP (attempt ''WriteFile'' path) (\<lambda>s. (Inr (), s\<lparr>pk_files := (pk_files s)(path \<mapsto> c)\<rparr>))"

definition readFileP :: "string \<Rightarrow> pkiFile pkiM" where
  "readFileP path = thenP (attempt ''ReadFile'' path) (\<lambda>s. (case pk_files s path of
       None \<Rightarrow> Inl (Errorf ''open %s: no such file or directory'' [path]) | Some c \<Rightarrow> Inr c, s))"

definition time_Now :: "int pkiM" where
  "time_Now = (\<lambda>s. (Inr (pk_clock s (pk_steps s)), s\<lparr>pk_steps := Suc (pk_steps s)\<rparr>))"

section \<open>cert/generator.go and cert/readwriter.go\<close>

definition PathForCert :: "string \<Rightarrow> string \<Rightarrow> string" where
  "PathForCert pkiPath name = filepath_Join [pkiPath, name @ ''.crt'']"

definition PathForKey :: "string \<Rightarrow> string \<Rightarrow> string" where
  "PathForKey pkiPath name = filepath_Join [pkiPath, name @ ''.key'']"

definition PathForPublicKey :: "string \<Rightarrow> string \<Rightarrow> string" where
  "PathForPublicKey pkiPath name = filepath_Join [pkiPath, name @ ''.pub'']"

definition NewPrivateKey :: "privateKey pkiM" where
  "NewPrivateKey = thenP (attempt ''rsa.GenerateKey'' []) (\<lambda>s. (Inr (pk_keys s), s\<lparr>pk_keys := Suc (pk_keys s)\<rparr>))"

record AltNames =
  an_DNSNames :: "(string \<times> string) list"
  an_IPs :: "(string \<times> net_ip) list"

definition noNames :: AltNames where
  "noNames = \<lparr>an_DNSNames = [], an_IPs = []\<rparr>"

record CertificateDescriptor =
  ds_CommonName :: string
  ds_DNSNames :: "string list"
  ds_Organization :: "string list"
  ds_Year :: int
  ds_AltNames :: AltNames
  ds_Usages :: "ExtKeyUsage list"

text \<open>The duration of a year of 365 days, in nanoseconds; the product with a number of years is an \<^verbatim>\<open>int64\<close>.\<close>

definition duration365d :: int where
  "duration365d = 24 * 365 * 3600 * 1000000000"

definition addYears :: "int \<Rightarrow> int \<Rightarrow> int" where
  "addYears t years = t + ((duration365d * years + 2 ^ 63) mod 2 ^ 64 - 2 ^ 63)"

text \<open>
  \<^verbatim>\<open>x509.CreateCertificate\<close> followed by \<^verbatim>\<open>x509.ParseCertificate\<close>: a key that is not that of the parent is refused;
  the parent of an authority is its own template, which has no key yet.
\<close>

definition x509_CreateCertificate :: "x509 \<Rightarrow> x509 option \<Rightarrow> privateKey \<Rightarrow> privateKey \<Rightarrow> x509 pkiM" where
  "x509_CreateCertificate tmpl parent pub priv = thenP (attempt ''x509.CreateCertificate'' [])
     (case parent of
        None \<Rightarrow> returnP (tmpl\<lparr>x_Issuer := x_CommonName tmpl, x_PublicKey := pub, x_SignedBy := priv\<rparr>)
      | Some p \<Rightarrow> if x_PublicKey p \<noteq> priv
          then throwP (Errorf ''x509: provided PrivateKey doesn't match parent's PublicKey'' [])
          else returnP (tmpl\<lparr>x_Issuer := x_CommonName p, x_PublicKey := pub, x_SignedBy := priv\<rparr>))"

definition generateSelfSignedCACert :: "CertificateDescriptor \<Rightarrow> privateKey \<Rightarrow> x509 pkiM" where
  "generateSelfSignedCACert d key = bindP time_Now (\<lambda>now.
     x509_CreateCertificate \<lparr>x_CommonName = ds_CommonName d, x_Organization = ds_Organization d, x_DNSNames = ds_DNSNames d,
       x_IPAddresses = [], x_SerialNumber = 0, x_NotBefore = now, x_NotAfter = addYears now (ds_Year d), x_CertSign = True,
       x_IsCA = True, x_ExtKeyUsage = [], x_Issuer = [], x_PublicKey = 0, x_SignedBy = 0\<rparr> None key key)"

definition authority_Generate :: "CertificateDescriptor \<Rightarrow> (x509 \<times> privateKey) pkiM" where
  "authority_Generate d =
     bindP (mapErrP (Wrapf ''unable to create private key while generating CA certificate: %v'' []) NewPrivateKey) (\<lambda>key.
     bindP (mapErrP (Wrapf ''unable to generate cert %v'' []) (generateSelfSignedCACert d key)) (\<lambda>cert.
     returnP (cert, key)))"

definition generateSignedCert :: "CertificateDescriptor \<Rightarrow> x509 \<Rightarrow> privateKey \<Rightarrow> privateKey \<Rightarrow> x509 pkiM" where
  "generateSignedCert d caCert caKey key =
     bindP (thenP (attempt ''rand.Int'' []) (\<lambda>s. (Inr (pk_serial s (pk_steps s)), s))) (\<lambda>serial.
     bindP time_Now (\<lambda>now.
     x509_CreateCertificate \<lparr>x_CommonName = ds_CommonName d, x_Organization = ds_Organization d,
       x_DNSNames = map snd (an_DNSNames (ds_AltNames d)), x_IPAddresses = map snd (an_IPs (ds_AltNames d)),
       x_SerialNumber = serial, x_NotBefore = x_NotBefore caCert, x_NotAfter = addYears now (ds_Year d), x_CertSign = False,
       x_IsCA = False, x_ExtKeyUsage = ds_Usages d, x_Issuer = [], x_PublicKey = 0, x_SignedBy = 0\<rparr> (Some caCert) key caKey))"

definition common_Generate :: "CertificateDescriptor \<Rightarrow> x509 \<Rightarrow> privateKey \<Rightarrow> (x509 \<times> privateKey) pkiM" where
  "common_Generate d caCert caKey =
     bindP (mapErrP (Wrapf ''unable to create private key while generating common certificate: %v'' []) NewPrivateKey) (\<lambda>key.
     bindP (mapErrP (Wrapf ''failed to generate signed cert: %v'' []) (generateSignedCert d caCert caKey key)) (\<lambda>cert.
     returnP (cert, key)))"

definition NewCommonCertificateGenerator :: "CertificateDescriptor \<Rightarrow> unit res" where
  "NewCommonCertificateGenerator d =
     (if ds_CommonName d = [] then Inl (Errorf ''must specify a CommonName for cert'' [])
      else if ds_Usages d = [] then Inl (Errorf ''must specify at least one ExtKeyUsage'' []) else Inr ())"

definition liftP :: "'a res \<Rightarrow> 'a pkiM" where
  "liftP r = (\<lambda>s. (r, s))"

definition writeCert :: "string \<Rightarrow> string \<Rightarrow> x509 \<Rightarrow> unit pkiM" where
  "writeCert certPath certName cert = (let certificatePath = PathForCert certPath certName in
     mapErrP (Wrapf ''unable to write certificate to file %s %v'' [certificatePath]) (writeFileP certificatePath (CertFile [cert])))"

definition writeKey :: "string \<Rightarrow> string \<Rightarrow> privateKey \<Rightarrow> unit pkiM" where
  "writeKey certPath certName key = (let privateKeyPath = PathForKey certPath certName in
     thenP (mapErrP (Wrapf ''unable to marshal private key to PEM %v'' []) (attempt ''MarshalPrivateKeyToPEM'' []))
       (mapErrP (Wrapf ''unable to write private key to file %s %v'' [privateKeyPath]) (writeFileP privateKeyPath (KeyFile key))))"

definition cfm_Write :: "string \<Rightarrow> string \<Rightarrow> x509 \<Rightarrow> privateKey \<Rightarrow> unit pkiM" where
  "cfm_Write certPath certName cert key = thenP (writeCert certPath certName cert) (writeKey certPath certName key)"

definition readKey :: "string \<Rightarrow> string \<Rightarrow> privateKey pkiM" where
  "readKey certPath certName =
     bindP (mapErrP (Wrapf ''couldn't load the private key file (%s): %v'' [''<nil>'']) (readFileP (PathForKey certPath certName))) (\<lambda>c.
       case c of KeyFile k \<Rightarrow> returnP k
       | _ \<Rightarrow> throwP (Wrapf ''couldn't load the private key file (%s): %v'' [''<nil>''] (Errorf ''error reading private key file'' [])))"

definition readCert :: "string \<Rightarrow> string \<Rightarrow> x509 pkiM" where
  "readCert certPath certName = bindP (readFileP (PathForCert certPath certName)) (\<lambda>c.
     case c of CertFile (x # xs) \<Rightarrow> returnP x | _ \<Rightarrow> throwP (Errorf ''error reading %s'' [PathForCert certPath certName]))"

definition cfm_Read :: "string \<Rightarrow> string \<Rightarrow> (x509 \<times> privateKey) pkiM" where
  "cfm_Read certPath certName = bindP (readKey certPath certName) (\<lambda>key.
     bindP (readCert certPath certName) (\<lambda>cert. returnP (cert, key)))"

text \<open>The key pair of the service accounts; the test looks for \<^verbatim>\<open>sa.key\<close> whatever the name.\<close>

definition keyPair_GenerateAll :: "string \<Rightarrow> string \<Rightarrow> unit pkiM" where
  "keyPair_GenerateAll path name = bindP (statNotExist (filepath_Join [path, ''sa.key''])) (\<lambda>absent.
     if \<not> absent then returnP () else
     bindP NewPrivateKey (\<lambda>key.
     thenP (thenP (mapErrP (Wrapf ''unable to marshal private key to PEM :%v'' []) (attempt ''MarshalPrivateKeyToPEM'' []))
       (mapErrP (Wrapf ''unable to write private key to file %s :%v'' [PathForKey path name]) (writeFileP (PathForKey path name) (KeyFile key))))
     (thenP (attempt ''x509.MarshalPKIXPublicKey'' [])
       (mapErrP (Wrapf ''unable to write public key to file %s %v'' [PathForPublicKey path name])
         (writeFileP (PathForPublicKey path name) (PubFile key))))))"

section \<open>kube\_certs.go\<close>

record CertificateConfig =
  cc_certPath :: string
  cc_certName :: string
  cc_descriptor :: CertificateDescriptor

record CertificateConfigFamily =
  cf_certPath :: string
  cf_caConfig :: CertificateConfig
  cf_commonConfig :: "CertificateConfig list"

definition generateAuthorityCertificate :: "CertificateConfigFamily \<Rightarrow> (x509 \<times> privateKey) pkiM" where
  "generateAuthorityCertificate c = (let name = cc_certName (cf_caConfig c) in
     bindP (mapErrP (Wrapf ''unable to generate %s cert: %v'' [name]) (authority_Generate (cc_descriptor (cf_caConfig c)))) (\<lambda>(caCert, caKey).
     thenP (mapErrP (Wrapf ''unable to save %s cert: %v'' [name]) (cfm_Write (cf_certPath c) name caCert caKey))
       (returnP (caCert, caKey))))"

definition loadAuthorityCertificate :: "string \<Rightarrow> string \<Rightarrow> (x509 \<times> privateKey) pkiM" where
  "loadAuthorityCertificate certPath certName =
     mapErrP (Wrapf ''unable to load cert(%s) from disk: %v'' [certName]) (cfm_Read certPath certName)"

definition commonPath :: "CertificateConfigFamily \<Rightarrow> CertificateConfig \<Rightarrow> string" where
  "commonPath c config = (if cc_certPath config \<noteq> [] then cc_certPath config else cf_certPath c)"

definition generateCommon :: "CertificateConfigFamily \<Rightarrow> x509 \<Rightarrow> privateKey \<Rightarrow> CertificateConfig \<Rightarrow> unit pkiM" where
  "generateCommon c caCert caKey config =
     thenP (liftP (NewCommonCertificateGenerator (cc_descriptor config)))
     (bindP (common_Generate (cc_descriptor config) caCert caKey) (\<lambda>(commonCert, key).
       mapErrP (Wrapf ''unable to save %s key: %v'' [cc_certName config]) (cfm_Write (commonPath c config) (cc_certName config) commonCert key)))"

definition generateCommonCertificate :: "CertificateConfigFamily \<Rightarrow> x509 \<Rightarrow> privateKey \<Rightarrow> unit pkiM" where
  "generateCommonCertificate c caCert caKey = forP (cf_commonConfig c) (generateCommon c caCert caKey)"

definition family_GenerateAll :: "CertificateConfigFamily \<Rightarrow> unit pkiM" where
  "family_GenerateAll c =
     bindP (statNotExist (PathForCert (cf_certPath c) (cc_certName (cf_caConfig c)))) (\<lambda>absent.
     bindP (if absent then generateAuthorityCertificate c
            else mapErrP (Wrapf ''failed to load an exist cert(%s):  %v'' [cc_certName (cf_caConfig c)])
                   (loadAuthorityCertificate (cf_certPath c) (cc_certName (cf_caConfig c)))) (\<lambda>(caCert, caKey).
     generateCommonCertificate c caCert caKey))"

definition descriptor :: "string \<Rightarrow> string list \<Rightarrow> ExtKeyUsage list \<Rightarrow> CertificateDescriptor" where
  "descriptor cn org usages = \<lparr>ds_CommonName = cn, ds_DNSNames = [], ds_Organization = org, ds_Year = 100, ds_AltNames = noNames, ds_Usages = usages\<rparr>"

definition certConfig :: "string \<Rightarrow> string \<Rightarrow> CertificateDescriptor \<Rightarrow> CertificateConfig" where
  "certConfig path name d = \<lparr>cc_certPath = path, cc_certName = name, cc_descriptor = d\<rparr>"

definition apiServerNames :: "AltNames \<Rightarrow> string \<Rightarrow> string \<Rightarrow> AltNames" where
  "apiServerNames altNames nodeName DNSDomain =
     (let svc = ''kubernetes.default.svc.'' @ DNSDomain;
          dnsName = fold (\<lambda>n. AList.update n n) ([''localhost'', ''kubernetes'', ''kubernetes.default'', ''kubernetes.default.svc'', nodeName, svc]
              @ map snd (an_DNSNames altNames)) [];
          IPs = fold (\<lambda>ip. AList.update (ip_String ip) ip) (net_IPv4 [127, 0, 0, 1] # map snd (an_IPs altNames)) [] in
      \<lparr>an_DNSNames = dnsName, an_IPs = IPs\<rparr>)"

definition getKubeCertificateConfig :: "string \<Rightarrow> AltNames \<Rightarrow> string \<Rightarrow> string \<Rightarrow> CertificateConfigFamily" where
  "getKubeCertificateConfig certPath altNames nodeName DNSDomain = \<lparr>cf_certPath = certPath,
     cf_caConfig = certConfig [] ''ca'' (descriptor ''kubernetes'' [] []),
     cf_commonConfig = [
       certConfig [] ''apiserver'' ((descriptor ''kube-apiserver'' [] [ServerAuth])\<lparr>ds_AltNames := apiServerNames altNames nodeName DNSDomain\<rparr>),
       certConfig [] ''apiserver-kubelet-client'' (descriptor ''kube-apiserver-kubelet-client'' [''system:masters''] [ClientAuth])]\<rparr>"

definition etcdNames :: "string \<Rightarrow> net_ip \<Rightarrow> AltNames" where
  "etcdNames nodeName nodeIP = (let lo = replicate 15 0 @ [1] in
     \<lparr>an_DNSNames = fold (\<lambda>n. AList.update n n) [''localhost'', nodeName] [],
      an_IPs = fold (\<lambda>ip. AList.update (ip_String ip) ip) [net_IPv4 [127, 0, 0, 1], nodeIP, lo] []\<rparr>)"

definition getEtcdCertificateConfig :: "string \<Rightarrow> string \<Rightarrow> string \<Rightarrow> net_ip \<Rightarrow> CertificateConfigFamily" where
  "getEtcdCertificateConfig etcdCertPath certPath nodeName nodeIP =
     (let member = (descriptor nodeName [] [ServerAuth, ClientAuth])\<lparr>ds_AltNames := etcdNames nodeName nodeIP\<rparr> in
      \<lparr>cf_certPath = etcdCertPath,
       cf_caConfig = certConfig [] ''ca'' (descriptor ''etcd-ca'' [] []),
       cf_commonConfig = [
         certConfig certPath ''apiserver-etcd-client'' (descriptor ''kube-apiserver-etcd-client'' [''system:masters''] [ClientAuth]),
         certConfig [] ''server'' member,
         certConfig [] ''peer'' member,
         certConfig [] ''healthcheck-client'' (descriptor ''kube-etcd-healthcheck-client'' [''system:masters''] [ClientAuth])]\<rparr>)"

definition getFrontProxyCertificateConfig :: "string \<Rightarrow> CertificateConfigFamily" where
  "getFrontProxyCertificateConfig certPath = \<lparr>cf_certPath = certPath,
     cf_caConfig = certConfig [] ''front-proxy-ca'' (descriptor ''front-proxy-ca'' [] []),
     cf_commonConfig = [certConfig [] ''front-proxy-client'' (descriptor ''front-proxy-client'' [] [ClientAuth])]\<rparr>"

text \<open>Alternative names given as texts: an address or a domain name.\<close>

definition addAltName :: "string \<Rightarrow> AltNames \<Rightarrow> AltNames" where
  "addAltName altName n = (let ip = net_ParseIP altName in
     if ip \<noteq> [] then n\<lparr>an_IPs := AList.update (ip_String ip) ip (an_IPs n)\<rparr>
     else n\<lparr>an_DNSNames := AList.update altName altName (an_DNSNames n)\<rparr>)"

fun svcFirstIPs :: "string list \<Rightarrow> AltNames \<Rightarrow> AltNames res" where
  "svcFirstIPs [] n = Inr n"
| "svcFirstIPs (svcCidr # cs) n =
     bindR (mapErrR (Wrapf ''unable to parse ServiceSubnet %v: %v'' [svcCidr]) (net_ParseCIDR svcCidr)) (\<lambda>svcSubnet.
     bindR (utilnet_GetIndexedIP svcSubnet 1) (\<lambda>svcFirstIP.
     svcFirstIPs cs (n\<lparr>an_IPs := AList.update (ip_String svcFirstIP) svcFirstIP (an_IPs n)\<rparr>)))"

definition GenerateKubeComponentCert :: "CertificateConfigFamily list \<Rightarrow> unit pkiM" where
  "GenerateKubeComponentCert fams = forP fams family_GenerateAll"

definition GenerateAllKubernetesCerts ::
  "string \<Rightarrow> string \<Rightarrow> string \<Rightarrow> string \<Rightarrow> string \<Rightarrow> string list \<Rightarrow> net_ip \<Rightarrow> unit pkiM" where
  "GenerateAllKubernetesCerts certPath etcdCertPath nodeName serviceCIRD DNSDomain altNames nodeIP =
     (if certPath = [] \<or> etcdCertPath = [] then throwP (Errorf ''must provide cert path'' [])
      else if nodeName = [] \<or> nodeIP = [] then throwP (Errorf ''must provide node name and node IP'' [])
      else if DNSDomain = [] then throwP (Errorf ''must provide cluster DNS domain'' [])
      else bindP (liftP (svcFirstIPs (strings_Split serviceCIRD '','') \<lparr>an_DNSNames = [], an_IPs = [(ip_String nodeIP, nodeIP)]\<rparr>)) (\<lambda>n.
        let names = fold addAltName altNames n in
        thenP (GenerateKubeComponentCert [getKubeCertificateConfig certPath names nodeName DNSDomain,
            getEtcdCertificateConfig etcdCertPath certPath nodeName nodeIP, getFrontProxyCertificateConfig certPath])
          (keyPair_GenerateAll certPath ''sa'')))"

definition renewedDescriptor :: "x509 \<Rightarrow> AltNames \<Rightarrow> CertificateDescriptor" where
  "renewedDescriptor apiCert n = \<lparr>ds_CommonName = x_CommonName apiCert, ds_DNSNames = [], ds_Organization = x_Organization apiCert,
     ds_Year = 100,
     ds_AltNames = \<lparr>an_DNSNames = fold (\<lambda>d. AList.update d d) (x_DNSNames apiCert) (an_DNSNames n),
                    an_IPs = fold (\<lambda>ip. AList.update (ip_String ip) ip) (x_IPAddresses apiCert) (an_IPs n)\<rparr>,
     ds_Usages = x_ExtKeyUsage apiCert\<rparr>"

definition UpdateAPIServerCertSans :: "string \<Rightarrow> string list \<Rightarrow> unit pkiM" where
  "UpdateAPIServerCertSans pkiPath certSans = (let baseName = ''apiserver'' in
     bindP (mapErrP (Wrapf ''unable to load %s cert: %v'' [baseName]) (cfm_Read pkiPath baseName)) (\<lambda>(apiCert, _).
     let d = renewedDescriptor apiCert (fold addAltName certSans noNames) in
     bindP (mapErrP (Wrapf ''unable to load %s cert: %v'' [baseName]) (cfm_Read pkiPath ''ca'')) (\<lambda>(caCert, caKey).
     thenP (mapErrP (Wrapf ''unable to generate %s cert: %v'' [baseName]) (liftP (NewCommonCertificateGenerator d)))
     (bindP (mapErrP (Wrapf ''unable to generate %s cert: %v'' [baseName]) (common_Generate d caCert caKey)) (\<lambda>(newCert, newKey).
       mapErrP (Wrapf ''unable to save %s cert: %v'' [baseName]) (cfm_Write pkiPath baseName newCert newKey))))))"

section \<open>kubeconfig.go\<close>

record kubeConfigSpec =
  sp_CACert :: x509
  sp_APIServer :: string
  sp_ClientName :: string
  sp_TokenAuth :: "string option"
  sp_CAKey :: privateKey
  sp_Organizations :: "string list"

definition getKubeConfigSpecs :: "string \<Rightarrow> string \<Rightarrow> string \<Rightarrow> string \<Rightarrow> (string \<times> kubeConfigSpec) list pkiM" where
  "getKubeConfigSpecs certPath certName nodeName controlPlaneEndpoint =
     bindP (mapErrP (Wrapf ''couldn't create a kubeconfig; the CA cert file couldn't be loaded: %v'' []) (cfm_Read certPath certName)) (\<lambda>(caCert, caKey).
     if nodeName = [] then throwP (Errorf ''nodeName can not be empty'' [])
     else if controlPlaneEndpoint = [] then throwP (Errorf ''controlPlaneEndpoint  can not be empty'' [])
     else (let spec = (\<lambda>client org. \<lparr>sp_CACert = caCert, sp_APIServer = controlPlaneEndpoint, sp_ClientName = client,
                 sp_TokenAuth = None, sp_CAKey = caKey, sp_Organizations = org\<rparr>) in
       returnP [(''admin.conf'', spec ''kubernetes-admin'' [''system:masters'']),
         (''kubelet.conf'', spec (''system:node:'' @ nodeName) [''system:nodes'']),
         (''controller-manager.conf'', spec ''system:kube-controller-manager'' []),
         (''scheduler.conf'', spec ''system:kube-scheduler'' [])]))"

definition CreateBasic :: "string \<Rightarrow> string \<Rightarrow> string \<Rightarrow> string \<Rightarrow> KubeConfig" where
  "CreateBasic serverURL clusterName userName caCert = (let contextName = userName @ ''@'' @ clusterName in
     \<lparr>kk_Clusters = [(clusterName, \<lparr>kk_Server = serverURL, kk_CA = caCert\<rparr>)],
      kk_Contexts = [(contextName, \<lparr>kk_Cluster = clusterName, kk_AuthInfo = userName\<rparr>)],
      kk_AuthInfos = [], kk_CurrentContext = contextName\<rparr>)"

definition CreateWithToken :: "string \<Rightarrow> string \<Rightarrow> string \<Rightarrow> string \<Rightarrow> string \<Rightarrow> KubeConfig" where
  "CreateWithToken serverURL clusterName userName caCert token =
     (CreateBasic serverURL clusterName userName caCert)\<lparr>kk_AuthInfos := [(userName, TokenInfo token)]\<rparr>"

definition CreateWithCerts :: "string \<Rightarrow> string \<Rightarrow> string \<Rightarrow> string \<Rightarrow> privateKey \<Rightarrow> x509 \<Rightarrow> KubeConfig" where
  "CreateWithCerts serverURL clusterName userName caCert clientKey clientCert =
     (CreateBasic serverURL clusterName userName caCert)\<lparr>kk_AuthInfos := [(userName, CertInfo clientKey clientCert)]\<rparr>"

definition EncodeCertPEM :: "x509 \<Rightarrow> string pkiM" where
  "EncodeCertPEM c = (\<lambda>s. (Inr (pk_pem s c), s))"

definition buildKubeConfigFromSpec :: "kubeConfigSpec \<Rightarrow> string \<Rightarrow> KubeConfig pkiM" where
  "buildKubeConfigFromSpec spec clustername = bindP (EncodeCertPEM (sp_CACert spec)) (\<lambda>ca.
     case sp_TokenAuth spec of
       Some token \<Rightarrow> returnP (CreateWithToken (sp_APIServer spec) clustername (sp_ClientName spec) ca token)
     | None \<Rightarrow> (let d = descriptor (sp_ClientName spec) (sp_Organizations spec) [ClientAuth] in
         thenP (liftP (NewCommonCertificateGenerator d))
         (bindP (mapErrP (Wrapf ''failure while creating %s client certificate: %v'' [sp_ClientName spec])
                  (common_Generate d (sp_CACert spec) (sp_CAKey spec))) (\<lambda>(clientCert, clientKey).
           thenP (mapErrP (Wrapf ''failed to marshal private key to PEM: %v'' []) (attempt ''MarshalPrivateKeyToPEM'' []))
             (returnP (CreateWithCerts (sp_APIServer spec) clustername (sp_ClientName spec) ca clientKey clientCert))))))"

text \<open>
  The result of the validation tells a file that does not exist, the only error the caller treats, from the others.
  \<^verbatim>\<open>config.Clusters[expectedCluster]\<close> is there for every configuration made by \<open>CreateBasic\<close>; without it the code panics.
\<close>

datatype validation = Valid | Missing | Invalid gerror

definition validateContents :: "string \<Rightarrow> KubeConfig \<Rightarrow> KubeConfig \<Rightarrow> validation" where
  "validateContents path config current =
     (case map_of (kk_Contexts config) (kk_CurrentContext config) of
        None \<Rightarrow> Invalid (Errorf ''failed to find expected context %s'' [kk_CurrentContext config])
      | Some expectedCtx \<Rightarrow> (case map_of (kk_Contexts current) (kk_CurrentContext current) of
          None \<Rightarrow> Invalid (Errorf ''failed to find CurrentContext in Contexts of the kubeconfig file %s'' [path])
        | Some currentCtx \<Rightarrow> (case map_of (kk_Clusters current) (kk_Cluster currentCtx) of
            None \<Rightarrow> Invalid (Errorf ''failed to find the given CurrentContext Cluster in Clusters of the kubeconfig file %s'' [path])
          | Some cur \<Rightarrow> (case map_of (kk_Clusters config) (kk_Cluster expectedCtx) of
              None \<Rightarrow> Invalid (Panic ''invalid memory address or nil pointer dereference'')
            | Some ex \<Rightarrow>
                if strings_TrimSpace (kk_CA cur) \<noteq> strings_TrimSpace (kk_CA ex)
                then Invalid (Errorf ''a kubeconfig file %q exists already but has got the wrong CA cert'' [path])
                else if kk_Server cur \<noteq> kk_Server ex
                then Invalid (Errorf ''a kubeconfig file %q exists already but has got the wrong API Server URL'' [path])
                else Valid))))"

definition validateKubeConfig :: "string \<Rightarrow> string \<Rightarrow> KubeConfig \<Rightarrow> validation pkiM" where
  "validateKubeConfig outDir filename config = (\<lambda>s.
     let path = filepath_Join [outDir, filename]; s1 = s\<lparr>pk_steps := Suc (pk_steps s)\<rparr> in
     case pk_err s (pk_steps s) ''os.Stat'' path of
       Some e \<Rightarrow> (Inr (Invalid e), s1)
     | None \<Rightarrow> (case pk_files s path of
         None \<Rightarrow> (Inr Missing, s1)
       | Some c \<Rightarrow> (case readFileP path s1 of
           (Inl e, s2) \<Rightarrow> (Inr (Invalid (Wrapf ''failed to load kubeconfig file %s that already exists on disk: %v'' [path] e)), s2)
         | (Inr (ConfFile current), s2) \<Rightarrow> (Inr (validateContents path config current), s2)
         | (Inr _, s2) \<Rightarrow> (Inr (Invalid (Errorf ''failed to load kubeconfig file %s that already exists on disk'' [path])), s2))))"

definition createKubeConfigFileIfNotExists :: "string \<Rightarrow> string \<Rightarrow> KubeConfig \<Rightarrow> unit pkiM" where
  "createKubeConfigFileIfNotExists outDir filename config =
     bindP (validateKubeConfig outDir filename config) (\<lambda>v. case v of
       Valid \<Rightarrow> returnP ()
     | Invalid e \<Rightarrow> throwP e
     | Missing \<Rightarrow> mapErrP (Wrapf ''failed to save kubeconfig file %q on disk: %v'' [filepath_Join [outDir, filename]])
         (writeFileP (filepath_Join [outDir, filename]) (ConfFile config)))"

definition createKubeConfigFiles :: "string \<Rightarrow> string \<Rightarrow> string \<Rightarrow> string \<Rightarrow> string \<Rightarrow> string \<Rightarrow> string list \<Rightarrow> unit pkiM" where
  "createKubeConfigFiles outDir certPath certName nodeName controlPlaneEndpoint clusterName kubeConfigFileNames =
     bindP (getKubeConfigSpecs certPath certName nodeName controlPlaneEndpoint) (\<lambda>specs.
     forP kubeConfigFileNames (\<lambda>f. case map_of specs f of
       None \<Rightarrow> throwP (Errorf ''couldn't retrieve KubeConfigSpec for %s'' [f])
     | Some spec \<Rightarrow> bindP (buildKubeConfigFromSpec spec clusterName) (createKubeConfigFileIfNotExists outDir f)))"

definition CreateJoinControlPlaneKubeConfigFiles :: "string \<Rightarrow> string \<Rightarrow> string \<Rightarrow> string \<Rightarrow> string \<Rightarrow> string \<Rightarrow> unit pkiM" where
  "CreateJoinControlPlaneKubeConfigFiles outDir caCertPath caCertName nodeName controlPlaneEndpoint clusterName =
     createKubeConfigFiles outDir caCertPath caCertName nodeName controlPlaneEndpoint clusterName
       [''admin.conf'', ''controller-manager.conf'', ''scheduler.conf'', ''kubelet.conf'']"

section \<open>The certificate commands of seautil\<close>

definition KubeDefaultCertPath :: string where "KubeDefaultCertPath = ''/etc/kubernetes/pki''"

record certFlag =
  cfl_AltNames :: "string list"
  cfl_NodeName :: string
  cfl_ServiceCIDR :: string
  cfl_NodeIP :: string
  cfl_DNSDomain :: string
  cfl_CertPath :: string
  cfl_CertEtcdPath :: string

definition NewCertGenCmd :: "certFlag \<Rightarrow> unit pkiM" where
  "NewCertGenCmd fl = (let nodeIP = net_ParseIP (cfl_NodeIP fl) in
     if nodeIP = [] then throwP (Errorf ''input --node-ip(%s) is not a valid IP format'' [cfl_NodeIP fl])
     else GenerateAllKubernetesCerts (cfl_CertPath fl) (cfl_CertEtcdPath fl) (cfl_NodeName fl) (cfl_ServiceCIDR fl) (cfl_DNSDomain fl)
            (cfl_AltNames fl) nodeIP)"

definition NewCertUpdateCmd :: "string list \<Rightarrow> unit pkiM" where
  "NewCertUpdateCmd altNames =
     (if altNames = [] then throwP (Errorf ''IP address or DNS domain needed for cert Subject Alternative Names'' [])
      else mapErrP (Wrapf ''failed to update api server's cert: %v'' []) (UpdateAPIServerCertSans KubeDefaultCertPath altNames))"

end
