(* ===== verification/Cert_Properties.thy ===== *)
theory Cert_Properties
  imports Cluster_Cert
begin

text \<open>
  What the certificate code guarantees: every certificate it leaves on disk is signed by the authority of its family,
  belongs to the key beside it and has the names asked for; renewing the certificate of the API server
  keeps its names; kubeconfig files that exist are not overwritten.
\<close>

section \<open>Evaluation\<close>

lemma bindP_Inr_iff: "bindP m f s = (Inr y, s'') \<longleftrightarrow> (\<exists>x s'. m s = (Inr x, s') \<and> f x s' = (Inr y, s''))"
  by (auto simp: bindP_def split: prod.splits sum.splits)

lemma thenP_Inr_iff: "thenP m k s = (Inr y, s'') \<longleftrightarrow> (\<exists>s'. m s = (Inr (), s') \<and> k s' = (Inr y, s''))"
  by (auto simp: thenP_def bindP_Inr_iff)

lemma mapErrP_Inr_iff: "mapErrP f m s = (Inr y, s') \<longleftrightarrow> m s = (Inr y, s')"
  by (auto simp: mapErrP_def split: prod.splits sum.splits)

lemma returnP_iff: "returnP x s = (Inr y, s') \<longleftrightarrow> y = x \<and> s' = s"
  by (auto simp: returnP_def)

lemma throwP_iff: "throwP e s \<noteq> (Inr y, s')"
  by (simp add: throwP_def)

lemma liftP_iff: "liftP r s = (Inr y, s') \<longleftrightarrow> r = Inr y \<and> s' = s"
  by (auto simp: liftP_def)

lemma attempt_iff: "attempt op path s = (Inr (), s') \<longleftrightarrow> pk_err s (pk_steps s) op path = None \<and> s' = s\<lparr>pk_steps := Suc (pk_steps s)\<rparr>"
  by (auto simp: attempt_def split: option.splits)

lemmas pki_iffs = bindP_Inr_iff thenP_Inr_iff mapErrP_Inr_iff returnP_iff throwP_iff liftP_iff attempt_iff

text \<open>\<open>touches P m\<close>: whatever its result, \<open>m\<close> changes files of \<open>P\<close> only.\<close>

definition touches :: "string set \<Rightarrow> 'a pkiM \<Rightarrow> bool" where
  "touches P m = (\<forall>s p. p \<notin> P \<longrightarrow> pk_files (snd (m s)) p = pk_files s p)"

lemma touchesD: "touches P m \<Longrightarrow> m s = (r, s') \<Longrightarrow> p \<notin> P \<Longrightarrow> pk_files s' p = pk_files s p"
  unfolding touches_def by (metis snd_conv)

lemma touches_mono: "touches P m \<Longrightarrow> P \<subseteq> Q \<Longrightarrow> touches Q m"
  unfolding touches_def by blast

lemma touches_bindP [intro!]:
  assumes "touches P m" "\<And>x. touches P (f x)"
  shows "touches P (bindP m f)"
  unfolding touches_def
proof (intro allI impI)
  fix s p
  assume p: "p \<notin> P"
  obtain r s1 where m: "m s = (r, s1)"
    by (cases "m s")
  have "pk_files s1 p = pk_files s p"
    using assms(1) m p by (rule touchesD)
  moreover have "pk_files (snd (f x s1)) p = pk_files s1 p" for x
    using assms(2) p unfolding touches_def by blast
  ultimately show "pk_files (snd (bindP m f s)) p = pk_files s p"
    using m by (cases r) (auto simp: bindP_def)
qed

lemma touches_thenP [intro!]: "touches P m \<Longrightarrow> touches P k \<Longrightarrow> touches P (thenP m k)"
  unfolding thenP_def by auto

lemma touches_basic [intro!]:
  "touches P (returnP x)" "touches P (throwP e)" "touches P (liftP r)" "touches P (attempt op path)"
  "touches P (statNotExist path)" "touches P time_Now" "touches P (EncodeCertPEM c)"
  by (auto simp: touches_def returnP_def throwP_def liftP_def attempt_def statNotExist_def time_Now_def EncodeCertPEM_def)

lemma touches_mapErrP [intro!]: "touches P m \<Longrightarrow> touches P (mapErrP f m)"
  unfolding touches_def mapErrP_def by (auto split: prod.splits sum.splits) (metis snd_conv)+

lemma touches_if [intro!]: "touches P m \<Longrightarrow> touches P n \<Longrightarrow> touches P (if b then m else n)"
  by simp

lemma touches_forP [intro!]: "(\<And>x. x \<in> set xs \<Longrightarrow> touches P (f x)) \<Longrightarrow> touches P (forP xs f)"
  by (induction xs) auto

lemma touches_writeFileP [intro!]: "path \<in> P \<Longrightarrow> touches P (writeFileP path c)"
  by (auto simp: touches_def writeFileP_def thenP_def bindP_def attempt_def split: option.splits)

lemma touches_readFileP [intro!]: "touches P (readFileP path)"
  by (auto simp: touches_def readFileP_def thenP_def bindP_def attempt_def split: option.splits)

lemma touches_NewPrivateKey [intro!]: "touches P NewPrivateKey"
  by (auto simp: touches_def NewPrivateKey_def thenP_def bindP_def attempt_def split: option.splits)

lemma touches_generate [intro!]:
  "touches P (x509_CreateCertificate t parent pub priv)" "touches P (authority_Generate d)" "touches P (common_Generate d ca k)"
proof -
  show create: "touches P (x509_CreateCertificate t parent pub priv)" for t parent pub priv
    unfolding x509_CreateCertificate_def by (auto split: option.splits)
  show "touches P (authority_Generate d)"
    unfolding authority_Generate_def generateSelfSignedCACert_def by (intro touches_bindP touches_mapErrP touches_basic touches_NewPrivateKey create)
  have "touches P (\<lambda>s. (Inr (pk_serial s (pk_steps s)), s))"
    by (simp add: touches_def)
  thus "touches P (common_Generate d ca k)"
    unfolding common_Generate_def generateSignedCert_def
    by (intro touches_bindP touches_thenP touches_mapErrP touches_basic touches_NewPrivateKey create)
qed

lemma touches_read [intro!]: "touches P (cfm_Read certPath name)"
  unfolding cfm_Read_def readKey_def readCert_def by (auto split: pkiFile.splits list.splits)

definition filesOf :: "string \<Rightarrow> string \<Rightarrow> string list" where
  "filesOf path name = [PathForCert path name, PathForKey path name]"

lemma touches_write: "set (filesOf path name) \<subseteq> P \<Longrightarrow> touches P (cfm_Write path name c k)"
  unfolding cfm_Write_def writeCert_def writeKey_def Let_def filesOf_def by auto

section \<open>Issued certificates\<close>

definition issued :: "pki \<Rightarrow> x509 \<Rightarrow> string \<Rightarrow> CertificateConfig \<Rightarrow> bool" where
  "issued s ca path config \<longleftrightarrow> (let d = cc_descriptor config; name = cc_certName config in
     \<exists>c. pk_files s (PathForCert path name) = Some (CertFile [c]) \<and> pk_files s (PathForKey path name) = Some (KeyFile (x_PublicKey c))
      \<and> x_SignedBy c = x_PublicKey ca \<and> x_Issuer c = x_CommonName ca \<and> x_NotBefore c = x_NotBefore ca \<and> \<not> x_IsCA c
      \<and> x_CommonName c = ds_CommonName d \<and> x_Organization c = ds_Organization d \<and> x_ExtKeyUsage c = ds_Usages d
      \<and> x_DNSNames c = map snd (an_DNSNames (ds_AltNames d)) \<and> x_IPAddresses c = map snd (an_IPs (ds_AltNames d)))"

definition familyFiles :: "CertificateConfigFamily \<Rightarrow> string list" where
  "familyFiles fam = filesOf (cf_certPath fam) (cc_certName (cf_caConfig fam))
     @ concat (map (\<lambda>c. filesOf (commonPath fam c) (cc_certName c)) (cf_commonConfig fam))"

definition familyOk :: "pki \<Rightarrow> CertificateConfigFamily \<Rightarrow> bool" where
  "familyOk s fam \<longleftrightarrow> (\<exists>ca cas. pk_files s (PathForCert (cf_certPath fam) (cc_certName (cf_caConfig fam))) = Some (CertFile (ca # cas))
     \<and> pk_files s (PathForKey (cf_certPath fam) (cc_certName (cf_caConfig fam))) = Some (KeyFile (x_PublicKey ca))
     \<and> (\<forall>config \<in> set (cf_commonConfig fam). issued s ca (commonPath fam config) config))"

lemma issued_frame:
  "issued s ca path config \<Longrightarrow> (\<And>p. p \<in> set (filesOf path (cc_certName config)) \<Longrightarrow> pk_files s' p = pk_files s p) \<Longrightarrow> issued s' ca path config"
  by (simp add: issued_def filesOf_def Let_def)

lemma familyOk_frame:
  assumes "familyOk s fam" "\<And>p. p \<in> set (familyFiles fam) \<Longrightarrow> pk_files s' p = pk_files s p"
  shows "familyOk s' fam"
proof -
  obtain ca cas where ca: "pk_files s (PathForCert (cf_certPath fam) (cc_certName (cf_caConfig fam))) = Some (CertFile (ca # cas))"
      "pk_files s (PathForKey (cf_certPath fam) (cc_certName (cf_caConfig fam))) = Some (KeyFile (x_PublicKey ca))"
      "\<forall>config \<in> set (cf_commonConfig fam). issued s ca (commonPath fam config) config"
    using assms(1) unfolding familyOk_def by blast
  have "issued s' ca (commonPath fam config) config" if c: "config \<in> set (cf_commonConfig fam)" for config
  proof (rule issued_frame)
    show "issued s ca (commonPath fam config) config"
      using ca(3) c by blast
    show "pk_files s' p = pk_files s p" if "p \<in> set (filesOf (commonPath fam config) (cc_certName config))" for p
      using that c by (intro assms(2)) (auto simp: familyFiles_def)
  qed
  moreover have "pk_files s' p = pk_files s p" if "p \<in> set (filesOf (cf_certPath fam) (cc_certName (cf_caConfig fam)))" for p
    using that by (intro assms(2)) (simp add: familyFiles_def)
  hence "pk_files s' (PathForCert (cf_certPath fam) (cc_certName (cf_caConfig fam))) = Some (CertFile (ca # cas))"
      "pk_files s' (PathForKey (cf_certPath fam) (cc_certName (cf_caConfig fam))) = Some (KeyFile (x_PublicKey ca))"
    using ca(1,2) by (simp_all add: filesOf_def)
  ultimately show ?thesis
    unfolding familyOk_def by blast
qed

lemma common_Generate_Inr:
  assumes "common_Generate d ca k s = (Inr (c, key), s')"
  shows "x_PublicKey ca = k \<and> x_PublicKey c = key \<and> x_SignedBy c = k \<and> x_Issuer c = x_CommonName ca \<and> x_NotBefore c = x_NotBefore ca
    \<and> \<not> x_IsCA c \<and> x_CommonName c = ds_CommonName d \<and> x_Organization c = ds_Organization d \<and> x_ExtKeyUsage c = ds_Usages d
    \<and> x_DNSNames c = map snd (an_DNSNames (ds_AltNames d)) \<and> x_IPAddresses c = map snd (an_IPs (ds_AltNames d))"
  using assms unfolding common_Generate_def generateSignedCert_def x509_CreateCertificate_def
  by (auto simp: pki_iffs time_Now_def split: if_splits)

lemma cfm_Write_Inr:
  "cfm_Write path name c k s = (Inr (), s') \<Longrightarrow>
    pk_files s' = (pk_files s)(PathForCert path name \<mapsto> CertFile [c], PathForKey path name \<mapsto> KeyFile k)"
  unfolding cfm_Write_def writeCert_def writeKey_def writeFileP_def by (auto simp: pki_iffs Let_def)

lemma generateCommon_Inr:
  assumes "generateCommon fam ca k config s = (Inr (), s')" "distinct (filesOf (commonPath fam config) (cc_certName config))"
  shows "x_PublicKey ca = k \<and> issued s' ca (commonPath fam config) config"
proof -
  obtain c key s1 where g: "common_Generate (cc_descriptor config) ca k s = (Inr (c, key), s1)"
    and w: "cfm_Write (commonPath fam config) (cc_certName config) c key s1 = (Inr (), s')"
    using assms(1) unfolding generateCommon_def by (auto simp: pki_iffs)
  show ?thesis
    using common_Generate_Inr [OF g] cfm_Write_Inr [OF w] assms(2) by (auto simp: issued_def filesOf_def Let_def)
qed

lemma touches_generateCommon: "set (filesOf (commonPath fam config) (cc_certName config)) \<subseteq> P \<Longrightarrow> touches P (generateCommon fam ca k config)"
  unfolding generateCommon_def by (auto intro!: touches_write)

lemma generateCommon_loop:
  assumes "forP configs (generateCommon fam ca k) s = (Inr (), s')"
    and "distinct (concat (map (\<lambda>c. filesOf (commonPath fam c) (cc_certName c)) configs))"
  shows "\<forall>config \<in> set configs. x_PublicKey ca = k \<and> issued s' ca (commonPath fam config) config"
  using assms
proof (induction configs arbitrary: s)
  case (Cons x xs)
  let ?P = "set (concat (map (\<lambda>c. filesOf (commonPath fam c) (cc_certName c)) xs))"
  obtain s1 where s1: "generateCommon fam ca k x s = (Inr (), s1)" "forP xs (generateCommon fam ca k) s1 = (Inr (), s')"
    using Cons.prems(1) by (auto simp: pki_iffs)
  have x: "x_PublicKey ca = k \<and> issued s1 ca (commonPath fam x) x"
    using generateCommon_Inr [OF s1(1)] Cons.prems(2) by simp
  have t: "touches ?P (forP xs (generateCommon fam ca k))"
    by (intro touches_forP touches_generateCommon) auto
  have "pk_files s' p = pk_files s1 p" if "p \<in> set (filesOf (commonPath fam x) (cc_certName x))" for p
    using touchesD [OF t s1(2)] that Cons.prems(2) by auto
  hence "issued s' ca (commonPath fam x) x"
    using x by (auto intro: issued_frame)
  thus ?case
    using x Cons.IH [OF s1(2)] Cons.prems(2) by auto
qed simp

lemma touches_authority: "set (filesOf (cf_certPath fam) (cc_certName (cf_caConfig fam))) \<subseteq> P \<Longrightarrow> touches P (generateAuthorityCertificate fam)"
  unfolding generateAuthorityCertificate_def Let_def by (auto intro!: touches_write)

lemma touches_family: "touches (set (familyFiles fam)) (family_GenerateAll fam)"
  unfolding family_GenerateAll_def generateCommonCertificate_def loadAuthorityCertificate_def
  by (intro touches_bindP touches_basic touches_if touches_mapErrP touches_read touches_authority touches_forP touches_generateCommon)
    (auto simp: familyFiles_def split: prod.splits intro!: touches_forP touches_generateCommon)

lemma readFileP_iff:
  "readFileP path s = (Inr c, s') \<longleftrightarrow> pk_err s (pk_steps s) ''ReadFile'' path = None \<and> pk_files s path = Some c \<and> s' = s\<lparr>pk_steps := Suc (pk_steps s)\<rparr>"
  by (auto simp: readFileP_def pki_iffs split: option.splits)

lemma readKey_Inr: "readKey path name s = (Inr k, s') \<Longrightarrow> readFileP (PathForKey path name) s = (Inr (KeyFile k), s')"
  unfolding readKey_def bindP_Inr_iff mapErrP_Inr_iff by (elim exE conjE, rename_tac c s1, case_tac c) (auto simp: returnP_iff throwP_iff)

lemma readCert_Inr: "readCert path name s = (Inr ca, s') \<Longrightarrow> \<exists>cas. readFileP (PathForCert path name) s = (Inr (CertFile (ca # cas)), s')"
  unfolding readCert_def bindP_Inr_iff by (elim exE conjE, rename_tac c s1, case_tac c) (auto simp: returnP_iff throwP_iff split: list.splits)

lemma cfm_Read_Inr:
  "cfm_Read path name s = (Inr (ca, k), s') \<Longrightarrow>
    \<exists>cas. pk_files s' (PathForCert path name) = Some (CertFile (ca # cas)) \<and> pk_files s' (PathForKey path name) = Some (KeyFile k) \<and> pk_files s' = pk_files s"
  unfolding cfm_Read_def by (auto simp: bindP_Inr_iff returnP_iff readFileP_iff dest!: readKey_Inr readCert_Inr)

text \<open>The authority in hand is the one on disk.\<close>

lemma authority_on_disk:
  assumes "(if absent then generateAuthorityCertificate fam
      else mapErrP f (loadAuthorityCertificate (cf_certPath fam) (cc_certName (cf_caConfig fam)))) s = (Inr (ca, k), s')"
    and "distinct (filesOf (cf_certPath fam) (cc_certName (cf_caConfig fam)))"
  shows "\<exists>cas. pk_files s' (PathForCert (cf_certPath fam) (cc_certName (cf_caConfig fam))) = Some (CertFile (ca # cas))
    \<and> pk_files s' (PathForKey (cf_certPath fam) (cc_certName (cf_caConfig fam))) = Some (KeyFile k)"
proof (cases absent)
  case True
  then obtain s1 where "cfm_Write (cf_certPath fam) (cc_certName (cf_caConfig fam)) ca k s1 = (Inr (), s')"
    using assms(1) unfolding generateAuthorityCertificate_def by (auto simp: pki_iffs Let_def)
  thus ?thesis
    using cfm_Write_Inr assms(2) by (fastforce simp: filesOf_def)
next
  case False
  thus ?thesis
    using assms(1) by (auto simp: loadAuthorityCertificate_def mapErrP_Inr_iff dest!: cfm_Read_Inr)
qed

lemma family_GenerateAll_ok:
  assumes run: "family_GenerateAll fam s = (Inr (), s')" and files: "distinct (familyFiles fam)" and some: "cf_commonConfig fam \<noteq> []"
  shows "familyOk s' fam"
proof -
  let ?name = "cc_certName (cf_caConfig fam)" and ?path = "cf_certPath fam"
  let ?P = "set (concat (map (\<lambda>c. filesOf (commonPath fam c) (cc_certName c)) (cf_commonConfig fam)))"
  obtain absent s1 ca k s2 where
    a: "(if absent then generateAuthorityCertificate fam
      else mapErrP (Wrapf ''failed to load an exist cert(%s):  %v'' [?name]) (loadAuthorityCertificate ?path ?name)) s1 = (Inr (ca, k), s2)"
    and g: "forP (cf_commonConfig fam) (generateCommon fam ca k) s2 = (Inr (), s')"
    using run unfolding family_GenerateAll_def generateCommonCertificate_def by (auto simp: pki_iffs)
  obtain cas where ca: "pk_files s2 (PathForCert ?path ?name) = Some (CertFile (ca # cas))" "pk_files s2 (PathForKey ?path ?name) = Some (KeyFile k)"
    using authority_on_disk [OF a] files by (auto simp: familyFiles_def)
  have loop: "\<forall>config \<in> set (cf_commonConfig fam). x_PublicKey ca = k \<and> issued s' ca (commonPath fam config) config"
    using generateCommon_loop [OF g] files by (simp add: familyFiles_def)
  have t: "touches ?P (forP (cf_commonConfig fam) (generateCommon fam ca k))"
    by (intro touches_forP touches_generateCommon) auto
  have "pk_files s' p = pk_files s2 p" if "p \<in> set (filesOf ?path ?name)" for p
    using touchesD [OF t g] that files by (auto simp: familyFiles_def)
  hence "pk_files s' (PathForCert ?path ?name) = Some (CertFile (ca # cas))" "pk_files s' (PathForKey ?path ?name) = Some (KeyFile k)"
    using ca by (auto simp: filesOf_def)
  thus ?thesis
    unfolding familyOk_def using loop some by (metis list.set_intros(1) neq_Nil_conv)
qed

lemma families_ok:
  assumes "forP fams family_GenerateAll s = (Inr (), s')" "distinct (concat (map familyFiles fams))" "\<forall>fam \<in> set fams. cf_commonConfig fam \<noteq> []"
  shows "\<forall>fam \<in> set fams. familyOk s' fam"
  using assms
proof (induction fams arbitrary: s)
  case (Cons x xs)
  obtain s1 where s1: "family_GenerateAll x s = (Inr (), s1)" "forP xs family_GenerateAll s1 = (Inr (), s')"
    using Cons.prems(1) by (auto simp: pki_iffs)
  have "familyOk s1 x"
    using family_GenerateAll_ok [OF s1(1)] Cons.prems by simp
  moreover have t: "touches (set (concat (map familyFiles xs))) (forP xs family_GenerateAll)"
    by (intro touches_forP touches_mono [OF touches_family]) auto
  have "pk_files s' p = pk_files s1 p" if "p \<in> set (familyFiles x)" for p
    using touchesD [OF t s1(2)] that Cons.prems(2) by auto
  ultimately have "familyOk s' x"
    by (auto intro: familyOk_frame)
  thus ?case
    using Cons.IH [OF s1(2)] Cons.prems by auto
qed simp

section \<open>All certificates of a cluster\<close>

definition pkiFiles :: "string \<Rightarrow> string \<Rightarrow> string list" where
  "pkiFiles certPath etcdCertPath = concat (map familyFiles [getKubeCertificateConfig certPath noNames [] [],
     getEtcdCertificateConfig etcdCertPath certPath [] [], getFrontProxyCertificateConfig certPath])
     @ [PathForKey certPath ''sa'', PathForPublicKey certPath ''sa'']"

lemma pkiFiles_eq:
  "pkiFiles certPath etcdCertPath = concat (map familyFiles [getKubeCertificateConfig certPath names nodeName DNSDomain,
     getEtcdCertificateConfig etcdCertPath certPath nodeName nodeIP, getFrontProxyCertificateConfig certPath])
     @ [PathForKey certPath ''sa'', PathForPublicKey certPath ''sa'']"
  by (simp add: pkiFiles_def familyFiles_def getKubeCertificateConfig_def getEtcdCertificateConfig_def certConfig_def commonPath_def Let_def)

lemma touches_keyPair: "touches {PathForKey path name, PathForPublicKey path name} (keyPair_GenerateAll path name)"
  unfolding keyPair_GenerateAll_def by auto

definition clusterFamilies :: "string \<Rightarrow> string \<Rightarrow> AltNames \<Rightarrow> string \<Rightarrow> string \<Rightarrow> net_ip \<Rightarrow> CertificateConfigFamily list" where
  "clusterFamilies certPath etcdCertPath names nodeName DNSDomain nodeIP = [getKubeCertificateConfig certPath names nodeName DNSDomain,
     getEtcdCertificateConfig etcdCertPath certPath nodeName nodeIP, getFrontProxyCertificateConfig certPath]"

lemma GenerateAll_families:
  assumes run: "GenerateAllKubernetesCerts certPath etcdCertPath nodeName serviceCIRD DNSDomain altNames nodeIP s = (Inr (), s')"
    and files: "distinct (pkiFiles certPath etcdCertPath)"
  obtains n where "svcFirstIPs (strings_Split serviceCIRD '','') \<lparr>an_DNSNames = [], an_IPs = [(ip_String nodeIP, nodeIP)]\<rparr> = Inr n"
    "\<forall>fam \<in> set (clusterFamilies certPath etcdCertPath (fold addAltName altNames n) nodeName DNSDomain nodeIP). familyOk s' fam"
proof -
  obtain n s1 where n: "svcFirstIPs (strings_Split serviceCIRD '','') \<lparr>an_DNSNames = [], an_IPs = [(ip_String nodeIP, nodeIP)]\<rparr> = Inr n"
    and g: "forP (clusterFamilies certPath etcdCertPath (fold addAltName altNames n) nodeName DNSDomain nodeIP) family_GenerateAll s = (Inr (), s1)"
    and k: "keyPair_GenerateAll certPath ''sa'' s1 = (Inr (), s')"
    using run unfolding GenerateAllKubernetesCerts_def GenerateKubeComponentCert_def clusterFamilies_def
    by (auto simp: pki_iffs Let_def split: if_splits)
  let ?fams = "clusterFamilies certPath etcdCertPath (fold addAltName altNames n) nodeName DNSDomain nodeIP"
  have d: "distinct (concat (map familyFiles ?fams) @ [PathForKey certPath ''sa'', PathForPublicKey certPath ''sa''])"
    using files unfolding clusterFamilies_def pkiFiles_eq [of certPath etcdCertPath "fold addAltName altNames n" nodeName DNSDomain nodeIP] .
  have ne: "\<forall>fam \<in> set ?fams. cf_commonConfig fam \<noteq> []"
    by (simp add: clusterFamilies_def getKubeCertificateConfig_def getEtcdCertificateConfig_def getFrontProxyCertificateConfig_def Let_def)
  have ok: "\<forall>fam \<in> set ?fams. familyOk s1 fam"
    by (rule families_ok [OF g _ ne]) (use d in simp)
  have "familyOk s' fam" if fam: "fam \<in> set ?fams" for fam
  proof (rule familyOk_frame)
    show "familyOk s1 fam"
      using ok fam by blast
    show "pk_files s' p = pk_files s1 p" if "p \<in> set (familyFiles fam)" for p
    proof (rule touchesD [OF touches_keyPair k])
      have "p \<in> set (concat (map familyFiles ?fams))"
        using that fam by auto
      thus "p \<notin> {PathForKey certPath ''sa'', PathForPublicKey certPath ''sa''}"
        using d by auto
    qed
  qed
  thus thesis
    using that n by blast
qed

text \<open>
  C21. A successful generation leaves a consistent set of certificates, whether the authorities were on disk before or are
  new: every certificate of a family is signed by the authority in the family's directory, with the
  subject, usages and names its configuration asks for, and belongs to the key in the file beside it.
\<close>

theorem generated_certificates_chain:
  assumes "GenerateAllKubernetesCerts certPath etcdCertPath nodeName serviceCIRD DNSDomain altNames nodeIP s = (Inr (), s')"
    and "distinct (pkiFiles certPath etcdCertPath)"
  shows "\<exists>names. \<forall>fam \<in> set (clusterFamilies certPath etcdCertPath names nodeName DNSDomain nodeIP). familyOk s' fam"
  using GenerateAll_families [OF assms] by metis

section \<open>Names\<close>

lemma keys_update: "fst ` set (AList.update k v al) = insert k (fst ` set al)"
  by (induction al) auto

lemma keys_fold: "fst ` set (fold (\<lambda>x. AList.update (f x) (g x)) xs al) = f ` set xs \<union> fst ` set al"
  by (induction xs arbitrary: al) (auto simp: keys_update)

text \<open>\<open>keyed f al\<close>: the key of every entry is the text \<open>f\<close> of its value.\<close>

definition keyed :: "('v \<Rightarrow> string) \<Rightarrow> (string \<times> 'v) list \<Rightarrow> bool" where
  "keyed f al = list_all (\<lambda>p. fst p = f (snd p)) al"

lemma keyed_update: "keyed f al \<Longrightarrow> keyed f (AList.update (f v) v al)"
  unfolding keyed_def by (induction al) auto

lemma keyed_fold: "keyed f al \<Longrightarrow> keyed f (fold (\<lambda>x. AList.update (f x) x) xs al)"
  by (induction xs arbitrary: al) (simp_all add: keyed_update)

lemma keyed_values: "keyed f al \<Longrightarrow> f ` snd ` set al = fst ` set al"
  unfolding keyed_def list_all_iff by (simp add: image_image)

lemma keyed_id: "keyed (\<lambda>x. x) al \<Longrightarrow> snd ` set al = fst ` set al"
  using keyed_values [of "\<lambda>x. x" al] by simp

definition namesWf :: "AltNames \<Rightarrow> bool" where
  "namesWf n \<longleftrightarrow> keyed (\<lambda>x. x) (an_DNSNames n) \<and> keyed ip_String (an_IPs n)"

definition dnsOf :: "AltNames \<Rightarrow> string set" where
  "dnsOf n = fst ` set (an_DNSNames n)"

definition ipsOf :: "AltNames \<Rightarrow> string set" where
  "ipsOf n = fst ` set (an_IPs n)"

definition domainNames :: "string list \<Rightarrow> string set" where
  "domainNames names = {a \<in> set names. net_ParseIP a = []}"

definition addressNames :: "string list \<Rightarrow> string set" where
  "addressNames names = (\<lambda>a. ip_String (net_ParseIP a)) ` {a \<in> set names. net_ParseIP a \<noteq> []}"

definition firstAddresses :: "string list \<Rightarrow> string set" where
  "firstAddresses cidrs = {ip_String ip | ip c subnet. c \<in> set cidrs \<and> net_ParseCIDR c = Inr subnet \<and> utilnet_GetIndexedIP subnet 1 = Inr ip}"

lemma addAltName_names:
  "namesWf n \<Longrightarrow> namesWf (addAltName a n)"
  "dnsOf (addAltName a n) = dnsOf n \<union> domainNames [a]" "ipsOf (addAltName a n) = ipsOf n \<union> addressNames [a]"
  by (auto simp: addAltName_def Let_def namesWf_def dnsOf_def ipsOf_def domainNames_def addressNames_def keyed_update keys_update
      intro: keyed_update [of "\<lambda>x. x", simplified])

lemma altNames_names:
  "namesWf n \<Longrightarrow> namesWf (fold addAltName as n)
    \<and> dnsOf (fold addAltName as n) = dnsOf n \<union> domainNames as \<and> ipsOf (fold addAltName as n) = ipsOf n \<union> addressNames as"
proof (induction as arbitrary: n)
  case Nil
  thus ?case
    by (simp add: domainNames_def addressNames_def)
next
  case (Cons a as)
  have "domainNames (a # as) = domainNames [a] \<union> domainNames as" "addressNames (a # as) = addressNames [a] \<union> addressNames as"
    by (auto simp: domainNames_def addressNames_def)
  thus ?case
    using Cons.IH [OF addAltName_names(1) [OF Cons.prems]] by (simp add: addAltName_names Un_assoc)
qed

lemma svcFirstIPs_names:
  "svcFirstIPs cidrs n = Inr n' \<Longrightarrow> namesWf n \<Longrightarrow> namesWf n' \<and> dnsOf n' = dnsOf n \<and> ipsOf n' = ipsOf n \<union> firstAddresses cidrs"
proof (induction cidrs arbitrary: n)
  case Nil
  thus ?case
    by (simp add: firstAddresses_def)
next
  case (Cons c cs)
  obtain subnet ip where c: "net_ParseCIDR c = Inr subnet" "utilnet_GetIndexedIP subnet 1 = Inr ip"
      "svcFirstIPs cs (n\<lparr>an_IPs := AList.update (ip_String ip) ip (an_IPs n)\<rparr>) = Inr n'"
    using Cons.prems(1) by (auto simp: bindR_Inr_iff mapErrR_def split: sum.splits)
  have "namesWf (n\<lparr>an_IPs := AList.update (ip_String ip) ip (an_IPs n)\<rparr>)"
    using Cons.prems(2) by (simp add: namesWf_def keyed_update)
  hence "namesWf n' \<and> dnsOf n' = dnsOf n \<and> ipsOf n' = insert (ip_String ip) (ipsOf n) \<union> firstAddresses cs"
    using Cons.IH [OF c(3)] by (simp add: dnsOf_def ipsOf_def keys_update)
  moreover have "firstAddresses (c # cs) = insert (ip_String ip) (firstAddresses cs)"
    using c(1,2) by (auto simp: firstAddresses_def)
  ultimately show ?case
    by auto
qed

text \<open>
  C22. The certificate of the API server is valid for exactly these names: the standard names of the service, the name of the
  node, the domain names given; and these addresses: the loopback address, that of the node, the first address
  of every service subnet, the addresses given.
\<close>

theorem api_server_certificate_names:
  assumes "GenerateAllKubernetesCerts certPath etcdCertPath nodeName serviceCIRD DNSDomain altNames nodeIP s = (Inr (), s')"
    and "distinct (pkiFiles certPath etcdCertPath)"
  shows "\<exists>c. pk_files s' (PathForCert certPath ''apiserver'') = Some (CertFile [c])
    \<and> set (x_DNSNames c) = {''localhost'', ''kubernetes'', ''kubernetes.default'', ''kubernetes.default.svc'', nodeName,
        ''kubernetes.default.svc.'' @ DNSDomain} \<union> domainNames altNames
    \<and> ip_String ` set (x_IPAddresses c) = {ip_String (net_IPv4 [127, 0, 0, 1]), ip_String nodeIP}
        \<union> firstAddresses (strings_Split serviceCIRD '','') \<union> addressNames altNames"
proof -
  let ?start = "\<lparr>an_DNSNames = [], an_IPs = [(ip_String nodeIP, nodeIP)]\<rparr>"
  obtain n where n: "svcFirstIPs (strings_Split serviceCIRD '','') ?start = Inr n"
    and ok: "\<forall>fam \<in> set (clusterFamilies certPath etcdCertPath (fold addAltName altNames n) nodeName DNSDomain nodeIP). familyOk s' fam"
    using GenerateAll_families [OF assms] by blast
  define names where "names = fold addAltName altNames n"
  define api where "api = apiServerNames names nodeName DNSDomain"
  have start: "namesWf ?start" "dnsOf ?start = {}" "ipsOf ?start = {ip_String nodeIP}"
    by (simp_all add: namesWf_def keyed_def dnsOf_def ipsOf_def)
  have names: "namesWf names" "dnsOf names = domainNames altNames"
      "ipsOf names = insert (ip_String nodeIP) (firstAddresses (strings_Split serviceCIRD '','') \<union> addressNames altNames)"
    using svcFirstIPs_names [OF n start(1)] altNames_names [of n altNames] start by (auto simp: names_def)
  have dns: "snd ` set (an_DNSNames names) = domainNames altNames"
    using names(1,2) keyed_id by (simp add: namesWf_def dnsOf_def)
  have ips: "ip_String ` snd ` set (an_IPs names) = insert (ip_String nodeIP) (firstAddresses (strings_Split serviceCIRD '','') \<union> addressNames altNames)"
    using names(1,3) keyed_values [of ip_String "an_IPs names"] by (simp add: namesWf_def ipsOf_def)
  have wf: "keyed (\<lambda>x. x) (an_DNSNames api)" "keyed ip_String (an_IPs api)"
    unfolding api_def apiServerNames_def Let_def AltNames.select_convs by (intro keyed_fold; simp add: keyed_def)+
  have "familyOk s' (getKubeCertificateConfig certPath names nodeName DNSDomain)"
    using ok by (simp add: clusterFamilies_def names_def)
  then obtain c where c: "pk_files s' (PathForCert certPath ''apiserver'') = Some (CertFile [c])"
      "x_DNSNames c = map snd (an_DNSNames api)" "x_IPAddresses c = map snd (an_IPs api)"
    by (auto simp: familyOk_def getKubeCertificateConfig_def issued_def certConfig_def commonPath_def Let_def api_def)
  have "set (x_DNSNames c) = fst ` set (an_DNSNames api)" "ip_String ` set (x_IPAddresses c) = fst ` set (an_IPs api)"
    using c(2,3) keyed_id [OF wf(1)] keyed_values [OF wf(2)] by simp_all
  thus ?thesis
    using c(1) dns ips unfolding api_def apiServerNames_def Let_def AltNames.select_convs keys_fold
    by (auto simp: image_Un)
qed


definition freshHost :: pki where
  "freshHost = \<lparr>pk_files = (\<lambda>_. None), pk_keys = 0, pk_clock = (\<lambda>_. 0), pk_serial = (\<lambda>n. int n), pk_pem = (\<lambda>_. ''pem''),
     pk_err = (\<lambda>_ _ _. None), pk_steps = 0\<rparr>"

lemma freshHost_files: "distinct (pkiFiles ''/etc/kubernetes/pki'' ''/etc/kubernetes/pki/etcd'')"
  by code_simp

text \<open>\<open>yields m s x s'\<close>: in an environment that refuses nothing, \<open>m\<close> succeeds and the environment stays so.\<close>

definition calmP :: "pki \<Rightarrow> bool" where
  "calmP s = (pk_err s = (\<lambda>_ _ _. None))"

definition yields :: "'a pkiM \<Rightarrow> pki \<Rightarrow> 'a \<Rightarrow> pki \<Rightarrow> bool" where
  "yields m s x s' = (m s = (Inr x, s') \<and> calmP s')"

lemma yields_bindP: "yields m s x s1 \<Longrightarrow> yields (f x) s1 y s2 \<Longrightarrow> yields (bindP m f) s y s2"
  by (simp add: yields_def bindP_def)

lemma yields_thenP: "yields m s () s1 \<Longrightarrow> yields k s1 y s2 \<Longrightarrow> yields (thenP m k) s y s2"
  by (simp add: yields_bindP thenP_def)

lemma yields_mapErrP: "yields m s x s1 \<Longrightarrow> yields (mapErrP f m) s x s1"
  by (simp add: yields_def mapErrP_def)

lemma authority_yields:
  assumes "calmP s"
  shows "\<exists>ca k s'. yields (generateAuthorityCertificate fam) s (ca, k) s' \<and> x_PublicKey ca = k"
proof -
  have "\<exists>ca k s1. yields (authority_Generate d) s (ca, k) s1 \<and> x_PublicKey ca = k" for d
    using assms by (simp add: yields_def calmP_def authority_Generate_def NewPrivateKey_def generateSelfSignedCACert_def x509_CreateCertificate_def
        time_Now_def bindP_def thenP_def attempt_def mapErrP_def returnP_def)
  then obtain ca k s1 where g: "yields (authority_Generate (cc_descriptor (cf_caConfig fam))) s (ca, k) s1" "x_PublicKey ca = k"
    by blast
  have "\<exists>s2. yields (cfm_Write p n ca k) s1 () s2" for p n
    using g(1) by (simp add: yields_def calmP_def cfm_Write_def writeCert_def writeKey_def writeFileP_def bindP_def thenP_def attempt_def mapErrP_def Let_def)
  then obtain s2 where "yields (cfm_Write (cf_certPath fam) (cc_certName (cf_caConfig fam)) ca k) s1 () s2"
    by blast
  moreover have "yields (returnP (ca, k)) s2 (ca, k) s2"
    using calculation by (simp add: yields_def returnP_def)
  ultimately have "yields (generateAuthorityCertificate fam) s (ca, k) s2"
    unfolding generateAuthorityCertificate_def Let_def by (intro yields_bindP [OF yields_mapErrP [OF g(1)]]) (auto intro!: yields_thenP yields_mapErrP)
  thus ?thesis
    using g(2) by blast
qed

lemma generateCommon_yields:
  assumes "calmP s" "x_PublicKey ca = k" "NewCommonCertificateGenerator (cc_descriptor config) = Inr ()"
  shows "\<exists>s'. yields (generateCommon fam ca k config) s () s'"
  using assms by (simp add: yields_def calmP_def generateCommon_def common_Generate_def NewPrivateKey_def generateSignedCert_def x509_CreateCertificate_def
      cfm_Write_def writeCert_def writeKey_def writeFileP_def liftP_def time_Now_def bindP_def thenP_def attempt_def mapErrP_def returnP_def Let_def)

lemma commonLoop_yields:
  assumes "calmP s" "x_PublicKey ca = k" "\<forall>config \<in> set configs. NewCommonCertificateGenerator (cc_descriptor config) = Inr ()"
  shows "\<exists>s'. yields (forP configs (generateCommon fam ca k)) s () s'"
  using assms
proof (induction configs arbitrary: s)
  case Nil
  thus ?case
    by (intro exI [of _ s]) (simp add: yields_def returnP_def)
next
  case (Cons x xs)
  obtain s1 where s1: "yields (generateCommon fam ca k x) s () s1"
    using generateCommon_yields Cons.prems by (metis list.set_intros(1))
  hence "\<exists>s'. yields (forP xs (generateCommon fam ca k)) s1 () s'"
    using Cons by (intro Cons.IH) (auto simp: yields_def)
  thus ?case
    using s1 by (auto intro: yields_thenP)
qed

lemma family_yields:
  assumes "calmP s" "pk_files s (PathForCert (cf_certPath fam) (cc_certName (cf_caConfig fam))) = None"
    and "\<forall>config \<in> set (cf_commonConfig fam). NewCommonCertificateGenerator (cc_descriptor config) = Inr ()"
  shows "\<exists>s'. yields (family_GenerateAll fam) s () s'"
proof -
  have stat: "yields (statNotExist (PathForCert (cf_certPath fam) (cc_certName (cf_caConfig fam)))) s True (s\<lparr>pk_steps := Suc (pk_steps s)\<rparr>)"
    using assms(1,2) by (simp add: yields_def calmP_def statNotExist_def)
  obtain ca k s1 where a: "yields (generateAuthorityCertificate fam) (s\<lparr>pk_steps := Suc (pk_steps s)\<rparr>) (ca, k) s1" "x_PublicKey ca = k"
    using authority_yields stat by (metis yields_def)
  obtain s2 where "yields (forP (cf_commonConfig fam) (generateCommon fam ca k)) s1 () s2"
    using commonLoop_yields [OF _ a(2) assms(3)] a(1) by (auto simp: yields_def)
  hence "yields (family_GenerateAll fam) s () s2"
    unfolding family_GenerateAll_def generateCommonCertificate_def using a(1) by (intro yields_bindP [OF stat]) (simp add: yields_bindP)
  thus ?thesis
    by blast
qed

lemma families_yield:
  assumes "calmP s" "distinct (concat (map familyFiles fams))" "\<forall>p \<in> set (concat (map familyFiles fams)). pk_files s p = None"
    and "\<forall>fam \<in> set fams. \<forall>config \<in> set (cf_commonConfig fam). NewCommonCertificateGenerator (cc_descriptor config) = Inr ()"
  shows "\<exists>s'. yields (forP fams family_GenerateAll) s () s'"
  using assms
proof (induction fams arbitrary: s)
  case Nil
  thus ?case
    by (intro exI [of _ s]) (simp add: yields_def returnP_def)
next
  case (Cons x xs)
  have "PathForCert (cf_certPath x) (cc_certName (cf_caConfig x)) \<in> set (familyFiles x)"
    by (simp add: familyFiles_def filesOf_def)
  hence absent: "pk_files s (PathForCert (cf_certPath x) (cc_certName (cf_caConfig x))) = None"
    using Cons.prems(3) by simp
  obtain s1 where s1: "yields (family_GenerateAll x) s () s1"
    using family_yields [OF Cons.prems(1) absent] Cons.prems(4) by (metis list.set_intros(1))
  have "pk_files s1 p = None" if "p \<in> set (concat (map familyFiles xs))" for p
    using touchesD [OF touches_family, of x s "Inr ()" s1 p] s1 that Cons.prems(2,3) by (auto simp: yields_def)
  hence "\<exists>s'. yields (forP xs family_GenerateAll) s1 () s'"
    using s1 Cons.prems by (intro Cons.IH) (auto simp: yields_def)
  thus ?case
    using s1 by (auto intro: yields_thenP)
qed

text \<open>
  On a host without certificates, generation succeeds when nothing refuses an operation and the arguments are complete: names
  that are not empty and service subnets that have a first address.
\<close>

lemma fresh_generation_succeeds:
  assumes args: "certPath \<noteq> []" "etcdCertPath \<noteq> []" "nodeName \<noteq> []" "nodeIP \<noteq> []" "DNSDomain \<noteq> []"
    and svc: "svcFirstIPs (strings_Split serviceCIRD '','') \<lparr>an_DNSNames = [], an_IPs = [(ip_String nodeIP, nodeIP)]\<rparr> = Inr n"
    and env: "pk_err s = (\<lambda>_ _ _. None)" and files: "distinct (pkiFiles certPath etcdCertPath)" "\<forall>p \<in> set (pkiFiles certPath etcdCertPath). pk_files s p = None"
  shows "fst (GenerateAllKubernetesCerts certPath etcdCertPath nodeName serviceCIRD DNSDomain altNames nodeIP s) = Inr ()"
proof -
  define names where "names = fold addAltName altNames n"
  let ?fams = "clusterFamilies certPath etcdCertPath names nodeName DNSDomain nodeIP"
  have fs: "pkiFiles certPath etcdCertPath = concat (map familyFiles ?fams) @ [PathForKey certPath ''sa'', PathForPublicKey certPath ''sa'']"
    unfolding clusterFamilies_def by (rule pkiFiles_eq)
  have gen: "\<forall>fam \<in> set ?fams. \<forall>config \<in> set (cf_commonConfig fam). NewCommonCertificateGenerator (cc_descriptor config) = Inr ()"
    using args(3) by (simp add: clusterFamilies_def getKubeCertificateConfig_def getEtcdCertificateConfig_def getFrontProxyCertificateConfig_def
        certConfig_def descriptor_def NewCommonCertificateGenerator_def Let_def)
  obtain s1 where s1: "yields (forP ?fams family_GenerateAll) s () s1"
    using families_yield [of s ?fams] env files gen unfolding fs by (auto simp: calmP_def)
  have sa: "\<exists>s2. yields (keyPair_GenerateAll certPath ''sa'') s1 () s2"
    using s1 by (simp add: yields_def calmP_def keyPair_GenerateAll_def NewPrivateKey_def statNotExist_def writeFileP_def bindP_def thenP_def attempt_def
        mapErrP_def returnP_def)
  have "\<exists>s2. yields (thenP (GenerateKubeComponentCert ?fams) (keyPair_GenerateAll certPath ''sa'')) s () s2"
    unfolding GenerateKubeComponentCert_def using s1 sa by (auto intro: yields_thenP)
  thus ?thesis
    using args svc unfolding GenerateAllKubernetesCerts_def clusterFamilies_def names_def
    by (auto simp: yields_def bindP_def liftP_def Let_def)
qed

lemma freshHost_run:
  "fst (GenerateAllKubernetesCerts ''/etc/kubernetes/pki'' ''/etc/kubernetes/pki/etcd'' ''m0'' ''10.96.0.0/12'' ''cluster.local'' [''api.local''] [10, 0, 0, 1] freshHost) = Inr ()"
proof -
  have "\<not> isl (svcFirstIPs (strings_Split ''10.96.0.0/12'' '','') \<lparr>an_DNSNames = [], an_IPs = [(ip_String [10, 0, 0, 1], [10, 0, 0, 1])]\<rparr>)"
    by code_simp
  then obtain n where n: "svcFirstIPs (strings_Split ''10.96.0.0/12'' '','') \<lparr>an_DNSNames = [], an_IPs = [(ip_String [10, 0, 0, 1], [10, 0, 0, 1])]\<rparr> = Inr n"
    by (cases "svcFirstIPs (strings_Split ''10.96.0.0/12'' '','') \<lparr>an_DNSNames = [], an_IPs = [(ip_String [10, 0, 0, 1], [10, 0, 0, 1])]\<rparr>") auto
  show ?thesis
    by (rule fresh_generation_succeeds [OF _ _ _ _ _ n _ freshHost_files]) (simp_all add: freshHost_def)
qed

theorem generated_certificates_chain_witness:
  "\<exists>names. \<forall>fam \<in> set (clusterFamilies ''/etc/kubernetes/pki'' ''/etc/kubernetes/pki/etcd'' names ''m0'' ''cluster.local'' [10, 0, 0, 1]).
     familyOk (snd (GenerateAllKubernetesCerts ''/etc/kubernetes/pki'' ''/etc/kubernetes/pki/etcd'' ''m0'' ''10.96.0.0/12'' ''cluster.local'' [''api.local''] [10, 0, 0, 1] freshHost)) fam"
  by (rule generated_certificates_chain [OF _ freshHost_files]) (rule prod_eqI; simp add: freshHost_run)

theorem api_server_certificate_names_witness:
  "\<exists>c. pk_files (snd (GenerateAllKubernetesCerts ''/etc/kubernetes/pki'' ''/etc/kubernetes/pki/etcd'' ''m0'' ''10.96.0.0/12'' ''cluster.local'' [''api.local''] [10, 0, 0, 1] freshHost))
      (PathForCert ''/etc/kubernetes/pki'' ''apiserver'') = Some (CertFile [c]) \<and> ''m0'' \<in> set (x_DNSNames c) \<and> ''10.0.0.1'' \<in> ip_String ` set (x_IPAddresses c)"
proof -
  have ip: "ip_String [10, 0, 0, 1] = ''10.0.0.1''"
    by code_simp
  have run: "GenerateAllKubernetesCerts ''/etc/kubernetes/pki'' ''/etc/kubernetes/pki/etcd'' ''m0'' ''10.96.0.0/12'' ''cluster.local'' [''api.local''] [10, 0, 0, 1] freshHost
      = (Inr (), snd (GenerateAllKubernetesCerts ''/etc/kubernetes/pki'' ''/etc/kubernetes/pki/etcd'' ''m0'' ''10.96.0.0/12'' ''cluster.local'' [''api.local''] [10, 0, 0, 1] freshHost))"
    by (rule prod_eqI) (simp_all add: freshHost_run)
  show ?thesis
    using api_server_certificate_names [OF run freshHost_files] unfolding ip by (elim exE conjE, intro exI conjI) (assumption, simp_all)
qed

section \<open>Renewal\<close>

text \<open>
  Renewing the certificate of the API server keeps what it was valid for and adds the names given; the new certificate has
  the subject and usages of the old one, is signed by the authority on disk and belongs to the new key beside it; no other file changes.
\<close>

theorem renewal_keeps_names:
  assumes run: "UpdateAPIServerCertSans pkiPath certSans s = (Inr (), s')"
    and old: "pk_files s (PathForCert pkiPath ''apiserver'') = Some (CertFile (old # olds))"
    and ca: "pk_files s (PathForCert pkiPath ''ca'') = Some (CertFile (ca # cas))"
  shows "\<exists>c. pk_files s' = (pk_files s)(PathForCert pkiPath ''apiserver'' \<mapsto> CertFile [c], PathForKey pkiPath ''apiserver'' \<mapsto> KeyFile (x_PublicKey c))
    \<and> x_SignedBy c = x_PublicKey ca \<and> x_CommonName c = x_CommonName old \<and> x_Organization c = x_Organization old \<and> x_ExtKeyUsage c = x_ExtKeyUsage old
    \<and> set (x_DNSNames c) = set (x_DNSNames old) \<union> domainNames certSans
    \<and> ip_String ` set (x_IPAddresses c) = ip_String ` set (x_IPAddresses old) \<union> addressNames certSans"
proof -
  define n where "n = fold addAltName certSans noNames"
  obtain api k s1 ca' k' s2 c key s3 where r1: "cfm_Read pkiPath ''apiserver'' s = (Inr (api, k), s1)" and r2: "cfm_Read pkiPath ''ca'' s1 = (Inr (ca', k'), s2)"
    and g: "common_Generate (renewedDescriptor api n) ca' k' s2 = (Inr (c, key), s3)" and w: "cfm_Write pkiPath ''apiserver'' c key s3 = (Inr (), s')"
    using run unfolding UpdateAPIServerCertSans_def Let_def n_def by (auto simp: pki_iffs)
  have api: "api = old" "pk_files s1 = pk_files s"
    using cfm_Read_Inr [OF r1] old by auto
  have ca': "ca' = ca" "pk_files s2 = pk_files s"
    using cfm_Read_Inr [OF r2] ca api(2) by auto
  have s3: "pk_files s3 = pk_files s"
    using touchesD [OF touches_generate(3) [of "{}"] g] ca'(2) by auto
  define names where "names = ds_AltNames (renewedDescriptor old n)"
  have n: "namesWf n" "dnsOf n = domainNames certSans" "ipsOf n = addressNames certSans"
    using altNames_names [of noNames certSans] by (simp_all add: n_def namesWf_def keyed_def dnsOf_def ipsOf_def noNames_def)
  have wf: "keyed (\<lambda>x. x) (an_DNSNames names)" "keyed ip_String (an_IPs names)"
    using n(1) keyed_fold [of "\<lambda>x. x" "an_DNSNames n" "x_DNSNames old"] keyed_fold [of ip_String "an_IPs n" "x_IPAddresses old"]
    by (simp_all add: names_def renewedDescriptor_def namesWf_def)
  have keys: "fst ` set (an_DNSNames names) = set (x_DNSNames old) \<union> domainNames certSans"
      "fst ` set (an_IPs names) = ip_String ` set (x_IPAddresses old) \<union> addressNames certSans"
    using n(2,3) keys_fold [of "\<lambda>d. d" "\<lambda>d. d" "x_DNSNames old" "an_DNSNames n"]
    by (simp_all add: names_def renewedDescriptor_def dnsOf_def ipsOf_def keys_fold)
  have c: "x_PublicKey ca = k' \<and> x_PublicKey c = key \<and> x_SignedBy c = k' \<and> x_CommonName c = x_CommonName old \<and> x_Organization c = x_Organization old
      \<and> x_ExtKeyUsage c = x_ExtKeyUsage old \<and> x_DNSNames c = map snd (an_DNSNames names) \<and> x_IPAddresses c = map snd (an_IPs names)"
    using common_Generate_Inr [OF g] by (simp add: api ca' names_def) (simp add: renewedDescriptor_def)
  have "set (x_DNSNames c) = set (x_DNSNames old) \<union> domainNames certSans"
      "ip_String ` set (x_IPAddresses c) = ip_String ` set (x_IPAddresses old) \<union> addressNames certSans"
    using c keyed_id [OF wf(1)] keyed_values [OF wf(2)] keys by simp_all
  moreover have "pk_files s' = (pk_files s)(PathForCert pkiPath ''apiserver'' \<mapsto> CertFile [c], PathForKey pkiPath ''apiserver'' \<mapsto> KeyFile (x_PublicKey c))"
    using cfm_Write_Inr [OF w] c s3 by simp
  ultimately show ?thesis
    using c by blast
qed

definition someCert :: "string \<Rightarrow> privateKey \<Rightarrow> x509" where
  "someCert cn k = \<lparr>x_CommonName = cn, x_Organization = [], x_DNSNames = [''m0''], x_IPAddresses = [], x_SerialNumber = 0, x_NotBefore = 0, x_NotAfter = 1,
     x_CertSign = False, x_IsCA = False, x_ExtKeyUsage = [ServerAuth], x_Issuer = ''kubernetes'', x_PublicKey = k, x_SignedBy = 1\<rparr>"

definition pkiHost :: pki where
  "pkiHost = freshHost\<lparr>pk_keys := 7, pk_files := [''/pki/ca.crt'' \<mapsto> CertFile [someCert ''kubernetes'' 1], ''/pki/ca.key'' \<mapsto> KeyFile 1,
     ''/pki/apiserver.crt'' \<mapsto> CertFile [someCert ''kube-apiserver'' 2], ''/pki/apiserver.key'' \<mapsto> KeyFile 2]\<rparr>"

theorem renewal_keeps_names_witness:
  "\<exists>c. pk_files (snd (UpdateAPIServerCertSans ''/pki'' [''api.local''] pkiHost)) ''/pki/apiserver.crt'' = Some (CertFile [c])
    \<and> x_SignedBy c = 1 \<and> set (x_DNSNames c) = {''m0'', ''api.local''}"
proof -
  have run: "UpdateAPIServerCertSans ''/pki'' [''api.local''] pkiHost = (Inr (), snd (UpdateAPIServerCertSans ''/pki'' [''api.local''] pkiHost))"
  proof (rule prod_eqI)
    show "fst (UpdateAPIServerCertSans ''/pki'' [''api.local''] pkiHost) = fst (Inr (), snd (UpdateAPIServerCertSans ''/pki'' [''api.local''] pkiHost))"
      by code_simp
  qed simp
  have p: "PathForCert ''/pki'' ''apiserver'' = ''/pki/apiserver.crt''" "PathForKey ''/pki'' ''apiserver'' = ''/pki/apiserver.key''"
      "PathForCert ''/pki'' ''ca'' = ''/pki/ca.crt''" "net_ParseIP ''api.local'' = []"
    by code_simp+
  have "pk_files pkiHost (PathForCert ''/pki'' ''apiserver'') = Some (CertFile [someCert ''kube-apiserver'' 2])"
      "pk_files pkiHost (PathForCert ''/pki'' ''ca'') = Some (CertFile [someCert ''kubernetes'' 1])"
    unfolding p by (simp_all add: pkiHost_def)
  from renewal_keeps_names [OF run this] obtain c where
    c: "pk_files (snd (UpdateAPIServerCertSans ''/pki'' [''api.local''] pkiHost))
      = (pk_files pkiHost)(''/pki/apiserver.crt'' \<mapsto> CertFile [c], ''/pki/apiserver.key'' \<mapsto> KeyFile (x_PublicKey c))"
      "x_SignedBy c = x_PublicKey (someCert ''kubernetes'' 1)"
      "set (x_DNSNames c) = set (x_DNSNames (someCert ''kube-apiserver'' 2)) \<union> domainNames [''api.local'']"
    unfolding p by (elim exE conjE)
  have "domainNames [''api.local''] = {''api.local''}"
    by (simp add: domainNames_def p(4) Collect_conv_if)
  hence "set (x_DNSNames c) = {''m0'', ''api.local''}" "x_SignedBy c = 1"
    using c(2,3) by (simp_all add: someCert_def insert_commute)
  thus ?thesis
    by (intro exI [of _ c]) (simp add: c(1))
qed

section \<open>Kubeconfig files\<close>

lemma validate_existing:
  assumes "pk_files s (filepath_Join [outDir, f]) = Some c"
  shows "\<exists>r s1. validateKubeConfig outDir f config s = (Inr r, s1) \<and> r \<noteq> Missing \<and> pk_files s1 = pk_files s"
proof (cases "pk_err s (pk_steps s) ''os.Stat'' (filepath_Join [outDir, f])")
  case None
  have "\<exists>r s2. readFileP (filepath_Join [outDir, f]) (s\<lparr>pk_steps := Suc (pk_steps s)\<rparr>) = (r, s2) \<and> pk_files s2 = pk_files s"
    by (auto simp: readFileP_def thenP_def bindP_def attempt_def split: option.splits)
  then obtain r s2 where r: "readFileP (filepath_Join [outDir, f]) (s\<lparr>pk_steps := Suc (pk_steps s)\<rparr>) = (r, s2)" "pk_files s2 = pk_files s"
    by blast
  have "validateContents p config cur \<noteq> Missing" for p cur
    by (auto simp: validateContents_def split: option.splits)
  thus ?thesis
    using None assms r by (auto simp: validateKubeConfig_def Let_def split: sum.splits pkiFile.splits)
qed (simp add: validateKubeConfig_def Let_def)

lemma createIfNotExists_keeps:
  assumes "pk_files s p = Some c"
  shows "pk_files (snd (createKubeConfigFileIfNotExists outDir f config s)) p = Some c"
proof (cases "p = filepath_Join [outDir, f]")
  case True
  obtain r s1 where r: "validateKubeConfig outDir f config s = (Inr r, s1)" "r \<noteq> Missing" "pk_files s1 = pk_files s"
    using validate_existing assms True by metis
  thus ?thesis
    using assms by (cases r) (auto simp: createKubeConfigFileIfNotExists_def bindP_def returnP_def throwP_def)
next
  case False
  have "touches {filepath_Join [outDir, f]} (validateKubeConfig outDir f config)"
    by (auto simp: touches_def validateKubeConfig_def readFileP_def thenP_def bindP_def attempt_def Let_def split: option.splits pkiFile.splits)
  hence "touches {filepath_Join [outDir, f]} (createKubeConfigFileIfNotExists outDir f config)"
    unfolding createKubeConfigFileIfNotExists_def by (auto split: validation.splits)
  thus ?thesis
    using False assms unfolding touches_def by auto
qed

text \<open>\<open>preserves m\<close>: no file that exists is changed, whatever the result.\<close>

definition preserves :: "'a pkiM \<Rightarrow> bool" where
  "preserves m = (\<forall>s p c. pk_files s p = Some c \<longrightarrow> pk_files (snd (m s)) p = Some c)"

lemma preserves_touches: "touches {} m \<Longrightarrow> preserves m"
  by (simp add: touches_def preserves_def)

lemma preserves_bindP:
  assumes "preserves m" "\<And>x. preserves (f x)"
  shows "preserves (bindP m f)"
  unfolding preserves_def
proof (intro allI impI)
  fix s :: pki and p c
  assume "pk_files s p = Some c"
  hence "pk_files (snd (m s)) p = Some c"
    using assms(1) unfolding preserves_def by blast
  thus "pk_files (snd (bindP m f s)) p = Some c"
    using assms(2) unfolding preserves_def by (cases "m s"; cases "fst (m s)") (auto simp: bindP_def)
qed

lemma preserves_forP: "(\<And>x. preserves (f x)) \<Longrightarrow> preserves (forP xs f)"
proof (induction xs)
  case Nil
  show ?case
    by (auto intro!: preserves_touches)
next
  case (Cons x xs)
  show ?case
    unfolding forP.simps thenP_def by (intro preserves_bindP Cons)
qed

lemma preserves_createFiles: "preserves (createKubeConfigFiles outDir certPath certName nodeName endpoint clusterName names)"
proof -
  have specs: "touches {} (getKubeConfigSpecs certPath certName nodeName endpoint)"
    unfolding getKubeConfigSpecs_def Let_def by (auto split: prod.splits)
  have build: "touches {} (buildKubeConfigFromSpec spec clusterName)" for spec
    unfolding buildKubeConfigFromSpec_def Let_def by (auto split: option.splits)
  have create: "preserves (createKubeConfigFileIfNotExists outDir f config)" for f config
    unfolding preserves_def using createIfNotExists_keeps by blast
  have "preserves (case map_of specs f of
       None \<Rightarrow> throwP (Errorf ''couldn't retrieve KubeConfigSpec for %s'' [f])
     | Some spec \<Rightarrow> bindP (buildKubeConfigFromSpec spec clusterName) (createKubeConfigFileIfNotExists outDir f))" for specs f
    by (cases "map_of specs f") (auto intro: preserves_touches preserves_bindP [OF preserves_touches [OF build] create])
  thus ?thesis
    unfolding createKubeConfigFiles_def by (intro preserves_bindP preserves_forP preserves_touches [OF specs])
qed

lemma createIfNotExists_Inr:
  assumes "createKubeConfigFileIfNotExists outDir f config s = (Inr (), s')"
  shows "\<exists>cur. pk_files s' (filepath_Join [outDir, f]) = Some (ConfFile cur) \<and> (cur = config \<or> validateContents (filepath_Join [outDir, f]) config cur = Valid)"
proof -
  let ?p = "filepath_Join [outDir, f]"
  obtain v s1 where v: "validateKubeConfig outDir f config s = (Inr v, s1)"
    and k: "(case v of Valid \<Rightarrow> returnP () | Invalid e \<Rightarrow> throwP e
     | Missing \<Rightarrow> mapErrP (Wrapf ''failed to save kubeconfig file %q on disk: %v'' [?p]) (writeFileP ?p (ConfFile config))) s1 = (Inr (), s')"
    using assms unfolding createKubeConfigFileIfNotExists_def by (auto simp: bindP_Inr_iff)
  show ?thesis
  proof (cases v)
    case Valid
    hence "s' = s1"
      using k by (simp add: returnP_iff)
    moreover have "\<exists>cur. pk_files s1 ?p = Some (ConfFile cur) \<and> validateContents ?p config cur = Valid"
      using v Valid by (auto simp: validateKubeConfig_def Let_def readFileP_def thenP_def bindP_def attempt_def split: option.splits pkiFile.splits)
    ultimately show ?thesis
      by blast
  next
    case Missing
    thus ?thesis
      using k by (auto simp: writeFileP_def pki_iffs)
  next
    case (Invalid e)
    thus ?thesis
      using k by (simp add: throwP_iff)
  qed
qed

text \<open>
  C23. Kubeconfig files are never overwritten: creating the files of a control plane, whether it succeeds or fails, leaves every
  file that was there as it was.
\<close>

theorem kubeconfig_not_overwritten:
  assumes "pk_files s p = Some c"
  shows "pk_files (snd (CreateJoinControlPlaneKubeConfigFiles outDir caCertPath caCertName nodeName endpoint clusterName s)) p = Some c"
  using preserves_createFiles assms unfolding CreateJoinControlPlaneKubeConfigFiles_def preserves_def by blast

theorem kubeconfig_not_overwritten_witness:
  "pk_files (snd (CreateJoinControlPlaneKubeConfigFiles ''/root'' ''/pki'' ''ca'' ''m0'' ''https://api:6443'' ''kubernetes''
     (freshHost\<lparr>pk_files := [''/root/admin.conf'' \<mapsto> OtherFile ''mine'']\<rparr>))) ''/root/admin.conf'' = Some (OtherFile ''mine'')"
  by (rule kubeconfig_not_overwritten) simp

end
