(* ===== verification/Go_Sha256.thy ===== *)
theory Go_Sha256
  imports Aes
begin

unbundle bit_operations_syntax

text \<open>
  The package \<^verbatim>\<open>crypto/sha256\<close> of Go as the code uses it (one write, one sum), and \<^verbatim>\<open>encoding/hex\<close>: the
  name of the archive a directory is sent in is the digest of its path.
\<close>

type_synonym w32 = "32 word"

text \<open>
  The constants are the first 32 bits of the fractional parts of the cube roots of the first 64 primes, and the initial
  state those of the square roots of the first eight; the tables of Go hold the same numbers.
\<close>

definition sha256_K :: "w32 list" where
  "sha256_K = [
    1116352408, 1899447441, 3049323471, 3921009573, 961987163, 1508970993, 2453635748, 2870763221,
    3624381080, 310598401, 607225278, 1426881987, 1925078388, 2162078206, 2614888103, 3248222580,
    3835390401, 4022224774, 264347078, 604807628, 770255983, 1249150122, 1555081692, 1996064986,
    2554220882, 2821834349, 2952996808, 3210313671, 3336571891, 3584528711, 113926993, 338241895,
    666307205, 773529912, 1294757372, 1396182291, 1695183700, 1986661051, 2177026350, 2456956037,
    2730485921, 2820302411, 3259730800, 3345764771, 3516065817, 3600352804, 4094571909, 275423344,
    430227734, 506948616, 659060556, 883997877, 958139571, 1322822218, 1537002063, 1747873779,
    1955562222, 2024104815, 2227730452, 2361852424, 2428436474, 2756734187, 3204031479, 3329325298]"

definition sha256_H0 :: "w32 list" where
  "sha256_H0 = [
    1779033703, 3144134277, 1013904242, 2773480762, 1359893119, 2600822924, 528734635, 1541459225]"

definition sha_rotr :: "nat \<Rightarrow> w32 \<Rightarrow> w32" where
  "sha_rotr n x = drop_bit n x OR push_bit (32 - n) x"

text \<open>The message schedule: sixteen words of the block and forty-eight computed ones.\<close>

definition sha_next :: "w32 list \<Rightarrow> w32" where
  "sha_next ws = (let t = length ws; v1 = ws ! (t - 2); v2 = ws ! (t - 15) in
     (sha_rotr 17 v1 XOR sha_rotr 19 v1 XOR drop_bit 10 v1) + ws ! (t - 7) +
     (sha_rotr 7 v2 XOR sha_rotr 18 v2 XOR drop_bit 3 v2) + ws ! (t - 16))"

primrec sha_expand :: "nat \<Rightarrow> w32 list \<Rightarrow> w32 list" where
  "sha_expand 0 ws = ws"
| "sha_expand (Suc n) ws = sha_expand n (ws @ [sha_next ws])"

fun sha_round :: "w32 \<times> w32 \<Rightarrow> w32 list \<Rightarrow> w32 list" where
  "sha_round (k, v) [a, b, c, d, e, f, g, h] =
     (let t1 = h + (sha_rotr 6 e XOR sha_rotr 11 e XOR sha_rotr 25 e) + ((e AND f) XOR (NOT e AND g)) + k + v;
          t2 = (sha_rotr 2 a XOR sha_rotr 13 a XOR sha_rotr 22 a) + ((a AND b) XOR (a AND c) XOR (b AND c))
      in [t1 + t2, a, b, c, d + t1, e, f, g])"
| "sha_round kv st = st"

definition sha_block :: "w32 list \<Rightarrow> w32 list \<Rightarrow> w32 list" where
  "sha_block H ws = map2 (+) H (fold sha_round (zip sha256_K (sha_expand 48 ws)) H)"

text \<open>The padding: a one bit, zeros, and the length in bits, big endian, to a multiple of 64 bytes.\<close>

definition sha_pad :: "nat list \<Rightarrow> nat list" where
  "sha_pad bs = (let n = length bs in
     bs @ [128] @ replicate ((119 - n mod 64) mod 64) 0 @ map (\<lambda>i. 8 * n div 256 ^ i mod 256) [7, 6, 5, 4, 3, 2, 1, 0])"

fun sha_words :: "nat list \<Rightarrow> w32 list" where
  "sha_words (a # b # c # d # bs) = of_nat (a * 2 ^ 24 + b * 2 ^ 16 + c * 2 ^ 8 + d) # sha_words bs"
| "sha_words _ = []"

primrec sha_blocks :: "nat \<Rightarrow> w32 list \<Rightarrow> w32 list \<Rightarrow> w32 list" where
  "sha_blocks 0 ws H = H"
| "sha_blocks (Suc n) ws H = sha_blocks n (drop 16 ws) (sha_block H (take 16 ws))"

definition sha256_Sum :: "string \<Rightarrow> nat list" where
  "sha256_Sum s = (let ws = sha_words (sha_pad (map of_char s)) in
     concat (map (\<lambda>v. map (\<lambda>i. unat v div 256 ^ i mod 256) [3, 2, 1, 0]) (sha_blocks (length ws div 16) ws sha256_H0)))"

definition hex_EncodeToString :: "nat list \<Rightarrow> string" where
  "hex_EncodeToString bs = concat (map (\<lambda>b. [''0123456789abcdef'' ! (b div 16 mod 16), ''0123456789abcdef'' ! (b mod 16)]) bs)"

section \<open>Laws\<close>

lemma length_sha_round [simp]: "length (sha_round kv st) = length st"
  by (induction kv st rule: sha_round.induct) (simp_all add: Let_def)

lemma length_sha_expand [simp]: "length (sha_expand n ws) = n + length ws"
  by (induction n arbitrary: ws) simp_all

lemma length_sha_blocks: "length H = 8 \<Longrightarrow> length (sha_blocks n ws H) = 8"
proof (induction n arbitrary: ws H)
  case (Suc n)
  have "length (fold sha_round kvs H) = length H" for kvs
    by (induction kvs arbitrary: H) simp_all
  with Suc show ?case by (simp add: sha_block_def)
qed simp

text \<open>The padded message is a whole number of blocks, and the digest has 64 hexadecimal digits.\<close>

lemma sha_pad_blocks: "length (sha_pad bs) mod 64 = 0"
proof -
  define r where "r = length bs mod 64"
  have r: "r < 64" by (simp add: r_def)
  have "(119 - r) mod 64 = (if r \<le> 55 then 55 - r else 119 - r)"
  proof (cases "r \<le> 55")
    case True
    then have "119 - r = 64 + (55 - r)" by simp
    then show ?thesis using True by (simp only: mod_add_self1) simp
  qed (use r in simp)
  then have "(r + (119 - r) mod 64 + 9) mod 64 = 0" using r by auto
  then have "(length bs + (119 - r) mod 64 + 9) mod 64 = 0" unfolding r_def by (metis mod_add_left_eq)
  then show ?thesis by (simp add: sha_pad_def Let_def r_def ac_simps)
qed

lemma length_sha256_hex [simp]: "length (hex_EncodeToString (sha256_Sum s)) = 64"
proof -
  have hex: "length (hex_EncodeToString bs) = 2 * length bs" for bs
    by (induction bs) (simp_all add: hex_EncodeToString_def)
  have bytes: "length (concat (map (\<lambda>v. map (\<lambda>i. unat v div 256 ^ i mod 256) [3, 2, 1, 0]) vs)) = 4 * length (vs :: w32 list)" for vs
    by (induction vs) simp_all
  show ?thesis
    by (simp only: hex sha256_Sum_def Let_def bytes length_sha_blocks [of sha256_H0] sha256_H0_def) (simp add: length_sha_blocks)
qed

text \<open>The tables are what they are said to be: \<open>c\<close> is a root of the prime in units of \<open>2 ^ - 32\<close>, rounded down.\<close>

definition root_bits :: "nat \<Rightarrow> nat \<Rightarrow> nat \<Rightarrow> bool" where
  "root_bits e p k = (let c = length (takeWhile (\<lambda>i. i ^ e \<le> p) [1, 2, 3, 4, 5, 6]) * 2 ^ 32 + k
     in c ^ e \<le> p * 2 ^ (32 * e) \<and> p * 2 ^ (32 * e) < (c + 1) ^ e)"

definition first_primes :: "nat list" where
  "first_primes = [2, 3, 5, 7, 11, 13, 17, 19, 23, 29, 31, 37, 41, 43, 47, 53, 59, 61, 67, 71, 73, 79, 83, 89, 97, 101, 103, 107, 109, 113, 127, 131,
    137, 139, 149, 151, 157, 163, 167, 173, 179, 181, 191, 193, 197, 199, 211, 223, 227, 229, 233, 239, 241, 251, 257, 263, 269, 271, 277, 281, 283, 293, 307, 311]"

lemma root_bits_cube [simp]:
  "root_bits 3 p k = (let c = length (takeWhile (\<lambda>i. i * i * i \<le> p) [1, 2, 3, 4, 5, 6]) * 4294967296 + k
     in c * c * c \<le> p * 79228162514264337593543950336 \<and> p * 79228162514264337593543950336 < (c + 1) * (c + 1) * (c + 1))"
  by (simp add: root_bits_def Let_def power3_eq_cube)

lemma sha256_K_table_0: "list_all2 (\<lambda>p k. root_bits 3 p (unat k)) (take 16 (drop 0 first_primes)) (take 16 (drop 0 sha256_K))"
  by (simp add: first_primes_def sha256_K_def Let_def)

lemma sha256_K_table_1: "list_all2 (\<lambda>p k. root_bits 3 p (unat k)) (take 16 (drop 16 first_primes)) (take 16 (drop 16 sha256_K))"
  by (simp add: first_primes_def sha256_K_def Let_def)

lemma sha256_K_table_2: "list_all2 (\<lambda>p k. root_bits 3 p (unat k)) (take 16 (drop 32 first_primes)) (take 16 (drop 32 sha256_K))"
  by (simp add: first_primes_def sha256_K_def Let_def)

lemma sha256_K_table_3: "list_all2 (\<lambda>p k. root_bits 3 p (unat k)) (take 16 (drop 48 first_primes)) (take 16 (drop 48 sha256_K))"
  by (simp add: first_primes_def sha256_K_def Let_def)

lemma sha256_H0_table: "list_all2 (\<lambda>p k. root_bits 2 p (unat k)) (take 8 first_primes) sha256_H0"
  by (simp add: root_bits_def first_primes_def sha256_H0_def Let_def)

end
