(* ===== verification/P2p_Archive.thy ===== *)
theory P2p_Archive
  imports Platforms Go_Sha256
begin

text \<open>
  The archives of the peer-to-peer distributor: \<^verbatim>\<open>createTarGz\<close> and \<^verbatim>\<open>tarGzDirectory\<close> of
  \<^verbatim>\<open>pkg/imagedistributor/p2p_distributor.go\<close>, which pack a mounted image, and \<^verbatim>\<open>extractTarGz\<close> of
  \<^verbatim>\<open>cmd/dist-receiver/main.go\<close>, which unpacks it on a host. An archive is the list of its entries; the
  compression around it gives back what it was given.
\<close>

section \<open>Directory trees\<close>

text \<open>
  A tree of directories, regular files and symbolic links. Of a link only matters what opening it
  gives: an error, a directory, or the content of a file. The entries of a directory are in lexical order, as
  \<^verbatim>\<open>filepath.Walk\<close> visits them.
\<close>

datatype link_target = Dangling | ToDir | ToFile string

datatype fs_tree = TDir "(string \<times> fs_tree) list" | TFile string | TLink link_target

datatype fs_node = FsDir | FsFile string | FsLink link_target

fun walk_tree :: "string \<Rightarrow> fs_tree \<Rightarrow> (string \<times> fs_node) list"
  and walk_entries :: "string \<Rightarrow> (string \<times> fs_tree) list \<Rightarrow> (string \<times> fs_node) list" where
  "walk_tree path (TDir es) = (path, FsDir) # walk_entries path es"
| "walk_tree path (TFile c) = [(path, FsFile c)]"
| "walk_tree path (TLink l) = [(path, FsLink l)]"
| "walk_entries path [] = []"
| "walk_entries path ((name, t) # es) = walk_tree (filepath_Join [path, name]) t @ walk_entries path es"

section \<open>Packing\<close>

datatype tar_type = TypeDir | TypeReg | TypeSymlink

record tar_entry =
  te_Name :: string
  te_Typeflag :: tar_type
  te_Body :: string

text \<open>
  One visit of the walk. The header of a link announces no data, so that copying what the link points
  to into the archive is refused unless it is empty.
\<close>

definition tarVisit :: "string \<times> fs_node \<Rightarrow> tar_entry res" where
  "tarVisit visit = (case visit of (filePath, node) \<Rightarrow> (case node of
       FsDir \<Rightarrow> Inr \<lparr>te_Name = filePath, te_Typeflag = TypeDir, te_Body = []\<rparr>
     | FsFile c \<Rightarrow> Inr \<lparr>te_Name = filePath, te_Typeflag = TypeReg, te_Body = c\<rparr>
     | FsLink Dangling \<Rightarrow> Inl (Errorf ''open %s: no such file or directory'' [filepath_Clean filePath])
     | FsLink ToDir \<Rightarrow> Inl (Errorf ''read %s: is a directory'' [filepath_Clean filePath])
     | FsLink (ToFile c) \<Rightarrow> (if c \<noteq> [] then Inl (Errorf ''archive/tar: write too long'' [])
         else Inr \<lparr>te_Name = filePath, te_Typeflag = TypeSymlink, te_Body = []\<rparr>)))"

definition createTarGz :: "string \<Rightarrow> fs_tree \<Rightarrow> tar_entry list res" where
  "createTarGz sourceDir t = mapR tarVisit (walk_tree sourceDir t)"

definition tarName :: "string \<Rightarrow> string" where
  "tarName sourceDir = fmt_Sprintf ''%s.tar.gz'' [hex_EncodeToString (sha256_Sum sourceDir)]"

definition tarGzDirectory :: "string \<Rightarrow> fs_tree \<Rightarrow> (string \<times> tar_entry list) res" where
  "tarGzDirectory sourceDir t = bindR (mapErrR (Wrapf ''failed to uncompress resource file: %s'' []) (createTarGz sourceDir t))
     (\<lambda>es. Inr (tarName sourceDir, es))"

section \<open>Unpacking\<close>

text \<open>
  The files of a host, by their clean absolute paths; the root directory is always there.
  \<^verbatim>\<open>os.MkdirAll\<close> makes what is missing of a path, \<^verbatim>\<open>os.Create\<close> needs the directory.
\<close>

type_synonym host_files = "string \<rightharpoonup> fs_node"

definition abspath :: "string list \<Rightarrow> string" where
  "abspath cs = concat (map (\<lambda>c. CHR ''/'' # c) cs)"

definition isDir :: "host_files \<Rightarrow> string \<Rightarrow> bool" where
  "isDir fs p = (p = ''/'' \<or> p = [] \<or> fs p = Some FsDir)"

fun mkdirs :: "string list \<Rightarrow> string list \<Rightarrow> host_files \<Rightarrow> unit res \<times> host_files" where
  "mkdirs base [] fs = (Inr (), fs)"
| "mkdirs base (c # cs) fs = (let p = abspath (base @ [c]) in case fs p of
       None \<Rightarrow> mkdirs (base @ [c]) cs (fs(p \<mapsto> FsDir))
     | Some FsDir \<Rightarrow> mkdirs (base @ [c]) cs fs
     | Some _ \<Rightarrow> (Inl (Errorf ''mkdir %s: not a directory'' [p]), fs))"

definition files_MkdirAll :: "string \<Rightarrow> host_files \<Rightarrow> unit res \<times> host_files" where
  "files_MkdirAll p fs = mkdirs [] (filter (\<lambda>c. c \<noteq> []) (strings_Split p ''/'')) fs"

definition files_Create :: "string \<Rightarrow> string \<Rightarrow> host_files \<Rightarrow> unit res \<times> host_files" where
  "files_Create p content fs =
     (if \<not> isDir fs (filepath_Dir p) then (Inl (Errorf ''open %s: no such file or directory'' [p]), fs)
      else if isDir fs p then (Inl (Errorf ''open %s: is a directory'' [p]), fs)
      else (Inr (), fs(p \<mapsto> FsFile content)))"

fun extractTarGz :: "tar_entry list \<Rightarrow> string \<Rightarrow> host_files \<Rightarrow> unit res \<times> host_files" where
  "extractTarGz [] dest fs = (Inr (), fs)"
| "extractTarGz (header # es) dest fs = (let target = filepath_Join [dest, te_Name header] in
     case te_Typeflag header of
       TypeDir \<Rightarrow> (case files_MkdirAll target fs of (Inl e, fs') \<Rightarrow> (Inl e, fs') | (Inr _, fs') \<Rightarrow> extractTarGz es dest fs')
     | TypeReg \<Rightarrow> (case files_Create (filepath_Clean target) (te_Body header) fs of
           (Inl e, fs') \<Rightarrow> (Inl e, fs') | (Inr _, fs') \<Rightarrow> extractTarGz es dest fs')
     | TypeSymlink \<Rightarrow> extractTarGz es dest fs)"

section \<open>Absolute paths\<close>

definition plainPath :: "string list \<Rightarrow> bool" where
  "plainPath cs = list_all (\<lambda>c. c \<noteq> [] \<and> CHR ''/'' \<notin> set c \<and> c \<noteq> ''.'' \<and> c \<noteq> ''..'') cs"

lemma plainPath_simps [simp]:
  "plainPath []" "plainPath (c # cs) \<longleftrightarrow> c \<noteq> [] \<and> CHR ''/'' \<notin> set c \<and> c \<noteq> ''.'' \<and> c \<noteq> ''..'' \<and> plainPath cs"
  "plainPath (cs @ ds) \<longleftrightarrow> plainPath cs \<and> plainPath ds"
  by (auto simp: plainPath_def)

lemma abspath_simps [simp]:
  "abspath [] = []" "abspath (c # cs) = CHR ''/'' # c @ abspath cs" "abspath (cs @ ds) = abspath cs @ abspath ds"
  "abspath cs = [] \<longleftrightarrow> cs = []"
  by (auto simp: abspath_def)

lemma abspath_Join: "cs \<noteq> [] \<Longrightarrow> abspath cs = ''/'' @ strings_Join cs ''/''"
proof (induction cs)
  case (Cons c cs)
  then show ?case by (cases "cs = []") (simp_all add: strings_Join_Cons)
qed simp

lemma split_abspath: "plainPath cs \<Longrightarrow> strings_Split (abspath cs) ''/'' = [] # cs"
proof (cases cs)
  case Nil
  then show ?thesis by (simp add: strings_Split_no_sep)
next
  case (Cons c ds)
  assume cs: "plainPath cs"
  have "strings_Split (strings_Join ([] # cs) ''/'') ''/'' = [] # cs"
    using cs by (intro strings_Split_Join) (auto simp: plainPath_def list_all_iff)
  then show ?thesis using Cons by (simp add: abspath_Join strings_Join_Cons del: abspath_simps)
qed

lemma abspath_inj: "plainPath cs \<Longrightarrow> plainPath ds \<Longrightarrow> abspath cs = abspath ds \<longleftrightarrow> cs = ds"
  using split_abspath [of cs] split_abspath [of ds] by (metis list.inject)

lemma plain_mem: "plainPath cs \<Longrightarrow> e \<in> set cs \<Longrightarrow> plainPath [e]"
  by (simp add: plainPath_def list_all_iff)

lemma clean_plain: "plainPath cs \<Longrightarrow> filter (\<lambda>e. e \<noteq> []) cs = cs"
  by (induction cs) auto

lemma clean_elems_path:
  assumes "\<forall>e \<in> set es. e = [] \<or> plainPath [e]" shows "clean_elems r [] es = filter (\<lambda>e. e \<noteq> []) es"
proof -
  have "\<forall>e \<in> set es. e \<noteq> ''.'' \<and> e \<noteq> ''..''"
  proof
    fix e assume "e \<in> set es"
    with assms have "e = [] \<or> plainPath [e]" by blast
    then show "e \<noteq> ''.'' \<and> e \<noteq> ''..''" by (elim disjE) simp_all
  qed
  from clean_elems_plain [OF this] show ?thesis by simp
qed

lemma clean_abspath: "plainPath cs \<Longrightarrow> filepath_Clean (abspath cs @ ''/'') = (if cs = [] then ''/'' else abspath cs)"
  and clean_abspath_self: "plainPath cs \<Longrightarrow> cs \<noteq> [] \<Longrightarrow> filepath_Clean (abspath cs) = abspath cs"
proof -
  assume cs: "plainPath cs"
  have el: "clean_elems r [] ([] # cs @ xs) = cs" if "xs = [] \<or> xs = [[]]" for r xs
  proof -
    have "\<forall>e \<in> set ([] # cs @ xs). e = [] \<or> plainPath [e]"
      using plain_mem [OF cs] that by (metis UnE empty_iff list.set(1) set_ConsD set_append)
    from clean_elems_path [OF this] that clean_plain [OF cs] show ?thesis by (elim disjE) simp_all
  qed
  have "strings_Split (strings_Join ([] # cs @ [[]]) ''/'') ''/'' = [] # cs @ [[]]"
    using cs by (intro strings_Split_Join) (auto simp: plainPath_def list_all_iff)
  moreover have "strings_Join ([] # cs @ [[]]) ''/'' = abspath cs @ ''/''"
    by (induction cs) (auto simp: strings_Join_Cons)
  ultimately have "strings_Split (abspath cs @ ''/'') ''/'' = [] # cs @ [[]]" by simp
  moreover have "prefix ''/'' (abspath cs @ ''/'')" by (cases cs) auto
  ultimately show "filepath_Clean (abspath cs @ ''/'') = (if cs = [] then ''/'' else abspath cs)"
    using el [of "[[]]"] by (auto simp: filepath_Clean_def Let_def abspath_Join simp del: clean_elems.simps)
  assume "cs \<noteq> []"
  then have "prefix ''/'' (abspath cs)" by (cases cs) auto
  then have "filepath_Clean (abspath cs) = ''/'' @ strings_Join cs ''/''"
    using el [of "[]"] by (simp add: filepath_Clean_def Let_def split_abspath [OF cs] del: clean_elems.simps abspath_simps)
  then show "filepath_Clean (abspath cs) = abspath cs" using abspath_Join [OF \<open>cs \<noteq> []\<close>] by simp
qed

lemma join_abspath:
  assumes "plainPath cs" "plainPath ds" "cs \<noteq> []" "ds \<noteq> []"
  shows "filepath_Join [abspath cs, abspath ds] = abspath (cs @ ds)"
proof -
  have "strings_Split (strings_Join ([] # cs @ [] # ds) ''/'') ''/'' = [] # cs @ [] # ds"
    using assms by (intro strings_Split_Join) (auto simp: plainPath_def list_all_iff)
  moreover have "strings_Join ([] # cs @ [] # ds) ''/'' = abspath cs @ ''/'' @ abspath ds"
    using assms(4) by (induction cs) (auto simp: strings_Join_Cons abspath_Join)
  ultimately have "strings_Split (abspath cs @ ''/'' @ abspath ds) ''/'' = [] # cs @ [] # ds" by simp
  moreover have "clean_elems r [] ([] # cs @ [] # ds) = cs @ ds" for r
  proof -
    have "\<forall>e \<in> set ([] # cs @ [] # ds). e = [] \<or> plainPath [e]"
      using plain_mem [OF assms(1)] plain_mem [OF assms(2)] by (metis UnE set_ConsD set_append)
    from clean_elems_path [OF this] clean_plain [OF assms(1)] clean_plain [OF assms(2)] show ?thesis by simp
  qed
  moreover have "prefix ''/'' (abspath cs @ ''/'' @ abspath ds)" using assms by (cases cs) auto
  ultimately show ?thesis
    using assms abspath_Join [of "cs @ ds"]
    by (simp add: filepath_Join_def filepath_Clean_def Let_def del: clean_elems.simps)
qed

lemma join_name:
  assumes "plainPath cs" "cs \<noteq> []" "plainPath [c]"
  shows "filepath_Join [abspath cs, c] = abspath (cs @ [c])"
proof -
  have "abspath cs @ ''/'' @ c = abspath (cs @ [c])" by simp
  then have "filepath_Join [abspath cs, c] = filepath_Clean (abspath (cs @ [c]))"
    using assms by (simp add: filepath_Join_def)
  also have "\<dots> = abspath (cs @ [c])" using assms by (intro clean_abspath_self) auto
  finally show ?thesis .
qed

lemma dir_abspath:
  assumes "plainPath cs" "plainPath [c]"
  shows "filepath_Dir (abspath (cs @ [c])) = (if cs = [] then ''/'' else abspath cs)"
proof -
  have "\<forall>x \<in> set (rev c). x \<noteq> CHR ''/''" using assms(2) by (metis plainPath_simps(2) set_rev)
  then have "dropWhile (\<lambda>x. x \<noteq> CHR ''/'') (rev (abspath (cs @ [c]))) = CHR ''/'' # rev (abspath cs)"
    by (simp add: dropWhile_append3)
  then show ?thesis using clean_abspath [OF assms(1)] by (simp add: filepath_Dir_def)
qed

section \<open>Where an archive lands\<close>

text \<open>The nodes of a tree by their components, and trees without links whose names are names.\<close>

fun comp_tree :: "string list \<Rightarrow> fs_tree \<Rightarrow> (string list \<times> fs_node) list"
  and comp_entries :: "string list \<Rightarrow> (string \<times> fs_tree) list \<Rightarrow> (string list \<times> fs_node) list" where
  "comp_tree cs (TDir es) = (cs, FsDir) # comp_entries cs es"
| "comp_tree cs (TFile c) = [(cs, FsFile c)]"
| "comp_tree cs (TLink l) = [(cs, FsLink l)]"
| "comp_entries cs [] = []"
| "comp_entries cs ((name, t) # es) = comp_tree (cs @ [name]) t @ comp_entries cs es"

fun ok_tree :: "fs_tree \<Rightarrow> bool" and ok_entries :: "(string \<times> fs_tree) list \<Rightarrow> bool" where
  "ok_tree (TDir es) = (distinct (map fst es) \<and> ok_entries es)"
| "ok_tree (TFile c) = True"
| "ok_tree (TLink l) = False"
| "ok_entries [] = True"
| "ok_entries ((name, t) # es) = (plainPath [name] \<and> ok_tree t \<and> ok_entries es)"

abbreviation onPaths :: "(string list \<times> fs_node) list \<Rightarrow> (string \<times> fs_node) list" where
  "onPaths \<equiv> map (\<lambda>(c, n). (abspath c, n))"

lemma walk_comps:
  "plainPath cs \<Longrightarrow> cs \<noteq> [] \<Longrightarrow> ok_tree t \<Longrightarrow> walk_tree (abspath cs) t = onPaths (comp_tree cs t)"
  "plainPath cs \<Longrightarrow> cs \<noteq> [] \<Longrightarrow> ok_entries es \<Longrightarrow> walk_entries (abspath cs) es = onPaths (comp_entries cs es)"
proof (induction cs t and cs es rule: comp_tree_comp_entries.induct)
  case (5 cs name t es)
  then have "filepath_Join [abspath cs, name] = abspath (cs @ [name])" by (intro join_name) simp_all
  with 5 show ?case by simp
qed simp_all

lemma comp_below:
  "ok_tree t \<Longrightarrow> (q, n) \<in> set (comp_tree cs t) \<Longrightarrow> \<exists>rs. q = cs @ rs \<and> plainPath rs"
  "ok_entries es \<Longrightarrow> (q, n) \<in> set (comp_entries cs es) \<Longrightarrow> \<exists>m rs. m \<in> fst ` set es \<and> q = cs @ m # rs \<and> plainPath (m # rs)"
proof (induction cs t and cs es rule: comp_tree_comp_entries.induct)
  case (1 cs es)
  then show ?case by (cases "q = cs") fastforce+
next
  case (5 cs name t es)
  show ?case
  proof (cases "(q, n) \<in> set (comp_tree (cs @ [name]) t)")
    case True
    with 5 obtain rs where "q = cs @ name # rs" "plainPath rs" by auto
    then show ?thesis using 5(3) by (intro exI [of _ name] exI [of _ rs]) simp
  next
    case False
    with 5 obtain m rs where "m \<in> fst ` set es" "q = cs @ m # rs" "plainPath (m # rs)" by fastforce
    then show ?thesis by (intro exI [of _ m] exI [of _ rs]) simp
  qed
qed simp_all

lemma ok_names: "ok_entries ens \<Longrightarrow> m \<in> fst ` set ens \<Longrightarrow> plainPath [m]"
proof (induction ens)
  case (Cons e ens)
  then show ?case by (cases e) (auto simp del: plainPath_simps)
qed simp

lemma comp_shift:
  "comp_tree (ds @ cs) t = map (\<lambda>(q, n). (ds @ q, n)) (comp_tree cs t)"
  "comp_entries (ds @ cs) es = map (\<lambda>(q, n). (ds @ q, n)) (comp_entries cs es)"
  by (induction cs t and cs es rule: comp_tree_comp_entries.induct) simp_all

definition tarOf :: "string \<times> fs_node \<Rightarrow> tar_entry" where
  "tarOf v = \<lparr>te_Name = fst v, te_Typeflag = (case snd v of FsDir \<Rightarrow> TypeDir | FsFile _ \<Rightarrow> TypeReg | FsLink _ \<Rightarrow> TypeSymlink),
     te_Body = (case snd v of FsFile c \<Rightarrow> c | _ \<Rightarrow> [])\<rparr>"

lemma no_links:
  "ok_tree t \<Longrightarrow> (q, FsLink l) \<notin> set (comp_tree cs t)"
  "ok_entries es \<Longrightarrow> (q, FsLink l) \<notin> set (comp_entries cs es)"
  by (induction cs t and cs es rule: comp_tree_comp_entries.induct) auto

lemma mapR_all: "\<forall>x \<in> set xs. f x = Inr (g x) \<Longrightarrow> mapR f xs = Inr (map g xs)"
  by (simp add: mapR_Inr_iff list_all2_conv_all_nth)

lemma createTarGz_ok:
  assumes "plainPath ds" "ds \<noteq> []" "ok_tree t"
  shows "createTarGz (abspath ds) t = Inr (map tarOf (onPaths (comp_tree ds t)))"
proof -
  have "tarVisit (p, n) = Inr (tarOf (p, n))" if "\<forall>l. n \<noteq> FsLink l" for p n
    using that by (cases n) (simp_all add: tarVisit_def tarOf_def)
  then have "\<forall>v \<in> set (onPaths (comp_tree ds t)). tarVisit v = Inr (tarOf v)"
  proof -
    have "\<forall>l. n \<noteq> FsLink l" if "(q, n) \<in> set (comp_tree ds t)" for q n
      using no_links(1) [OF assms(3)] that by blast
    with \<open>\<And>p n. \<forall>l. n \<noteq> FsLink l \<Longrightarrow> tarVisit (p, n) = Inr (tarOf (p, n))\<close> show ?thesis by force
  qed
  then show ?thesis unfolding createTarGz_def walk_comps(1) [OF assms] by (rule mapR_all)
qed

section \<open>Making directories and files\<close>

definition dirsTo :: "host_files \<Rightarrow> string list \<Rightarrow> bool" where
  "dirsTo fs cs = (\<forall>k. 0 < k \<and> k \<le> length cs \<longrightarrow> fs (abspath (take k cs)) = Some FsDir)"

lemma mkdirs_ok:
  assumes "plainPath (base @ cs)" and "\<forall>k. 0 < k \<and> k \<le> length cs \<longrightarrow> fs (abspath (base @ take k cs)) \<in> {None, Some FsDir}"
  shows "mkdirs base cs fs = (Inr (), \<lambda>p. if \<exists>k. 0 < k \<and> k \<le> length cs \<and> p = abspath (base @ take k cs) then Some FsDir else fs p)"
  using assms
proof (induction cs arbitrary: base fs)
  case Nil
  then show ?case by auto
next
  case (Cons c cs)
  let ?p = "abspath (base @ [c])"
  let ?fs = "\<lambda>p. if p = ?p then Some FsDir else fs p"
  have p: "fs ?p = None \<or> fs ?p = Some FsDir" using Cons.prems(2) [rule_format, of 1] by auto
  have step: "mkdirs base (c # cs) fs = mkdirs (base @ [c]) cs ?fs"
  proof -
    have "fs(?p \<mapsto> FsDir) = ?fs" by (auto simp del: abspath_simps)
    moreover have "?fs = fs" if "fs ?p = Some FsDir" using that by (auto simp del: abspath_simps)
    ultimately show ?thesis using p by (auto simp: Let_def simp del: abspath_simps)
  qed
  have later: "?fs (abspath ((base @ [c]) @ take k cs)) \<in> {None, Some FsDir}" if "0 < k" "k \<le> length cs" for k
    using Cons.prems(2) [rule_format, of "Suc k"] that by (simp del: abspath_simps)
  have ex: "(\<exists>k. 0 < k \<and> k \<le> length (c # cs) \<and> p = abspath (base @ take k (c # cs))) \<longleftrightarrow>
      p = ?p \<or> (\<exists>k. 0 < k \<and> k \<le> length cs \<and> p = abspath ((base @ [c]) @ take k cs))" for p
  proof -
    have "(\<exists>k. 0 < k \<and> k \<le> length (c # cs) \<and> p = abspath (base @ take k (c # cs))) \<longleftrightarrow>
      (\<exists>k. k \<le> length cs \<and> p = abspath (base @ take (Suc k) (c # cs)))"
      by (metis Suc_le_mono length_Cons not0_implies_Suc not_gr_zero zero_less_Suc)
    also have "\<dots> \<longleftrightarrow> p = ?p \<or> (\<exists>k. 0 < k \<and> k \<le> length cs \<and> p = abspath ((base @ [c]) @ take k cs))"
      by (metis append.assoc append_Cons append_Nil le0 not_gr_zero take_0 take_Suc_Cons)
    finally show ?thesis .
  qed
  have "mkdirs (base @ [c]) cs ?fs = (Inr (), \<lambda>p. if \<exists>k. 0 < k \<and> k \<le> length cs \<and> p = abspath ((base @ [c]) @ take k cs) then Some FsDir else ?fs p)"
    using Cons.prems(1) later by (intro Cons.IH) (simp_all del: abspath_simps)
  then show ?case unfolding step ex by (auto simp: fun_eq_iff simp del: abspath_simps)
qed

text \<open>When the directory above is there, one directory is made.\<close>

lemma MkdirAll_child:
  assumes "plainPath (cs @ [c])" "dirsTo fs cs" "fs (abspath (cs @ [c])) = None"
  shows "files_MkdirAll (abspath (cs @ [c])) fs = (Inr (), fs(abspath (cs @ [c]) \<mapsto> FsDir))"
proof -
  have fs: "fs (abspath (take k (cs @ [c]))) = (if k = Suc (length cs) then None else Some FsDir)"
    if "0 < k" "k \<le> length (cs @ [c])" for k
    using that assms(2,3) by (cases "k = Suc (length cs)") (auto simp: dirsTo_def simp del: abspath_simps)
  have "mkdirs [] (cs @ [c]) fs = (Inr (), \<lambda>p. if \<exists>k. 0 < k \<and> k \<le> length (cs @ [c]) \<and> p = abspath ([] @ take k (cs @ [c])) then Some FsDir else fs p)"
    using assms(1) fs by (intro mkdirs_ok) (simp_all del: abspath_simps)
  also have "(\<lambda>p. if \<exists>k. 0 < k \<and> k \<le> length (cs @ [c]) \<and> p = abspath ([] @ take k (cs @ [c])) then Some FsDir else fs p) = fs(abspath (cs @ [c]) \<mapsto> FsDir)"
  proof
    fix p
    show "(if \<exists>k. 0 < k \<and> k \<le> length (cs @ [c]) \<and> p = abspath ([] @ take k (cs @ [c])) then Some FsDir else fs p) = (fs(abspath (cs @ [c]) \<mapsto> FsDir)) p"
    proof (cases "\<exists>k. 0 < k \<and> k \<le> length (cs @ [c]) \<and> p = abspath ([] @ take k (cs @ [c]))")
      case True
      then obtain k where k: "0 < k" "k \<le> length (cs @ [c])" "p = abspath (take k (cs @ [c]))" by auto
      with fs [of k] True show ?thesis by (cases "k = Suc (length cs)") (simp_all del: abspath_simps)
    next
      case False
      then have "p \<noteq> abspath (cs @ [c])" by (metis append_Nil length_append_singleton order_refl take_all zero_less_Suc)
      then show ?thesis unfolding if_not_P [OF False] by (simp del: abspath_simps)
    qed
  qed
  finally show ?thesis
    using clean_plain [OF assms(1)]
    by (simp add: files_MkdirAll_def split_abspath [OF assms(1)] fun_upd_def del: abspath_simps filter_append)
qed

lemma Create_child:
  assumes "plainPath (cs @ [c])" "dirsTo fs cs" "fs (abspath (cs @ [c])) = None"
  shows "files_Create (abspath (cs @ [c])) b fs = (Inr (), fs(abspath (cs @ [c]) \<mapsto> FsFile b))"
proof -
  have "isDir fs (filepath_Dir (abspath (cs @ [c])))"
    using assms(1,2) dir_abspath [of cs c]
    by (cases "cs = []") (auto simp: isDir_def dirsTo_def dest: spec [of _ "length cs"])
  moreover have "abspath (cs @ [c]) \<noteq> ''/''" using assms(1) by (cases cs) auto
  then have "\<not> isDir fs (abspath (cs @ [c]))" using assms(3) by (auto simp: isDir_def)
  ultimately show ?thesis by (simp add: files_Create_def del: abspath_simps)
qed

lemma MkdirAll_below:
  assumes "plainPath (es @ cs)" "dirsTo fs es" "\<forall>rs. rs \<noteq> [] \<longrightarrow> plainPath rs \<longrightarrow> fs (abspath (es @ rs)) = None"
  shows "\<exists>fs'. files_MkdirAll (abspath (es @ cs)) fs = (Inr (), fs') \<and> dirsTo fs' (es @ cs) \<and>
    (\<forall>rs. rs \<noteq> [] \<longrightarrow> plainPath rs \<longrightarrow> (\<forall>k. rs \<noteq> take k cs) \<longrightarrow> fs' (abspath (es @ rs)) = None)"
proof -
  let ?fs = "\<lambda>p. if \<exists>k. 0 < k \<and> k \<le> length (es @ cs) \<and> p = abspath ([] @ take k (es @ cs)) then Some FsDir else fs p"
  have "fs (abspath (take k (es @ cs))) \<in> {None, Some FsDir}" if "0 < k" "k \<le> length (es @ cs)" for k
  proof (cases "k \<le> length es")
    case True
    then show ?thesis using that assms(2) by (simp add: dirsTo_def)
  next
    case False
    have "plainPath (take (k - length es) cs)" using assms(1) by (metis append_take_drop_id plainPath_simps(3))
    moreover have "take (k - length es) cs \<noteq> []" using False that by (auto simp: not_le)
    moreover have "take k (es @ cs) = es @ take (k - length es) cs" using False by simp
    ultimately show ?thesis using assms(3) by (simp del: abspath_simps)
  qed
  then have "mkdirs [] (es @ cs) fs = (Inr (), ?fs)"
    using assms(1) by (intro mkdirs_ok) (simp_all del: abspath_simps)
  then have "files_MkdirAll (abspath (es @ cs)) fs = (Inr (), ?fs)"
    using clean_plain [OF assms(1)] by (simp add: files_MkdirAll_def split_abspath [OF assms(1)] del: abspath_simps)
  moreover have "dirsTo ?fs (es @ cs)" unfolding dirsTo_def by (auto simp del: abspath_simps)
  moreover have "?fs (abspath (es @ rs)) = None" if rs: "rs \<noteq> []" "plainPath rs" "\<forall>k. rs \<noteq> take k cs" for rs
  proof -
    have "abspath (es @ rs) \<noteq> abspath ([] @ take k (es @ cs))" for k
    proof
      assume eq: "abspath (es @ rs) = abspath ([] @ take k (es @ cs))"
      have "plainPath (take k (es @ cs))" using assms(1) by (metis append_take_drop_id plainPath_simps(3))
      with eq rs(2) assms(1) have "es @ rs = take k (es @ cs)"
        using abspath_inj [of "es @ rs" "take k (es @ cs)"] by (simp del: abspath_simps)
      moreover have "length es < k"
        using arg_cong [OF calculation, of length] rs(1) by (cases rs) auto
      ultimately have "rs = take (k - length es) cs" by simp
      with rs(3) show False by blast
    qed
    with rs assms(3) show ?thesis by (simp del: abspath_simps append_Nil)
  qed
  ultimately show ?thesis by blast
qed

section \<open>Unpacking a tree\<close>

definition putAll :: "string list \<Rightarrow> (string list \<times> fs_node) list \<Rightarrow> host_files \<Rightarrow> host_files" where
  "putAll es xs fs = fold (\<lambda>(q, n) m. m(abspath (es @ q) \<mapsto> n)) xs fs"

lemma putAll_simps [simp]:
  "putAll es [] fs = fs" "putAll es ((q, n) # xs) fs = putAll es xs (fs(abspath (es @ q) \<mapsto> n))"
  "putAll es (xs @ ys) fs = putAll es ys (putAll es xs fs)"
  by (simp_all add: putAll_def)

lemma putAll_other: "\<forall>(q, n) \<in> set xs. p \<noteq> abspath (es @ q) \<Longrightarrow> putAll es xs fs p = fs p"
  by (induction xs arbitrary: fs) auto

lemma putAll_keeps_dirs:
  assumes "dirsTo fs (es @ cs)" "plainPath (es @ cs)" "\<forall>(q, n) \<in> set xs. plainPath q \<and> length cs < length q"
  shows "dirsTo (putAll es xs fs) (es @ cs)"
  unfolding dirsTo_def
proof (intro allI impI)
  fix k assume k: "0 < k \<and> k \<le> length (es @ cs)"
  have pl: "plainPath (take k (es @ cs))" using assms(2) by (metis append_take_drop_id plainPath_simps(3))
  have "\<forall>(q, n) \<in> set xs. abspath (take k (es @ cs)) \<noteq> abspath (es @ q)"
  proof (clarify)
    fix q n assume q: "(q, n) \<in> set xs" and eq: "abspath (take k (es @ cs)) = abspath (es @ q)"
    have "plainPath (es @ q)" using assms q by auto
    with eq pl have "take k (es @ cs) = es @ q" using abspath_inj by blast
    then have "length (es @ q) \<le> length (es @ cs)" using k by (metis length_take min.cobounded1)
    with assms(3) q show False by auto
  qed
  from putAll_other [OF this] show "putAll es xs fs (abspath (take k (es @ cs))) = Some FsDir"
    using assms(1) k by (simp add: dirsTo_def)
qed

abbreviation tarOn :: "(string list \<times> fs_node) list \<Rightarrow> tar_entry list" where
  "tarOn xs \<equiv> map tarOf (onPaths xs)"

lemma extract_tree:
  "ok_tree t \<Longrightarrow> cs = ds @ [c] \<Longrightarrow> plainPath (es @ cs) \<Longrightarrow> es \<noteq> [] \<Longrightarrow> dirsTo fs (es @ ds) \<Longrightarrow>
    (\<forall>rs. plainPath rs \<longrightarrow> fs (abspath (es @ cs @ rs)) = None) \<Longrightarrow>
    extractTarGz (tarOn (comp_tree cs t) @ rest) (abspath es) fs = extractTarGz rest (abspath es) (putAll es (comp_tree cs t) fs)"
  "ok_entries ens \<Longrightarrow> distinct (map fst ens) \<Longrightarrow> plainPath (es @ cs) \<Longrightarrow> es \<noteq> [] \<Longrightarrow> dirsTo fs (es @ cs) \<Longrightarrow>
    (\<forall>m rs. m \<in> fst ` set ens \<longrightarrow> plainPath rs \<longrightarrow> fs (abspath (es @ cs @ m # rs)) = None) \<Longrightarrow>
    extractTarGz (tarOn (comp_entries cs ens) @ rest) (abspath es) fs = extractTarGz rest (abspath es) (putAll es (comp_entries cs ens) fs)"
proof (induction cs t and cs ens arbitrary: ds c fs rest and fs rest rule: comp_tree_comp_entries.induct)
  case (1 cs ens)
  have target: "filepath_Join [abspath es, abspath cs] = abspath (es @ cs)"
    using 1(3,4,5) by (intro join_abspath) auto
  let ?fs = "fs(abspath (es @ cs) \<mapsto> FsDir)"
  have mk: "files_MkdirAll (abspath (es @ cs)) fs = (Inr (), ?fs)"
    using MkdirAll_child [of "es @ ds" c fs] 1(3-) by (auto simp del: abspath_simps dest: spec [of _ "[]"])
  have dirs: "dirsTo ?fs (es @ cs)"
    using 1(6) unfolding 1(3) dirsTo_def by (auto simp: le_Suc_eq simp del: abspath_simps)
  have free: "\<forall>m rs. m \<in> fst ` set ens \<longrightarrow> plainPath rs \<longrightarrow> ?fs (abspath (es @ cs @ m # rs)) = None"
  proof (intro allI impI)
    fix m rs assume "m \<in> fst ` set ens" "plainPath rs"
    then have "plainPath (m # rs)" using ok_names [of ens m] 1(2) by simp
    with 1(7) have "fs (abspath (es @ cs @ m # rs)) = None" by blast
    then show "?fs (abspath (es @ cs @ m # rs)) = None" by simp
  qed
  have "extractTarGz (tarOn (comp_tree cs (TDir ens)) @ rest) (abspath es) fs = extractTarGz (tarOn (comp_entries cs ens) @ rest) (abspath es) ?fs"
    by (simp add: tarOf_def target mk del: abspath_simps)
  also have "\<dots> = extractTarGz rest (abspath es) (putAll es (comp_entries cs ens) ?fs)"
    using 1(2,4,5) by (intro 1(1) dirs free) simp_all
  finally show ?case by (simp del: abspath_simps)
next
  case (2 cs b)
  have target: "filepath_Join [abspath es, abspath cs] = abspath (es @ cs)"
    using 2 by (intro join_abspath) auto
  have cl: "filepath_Clean (abspath (es @ cs)) = abspath (es @ cs)"
    using 2 by (intro clean_abspath_self) auto
  have "files_Create (abspath (es @ cs)) b fs = (Inr (), fs(abspath (es @ cs) \<mapsto> FsFile b))"
    using Create_child [of "es @ ds" c fs b] 2 by (auto simp del: abspath_simps dest: spec [of _ "[]"])
  then show ?case by (simp add: tarOf_def target cl fun_upd_def del: abspath_simps)
next
  case (5 cs name t ens)
  let ?fs = "putAll es (comp_tree (cs @ [name]) t) fs"
  have sub: "\<forall>(q, n) \<in> set (comp_tree (cs @ [name]) t). plainPath q \<and> length cs < length q"
    using comp_below(1) [of t _ _ "cs @ [name]"] 5(3,5) by fastforce
  have dirs: "dirsTo ?fs (es @ cs)"
    using putAll_keeps_dirs [OF 5(7) 5(5) sub] .
  have free: "\<forall>m rs. m \<in> fst ` set ens \<longrightarrow> plainPath rs \<longrightarrow> ?fs (abspath (es @ cs @ m # rs)) = None"
  proof (intro allI impI)
    fix m rs assume m: "m \<in> fst ` set ens" and rs: "plainPath rs"
    then have pl: "plainPath (m # rs)" and ne: "m \<noteq> name" using ok_names [of ens m] 5(3,4) by auto
    have "\<forall>(q, n) \<in> set (comp_tree (cs @ [name]) t). abspath (es @ cs @ m # rs) \<noteq> abspath (es @ q)"
    proof clarify
      fix q n assume "(q, n) \<in> set (comp_tree (cs @ [name]) t)" and eq: "abspath (es @ cs @ m # rs) = abspath (es @ q)"
      then obtain us where q: "q = cs @ name # us" "plainPath us" using comp_below(1) [of t q n "cs @ [name]"] 5(3) by auto
      then have "plainPath (es @ q)" "plainPath (es @ cs @ m # rs)" using 5(3,5) pl by simp_all
      with eq have "es @ cs @ m # rs = es @ q" using abspath_inj by blast
      with q ne show False by simp
    qed
    from putAll_other [OF this] show "?fs (abspath (es @ cs @ m # rs)) = None" using 5(8) m rs by simp
  qed
  have "extractTarGz (tarOn (comp_entries cs ((name, t) # ens)) @ rest) (abspath es) fs =
      extractTarGz (tarOn (comp_tree (cs @ [name]) t) @ tarOn (comp_entries cs ens) @ rest) (abspath es) fs" by simp
  also have "\<dots> = extractTarGz (tarOn (comp_entries cs ens) @ rest) (abspath es) ?fs"
    using 5 by (intro 5(1) [of cs name]) auto
  also have "\<dots> = extractTarGz rest (abspath es) (putAll es (comp_entries cs ens) ?fs)"
    using 5 dirs free by (intro 5(2)) auto
  finally show ?case by simp
qed simp_all

lemma putAll_at:
  assumes "distinct (map fst xs)" "(q, n) \<in> set xs" "\<forall>(q, n) \<in> set xs. plainPath (es @ q)"
  shows "putAll es xs fs (abspath (es @ q)) = Some n"
  using assms
proof (induction xs arbitrary: fs)
  case (Cons x xs)
  obtain q' n' where x: "x = (q', n')" by (cases x)
  show ?case
  proof (cases "q' = q")
    case True
    then have "(q, m) \<notin> set xs" for m using Cons.prems(1) x by (auto simp: image_iff)
    with True Cons.prems(2) x have n: "n' = n" by auto
    have "\<forall>(q'', m) \<in> set xs. abspath (es @ q) \<noteq> abspath (es @ q'')"
    proof clarify
      fix q'' m assume m: "(q'', m) \<in> set xs" and eq: "abspath (es @ q) = abspath (es @ q'')"
      have "plainPath (es @ q'')" "plainPath (es @ q)" using m Cons.prems(2,3) by auto
      with eq have "q'' = q" using abspath_inj [of "es @ q" "es @ q''"] by (simp del: abspath_simps)
      with m \<open>\<And>m. (q, m) \<notin> set xs\<close> show False by simp
    qed
    from putAll_other [OF this] x True n show ?thesis by (simp del: abspath_simps)
  next
    case False
    with Cons x show ?thesis by (auto simp del: abspath_simps)
  qed
qed simp

lemma distinct_comps:
  "ok_tree t \<Longrightarrow> distinct (map fst (comp_tree cs t))"
  "ok_entries ens \<Longrightarrow> distinct (map fst ens) \<Longrightarrow> distinct (map fst (comp_entries cs ens))"
proof (induction cs t and cs ens rule: comp_tree_comp_entries.induct)
  case (1 cs es)
  have "cs \<noteq> q" if "(q, n) \<in> set (comp_entries cs es)" for q n
    using comp_below(2) [OF _ that] 1(2) by auto
  then have "cs \<notin> fst ` set (comp_entries cs es)" by force
  with 1 show ?case by simp
next
  case (5 cs name t es)
  have "q \<noteq> q'" if "(q, n) \<in> set (comp_tree (cs @ [name]) t)" "(q', n') \<in> set (comp_entries cs es)" for q n q' n'
    using comp_below(1) [OF _ that(1)] comp_below(2) [OF _ that(2)] 5(3,4) by auto
  with 5 show ?case by (fastforce simp: image_iff)
qed simp_all

lemma dirsTo_self: "dirsTo fs cs \<Longrightarrow> cs \<noteq> [] \<Longrightarrow> fs (abspath cs) = Some FsDir"
  unfolding dirsTo_def by (metis length_greater_0_conv order_refl take_all)

lemma unpack_whole:
  assumes "plainPath ds" "ds \<noteq> []" "plainPath es" "es \<noteq> []" and "ok_tree (TDir ens)"
    and "dirsTo fs es" and "\<forall>rs. rs \<noteq> [] \<longrightarrow> plainPath rs \<longrightarrow> fs (abspath (es @ rs)) = None"
  shows "\<exists>fs1. extractTarGz (tarOn (comp_tree ds (TDir ens))) (abspath es) fs = (Inr (), putAll es (comp_entries ds ens) fs1) \<and>
    dirsTo fs1 (es @ ds) \<and> (\<forall>rs. rs \<noteq> [] \<longrightarrow> plainPath rs \<longrightarrow> (\<forall>k. rs \<noteq> take k ds) \<longrightarrow> fs1 (abspath (es @ rs)) = None)"
proof -
  let ?xs = "comp_entries ds ens"
  have ok: "ok_entries ens" "distinct (map fst ens)" using assms(5) by simp_all
  have pl: "plainPath (es @ ds)" using assms(1,3) by simp
  obtain fs1 where mk: "files_MkdirAll (abspath (es @ ds)) fs = (Inr (), fs1)" and dirs: "dirsTo fs1 (es @ ds)"
    and free: "\<And>rs. rs \<noteq> [] \<Longrightarrow> plainPath rs \<Longrightarrow> \<forall>k. rs \<noteq> take k ds \<Longrightarrow> fs1 (abspath (es @ rs)) = None"
    using MkdirAll_below [OF pl assms(6,7)] by blast
  have free': "\<forall>m rs. m \<in> fst ` set ens \<longrightarrow> plainPath rs \<longrightarrow> fs1 (abspath (es @ ds @ m # rs)) = None"
  proof (intro allI impI)
    fix m rs assume "m \<in> fst ` set ens" "plainPath rs"
    then have "plainPath (ds @ m # rs)" using ok_names [OF ok(1)] assms(1) by simp
    moreover have "\<forall>k. ds @ m # rs \<noteq> take k ds"
      by (auto dest!: arg_cong [where f = length])
    ultimately show "fs1 (abspath (es @ ds @ m # rs)) = None" using free by blast
  qed
  have "extractTarGz (tarOn (comp_tree ds (TDir ens))) (abspath es) fs = extractTarGz (tarOn ?xs @ []) (abspath es) fs1"
    using join_abspath [OF assms(3,1,4,2)] mk by (simp add: tarOf_def del: abspath_simps)
  also have "\<dots> = (Inr (), putAll es ?xs fs1)"
    using extract_tree(2) [OF ok pl assms(4) dirs free', of "[]"] by simp
  finally have unpacked: "extractTarGz (tarOn (comp_tree ds (TDir ens))) (abspath es) fs = (Inr (), putAll es ?xs fs1)" .
  with dirs free show ?thesis by blast
qed

text \<open>
  C12. Unpacking what was packed: an image directory of files and directories, mounted at \<^verbatim>\<open>ds\<close> and sent to a
  directory \<^verbatim>\<open>es\<close> in which there is nothing yet, arrives complete: packing and unpacking succeed, and every file
  is there with its content. But it is there below the path of the mount directory, since the entries are named by
  the absolute paths they had: the file \<^verbatim>\<open>etc/x\<close> of the image is at \<^verbatim>\<open>es/ds/etc/x\<close>, and nothing is at
  \<^verbatim>\<open>es/etc/x\<close>, where the other distributor puts it and the installation looks for it.
\<close>

theorem archive_lands_below_mount_path:
  assumes "plainPath ds" "ds \<noteq> []" "plainPath es" "es \<noteq> []" and "ok_tree (TDir ens)"
    and "dirsTo fs es" and "\<forall>rs. rs \<noteq> [] \<longrightarrow> plainPath rs \<longrightarrow> fs (abspath (es @ rs)) = None"
  shows "\<exists>archive fs'. createTarGz (abspath ds) (TDir ens) = Inr archive \<and>
     extractTarGz archive (abspath es) fs = (Inr (), fs') \<and>
     (\<forall>rs n. (rs, n) \<in> set (comp_tree [] (TDir ens)) \<longrightarrow>
        fs' (filepath_Join [abspath es, abspath (ds @ rs)]) = Some n \<and>
        (rs \<noteq> [] \<and> hd rs \<noteq> hd ds \<longrightarrow> fs' (filepath_Join [abspath es, abspath rs]) = None))"
proof -
  let ?xs = "comp_entries ds ens"
  have ok: "ok_entries ens" "distinct (map fst ens)" and pl: "plainPath (es @ ds)" using assms(1,3,5) by simp_all
  obtain fs1 where unpacked: "extractTarGz (tarOn (comp_tree ds (TDir ens))) (abspath es) fs = (Inr (), putAll es ?xs fs1)"
    and dirs: "dirsTo fs1 (es @ ds)"
    and free: "\<And>rs. rs \<noteq> [] \<Longrightarrow> plainPath rs \<Longrightarrow> \<forall>k. rs \<noteq> take k ds \<Longrightarrow> fs1 (abspath (es @ rs)) = None"
    using unpack_whole [OF assms] by blast
  let ?fs = "putAll es ?xs fs1"
  have sub: "plainPath q \<and> length ds < length q \<and> (\<exists>us. q = ds @ us)" if "(q, n) \<in> set ?xs" for q n
    using comp_below(2) [OF ok(1) that] assms(1) by auto
  have present: "?fs (filepath_Join [abspath es, abspath (ds @ rs)]) = Some n" if "(rs, n) \<in> set (comp_tree [] (TDir ens))" for rs n
  proof -
    have "plainPath (ds @ rs)" using comp_below(1) [OF assms(5) that] assms(1) by simp
    then have j: "filepath_Join [abspath es, abspath (ds @ rs)] = abspath (es @ ds @ rs)"
      using assms(2,3,4) by (intro join_abspath) simp_all
    show ?thesis
    proof (cases "rs = []")
      case True
      then have "n = FsDir" using that comp_below(2) [OF ok(1), of "[]" n "[]"] by auto
      moreover have "dirsTo ?fs (es @ ds)" using putAll_keeps_dirs [OF dirs pl] sub by fastforce
      from dirsTo_self [OF this] have "?fs (abspath (es @ ds)) = Some FsDir" using assms(4) by simp
      ultimately show ?thesis using j True by simp
    next
      case False
      then have "(rs, n) \<in> set (comp_entries [] ens)" using that by simp
      then have "(ds @ rs, n) \<in> set ?xs" using comp_shift(2) [of ds "[]" ens] by (force simp: image_iff)
      then show ?thesis
        unfolding j using distinct_comps(2) [OF ok, of ds] sub assms(3) by (intro putAll_at) (auto simp del: abspath_simps)
    qed
  qed
  moreover have "?fs (filepath_Join [abspath es, abspath rs]) = None"
    if "(rs, n) \<in> set (comp_tree [] (TDir ens))" "rs \<noteq> []" "hd rs \<noteq> hd ds" for rs n
  proof -
    have rs: "plainPath rs" using comp_below(1) [OF assms(5) that(1)] by simp
    have j: "filepath_Join [abspath es, abspath rs] = abspath (es @ rs)" using rs assms that(2) by (intro join_abspath)
    have "\<forall>(q, n) \<in> set ?xs. abspath (es @ rs) \<noteq> abspath (es @ q)"
    proof clarify
      fix q n assume q: "(q, n) \<in> set ?xs" and eq: "abspath (es @ rs) = abspath (es @ q)"
      have "plainPath (es @ q)" "plainPath (es @ rs)" using sub [OF q] rs assms(3) by simp_all
      with eq have "rs = q" using abspath_inj [of "es @ rs" "es @ q"] by (simp del: abspath_simps)
      with sub [OF q] that(3) assms(2) show False by auto
    qed
    moreover have "\<forall>k. rs \<noteq> take k ds" using that(2,3) by (metis hd_take neq_Nil_conv take_eq_Nil gr0I)
    ultimately show ?thesis unfolding j using free [OF that(2) rs] by (simp add: putAll_other del: abspath_simps)
  qed
  ultimately show ?thesis using createTarGz_ok [OF assms(1,2,5)] unpacked by blast
qed

theorem archive_lands_below_mount_path_witness:
  "\<exists>archive fs'. createTarGz ''/m'' (TDir [(''etc'', TDir [(''x'', TFile ''1'')])]) = Inr archive \<and>
     extractTarGz archive ''/r'' [''/r'' \<mapsto> FsDir] = (Inr (), fs') \<and>
     fs' ''/r/m/etc/x'' = Some (FsFile ''1'') \<and> fs' ''/r/etc/x'' = None"
proof -
  let ?t = "[(''etc'', TDir [(''x'', TFile ''1'')])]"
  have "dirsTo [''/r'' \<mapsto> FsDir] [''r'']" by (auto simp: dirsTo_def le_Suc_eq)
  moreover have "\<forall>rs. rs \<noteq> [] \<longrightarrow> plainPath rs \<longrightarrow> [''/r'' \<mapsto> FsDir] (abspath ([''r''] @ rs)) = None"
    by (auto simp: neq_Nil_conv)
  ultimately obtain archive fs' where r: "createTarGz (abspath [''m'']) (TDir ?t) = Inr archive"
      "extractTarGz archive (abspath [''r'']) [''/r'' \<mapsto> FsDir] = (Inr (), fs')"
    and at_file: "\<forall>rs n. (rs, n) \<in> set (comp_tree [] (TDir ?t)) \<longrightarrow>
        fs' (filepath_Join [abspath [''r''], abspath ([''m''] @ rs)]) = Some n \<and>
        (rs \<noteq> [] \<and> hd rs \<noteq> hd [''m''] \<longrightarrow> fs' (filepath_Join [abspath [''r''], abspath rs]) = None)"
    using archive_lands_below_mount_path [of "[''m'']" "[''r'']" ?t "[''/r'' \<mapsto> FsDir]"] by auto
  have "fs' (filepath_Join [abspath [''r''], abspath ([''m''] @ [''etc'', ''x''])]) = Some (FsFile ''1'')"
    "fs' (filepath_Join [abspath [''r''], abspath [''etc'', ''x'']]) = None"
    using at_file by simp_all
  moreover have "filepath_Join [abspath [''r''], abspath ([''m''] @ [''etc'', ''x''])] = ''/r/m/etc/x''"
    "filepath_Join [abspath [''r''], abspath [''etc'', ''x'']] = ''/r/etc/x''"
    by code_simp+
  ultimately show ?thesis using r by auto
qed

text \<open>An image with a symbolic link that does not lead to an empty file cannot be packed at all.\<close>

theorem linked_image_not_packed:
  assumes "(p, FsLink l) \<in> set (walk_tree dir t)" and "l \<noteq> ToFile []"
  shows "\<exists>e. createTarGz dir t = Inl e"
proof (cases "createTarGz dir t")
  case (Inr es)
  then have all: "list_all2 (\<lambda>v e. tarVisit v = Inr e) (walk_tree dir t) es" by (simp add: createTarGz_def mapR_Inr_iff)
  obtain i where i: "i < length (walk_tree dir t)" "walk_tree dir t ! i = (p, FsLink l)" using assms(1) by (auto simp: in_set_conv_nth)
  with list_all2_nthD [OF all i(1)] have "tarVisit (p, FsLink l) = Inr (es ! i)" by simp
  with assms(2) show ?thesis by (cases l) (simp_all add: tarVisit_def split: if_splits)
qed blast

end
