(* ===== verification/P2p_Distributor.thy ===== *)
theory P2p_Distributor
  imports Image_Distributor P2p_Archive Go_Base64
begin

text \<open>
  The peer-to-peer distributor (\<^verbatim>\<open>pkg/imagedistributor/p2p_distributor.go\<close>) and the program it runs on the
  hosts (\<^verbatim>\<open>cmd/dist-receiver/main.go\<close>). The distributor packs a mounted image, adds it to an IPFS node of
  its own, starts a receiver on every host and leads the receivers through two stages by HTTP requests:
  at stage 1 they are connected to the distributor, at stage 2 they have unpacked the image.

  The parts run concurrently: the distributor, one goroutine of the distributor for every host that
  waits for the receiver's command, goroutines that send requests, and the receivers. The model is a
  machine whose events are the steps of these parts, in any order; losing a request, crashing a receiver
  and losing an SSH connection are events too. The IPFS libraries are calls of the environment.
\<close>

section \<open>Requests and answers\<close>

text \<open>The value of a key in a query (\<^verbatim>\<open>net/url\<close>): a plus sign stands for a space, and a percent sign for a byte.\<close>

definition hexVal :: "char \<Rightarrow> nat option" where
  "hexVal c = (let n = of_char c :: nat in
     if 48 \<le> n \<and> n \<le> 57 then Some (n - 48) else if 97 \<le> n \<and> n \<le> 102 then Some (n - 87)
     else if 65 \<le> n \<and> n \<le> 70 then Some (n - 55) else None)"

fun url_QueryUnescape :: "string \<Rightarrow> string option" where
  "url_QueryUnescape [] = Some []"
| "url_QueryUnescape (c # s) =
     (if c = CHR ''+'' then map_option ((#) (CHR '' '')) (url_QueryUnescape s)
      else if c = CHR ''%'' then (case s of
          a # b # t \<Rightarrow> (case (hexVal a, hexVal b) of
              (Some x, Some y) \<Rightarrow> map_option ((#) (char_of (16 * x + y))) (url_QueryUnescape t) | _ \<Rightarrow> None)
        | _ \<Rightarrow> None)
      else map_option ((#) c) (url_QueryUnescape s))"

definition url_pair :: "string \<Rightarrow> (string \<times> string) option" where
  "url_pair kv = (if kv = [] \<or> CHR '';'' \<in> set kv then None
     else (let k = takeWhile (\<lambda>c. c \<noteq> CHR ''='') kv; v = drop 1 (dropWhile (\<lambda>c. c \<noteq> CHR ''='') kv) in
       case (url_QueryUnescape k, url_QueryUnescape v) of (Some k', Some v') \<Rightarrow> Some (k', v') | _ \<Rightarrow> None))"

definition url_Query_Get :: "string \<Rightarrow> string \<Rightarrow> string" where
  "url_Query_Get rawQuery key =
     (case find (\<lambda>p. fst p = key) (List.map_filter url_pair (strings_Split rawQuery ''&'')) of Some (_, v) \<Rightarrow> v | None \<Rightarrow> [])"

section \<open>The receiver\<close>

text \<open>The libraries that read peer addresses.\<close>

record p2pLib =
  NewMultiaddr :: "string \<Rightarrow> string res"
  AddrInfoFromP2pAddr :: "string \<Rightarrow> (string \<times> string list) res"

record receiverArgs =
  ra_bootstrap :: string
  ra_cid :: string
  ra_filename :: string
  ra_target :: string

definition setupPlugins :: "string \<Rightarrow> unit io" where
  "setupPlugins externalPluginsPath =
     thenE (mapErr (Wrapf ''error loading plugins: %s'' []) (perform (LocalCall ''loader.NewPluginLoader'' [filepath_Join [externalPluginsPath, ''plugins'']])))
     (thenE (mapErr (Wrapf ''error initializing plugins: %s'' []) (perform (LocalCall ''plugins.Initialize'' [])))
            (mapErr (Wrapf ''error injecting plugins: %s'' []) (perform (LocalCall ''plugins.Inject'' []))))"

definition receiver_createTempRepo :: "string \<Rightarrow> string io" where
  "receiver_createTempRepo bootstrap =
     bindE (mapErr (Wrapf ''failed to get temp dir: %s'' []) (askText (LocalCall ''os.MkdirTemp'' [[], ''ipfs-shell'']))) (\<lambda>repoPath.
     thenE (perform (LocalCall ''config.Init'' [''2048'']))
     (thenE (mapErr (Wrapf ''failed to init ephemeral node: %s'' []) (perform (LocalCall ''fsrepo.Init'' [repoPath, ''Bootstrap'', bootstrap])))
       (returnE repoPath)))"

definition createNode :: "string \<Rightarrow> unit io" where
  "createNode repoPath = thenE (perform (LocalCall ''fsrepo.Open'' [repoPath])) (perform (LocalCall ''core.NewNode'' [repoPath]))"

definition spawnEphemeral :: "string \<Rightarrow> unit io" where
  "spawnEphemeral bootstrap = thenE (setupPlugins [])
     (bindE (mapErr (Wrapf ''failed to create temp repo: %s'' []) (receiver_createTempRepo bootstrap)) (\<lambda>repoPath.
      thenE (createNode repoPath) (perform (LocalCall ''coreapi.NewCoreAPI'' [repoPath]))))"

text \<open>
  \<^verbatim>\<open>connectToPeers\<close> reads every address before it connects to any peer, and gathers the addresses of a peer.
  A connection that fails panics, in a goroutine of its own.
\<close>

definition addPeer :: "string \<times> string list \<Rightarrow> (string \<times> string list) list \<Rightarrow> (string \<times> string list) list" where
  "addPeer p infos = (case p of (i, addrs) \<Rightarrow>
     if i \<in> fst ` set infos then map (\<lambda>(k, as). if k = i then (k, as @ addrs) else (k, as)) infos
     else infos @ [(i, addrs)])"

fun parsePeers :: "p2pLib \<Rightarrow> string list \<Rightarrow> (string \<times> string list) list \<Rightarrow> (string \<times> string list) list res" where
  "parsePeers lib [] infos = Inr infos"
| "parsePeers lib (addrStr # peers) infos =
     bindR (NewMultiaddr lib addrStr) (\<lambda>addr. bindR (AddrInfoFromP2pAddr lib addr) (\<lambda>pii.
       parsePeers lib peers (addPeer pii infos)))"

definition connectToPeers :: "p2pLib \<Rightarrow> string list \<Rightarrow> unit io" where
  "connectToPeers lib peers = bindE (liftR (parsePeers lib peers [])) (\<lambda>peerInfos.
     errgroup peerInfos (\<lambda>(i, addrs). mapErr (\<lambda>e. Panic (err_Error (Wrapf ''failed to connect to %s: %s'' [i] e)))
       (perform (LocalCall ''Swarm.Connect'' (i # addrs)))))"

text \<open>Errors that the receiver only prints, and errors that end it.\<close>

definition printE :: "unit io \<Rightarrow> unit io" where
  "printE m = bindE (tryE m) (\<lambda>_. returnE ())"

definition orPanic :: "string \<Rightarrow> unit io \<Rightarrow> unit io" where
  "orPanic msg m = mapErr (\<lambda>e. Panic (err_Error (Wrapf msg [] e))) m"

text \<open>\<^verbatim>\<open>main\<close> up to stage 1, between the two signals, and after the second one.\<close>

definition receiver_begin :: "p2pLib \<Rightarrow> receiverArgs \<Rightarrow> unit io" where
  "receiver_begin lib a = thenE (orPanic ''failed to spawn ephemeral node: %s'' (spawnEphemeral (ra_bootstrap a)))
     (printE (connectToPeers lib [ra_bootstrap a]))"

definition receiver_fetch :: "p2pLib \<Rightarrow> receiverArgs \<Rightarrow> string list \<Rightarrow> unit io" where
  "receiver_fetch lib a targets =
     thenE (printE (connectToPeers lib targets))
     (thenE (printE (perform (LocalCall ''Dht.Provide'' [ra_cid a])))
     (thenE (printE (perform (LocalCall ''Pin.Add'' [ra_cid a])))
     (thenE (orPanic ''could not get file with CID: %s'' (perform (LocalCall ''Unixfs.Get'' [ra_cid a])))
     (thenE (orPanic ''could not write out the fetched CID: %s'' (perform (LocalCall ''files.WriteTo'' [ra_filename a])))
     (thenE (orPanic ''failed to create target directory: %s'' (perform (LocalCall ''os.MkdirAll'' [ra_target a])))
            (orPanic ''failed to uncompress resource file: %s'' (perform (LocalCall ''extractTarGz'' [ra_filename a, ra_target a]))))))))"

definition receiver_end :: "receiverArgs \<Rightarrow> unit io" where
  "receiver_end a = printE (perform (LocalCall ''os.RemoveAll'' [ra_filename a]))"

text \<open>The handlers: \<^verbatim>\<open>/stage\<close> answers the stage in decimal, \<^verbatim>\<open>/connect\<close> sets the targets or does nothing.\<close>

definition stage_handler :: "int \<Rightarrow> string" where
  "stage_handler stageNow = itoa stageNow"

definition connect_handler :: "string \<Rightarrow> string list \<Rightarrow> string list" where
  "connect_handler rawQuery targets = (case base64decode (url_Query_Get rawQuery ''target'') of
       Inl _ \<Rightarrow> targets
     | Inr target \<Rightarrow> strings_Split target '','')"

section \<open>The distributor\<close>

record p2pDistributor =
  pd_yaml :: yamlLib
  pd_Identity :: string
  pd_sshInfraDriver :: SSHInfraDriver
  pd_imageMountInfo :: "ClusterImageMountInfo list"
  pd_registryCacheDir :: string
  pd_rootfsCacheDir :: string
  pd_configs :: "Config list"
  pd_options :: DistributeOption

definition createTempRepo :: "string io" where
  "createTempRepo = thenE (setupPlugins [])
     (bindE (mapErr (Wrapf ''failed to get temp dir: %s'' []) (askText (LocalCall ''os.MkdirTemp'' [[], ''ipfs-shell'']))) (\<lambda>repoPath.
     thenE (perform (LocalCall ''config.Init'' [''2048'']))
     (thenE (mapErr (Wrapf ''failed to init ephemeral node: %s'' []) (perform (LocalCall ''fsrepo.Init'' [repoPath, ''Addresses.Swarm'', ''/ip4/0.0.0.0/tcp/40011''])))
       (returnE repoPath))))"

definition constructPeerHost :: "string \<Rightarrow> string option \<Rightarrow> string list \<Rightarrow> unit io" where
  "constructPeerHost ident pkey options = (case pkey of
       None \<Rightarrow> throwE (Errorf ''missing private key for node ID: %s'' [ident])
     | Some k \<Rightarrow> perform (LocalCall ''libp2p.New'' ([''Identity'', ''Peerstore''] @ options)))"

definition spawnNode :: "string io" where
  "spawnNode = bindE (mapErr (Wrapf ''failed to create temp repo: %s'' []) createTempRepo) (\<lambda>repoPath.
     thenE (createNode repoPath) (askText (LocalCall ''coreapi.NewCoreAPI'' [repoPath])))"

definition NewP2PDistributor :: "yamlLib \<Rightarrow> ClusterImageMountInfo list \<Rightarrow> SSHInfraDriver \<Rightarrow> Config list \<Rightarrow> DistributeOption \<Rightarrow> p2pDistributor io" where
  "NewP2PDistributor yl imageMountInfo driver configs options =
     bindE (mapErr (Wrapf ''failed to create IPFS node: %s'' []) spawnNode) (\<lambda>ident. returnE
       \<lparr>pd_yaml = yl, pd_Identity = ident, pd_sshInfraDriver = driver, pd_imageMountInfo = imageMountInfo,
        pd_registryCacheDir = filepath_Join [GetClusterRootfsPath driver, ''cache'', ''registry''],
        pd_rootfsCacheDir = filepath_Join [GetClusterRootfsPath driver, ''cache'', ''image''],
        pd_configs = configs, pd_options = options\<rparr>)"

definition p2p_dumpConfigToRootfs :: "p2pDistributor \<Rightarrow> string \<Rightarrow> unit io" where
  "p2p_dumpConfigToRootfs p mountDir = Dump (pd_yaml p) mountDir (pd_configs p)"

definition p2p_renderRootfs :: "p2pDistributor \<Rightarrow> string \<Rightarrow> unit io" where
  "p2p_renderRootfs p mountDir = forE [filepath_Join [mountDir, ''etc''], filepath_Join [mountDir, ''charts''],
       filepath_Join [mountDir, ''manifests'']]
     (\<lambda>dir. bindE (os_IsFileExist dir) (\<lambda>ex.
        whenE ex (RenderTemplate dir (GetClusterEnv (pd_sshInfraDriver p)))))"

definition p2p_Restore :: "p2pDistributor \<Rightarrow> string \<Rightarrow> net_ip list \<Rightarrow> unit io" where
  "p2p_Restore p targetDir hosts =
     (if \<not> do_Prune (pd_options p) then returnE ()
      else (let rmRootfsCMD = fmt_Sprintf ''rm -rf %s'' [targetDir] in
        errgroup hosts (\<lambda>host.
          mapErr (Wrapf ''faild to delete rootfs on host [%s]: %v'' [ip_String host])
            (drv_CmdAsync (pd_sshInfraDriver p) host [] [rmRootfsCMD]))))"

definition getUnixfsNode :: "string \<Rightarrow> unit io" where
  "getUnixfsNode path = thenE (perform (LocalCall ''os.Stat'' [path])) (perform (LocalCall ''files.NewSerialFile'' [path]))"

definition cidToString :: "string \<Rightarrow> string" where
  "cidToString fullCid = fold (\<lambda>s _. s) (strings_Split fullCid ''/'') []"

text \<open>Packing an image and adding it to the node: the name of the archive and the identifier of its content.\<close>

definition p2p_add :: "string \<Rightarrow> (string \<times> string) io" where
  "p2p_add dir = (let name = tarName dir in
     thenE (mapErr (Wrapf ''failed to uncompress resource file: %s'' []) (perform (LocalCall ''createTarGz'' [dir, name])))
     (thenE (mapErr (Wrapf ''failed to prepare rootfs %s: %s'' [dir]) (getUnixfsNode name))
     (bindE (mapErr (Wrapf ''failed to add rootfs %s to IPFS network: %s'' [dir]) (askText (LocalCall ''Unixfs.Add'' [name, ''size-1048576''])))
       (\<lambda>cid. returnE (name, cidToString cid)))))"

definition getRealIP :: "p2pDistributor \<Rightarrow> net_ip \<Rightarrow> string io" where
  "getRealIP p host = bindE (mapErr (Wrapf ''failed to distribute to host %s: %s'' [ip_String host])
       (drv_Cmd (pd_sshInfraDriver p) host [] (''echo $SSH_CLIENT | awk '{print $1}'' @ [CHR 0x27])))
     (\<lambda>localIPBytes. returnE (strings_TrimSpace localIPBytes))"

text \<open>Starting a receiver. The result of the command is known when the receiver has ended.\<close>

definition p2p_launch :: "p2pDistributor \<Rightarrow> string \<Rightarrow> string \<Rightarrow> string \<Rightarrow> net_ip \<Rightarrow> receiverArgs io" where
  "p2p_launch p name cidString dest host =
     mapErr (Wrapf ''failed to distribute to host %s: %s'' [ip_String host])
     (bindE (getRealIP p host) (\<lambda>localIP.
       let localHost = fmt_Sprintf ''/ip4/%s/tcp/40011/p2p/%s'' [localIP, pd_Identity p];
           command = fmt_Sprintf ''/usr/bin/dist-receiver -bootstrap %s -cid %s -filename %s -target %s'' [localHost, cidString, name, dest]
       in bindE (drv_Cmd (pd_sshInfraDriver p) host [] command) (\<lambda>_. returnE
         \<lparr>ra_bootstrap = localHost, ra_cid = cidString, ra_filename = name, ra_target = dest\<rparr>)))"

definition knownAddrs :: "string list \<Rightarrow> string" where
  "knownAddrs known = fold (\<lambda>host remote. remote @ fmt_Sprintf ''%s,'' [host]) known []"

section \<open>The machine\<close>

datatype request = Connect string | Next

datatype rpc = RIdle | RSpawning | RAwaitPeers | RFetching | RAwaitEnd | RExited | RPanicked gerror

text \<open>What there is for one host: the goroutine that waits for the command, the receiver with its own environment, and the requests not yet sent to it.\<close>

record p2pNode =
  n_group :: "unit res option"
  n_pc :: rpc
  n_args :: "receiverArgs option"
  n_stage :: int
  n_targets :: "string list"
  n_sig :: nat
  n_reqs :: "request list"
  n_final :: "request list"
  n_world :: world
  n_received :: "receiverArgs list"

datatype dpc = Loop | Polling string "net_ip list" nat bool | Announcing | Waiting | Returned "unit res"

record p2pState =
  s_pc :: dpc
  s_todo :: "ClusterImageMountInfo list"
  s_log :: "string list"
  s_name :: string
  s_cid :: string
  s_err :: "gerror option"
  s_nodes :: "net_ip \<Rightarrow> p2pNode"
  s_world :: world

text \<open>One call of \<^verbatim>\<open>Distribute\<close>, or of \<^verbatim>\<open>DistributeRegistry\<close>.\<close>

record p2pJob =
  j_dist :: p2pDistributor
  j_lib :: p2pLib
  j_registry :: bool
  j_hosts :: "net_ip list"
  j_dest :: string

definition running :: "p2pNode \<Rightarrow> bool" where
  "running n = (n_pc n \<in> {RSpawning, RAwaitPeers, RFetching, RAwaitEnd})"

definition updNode :: "net_ip \<Rightarrow> (p2pNode \<Rightarrow> p2pNode) \<Rightarrow> p2pState \<Rightarrow> p2pState" where
  "updNode h f s = s\<lparr>s_nodes := (s_nodes s)(h := f (s_nodes s h))\<rparr>"

definition updHosts :: "p2pJob \<Rightarrow> (p2pNode \<Rightarrow> p2pNode) \<Rightarrow> p2pState \<Rightarrow> p2pState" where
  "updHosts j f s = s\<lparr>s_nodes := (\<lambda>h. if h \<in> set (j_hosts j) then f (s_nodes s h) else s_nodes s h)\<rparr>"

text \<open>The body of the loop over the images, up to the start of the goroutines. \<open>None\<close>: an image without registry data.\<close>

definition p2p_prepare :: "p2pJob \<Rightarrow> ClusterImageMountInfo \<Rightarrow> (string \<times> string) option io" where
  "p2p_prepare j info = (let add = mapErr (Wrapf ''failed to distribute: %s'' []) (bindE (p2p_add (mi_MountDir info)) (\<lambda>x. returnE (Some x))) in
     if j_registry j
     then bindE (os_IsFileExist (filepath_Join [mi_MountDir info, ''registry''])) (\<lambda>ex. if \<not> ex then returnE None else add)
     else thenE (p2p_dumpConfigToRootfs (j_dist j) (mi_MountDir info))
       (thenE (p2p_renderRootfs (j_dist j) (mi_MountDir info)) add))"

definition freshNode :: "p2pNode \<Rightarrow> p2pNode" where
  "freshNode n = n\<lparr>n_group := None, n_pc := RIdle, n_args := None, n_stage := 0, n_targets := [], n_sig := 0,
     n_reqs := [], n_final := []\<rparr>"

definition ev_prepare :: "p2pJob \<Rightarrow> p2pState \<Rightarrow> p2pState option" where
  "ev_prepare j s = (if s_pc s \<noteq> Loop then None else (case s_todo s of
       [] \<Rightarrow> Some (s\<lparr>s_pc := Returned (Inr ())\<rparr>)
     | info # rest \<Rightarrow> (case p2p_prepare j info (s_world s) of
           (Inl e, w) \<Rightarrow> Some (s\<lparr>s_pc := Returned (Inl e), s_world := w\<rparr>)
         | (Inr None, w) \<Rightarrow> Some (s\<lparr>s_todo := rest, s_world := w\<rparr>)
         | (Inr (Some (name, cid)), w) \<Rightarrow> Some (updHosts j freshNode
             (s\<lparr>s_pc := Polling ''1'' (j_hosts j) 0 False, s_todo := rest, s_log := s_log s @ [mi_MountDir info],
                s_name := name, s_cid := cid, s_err := None, s_world := w\<rparr>)))))"

text \<open>A goroutine of the group ends; the first error is the error of the group.\<close>

definition finish :: "net_ip \<Rightarrow> unit res \<Rightarrow> p2pState \<Rightarrow> p2pState" where
  "finish h r s = (updNode h (\<lambda>n. n\<lparr>n_group := Some r\<rparr>) s)
     \<lparr>s_err := (case (s_err s, r) of (None, Inl e) \<Rightarrow> Some e | _ \<Rightarrow> s_err s)\<rparr>"

definition ev_launch :: "p2pJob \<Rightarrow> net_ip \<Rightarrow> p2pState \<Rightarrow> p2pState option" where
  "ev_launch j h s = (if n_pc (s_nodes s h) \<noteq> RIdle \<or> n_group (s_nodes s h) \<noteq> None then None
     else (case p2p_launch (j_dist j) (s_name s) (s_cid s) (j_dest j) h (s_world s) of
         (Inl e, w) \<Rightarrow> Some (finish h (Inl e) (s\<lparr>s_world := w\<rparr>))
       | (Inr a, w) \<Rightarrow> Some (updNode h (\<lambda>n. n\<lparr>n_pc := RSpawning, n_args := Some a\<rparr>) (s\<lparr>s_world := w\<rparr>))))"

text \<open>The command of a host returns: as its receiver ended, or because the connection is lost.\<close>

definition ev_return :: "p2pJob \<Rightarrow> net_ip \<Rightarrow> gerror option \<Rightarrow> p2pState \<Rightarrow> p2pState option" where
  "ev_return j h lost s = (let n = s_nodes s h; failed = Wrapf ''failed to distribute to host %s: %s'' [ip_String h] in
     if n_group n \<noteq> None \<or> n_pc n = RIdle then None
     else (case lost of Some e \<Rightarrow> Some (finish h (Inl (failed e)) s)
       | None \<Rightarrow> (case n_pc n of RExited \<Rightarrow> Some (finish h (Inr ()) s)
           | RPanicked e \<Rightarrow> Some (finish h (Inl (failed (Errorf ''Process exited with status 2'' []))) s)
           | _ \<Rightarrow> None)))"

text \<open>Steps of the receiver on a host.\<close>

definition ev_begin :: "p2pJob \<Rightarrow> net_ip \<Rightarrow> p2pState \<Rightarrow> p2pState option" where
  "ev_begin j h s = (let n = s_nodes s h in case (n_pc n, n_args n) of
       (RSpawning, Some a) \<Rightarrow> (case receiver_begin (j_lib j) a (n_world n) of
           (Inl e, w) \<Rightarrow> Some (updNode h (\<lambda>n. n\<lparr>n_pc := RPanicked e, n_world := w\<rparr>) s)
         | (Inr _, w) \<Rightarrow> Some (updNode h (\<lambda>n. n\<lparr>n_pc := RAwaitPeers, n_stage := 1, n_world := w\<rparr>) s))
     | _ \<Rightarrow> None)"

definition ev_signal :: "p2pJob \<Rightarrow> net_ip \<Rightarrow> p2pState \<Rightarrow> p2pState option" where
  "ev_signal j h s = (let n = s_nodes s h in if n_sig n = 0 then None else (case (n_pc n, n_args n) of
       (RAwaitPeers, Some a) \<Rightarrow> Some (updNode h (\<lambda>n. n\<lparr>n_pc := RFetching, n_sig := n_sig n - 1\<rparr>) s)
     | (RAwaitEnd, Some a) \<Rightarrow> Some (updNode h (\<lambda>n. n\<lparr>n_pc := RExited, n_sig := n_sig n - 1,
           n_world := snd (receiver_end a (n_world n)), n_received := n_received n @ [a]\<rparr>) s)
     | _ \<Rightarrow> None))"

definition ev_fetch :: "p2pJob \<Rightarrow> net_ip \<Rightarrow> p2pState \<Rightarrow> p2pState option" where
  "ev_fetch j h s = (let n = s_nodes s h in case (n_pc n, n_args n) of
       (RFetching, Some a) \<Rightarrow> (case receiver_fetch (j_lib j) a (n_targets n) (n_world n) of
           (Inl e, w) \<Rightarrow> Some (updNode h (\<lambda>n. n\<lparr>n_pc := RPanicked e, n_world := w\<rparr>) s)
         | (Inr _, w) \<Rightarrow> Some (updNode h (\<lambda>n. n\<lparr>n_pc := RAwaitEnd, n_stage := 2, n_world := w\<rparr>) s))
     | _ \<Rightarrow> None)"

definition ev_crash :: "net_ip \<Rightarrow> gerror \<Rightarrow> p2pState \<Rightarrow> p2pState option" where
  "ev_crash h e s = (if running (s_nodes s h) then Some (updNode h (\<lambda>n. n\<lparr>n_pc := RPanicked e\<rparr>) s) else None)"

text \<open>
  \<^verbatim>\<open>waitForState\<close>: a round asks every host for its stage, concurrently. The counter is not protected, so
  an increment may be lost. A round with an error, or with too few answers, is followed by another one.
\<close>

definition ev_poll :: "net_ip \<Rightarrow> bool \<Rightarrow> p2pState \<Rightarrow> p2pState option" where
  "ev_poll h lostUpdate s = (case s_pc s of
       Polling expectedStage rem good bad \<Rightarrow>
         if h \<in> set rem \<and> running (s_nodes s h)
         then Some (s\<lparr>s_pc := Polling expectedStage (remove1 h rem)
                (if stage_handler (n_stage (s_nodes s h)) = expectedStage \<and> \<not> lostUpdate then good + 1 else good) bad\<rparr>)
         else None
     | _ \<Rightarrow> None)"

definition ev_pollFail :: "net_ip \<Rightarrow> p2pState \<Rightarrow> p2pState option" where
  "ev_pollFail h s = (case s_pc s of
       Polling expectedStage rem good bad \<Rightarrow>
         if h \<in> set rem then Some (s\<lparr>s_pc := Polling expectedStage (remove1 h rem) good True\<rparr>) else None
     | _ \<Rightarrow> None)"

definition goNext :: "p2pJob \<Rightarrow> p2pState \<Rightarrow> p2pState" where
  "goNext j s = updHosts j (\<lambda>n. n\<lparr>n_final := [Next]\<rparr>) s"

definition ev_round :: "p2pJob \<Rightarrow> p2pState \<Rightarrow> p2pState option" where
  "ev_round j s = (case s_pc s of
       Polling expectedStage [] good bad \<Rightarrow>
         if bad \<or> good \<noteq> length (j_hosts j) then Some (s\<lparr>s_pc := Polling expectedStage (j_hosts j) 0 False\<rparr>)
         else if expectedStage = ''1'' then Some (s\<lparr>s_pc := Announcing\<rparr>)
         else Some (goNext j (s\<lparr>s_pc := Waiting\<rparr>))
     | _ \<Rightarrow> None)"

text \<open>Between the two waits: the addresses known by now are sent to every host, each by a goroutine of its own.\<close>

definition ev_announce :: "p2pJob \<Rightarrow> string list res \<Rightarrow> p2pState \<Rightarrow> p2pState option" where
  "ev_announce j r s = (if s_pc s \<noteq> Announcing then None else (case r of
       Inl e \<Rightarrow> Some (s\<lparr>s_pc := Returned (Inl (Wrapf ''failed to distribute: %s'' [] e))\<rparr>)
     | Inr known \<Rightarrow> (let encoded = base64encode (knownAddrs known) in
         Some (updHosts j (\<lambda>n. n\<lparr>n_reqs := [Connect (fmt_Sprintf ''target=%s'' [encoded]), Next]\<rparr>)
           (s\<lparr>s_pc := Polling ''2'' (j_hosts j) 0 False\<rparr>)))))"

text \<open>A request reaches the receiver, or it is lost; the sender does not look at the answer.\<close>

definition serve :: "request \<Rightarrow> p2pNode \<Rightarrow> p2pNode" where
  "serve r n = (case r of Connect q \<Rightarrow> n\<lparr>n_targets := connect_handler q (n_targets n)\<rparr> | Next \<Rightarrow> n\<lparr>n_sig := n_sig n + 1\<rparr>)"

definition ev_send :: "net_ip \<Rightarrow> bool \<Rightarrow> p2pState \<Rightarrow> p2pState option" where
  "ev_send h lost s = (case n_reqs (s_nodes s h) of [] \<Rightarrow> None
     | r # rs \<Rightarrow> if lost then Some (updNode h (\<lambda>n. n\<lparr>n_reqs := rs\<rparr>) s)
         else if running (s_nodes s h) then Some (updNode h (\<lambda>n. serve r (n\<lparr>n_reqs := rs\<rparr>)) s) else None)"

definition ev_sendFinal :: "net_ip \<Rightarrow> bool \<Rightarrow> p2pState \<Rightarrow> p2pState option" where
  "ev_sendFinal h lost s = (case n_final (s_nodes s h) of [] \<Rightarrow> None
     | r # rs \<Rightarrow> if lost then Some (updNode h (\<lambda>n. n\<lparr>n_final := rs\<rparr>) s)
         else if running (s_nodes s h) then Some (updNode h (\<lambda>n. serve r (n\<lparr>n_final := rs\<rparr>)) s) else None)"

text \<open>\<^verbatim>\<open>eg.Wait\<close> and the rest of \<^verbatim>\<open>distributeImpl\<close>.\<close>

definition ev_wait :: "p2pJob \<Rightarrow> p2pState \<Rightarrow> p2pState option" where
  "ev_wait j s = (if s_pc s = Waiting \<and> list_all (\<lambda>h. n_group (s_nodes s h) \<noteq> None) (j_hosts j)
     then (case s_err s of
         Some e \<Rightarrow> Some (s\<lparr>s_pc := Returned (Inl (Wrapf ''failed to distribute: %s'' [] e))\<rparr>)
       | None \<Rightarrow> Some (s\<lparr>s_pc := Loop, s_world := snd (perform (LocalCall ''os.Remove'' [s_name s]) (s_world s))\<rparr>))
     else None)"

datatype event = Prepare | Launch net_ip | Return net_ip "gerror option" | Begin net_ip | Signal net_ip
  | Fetch net_ip | Crash net_ip gerror | Poll net_ip bool | PollFail net_ip | Round
  | Announce "string list res" | Send net_ip bool | SendFinal net_ip bool | Wait

fun p2p_step :: "p2pJob \<Rightarrow> event \<Rightarrow> p2pState \<Rightarrow> p2pState option" where
  "p2p_step j Prepare s = ev_prepare j s"
| "p2p_step j (Launch h) s = ev_launch j h s"
| "p2p_step j (Return h lost) s = ev_return j h lost s"
| "p2p_step j (Begin h) s = ev_begin j h s"
| "p2p_step j (Signal h) s = ev_signal j h s"
| "p2p_step j (Fetch h) s = ev_fetch j h s"
| "p2p_step j (Crash h e) s = ev_crash h e s"
| "p2p_step j (Poll h l) s = ev_poll h l s"
| "p2p_step j (PollFail h) s = ev_pollFail h s"
| "p2p_step j Round s = ev_round j s"
| "p2p_step j (Announce r) s = ev_announce j r s"
| "p2p_step j (Send h l) s = ev_send h l s"
| "p2p_step j (SendFinal h l) s = ev_sendFinal h l s"
| "p2p_step j Wait s = ev_wait j s"

fun p2p_run :: "p2pJob \<Rightarrow> event list \<Rightarrow> p2pState \<Rightarrow> p2pState option" where
  "p2p_run j [] s = Some s"
| "p2p_run j (e # es) s = (case p2p_step j e s of None \<Rightarrow> None | Some s' \<Rightarrow> p2p_run j es s')"

inductive p2p_steps :: "p2pJob \<Rightarrow> p2pState \<Rightarrow> p2pState \<Rightarrow> bool" for j where
  stop: "p2p_steps j s s"
| step: "p2p_steps j s s' \<Longrightarrow> p2p_step j e s' = Some s'' \<Longrightarrow> p2p_steps j s s''"

text \<open>At the start no goroutine and no receiver runs; the environments of the hosts are arbitrary.\<close>

definition idleNode :: "world \<Rightarrow> p2pNode" where
  "idleNode w = \<lparr>n_group = Some (Inr ()), n_pc = RIdle, n_args = None, n_stage = 0, n_targets = [], n_sig = 0,
     n_reqs = [], n_final = [], n_world = w, n_received = []\<rparr>"

definition p2p_init :: "p2pJob \<Rightarrow> (net_ip \<Rightarrow> world) \<Rightarrow> world \<Rightarrow> p2pState" where
  "p2p_init j ws w = \<lparr>s_pc = Loop, s_todo = pd_imageMountInfo (j_dist j), s_log = [], s_name = [], s_cid = [],
     s_err = None, s_nodes = (\<lambda>h. idleNode (ws h)), s_world = w\<rparr>"

lemma p2p_run_steps: "p2p_run j es s' = Some s'' \<Longrightarrow> p2p_steps j s s' \<Longrightarrow> p2p_steps j s s''"
  by (induction es arbitrary: s') (auto split: option.splits intro: p2p_steps.step)

end
