(* ===== verification/P2p_Properties.thy ===== *)
theory P2p_Properties
  imports P2p_Distributor
begin

text \<open>
  What the peer-to-peer distribution guarantees, whatever the order of the steps: the two barriers, what a
  successful distribution means; and what happens when a host fails, and to the addresses that are announced.
\<close>

section \<open>The barriers\<close>

text \<open>
  A node is early (its receiver is not past the first signal and nothing was sent to it), in the
  middle (at most one signal is under way, and none once it was used), or late (it has the image).
\<close>

definition nexts :: "request list \<Rightarrow> nat" where
  "nexts rs = length (filter (\<lambda>r. r = Next) rs)"

lemma nexts_simps [simp]: "nexts [] = 0" "nexts (Next # rs) = Suc (nexts rs)" "nexts (Connect q # rs) = nexts rs"
  by (simp_all add: nexts_def)

fun panicked :: "rpc \<Rightarrow> bool" where
  "panicked (RPanicked e) = True" | "panicked _ = False"

definition early :: "p2pNode \<Rightarrow> bool" where
  "early n = (n_reqs n = [] \<and> n_final n = [] \<and> n_sig n = 0 \<and>
     (n_pc n = RIdle \<and> n_stage n = 0 \<or> n_pc n = RSpawning \<and> n_stage n = 0 \<or> n_pc n = RAwaitPeers \<and> n_stage n = 1 \<or>
      panicked (n_pc n) \<and> (n_stage n = 0 \<or> n_stage n = 1)))"

definition middle :: "p2pNode \<Rightarrow> bool" where
  "middle n = (n_final n = [] \<and>
     (n_pc n = RAwaitPeers \<and> n_stage n = 1 \<and> nexts (n_reqs n) + n_sig n \<le> 1 \<or>
      n_pc n = RFetching \<and> n_stage n = 1 \<and> nexts (n_reqs n) = 0 \<and> n_sig n = 0 \<or>
      n_pc n = RAwaitEnd \<and> n_stage n = 2 \<and> nexts (n_reqs n) = 0 \<and> n_sig n = 0 \<or>
      panicked (n_pc n) \<and> (n_stage n = 1 \<or> n_stage n = 2)))"

definition late :: "p2pNode \<Rightarrow> bool" where
  "late n = (n_stage n = 2 \<and> (n_pc n = RAwaitEnd \<or> n_pc n = RExited \<or> panicked (n_pc n)))"

text \<open>Past the first signal.\<close>

definition leaving :: "p2pNode \<Rightarrow> bool" where
  "leaving n = (n_pc n = RFetching \<or> n_pc n = RAwaitEnd \<or> n_pc n = RExited)"

lemmas phases = early_def middle_def late_def

definition keeps :: "p2pNode \<Rightarrow> p2pNode \<Rightarrow> bool" where
  "keeps n n' = ((early n \<longrightarrow> early n') \<and> (middle n \<longrightarrow> middle n') \<and> (late n \<longrightarrow> late n') \<and> (early n \<or> middle n \<longrightarrow> n_stage n \<le> n_stage n'))"

lemma keeps_refl [simp]: "keeps n n"
  by (simp add: keeps_def)

lemma updNode_simps [simp]:
  "s_pc (updNode h f s) = s_pc s" "s_todo (updNode h f s) = s_todo s" "s_log (updNode h f s) = s_log s"
  "s_err (updNode h f s) = s_err s" "s_name (updNode h f s) = s_name s"
  "s_nodes (updNode h f s) k = (if k = h then f (s_nodes s h) else s_nodes s k)"
  by (simp_all add: updNode_def)

lemma updHosts_simps [simp]:
  "s_pc (updHosts j f s) = s_pc s" "s_todo (updHosts j f s) = s_todo s" "s_log (updHosts j f s) = s_log s"
  "s_err (updHosts j f s) = s_err s" "s_name (updHosts j f s) = s_name s"
  "s_nodes (updHosts j f s) k = (if k \<in> set (j_hosts j) then f (s_nodes s k) else s_nodes s k)"
  by (simp_all add: updHosts_def)

lemma finish_simps [simp]:
  "s_pc (finish h r s) = s_pc s" "s_todo (finish h r s) = s_todo s" "s_log (finish h r s) = s_log s" "s_name (finish h r s) = s_name s"
  "s_nodes (finish h r s) k = (if k = h then (s_nodes s h)\<lparr>n_group := Some r\<rparr> else s_nodes s k)"
  "s_err (finish h r s) = (case (s_err s, r) of (None, Inl e) \<Rightarrow> Some e | _ \<Rightarrow> s_err s)"
  by (simp_all add: finish_def)

fun nodeEvent :: "event \<Rightarrow> bool" where
  "nodeEvent (Launch h) = True" | "nodeEvent (Return h l) = True" | "nodeEvent (Begin h) = True"
| "nodeEvent (Signal h) = True" | "nodeEvent (Fetch h) = True" | "nodeEvent (Crash h e) = True"
| "nodeEvent (Send h l) = True" | "nodeEvent (SendFinal h l) = True" | "nodeEvent _ = False"

text \<open>What can happen to one node.\<close>

inductive node_step :: "string \<Rightarrow> string \<Rightarrow> p2pNode \<Rightarrow> p2pNode \<Rightarrow> bool" for name dest where
  ns_fail: "n_group n = None \<Longrightarrow> node_step name dest n (n\<lparr>n_group := Some (Inl e)\<rparr>)"
| ns_done: "n_group n = None \<Longrightarrow> n_pc n = RExited \<Longrightarrow> node_step name dest n (n\<lparr>n_group := Some (Inr ())\<rparr>)"
| ns_spawn: "n_pc n = RIdle \<Longrightarrow> n_group n = None \<Longrightarrow> ra_filename a = name \<Longrightarrow> ra_target a = dest \<Longrightarrow>
     node_step name dest n (n\<lparr>n_pc := RSpawning, n_args := Some a\<rparr>)"
| ns_panic: "running n \<Longrightarrow> node_step name dest n (n\<lparr>n_pc := RPanicked e, n_world := w\<rparr>)"
| ns_begin: "n_pc n = RSpawning \<Longrightarrow> node_step name dest n (n\<lparr>n_pc := RAwaitPeers, n_stage := 1, n_world := w\<rparr>)"
| ns_go: "n_pc n = RAwaitPeers \<Longrightarrow> 0 < n_sig n \<Longrightarrow> node_step name dest n (n\<lparr>n_pc := RFetching, n_sig := n_sig n - 1\<rparr>)"
| ns_leave: "n_pc n = RAwaitEnd \<Longrightarrow> 0 < n_sig n \<Longrightarrow> n_args n = Some a \<Longrightarrow>
     node_step name dest n (n\<lparr>n_pc := RExited, n_sig := n_sig n - 1, n_world := w, n_received := n_received n @ [a]\<rparr>)"
| ns_fetch: "n_pc n = RFetching \<Longrightarrow> node_step name dest n (n\<lparr>n_pc := RAwaitEnd, n_stage := 2, n_world := w\<rparr>)"
| ns_lose: "n_reqs n = r # rs \<Longrightarrow> node_step name dest n (n\<lparr>n_reqs := rs\<rparr>)"
| ns_serve: "n_reqs n = r # rs \<Longrightarrow> running n \<Longrightarrow> node_step name dest n (serve r (n\<lparr>n_reqs := rs\<rparr>))"
| ns_loseFinal: "n_final n = r # rs \<Longrightarrow> node_step name dest n (n\<lparr>n_final := rs\<rparr>)"
| ns_serveFinal: "n_final n = r # rs \<Longrightarrow> running n \<Longrightarrow> node_step name dest n (serve r (n\<lparr>n_final := rs\<rparr>))"

lemma ns_crash: "running n \<Longrightarrow> node_step name dest n (n\<lparr>n_pc := RPanicked e\<rparr>)"
  using ns_panic [where n = n and e = e and w = "n_world n"] by simp

definition at_host :: "p2pJob \<Rightarrow> net_ip \<Rightarrow> p2pState \<Rightarrow> p2pState \<Rightarrow> bool" where
  "at_host j h s s' = (s_pc s' = s_pc s \<and> s_todo s' = s_todo s \<and> s_log s' = s_log s \<and> s_name s' = s_name s \<and>
     (s_err s \<noteq> None \<longrightarrow> s_err s' \<noteq> None) \<and>
     (n_group (s_nodes s' h) = n_group (s_nodes s h) \<or> n_group (s_nodes s' h) = Some (Inr ()) \<or> s_err s' \<noteq> None) \<and>
     node_step (s_name s) (j_dest j) (s_nodes s h) (s_nodes s' h) \<and> (\<forall>k. k \<noteq> h \<longrightarrow> s_nodes s' k = s_nodes s k))"

lemma at_host_updNode:
  "node_step (s_name s) (j_dest j) (s_nodes s h) (f (s_nodes s h)) \<Longrightarrow> n_group (f (s_nodes s h)) = n_group (s_nodes s h) \<Longrightarrow>
    at_host j h s (updNode h f s)"
  by (simp add: at_host_def)

lemma at_host_world: "at_host j h (s\<lparr>s_world := w\<rparr>) s' \<Longrightarrow> at_host j h s s'"
  by (simp add: at_host_def)

lemma at_host_finish:
  "n_group (s_nodes s h) = None \<Longrightarrow> at_host j h s (finish h (Inl e) s)"
  "n_group (s_nodes s h) = None \<Longrightarrow> n_pc (s_nodes s h) = RExited \<Longrightarrow> at_host j h s (finish h (Inr ()) s)"
  by (auto simp: at_host_def ns_fail ns_done split: option.splits)

lemma launch_args: "p2p_launch p name cid dest h w = (Inr a, w') \<Longrightarrow> ra_filename a = name \<and> ra_target a = dest"
  by (auto simp: p2p_launch_def Let_def bindE_Inr_iff returnE_def)

lemma launch_shape: "ev_launch j h s = Some s' \<Longrightarrow> at_host j h s s'"
  by (auto simp: ev_launch_def intro!: at_host_world [OF at_host_finish(1)] at_host_world [OF at_host_updNode] ns_spawn
      dest: launch_args split: if_splits prod.splits sum.splits)

lemma return_shape: "ev_return j h l s = Some s' \<Longrightarrow> at_host j h s s'"
  by (auto simp: ev_return_def Let_def at_host_finish split: if_splits option.splits rpc.splits)

lemma begin_shape: "ev_begin j h s = Some s' \<Longrightarrow> at_host j h s s'"
  by (auto simp: ev_begin_def Let_def running_def intro!: at_host_updNode ns_panic ns_begin split: option.splits rpc.splits prod.splits sum.splits)

lemma signal_shape: "ev_signal j h s = Some s' \<Longrightarrow> at_host j h s s'"
  by (auto simp: ev_signal_def Let_def intro!: at_host_updNode ns_go [unfolded One_nat_def] ns_leave [unfolded One_nat_def] split: if_splits option.splits rpc.splits)

lemma fetch_shape: "ev_fetch j h s = Some s' \<Longrightarrow> at_host j h s s'"
  by (auto simp: ev_fetch_def Let_def running_def intro!: at_host_updNode ns_panic ns_fetch split: option.splits rpc.splits prod.splits sum.splits)

lemma crash_shape: "ev_crash h e s = Some s' \<Longrightarrow> at_host j h s s'"
  by (auto simp: ev_crash_def intro!: at_host_updNode ns_crash split: if_splits)

lemma serve_group: "n_group (serve r n) = n_group n"
  by (cases r) (simp_all add: serve_def)

lemma send_shape: "ev_send h l s = Some s' \<Longrightarrow> at_host j h s s'"
  by (auto simp: ev_send_def serve_group intro!: at_host_updNode intro: ns_lose ns_serve split: if_splits list.splits)

lemma sendFinal_shape: "ev_sendFinal h l s = Some s' \<Longrightarrow> at_host j h s s'"
  by (auto simp: ev_sendFinal_def serve_group intro!: at_host_updNode intro: ns_loseFinal ns_serveFinal split: if_splits list.splits)

lemma nodeEvent_shape: "p2p_step j e s = Some s' \<Longrightarrow> nodeEvent e \<Longrightarrow> \<exists>h. at_host j h s s'"
  by (cases e) (auto dest: launch_shape return_shape begin_shape signal_shape fetch_shape crash_shape send_shape sendFinal_shape)

lemma node_step_keeps: "node_step name dest n n' \<Longrightarrow> keeps n n'"
proof (induction rule: node_step.induct)
  case (ns_panic n e w)
  then show ?case by (auto simp: keeps_def phases running_def)
next
  case (ns_serve n r rs)
  then show ?case by (cases r) (auto simp: keeps_def phases serve_def running_def)
next
  case (ns_lose n r rs)
  then show ?case by (cases r) (auto simp: keeps_def phases)
next
  case (ns_serveFinal n r rs)
  then show ?case by (cases r) (simp_all add: keeps_def phases serve_def)
next
  case (ns_spawn n a)
  then show ?case by (simp add: keeps_def phases)
qed (simp_all add: keeps_def phases)

lemma nodeEvent_keeps:
  assumes "p2p_step j e s = Some s'" "nodeEvent e"
  shows "s_pc s' = s_pc s" "keeps (s_nodes s k) (s_nodes s' k)"
proof -
  obtain h where h: "at_host j h s s'" using nodeEvent_shape [OF assms] by blast
  then show "s_pc s' = s_pc s" by (simp add: at_host_def)
  show "keeps (s_nodes s k) (s_nodes s' k)"
    using h by (cases "k = h") (auto simp: at_host_def dest: node_step_keeps)
qed

text \<open>The rounds of \<^verbatim>\<open>waitForState\<close>: when no answer is missing from the count, every host asked has reached the stage.\<close>

definition polled :: "p2pJob \<Rightarrow> p2pState \<Rightarrow> int \<Rightarrow> net_ip list \<Rightarrow> nat \<Rightarrow> bool" where
  "polled j s k rem good = (distinct rem \<and> set rem \<subseteq> set (j_hosts j) \<and> good + length rem \<le> length (j_hosts j) \<and>
     (good + length rem = length (j_hosts j) \<longrightarrow> (\<forall>h \<in> set (j_hosts j) - set rem. k \<le> n_stage (s_nodes s h))))"

definition everywhere :: "p2pJob \<Rightarrow> p2pState \<Rightarrow> (p2pNode \<Rightarrow> bool) \<Rightarrow> bool" where
  "everywhere j s P = (\<forall>h \<in> set (j_hosts j). P (s_nodes s h))"

definition p2p_inv :: "p2pJob \<Rightarrow> p2pState \<Rightarrow> bool" where
  "p2p_inv j s = (case s_pc s of
       Loop \<Rightarrow> everywhere j s early \<or> everywhere j s late
     | Polling st rem good bad \<Rightarrow> st = ''1'' \<and> everywhere j s early \<and> polled j s 1 rem good \<or>
         st = ''2'' \<and> everywhere j s middle \<and> polled j s 2 rem good
     | Announcing \<Rightarrow> everywhere j s early \<and> everywhere j s (\<lambda>n. 1 \<le> n_stage n)
     | Waiting \<Rightarrow> everywhere j s late
     | Returned r \<Rightarrow> everywhere j s early \<or> everywhere j s late)"

lemma inv_nodeEvent:
  assumes "p2p_inv j s" "p2p_step j e s = Some s'" "nodeEvent e"
  shows "p2p_inv j s'"
proof -
  note keep = nodeEvent_keeps(2) [OF assms(2,3)] and pc = nodeEvent_keeps(1) [OF assms(2,3)]
  have ev: "everywhere j s early \<Longrightarrow> everywhere j s' early" "everywhere j s middle \<Longrightarrow> everywhere j s' middle"
    "everywhere j s late \<Longrightarrow> everywhere j s' late"
    using keep by (auto simp: everywhere_def keeps_def)
  have st: "n_stage (s_nodes s h) \<le> n_stage (s_nodes s' h)"
    if "everywhere j s early \<or> everywhere j s middle" "h \<in> set (j_hosts j)" for h
    using keep [of h] that by (auto simp: everywhere_def keeps_def)
  have po: "polled j s' k rem good" if "polled j s k rem good" "everywhere j s early \<or> everywhere j s middle" for k rem good
    using that(1) st [OF that(2)] unfolding polled_def by (meson DiffD1 order_trans)
  have an: "everywhere j s' (\<lambda>n. 1 \<le> n_stage n)" if "everywhere j s early" "everywhere j s (\<lambda>n. 1 \<le> n_stage n)"
    using that st unfolding everywhere_def by (meson order_trans)
  show ?thesis
    using assms(1) ev po an unfolding p2p_inv_def pc by (cases "s_pc s") auto
qed

lemma polled_start: "distinct (j_hosts j) \<Longrightarrow> polled j s k (j_hosts j) 0"
  by (simp add: polled_def)

lemma itoa_stage [simp]: "stage_handler 0 \<noteq> ''1''" "stage_handler 1 = ''1''" "stage_handler 2 = ''2''" "stage_handler 1 \<noteq> ''2''" "stage_handler 0 \<noteq> ''2''"
  by (simp_all add: stage_handler_def gostr)

lemma polled_answer:
  assumes "polled j s k rem good" "h \<in> set rem" "ok \<Longrightarrow> k \<le> n_stage (s_nodes s h)"
  shows "polled j s k (remove1 h rem) (if ok then good + 1 else good)"
proof -
  have "Suc (length (remove1 h rem)) = length rem" using assms(2) by (metis One_nat_def Suc_pred length_pos_if_in_set length_remove1)
  with assms show ?thesis by (auto simp: polled_def distinct_remove1)
qed

lemma early_done: "early n \<Longrightarrow> 1 \<le> n_stage n \<Longrightarrow> middle (n\<lparr>n_reqs := [Connect q, Next]\<rparr>)"
  by (auto simp: early_def middle_def)

lemma middle_done: "middle n \<Longrightarrow> 2 \<le> n_stage n \<Longrightarrow> late (n\<lparr>n_final := rs\<rparr>)"
  by (auto simp: middle_def late_def)

lemma phase_stages:
  "early n \<Longrightarrow> \<not> leaving n" "middle n \<Longrightarrow> 1 \<le> n_stage n \<and> n_pc n \<noteq> RExited" "late n \<Longrightarrow> n_stage n = 2"
  by (auto simp: early_def middle_def late_def leaving_def)

lemma everywhere_pc [simp]:
  "everywhere j (s\<lparr>s_pc := p\<rparr>) = everywhere j s" "everywhere j (s\<lparr>s_world := w\<rparr>) = everywhere j s"
  "everywhere j (s\<lparr>s_todo := t\<rparr>) = everywhere j s" "polled j (s\<lparr>s_pc := p\<rparr>) = polled j s"
  by (simp_all add: everywhere_def polled_def fun_eq_iff)

lemma inv_prepare: "p2p_inv j s \<Longrightarrow> ev_prepare j s = Some s' \<Longrightarrow> distinct (j_hosts j) \<Longrightarrow> p2p_inv j s'"
  by (auto simp: ev_prepare_def p2p_inv_def everywhere_def polled_start freshNode_def early_def
      split: if_splits list.splits prod.splits sum.splits option.splits)

lemma inv_poll:
  assumes "p2p_inv j s" "ev_poll h l s = Some s'" shows "p2p_inv j s'"
proof -
  obtain st rem good bad where pc: "s_pc s = Polling st rem good bad" and h: "h \<in> set rem"
    and s': "s' = s\<lparr>s_pc := Polling st (remove1 h rem) (if stage_handler (n_stage (s_nodes s h)) = st \<and> \<not> l then good + 1 else good) bad\<rparr>"
    using assms(2) by (auto simp: ev_poll_def split: dpc.splits if_splits)
  let ?ok = "stage_handler (n_stage (s_nodes s h)) = st \<and> \<not> l"
  consider "st = ''1''" "everywhere j s early" "polled j s 1 rem good" | "st = ''2''" "everywhere j s middle" "polled j s 2 rem good"
    using assms(1) by (auto simp: p2p_inv_def pc)
  then show ?thesis
  proof cases
    case 1
    have "h \<in> set (j_hosts j)" using 1(3) h by (auto simp: polled_def)
    then have "?ok \<Longrightarrow> 1 \<le> n_stage (s_nodes s h)" using 1(1,2) by (auto simp: everywhere_def early_def)
    from polled_answer [OF 1(3) h this] 1 show ?thesis by (simp add: p2p_inv_def s')
  next
    case 2
    have "h \<in> set (j_hosts j)" using 2(3) h by (auto simp: polled_def)
    then have "?ok \<Longrightarrow> 2 \<le> n_stage (s_nodes s h)" using 2(1,2) by (auto simp: everywhere_def middle_def)
    from polled_answer [OF 2(3) h this] 2 show ?thesis by (simp add: p2p_inv_def s')
  qed
qed

lemma inv_pollFail: "p2p_inv j s \<Longrightarrow> ev_pollFail h s = Some s' \<Longrightarrow> p2p_inv j s'"
  using polled_answer [of j s _ _ _ h False]
  by (auto simp: ev_pollFail_def p2p_inv_def split: dpc.splits if_splits)

lemma polled_all: "polled j s k [] (length (j_hosts j)) \<Longrightarrow> everywhere j s (\<lambda>n. k \<le> n_stage n)"
  by (simp add: polled_def everywhere_def)

lemma inv_round:
  assumes "p2p_inv j s" "ev_round j s = Some s'" "distinct (j_hosts j)" shows "p2p_inv j s'"
proof -
  obtain st good bad where pc: "s_pc s = Polling st [] good bad"
    using assms(2) by (auto simp: ev_round_def split: dpc.splits list.splits)
  consider "st = ''1''" "everywhere j s early" "polled j s 1 [] good" | "st = ''2''" "everywhere j s middle" "polled j s 2 [] good"
    using assms(1) by (auto simp: p2p_inv_def pc)
  then show ?thesis
  proof cases
    case 1
    then show ?thesis using assms(2,3)
      by (auto simp: ev_round_def pc p2p_inv_def polled_start dest: polled_all split: if_splits)
  next
    case 2
    have "everywhere j (goNext j (s\<lparr>s_pc := Waiting\<rparr>)) late" if "good = length (j_hosts j)"
      using 2 that polled_all [of j s 2] by (simp add: goNext_def everywhere_def middle_done)
    then show ?thesis using 2 assms(2,3)
      by (auto simp: ev_round_def pc p2p_inv_def polled_start goNext_def split: if_splits)
  qed
qed

lemma inv_announce:
  assumes "p2p_inv j s" "ev_announce j r s = Some s'" "distinct (j_hosts j)" shows "p2p_inv j s'"
proof -
  have pc: "s_pc s = Announcing" using assms(2) by (auto simp: ev_announce_def split: if_splits)
  then have "everywhere j s early" "everywhere j s (\<lambda>n. 1 \<le> n_stage n)" using assms(1) by (auto simp: p2p_inv_def)
  with assms(2,3) pc show ?thesis
    by (auto simp: ev_announce_def p2p_inv_def polled_start everywhere_def early_done Let_def split: sum.splits)
qed

lemma inv_wait: "p2p_inv j s \<Longrightarrow> ev_wait j s = Some s' \<Longrightarrow> p2p_inv j s'"
  by (auto simp: ev_wait_def p2p_inv_def split: if_splits option.splits)

lemma inv_step:
  assumes "p2p_inv j s" "p2p_step j e s = Some s'" "distinct (j_hosts j)" shows "p2p_inv j s'"
proof (cases "nodeEvent e")
  case True
  with assms show ?thesis by (blast intro: inv_nodeEvent)
next
  case False
  with assms show ?thesis
    by (cases e) (auto intro: inv_prepare inv_poll inv_pollFail inv_round inv_announce inv_wait)
qed

lemma inv_init: "p2p_inv j (p2p_init j ws w)"
  by (simp add: p2p_inv_def p2p_init_def everywhere_def early_def idleNode_def)

lemma inv_reachable: "p2p_steps j s s' \<Longrightarrow> p2p_inv j s \<Longrightarrow> distinct (j_hosts j) \<Longrightarrow> p2p_inv j s'"
  by (induction rule: p2p_steps.induct) (auto intro: inv_step)

text \<open>
  C8. The two barriers of a distribution, in every state that can be reached, in whatever order the distributor,
  its goroutines and the receivers proceed and whatever is lost or crashes: when a receiver has passed the first
  signal, every host has reached stage 1 (all are connected to the distributor before one asks for the image); and
  when a receiver has ended, every host has reached stage 2 (no receiver leaves while another one may still
  need it to fetch the image).
\<close>

theorem p2p_barriers:
  assumes "distinct (j_hosts j)" and "p2p_steps j (p2p_init j ws w) s" and "h \<in> set (j_hosts j)" "h' \<in> set (j_hosts j)"
  shows "(leaving (s_nodes s h) \<longrightarrow> 1 \<le> n_stage (s_nodes s h')) \<and> (n_pc (s_nodes s h) = RExited \<longrightarrow> n_stage (s_nodes s h') = 2)"
proof -
  have "p2p_inv j s" using inv_reachable [OF assms(2) inv_init assms(1)] .
  then consider "everywhere j s early" | "everywhere j s middle" | "everywhere j s late"
    by (auto simp: p2p_inv_def split: dpc.splits)
  then show ?thesis
  proof cases
    case 1
    then show ?thesis using assms(3) phase_stages(1) [of "s_nodes s h"] by (auto simp: everywhere_def leaving_def)
  next
    case 2
    then show ?thesis using assms(3,4) by (simp add: everywhere_def phase_stages(2))
  next
    case 3
    then show ?thesis using assms(4) by (simp add: everywhere_def phase_stages(3))
  qed
qed

section \<open>A host that fails\<close>

text \<open>The receiver has died, or was never started.\<close>

definition lost :: "p2pNode \<Rightarrow> bool" where
  "lost n = (panicked (n_pc n) \<or> n_pc n = RIdle \<and> n_group n \<noteq> None)"

lemma node_step_lost: "node_step name dest n n' \<Longrightarrow> lost n \<Longrightarrow> lost n' \<and> n_stage n' = n_stage n"
  by (induction rule: node_step.induct) (auto simp: lost_def running_def)

lemma lost_stays:
  assumes "p2p_step j e s = Some s'" "p2p_inv j s" "s_pc s = Polling st rem good bad" "h \<in> set (j_hosts j)"
    and "lost (s_nodes s h)" "stage_handler (n_stage (s_nodes s h)) \<noteq> st"
  shows "(\<exists>rem good bad. s_pc s' = Polling st rem good bad) \<and> lost (s_nodes s' h) \<and> n_stage (s_nodes s' h) = n_stage (s_nodes s h)"
proof (cases "nodeEvent e")
  case True
  then obtain k where k: "at_host j k s s'" using nodeEvent_shape [OF assms(1)] by blast
  then have "lost (s_nodes s' h) \<and> n_stage (s_nodes s' h) = n_stage (s_nodes s h)"
    using node_step_lost assms(5) by (cases "k = h") (auto simp: at_host_def)
  with k assms(3) show ?thesis by (auto simp: at_host_def)
next
  case False
  have "\<not> (bad \<or> good \<noteq> length (j_hosts j)) \<Longrightarrow> rem = [] \<Longrightarrow> False"
  proof -
    assume "\<not> (bad \<or> good \<noteq> length (j_hosts j))" "rem = []"
    with assms(2,3) consider "st = ''1''" "early (s_nodes s h)" "1 \<le> n_stage (s_nodes s h)"
      | "st = ''2''" "middle (s_nodes s h)" "2 \<le> n_stage (s_nodes s h)"
      using assms(4) polled_all [of j s] by (auto simp: p2p_inv_def everywhere_def)
    then show False
      using assms(6) by cases (auto simp: early_def middle_def)
  qed
  with False assms show ?thesis
    by (cases e) (auto simp: ev_prepare_def ev_poll_def ev_pollFail_def ev_round_def ev_announce_def ev_wait_def split: if_splits list.splits)
qed

text \<open>
  C10. A host that fails is never reported. While the distributor waits for a stage, let the receiver of a host be
  dead before it reached that stage, or never have been started (because the command could not be run, or because it
  panicked, for example when the image could not be fetched): then in everything that can happen
  from there on the distributor goes on waiting. The error of the command is kept by the group of goroutines, which
  is asked for it only after the wait. So \<^verbatim>\<open>Distribute\<close> neither succeeds nor fails; it does not return.
\<close>

theorem failed_host_waits_forever:
  assumes "distinct (j_hosts j)" and "p2p_steps j (p2p_init j ws w) s" and "s_pc s = Polling st rem good bad"
    and "h \<in> set (j_hosts j)" and "lost (s_nodes s h)" "stage_handler (n_stage (s_nodes s h)) \<noteq> st"
    and "p2p_steps j s s'"
  shows "\<exists>rem good bad. s_pc s' = Polling st rem good bad"
proof -
  have inv: "p2p_inv j s" using inv_reachable [OF assms(2) inv_init assms(1)] .
  have "(\<exists>rem good bad. s_pc s' = Polling st rem good bad) \<and> lost (s_nodes s' h) \<and> n_stage (s_nodes s' h) = n_stage (s_nodes s h) \<and> p2p_inv j s'"
    using assms(7,3,4,5,6) inv
  proof (induction rule: p2p_steps.induct)
    case (step s s1 e s2)
    then have "p2p_inv j s2" using inv_step [OF _ step.hyps(2) assms(1)] by simp
    with step lost_stays [OF step.hyps(2)] show ?case by auto
  qed simp
  then show ?thesis by blast
qed

section \<open>Success\<close>

text \<open>
  The account of a distribution: which archives the receivers of a host have taken, compared with the images whose
  distribution was begun (the messages \<^verbatim>\<open>Distributing ...\<close> of the log).
\<close>

definition taken :: "p2pNode \<Rightarrow> string list" where
  "taken n = map ra_filename (n_received n)"

definition quietNode :: "p2pState \<Rightarrow> p2pNode \<Rightarrow> bool" where
  "quietNode s n = (n_group n \<noteq> None \<and> (n_pc n = RIdle \<or> n_pc n = RExited) \<and> taken n = map tarName (s_log s))"

definition active :: "p2pJob \<Rightarrow> p2pState \<Rightarrow> p2pNode \<Rightarrow> bool" where
  "active j s n = (taken n = map tarName (if n_pc n = RExited then s_log s else butlast (s_log s)) \<and>
     (\<forall>a. n_args n = Some a \<longrightarrow> ra_filename a = tarName (last (s_log s)) \<and> ra_target a = j_dest j) \<and>
     (n_group n = Some (Inr ()) \<longrightarrow> n_pc n = RExited) \<and> (\<forall>e. n_group n = Some (Inl e) \<longrightarrow> s_err s \<noteq> None))"

definition toTarget :: "p2pJob \<Rightarrow> p2pNode \<Rightarrow> bool" where
  "toTarget j n = (\<forall>a \<in> set (n_received n). ra_target a = j_dest j)"

definition distributing :: "p2pState \<Rightarrow> bool" where
  "distributing s = (s_log s \<noteq> [] \<and> s_name s = tarName (last (s_log s)))"

definition listed :: "p2pJob \<Rightarrow> p2pState \<Rightarrow> bool" where
  "listed j s = (\<not> j_registry j \<longrightarrow> map mi_MountDir (pd_imageMountInfo (j_dist j)) = s_log s @ map mi_MountDir (s_todo s))"

definition resting :: "p2pJob \<Rightarrow> p2pState \<Rightarrow> bool" where
  "resting j s = (everywhere j s (quietNode s) \<and> everywhere j s (toTarget j) \<and> listed j s)"

definition busy :: "p2pJob \<Rightarrow> p2pState \<Rightarrow> bool" where
  "busy j s = (distributing s \<and> everywhere j s (active j s) \<and> everywhere j s (toTarget j) \<and> listed j s)"

definition p2p_account :: "p2pJob \<Rightarrow> p2pState \<Rightarrow> bool" where
  "p2p_account j s = (case s_pc s of
       Returned (Inl e) \<Rightarrow> True
     | Returned (Inr _) \<Rightarrow> s_todo s = [] \<and> resting j s
     | Loop \<Rightarrow> resting j s
     | _ \<Rightarrow> busy j s)"

lemma serve_fields [simp]:
  "n_pc (serve r n) = n_pc n" "n_received (serve r n) = n_received n" "n_args (serve r n) = n_args n" "n_group (serve r n) = n_group n"
  by (cases r; simp add: serve_def)+

lemma quietNode_step: "node_step name dest n n' \<Longrightarrow> quietNode s n \<Longrightarrow> s_log s' = s_log s \<Longrightarrow> quietNode s' n' \<and> n_received n' = n_received n"
  by (induction rule: node_step.induct) (auto simp: quietNode_def taken_def running_def)

lemma map_last: "xs \<noteq> [] \<Longrightarrow> map f xs = map f (butlast xs) @ [f (last xs)]"
  by (cases xs rule: rev_cases) simp_all

lemma active_step:
  assumes "node_step name dest n n'" "active j s n" "name = tarName (last (s_log s))" "dest = j_dest j" "s_log s \<noteq> []" "s_log s' = s_log s"
    and "s_err s \<noteq> None \<longrightarrow> s_err s' \<noteq> None" "n_group n' = n_group n \<or> n_group n' = Some (Inr ()) \<or> s_err s' \<noteq> None" "toTarget j n"
  shows "active j s' n' \<and> toTarget j n'"
  using assms
proof (induction rule: node_step.induct)
  case (ns_leave n a w)
  note map_last [OF ns_leave(7), of tarName]
  with ns_leave show ?case by (auto simp: active_def taken_def toTarget_def)
qed (auto simp: active_def taken_def toTarget_def running_def)

lemma at_host_same:
  "at_host j h s s' \<Longrightarrow> s_pc s' = s_pc s \<and> s_log s' = s_log s \<and> s_todo s' = s_todo s \<and> s_name s' = s_name s"
  by (simp add: at_host_def)

lemma resting_node:
  assumes "at_host j h s s'" "resting j s" shows "resting j s'"
proof -
  have "quietNode s' (s_nodes s' k) \<and> toTarget j (s_nodes s' k)" if k: "k \<in> set (j_hosts j)" for k
  proof (cases "k = h")
    case True
    with assms(2) k have "quietNode s (s_nodes s h)" "toTarget j (s_nodes s h)" by (simp_all add: resting_def everywhere_def)
    with True assms(1) quietNode_step [of "s_name s" "j_dest j" "s_nodes s h" "s_nodes s' h" s s'] show ?thesis by (simp add: at_host_def toTarget_def)
  next
    case False
    with assms k show ?thesis by (simp add: at_host_def resting_def everywhere_def quietNode_def)
  qed
  with assms show ?thesis by (simp add: resting_def everywhere_def listed_def at_host_same)
qed

lemma busy_node:
  assumes "at_host j h s s'" "busy j s" shows "busy j s'"
proof -
  have "active j s' (s_nodes s' k) \<and> toTarget j (s_nodes s' k)" if k: "k \<in> set (j_hosts j)" for k
  proof (cases "k = h")
    case True
    show ?thesis unfolding True
      by (rule active_step [of "s_name s" "j_dest j" "s_nodes s h" _ j s]) (use assms k True in \<open>simp_all add: at_host_def busy_def everywhere_def distributing_def\<close>)
  next
    case False
    with assms k show ?thesis by (auto simp: at_host_def busy_def everywhere_def active_def)
  qed
  with assms show ?thesis by (simp add: busy_def everywhere_def listed_def distributing_def at_host_same)
qed

lemma account_nodeEvent:
  assumes "p2p_account j s" "p2p_step j e s = Some s'" "nodeEvent e"
  shows "p2p_account j s'"
proof -
  obtain h where h: "at_host j h s s'" using nodeEvent_shape [OF assms(2,3)] by blast
  show ?thesis
    using assms(1) resting_node [OF h] busy_node [OF h] at_host_same [OF h]
    by (cases "s_pc s") (simp_all add: p2p_account_def split: sum.splits)
qed

lemma prepare_name: "p2p_prepare j info w = (Inr (Some (name, cid)), w') \<Longrightarrow> name = tarName (mi_MountDir info)"
  by (auto simp: p2p_prepare_def p2p_add_def Let_def bindE_Inr_iff thenE_Inr_iff returnE_def split: if_splits)

lemma prepare_skips: "p2p_prepare j info w = (Inr None, w') \<Longrightarrow> j_registry j"
  by (auto simp: p2p_prepare_def p2p_add_def Let_def bindE_Inr_iff thenE_Inr_iff returnE_def split: if_splits)

lemma account_prepare:
  assumes "p2p_account j s" "ev_prepare j s = Some s'" shows "p2p_account j s'"
proof -
  have pc: "s_pc s = Loop" using assms(2) by (auto simp: ev_prepare_def split: if_splits)
  with assms(1) have rest: "resting j s" by (simp add: p2p_account_def)
  show ?thesis
  proof (cases "s_todo s")
    case Nil
    with assms(2) pc rest show ?thesis by (auto simp: ev_prepare_def p2p_account_def resting_def everywhere_def quietNode_def listed_def)
  next
    case (Cons info rest')
    show ?thesis
    proof (cases "p2p_prepare j info (s_world s)")
      case (Pair r w)
      consider e where "r = Inl e" | "r = Inr None" | name cid where "r = Inr (Some (name, cid))"
        by (cases r) (auto, metis not_Some_eq surj_pair)
      then show ?thesis
      proof cases
        case 1
        with assms(2) pc Cons Pair show ?thesis by (auto simp: ev_prepare_def p2p_account_def)
      next
        case 2
        with Pair prepare_skips [of j info "s_world s" w] have "j_registry j" by simp
        with 2 assms(2) pc Cons Pair rest show ?thesis
          by (auto simp: ev_prepare_def p2p_account_def resting_def everywhere_def quietNode_def listed_def)
      next
        case 3
        with Pair prepare_name [of j info "s_world s" name cid w] have "name = tarName (mi_MountDir info)" by simp
        with 3 assms(2) pc Cons Pair rest show ?thesis
          by (auto simp: ev_prepare_def p2p_account_def resting_def busy_def everywhere_def quietNode_def active_def listed_def
              distributing_def freshNode_def taken_def toTarget_def)
      qed
    qed
  qed
qed

lemma busy_pc [simp]: "busy j (s\<lparr>s_pc := p\<rparr>) = busy j s"
  by (simp add: busy_def distributing_def everywhere_def active_def listed_def)

lemma busy_updHosts:
  assumes "busy j s" "\<And>n. n_group (f n) = n_group n" "\<And>n. n_pc (f n) = n_pc n" "\<And>n. n_args (f n) = n_args n" "\<And>n. n_received (f n) = n_received n"
  shows "busy j (updHosts j f s)"
  using assms by (simp add: busy_def distributing_def everywhere_def active_def listed_def taken_def toTarget_def)

lemma account_poll: "p2p_account j s \<Longrightarrow> ev_poll h l s = Some s' \<Longrightarrow> p2p_account j s'"
  by (auto simp: ev_poll_def p2p_account_def split: dpc.splits if_splits)

lemma account_pollFail: "p2p_account j s \<Longrightarrow> ev_pollFail h s = Some s' \<Longrightarrow> p2p_account j s'"
  by (auto simp: ev_pollFail_def p2p_account_def split: dpc.splits if_splits)

lemma account_round: "p2p_account j s \<Longrightarrow> ev_round j s = Some s' \<Longrightarrow> p2p_account j s'"
  by (auto simp: ev_round_def p2p_account_def goNext_def intro!: busy_updHosts split: dpc.splits if_splits list.splits)

lemma account_announce: "p2p_account j s \<Longrightarrow> ev_announce j r s = Some s' \<Longrightarrow> p2p_account j s'"
  by (auto simp: ev_announce_def p2p_account_def Let_def intro!: busy_updHosts split: if_splits sum.splits)

lemma account_wait:
  assumes "p2p_account j s" "ev_wait j s = Some s'" shows "p2p_account j s'"
proof -
  have pc: "s_pc s = Waiting" and all: "\<And>h. h \<in> set (j_hosts j) \<Longrightarrow> n_group (s_nodes s h) \<noteq> None"
    using assms(2) by (auto simp: ev_wait_def list_all_iff split: if_splits)
  with assms(1) have busy: "busy j s" by (simp add: p2p_account_def)
  show ?thesis
  proof (cases "s_err s")
    case (Some e)
    with assms(2) pc show ?thesis by (auto simp: ev_wait_def p2p_account_def split: if_splits)
  next
    case None
    have "quietNode s (s_nodes s h)" if h: "h \<in> set (j_hosts j)" for h
    proof -
      have act: "active j s (s_nodes s h)" using busy h by (simp add: busy_def everywhere_def)
      obtain r where r: "n_group (s_nodes s h) = Some r" using all [OF h] by blast
      have "r = Inr ()" using act r None by (cases r) (auto simp: active_def)
      with act r show ?thesis by (auto simp: quietNode_def active_def)
    qed
    with None assms(2) pc busy all show ?thesis
      by (auto simp: ev_wait_def p2p_account_def resting_def busy_def everywhere_def listed_def quietNode_def split: if_splits)
  qed
qed

lemma account_step: "p2p_account j s \<Longrightarrow> p2p_step j e s = Some s' \<Longrightarrow> p2p_account j s'"
proof (cases "nodeEvent e")
  case False
  assume "p2p_account j s" "p2p_step j e s = Some s'"
  with False show ?thesis
    by (cases e) (auto intro: account_prepare account_poll account_pollFail account_round account_announce account_wait)
qed (blast intro: account_nodeEvent)

lemma account_init: "p2p_account j (p2p_init j ws w)"
  by (simp add: p2p_account_def p2p_init_def resting_def everywhere_def quietNode_def toTarget_def idleNode_def taken_def listed_def)

lemma account_reachable: "p2p_steps j s s' \<Longrightarrow> p2p_account j s \<Longrightarrow> p2p_account j s'"
  by (induction rule: p2p_steps.induct) (auto intro: account_step)


section \<open>The announced addresses\<close>

definition b64safe :: "string \<Rightarrow> bool" where
  "b64safe s = (\<forall>c \<in> set s. c \<noteq> CHR ''+'' \<and> c \<noteq> CHR ''%'' \<and> c \<noteq> CHR ''&'' \<and> c \<noteq> CHR '';'')"

lemma unescape_safe: "b64safe s \<Longrightarrow> url_QueryUnescape s = Some s"
  by (induction s rule: url_QueryUnescape.induct) (auto simp: b64safe_def)

lemma query_value:
  assumes "b64safe v" shows "url_Query_Get (''target='' @ v) ''target'' = v"
proof -
  have "CHR ''&'' \<notin> set (''target='' @ v)" using assms by (auto simp: b64safe_def)
  then have "strings_Split (''target='' @ v) ''&'' = [''target='' @ v]" by (rule strings_Split_no_sep)
  moreover have "url_pair (''target='' @ v) = Some (''target'', v)"
  proof -
    have "CHR '';'' \<notin> set (''target='' @ v)" using assms by (auto simp: b64safe_def)
    moreover have "url_QueryUnescape ''target'' = Some ''target''" by (rule unescape_safe) (simp add: b64safe_def)
    ultimately show ?thesis using unescape_safe [OF assms] by (simp add: url_pair_def Let_def)
  qed
  ultimately show ?thesis by (simp add: url_Query_Get_def List.map_filter_simps)
qed

lemma base64_safe:
  assumes "CHR ''+'' \<notin> set (base64encode t)" shows "b64safe (base64encode t)"
proof -
  have tab: "list_all (\<lambda>n. b64char n \<noteq> CHR ''%'' \<and> b64char n \<noteq> CHR ''&'' \<and> b64char n \<noteq> CHR '';'') [0..<64]"
    by code_simp
  then have other: "n < 64 \<Longrightarrow> b64char n \<noteq> CHR ''%''" "n < 64 \<Longrightarrow> b64char n \<noteq> CHR ''&''" "n < 64 \<Longrightarrow> b64char n \<noteq> CHR '';''" for n
    by (auto simp: list_all_iff)
  have "\<forall>c \<in> set (base64encode t). c \<noteq> CHR ''%'' \<and> c \<noteq> CHR ''&'' \<and> c \<noteq> CHR '';''"
    by (induction t rule: base64encode.induct) (simp_all add: Let_def other)
  with assms show ?thesis unfolding b64safe_def by metis
qed

lemma knownAddrs_concat: "knownAddrs known = concat (map (\<lambda>a. a @ '','') known)"
proof -
  have "fold (\<lambda>host remote. remote @ fmt_Sprintf ''%s,'' [host]) known acc = acc @ concat (map (\<lambda>a. a @ '','') known)" for acc
    by (induction known arbitrary: acc) simp_all
  then show ?thesis by (simp add: knownAddrs_def)
qed

lemma split_known:
  assumes "\<forall>a \<in> set known. CHR '','' \<notin> set a" shows "strings_Split (knownAddrs known) '','' = known @ [[]]"
proof -
  have "strings_Join (known @ [[]]) '','' = knownAddrs known"
    unfolding knownAddrs_concat by (induction known) (simp_all add: strings_Join_Cons)
  moreover have "strings_Split (strings_Join (known @ [[]]) '','') '','' = known @ [[]]"
    using assms by (intro strings_Split_Join) auto
  ultimately show ?thesis by simp
qed

lemma parsePeers_bad: "NewMultiaddr lib [] = Inl e \<Longrightarrow> \<exists>e'. parsePeers lib (peers @ [[]]) infos = Inl e'"
proof (induction peers arbitrary: infos)
  case (Cons p ps)
  then show ?case
    by (cases "NewMultiaddr lib p"; cases "AddrInfoFromP2pAddr lib (projr (NewMultiaddr lib p))") auto
qed simp


section \<open>Runs\<close>

definition demoP2pLib :: p2pLib where
  "demoP2pLib = \<lparr>NewMultiaddr = (\<lambda>a. if a = [] then Inl (Errorf ''empty multiaddr'' []) else Inr a),
     AddrInfoFromP2pAddr = (\<lambda>a. Inr (a, [a]))\<rparr>"


definition demoP2p :: p2pJob where
  "demoP2p = \<lparr>j_dist = \<lparr>pd_yaml = undefined, pd_Identity = ''Qm'', pd_sshInfraDriver = demoDriver,
       pd_imageMountInfo = [\<lparr>mi_Hosts = [[10, 0, 0, 1]], mi_Platform = undefined, mi_MountDir = ''/m'', mi_ContainerID = [], mi_ImageID = ''i''\<rparr>],
       pd_registryCacheDir = [], pd_rootfsCacheDir = [], pd_configs = [], pd_options = \<lparr>do_IgnoreCache = False, do_Prune = False\<rparr>\<rparr>,
     j_lib = demoP2pLib, j_registry = False, j_hosts = [[10, 0, 0, 1]], j_dest = ''/r''\<rparr>"

lemma demo_client: "withClient demoDriver [10, 0, 0, 1] m = m"
  using demo_in_cluster by (auto simp: withClient_def)

abbreviation calmAt :: "action list \<Rightarrow> world" where
  "calmAt l \<equiv> calmWorld\<lparr>w_log := l\<rparr>"

definition calmLike :: "world \<Rightarrow> bool" where
  "calmLike w = (\<exists>l. w = calmAt l)"

lemma calmLike [simp]: "calmLike (calmAt l)" "calmLike calmWorld"
  by (auto simp: calmLike_def calmWorld_def)

lemma calm_actions:
  "perform a (calmAt l) = (Inr (), calmAt (l @ [a]))" "askText a (calmAt l) = (Inr [], calmAt (l @ [a]))"
  "os_IsFileExist p (calmAt l) = (Inr False, calmAt (l @ [LocalCall ''os.Stat'' [p]]))"
  by (simp_all add: perform_def askText_def os_IsFileExist_def calmWorld_def)

lemmas io_eval = thenE_def bindE_def mapErr_def whenE_def returnE_def tryE_def liftR_def Let_def calm_actions

definition demoInfo :: ClusterImageMountInfo where
  "demoInfo = hd (pd_imageMountInfo (j_dist demoP2p))"

lemma demo_prepare: "calmLike w \<Longrightarrow> \<exists>w'. p2p_prepare demoP2p demoInfo w = (Inr (Some (tarName ''/m'', [])), w') \<and> calmLike w'"
  unfolding calmLike_def [of w]
  by (auto simp: p2p_prepare_def p2p_add_def getUnixfsNode_def p2p_dumpConfigToRootfs_def p2p_renderRootfs_def Dump_def demoP2p_def
      demoInfo_def cidToString_def strings_Split_no_sep io_eval)

lemma demo_launch:
  "calmLike w \<Longrightarrow> \<exists>a w'. p2p_launch (j_dist demoP2p) name cid dest [10, 0, 0, 1] w = (Inr a, w') \<and> ra_bootstrap a = ''/ip4//tcp/40011/p2p/Qm'' \<and> calmLike w'"
  unfolding calmLike_def [of w]
  by (auto simp: p2p_launch_def getRealIP_def drv_Cmd_def demoP2p_def demo_client io_eval strings_TrimSpace_def)

lemma demo_begin:
  "calmLike w \<Longrightarrow> ra_bootstrap a = ''/ip4//tcp/40011/p2p/Qm'' \<Longrightarrow> \<exists>w'. receiver_begin demoP2pLib a w = (Inr (), w') \<and> calmLike w'"
  unfolding calmLike_def [of w]
  by (auto simp: receiver_begin_def spawnEphemeral_def setupPlugins_def receiver_createTempRepo_def createNode_def connectToPeers_def
      demoP2pLib_def orPanic_def printE_def addPeer_def errgroup_def errgroup_go.simps remove_nth_def io_eval)

lemma demo_fetch: "calmLike w \<Longrightarrow> \<exists>w'. receiver_fetch demoP2pLib a [[]] w = (Inr (), w')"
  unfolding calmLike_def [of w]
  by (auto simp: receiver_fetch_def connectToPeers_def demoP2pLib_def orPanic_def printE_def io_eval)

abbreviation h1 :: net_ip where "h1 \<equiv> [10, 0, 0, 1]"

definition demoStart :: p2pState where
  "demoStart = p2p_init demoP2p (\<lambda>_. calmWorld) calmWorld"

lemma demo_fields:
  "pd_imageMountInfo (j_dist demoP2p) = [demoInfo]" "mi_MountDir demoInfo = ''/m''" "j_hosts demoP2p = [h1]" "j_lib demoP2p = demoP2pLib" "\<not> j_registry demoP2p"
  by (simp_all add: demoP2p_def demoInfo_def)

text \<open>The start of a run on one host, up to the first stage.\<close>

lemma demo_stage1:
  "\<exists>s a. p2p_run demoP2p [Prepare, Launch h1, Begin h1, Poll h1 False, Round] demoStart = Some s \<and> s_pc s = Announcing \<and> s_todo s = [] \<and>
     s_err s = None \<and> calmLike (n_world (s_nodes s h1)) \<and> n_pc (s_nodes s h1) = RAwaitPeers \<and> n_args (s_nodes s h1) = Some a \<and>
     n_stage (s_nodes s h1) = 1 \<and> n_sig (s_nodes s h1) = 0 \<and> n_targets (s_nodes s h1) = [] \<and> n_group (s_nodes s h1) = None"
proof -
  obtain w1 where w1: "p2p_prepare demoP2p demoInfo calmWorld = (Inr (Some (tarName ''/m'', [])), w1)" "calmLike w1"
    using demo_prepare [of calmWorld] by auto
  obtain w2 a where w2: "p2p_launch (j_dist demoP2p) (tarName ''/m'') [] (j_dest demoP2p) h1 w1 = (Inr a, w2)" "ra_bootstrap a = ''/ip4//tcp/40011/p2p/Qm''"
    using demo_launch [OF w1(2)] by blast
  obtain w3 where w3: "receiver_begin demoP2pLib a calmWorld = (Inr (), w3)" "calmLike w3"
    using demo_begin [of calmWorld a] w2(2) by auto
  show ?thesis
    by (simp add: demoStart_def p2p_init_def ev_prepare_def demo_fields w1 ev_launch_def updHosts_def freshNode_def idleNode_def w2
        updNode_def ev_begin_def Let_def w3 ev_poll_def running_def ev_round_def)
qed

text \<open>From there to the end.\<close>

lemma demo_rest:
  assumes "s_pc s = Announcing" "s_todo s = []" "s_err s = None" "calmLike (n_world (s_nodes s h1))" "n_pc (s_nodes s h1) = RAwaitPeers"
    "n_args (s_nodes s h1) = Some a" "n_stage (s_nodes s h1) = 1" "n_sig (s_nodes s h1) = 0" "n_targets (s_nodes s h1) = []" "n_group (s_nodes s h1) = None"
  shows "\<exists>s'. p2p_run demoP2p [Announce (Inr []), Send h1 False, Send h1 False, Signal h1, Fetch h1, Poll h1 False, Round,
      SendFinal h1 False, Signal h1, Return h1 None, Wait, Prepare] s = Some s' \<and> s_pc s' = Returned (Inr ()) \<and> n_pc (s_nodes s' h1) = RExited"
proof -
  obtain w' where w': "receiver_fetch demoP2pLib a [[]] (n_world (s_nodes s h1)) = (Inr (), w')"
    using demo_fetch [OF assms(4)] by blast
  have conn: "connect_handler ''target='' [] = [[]]"
    by (simp add: connect_handler_def url_Query_Get_def strings_Split_no_sep url_pair_def base64decode_def List.map_filter_simps)
  show ?thesis
    using assms
    by (simp add: ev_announce_def knownAddrs_def demo_fields updHosts_def ev_send_def serve_def running_def conn updNode_def
        ev_signal_def Let_def ev_fetch_def w' ev_poll_def ev_round_def goNext_def ev_sendFinal_def ev_return_def finish_def ev_wait_def ev_prepare_def)
qed

lemma demo_success: "\<exists>s. p2p_steps demoP2p demoStart s \<and> s_pc s = Returned (Inr ()) \<and> n_pc (s_nodes s h1) = RExited"
proof -
  obtain s a where s: "p2p_run demoP2p [Prepare, Launch h1, Begin h1, Poll h1 False, Round] demoStart = Some s"
    "s_pc s = Announcing" "s_todo s = []" "s_err s = None" "calmLike (n_world (s_nodes s h1))" "n_pc (s_nodes s h1) = RAwaitPeers"
    "n_args (s_nodes s h1) = Some a" "n_stage (s_nodes s h1) = 1" "n_sig (s_nodes s h1) = 0" "n_targets (s_nodes s h1) = []" "n_group (s_nodes s h1) = None"
    using demo_stage1 by blast
  from demo_rest [OF s(2-)] p2p_run_steps [OF _ p2p_run_steps [OF s(1) p2p_steps.stop]] show ?thesis by blast
qed

theorem p2p_barriers_witness:
  "\<exists>s. p2p_steps demoP2p demoStart s \<and> n_pc (s_nodes s h1) = RExited \<and> n_stage (s_nodes s h1) = 2"
proof -
  obtain s where s: "p2p_steps demoP2p demoStart s" "n_pc (s_nodes s h1) = RExited" using demo_success by blast
  have "n_stage (s_nodes s h1) = 2"
    using p2p_barriers [of demoP2p "\<lambda>_. calmWorld" calmWorld s h1 h1] s by (simp add: demo_fields demoStart_def)
  with s show ?thesis by blast
qed


text \<open>A receiver that dies before the first stage, and one more round of questions.\<close>

lemma demo_crash:
  "\<exists>s s'. p2p_run demoP2p [Prepare, Launch h1, Crash h1 (Errorf ''killed'' [])] demoStart = Some s \<and> s_pc s = Polling ''1'' [h1] 0 False \<and>
     lost (s_nodes s h1) \<and> n_stage (s_nodes s h1) = 0 \<and> p2p_run demoP2p [PollFail h1, Round] s = Some s'"
proof -
  obtain w1 where w1: "p2p_prepare demoP2p demoInfo calmWorld = (Inr (Some (tarName ''/m'', [])), w1)" "calmLike w1"
    using demo_prepare [of calmWorld] by auto
  obtain w2 a where w2: "p2p_launch (j_dist demoP2p) (tarName ''/m'') [] (j_dest demoP2p) h1 w1 = (Inr a, w2)"
    using demo_launch [OF w1(2)] by blast
  show ?thesis
    by (simp add: demoStart_def p2p_init_def ev_prepare_def demo_fields w1 ev_launch_def updHosts_def freshNode_def idleNode_def w2
        updNode_def ev_crash_def running_def lost_def ev_pollFail_def ev_round_def)
qed

theorem failed_host_waits_forever_witness:
  "\<exists>s s' rem good bad. p2p_steps demoP2p demoStart s \<and> lost (s_nodes s h1) \<and> p2p_steps demoP2p s s' \<and> s_pc s' = Polling ''1'' rem good bad"
proof -
  obtain s s' where s: "p2p_run demoP2p [Prepare, Launch h1, Crash h1 (Errorf ''killed'' [])] demoStart = Some s"
    and pc: "s_pc s = Polling ''1'' [h1] 0 False" and l: "lost (s_nodes s h1)" "n_stage (s_nodes s h1) = 0"
    and r: "p2p_run demoP2p [PollFail h1, Round] s = Some s'"
    using demo_crash by blast
  have s1: "p2p_steps demoP2p demoStart s" using p2p_run_steps [OF s p2p_steps.stop] .
  have s2: "p2p_steps demoP2p s s'" using p2p_run_steps [OF r p2p_steps.stop] .
  have "\<exists>rem good bad. s_pc s' = Polling ''1'' rem good bad"
    by (rule failed_host_waits_forever [OF _ s1 [unfolded demoStart_def] pc _ l(1) _ s2]) (simp_all add: demo_fields l(2))
  with s1 l(1) s2 show ?thesis by blast
qed

end
