(* ===== verification/Image_Reference.thy ===== *)
theory Image_Reference
  imports Str_Utils Platforms
begin

text \<open>
  Names of images: \<^verbatim>\<open>pkg/image/reference\<close>, for cluster images, and \<^verbatim>\<open>pkg/image/save/utils.go\<close>, for the container images
  that are saved into a cluster image, with the choice of a manifest for a platform.
\<close>

section \<open>Indices\<close>

definition beforeChar :: "char \<Rightarrow> string \<Rightarrow> string" where
  "beforeChar c s = takeWhile (\<lambda>x. x \<noteq> c) s"

definition afterChar :: "char \<Rightarrow> string \<Rightarrow> string" where
  "afterChar c s = tl (dropWhile (\<lambda>x. x \<noteq> c) s)"

definition strings_LastIndexByte :: "string \<Rightarrow> char \<Rightarrow> int" where
  "strings_LastIndexByte s c = (if c \<in> set s then int (length s) - 1 - int (length (beforeChar c (rev s))) else - 1)"

definition looksLikeDomain :: "string \<Rightarrow> bool" where
  "looksLikeDomain d = (CHR ''.'' \<in> set d \<or> CHR '':'' \<in> set d \<or> d = ''localhost'')"

section \<open>Cluster images\<close>

record Named =
  nm_domain :: string
  nm_raw :: string
  nm_repo :: string
  nm_repoTag :: string
  nm_tag :: string

definition validate :: "string \<Rightarrow> unit res" where
  "validate name = (if name = [] then Inl (Errorf ''empty image name is not allowed'' [])
     else if list_ex is_space name then Inl (Errorf ''space is not allowed in image name'' []) else Inr ())"

definition normalizeDomainRepoTag :: "string \<Rightarrow> string \<times> string" where
  "normalizeDomainRepoTag name =
     (let (d, r) = (if CHR ''/'' \<in> set name \<and> looksLikeDomain (beforeChar (CHR ''/'') name) then (beforeChar (CHR ''/'') name, afterChar (CHR ''/'') name)
                    else (''docker.io'', name));
          r1 = (if d = ''docker.io'' \<and> CHR ''/'' \<notin> set r then ''sealerio'' @ ''/'' @ r else r);
          r2 = (if CHR '':'' \<notin> set r1 then r1 @ '':'' @ ''latest'' else r1)
      in (d, r2))"

text \<open>The text always has a colon when this is called.\<close>

definition buildRepoAndTag :: "string \<Rightarrow> string \<times> string" where
  "buildRepoAndTag rt = (let splits = strings_Split rt '':'' in (splits ! 0, splits ! 1))"

definition buildRaw :: "string \<Rightarrow> string" where
  "buildRaw name = (let i = strings_LastIndexByte name (CHR '':'') in
     if i = - 1 then name @ '':'' @ ''latest''
     else if i > strings_LastIndexByte name (CHR ''/'') then name
     else name @ '':'' @ ''latest'')"

definition ParseToNamed :: "string \<Rightarrow> Named res" where
  "ParseToNamed s = (let name = strings_TrimSpace s in
     bindR (validate name) (\<lambda>_.
       let (d, rt) = normalizeDomainRepoTag name; (r, t) = buildRepoAndTag rt in
       if strings_ToLower r \<noteq> r then Inl (Errorf ''uppercase is not allowed in image name'' [])
       else Inr \<lparr>nm_domain = d, nm_raw = buildRaw name, nm_repo = r, nm_repoTag = rt, nm_tag = t\<rparr>))"

definition Named_Name :: "Named \<Rightarrow> string" where
  "Named_Name n = (if nm_domain n = [] then nm_repo n else nm_domain n @ ''/'' @ nm_repo n)"

definition CompleteName :: "Named \<Rightarrow> string" where
  "CompleteName n = nm_domain n @ ''/'' @ nm_repoTag n"

section \<open>Container images\<close>

record ImageNamed =
  in_domain :: string
  in_repo :: string
  in_tag :: string

definition FullName :: "ImageNamed \<Rightarrow> string" where
  "FullName n = in_domain n @ ''/'' @ in_repo n @ '':'' @ in_tag n"

definition ImageNamed_Name :: "ImageNamed \<Rightarrow> string" where
  "ImageNamed_Name n = (if in_domain n = [] then in_repo n else in_domain n @ ''/'' @ in_repo n)"

definition splitDockerDomain :: "string \<Rightarrow> string \<Rightarrow> string \<times> string" where
  "splitDockerDomain name registry =
     (let first = beforeChar (CHR ''/'') name;
          (d, r) = (if CHR ''/'' \<notin> set name \<or> \<not> looksLikeDomain first \<and> strings_ToLower first = first
                    then (if registry \<noteq> [] then (registry, name) else (''docker.io'', name))
                    else (first, afterChar (CHR ''/'') name));
          d1 = (if d = ''index.docker.io'' then ''docker.io'' else d);
          r1 = (if d1 = ''docker.io'' \<and> CHR ''/'' \<notin> set r then ''library'' @ ''/'' @ r else r)
      in (d1, r1))"

definition ParseNormalizedNamed :: "string \<Rightarrow> string \<Rightarrow> ImageNamed res" where
  "ParseNormalizedNamed s registry =
     (let (d, remainder) = splitDockerDomain s registry;
          (remoteName, t) = (if CHR '':'' \<in> set remainder then (beforeChar (CHR '':'') remainder, afterChar (CHR '':'') remainder) else (remainder, ''latest''))
      in if strings_ToLower remoteName \<noteq> remoteName
         then Inl (Errorf ''invalid reference format: repository name (%s) must be lowercase'' [remoteName])
         else Inr \<lparr>in_domain = d, in_repo = remoteName, in_tag = t\<rparr>)"

record ImageManifest =
  im_Digest :: string
  im_Platform :: Platform

definition matched :: "Platform \<Rightarrow> Platform \<Rightarrow> bool" where
  "matched src dest = (if p_OS src = p_OS dest \<and> p_Architecture src = ''arm64'' \<and> p_Architecture dest = ''arm64'' then True
     else p_OS src = p_OS dest \<and> p_Architecture src = p_Architecture dest \<and> p_Variant src = p_Variant dest)"

definition getImageManifestDigest :: "(string \<Rightarrow> ImageManifest list res) \<Rightarrow> string \<Rightarrow> Platform \<Rightarrow> string res" where
  "getImageManifestDigest unmarshal payload plat =
     bindR (mapErrR (Wrapf ''json unmarshal error: %v'' []) (unmarshal payload)) (\<lambda>items.
       let resDigest = map im_Digest (filter (\<lambda>item. matched (im_Platform item) plat) items) in
       if resDigest = [] then Inl (Errorf ''no manifest of the corresponding platform'' []) else Inr (hd resDigest))"

definition getBlobList :: "(string \<Rightarrow> (string \<times> string list) res) \<Rightarrow> string res \<Rightarrow> string list res" where
  "getBlobList unmarshal payload = bindR (mapErrR (Wrapf ''failed to get blob list: %v'' []) payload) (\<lambda>p.
     bindR (mapErrR (Wrapf ''json unmarshal error: %v'' []) (unmarshal p)) (\<lambda>(config, layers). Inr (config # layers)))"

section \<open>Lemmas\<close>

lemma before_no: "c \<notin> set (beforeChar c s)"
  by (auto simp: beforeChar_def dest: set_takeWhileD)

lemma before_append [simp]: "c \<notin> set d \<Longrightarrow> beforeChar c (d @ c # t) = d"
  unfolding beforeChar_def by (induction d) auto

lemma after_append [simp]: "c \<notin> set d \<Longrightarrow> afterChar c (d @ c # t) = t"
  unfolding afterChar_def by (induction d) auto

lemma before_after: "c \<in> set s \<Longrightarrow> beforeChar c s @ c # afterChar c s = s"
  unfolding beforeChar_def afterChar_def by (induction s) auto

text \<open>The two parts of a name: the domain has no slash and looks like one, and the rest is complete.\<close>

lemma normalize_shape:
  assumes "normalizeDomainRepoTag name = (d, rt)"
  shows "CHR ''/'' \<notin> set d" "looksLikeDomain d" "CHR '':'' \<in> set rt" "d = ''docker.io'' \<Longrightarrow> CHR ''/'' \<in> set rt"
proof -
  have "looksLikeDomain ''docker.io''" by (simp add: looksLikeDomain_def)
  then show "CHR ''/'' \<notin> set d" "looksLikeDomain d"
    using assms before_no [of "CHR ''/''" name] by (auto simp: normalizeDomainRepoTag_def Let_def split: if_splits)
  show "CHR '':'' \<in> set rt" "d = ''docker.io'' \<Longrightarrow> CHR ''/'' \<in> set rt"
    using assms by (auto simp: normalizeDomainRepoTag_def Let_def split: if_splits)
qed

lemma normalize_complete:
  assumes "CHR ''/'' \<notin> set d" "looksLikeDomain d" "CHR '':'' \<in> set rt" "d = ''docker.io'' \<Longrightarrow> CHR ''/'' \<in> set rt"
  shows "normalizeDomainRepoTag (d @ ''/'' @ rt) = (d, rt)"
  using assms by (simp add: normalizeDomainRepoTag_def Let_def)

lemma beforeChar_set: "set (beforeChar c s) \<subseteq> set s" and afterChar_set: "set (afterChar c s) \<subseteq> set s"
  unfolding beforeChar_def afterChar_def
  by (auto dest: set_takeWhileD) (metis list.sel(2) list.set_sel(2) set_dropWhileD)

lemma normalize_no_space:
  assumes "normalizeDomainRepoTag name = (d, rt)" "\<forall>c \<in> set name. \<not> is_space c"
  shows "\<forall>c \<in> set (d @ ''/'' @ rt). \<not> is_space c"
proof
  let ?lit = "''docker.io'' @ ''sealerio'' @ ''/:latest''"
  have lit: "\<forall>c \<in> set ?lit. \<not> is_space c" by code_simp
  have d: "set d \<subseteq> set name \<union> set ?lit"
    using assms(1) beforeChar_set [of "CHR ''/''" name] by (auto simp: normalizeDomainRepoTag_def Let_def split: if_splits)
  have rt: "set rt \<subseteq> set name \<union> set ?lit"
    using assms(1) afterChar_set [of "CHR ''/''" name] by (auto simp: normalizeDomainRepoTag_def Let_def split: if_splits)
  fix c assume "c \<in> set (d @ ''/'' @ rt)"
  then consider "c \<in> set d" | "c = CHR ''/''" | "c \<in> set rt" by (simp only: set_append Un_iff list.set insert_iff) blast
  then have "c \<in> set name \<or> c \<in> set ?lit"
  proof cases
    case 1 then show ?thesis using d by (blast dest: subsetD)
  next
    case 2 then show ?thesis by simp
  next
    case 3 then show ?thesis using rt by (blast dest: subsetD)
  qed
  then show "\<not> is_space c" using assms(2) lit by (elim disjE) (erule (1) bspec [rotated])+
qed

lemma TrimSpace_clean: "\<forall>c \<in> set s. \<not> is_space c \<Longrightarrow> strings_TrimSpace s = s"
proof -
  assume s: "\<forall>c \<in> set s. \<not> is_space c"
  have hd: "dropWhile is_space t = t" if "\<forall>c \<in> set t. \<not> is_space c" for t using that by (cases t) auto
  have "dropWhile is_space s = s" "dropWhile is_space (rev s) = rev s" using hd [of s] hd [of "rev s"] s by auto
  then show ?thesis by (simp add: strings_TrimSpace_def)
qed

lemma ParseToNamed_Inr:
  "ParseToNamed s = Inr n \<Longrightarrow> \<exists>d rt. normalizeDomainRepoTag (strings_TrimSpace s) = (d, rt) \<and> nm_domain n = d \<and> nm_repoTag n = rt \<and>
     buildRepoAndTag rt = (nm_repo n, nm_tag n) \<and> strings_ToLower (nm_repo n) = nm_repo n \<and> (\<forall>c \<in> set (strings_TrimSpace s). \<not> is_space c)"
  by (auto simp: ParseToNamed_def validate_def Let_def bindR_Inr_iff list_ex_iff split: if_splits prod.splits)

text \<open>
  The complete name of a cluster image names the same image: when a name is accepted, its complete form (domain,
  repository and tag spelled out) is accepted too and has the same domain, repository and tag.
\<close>

theorem complete_name_reparsed:
  assumes "ParseToNamed s = Inr n"
  shows "\<exists>n'. ParseToNamed (CompleteName n) = Inr n' \<and> nm_domain n' = nm_domain n \<and> nm_repoTag n' = nm_repoTag n \<and>
     nm_repo n' = nm_repo n \<and> nm_tag n' = nm_tag n \<and> CompleteName n' = CompleteName n"
proof -
  obtain d rt where nrm: "normalizeDomainRepoTag (strings_TrimSpace s) = (d, rt)" and n: "nm_domain n = d" "nm_repoTag n = rt"
      "buildRepoAndTag rt = (nm_repo n, nm_tag n)" "strings_ToLower (nm_repo n) = nm_repo n"
    and sp: "\<forall>c \<in> set (strings_TrimSpace s). \<not> is_space c"
    using ParseToNamed_Inr [OF assms] by blast
  let ?c = "d @ ''/'' @ rt"
  have clean: "\<forall>c \<in> set ?c. \<not> is_space c" using normalize_no_space [OF nrm sp] .
  have "normalizeDomainRepoTag ?c = (d, rt)" using normalize_shape [OF nrm] by (intro normalize_complete)
  moreover have "strings_TrimSpace ?c = ?c" using clean by (rule TrimSpace_clean)
  moreover have "validate ?c = Inr ()" using clean by (simp add: validate_def list_ex_iff)
  ultimately have "ParseToNamed ?c = Inr \<lparr>nm_domain = d, nm_raw = buildRaw ?c, nm_repo = nm_repo n, nm_repoTag = rt, nm_tag = nm_tag n\<rparr>"
    using n by (simp add: ParseToNamed_def Let_def)
  then show ?thesis using n by (simp add: CompleteName_def)
qed

theorem complete_name_reparsed_witness:
  "\<exists>n n'. ParseToNamed ''k8s'' = Inr n \<and> CompleteName n = ''docker.io/sealerio/k8s:latest'' \<and> ParseToNamed (CompleteName n) = Inr n' \<and> CompleteName n' = CompleteName n"
proof -
  let ?n = "\<lparr>nm_domain = ''docker.io'', nm_raw = ''k8s:latest'', nm_repo = ''sealerio/k8s'', nm_repoTag = ''sealerio/k8s:latest'', nm_tag = ''latest''\<rparr>"
  have n: "ParseToNamed ''k8s'' = Inr ?n" by code_simp
  obtain n' where "ParseToNamed (CompleteName ?n) = Inr n'" "CompleteName n' = CompleteName ?n"
    using complete_name_reparsed [OF n] by auto
  moreover have "CompleteName ?n = ''docker.io/sealerio/k8s:latest''" by code_simp
  ultimately show ?thesis using n by (intro exI [of _ ?n] exI [of _ n'] conjI) simp_all
qed

text \<open>The same for container images, whose domain is found in the name.\<close>

lemma split_shape:
  assumes "splitDockerDomain s [] = (d, r)"
  shows "CHR ''/'' \<notin> set d" "looksLikeDomain d \<or> strings_ToLower d \<noteq> d" "d \<noteq> ''index.docker.io''" "d = ''docker.io'' \<Longrightarrow> CHR ''/'' \<in> set r"
proof -
  have "looksLikeDomain ''docker.io''" by (simp add: looksLikeDomain_def)
  then show "CHR ''/'' \<notin> set d" "looksLikeDomain d \<or> strings_ToLower d \<noteq> d" "d \<noteq> ''index.docker.io''"
    using assms before_no [of "CHR ''/''" s] by (auto simp: splitDockerDomain_def Let_def split: if_splits)
  show "d = ''docker.io'' \<Longrightarrow> CHR ''/'' \<in> set r"
    using assms by (auto simp: splitDockerDomain_def Let_def split: if_splits)
qed

lemma split_full:
  assumes "CHR ''/'' \<notin> set d" "looksLikeDomain d \<or> strings_ToLower d \<noteq> d" "d \<noteq> ''index.docker.io''" "d = ''docker.io'' \<Longrightarrow> CHR ''/'' \<in> set r"
  shows "splitDockerDomain (d @ ''/'' @ r) registry = (d, r)"
  using assms by (auto simp: splitDockerDomain_def Let_def)

text \<open>The parts of a name can be read off its full form.\<close>

lemma parsed_parts:
  assumes "ParseNormalizedNamed s [] = Inr n" shows "CHR ''/'' \<notin> set (in_domain n)" "CHR '':'' \<notin> set (in_repo n)"
proof -
  obtain d r where sp: "splitDockerDomain s [] = (d, r)" by (cases "splitDockerDomain s []")
  show "CHR ''/'' \<notin> set (in_domain n)" "CHR '':'' \<notin> set (in_repo n)"
    using assms sp split_shape(1) [OF sp] before_no [of "CHR '':''" r] by (auto simp: ParseNormalizedNamed_def Let_def split: if_splits)
qed

lemma parsed_FullName_inj:
  assumes "ParseNormalizedNamed s [] = Inr m" "ParseNormalizedNamed t [] = Inr n" "FullName m = FullName n" shows "m = n"
proof -
  have f: "in_domain m @ CHR ''/'' # (in_repo m @ CHR '':'' # in_tag m) = in_domain n @ CHR ''/'' # (in_repo n @ CHR '':'' # in_tag n)"
    using assms(3) by (simp add: FullName_def)
  have d: "in_domain m = in_domain n"
    using arg_cong [OF f, of "beforeChar (CHR ''/'')"] parsed_parts(1) [OF assms(1)] parsed_parts(1) [OF assms(2)] by simp
  then have r: "in_repo m @ CHR '':'' # in_tag m = in_repo n @ CHR '':'' # in_tag n" using f by simp
  have "in_repo m = in_repo n"
    using arg_cong [OF r, of "beforeChar (CHR '':'')"] parsed_parts(2) [OF assms(1)] parsed_parts(2) [OF assms(2)] by simp
  then show ?thesis using d r by simp
qed

text \<open>
  The full name of a container image names the same image: when a name without a default registry is accepted, its
  full form is accepted as the same domain, repository and tag.
\<close>

theorem full_name_reparsed:
  assumes "ParseNormalizedNamed s [] = Inr n" shows "ParseNormalizedNamed (FullName n) registry = Inr n"
proof -
  obtain d r where sp: "splitDockerDomain s [] = (d, r)" by (cases "splitDockerDomain s []")
  note sh = split_shape [OF sp]
  let ?repo = "if CHR '':'' \<in> set r then beforeChar (CHR '':'') r else r"
  let ?tag = "if CHR '':'' \<in> set r then afterChar (CHR '':'') r else ''latest''"
  have n: "n = \<lparr>in_domain = d, in_repo = ?repo, in_tag = ?tag\<rparr>" "strings_ToLower ?repo = ?repo"
    using assms sp by (auto simp: ParseNormalizedNamed_def Let_def split: if_splits)
  have colon: "CHR '':'' \<notin> set ?repo" using before_no by auto
  have full: "FullName n = d @ ''/'' @ (?repo @ CHR '':'' # ?tag)" using n(1) by (simp add: FullName_def)
  have "set r \<subseteq> set (?repo @ CHR '':'' # ?tag)"
    using before_after [of "CHR '':''" r] by (cases "CHR '':'' \<in> set r") auto
  then have "d = ''docker.io'' \<Longrightarrow> CHR ''/'' \<in> set (?repo @ CHR '':'' # ?tag)"
    using sh(4) by (rule subsetD)
  then have "splitDockerDomain (FullName n) registry = (d, ?repo @ CHR '':'' # ?tag)"
    unfolding full using sh by (intro split_full)
  then show ?thesis
    using n colon by (simp add: ParseNormalizedNamed_def Let_def)
qed

theorem full_name_reparsed_witness: "ParseNormalizedNamed ''docker.io/library/nginx:latest'' [] = Inr \<lparr>in_domain = ''docker.io'', in_repo = ''library/nginx'', in_tag = ''latest''\<rparr>"
proof -
  let ?n = "\<lparr>in_domain = ''docker.io'', in_repo = ''library/nginx'', in_tag = ''latest''\<rparr>"
  have "ParseNormalizedNamed ''nginx'' [] = Inr ?n" by code_simp
  from full_name_reparsed [OF this, of "[]"] show ?thesis by (simp add: FullName_def)
qed

text \<open>With a default registry that does not look like a domain the full name is read differently.\<close>

lemma full_name_of_plain_registry:
  "ParseNormalizedNamed ''nginx'' ''hub'' = Inr \<lparr>in_domain = ''hub'', in_repo = ''nginx'', in_tag = ''latest''\<rparr> \<and>
   ParseNormalizedNamed ''hub/nginx:latest'' [] = Inr \<lparr>in_domain = ''docker.io'', in_repo = ''hub/nginx'', in_tag = ''latest''\<rparr>"
  by code_simp

text \<open>The manifest chosen for a platform is the first that matches, and none is chosen only when none does.\<close>

theorem manifest_first_match:
  assumes "unmarshal payload = Inr items"
  shows "case getImageManifestDigest unmarshal payload plat of
       Inl e \<Rightarrow> \<forall>item \<in> set items. \<not> matched (im_Platform item) plat
     | Inr d \<Rightarrow> (\<exists>us item vs. items = us @ item # vs \<and> d = im_Digest item \<and> matched (im_Platform item) plat \<and> (\<forall>u \<in> set us. \<not> matched (im_Platform u) plat))"
proof (cases "filter (\<lambda>item. matched (im_Platform item) plat) items")
  case Nil
  then show ?thesis using assms by (simp add: getImageManifestDigest_def mapErrR_def filter_empty_conv)
next
  case (Cons x xs)
  then obtain us vs where "items = us @ x # vs" "\<forall>u \<in> set us. \<not> matched (im_Platform u) plat" "matched (im_Platform x) plat"
    by (auto simp: filter_eq_Cons_iff)
  then show ?thesis using assms Cons by (auto simp: getImageManifestDigest_def mapErrR_def)
qed

end
