(* ===== verification/Pull_Cache.thy ===== *)
theory Pull_Cache
  imports Image_Reference "HOL-Library.Word"
begin

text \<open>
  The pull-through cache of \<^verbatim>\<open>pkg/image/save/distributionpkg/proxy\<close>: a registry that serves tags, manifests and blobs from
  the local disk and fetches them from the registry they belong to. The packages it is built on (the storage and the client
  of \<^verbatim>\<open>distribution\<close>, the network) are a parameter, a record of operations on a world \<open>'w\<close>; \<open>lib_url\<close> stands for the checks of
  \<^verbatim>\<open>url.Parse\<close>. A blob or a manifest is named by its digest; the content of a reader is all it will deliver.
\<close>

section \<open>The registry library\<close>

type_synonym digest = string

record Descriptor =
  ds_MediaType :: string
  ds_Size :: nat
  ds_Digest :: digest

text \<open>What \<^verbatim>\<open>Payload\<close> of a manifest returns: its media type and its bytes, or an error.\<close>

type_synonym Manifest = "(string \<times> string) res"

record URL =
  u_Scheme :: string
  u_Host :: string
  u_Path :: string

definition URL_String :: "URL \<Rightarrow> string" where
  "URL_String u = u_Scheme u @ ''://'' @ u_Host u @ u_Path u"

record challenge =
  ch_Scheme :: string
  ch_realm :: string

type_synonym credentials = "string \<rightharpoonup> string \<times> string"

text \<open>A client of a remote repository: its URL, whether certificates are checked, the challenges it knows and its credentials.\<close>

record remote =
  rm_URL :: string
  rm_insecure :: bool
  rm_cm :: nat
  rm_creds :: credentials
  rm_name :: string

type_synonym ('w, 'a) op = "'w \<Rightarrow> 'a res \<times> 'w"

record 'w Dist =
  lib_url :: "string \<Rightarrow> URL res"
  lib_WithName :: "string \<Rightarrow> string res"
  lib_driver :: "string \<Rightarrow> ('w, unit) op"
  lib_registry :: "string \<Rightarrow> ('w, unit) op"
  lib_certs :: "string \<Rightarrow> ('w, unit) op"
  lib_http_Get :: "bool \<Rightarrow> string \<Rightarrow> ('w, challenge list) op"
  lib_try_Get :: "remote \<Rightarrow> string \<Rightarrow> ('w, unit) op"
  cm_New :: "'w \<Rightarrow> nat \<times> 'w"
  cm_GetChallenges :: "nat \<Rightarrow> string \<Rightarrow> ('w, challenge list) op"
  cm_AddResponse :: "nat \<Rightarrow> string \<Rightarrow> challenge list \<Rightarrow> ('w, unit) op"
  loc_Repository :: "string \<Rightarrow> string \<Rightarrow> ('w, unit) op"
  loc_Manifests :: "string \<Rightarrow> string \<Rightarrow> ('w, unit) op"
  loc_TagGet :: "string \<Rightarrow> string \<Rightarrow> string \<Rightarrow> ('w, Descriptor) op"
  loc_Tag :: "string \<Rightarrow> string \<Rightarrow> string \<Rightarrow> Descriptor \<Rightarrow> ('w, unit) op"
  loc_Untag :: "string \<Rightarrow> string \<Rightarrow> string \<Rightarrow> ('w, unit) op"
  loc_AllTags :: "string \<Rightarrow> string \<Rightarrow> ('w, string list) op"
  loc_ManGet :: "string \<Rightarrow> string \<Rightarrow> digest \<Rightarrow> ('w, Manifest) op"
  loc_ManPut :: "string \<Rightarrow> string \<Rightarrow> Manifest \<Rightarrow> ('w, digest) op"
  loc_ManExists :: "string \<Rightarrow> string \<Rightarrow> digest \<Rightarrow> ('w, bool) op"
  loc_Stat :: "string \<Rightarrow> string \<Rightarrow> digest \<Rightarrow> ('w, Descriptor) op"
  loc_BlobGet :: "string \<Rightarrow> string \<Rightarrow> digest \<Rightarrow> ('w, string) op"
  loc_BlobPut :: "string \<Rightarrow> string \<Rightarrow> string \<Rightarrow> string \<Rightarrow> ('w, Descriptor) op"
  loc_Serve :: "string \<Rightarrow> string \<Rightarrow> digest \<Rightarrow> ('w, unit) op"
  loc_Create :: "string \<Rightarrow> string \<Rightarrow> ('w, nat) op"
  loc_Write :: "nat \<Rightarrow> string \<Rightarrow> ('w, unit) op"
  loc_Commit :: "nat \<Rightarrow> Descriptor \<Rightarrow> ('w, Descriptor) op"
  loc_GlobalStat :: "string \<Rightarrow> digest \<Rightarrow> ('w, Descriptor) op"
  rem_New :: "remote \<Rightarrow> ('w, unit) op"
  rem_Manifests :: "remote \<Rightarrow> ('w, unit) op"
  rem_TagGet :: "remote \<Rightarrow> string \<Rightarrow> ('w, Descriptor) op"
  rem_AllTags :: "remote \<Rightarrow> ('w, string list) op"
  rem_ManGet :: "remote \<Rightarrow> digest \<Rightarrow> ('w, Manifest) op"
  rem_ManExists :: "remote \<Rightarrow> digest \<Rightarrow> ('w, bool) op"
  rem_Stat :: "remote \<Rightarrow> digest \<Rightarrow> ('w, Descriptor) op"
  rem_BlobGet :: "remote \<Rightarrow> digest \<Rightarrow> ('w, string) op"
  rem_Open :: "remote \<Rightarrow> digest \<Rightarrow> ('w, string) op"
  rem_SeekEnd :: "remote \<Rightarrow> digest \<Rightarrow> ('w, nat) op"
  rem_SeekStart :: "remote \<Rightarrow> digest \<Rightarrow> ('w, nat) op"
  sch_order :: "'w \<Rightarrow> nat list"
  sch_steps :: "'w \<Rightarrow> nat list"

section \<open>Operations with state\<close>

record Metrics =
  mt_Requests :: "64 word"
  mt_Hits :: "64 word"
  mt_Misses :: "64 word"
  mt_BytesPulled :: "64 word"
  mt_BytesPushed :: "64 word"

text \<open>The world and the package's variables: the two sets of counters and the blobs that are being downloaded.\<close>

record 'w PState =
  ps_world :: 'w
  ps_blobMetrics :: Metrics
  ps_manifestMetrics :: Metrics
  ps_inflight :: "digest set"

type_synonym ('w, 'a) act = "'w PState \<Rightarrow> 'a res \<times> 'w PState"

definition retA :: "'a \<Rightarrow> ('w, 'a) act" where
  "retA x s = (Inr x, s)"

definition failA :: "gerror \<Rightarrow> ('w, 'a) act" where
  "failA e s = (Inl e, s)"

text \<open>\<open>tryA\<close> hands the result, error or value, to what follows.\<close>

definition tryA :: "('w, 'a) act \<Rightarrow> ('a res \<Rightarrow> ('w, 'b) act) \<Rightarrow> ('w, 'b) act" where
  "tryA m f s = (let (r, s') = m s in f r s')"

definition bindA :: "('w, 'a) act \<Rightarrow> ('a \<Rightarrow> ('w, 'b) act) \<Rightarrow> ('w, 'b) act" where
  "bindA m f s = (case m s of (Inl e, s') \<Rightarrow> (Inl e, s') | (Inr x, s') \<Rightarrow> f x s')"

definition wrapA :: "(gerror \<Rightarrow> gerror) \<Rightarrow> ('w, 'a) act \<Rightarrow> ('w, 'a) act" where
  "wrapA g m s = (let (r, s') = m s in (mapErrR g r, s'))"

definition opA :: "('w, 'a) op \<Rightarrow> ('w, 'a) act" where
  "opA f s = (let (r, w) = f (ps_world s) in (r, s\<lparr>ps_world := w\<rparr>))"

definition modA :: "('w PState \<Rightarrow> 'w PState) \<Rightarrow> ('w, unit) act" where
  "modA f s = (Inr (), f s)"

section \<open>Counters\<close>

definition Metrics_pull :: "64 word \<Rightarrow> Metrics \<Rightarrow> Metrics" where
  "Metrics_pull n m = m\<lparr>mt_Misses := mt_Misses m + 1, mt_BytesPulled := mt_BytesPulled m + n\<rparr>"

definition Metrics_push :: "64 word \<Rightarrow> Metrics \<Rightarrow> Metrics" where
  "Metrics_push n m = m\<lparr>mt_Requests := mt_Requests m + 1, mt_Hits := mt_Hits m + 1, mt_BytesPushed := mt_BytesPushed m + n\<rparr>"

definition BlobPull :: "64 word \<Rightarrow> ('w, unit) act" where
  "BlobPull n = modA (\<lambda>s. s\<lparr>ps_blobMetrics := Metrics_pull n (ps_blobMetrics s)\<rparr>)"

definition BlobPush :: "64 word \<Rightarrow> ('w, unit) act" where
  "BlobPush n = modA (\<lambda>s. s\<lparr>ps_blobMetrics := Metrics_push n (ps_blobMetrics s)\<rparr>)"

definition ManifestPull :: "64 word \<Rightarrow> ('w, unit) act" where
  "ManifestPull n = modA (\<lambda>s. s\<lparr>ps_manifestMetrics := Metrics_pull n (ps_manifestMetrics s)\<rparr>)"

definition ManifestPush :: "64 word \<Rightarrow> ('w, unit) act" where
  "ManifestPush n = modA (\<lambda>s. s\<lparr>ps_manifestMetrics := Metrics_push n (ps_manifestMetrics s)\<rparr>)"

section \<open>Authentication\<close>

definition certUnknown :: string where
  "certUnknown = ''x509: certificate signed by unknown authority''"

definition credentials_Basic :: "credentials \<Rightarrow> URL \<Rightarrow> string \<times> string" where
  "credentials_Basic creds u = (case creds (URL_String u) of None \<Rightarrow> ([], []) | Some up \<Rightarrow> up)"

text \<open>A request that is repeated without the check of certificates when the certificate is of an unknown authority.\<close>

definition get_or_skip :: "'w Dist \<Rightarrow> string \<Rightarrow> ('w, challenge list) act" where
  "get_or_skip lib url = tryA (opA (lib_http_Get lib False url)) (\<lambda>r. case r of
       Inr resp \<Rightarrow> retA resp
     | Inl e \<Rightarrow> if strings_Contains (err_Error e) certUnknown then opA (lib_http_Get lib True url) else failA e)"

definition getAuthURLs :: "'w Dist \<Rightarrow> string \<Rightarrow> ('w, string list) act" where
  "getAuthURLs lib remoteURL = bindA (get_or_skip lib (remoteURL @ ''/v2/'')) (\<lambda>chs.
     retA (map ch_realm (filter (\<lambda>c. strings_ToLower (ch_Scheme c) = ''bearer'') chs)))"

definition configureAuth :: "'w Dist \<Rightarrow> string \<Rightarrow> string \<Rightarrow> string \<Rightarrow> ('w, credentials) act" where
  "configureAuth lib username password remoteURL = bindA (getAuthURLs lib remoteURL) (\<lambda>authURLs.
     retA (foldl (\<lambda>creds url. creds(url \<mapsto> (username, password))) Map.empty authURLs))"

definition proxy_ping :: "'w Dist \<Rightarrow> nat \<Rightarrow> string \<Rightarrow> ('w, unit) act" where
  "proxy_ping lib manager endpoint = bindA (get_or_skip lib endpoint) (\<lambda>resp. opA (cm_AddResponse lib manager endpoint resp))"

record proxyingRegistry =
  pr_dir :: string
  pr_remoteURL :: URL
  pr_cm :: nat
  pr_cs :: credentials

definition tryEstablishChallenges :: "'w Dist \<Rightarrow> URL \<Rightarrow> nat \<Rightarrow> ('w, unit) act" where
  "tryEstablishChallenges lib url cm = (let remoteURL = URL_String (url\<lparr>u_Path := ''/v2/''\<rparr>) in
     bindA (opA (cm_GetChallenges lib cm remoteURL)) (\<lambda>challenges.
       if challenges \<noteq> [] then retA () else proxy_ping lib cm remoteURL))"

definition NewRegistryPullThroughCache :: "'w Dist \<Rightarrow> string \<Rightarrow> string \<Rightarrow> string \<Rightarrow> string \<Rightarrow> ('w, proxyingRegistry) act" where
  "NewRegistryPullThroughCache lib dir configURL username password = (case lib_url lib configURL of
       Inl e \<Rightarrow> failA e
     | Inr remoteURL \<Rightarrow> bindA (configureAuth lib username password configURL) (\<lambda>cs.
         bindA (opA (\<lambda>w. case cm_New lib w of (cm, w') \<Rightarrow> (Inr cm, w'))) (\<lambda>cm.
           retA \<lparr>pr_dir = dir, pr_remoteURL = remoteURL, pr_cm = cm, pr_cs = cs\<rparr>)))"

section \<open>A repository of the cache\<close>

record proxiedRepository =
  rp_dir :: string
  rp_name :: string
  rp_remoteURL :: URL
  rp_remote :: remote

definition rp_challenges :: "'w Dist \<Rightarrow> proxiedRepository \<Rightarrow> ('w, unit) act" where
  "rp_challenges lib rp = tryEstablishChallenges lib (rp_remoteURL rp) (rm_cm (rp_remote rp))"

definition proxy_Repository :: "'w Dist \<Rightarrow> proxyingRegistry \<Rightarrow> string \<Rightarrow> ('w, proxiedRepository) act" where
  "proxy_Repository lib pr name =
     bindA (opA (lib_certs lib (u_Host (pr_remoteURL pr)))) (\<lambda>_.
     let url = URL_String (pr_remoteURL pr);
         client = \<lambda>insecure. \<lparr>rm_URL = url, rm_insecure = insecure, rm_cm = pr_cm pr, rm_creds = pr_cs pr, rm_name = name\<rparr> in
     tryA (opA (lib_try_Get lib (client False) url)) (\<lambda>r.
     let rem = client (case r of Inl e \<Rightarrow> strings_Contains (err_Error e) certUnknown | Inr _ \<Rightarrow> False) in
     bindA (opA (loc_Repository lib (pr_dir pr) name)) (\<lambda>_.
     bindA (opA (loc_Manifests lib (pr_dir pr) name)) (\<lambda>_.
     bindA (opA (rem_New lib rem)) (\<lambda>_.
     bindA (opA (rem_Manifests lib rem)) (\<lambda>_.
       retA \<lparr>rp_dir = pr_dir pr, rp_name = name, rp_remoteURL = pr_remoteURL pr, rp_remote = rem\<rparr>))))))"

text \<open>Tags: the remote association is the newer one and is kept; without it the local one is returned.\<close>

definition tags_Get :: "'w Dist \<Rightarrow> proxiedRepository \<Rightarrow> string \<Rightarrow> ('w, Descriptor) act" where
  "tags_Get lib rp t =
     tryA (bindA (rp_challenges lib rp) (\<lambda>_. opA (rem_TagGet lib (rp_remote rp) t))) (\<lambda>r. case r of
       Inr desc \<Rightarrow> bindA (opA (loc_Tag lib (rp_dir rp) (rp_name rp) t desc)) (\<lambda>_. retA desc)
     | Inl _ \<Rightarrow> opA (loc_TagGet lib (rp_dir rp) (rp_name rp) t))"

definition tags_Untag :: "'w Dist \<Rightarrow> proxiedRepository \<Rightarrow> string \<Rightarrow> ('w, unit) act" where
  "tags_Untag lib rp t = opA (loc_Untag lib (rp_dir rp) (rp_name rp) t)"

definition tags_All :: "'w Dist \<Rightarrow> proxiedRepository \<Rightarrow> ('w, string list) act" where
  "tags_All lib rp = tryA (bindA (rp_challenges lib rp) (\<lambda>_. opA (rem_AllTags lib (rp_remote rp)))) (\<lambda>r. case r of
       Inr tags \<Rightarrow> retA tags
     | Inl _ \<Rightarrow> opA (loc_AllTags lib (rp_dir rp) (rp_name rp)))"

text \<open>Manifests.\<close>

definition manifests_Exists :: "'w Dist \<Rightarrow> proxiedRepository \<Rightarrow> digest \<Rightarrow> ('w, bool) act" where
  "manifests_Exists lib rp dgst = bindA (opA (loc_ManExists lib (rp_dir rp) (rp_name rp) dgst)) (\<lambda>ex.
     if ex then retA True
     else bindA (rp_challenges lib rp) (\<lambda>_. opA (rem_ManExists lib (rp_remote rp) dgst)))"

text \<open>What is done with a manifest once it was found: it is counted, and kept when it comes from the remote registry.\<close>

definition keepManifest :: "'w Dist \<Rightarrow> proxiedRepository \<Rightarrow> Manifest \<Rightarrow> bool \<Rightarrow> ('w, Manifest) act" where
  "keepManifest lib rp manifest fromRemote = (case manifest of Inl e \<Rightarrow> failA e
     | Inr (_, payload) \<Rightarrow>
         bindA (ManifestPush (word_of_nat (length payload))) (\<lambda>_.
         if fromRemote then bindA (ManifestPull (word_of_nat (length payload))) (\<lambda>_.
              bindA (opA (loc_ManPut lib (rp_dir rp) (rp_name rp) manifest)) (\<lambda>_. retA manifest))
         else retA manifest))"

definition manifests_Get :: "'w Dist \<Rightarrow> proxiedRepository \<Rightarrow> digest \<Rightarrow> ('w, Manifest) act" where
  "manifests_Get lib rp dgst =
     tryA (opA (loc_ManGet lib (rp_dir rp) (rp_name rp) dgst)) (\<lambda>r. case r of
       Inr m \<Rightarrow> keepManifest lib rp m False
     | Inl _ \<Rightarrow> bindA (rp_challenges lib rp) (\<lambda>_. bindA (opA (rem_ManGet lib (rp_remote rp) dgst)) (\<lambda>m. keepManifest lib rp m True)))"

text \<open>Blobs.\<close>

definition ErrUnsupported :: gerror where
  "ErrUnsupported = Errorf ''operation unsupported'' []"

definition copyContent :: "'w Dist \<Rightarrow> proxiedRepository \<Rightarrow> digest \<Rightarrow> (string \<Rightarrow> ('w, unit) act) \<Rightarrow> ('w, Descriptor) act" where
  "copyContent lib rp dgst write = bindA (opA (rem_Stat lib (rp_remote rp) dgst)) (\<lambda>desc.
     bindA (opA (rem_Open lib (rp_remote rp) dgst)) (\<lambda>content.
     bindA (write (take (ds_Size desc) content)) (\<lambda>_.
       if length content < ds_Size desc then failA (Errorf ''EOF'' [])
       else bindA (BlobPush (word_of_nat (ds_Size desc))) (\<lambda>_. retA desc))))"

definition storeLocal :: "'w Dist \<Rightarrow> proxiedRepository \<Rightarrow> digest \<Rightarrow> ('w, unit) act" where
  "storeLocal lib rp dgst = tryA
     (bindA (opA (loc_Create lib (rp_dir rp) (rp_name rp))) (\<lambda>bw.
      bindA (copyContent lib rp dgst (\<lambda>c. opA (loc_Write lib bw c))) (\<lambda>desc.
      bindA (opA (loc_Commit lib bw desc)) (\<lambda>_. retA ()))))
     (\<lambda>r s. (r, s\<lparr>ps_inflight := ps_inflight s - {dgst}\<rparr>))"

definition serveLocal :: "'w Dist \<Rightarrow> proxiedRepository \<Rightarrow> digest \<Rightarrow> ('w, bool) act" where
  "serveLocal lib rp dgst = bindA (opA (loc_Stat lib (rp_dir rp) (rp_name rp) dgst)) (\<lambda>localDesc.
     bindA (BlobPush (word_of_nat (ds_Size localDesc))) (\<lambda>_.
     bindA (opA (loc_Serve lib (rp_dir rp) (rp_name rp) dgst)) (\<lambda>_. retA True)))"

text \<open>
  The answer to a request for a blob; \<open>write\<close> sends to the client. The download into the local store runs beside the copy
  to the client and is here finished before it; its last call is a method of the scheduler, which is always nil.
\<close>

definition ServeBlob :: "'w Dist \<Rightarrow> proxiedRepository \<Rightarrow> (string \<Rightarrow> ('w, unit) act) \<Rightarrow> digest \<Rightarrow> ('w, unit) act" where
  "ServeBlob lib rp write dgst = bindA (serveLocal lib rp dgst) (\<lambda>served.
     if served then retA ()
     else bindA (rp_challenges lib rp) (\<lambda>_ s.
       if dgst \<in> ps_inflight s then bindA (copyContent lib rp dgst write) (\<lambda>_. retA ()) s
       else bindA (modA (\<lambda>s. s\<lparr>ps_inflight := insert dgst (ps_inflight s)\<rparr>)) (\<lambda>_.
            tryA (storeLocal lib rp dgst) (\<lambda>_.
            failA (Panic ''invalid memory address or nil pointer dereference''))) s))"

definition blobs_Stat :: "'w Dist \<Rightarrow> proxiedRepository \<Rightarrow> digest \<Rightarrow> ('w, Descriptor) act" where
  "blobs_Stat lib rp dgst = opA (loc_Stat lib (rp_dir rp) (rp_name rp) dgst)"

definition blobs_Get :: "'w Dist \<Rightarrow> proxiedRepository \<Rightarrow> digest \<Rightarrow> ('w, string) act" where
  "blobs_Get lib rp dgst = tryA (opA (loc_BlobGet lib (rp_dir rp) (rp_name rp) dgst)) (\<lambda>r. case r of
       Inr blob \<Rightarrow> retA blob
     | Inl _ \<Rightarrow> bindA (rp_challenges lib rp) (\<lambda>_.
         bindA (opA (rem_BlobGet lib (rp_remote rp) dgst)) (\<lambda>blob.
         bindA (opA (loc_BlobPut lib (rp_dir rp) (rp_name rp) [] blob)) (\<lambda>_. retA blob))))"

definition blobs_Open :: "'w Dist \<Rightarrow> proxiedRepository \<Rightarrow> digest \<Rightarrow> ('w, string) act" where
  "blobs_Open lib rp dgst = bindA (rp_challenges lib rp) (\<lambda>_. opA (rem_Open lib (rp_remote rp) dgst))"

definition blobs_Put :: "'w Dist \<Rightarrow> proxiedRepository \<Rightarrow> string \<Rightarrow> ('w, Descriptor) act" where
  "blobs_Put lib rp p = opA (loc_BlobPut lib (rp_dir rp) (rp_name rp) [] p)"

definition blobs_Create :: "'w Dist \<Rightarrow> proxiedRepository \<Rightarrow> ('w, nat) act" where
  "blobs_Create lib rp = opA (loc_Create lib (rp_dir rp) (rp_name rp))"

section \<open>A concrete library\<close>

text \<open>A library in a world where every operation fails, from which concrete libraries are made.\<close>

definition unreachable :: gerror where
  "unreachable = Errorf ''connection refused'' []"

definition no_registry :: "'w Dist" where
  "no_registry = \<lparr>lib_url = (\<lambda>u. if prefix ''https://'' u then Inr \<lparr>u_Scheme = ''https'', u_Host = drop 8 u, u_Path = []\<rparr> else Inl unreachable),
     lib_WithName = (Inr),
     lib_driver = (\<lambda>_ w. (Inl unreachable, w)),
     lib_registry = (\<lambda>_ w. (Inl unreachable, w)),
     lib_certs = (\<lambda>_ w. (Inl unreachable, w)),
     lib_http_Get = (\<lambda>_ _ w. (Inl unreachable, w)),
     lib_try_Get = (\<lambda>_ _ w. (Inl unreachable, w)),
     cm_New = (\<lambda>w. (0, w)),
     cm_GetChallenges = (\<lambda>_ _ w. (Inl unreachable, w)),
     cm_AddResponse = (\<lambda>_ _ _ w. (Inl unreachable, w)),
     loc_Repository = (\<lambda>_ _ w. (Inl unreachable, w)),
     loc_Manifests = (\<lambda>_ _ w. (Inl unreachable, w)),
     loc_TagGet = (\<lambda>_ _ _ w. (Inl unreachable, w)),
     loc_Tag = (\<lambda>_ _ _ _ w. (Inl unreachable, w)),
     loc_Untag = (\<lambda>_ _ _ w. (Inl unreachable, w)),
     loc_AllTags = (\<lambda>_ _ w. (Inl unreachable, w)),
     loc_ManGet = (\<lambda>_ _ _ w. (Inl unreachable, w)),
     loc_ManPut = (\<lambda>_ _ _ w. (Inl unreachable, w)),
     loc_ManExists = (\<lambda>_ _ _ w. (Inl unreachable, w)),
     loc_Stat = (\<lambda>_ _ _ w. (Inl unreachable, w)),
     loc_BlobGet = (\<lambda>_ _ _ w. (Inl unreachable, w)),
     loc_BlobPut = (\<lambda>_ _ _ _ w. (Inl unreachable, w)),
     loc_Serve = (\<lambda>_ _ _ w. (Inl unreachable, w)),
     loc_Create = (\<lambda>_ _ w. (Inl unreachable, w)),
     loc_Write = (\<lambda>_ _ w. (Inl unreachable, w)),
     loc_Commit = (\<lambda>_ _ w. (Inl unreachable, w)),
     loc_GlobalStat = (\<lambda>_ _ w. (Inl unreachable, w)),
     rem_New = (\<lambda>_ w. (Inl unreachable, w)),
     rem_Manifests = (\<lambda>_ w. (Inl unreachable, w)),
     rem_TagGet = (\<lambda>_ _ w. (Inl unreachable, w)),
     rem_AllTags = (\<lambda>_ w. (Inl unreachable, w)),
     rem_ManGet = (\<lambda>_ _ w. (Inl unreachable, w)),
     rem_ManExists = (\<lambda>_ _ w. (Inl unreachable, w)),
     rem_Stat = (\<lambda>_ _ w. (Inl unreachable, w)),
     rem_BlobGet = (\<lambda>_ _ w. (Inl unreachable, w)),
     rem_Open = (\<lambda>_ _ w. (Inl unreachable, w)),
     rem_SeekEnd = (\<lambda>_ _ w. (Inl unreachable, w)),
     rem_SeekStart = (\<lambda>_ _ w. (Inl unreachable, w)),
     sch_order = (\<lambda>_. []),
     sch_steps = (\<lambda>_. [])\<rparr>"

section \<open>Reasoning about operations\<close>

lemma bindA_Inr_iff: "bindA m f s = (Inr y, s') \<longleftrightarrow> (\<exists>x t. m s = (Inr x, t) \<and> f x t = (Inr y, s'))"
  by (auto simp: bindA_def split: prod.splits sum.splits)

lemma wrapA_Inr_iff [simp]: "wrapA g m s = (Inr y, s') \<longleftrightarrow> m s = (Inr y, s')"
  by (auto simp: wrapA_def mapErrR_def Let_def split: prod.splits sum.splits)

lemma retA_iff [simp]: "retA x s = (r, s') \<longleftrightarrow> r = Inr x \<and> s' = s"
  by (auto simp: retA_def)

lemma failA_iff [simp]: "failA e s = (r, s') \<longleftrightarrow> r = Inl e \<and> s' = s"
  by (auto simp: failA_def)

lemma opA_iff: "opA f s = (r, s') \<longleftrightarrow> (\<exists>w. f (ps_world s) = (r, w) \<and> s' = s\<lparr>ps_world := w\<rparr>)"
  by (auto simp: opA_def Let_def split: prod.splits)

text \<open>An operation keeps a relation between the states before and after it, whatever its result.\<close>

definition act_preserves :: "('w PState \<Rightarrow> 'w PState \<Rightarrow> bool) \<Rightarrow> ('w, 'a) act \<Rightarrow> bool" where
  "act_preserves R m = (\<forall>s. R s (snd (m s)))"

lemma preservesD: "act_preserves R m \<Longrightarrow> m s = (r, s') \<Longrightarrow> R s s'"
  by (metis act_preserves_def snd_conv)

lemma preserves_ret: "reflp R \<Longrightarrow> act_preserves R (retA x)" and preserves_fail: "reflp R \<Longrightarrow> act_preserves R (failA e)"
  by (auto simp: act_preserves_def retA_def failA_def reflp_def)

lemma preserves_bind: "transp R \<Longrightarrow> act_preserves R m \<Longrightarrow> (\<And>x. act_preserves R (f x)) \<Longrightarrow> act_preserves R (bindA m f)"
  unfolding act_preserves_def by (auto simp: bindA_def split: prod.splits sum.splits) (metis snd_conv, metis snd_conv transpE)

lemma preserves_try: "transp R \<Longrightarrow> act_preserves R m \<Longrightarrow> (\<And>x. act_preserves R (f x)) \<Longrightarrow> act_preserves R (tryA m f)"
  unfolding act_preserves_def by (auto simp: tryA_def Let_def split: prod.splits) (metis snd_conv transpE)

lemma preserves_wrap: "act_preserves R m \<Longrightarrow> act_preserves R (wrapA g m)"
  unfolding act_preserves_def by (auto simp: wrapA_def Let_def split: prod.splits) (metis snd_conv)

lemmas preserves_intros = preserves_ret preserves_fail preserves_bind preserves_try preserves_wrap

section \<open>What the cache promises\<close>

text \<open>A blob is served from the local store or not at all: the branch that would fetch it is never reached.\<close>

lemma serveLocal_True: "serveLocal lib rp dgst s = (Inr b, s') \<Longrightarrow> b"
  by (auto simp: serveLocal_def bindA_Inr_iff)

theorem serve_blob_never_fetches: "ServeBlob lib rp write dgst = bindA (serveLocal lib rp dgst) (\<lambda>_. retA ())"
proof
  fix s
  show "ServeBlob lib rp write dgst s = bindA (serveLocal lib rp dgst) (\<lambda>_. retA ()) s"
    using serveLocal_True [of lib rp dgst s] by (auto simp: ServeBlob_def bindA_def split: prod.splits sum.splits)
qed

text \<open>The answer of the local store for a tag is returned exactly when the remote registry gives none.\<close>

theorem tag_remote_first:
  assumes "tags_Get lib rp t s = (Inr d, s')"
  shows "(\<exists>s1. bindA (rp_challenges lib rp) (\<lambda>_. opA (rem_TagGet lib (rp_remote rp) t)) s = (Inr d, s1) \<and> opA (loc_Tag lib (rp_dir rp) (rp_name rp) t d) s1 = (Inr (), s')) \<or>
    (\<exists>e s1. bindA (rp_challenges lib rp) (\<lambda>_. opA (rem_TagGet lib (rp_remote rp) t)) s = (Inl e, s1) \<and> opA (loc_TagGet lib (rp_dir rp) (rp_name rp) t) s1 = (Inr d, s'))"
  using assms by (auto simp: tags_Get_def tryA_def Let_def bindA_Inr_iff split: prod.splits sum.splits)

text \<open>
  What the storage documents of manifests: it keeps a manifest under the digest of its content, and reading changes nothing.
  A manifest fetched by its digest has that digest.
\<close>

definition manifests_addressed :: "'w Dist \<Rightarrow> (Manifest \<Rightarrow> digest) \<Rightarrow> bool" where
  "manifests_addressed lib dg \<longleftrightarrow>
     (\<forall>dir n m w d w'. loc_ManPut lib dir n m w = (Inr d, w') \<longrightarrow> loc_ManGet lib dir n (dg m) w' = (Inr m, w')) \<and>
     (\<forall>dir n d w r w'. loc_ManGet lib dir n d w = (r, w') \<longrightarrow> w' = w) \<and>
     (\<forall>rem d m w w'. rem_ManGet lib rem d w = (Inr m, w') \<longrightarrow> dg m = d)"

text \<open>
  A manifest is fetched once: after the cache returned a manifest, asking for it again returns the same manifest
  from the local store, whatever the remote registry answers by then, and changes nothing but the count of requests.
\<close>

theorem manifest_fetched_once:
  assumes lib: "manifests_addressed lib dg" and get: "manifests_Get lib rp d s = (Inr m, s')"
  shows "\<exists>n. manifests_Get (lib\<lparr>rem_ManGet := other\<rparr>) rp d s' = (Inr m, s'\<lparr>ps_manifestMetrics := Metrics_push n (ps_manifestMetrics s')\<rparr>)"
proof -
  note keep = keepManifest_def ManifestPush_def ManifestPull_def modA_def bindA_Inr_iff opA_iff
  obtain ct p where m: "m = Inr (ct, p)" and local: "loc_ManGet lib (rp_dir rp) (rp_name rp) d (ps_world s') = (Inr m, ps_world s')"
  proof (cases "loc_ManGet lib (rp_dir rp) (rp_name rp) d (ps_world s)")
    case (Pair r w)
    then have w: "w = ps_world s" using lib by (auto simp: manifests_addressed_def)
    show ?thesis
    proof (cases r)
      case (Inr m0)
      then have "keepManifest lib rp m0 False s = (Inr m, s')" using get Pair w by (simp add: manifests_Get_def tryA_def opA_def)
      then show ?thesis using Pair Inr w that by (cases m0) (auto simp: keep)
    next
      case (Inl e)
      then obtain t0 t m0 w1 where rem: "rem_ManGet lib (rp_remote rp) d t0 = (Inr m0, w1)" and k: "keepManifest lib rp m0 True (t\<lparr>ps_world := w1\<rparr>) = (Inr m, s')"
        using get Pair by (auto simp: manifests_Get_def tryA_def opA_def [of "loc_ManGet lib _ _ _"] bindA_Inr_iff opA_iff)
      obtain ct p where m0: "m0 = Inr (ct, p)" using k by (cases m0) (auto simp: keepManifest_def)
      obtain d2 where put: "m = m0" "loc_ManPut lib (rp_dir rp) (rp_name rp) m w1 = (Inr d2, ps_world s')"
        using k m0 by (auto simp: keep)
      have "dg m0 = d" using lib rem unfolding manifests_addressed_def by blast
      then have "loc_ManGet lib (rp_dir rp) (rp_name rp) d (ps_world s') = (Inr m, ps_world s')"
        using lib put by (auto simp: manifests_addressed_def)
      then show ?thesis using m0 put(1) that by blast
    qed
  qed
  have "manifests_Get (lib\<lparr>rem_ManGet := other\<rparr>) rp d s' = (Inr m, s'\<lparr>ps_manifestMetrics := Metrics_push (word_of_nat (length p)) (ps_manifestMetrics s')\<rparr>)"
    using local m by (simp add: manifests_Get_def tryA_def opA_def bindA_def retA_def ManifestPush_def modA_def keepManifest_def)
  then show ?thesis by blast
qed

text \<open>A registry whose manifests are named by their bytes, and a local store that is a list of manifests.\<close>

definition payload_digest :: "Manifest \<Rightarrow> digest" where
  "payload_digest m = (case m of Inl _ \<Rightarrow> [] | Inr (_, p) \<Rightarrow> p)"

definition manifest_store :: "Manifest list Dist" where
  "manifest_store = no_registry\<lparr>
     loc_ManGet := (\<lambda>_ _ d w. (case filter (\<lambda>m. payload_digest m = d) w of [] \<Rightarrow> Inl unreachable | m # _ \<Rightarrow> Inr m, w)),
     loc_ManPut := (\<lambda>_ _ m w. (Inr (payload_digest m), m # w)),
     cm_GetChallenges := (\<lambda>_ _ w. (Inr [\<lparr>ch_Scheme = ''bearer'', ch_realm = []\<rparr>], w)),
     rem_ManGet := (\<lambda>_ d w. (Inr (Inr (''application/json'', d)), w))\<rparr>"

definition some_repository :: proxiedRepository where
  "some_repository = \<lparr>rp_dir = ''/d'', rp_name = ''library/nginx'', rp_remoteURL = \<lparr>u_Scheme = ''https'', u_Host = ''h'', u_Path = []\<rparr>,
     rp_remote = \<lparr>rm_URL = ''https://h'', rm_insecure = False, rm_cm = 0, rm_creds = Map.empty, rm_name = ''library/nginx''\<rparr>\<rparr>"

definition start_state :: "'w \<Rightarrow> 'w PState" where
  "start_state w = \<lparr>ps_world = w, ps_blobMetrics = \<lparr>mt_Requests = 0, mt_Hits = 0, mt_Misses = 0, mt_BytesPulled = 0, mt_BytesPushed = 0\<rparr>,
     ps_manifestMetrics = \<lparr>mt_Requests = 0, mt_Hits = 0, mt_Misses = 0, mt_BytesPulled = 0, mt_BytesPushed = 0\<rparr>, ps_inflight = {}\<rparr>"

lemma manifest_store_addressed: "manifests_addressed manifest_store payload_digest"
  by (auto simp: manifests_addressed_def manifest_store_def payload_digest_def)

theorem manifest_fetched_once_witness:
  "\<exists>m s' n. manifests_Get manifest_store some_repository ''abc'' (start_state []) = (Inr m, s') \<and>
     manifests_Get (manifest_store\<lparr>rem_ManGet := \<lambda>_ _ w. (Inl unreachable, w)\<rparr>) some_repository ''abc'' s' = (Inr m, s'\<lparr>ps_manifestMetrics := Metrics_push n (ps_manifestMetrics s')\<rparr>)"
proof -
  obtain s' where get: "manifests_Get manifest_store some_repository ''abc'' (start_state []) = (Inr (Inr (''application/json'', ''abc'')), s')"
    by (simp add: manifests_Get_def keepManifest_def manifest_store_def tryA_def bindA_def opA_def rp_challenges_def tryEstablishChallenges_def Let_def
        ManifestPush_def ManifestPull_def modA_def retA_def payload_digest_def start_state_def)
  from manifest_fetched_once [OF manifest_store_addressed this, of "\<lambda>_ _ w. (Inl unreachable, w)"] get
  show ?thesis by blast
qed

end
