(* ===== verification/Host_Network.thy ===== *)
theory Host_Network
  imports File_Copy Ip_Utils Platforms
begin

text \<open>
  Commands and queries on the local host: \<^verbatim>\<open>utils/exec\<close>, the routes of \<^verbatim>\<open>utils/net/route.go\<close> with the
  commands of \<^verbatim>\<open>seautil route\<close>, the address queries of \<^verbatim>\<open>utils/net/iputils.go\<close> and the metadata reader of
  \<^verbatim>\<open>pkg/runtime/utils.go\<close>.
\<close>

section \<open>Commands\<close>

text \<open>
  \<^verbatim>\<open>user.Current\<close> returns no user with its error, and the name is read from it before the error is looked at.
\<close>

definition GetCurrentUserName :: "string io" where
  "GetCurrentUserName = bindE (tryE (askText (LocalCall ''user.Current'' []))) (\<lambda>r. case r of
       Inl e \<Rightarrow> throwE (Panic ''invalid memory address or nil pointer dereference'')
     | Inr u \<Rightarrow> returnE u)"

definition withSudo :: "string \<Rightarrow> string \<Rightarrow> string list \<Rightarrow> action" where
  "withSudo username name args = (if username \<noteq> ''root'' then LocalCall ''sudo'' (name # args) else LocalCall name args)"

definition exec_Cmd :: "string \<Rightarrow> string list \<Rightarrow> unit io" where
  "exec_Cmd name args = bindE GetCurrentUserName (\<lambda>username. perform (withSudo username name args))"

definition exec_CmdOutput :: "string \<Rightarrow> string list \<Rightarrow> string io" where
  "exec_CmdOutput name args = bindE GetCurrentUserName (\<lambda>username. askText (withSudo username name args))"

definition RunSimpleCmd :: "string \<Rightarrow> string io" where
  "RunSimpleCmd cmd = bindE GetCurrentUserName (\<lambda>username. askText (withSudo username ''/bin/bash'' [''-c'', cmd]))"

text \<open>The path of a command is what follows the last \<^verbatim>\<open>is\<close> in the answer of \<^verbatim>\<open>type\<close>.\<close>

definition pathFromType :: "string \<Rightarrow> string \<times> bool" where
  "pathFromType out = (let s = last (strings_Split out ''is'') in
     if s \<noteq> [] \<and> \<not> strings_Contains s ''not found'' then (strings_TrimSpace s, True) else ([], False))"

definition CheckCmdIsExist :: "string \<Rightarrow> (string \<times> bool) io" where
  "CheckCmdIsExist cmd = bindE (tryE (RunSimpleCmd (fmt_Sprintf ''type %s'' [cmd]))) (\<lambda>r. returnE (case r of
       Inl e \<Rightarrow> ([], False) | Inr out \<Rightarrow> pathFromType out))"

section \<open>Routes\<close>

record Route =
  rt_Host :: net_ip
  rt_Gateway :: net_ip

definition NewRouter :: "net_ip \<Rightarrow> net_ip \<Rightarrow> Route" where
  "NewRouter host gateway = \<lparr>rt_Host = host, rt_Gateway = gateway\<rparr>"

definition RouteArg :: string where "RouteArg = ''%s via %s dev %s metric 50''"

definition AddStaticRouteFile :: string where
  "AddStaticRouteFile = ''cat /etc/sysconfig/network-scripts/route-%s|grep \"%s\" || echo \"%s\" >> /etc/sysconfig/network-scripts/route-%s''"

definition BackupAndDelStaticRouteFile :: string where
  "BackupAndDelStaticRouteFile = ''if [ -f /etc/sysconfig/network-scripts/route-%s ]; then\<newline>'' @
     ''  yes | cp /etc/sysconfig/network-scripts/route-%s /etc/sysconfig/network-scripts/.route-%s\<newline>'' @
     ''  sed -i \"/%s/d\" /etc/sysconfig/network-scripts/route-%s\<newline>fi''"

definition EEXIST :: gerror where "EEXIST = Errorf ''file exists'' []"
definition ESRCH :: gerror where "ESRCH = Errorf ''no such process'' []"

definition addRouteGatewayViaHost :: "net_ip \<Rightarrow> net_ip \<Rightarrow> int \<Rightarrow> unit io" where
  "addRouteGatewayViaHost host gateway priority = perform (LocalCall ''netlink.RouteAdd'' [ip_String host @ ''/32'', ip_String gateway, itoa priority])"

definition delRouteGatewayViaHost :: "net_ip \<Rightarrow> net_ip \<Rightarrow> unit io" where
  "delRouteGatewayViaHost host gateway = perform (LocalCall ''netlink.RouteDel'' [ip_String host @ ''/32'', ip_String gateway])"

text \<open>An error that only says that the work is done already is no error.\<close>

definition unlessErr :: "gerror \<Rightarrow> (gerror \<Rightarrow> gerror) \<Rightarrow> unit io \<Rightarrow> unit io" where
  "unlessErr known wrap m = bindE (tryE m) (\<lambda>r. case r of Inl e \<Rightarrow> if e = known then returnE () else throwE (wrap e) | Inr _ \<Rightarrow> returnE ())"

definition SetRoute :: "net_interface list res \<Rightarrow> Route \<Rightarrow> unit io" where
  "SetRoute ifs r = (if \<not> k8snet_IsIPv4 (rt_Gateway r) \<or> \<not> k8snet_IsIPv4 (rt_Host r) then returnE ()
     else thenE (unlessErr EEXIST (Wrapf ''failed to add %s route gateway via host err: %v'' [ip_String (rt_Host r)])
            (addRouteGatewayViaHost (rt_Host r) (rt_Gateway r) 50))
       (bindE (liftR (GetHostNetInterface ifs (rt_Gateway r))) (\<lambda>netInterface.
          if netInterface = [] then returnE ()
          else (let route = fmt_Sprintf RouteArg [ip_String (rt_Host r), ip_String (rt_Gateway r), netInterface] in
            bindE (RunSimpleCmd (fmt_Sprintf AddStaticRouteFile [netInterface, route, route, netInterface])) (\<lambda>_. returnE ())))))"

definition DelRoute :: "net_interface list res \<Rightarrow> Route \<Rightarrow> unit io" where
  "DelRoute ifs r = (if \<not> k8snet_IsIPv4 (rt_Gateway r) \<or> \<not> k8snet_IsIPv4 (rt_Host r) then returnE ()
     else thenE (unlessErr ESRCH (Wrapf ''failed to delete %s route gateway via host: %v'' [ip_String (rt_Host r)])
            (delRouteGatewayViaHost (rt_Host r) (rt_Gateway r)))
       (bindE (liftR (GetHostNetInterface ifs (rt_Gateway r))) (\<lambda>netInterface.
          if netInterface = [] then returnE ()
          else (let route = fmt_Sprintf RouteArg [ip_String (rt_Host r), ip_String (rt_Gateway r), netInterface] in
            bindE (RunSimpleCmd (fmt_Sprintf BackupAndDelStaticRouteFile [netInterface, netInterface, netInterface, route, netInterface]))
              (\<lambda>_. returnE ())))))"

text \<open>\<^verbatim>\<open>chosen\<close> is the address of the interface with the default route, as the library finds it.\<close>

definition isDefaultRouteIP :: "net_ip res \<Rightarrow> net_ip \<Rightarrow> bool res" where
  "isDefaultRouteIP chosen host = bindR (mapErrR (Wrapf ''failed to get default route ip, err: %v'' []) chosen) (\<lambda>netIP. Inr (ip_Equal netIP host))"

definition CheckIsDefaultRoute :: "net_ip res \<Rightarrow> net_ip \<Rightarrow> unit io" where
  "CheckIsDefaultRoute chosen host = bindE (liftR (isDefaultRouteIP chosen host)) (\<lambda>ok.
     if ok then perform (LocalCall ''StdOut.WriteString'' [''ok'']) else perform (LocalCall ''StdErr.WriteString'' [''failed'']))"

definition parsedIP :: "string \<Rightarrow> string \<Rightarrow> net_ip res" where
  "parsedIP msg s = (let ip = net_ParseIP s in if ip = [] then Inl (Errorf msg [s]) else Inr ip)"

definition RouteCheckCmd :: "net_ip res \<Rightarrow> string \<Rightarrow> unit io" where
  "RouteCheckCmd chosen host = bindE (liftR (parsedIP ''input host(%s) is invalid: it should be an IP format'' host)) (CheckIsDefaultRoute chosen)"

definition RouteAddCmd :: "net_interface list res \<Rightarrow> string \<Rightarrow> string \<Rightarrow> unit io" where
  "RouteAddCmd ifs host gatewayIP =
     bindE (liftR (parsedIP ''input host(%s) is invalid: it must be an IP format'' host)) (\<lambda>h.
     bindE (liftR (parsedIP ''input gateway(%s) is invalid: it must be an IP format'' gatewayIP)) (\<lambda>g. SetRoute ifs (NewRouter h g)))"

definition RouteDelCmd :: "net_interface list res \<Rightarrow> string \<Rightarrow> string \<Rightarrow> unit io" where
  "RouteDelCmd ifs host gatewayIP =
     bindE (liftR (parsedIP ''input host(%s) is invalid: it must be an IP format'' host)) (\<lambda>h.
     bindE (liftR (parsedIP ''input gateway(%s) is invalid: it must be an IP format'' gatewayIP)) (\<lambda>g. DelRoute ifs (NewRouter h g)))"

text \<open>\<^verbatim>\<open>IsIpv4\<close>; the number of a part is an \<^verbatim>\<open>int\<close> of 64 bits, which wraps.\<close>

fun ipv4Num :: "int \<Rightarrow> string \<Rightarrow> int option" where
  "ipv4Num num [] = Some num"
| "ipv4Num num (c # cs) = (if is_digit c then ipv4Num (int64 (num * 10 + digit_val c)) cs else None)"

definition ipv4Part :: "string \<Rightarrow> bool" where
  "ipv4Part v = (if v = [] then False else if length v > 1 \<and> hd v = CHR ''0'' then False
     else (case ipv4Num 0 v of None \<Rightarrow> False | Some num \<Rightarrow> \<not> num > 255))"

definition IsIpv4 :: "string \<Rightarrow> bool" where
  "IsIpv4 ip = (let arr = strings_Split ip ''.'' in if length arr \<noteq> 4 then False else list_all ipv4Part arr)"

section \<open>Addresses of the local host\<close>

definition GetLocalDefaultIP :: "net_ip res \<Rightarrow> string res" where
  "GetLocalDefaultIP chosen = bindR (mapErrR (Wrapf ''failed to get default route ip, err: %v'' []) chosen) (\<lambda>netIP. Inr (ip_String netIP))"

definition GetLocalIP :: "string \<Rightarrow> net_ip io" where
  "GetLocalIP master0IPPort = bindE (askText (LocalCall ''net.Dial'' [''udp'', master0IPPort])) (\<lambda>localAddr.
     returnE (net_ParseIP (hd (strings_Split localAddr '':''))))"

section \<open>Image metadata\<close>

record Metadata =
  md_Version :: string
  md_Arch :: string
  md_Variant :: string
  md_KubeVersion :: string
  md_NydusFlag :: bool
  md_ClusterRuntime :: string

definition LoadMetadata :: "(string \<Rightarrow> Metadata res) \<Rightarrow> string \<Rightarrow> Metadata option io" where
  "LoadMetadata unmarshal rootfs = (let metadataPath = filepath_Join [rootfs, ''Metadata''] in
     bindE (os_IsFileExist metadataPath) (\<lambda>ex. if \<not> ex then returnE None
       else bindE (mapErr (Wrapf ''failed to read ClusterImage metadata: %v'' []) (askText (LocalCall ''os.ReadFile'' [filepath_Clean metadataPath])))
         (\<lambda>metadataFile. bindE (mapErr (Wrapf ''failed to load ClusterImage metadata: %v'' []) (liftR (unmarshal metadataFile)))
           (\<lambda>md. returnE (Some md)))))"

definition metadataPlatform :: "Metadata option \<Rightarrow> Platform" where
  "metadataPlatform meta = (let cp = \<lparr>p_Architecture = ''amd64'', p_OS = ''linux'', p_Variant = []\<rparr> in case meta of
       None \<Rightarrow> cp
     | Some md \<Rightarrow> \<lparr>p_Architecture = (if md_Arch md \<noteq> [] then md_Arch md else p_Architecture cp), p_OS = p_OS cp,
         p_Variant = (if md_Variant md \<noteq> [] then md_Variant md else p_Variant cp)\<rparr>)"

definition GetClusterImagePlatform :: "(string \<Rightarrow> Metadata res) \<Rightarrow> string \<Rightarrow> Platform io" where
  "GetClusterImagePlatform unmarshal rootfs = bindE (tryE (LoadMetadata unmarshal rootfs)) (\<lambda>r.
     returnE (case r of Inl e \<Rightarrow> metadataPlatform None | Inr meta \<Rightarrow> metadataPlatform meta))"

definition IsInContainer :: "bool io" where
  "IsInContainer = bindE (tryE (askText (LocalCall ''ReadAll'' [''/proc/1/environ'']))) (\<lambda>r.
     returnE (case r of Inl e \<Rightarrow> False | Inr contents \<Rightarrow> strings_Contains contents ''container=docker''))"

section \<open>Dotted addresses\<close>

lemma int64_id: "0 \<le> n \<Longrightarrow> n < 2 ^ 63 \<Longrightarrow> int64 n = n"
  by (simp add: int64_def)

abbreviation decimal :: "string \<Rightarrow> int" where
  "decimal ds \<equiv> foldl (\<lambda>a c. a * 10 + digit_val c) 0 ds"

lemma ipv4Num_exact:
  assumes "0 \<le> n" "(n + 1) * 10 ^ length ds \<le> 10 ^ 18"
  shows "ipv4Num n ds = (if \<forall>c \<in> set ds. is_digit c then Some (foldl (\<lambda>a c. a * 10 + digit_val c) n ds) else None)"
  using assms
proof (induction ds arbitrary: n)
  case (Cons d ds)
  show ?case
  proof (cases "is_digit d")
    case True
    have d: "0 \<le> digit_val d" "digit_val d \<le> 9" using is_digit_val [OF True] by auto
    have "(n * 10 + digit_val d + 1) * 10 ^ length ds \<le> ((n + 1) * 10) * 10 ^ length ds" using d by (intro mult_right_mono) auto
    also have "\<dots> = (n + 1) * 10 ^ length (d # ds)" by (simp only: list.size power_add power_Suc power_0 mult.assoc mult_1_right add_0_right add_Suc_right)
    finally have b: "(n * 10 + digit_val d + 1) * 10 ^ length ds \<le> 10 ^ 18" using Cons.prems(2) by (rule order_trans)
    have "n * 10 + digit_val d + 1 \<le> (n * 10 + digit_val d + 1) * 10 ^ length ds"
      using Cons.prems(1) d by (simp add: mult_le_cancel_left1)
    with b have "n * 10 + digit_val d < 2 ^ 63" by simp
    then have "int64 (n * 10 + digit_val d) = n * 10 + digit_val d" using Cons.prems(1) d by (intro int64_id) auto
    with Cons.IH [of "n * 10 + digit_val d"] True b Cons.prems(1) d show ?thesis by simp
  qed simp
qed simp

lemma digit_char_val: "is_digit c \<Longrightarrow> digit_char (digit_val c) = c"
proof -
  assume c: "is_digit c"
  then have "48 \<le> (of_char c :: int)" "(of_char c :: int) \<le> 57" by (simp_all add: is_digit_def Let_def)
  then have "48 + nat (digit_val c) = (of_char c :: nat)" 
    unfolding digit_val_def by (metis add.commute diff_add_cancel nat_int nat_numeral nat_add_distrib of_nat_of_char zero_le_numeral diff_ge_0_iff_ge)
  then show ?thesis by (simp add: digit_char_def)
qed

text \<open>A number without a leading zero is the decimal of its value.\<close>

lemma itoa_decimal:
  "\<forall>c \<in> set ds. is_digit c \<Longrightarrow> ds \<noteq> [] \<Longrightarrow> (length ds > 1 \<longrightarrow> hd ds \<noteq> CHR ''0'') \<Longrightarrow>
    itoa_nonneg (decimal ds) = ds \<and> 0 \<le> decimal ds \<and> (hd ds \<noteq> CHR ''0'' \<longrightarrow> 0 < decimal ds)"
proof (induction ds rule: rev_induct)
  case (snoc c ds)
  have c: "0 \<le> digit_val c" "digit_val c \<le> 9" "digit_char (digit_val c) = c"
    using is_digit_val [of c] digit_char_val [of c] snoc.prems by auto
  show ?case
  proof (cases "ds = []")
    case True
    have "0 < digit_val c" if "c \<noteq> CHR ''0''"
    proof (rule ccontr)
      assume "\<not> 0 < digit_val c"
      with c have "c = digit_char 0" by simp
      with that show False by simp
    qed
    with True c show ?thesis by (simp add: itoa_nonneg.simps)
  next
    case False
    with snoc have ih: "itoa_nonneg (decimal ds) = ds" "0 < decimal ds"
      by (auto simp: hd_append)
    have "itoa_nonneg (decimal ds * 10 + digit_val c) = itoa_nonneg (decimal ds) @ [digit_char (digit_val c)]"
      using ih c by (subst itoa_nonneg.simps) simp
    with ih c False show ?thesis by (simp add: hd_append)
  qed
qed simp

lemma ipv4Part_exact:
  assumes "length v \<le> 18" shows "ipv4Part v \<longleftrightarrow> (\<exists>b :: byte. v = itoa (uint b))"
proof
  have num: "ipv4Num 0 v = (if \<forall>c \<in> set v. is_digit c then Some (decimal v) else None)"
    using assms power_increasing [of "length v" 18 "10 :: int"] by (intro ipv4Num_exact) simp_all
  assume "ipv4Part v"
  then have v: "v \<noteq> []" "length v > 1 \<longrightarrow> hd v \<noteq> CHR ''0''" "\<forall>c \<in> set v. is_digit c" "decimal v \<le> 255"
    by (auto simp: ipv4Part_def num split: if_splits)
  from itoa_decimal [OF v(3,1,2)] have d: "itoa_nonneg (decimal v) = v" "0 \<le> decimal v" by auto
  have "uint (word_of_int (decimal v) :: byte) = decimal v" using d(2) v(4) by (simp add: uint_word_of_int take_bit_int_eq_self)
  with d show "\<exists>b :: byte. v = itoa (uint b)" by (intro exI [of _ "word_of_int (decimal v)"]) (simp add: itoa_def)
next
  have num: "ipv4Num 0 v = (if \<forall>c \<in> set v. is_digit c then Some (decimal v) else None)"
    using assms power_increasing [of "length v" 18 "10 :: int"] by (intro ipv4Num_exact) simp_all
  assume "\<exists>b :: byte. v = itoa (uint b)"
  then obtain b :: byte where b: "v = itoa (uint b)" by blast
  then have "\<forall>c \<in> set v. is_digit c" using itoa_digits [of "uint b"] uint_byte [of b] by auto
  moreover have "decimal v = uint b" using b uint_byte [of b] foldl_itoa [of "uint b"] by (simp add: itoa_def)
  moreover have "Suc 0 < length v \<longrightarrow> hd v \<noteq> CHR ''0''" using b itoa_no_leading_zero [of "uint b"] uint_byte [of b] by simp
  moreover have "v \<noteq> []" using b by simp
  ultimately show "ipv4Part v" using uint_byte [of b] unfolding ipv4Part_def num by simp
qed



theorem IsIpv4_wraps: "IsIpv4 ''1.1.1.10000000000000000000'' \<and> net_ParseIP ''1.1.1.10000000000000000000'' = []"
  by code_simp

section \<open>Commands that are not found\<close>

text \<open>A command whose path contains \<^verbatim>\<open>is\<close> is given a wrong path, or is not found at all.\<close>

theorem command_path_cut_at_is:
  "pathFromType ''docker is /usr/bin/docker'' = (''/usr/bin/docker'', True) \<and>
   pathFromType ''dist-receiver is /usr/bin/dist-receiver'' = (''t-receiver'', True) \<and>
   pathFromType ''bis is /usr/bin/bis'' = ([], False)"
  by code_simp

section \<open>Routes\<close>

text \<open>
  Setting a route that is there already succeeds, and removing one that is not there: with the answers
  \<^verbatim>\<open>file exists\<close> and \<^verbatim>\<open>no such process\<close> of the kernel the command carries on as after a success.
\<close>

lemma unlessErr_known: "m w = (Inl known, w') \<Longrightarrow> known = Errorf f as \<Longrightarrow> unlessErr known wrap m w = (Inr (), w')"
  by (simp add: unlessErr_def bindE_def tryE_def returnE_def)

lemma set_route_again:
  assumes "k8snet_IsIPv4 (rt_Gateway r)" "k8snet_IsIPv4 (rt_Host r)" "GetHostNetInterface ifs (rt_Gateway r) = Inr []"
    and "addRouteGatewayViaHost (rt_Host r) (rt_Gateway r) 50 w = (Inl EEXIST, w')"
  shows "SetRoute ifs r w = (Inr (), w')"
  using assms by (simp add: SetRoute_def thenE_def bindE_def unlessErr_known EEXIST_def liftR_def returnE_def)

lemma delete_route_again:
  assumes "k8snet_IsIPv4 (rt_Gateway r)" "k8snet_IsIPv4 (rt_Host r)" "GetHostNetInterface ifs (rt_Gateway r) = Inr []"
    and "delRouteGatewayViaHost (rt_Host r) (rt_Gateway r) w = (Inl ESRCH, w')"
  shows "DelRoute ifs r w = (Inr (), w')"
  using assms by (simp add: DelRoute_def thenE_def bindE_def unlessErr_known ESRCH_def liftR_def returnE_def)

end
