(* ===== verification/Checker.thy ===== *)
theory Checker
  imports Ssh_Client Host_Network
begin

text \<open>
  The checks of a cluster (\<^verbatim>\<open>pkg/checker\<close>) with the command \<^verbatim>\<open>sealer alpha check\<close>, the Kubernetes queries they
  use (\<^verbatim>\<open>pkg/client/k8s\<close>) and the stored registry credentials (\<^verbatim>\<open>pkg/client/docker/auth\<close>). What the API server
  answers is an argument.
\<close>

section \<open>Kubernetes queries\<close>

record kNode =
  kn_Addresses :: "NodeAddress list"
  kn_Conditions :: "(string \<times> string) list"

record kPod =
  kp_Name :: string
  kp_Conditions :: "(string \<times> string) list"

text \<open>Of an endpoint its name and the number of its subsets.\<close>

record kubeView =
  kv_config :: "unit res"
  kv_clientSet :: "unit res"
  kv_nodes :: "kNode list res"
  kv_namespaces :: "string list res"
  kv_pods :: "string \<Rightarrow> kPod list res"
  kv_services :: "string \<Rightarrow> string list res"
  kv_endpoints :: "string \<Rightarrow> (string \<times> nat) list res"

definition NewK8sClient :: "kubeView \<Rightarrow> unit res" where
  "NewK8sClient kv = bindR (mapErrR (Wrapf ''failed to build kube config: %v'' []) (kv_config kv)) (\<lambda>_. kv_clientSet kv)"

definition ListNodes_k8s :: "kubeView \<Rightarrow> kNode list res" where
  "ListNodes_k8s kv = mapErrR (Wrapf ''failed to get cluster nodes: %v'' []) (kv_nodes kv)"

definition listNamespaces :: "kubeView \<Rightarrow> string list res" where
  "listNamespaces kv = mapErrR (Wrapf ''failed to get namespaces: %v'' []) (kv_namespaces kv)"

definition ListAllNamespacesPods :: "kubeView \<Rightarrow> (string \<times> kPod list) list res" where
  "ListAllNamespacesPods kv = bindR (listNamespaces kv) (mapR (\<lambda>ns.
     bindR (mapErrR (Wrapf ''failed to get all namespace pods: %v'' []) (kv_pods kv ns)) (\<lambda>pods. Inr (ns, pods))))"

definition ListAllNamespacesSvcs :: "kubeView \<Rightarrow> (string \<times> string list) list res" where
  "ListAllNamespacesSvcs kv = bindR (listNamespaces kv) (mapR (\<lambda>ns.
     bindR (mapErrR (Wrapf ''failed to get all namespace pods: %v'' []) (kv_services kv ns)) (\<lambda>svcs. Inr (ns, svcs))))"

definition GetEndpointsList :: "kubeView \<Rightarrow> string \<Rightarrow> (string \<times> nat) list res" where
  "GetEndpointsList kv namespace = mapErrR (Wrapf ''failed to get endpoint in namespace %s: %v'' [namespace]) (kv_endpoints kv namespace)"

section \<open>Nodes\<close>

definition PhasePre :: string where "PhasePre = ''Pre''"
definition PhasePost :: string where "PhasePost = ''Post''"

definition nodeIP :: "NodeAddress list \<Rightarrow> string" where
  "nodeIP addrs = (let ip = fold (\<lambda>a ip. if na_Type a = ''InternalIP'' then na_Address a else ip) addrs [] in
     if ip = [] then na_Address (hd addrs) else ip)"

definition nodePhase :: "(string \<times> string) list \<Rightarrow> string" where
  "nodePhase conditions = fold (\<lambda>(ty, st) ph. if ty = ''Ready'' then (if st = ''True'' then ''Ready'' else ''NotReady'') else ph) conditions ''NotReady''"

definition getNodeStatus :: "kNode \<Rightarrow> string \<times> string" where
  "getNodeStatus node = (if kn_Addresses node = [] then ([], []) else (nodeIP (kn_Addresses node), nodePhase (kn_Conditions node)))"

record NodeClusterStatus =
  ReadyCount :: nat
  NotReadyCount :: nat
  NodeCount :: nat
  NotReadyNodeList :: "string list"

definition nodeStatus :: "kNode list \<Rightarrow> NodeClusterStatus" where
  "nodeStatus nodes = (let sts = map getNodeStatus nodes; bad = filter (\<lambda>(ip, ph). ph \<noteq> ''Ready'') sts in
     \<lparr>ReadyCount = length sts - length bad, NotReadyCount = length bad, NodeCount = length sts, NotReadyNodeList = map fst bad\<rparr>)"

definition nodeReport :: "NodeClusterStatus \<Rightarrow> string" where
  "nodeReport s = ''Cluster Node Status\<newline>  ReadyNode: '' @ itoa (int (ReadyCount s)) @ ''/'' @ itoa (int (NodeCount s)) @ ''\<newline>  '' @
     (if NotReadyCount s > 0 then ''Not Ready Node List:'' @ concat (map (\<lambda>ip. ''\<newline>    NodeIP: '' @ ip) (NotReadyNodeList s)) @ ''\<newline>  '' else []) @ ''\<newline>''"

definition writeReport :: "string \<Rightarrow> unit io" where
  "writeReport t = perform (LocalCall ''StdOut.Write'' [t])"

definition node_Check :: "kubeView \<Rightarrow> string \<Rightarrow> unit io" where
  "node_Check kv phase = (if phase \<noteq> PhasePost then returnE ()
     else bindE (liftR (NewK8sClient kv)) (\<lambda>_. bindE (liftR (ListNodes_k8s kv)) (\<lambda>nodes.
       let s = nodeStatus nodes in thenE (writeReport (nodeReport s))
         (if NotReadyCount s \<noteq> 0 then throwE (Errorf ''check node %v not ready'' [strings_Join (NotReadyNodeList s) '' '']) else returnE ()))))"

section \<open>Pods\<close>

definition getPodReadyStatus :: "kPod \<Rightarrow> unit res" where
  "getPodReadyStatus pod = (if list_ex (\<lambda>(ty, st). ty = ''Ready'' \<and> st = ''True'') (kp_Conditions pod) then Inr ()
     else Inl (Errorf ''pod %s has't Ready Type'' [[]]))"

record PodNamespaceStatus =
  ps_NamespaceName :: string
  ps_RunningCount :: nat
  ps_NotRunningCount :: nat
  ps_PodCount :: nat
  ps_NotRunningPodList :: "kPod list"

definition podStatus :: "string \<times> kPod list \<Rightarrow> PodNamespaceStatus" where
  "podStatus p = (let bad = filter (\<lambda>pod. getPodReadyStatus pod \<noteq> Inr ()) (snd p) in
     \<lparr>ps_NamespaceName = fst p, ps_RunningCount = length (snd p) - length bad, ps_NotRunningCount = length bad,
      ps_PodCount = length (snd p), ps_NotRunningPodList = bad\<rparr>)"

definition podReport1 :: "PodNamespaceStatus \<Rightarrow> string" where
  "podReport1 s = ''Namespace: '' @ ps_NamespaceName s @ ''\<newline>  RunningPod: '' @ itoa (int (ps_RunningCount s)) @ ''/'' @ itoa (int (ps_PodCount s)) @ ''\<newline>  '' @
     (if ps_NotRunningCount s > 0 then ''Not Running Pod List:'' @ concat (map (\<lambda>p. ''\<newline>    PodName: '' @ kp_Name p) (ps_NotRunningPodList s)) @ ''\<newline>  '' else [])"

definition podReport :: "PodNamespaceStatus list \<Rightarrow> string" where
  "podReport ss = ''Cluster Pod Status\<newline>  '' @ concat (map podReport1 ss) @ ''\<newline>''"

text \<open>The list of statuses is a global variable: a check appends to what earlier ones have left there.\<close>

definition pod_Check :: "kubeView \<Rightarrow> PodNamespaceStatus list \<Rightarrow> string \<Rightarrow> PodNamespaceStatus list io" where
  "pod_Check kv podNamespaceStatusList phase = (if phase \<noteq> PhasePost then returnE podNamespaceStatusList
     else bindE (liftR (NewK8sClient kv)) (\<lambda>_. bindE (liftR (ListAllNamespacesPods kv)) (\<lambda>namespacePodList.
       let l = podNamespaceStatusList @ map podStatus namespacePodList in thenE (writeReport (podReport l)) (returnE l))))"

section \<open>Services\<close>

definition IsExistEndpoint :: "(string \<times> nat) list \<Rightarrow> string \<Rightarrow> bool" where
  "IsExistEndpoint endpointList serviceName = list_ex (\<lambda>(name, subsets). name = serviceName \<and> subsets > 0) endpointList"

record SvcNamespaceStatus =
  ss_NamespaceName :: string
  ss_ServiceCount :: nat
  ss_EndpointCount :: nat
  ss_UnhealthServiceList :: "string list"

definition svcStatus :: "string \<Rightarrow> string list \<Rightarrow> (string \<times> nat) list \<Rightarrow> SvcNamespaceStatus" where
  "svcStatus ns svcs eps = \<lparr>ss_NamespaceName = ns, ss_ServiceCount = length svcs,
     ss_EndpointCount = length (filter (IsExistEndpoint eps) svcs), ss_UnhealthServiceList = filter (\<lambda>s. \<not> IsExistEndpoint eps s) svcs\<rparr>"

text \<open>An error of the endpoints ends the loop; the namespaces before it are reported, and nothing else.\<close>

fun svcStatuses :: "kubeView \<Rightarrow> (string \<times> string list) list \<Rightarrow> SvcNamespaceStatus list" where
  "svcStatuses kv [] = []"
| "svcStatuses kv ((ns, svcs) # rest) = (case GetEndpointsList kv ns of Inl _ \<Rightarrow> []
     | Inr eps \<Rightarrow> svcStatus ns svcs eps # svcStatuses kv rest)"

definition svcReport :: "SvcNamespaceStatus list \<Rightarrow> string" where
  "svcReport ss = ''Cluster Service Status'' @ concat (map (\<lambda>s. ''\<newline>  Namespace: '' @ ss_NamespaceName s @
      ''\<newline>  HealthService: '' @ itoa (int (ss_EndpointCount s)) @ ''/'' @ itoa (int (ss_ServiceCount s)) @ ''\<newline>  UnhealthServiceList:'' @
      concat (map (\<lambda>n. ''\<newline>    ServiceName: '' @ n) (ss_UnhealthServiceList s))) ss) @ ''\<newline>''"

definition svc_Check :: "kubeView \<Rightarrow> string \<Rightarrow> unit io" where
  "svc_Check kv phase = (if phase \<noteq> PhasePost then returnE ()
     else bindE (liftR (NewK8sClient kv)) (\<lambda>_. bindE (liftR (ListAllNamespacesSvcs kv)) (\<lambda>namespaceSvcList.
       mapErr (Wrapf ''service checkers template can not be executed: %s'' []) (writeReport (svcReport (svcStatuses kv namespaceSvcList))))))"

section \<open>The list of checks and the command\<close>

fun RunCheckList :: "(string \<Rightarrow> unit io) list \<Rightarrow> string \<Rightarrow> unit io" where
  "RunCheckList [] phase = returnE ()"
| "RunCheckList (l # ls) phase = thenE (mapErr (Wrapf ''failed to run checker: %v'' []) (l phase)) (RunCheckList ls phase)"

definition checkers :: "kubeView \<Rightarrow> (string \<Rightarrow> unit io) list" where
  "checkers kv = [node_Check kv, svc_Check kv, \<lambda>phase. bindE (pod_Check kv [] phase) (\<lambda>_. returnE ())]"

definition NewCheckCmd :: "kubeView \<Rightarrow> bool \<Rightarrow> bool \<Rightarrow> unit io" where
  "NewCheckCmd kv pre post = (if pre \<and> post then throwE (Errorf ''don't allow to set two flags --pre and --post'' [])
     else RunCheckList (checkers kv) (if pre then PhasePre else PhasePost))"

section \<open>Hosts\<close>

text \<open>\<^verbatim>\<open>strconv.Atoi\<close> on a 64-bit host.\<close>

definition strconv_Atoi :: "string \<Rightarrow> int res" where
  "strconv_Atoi s = (let neg = (s \<noteq> [] \<and> hd s = CHR ''-''); ds = (if s \<noteq> [] \<and> (hd s = CHR ''-'' \<or> hd s = CHR ''+'') then tl s else s);
        n = (if neg then - decimal ds else decimal ds) in
     if ds = [] \<or> \<not> list_all is_digit ds then Inl (Errorf ''strconv.Atoi: parsing %s: invalid syntax'' [s])
     else if n < - (2 ^ 63) \<or> 2 ^ 63 \<le> n then Inl (Errorf ''strconv.Atoi: parsing %s: value out of range'' [s])
     else Inr n)"

definition remoteText :: "Cluster \<Rightarrow> net_ip \<Rightarrow> string \<Rightarrow> string \<Rightarrow> (string \<times> Cluster) io" where
  "remoteText cluster ip cmd what =
     bindE (mapErr (Wrapf ''checker: failed to get ssh client of host(%s): %v'' [ip_String ip]) (liftR (GetHostSSHClient ip cluster))) (\<lambda>(s, cluster').
     bindE (CmdToString s ip [] cmd []) (\<lambda>(out, err). case err of
         Some e \<Rightarrow> throwE (Wrapf ''checker: failed to get %s of host(%s): %v'' [what, ip_String ip] e)
       | None \<Rightarrow> returnE (out, cluster')))"

fun checkHostnameUnique :: "Cluster \<Rightarrow> net_ip list \<Rightarrow> string list \<Rightarrow> (string list \<times> Cluster) io" where
  "checkHostnameUnique cluster [] hostnameList = returnE (hostnameList, cluster)"
| "checkHostnameUnique cluster (ip # ipList) hostnameList = bindE (remoteText cluster ip ''hostname'' ''hostname'') (\<lambda>(hostname, cluster').
     if hostname \<in> set hostnameList then throwE (Errorf ''checker: hostname of host(%s) cannot be repeated, please set diffent hostname'' [ip_String ip])
     else checkHostnameUnique cluster' ipList (hostnameList @ [hostname]))"

text \<open>The clock is an argument: the nanoseconds since 1970 when a host is compared.\<close>

fun checkTimeSync :: "(net_ip \<Rightarrow> int) \<Rightarrow> Cluster \<Rightarrow> net_ip list \<Rightarrow> unit io" where
  "checkTimeSync now cluster [] = returnE ()"
| "checkTimeSync now cluster (ip # ipList) = bindE (remoteText cluster ip ''date +%s'' ''timestamp'') (\<lambda>(timeStamp, cluster').
     bindE (mapErr (Wrapf ''checker: failed to reverse timestamp %s of host(%s): %v'' [timeStamp, ip_String ip]) (liftR (strconv_Atoi timeStamp))) (\<lambda>ts.
       if \<bar>now ip - ts * 10 ^ 9\<bar> > 60 * 10 ^ 9 then throwE (Errorf ''checker: time of host(%s) is not synchronized'' [ip_String ip])
       else checkTimeSync now cluster' ipList))"

definition host_Check :: "(net_ip \<Rightarrow> int) \<Rightarrow> Cluster \<Rightarrow> string \<Rightarrow> unit io" where
  "host_Check now cluster phase = (let ipList = concat (map h_IPS (c_Hosts (Spec cluster))) in
     bindE (checkHostnameUnique cluster ipList []) (\<lambda>(_, cluster'). checkTimeSync now cluster' ipList))"

section \<open>Registry credentials\<close>

type_synonym DockerAuth = "string \<rightharpoonup> string"

definition auth_Get :: "DockerAuth \<Rightarrow> string \<Rightarrow> (string \<times> string) res" where
  "auth_Get d domain = (case d domain of None \<Rightarrow> Inl (Errorf ''auth for %s doesn't exist'' [domain])
     | Some auth \<Rightarrow> if auth = [] then Inl (Errorf ''auth for %s doesn't exist'' [domain])
       else bindR (base64decode auth) (\<lambda>decode.
         if CHR '':'' \<notin> set decode then Inl (Errorf ''auth base64 has problem of format'' [])
         else Inr (takeWhile (\<lambda>c. c \<noteq> CHR '':'') decode, tl (dropWhile (\<lambda>c. c \<noteq> CHR '':'') decode))))"

record AuthConfig =
  ac_Username :: string
  ac_Password :: string
  ac_ServerAddress :: string

definition GetAuthByDomain :: "DockerAuth \<Rightarrow> string \<Rightarrow> AuthConfig res" where
  "GetAuthByDomain d domain = bindR (auth_Get d domain) (\<lambda>(user, passwd). Inr \<lparr>ac_Username = user, ac_Password = passwd, ac_ServerAddress = domain\<rparr>)"

definition NewDockerAuthService :: "(string \<Rightarrow> DockerAuth res) \<Rightarrow> string \<Rightarrow> DockerAuth io" where
  "NewDockerAuthService unmarshal authFile = bindE (os_IsFileExist authFile) (\<lambda>ex. if \<not> ex then returnE Map.empty
     else bindE (askText (LocalCall ''os.ReadFile'' [filepath_Clean authFile])) (\<lambda>content. liftR (unmarshal content)))"

text \<open>\<^verbatim>\<open>Login\<close> asks the registry with the credentials; everything below the address is the registry library.\<close>

definition loginURL :: "string \<Rightarrow> string" where
  "loginURL domain = (if \<not> strings_HasPrefix domain ''http://'' \<and> \<not> strings_HasPrefix domain ''https://'' then ''https://'' @ domain else domain)"

definition Login :: "AuthConfig \<Rightarrow> unit io" where
  "Login a = perform (LocalCall ''registry.Login'' [loginURL (ac_ServerAddress a), ac_Username a, ac_Password a])"

definition registry_Check :: "(string \<Rightarrow> DockerAuth res) \<Rightarrow> string \<Rightarrow> string \<Rightarrow> string \<Rightarrow> unit io" where
  "registry_Check unmarshal authFile registryDomain phase = (if phase \<noteq> PhasePre then returnE ()
     else bindE (os_IsFileExist authFile) (\<lambda>ex.
       if \<not> ex then throwE (Errorf ''registry auth info not found,please run 'sealer login' first'' [])
       else bindE (mapErr (Wrapf ''failed to read default auth file %s: %v'' [authFile]) (NewDockerAuthService unmarshal authFile)) (\<lambda>svc.
         bindE (mapErr (Wrapf ''failed to get auth info, err: %s'' []) (liftR (GetAuthByDomain svc registryDomain))) (\<lambda>authConfig.
           mapErr (Wrapf ''failed to login %v: %v'' [registryDomain]) (Login authConfig)))))"

section \<open>Checks change nothing\<close>

text \<open>The contract of a check: it reads, and writes a report.\<close>

definition reporting :: "action \<Rightarrow> bool" where
  "reporting a = (\<exists>t. a = LocalCall ''StdOut.Write'' [t])"

locale check_contract =
  fixes chk :: "string \<Rightarrow> unit io"
  assumes only_reports: "obeys reporting (chk phase)"
    and post_only: "phase \<noteq> PhasePost \<Longrightarrow> chk phase = returnE ()"
begin

lemma pre_does_nothing: "chk PhasePre w = (Inr (), w)"
  by (simp add: post_only PhasePre_def PhasePost_def returnE_def)

end

lemma obeys_writeReport [intro!]: "obeys reporting (writeReport t)"
  by (auto simp: writeReport_def reporting_def)

interpretation nodes: check_contract "node_Check kv" for kv
  by unfold_locales (auto simp: node_Check_def Let_def)

interpretation services: check_contract "svc_Check kv" for kv
  by unfold_locales (auto simp: svc_Check_def)

interpretation pods: check_contract "\<lambda>phase. bindE (pod_Check kv l phase) (\<lambda>_. returnE ())" for kv l
  by unfold_locales (auto simp: pod_Check_def Let_def)

lemma RunCheckList_reports: "\<forall>l \<in> set ls. check_contract l \<Longrightarrow> obeys reporting (RunCheckList ls phase)"
  by (induction ls) (auto intro: check_contract.only_reports)

lemma checkers_contract: "\<forall>l \<in> set (checkers kv). check_contract l"
  using nodes.check_contract_axioms services.check_contract_axioms pods.check_contract_axioms by (simp add: checkers_def)

text \<open>Checking before an installation, \<^verbatim>\<open>sealer alpha check --pre\<close>, does nothing and succeeds.\<close>

lemma RunCheckList_pre: "\<forall>l \<in> set ls. check_contract l \<Longrightarrow> RunCheckList ls PhasePre w = (Inr (), w)"
  by (induction ls) (auto simp: returnE_def thenE_def bindE_def mapErr_def check_contract.pre_does_nothing)

theorem pre_check_is_empty: "NewCheckCmd kv True False w = (Inr (), w)"
  by (simp add: NewCheckCmd_def RunCheckList_pre checkers_contract)

lemma mapErrR_Inr: "mapErrR f r = Inr x \<longleftrightarrow> r = Inr x"
  by (cases r) (auto simp: mapErrR_def)

lemma calm_report: "calm w \<Longrightarrow> writeReport t w = (Inr (), w\<lparr>w_log := w_log w @ [LocalCall ''StdOut.Write'' [t]]\<rparr>)"
  by (simp add: writeReport_def perform_def calm_def)

definition clientOK :: "kubeView \<Rightarrow> bool" where
  "clientOK kv = (NewK8sClient kv = Inr ())"

definition readyNodes :: "kNode list \<Rightarrow> bool" where
  "readyNodes nodes = (\<forall>n \<in> set nodes. snd (getNodeStatus n) = ''Ready'')"

lemma nodeStatus_ready: "NotReadyCount (nodeStatus nodes) = 0 \<longleftrightarrow> readyNodes nodes"
proof -
  have "length (filter (\<lambda>(ip, ph). ph \<noteq> ''Ready'') (map getNodeStatus nodes)) = 0 \<longleftrightarrow> (\<forall>n \<in> set nodes. snd (getNodeStatus n) = ''Ready'')"
    by (simp only: length_0_conv filter_empty_conv set_map ball_simps case_prod_beta not_not)
  then show ?thesis by (simp add: nodeStatus_def Let_def readyNodes_def)
qed

lemma node_Check_post:
  assumes "calm w"
  shows "(\<exists>w'. node_Check kv PhasePost w = (Inr (), w')) \<longleftrightarrow> clientOK kv \<and> (\<exists>nodes. kv_nodes kv = Inr nodes \<and> readyNodes nodes)"
proof (cases "NewK8sClient kv = Inr () \<and> (\<exists>nodes. kv_nodes kv = Inr nodes)")
  case True
  then obtain nodes where n: "NewK8sClient kv = Inr ()" "kv_nodes kv = Inr nodes" by blast
  then have "ListNodes_k8s kv = Inr nodes" by (simp add: ListNodes_k8s_def mapErrR_Inr)
  with n assms nodeStatus_ready [of nodes] show ?thesis
    by (auto simp: node_Check_def Let_def bindE_def liftR_def thenE_def calm_report returnE_def throwE_def clientOK_def)
next
  case False
  then show ?thesis
    by (auto simp: node_Check_def bindE_Inr_iff liftR_def clientOK_def ListNodes_k8s_def mapErrR_Inr)
qed

lemma svc_Check_post:
  assumes "calm w"
  shows "(\<exists>w'. svc_Check kv PhasePost w = (Inr (), w')) \<longleftrightarrow> clientOK kv \<and> (\<exists>l. ListAllNamespacesSvcs kv = Inr l)"
  using assms by (auto simp: svc_Check_def bindE_Inr_iff liftR_def clientOK_def calm_report) 

lemma pod_Check_post:
  assumes "calm w"
  shows "(\<exists>w'. bindE (pod_Check kv l PhasePost) (\<lambda>_. returnE ()) w = (Inr (), w')) \<longleftrightarrow> clientOK kv \<and> (\<exists>l. ListAllNamespacesPods kv = Inr l)"
  using assms by (auto simp: pod_Check_def bindE_Inr_iff liftR_def clientOK_def calm_report thenE_Inr_iff Let_def returnE_def)

definition readable :: "(string \<Rightarrow> 'a res) \<Rightarrow> string list \<Rightarrow> bool" where
  "readable f nss = (\<forall>ns \<in> set nss. \<exists>x. f ns = Inr x)"

lemma mapR_readable: "(\<exists>l. mapR (\<lambda>ns. bindR (mapErrR (g ns) (f ns)) (\<lambda>x. Inr (ns, x))) nss = Inr l) \<longleftrightarrow> readable f nss"
  by (induction nss) (auto simp: readable_def bindR_Inr_iff mapErrR_Inr)

lemma namespaces_readable:
  "(\<exists>l. ListAllNamespacesPods kv = Inr l) \<longleftrightarrow> (\<exists>nss. kv_namespaces kv = Inr nss \<and> readable (kv_pods kv) nss)"
  "(\<exists>l. ListAllNamespacesSvcs kv = Inr l) \<longleftrightarrow> (\<exists>nss. kv_namespaces kv = Inr nss \<and> readable (kv_services kv) nss)"
  using mapR_readable [of "\<lambda>_. Wrapf ''failed to get all namespace pods: %v'' []"]
  by (auto simp: ListAllNamespacesPods_def ListAllNamespacesSvcs_def listNamespaces_def bindR_Inr_iff mapErrR_Inr)

lemma calm_after: "obeys P m \<Longrightarrow> calm w \<Longrightarrow> m w = (r, w') \<Longrightarrow> calm w'"
  using obeysD [of P m w] by auto



text \<open>Host names: a successful check has seen a different name on every host.\<close>

theorem hostnames_distinct:
  "checkHostnameUnique cluster ipList seen w = (Inr (names, cluster'), w') \<Longrightarrow> distinct seen \<Longrightarrow>
    distinct names \<and> length names = length seen + length ipList"
proof (induction ipList arbitrary: cluster seen w)
  case (Cons ip ipList)
  from Cons.prems(1) obtain hostname cl w1 where "hostname \<notin> set seen"
      and run: "checkHostnameUnique cl ipList (seen @ [hostname]) w1 = (Inr (names, cluster'), w')"
    by (auto simp: bindE_Inr_iff throwE_def split: if_splits)
  then have "distinct names \<and> length names = length (seen @ [hostname]) + length ipList"
    using Cons.IH [OF run] Cons.prems(2) by simp
  then show ?case by simp
qed (auto simp: returnE_def)

text \<open>Stored credentials are read back, if the user name has no colon.\<close>

theorem stored_credentials_roundtrip:
  assumes "CHR '':'' \<notin> set user"
  shows "auth_Get (d(domain \<mapsto> base64encode (user @ '':'' @ passwd))) domain = Inr (user, passwd)"
proof -
  have "base64encode (c # cs) \<noteq> []" for c cs by (cases "c # cs" rule: base64encode.cases) (auto simp: Let_def)
  then have "base64encode (user @ '':'' @ passwd) \<noteq> []" by (cases "user @ '':'' @ passwd") auto
  moreover have "takeWhile (\<lambda>c. c \<noteq> CHR '':'') (user @ '':'' @ passwd) = user" "dropWhile (\<lambda>c. c \<noteq> CHR '':'') (user @ '':'' @ passwd) = '':'' @ passwd"
    using assms by (induction user) auto
  ultimately show ?thesis by (simp add: auth_Get_def)
qed

end
