(* ===== verification/Image_Save.thy ===== *)
theory Image_Save
  imports Pull_Cache Checker "HOL-Library.Multiset"
begin

text \<open>
  Saving container images into the registry directory of a cluster image, \<^verbatim>\<open>pkg/image/save/save.go\<close>: the images are pulled
  through the cache of \<^verbatim>\<open>Pull_Cache\<close> into the local store. The goroutines of a group are run one after the other in an order
  that \<open>sch_order\<close> chooses; those that save blobs share a variable, and \<open>sch_steps\<close> chooses how their steps interleave. The
  two decoders of JSON are parameters.
\<close>

section \<open>Groups of goroutines\<close>

definition maxPullGoroutineNum :: nat where "maxPullGoroutineNum = 2"

definition maxRetryTime :: nat where "maxRetryTime = 3"

definition run_order :: "'w Dist \<Rightarrow> nat \<Rightarrow> 'w PState \<Rightarrow> nat list" where
  "run_order lib n s = remdups (filter (\<lambda>i. i < n) (sch_order lib (ps_world s)) @ [0..<n])"

fun run_tasks :: "('w, 'a) act list \<Rightarrow> nat list \<Rightarrow> 'w PState \<Rightarrow> 'a res list \<times> 'w PState" where
  "run_tasks ts [] s = ([], s)"
| "run_tasks ts (i # is) s = (let (r, s1) = (ts ! i) s; (rs, s2) = run_tasks ts is s1 in (r # rs, s2))"

text \<open>Every goroutine runs; the group's error is the first there is, and the results come in the order of completion.\<close>

definition groupA :: "'w Dist \<Rightarrow> ('w, 'a) act list \<Rightarrow> ('w, 'a list) act" where
  "groupA lib ts s = (let (rs, s') = run_tasks ts (run_order lib (length ts) s) s in (mapR id rs, s'))"

section \<open>Registries and repositories\<close>

datatype Namespace = LocalNS string | ProxyNS proxyingRegistry

datatype Repository = LocalRepo string string | ProxiedRepo proxiedRepository

record Decoders =
  un_list :: "string \<Rightarrow> ImageManifest list res"
  un_blobs :: "string \<Rightarrow> (string \<times> string list) res"

definition newRegistry :: "'w Dist \<Rightarrow> string \<Rightarrow> ('w, Namespace) act" where
  "newRegistry lib dir = bindA (wrapA (Wrapf ''failed to create storage driver: %v'' []) (opA (lib_driver lib dir))) (\<lambda>_.
     bindA (wrapA (Wrapf ''failed to create local registry: %v'' []) (opA (lib_registry lib dir))) (\<lambda>_. retA (LocalNS dir)))"

definition liftA :: "'a res \<Rightarrow> ('w, 'a) act" where
  "liftA r s = (r, s)"

definition getRepository :: "'w Dist \<Rightarrow> ImageNamed \<Rightarrow> Namespace \<Rightarrow> ('w, Repository) act" where
  "getRepository lib named registry =
     bindA (wrapA (Wrapf ''failed to get repository name: %v'' []) (liftA (lib_WithName lib (in_repo named)))) (\<lambda>repoName.
     wrapA (Wrapf ''failed to get repository: %v'' []) (case registry of
         LocalNS dir \<Rightarrow> bindA (opA (loc_Repository lib dir repoName)) (\<lambda>_. retA (LocalRepo dir repoName))
       | ProxyNS pr \<Rightarrow> bindA (proxy_Repository lib pr repoName) (\<lambda>rp. retA (ProxiedRepo rp))))"

definition repo_Manifests :: "'w Dist \<Rightarrow> Repository \<Rightarrow> ('w, unit) act" where
  "repo_Manifests lib repo = (case repo of LocalRepo dir name \<Rightarrow> opA (loc_Manifests lib dir name) | ProxiedRepo rp \<Rightarrow> retA ())"

definition repo_TagGet :: "'w Dist \<Rightarrow> Repository \<Rightarrow> string \<Rightarrow> ('w, Descriptor) act" where
  "repo_TagGet lib repo t = (case repo of LocalRepo dir name \<Rightarrow> opA (loc_TagGet lib dir name t) | ProxiedRepo rp \<Rightarrow> tags_Get lib rp t)"

definition repo_ManGet :: "'w Dist \<Rightarrow> Repository \<Rightarrow> digest \<Rightarrow> ('w, Manifest) act" where
  "repo_ManGet lib repo d = (case repo of LocalRepo dir name \<Rightarrow> opA (loc_ManGet lib dir name d) | ProxiedRepo rp \<Rightarrow> manifests_Get lib rp d)"

section \<open>Manifests\<close>

definition manifestV2 :: string where "manifestV2 = ''application/vnd.docker.distribution.manifest.v2+json''"
definition manifestOCI :: string where "manifestOCI = ''application/vnd.oci.image.manifest.v1+json''"
definition manifestList :: string where "manifestList = ''application/vnd.docker.distribution.manifest.list.v2+json''"
definition manifestOCIIndex :: string where "manifestOCIIndex = ''application/vnd.oci.image.index.v1+json''"

text \<open>The digest of the manifest for the platform, given the manifest found under a tag.\<close>

definition manifestFor :: "Decoders \<Rightarrow> digest \<Rightarrow> Platform \<Rightarrow> Manifest \<Rightarrow> digest res" where
  "manifestFor un imagedigest plat mani =
     bindR (mapErrR (Wrapf ''failed to get image manifest payload: %v'' []) mani) (\<lambda>(ct, p).
       if ct = manifestV2 \<or> ct = manifestOCI then Inr imagedigest
       else if ct = manifestList \<or> ct = manifestOCIIndex
         then mapErrR (Wrapf ''failed to get digest from manifest list: %v'' []) (getImageManifestDigest (un_list un) p plat)
       else if ct = [] then (case getImageManifestDigest (un_list un) p plat of
           Inr d \<Rightarrow> if d \<noteq> [] then Inr d else Inr imagedigest
         | Inl _ \<Rightarrow> Inr imagedigest)
       else Inl (Errorf ''unrecognized manifest content type'' []))"

definition handleManifest :: "'w Dist \<Rightarrow> Decoders \<Rightarrow> Repository \<Rightarrow> digest \<Rightarrow> Platform \<Rightarrow> ('w, digest) act" where
  "handleManifest lib un repo imagedigest plat =
     bindA (wrapA (Wrapf ''failed to get image manifest: %v'' []) (repo_ManGet lib repo imagedigest)) (\<lambda>mani.
       liftA (manifestFor un imagedigest plat mani))"

definition blobsOf :: "Decoders \<Rightarrow> Manifest \<Rightarrow> digest list res" where
  "blobsOf un mani = mapErrR (Wrapf ''failed to get blob list: %v'' []) (getBlobList (un_blobs un) (map_sum id snd mani))"

definition getLocalDigest :: "'w Dist \<Rightarrow> Decoders \<Rightarrow> ImageNamed \<Rightarrow> Repository \<Rightarrow> Platform \<Rightarrow> ('w, digest list) act" where
  "getLocalDigest lib un named repo plat =
     bindA (wrapA (Wrapf ''failed to get manifest service: %v'' []) (repo_Manifests lib repo)) (\<lambda>_.
     bindA (wrapA (Wrapf ''failed to get %s tag descriptor in local: %v'' [in_repo named]) (repo_TagGet lib repo (in_tag named))) (\<lambda>desc.
     bindA (wrapA (Wrapf ''failed to get digest: %v'' []) (handleManifest lib un repo (ds_Digest desc) plat)) (\<lambda>imageDigest.
     bindA (repo_ManGet lib repo imageDigest) (\<lambda>blobListJSON. liftA (blobsOf un blobListJSON)))))"

definition isImageExist :: "'w Dist \<Rightarrow> Decoders \<Rightarrow> ImageNamed \<Rightarrow> string \<Rightarrow> Platform \<Rightarrow> ('w, unit) act" where
  "isImageExist lib un named dir plat =
     bindA (newRegistry lib dir) (\<lambda>registry.
     bindA (getRepository lib named registry) (\<lambda>repo.
     bindA (getLocalDigest lib un named repo plat) (\<lambda>blobList.
     bindA (groupA lib (map (\<lambda>blob. opA (loc_GlobalStat lib dir blob)) blobList)) (\<lambda>_. retA ()))))"

section \<open>Saving\<close>

definition saveManifestAndGetDigest :: "'w Dist \<Rightarrow> Decoders \<Rightarrow> ImageNamed list \<Rightarrow> Repository \<Rightarrow> Platform \<Rightarrow> ('w, digest list) act" where
  "saveManifestAndGetDigest lib un nameds repo plat =
     bindA (wrapA (Wrapf ''failed to get manifest service: %v'' []) (repo_Manifests lib repo)) (\<lambda>_.
     groupA lib (map (\<lambda>named.
       bindA (wrapA (Wrapf ''failed to get %s tag descriptor: %v. Try \"docker login\" if you are using a private registry'' [in_repo named])
               (repo_TagGet lib repo (in_tag named))) (\<lambda>desc.
       wrapA (Wrapf ''failed to get digest: %v'' []) (handleManifest lib un repo (ds_Digest desc) plat))) nameds))"

text \<open>The download of one blob.\<close>

definition fetchBlob :: "'w Dist \<Rightarrow> proxiedRepository \<Rightarrow> digest \<Rightarrow> ('w, unit) act" where
  "fetchBlob lib rp blob =
     bindA (wrapA (Wrapf ''failed to get blob %s: %v'' [blob]) (blobs_Open lib rp blob)) (\<lambda>content.
     bindA (wrapA (Wrapf ''seek end error when save blob %s: %v'' [blob]) (opA (rem_SeekEnd lib (rp_remote rp) blob))) (\<lambda>_.
     bindA (wrapA (Wrapf ''failed to seek start when save blob %s: %v'' [blob]) (opA (rem_SeekStart lib (rp_remote rp) blob))) (\<lambda>_.
     bindA (wrapA (Wrapf ''failed to create blob store writer: %v'' []) (blobs_Create lib rp)) (\<lambda>bw.
     bindA (wrapA (Wrapf ''failed to write blob to service: %v'' []) (opA (loc_Write lib bw content))) (\<lambda>_.
     bindA (wrapA (Wrapf ''failed to store blob %s to local: %v'' [blob])
             (opA (loc_Commit lib bw \<lparr>ds_MediaType = [], ds_Size = length content, ds_Digest = blob\<rparr>))) (\<lambda>_.
       retA ()))))))"

text \<open>
  A goroutine that saves a blob: it is started when a place is free, asks the store for the blob and writes the outcome to
  the variable \<^verbatim>\<open>err\<close> of the enclosing function, which all of them share; then it reads that variable; then it downloads.
\<close>

datatype bpc = BReady | BAsked | BFetching | BDone

record 'w bst =
  b_pcs :: "bpc list"
  b_errNil :: bool
  b_first :: "gerror option"
  b_s :: "'w PState"

definition startable :: "bpc list \<Rightarrow> nat \<Rightarrow> bool" where
  "startable pcs i \<longleftrightarrow> BReady \<notin> set (take i pcs) \<and> length (filter (\<lambda>p. p = BAsked \<or> p = BFetching) pcs) < maxPullGoroutineNum"

definition blob_step :: "'w Dist \<Rightarrow> proxiedRepository \<Rightarrow> digest list \<Rightarrow> nat \<Rightarrow> 'w bst \<Rightarrow> 'w bst" where
  "blob_step lib rp blobs i st = (if \<not> i < length (b_pcs st) then st else (case b_pcs st ! i of
       BReady \<Rightarrow> (if \<not> startable (b_pcs st) i then st
         else if length (blobs ! i) < 19 then st\<lparr>b_pcs := (b_pcs st)[i := BDone]\<rparr>
         else (let (r, s') = blobs_Stat lib rp (blobs ! i) (b_s st) in
           st\<lparr>b_pcs := (b_pcs st)[i := BAsked], b_errNil := \<not> isl r, b_s := s'\<rparr>))
     | BAsked \<Rightarrow> st\<lparr>b_pcs := (b_pcs st)[i := (if b_errNil st then BDone else BFetching)]\<rparr>
     | BFetching \<Rightarrow> (let (r, s') = fetchBlob lib rp (blobs ! i) (b_s st) in
         st\<lparr>b_pcs := (b_pcs st)[i := BDone], b_s := s',
            b_first := (case b_first st of Some e \<Rightarrow> Some e | None \<Rightarrow> (case r of Inl e \<Rightarrow> Some e | Inr _ \<Rightarrow> None))\<rparr>)
     | BDone \<Rightarrow> st))"

text \<open>The goroutines take the steps that were chosen, and then those that are left to them, in order.\<close>

definition run_blobs :: "'w Dist \<Rightarrow> proxiedRepository \<Rightarrow> digest list \<Rightarrow> 'w PState \<Rightarrow> 'w bst" where
  "run_blobs lib rp blobs s = foldl (\<lambda>st i. blob_step lib rp blobs i st)
     \<lparr>b_pcs = replicate (length blobs) BReady, b_errNil = True, b_first = None, b_s = s\<rparr>
     (sch_steps lib (ps_world s) @ concat (map (\<lambda>i. [i, i, i]) [0..<length blobs]))"

definition saveBlobs :: "'w Dist \<Rightarrow> Decoders \<Rightarrow> digest list \<Rightarrow> proxiedRepository \<Rightarrow> ('w, unit) act" where
  "saveBlobs lib un imageDigests rp =
     bindA (groupA lib (map (\<lambda>imageDigest.
         bindA (manifests_Get lib rp imageDigest) (\<lambda>blobListJSON. liftA (blobsOf un blobListJSON))) imageDigests)) (\<lambda>lists s.
       let st = run_blobs lib rp (concat lists) s in
       (case b_first st of None \<Rightarrow> Inr () | Some e \<Rightarrow> Inl e, b_s st))"

text \<open>An index into an empty list of images panics.\<close>

definition firstImage :: "ImageNamed list \<Rightarrow> ('w, ImageNamed) act" where
  "firstImage nameds = (case nameds of [] \<Rightarrow> failA (Panic ''index out of range [0] with length 0'') | n # _ \<Rightarrow> retA n)"

definition save :: "'w Dist \<Rightarrow> Decoders \<Rightarrow> ImageNamed list \<Rightarrow> Platform \<Rightarrow> proxyingRegistry \<Rightarrow> ('w, unit) act" where
  "save lib un nameds plat registry =
     bindA (firstImage nameds) (\<lambda>n0.
     bindA (getRepository lib n0 (ProxyNS registry)) (\<lambda>repo.
     bindA (saveManifestAndGetDigest lib un nameds repo plat) (\<lambda>imageDigests.
     case repo of ProxiedRepo rp \<Rightarrow> saveBlobs lib un imageDigests rp | LocalRepo _ _ \<Rightarrow> retA ())))"

section \<open>The proxy of a domain\<close>

text \<open>The URL always begins with \<^verbatim>\<open>https://\<close>, so the first occurrence that is replaced is at its start.\<close>

definition replaceScheme :: "string \<Rightarrow> string" where
  "replaceScheme url = (if prefix ''https://'' url then ''http://'' @ drop 8 url else url)"

definition newProxyRegistry :: "'w Dist \<Rightarrow> string \<Rightarrow> string \<Rightarrow> string \<Rightarrow> string \<Rightarrow> ('w, proxyingRegistry) act" where
  "newProxyRegistry lib rootdir url username password =
     bindA (wrapA (Wrapf ''failed to create storage driver: %v'' []) (opA (lib_driver lib rootdir))) (\<lambda>_.
     bindA (wrapA (Wrapf ''failed to create local registry: %v'' []) (opA (lib_registry lib rootdir))) (\<lambda>_.
     tryA (NewRegistryPullThroughCache lib rootdir url username password) (\<lambda>r. case r of
         Inr pr \<Rightarrow> retA pr
       | Inl _ \<Rightarrow> wrapA (Wrapf ''failed to create proxy registry: %v'' [])
           (NewRegistryPullThroughCache lib rootdir (replaceScheme url) username password))))"

definition proxyURL :: "string \<Rightarrow> string" where
  "proxyURL domain = (if domain = ''docker.io'' then ''https://registry-1.docker.io'' else ''https://'' @ domain)"

definition NewProxyRegistryWithAuth :: "'w Dist \<Rightarrow> string \<Rightarrow> string \<Rightarrow> string \<Rightarrow> string \<Rightarrow> ('w, proxyingRegistry) act" where
  "NewProxyRegistryWithAuth lib username password rootdir domain = newProxyRegistry lib rootdir (proxyURL domain) username password"

text \<open>\<open>svc\<close> is what \<^const>\<open>NewDockerAuthService\<close> returned. An error comes with the configuration that has no credentials.\<close>

definition authOrDefault :: "DockerAuth \<Rightarrow> string \<Rightarrow> AuthConfig \<times> gerror option" where
  "authOrDefault d domain = (case GetAuthByDomain d domain of
       Inr c \<Rightarrow> (c, None)
     | Inl e \<Rightarrow> (\<lparr>ac_Username = [], ac_Password = [], ac_ServerAddress = domain\<rparr>, Some e))"

definition NewProxyRegistry :: "'w Dist \<Rightarrow> DockerAuth res \<Rightarrow> string \<Rightarrow> string \<Rightarrow> ('w, proxyingRegistry) act" where
  "NewProxyRegistry lib svc rootdir domain =
     bindA (wrapA (Wrapf ''failed to read default auth file: %v'' []) (liftA svc)) (\<lambda>d.
     let defaultAuth = \<lparr>ac_Username = [], ac_Password = [], ac_ServerAddress = domain\<rparr>;
         (authConfig, err) = authOrDefault d domain in
     case err of
       Some e \<Rightarrow> if authConfig \<noteq> defaultAuth then failA (Wrapf ''failed to get authentication info: %v'' [] e)
                 else newProxyRegistry lib rootdir (proxyURL domain) (ac_Username authConfig) (ac_Password authConfig)
     | None \<Rightarrow> newProxyRegistry lib rootdir (proxyURL domain) (ac_Username authConfig) (ac_Password authConfig))"

section \<open>The two entry points\<close>

text \<open>The images to pull, by domain and repository; the list is kept in the saver.\<close>

type_synonym groups = "(string \<times> ImageNamed list) list"

fun addImage :: "string \<Rightarrow> ImageNamed \<Rightarrow> groups \<Rightarrow> groups" where
  "addImage k n [] = [(k, [n])]"
| "addImage k n ((k', ns) # g) = (if k' = k then (k', ns @ [n]) # g else (k', ns) # addImage k n g)"

fun collectImages :: "'w Dist \<Rightarrow> Decoders \<Rightarrow> string \<Rightarrow> Platform \<Rightarrow> string list \<Rightarrow> string set \<Rightarrow> groups \<Rightarrow> ('w, groups) act" where
  "collectImages lib un dir plat [] seen g = retA g"
| "collectImages lib un dir plat (img # images) seen g =
     bindA (wrapA (Wrapf ''failed to parse image name:: %v'' []) (liftA (ParseNormalizedNamed img []))) (\<lambda>named.
     if FullName named \<in> seen then collectImages lib un dir plat images seen g
     else tryA (isImageExist lib un named dir plat) (\<lambda>r. case r of
         Inr _ \<Rightarrow> collectImages lib un dir plat images (insert (FullName named) seen) g
       | Inl _ \<Rightarrow> collectImages lib un dir plat images (insert (FullName named) seen)
                  (addImage (in_domain named @ in_repo named) named g)))"

text \<open>The task of one group.\<close>

definition saveGroup :: "'w Dist \<Rightarrow> Decoders \<Rightarrow> DockerAuth res \<Rightarrow> string \<Rightarrow> Platform \<Rightarrow> ImageNamed list \<Rightarrow> ('w, unit) act" where
  "saveGroup lib un svc dir plat nameds =
     bindA (firstImage nameds) (\<lambda>n0.
     bindA (wrapA (Wrapf ''failed to init registry: %v'' []) (NewProxyRegistry lib svc dir (in_domain n0))) (\<lambda>registry.
     wrapA (Wrapf ''failed to save domain %s image: %v'' [in_domain n0]) (save lib un nameds plat registry)))"

definition SaveImages :: "'w Dist \<Rightarrow> Decoders \<Rightarrow> DockerAuth res \<Rightarrow> groups \<Rightarrow> string list \<Rightarrow> string \<Rightarrow> Platform \<Rightarrow> ('w, groups) act" where
  "SaveImages lib un svc domainToImages images dir plat =
     bindA (collectImages lib un dir plat images {} domainToImages) (\<lambda>g.
     bindA (groupA lib (map (\<lambda>(_, nameds). saveGroup lib un svc dir plat nameds) g)) (\<lambda>_. retA g))"

text \<open>The images of the list that are not complete in the local store are found one by one.\<close>

fun firstMissing :: "'w Dist \<Rightarrow> Decoders \<Rightarrow> string \<Rightarrow> Platform \<Rightarrow> ImageNamed list \<Rightarrow> ('w, gerror option) act" where
  "firstMissing lib un dir plat [] = retA None"
| "firstMissing lib un dir plat (n # ns) = tryA (isImageExist lib un n dir plat) (\<lambda>r. case r of
     Inl e \<Rightarrow> retA (Some e) | Inr _ \<Rightarrow> firstMissing lib un dir plat ns)"

record Section =
  sec_Registry :: string
  sec_Username :: string
  sec_Password :: string
  sec_Images :: groups

text \<open>One attempt; the result is the error of the first image that is not complete afterwards.\<close>

definition downloadOnce :: "'w Dist \<Rightarrow> Decoders \<Rightarrow> string \<Rightarrow> Platform \<Rightarrow> Section \<Rightarrow> ImageNamed list \<Rightarrow> ('w, gerror option) act" where
  "downloadOnce lib un dir plat sec nameds =
     bindA (firstImage nameds) (\<lambda>n0.
     bindA (wrapA (Wrapf ''failed to init registry: %v'' [])
             (NewProxyRegistryWithAuth lib (sec_Username sec) (sec_Password sec) dir (in_domain n0))) (\<lambda>registry.
     bindA (wrapA (Wrapf ''failed to save domain %s image: %v'' [ImageNamed_Name n0]) (save lib un nameds plat registry)) (\<lambda>_.
       firstMissing lib un dir plat nameds)))"

primrec download :: "'w Dist \<Rightarrow> Decoders \<Rightarrow> string \<Rightarrow> Platform \<Rightarrow> Section \<Rightarrow> ImageNamed list \<Rightarrow> nat \<Rightarrow> ('w, unit) act" where
  "download lib un dir plat sec nameds 0 = bindA (downloadOnce lib un dir plat sec nameds) (\<lambda>missing. case missing of
     None \<Rightarrow> retA () | Some e \<Rightarrow> failA e)"
| "download lib un dir plat sec nameds (Suc n) = bindA (downloadOnce lib un dir plat sec nameds) (\<lambda>missing. case missing of
     None \<Rightarrow> retA () | Some e \<Rightarrow> download lib un dir plat sec nameds n)"

text \<open>The sections are saved one after the other.\<close>

fun SaveImagesWithAuth :: "'w Dist \<Rightarrow> Decoders \<Rightarrow> Section list \<Rightarrow> string \<Rightarrow> Platform \<Rightarrow> ('w, unit) act" where
  "SaveImagesWithAuth lib un [] dir plat = retA ()"
| "SaveImagesWithAuth lib un (sec # secs) dir plat =
     bindA (groupA lib (map (\<lambda>(_, nameds). download lib un dir plat sec nameds maxRetryTime) (sec_Images sec))) (\<lambda>_.
     SaveImagesWithAuth lib un secs dir plat)"

section \<open>Groups\<close>

lemma run_order_set: "set (run_order lib n s) = {..<n}" and run_order_distinct: "distinct (run_order lib n s)"
  by (auto simp: run_order_def)

lemma run_tasks_length: "run_tasks ts is s = (rs, s') \<Longrightarrow> length rs = length is"
  by (induction "is" arbitrary: s rs s') (auto simp: Let_def split: prod.splits)

text \<open>When no task changes the state, all of them see the state at the start.\<close>

lemma run_tasks_pure:
  assumes "\<forall>i \<in> set is. snd ((ts ! i) s) = s"
  shows "run_tasks ts is s = (map (\<lambda>i. fst ((ts ! i) s)) is, s)"
  using assms
proof (induction "is")
  case (Cons i "is")
  obtain r where r: "(ts ! i) s = (r, s)" using Cons.prems by (metis list.set_intros(1) prod.collapse)
  show ?case using Cons by (simp add: r)
qed simp

lemma groupA_pure:
  assumes "\<forall>t \<in> set ts. snd (t s) = s" "groupA lib ts s = (Inr ys, s')"
  shows "s' = s \<and> (\<forall>t \<in> set ts. \<exists>y. t s = (Inr y, s))"
proof -
  let ?o = "run_order lib (length ts) s"
  have "run_tasks ts ?o s = (map (\<lambda>i. fst ((ts ! i) s)) ?o, s)"
    using assms(1) by (intro run_tasks_pure) (auto simp: run_order_set)
  then have m: "mapR id (map (\<lambda>i. fst ((ts ! i) s)) ?o) = Inr ys" and s: "s' = s"
    using assms(2) by (auto simp: groupA_def)
  have "\<exists>y. t s = (Inr y, s)" if t: "t \<in> set ts" for t
  proof -
    obtain i where i: "i < length ts" "t = ts ! i" using t by (auto simp: in_set_conv_nth)
    then have "i \<in> set ?o" by (simp add: run_order_set)
    then obtain j where "j < length ?o" "?o ! j = i" by (auto simp: in_set_conv_nth)
    then have "\<exists>y. fst ((ts ! i) s) = Inr y"
      using m by (auto simp: mapR_Inr_iff list_all2_conv_all_nth)
    then show ?thesis using assms(1) t i by (metis prod.collapse)
  qed
  then show ?thesis using s by blast
qed

lemma preserves_run_tasks:
  assumes "reflp R" "transp R" "\<forall>i \<in> set is. act_preserves R (ts ! i)" shows "R s (snd (run_tasks ts is s))"
  using assms(3)
proof (induction "is" arbitrary: s)
  case Nil then show ?case using assms(1) by (simp add: reflp_def)
next
  case (Cons i "is")
  have "R s (snd ((ts ! i) s))" using Cons.prems by (simp add: act_preserves_def)
  moreover have "R (snd ((ts ! i) s)) (snd (run_tasks ts is (snd ((ts ! i) s))))" using Cons by simp
  ultimately show ?case using assms(2) by (auto simp: Let_def split: prod.splits dest: transpD)
qed

lemma preserves_group:
  assumes "reflp R" "transp R" "\<And>t. t \<in> set ts \<Longrightarrow> act_preserves R t" shows "act_preserves R (groupA lib ts)"
proof -
  have "R s (snd (run_tasks ts (run_order lib (length ts) s) s))" for s
    using assms(3) by (intro preserves_run_tasks [OF assms(1,2)]) (auto simp: run_order_set)
  then show ?thesis by (simp add: act_preserves_def groupA_def split_def Let_def)
qed

lemma preserves_lift: "reflp R \<Longrightarrow> act_preserves R (liftA r)"
  by (simp add: act_preserves_def liftA_def reflp_def)

section \<open>Images that are complete\<close>

text \<open>The local store answers questions without changing anything.\<close>

definition local_reads :: "'w Dist \<Rightarrow> bool" where
  "local_reads lib \<longleftrightarrow> (\<forall>dir n d w. snd (lib_driver lib dir w) = w \<and> snd (lib_registry lib dir w) = w \<and> snd (loc_Repository lib dir n w) = w \<and>
     snd (loc_Manifests lib dir n w) = w \<and> snd (loc_TagGet lib dir n d w) = w \<and> snd (loc_ManGet lib dir n d w) = w \<and> snd (loc_GlobalStat lib dir d w) = w)"

text \<open>An image is complete in the local store when its tag, its manifest for the platform and every blob of that are there.\<close>

definition image_complete :: "'w Dist \<Rightarrow> Decoders \<Rightarrow> string \<Rightarrow> Platform \<Rightarrow> ImageNamed \<Rightarrow> 'w \<Rightarrow> bool" where
  "image_complete lib un dir plat n w \<longleftrightarrow> (\<exists>name desc m d m' blobs. lib_WithName lib (in_repo n) = Inr name \<and>
     fst (loc_TagGet lib dir name (in_tag n) w) = Inr desc \<and> fst (loc_ManGet lib dir name (ds_Digest desc) w) = Inr m \<and>
     manifestFor un (ds_Digest desc) plat m = Inr d \<and> fst (loc_ManGet lib dir name d w) = Inr m' \<and> blobsOf un m' = Inr blobs \<and>
     (\<forall>b \<in> set blobs. \<exists>x. fst (loc_GlobalStat lib dir b w) = Inr x))"

lemma opA_read: "\<forall>w. snd (f w) = w \<Longrightarrow> act_preserves (=) (opA f)"
  by (auto simp: act_preserves_def opA_def Let_def split: prod.splits) (metis old.unit.exhaust PState.surjective PState.update_convs(1) snd_conv)

lemma liftA_iff [simp]: "liftA r s = (r', s') \<longleftrightarrow> r = r' \<and> s' = s"
  by (auto simp: liftA_def)

lemma preserves_bind_val:
  assumes "transp R" "act_preserves R m" "\<And>x s s'. m s = (Inr x, s') \<Longrightarrow> act_preserves R (f x)" shows "act_preserves R (bindA m f)"
  unfolding act_preserves_def
proof
  fix s
  obtain r s' where m: "m s = (r, s')" by force
  have s': "R s s'" using assms(2) m by (rule preservesD)
  show "R s (snd (bindA m f s))"
  proof (cases r)
    case (Inr x)
    then have "R s' (snd (f x s'))" using assms(3) m by (auto simp: act_preserves_def)
    then show ?thesis using assms(1) s' Inr m by (auto simp: bindA_def dest: transpD)
  qed (use s' m in \<open>simp add: bindA_def\<close>)
qed

lemma newRegistry_local: "newRegistry lib dir s = (Inr x, s') \<Longrightarrow> x = LocalNS dir"
  by (auto simp: newRegistry_def bindA_Inr_iff)

lemma getRepository_local: "getRepository lib n (LocalNS dir) s = (Inr repo, s') \<Longrightarrow> \<exists>name. lib_WithName lib (in_repo n) = Inr name \<and> repo = LocalRepo dir name"
  by (auto simp: getRepository_def bindA_Inr_iff)

lemma reads_steps:
  assumes "local_reads lib"
  shows "act_preserves (=) (newRegistry lib dir)" "act_preserves (=) (getRepository lib n (LocalNS dir))"
    "act_preserves (=) (repo_Manifests lib (LocalRepo dir name))" "act_preserves (=) (repo_TagGet lib (LocalRepo dir name) t)"
    "act_preserves (=) (repo_ManGet lib (LocalRepo dir name) d)" "act_preserves (=) (opA (loc_GlobalStat lib dir d))"
  unfolding newRegistry_def getRepository_def repo_Manifests_def repo_TagGet_def repo_ManGet_def Namespace.case Repository.case
  by (intro preserves_intros preserves_lift opA_read reflp_on_equality transp_on_equality;
      use assms in \<open>simp add: local_reads_def\<close>)+

lemma getLocalDigest_reads:
  assumes "local_reads lib" shows "act_preserves (=) (getLocalDigest lib un n (LocalRepo dir name) plat)"
  unfolding getLocalDigest_def handleManifest_def
  by (intro preserves_intros preserves_lift reads_steps [OF assms]) simp_all

lemma isImageExist_reads:
  assumes "local_reads lib" shows "act_preserves (=) (isImageExist lib un n dir plat)"
  unfolding isImageExist_def
proof (rule preserves_bind_val)
  show "act_preserves (=) (newRegistry lib dir)" by (rule reads_steps [OF assms])
  fix registry :: Namespace and s s' :: "'a PState" assume "newRegistry lib dir s = (Inr registry, s')"
  then have ns: "registry = LocalNS dir" by (rule newRegistry_local)
  show "act_preserves (=) (bindA (getRepository lib n registry) (\<lambda>repo. bindA (getLocalDigest lib un n repo plat) (\<lambda>blobList.
     bindA (groupA lib (map (\<lambda>blob. opA (loc_GlobalStat lib dir blob)) blobList)) (\<lambda>_. retA ()))))"
    unfolding ns
  proof (rule preserves_bind_val)
    fix repo and s s' :: "'a PState" assume "getRepository lib n (LocalNS dir) s = (Inr repo, s')"
    then obtain name where "repo = LocalRepo dir name" using getRepository_local by blast
    then show "act_preserves (=) (bindA (getLocalDigest lib un n repo plat) (\<lambda>blobList.
        bindA (groupA lib (map (\<lambda>blob. opA (loc_GlobalStat lib dir blob)) blobList)) (\<lambda>_. retA ())))"
      using reads_steps(6) [OF assms] getLocalDigest_reads [OF assms] by (auto intro!: preserves_intros preserves_group)
  qed (simp_all add: reads_steps [OF assms])
qed simp

lemma bind_read: "bindA m f s = (Inr y, s') \<Longrightarrow> act_preserves (=) m \<Longrightarrow> (\<And>x. m s = (Inr x, s) \<Longrightarrow> f x s = (Inr y, s') \<Longrightarrow> thesis) \<Longrightarrow> thesis"
  by (auto simp: bindA_Inr_iff dest: preservesD)

lemma opA_fst: "opA f s = (r, s') \<Longrightarrow> fst (f (ps_world s)) = r"
  by (auto simp: opA_iff)

text \<open>What the check of the saver accepts is complete.\<close>

lemma getLocalDigest_complete:
  assumes rd: "local_reads lib" and ok: "getLocalDigest lib un n (LocalRepo dir name) plat s = (Inr blobs, s')"
  shows "\<exists>desc m d m'. fst (loc_TagGet lib dir name (in_tag n) (ps_world s)) = Inr desc \<and> fst (loc_ManGet lib dir name (ds_Digest desc) (ps_world s)) = Inr m \<and>
     manifestFor un (ds_Digest desc) plat m = Inr d \<and> fst (loc_ManGet lib dir name d (ps_world s)) = Inr m' \<and> blobsOf un m' = Inr blobs"
  using ok unfolding getLocalDigest_def handleManifest_def
  apply -
  apply (erule bind_read, intro preserves_wrap reads_steps [OF rd])
  apply (erule bind_read, intro preserves_wrap reads_steps [OF rd])
  apply (erule bind_read, intro preserves_intros preserves_lift reads_steps [OF rd]; simp?)
  apply (erule bind_read, intro reads_steps [OF rd])
  apply (erule bind_read, intro preserves_wrap reads_steps [OF rd])
  apply (auto simp: repo_TagGet_def repo_ManGet_def dest!: opA_fst)
  done

lemma isImageExist_complete:
  assumes rd: "local_reads lib" and ok: "isImageExist lib un n dir plat s = (Inr u, s')"
  shows "image_complete lib un dir plat n (ps_world s)"
proof -
  obtain registry where "newRegistry lib dir s = (Inr registry, s)"
    and r1: "bindA (getRepository lib n registry) (\<lambda>repo. bindA (getLocalDigest lib un n repo plat) (\<lambda>blobList.
       bindA (groupA lib (map (\<lambda>blob. opA (loc_GlobalStat lib dir blob)) blobList)) (\<lambda>_. retA ()))) s = (Inr u, s')"
    by (rule bind_read [OF ok [unfolded isImageExist_def] reads_steps(1) [OF rd]]) (rule that)
  then have ns: "registry = LocalNS dir" by (auto dest: newRegistry_local)
  obtain repo where repo: "getRepository lib n (LocalNS dir) s = (Inr repo, s)" and r2: "bindA (getLocalDigest lib un n repo plat) (\<lambda>blobList.
       bindA (groupA lib (map (\<lambda>blob. opA (loc_GlobalStat lib dir blob)) blobList)) (\<lambda>_. retA ())) s = (Inr u, s')"
    by (rule bind_read [OF r1 [unfolded ns] reads_steps(2) [OF rd]]) (rule that)
  obtain name where name: "lib_WithName lib (in_repo n) = Inr name" "repo = LocalRepo dir name" using getRepository_local [OF repo] by blast
  obtain blobs where dig: "getLocalDigest lib un n (LocalRepo dir name) plat s = (Inr blobs, s)"
    and r3: "bindA (groupA lib (map (\<lambda>blob. opA (loc_GlobalStat lib dir blob)) blobs)) (\<lambda>_. retA ()) s = (Inr u, s')"
    by (rule bind_read [OF r2 [unfolded name(2)] getLocalDigest_reads [OF rd]]) (rule that)
  obtain ys t where grp: "groupA lib (map (\<lambda>blob. opA (loc_GlobalStat lib dir blob)) blobs) s = (Inr ys, t)"
    using r3 unfolding bindA_Inr_iff by blast
  have "\<forall>t \<in> set (map (\<lambda>blob. opA (loc_GlobalStat lib dir blob)) blobs). snd (t s) = s"
    using reads_steps(6) [OF rd] by (auto simp: act_preserves_def)
  from groupA_pure [OF this grp] have "\<forall>b \<in> set blobs. \<exists>x. opA (loc_GlobalStat lib dir b) s = (Inr x, s)" by simp
  then have stat: "\<forall>b \<in> set blobs. \<exists>x. fst (loc_GlobalStat lib dir b (ps_world s)) = Inr x" by (blast dest: opA_fst)
  from getLocalDigest_complete [OF rd dig] show ?thesis using name(1) stat unfolding image_complete_def by blast
qed

lemma firstMissing_None:
  assumes rd: "local_reads lib" and "firstMissing lib un dir plat ns s = (Inr None, s')"
  shows "s' = s \<and> (\<forall>n \<in> set ns. image_complete lib un dir plat n (ps_world s))"
  using assms(2)
proof (induction ns)
  case (Cons n ns)
  obtain r s1 where e: "isImageExist lib un n dir plat s = (r, s1)" by force
  then have "s1 = s" using preservesD [OF isImageExist_reads [OF rd]] by metis
  then show ?case using Cons e isImageExist_complete [OF rd] by (cases r) (auto simp: tryA_def)
qed simp

text \<open>
  C13. An image list that was downloaded is complete: when the download of a list of images succeeds, after however many
  retries, then in the state that is left every image of the list has its tag, its manifest for the platform and all blobs
  of that manifest in the local store, provided that reading the store does not change it.
\<close>

theorem downloaded_images_complete:
  assumes "local_reads lib" "download lib un dir plat sec nameds retryTime s = (Inr (), s')"
  shows "\<forall>n \<in> set nameds. image_complete lib un dir plat n (ps_world s')"
proof -
  have once: "\<forall>n \<in> set nameds. image_complete lib un dir plat n (ps_world s')"
    if "downloadOnce lib un dir plat sec nameds s = (Inr None, s')" for s s'
    using that by (auto simp: downloadOnce_def bindA_Inr_iff dest: firstMissing_None [OF assms(1)])
  show ?thesis using assms(2)
  proof (induction retryTime arbitrary: s)
    case 0 then show ?case using once by (auto simp: bindA_Inr_iff split: option.splits)
  next
    case (Suc k) then show ?case using once by (auto simp: bindA_Inr_iff split: option.splits)
  qed
qed

section \<open>Blobs\<close>

text \<open>The blobs of a repository in the local store.\<close>

definition present :: "'w Dist \<Rightarrow> proxiedRepository \<Rightarrow> 'w PState \<Rightarrow> digest set" where
  "present lib rp s = {d. \<exists>x. fst (loc_Stat lib (rp_dir rp) (rp_name rp) d (ps_world s)) = Inr x}"

definition keeps_blobs :: "'w Dist \<Rightarrow> proxiedRepository \<Rightarrow> ('w, 'a) act \<Rightarrow> bool" where
  "keeps_blobs lib rp = act_preserves (\<lambda>s s'. present lib rp s' = present lib rp s)"

definition adds :: "'w Dist \<Rightarrow> proxiedRepository \<Rightarrow> digest \<Rightarrow> ('w, 'a) act \<Rightarrow> bool" where
  "adds lib rp d m \<longleftrightarrow> (\<forall>s. present lib rp (snd (m s)) = (if isl (fst (m s)) then present lib rp s else insert d (present lib rp s)))"

text \<open>What the store documents: a blob is there once a writer was committed under its digest, and nothing else adds or removes one.\<close>

definition blob_laws :: "'w Dist \<Rightarrow> proxiedRepository \<Rightarrow> bool" where
  "blob_laws lib rp \<longleftrightarrow>
     (\<forall>d. keeps_blobs lib rp (opA (loc_Stat lib (rp_dir rp) (rp_name rp) d))) \<and>
     (\<forall>d. keeps_blobs lib rp (opA (rem_Open lib (rp_remote rp) d)) \<and> keeps_blobs lib rp (opA (rem_SeekEnd lib (rp_remote rp) d)) \<and> keeps_blobs lib rp (opA (rem_SeekStart lib (rp_remote rp) d))) \<and>
     (\<forall>b u. keeps_blobs lib rp (opA (lib_http_Get lib b u))) \<and>
     (\<forall>cm u. keeps_blobs lib rp (opA (cm_GetChallenges lib cm u))) \<and> (\<forall>cm u c. keeps_blobs lib rp (opA (cm_AddResponse lib cm u c))) \<and>
     keeps_blobs lib rp (opA (loc_Create lib (rp_dir rp) (rp_name rp))) \<and> (\<forall>bw c. keeps_blobs lib rp (opA (loc_Write lib bw c))) \<and>
     (\<forall>bw desc. adds lib rp (ds_Digest desc) (opA (loc_Commit lib bw desc)))"

lemma keeps_bind: "keeps_blobs lib rp m \<Longrightarrow> (\<And>x. keeps_blobs lib rp (f x)) \<Longrightarrow> keeps_blobs lib rp (bindA m f)"
  and keeps_try: "keeps_blobs lib rp m \<Longrightarrow> (\<And>x. keeps_blobs lib rp (g x)) \<Longrightarrow> keeps_blobs lib rp (tryA m g)"
  and keeps_wrap: "keeps_blobs lib rp m \<Longrightarrow> keeps_blobs lib rp (wrapA h m)"
  and keeps_ret: "keeps_blobs lib rp (retA y)" and keeps_fail: "keeps_blobs lib rp (failA e)"
  unfolding keeps_blobs_def by (auto intro!: preserves_intros transpI reflpI)

lemma adds_bind:
  assumes "keeps_blobs lib rp m" "\<And>x. adds lib rp d (f x)" shows "adds lib rp d (bindA m f)"
  unfolding adds_def
proof
  fix s
  obtain r s1 where m: "m s = (r, s1)" by force
  then have "present lib rp s1 = present lib rp s" using assms(1) preservesD [of _ m] by (fastforce simp: keeps_blobs_def)
  then show "present lib rp (snd (bindA m f s)) = (if isl (fst (bindA m f s)) then present lib rp s else insert d (present lib rp s))"
    using m assms(2) by (cases r) (auto simp: bindA_def adds_def)
qed

lemma addsD: "adds lib rp d m \<Longrightarrow> m s = (r, s') \<Longrightarrow> present lib rp s' = (if isl r then present lib rp s else insert d (present lib rp s))"
  by (metis adds_def fst_conv snd_conv)

lemma keepsD: "keeps_blobs lib rp m \<Longrightarrow> m s = (r, s') \<Longrightarrow> present lib rp s' = present lib rp s"
  unfolding keeps_blobs_def by (drule (1) preservesD)

lemma adds_bind_ret:
  assumes "adds lib rp d m" shows "adds lib rp d (bindA m (\<lambda>_. retA y))"
  unfolding adds_def
proof
  fix s
  obtain r s1 where m: "m s = (r, s1)" by force
  from addsD [OF assms m] show "present lib rp (snd (bindA m (\<lambda>_. retA y) s)) =
      (if isl (fst (bindA m (\<lambda>_. retA y) s)) then present lib rp s else insert d (present lib rp s))"
    using m by (cases r) (simp_all add: bindA_def retA_def)
qed

lemma adds_wrap:
  assumes "adds lib rp d m" shows "adds lib rp d (wrapA h m)"
  unfolding adds_def
proof
  fix s
  obtain r s1 where m: "m s = (r, s1)" by force
  from addsD [OF assms m] show "present lib rp (snd (wrapA h m s)) = (if isl (fst (wrapA h m s)) then present lib rp s else insert d (present lib rp s))"
    using m by (cases r) (simp_all add: wrapA_def mapErrR_def)
qed

lemma blob_lawsD:
  assumes "blob_laws lib rp"
  shows "keeps_blobs lib rp (opA (loc_Stat lib (rp_dir rp) (rp_name rp) d))" "keeps_blobs lib rp (opA (rem_Open lib (rp_remote rp) d))"
    "keeps_blobs lib rp (opA (rem_SeekEnd lib (rp_remote rp) d))" "keeps_blobs lib rp (opA (rem_SeekStart lib (rp_remote rp) d))"
    "keeps_blobs lib rp (opA (lib_http_Get lib b u))" "keeps_blobs lib rp (opA (cm_GetChallenges lib cm u))" "keeps_blobs lib rp (opA (cm_AddResponse lib cm u c))"
    "keeps_blobs lib rp (opA (loc_Create lib (rp_dir rp) (rp_name rp)))" "keeps_blobs lib rp (opA (loc_Write lib bw t))"
    "adds lib rp (ds_Digest desc) (opA (loc_Commit lib bw desc))"
  using assms by (simp_all add: blob_laws_def)

lemma challenges_keeps: "blob_laws lib rp \<Longrightarrow> keeps_blobs lib rp (rp_challenges lib rp)"
  unfolding rp_challenges_def tryEstablishChallenges_def Let_def proxy_ping_def get_or_skip_def
  by (auto intro!: keeps_bind keeps_try keeps_ret keeps_fail blob_lawsD split: sum.splits)

lemma fetchBlob_adds:
  assumes "blob_laws lib rp" shows "adds lib rp b (fetchBlob lib rp b)"
proof -
  have "adds lib rp b (opA (loc_Commit lib bw \<lparr>ds_MediaType = [], ds_Size = k, ds_Digest = b\<rparr>))" for bw k
    using blob_lawsD(10) [OF assms, of "\<lparr>ds_MediaType = [], ds_Size = k, ds_Digest = b\<rparr>"] by simp
  then show ?thesis
    unfolding fetchBlob_def blobs_Open_def blobs_Create_def
    by (intro adds_bind keeps_bind keeps_wrap adds_bind_ret adds_wrap challenges_keeps blob_lawsD [OF assms] assms)
qed

text \<open>The blobs that are not yet in the store, each once.\<close>

definition fresh_inv :: "'w Dist \<Rightarrow> proxiedRepository \<Rightarrow> digest list \<Rightarrow> 'w bst \<Rightarrow> bool" where
  "fresh_inv lib rp blobs st \<longleftrightarrow> length (b_pcs st) = length blobs \<and>
     (\<forall>i < length blobs. b_pcs st ! i \<noteq> BDone \<longrightarrow> blobs ! i \<notin> present lib rp (b_s st)) \<and>
     (\<forall>i < length blobs. b_pcs st ! i = BAsked \<longrightarrow> \<not> b_errNil st) \<and>
     (b_first st = None \<longrightarrow> (\<forall>i < length blobs. 19 \<le> length (blobs ! i) \<and> b_pcs st ! i = BDone \<longrightarrow> blobs ! i \<in> present lib rp (b_s st)))"

lemma fresh_step:
  assumes laws: "blob_laws lib rp" and d: "distinct blobs" and inv: "fresh_inv lib rp blobs st"
  shows "fresh_inv lib rp blobs (blob_step lib rp blobs i st)"
proof (cases "i < length (b_pcs st)")
  case False then show ?thesis using inv by (simp add: blob_step_def)
next
  case True
  then have i: "i < length blobs" using inv by (simp add: fresh_inv_def)
  show ?thesis
  proof (cases "b_pcs st ! i")
    case BReady
    obtain r s' where stat: "blobs_Stat lib rp (blobs ! i) (b_s st) = (r, s')" by force
    have "present lib rp s' = present lib rp (b_s st)"
      using keepsD [OF blob_lawsD(1) [OF laws]] stat unfolding blobs_Stat_def by blast
    moreover have "isl r"
      using opA_fst [OF stat [unfolded blobs_Stat_def]] inv i BReady by (cases r) (auto simp: fresh_inv_def present_def)
    ultimately show ?thesis
      using inv i BReady True stat by (auto simp: blob_step_def fresh_inv_def nth_list_update)
  next
    case BAsked
    then have "\<not> b_errNil st" using inv i by (simp add: fresh_inv_def)
    then show ?thesis using inv i BAsked True by (auto simp: blob_step_def fresh_inv_def nth_list_update)
  next
    case BFetching
    obtain r s' where f: "fetchBlob lib rp (blobs ! i) (b_s st) = (r, s')" by force
    note p = addsD [OF fetchBlob_adds [OF laws] f]
    have "j = i" if "j < length blobs" "blobs ! j = blobs ! i" for j using d i that by (simp add: nth_eq_iff_index_eq)
    then show ?thesis using inv i BFetching True f p
      by (cases r) (auto simp: blob_step_def fresh_inv_def nth_list_update split: option.splits)
  next
    case BDone then show ?thesis using inv by (simp add: blob_step_def)
  qed
qed

text \<open>Every goroutine ends, whatever steps were chosen.\<close>

definition in_order :: "bpc list \<Rightarrow> bool" where
  "in_order pcs \<longleftrightarrow> (\<forall>j < length pcs. \<forall>i < j. pcs ! i = BReady \<longrightarrow> pcs ! j = BReady)"

lemma step_length [simp]: "length (b_pcs (blob_step lib rp blobs i st)) = length (b_pcs st)"
  by (auto simp: blob_step_def Let_def split: prod.splits bpc.splits)

lemma step_in_order:
  assumes "in_order (b_pcs st)" shows "in_order (b_pcs (blob_step lib rp blobs i st))"
proof -
  have upd: "in_order ((b_pcs st)[i := p])" if p: "p \<noteq> BReady" and i: "i < length (b_pcs st)" and before: "\<forall>k < i. b_pcs st ! k \<noteq> BReady" for p
    using assms p i before by (auto simp: in_order_def nth_list_update split: if_splits)
  have started: "\<forall>k < i. b_pcs st ! k \<noteq> BReady" if "i < length (b_pcs st)" "b_pcs st ! i \<noteq> BReady"
    using assms that unfolding in_order_def by blast
  have start: "\<forall>k < i. b_pcs st ! k \<noteq> BReady" if "i < length (b_pcs st)" "startable (b_pcs st) i"
    using that by (fastforce simp: startable_def in_set_conv_nth)
  show ?thesis
  proof (cases "i < length (b_pcs st)")
    case True
    show ?thesis
    proof (cases "b_pcs st ! i")
      case BReady
      then show ?thesis using assms upd [OF _ True start [OF True]] True by (simp add: blob_step_def Let_def split: prod.split)
    qed (use assms upd [OF _ True started [OF True]] True in \<open>simp_all add: blob_step_def Let_def split: prod.split\<close>)
  qed (use assms in \<open>simp add: blob_step_def\<close>)
qed

lemma startable_next:
  assumes "in_order pcs" "i < length pcs" "\<forall>j < i. pcs ! j = BDone" "pcs ! i = BReady" shows "startable pcs i"
proof -
  have "pcs ! j = BDone \<or> pcs ! j = BReady" if "j < length pcs" for j
    using assms that by (cases "j < i"; cases "j = i") (auto simp: in_order_def)
  then have "filter (\<lambda>p. p = BAsked \<or> p = BFetching) pcs = []" by (fastforce simp: filter_empty_conv in_set_conv_nth)
  moreover have "BReady \<notin> set (take i pcs)" using assms(2,3) by (auto simp: in_set_conv_nth)
  ultimately show ?thesis by (simp add: startable_def maxPullGoroutineNum_def)
qed

lemma step_Ready:
  "in_order (b_pcs st) \<Longrightarrow> i < length (b_pcs st) \<Longrightarrow> \<forall>j < i. b_pcs st ! j = BDone \<Longrightarrow> b_pcs st ! i = BReady \<Longrightarrow>
   b_pcs (blob_step lib rp blobs i st) \<in> {(b_pcs st)[i := BAsked], (b_pcs st)[i := BDone]}"
  using startable_next [of "b_pcs st" i] by (auto simp: blob_step_def Let_def split: prod.splits)

lemma step_Asked: "i < length (b_pcs st) \<Longrightarrow> b_pcs st ! i = BAsked \<Longrightarrow> b_pcs (blob_step lib rp blobs i st) \<in> {(b_pcs st)[i := BFetching], (b_pcs st)[i := BDone]}"
  by (auto simp: blob_step_def)

lemma step_Fetching: "i < length (b_pcs st) \<Longrightarrow> b_pcs st ! i = BFetching \<Longrightarrow> b_pcs (blob_step lib rp blobs i st) = (b_pcs st)[i := BDone]"
  by (auto simp: blob_step_def Let_def split: prod.splits)

lemma step_Done: "b_pcs st ! i = BDone \<Longrightarrow> blob_step lib rp blobs i st = st"
  by (auto simp: blob_step_def)

lemma three_steps:
  assumes "in_order (b_pcs st)" "i < length (b_pcs st)" "\<forall>j < i. b_pcs st ! j = BDone"
  shows "b_pcs (blob_step lib rp blobs i (blob_step lib rp blobs i (blob_step lib rp blobs i st))) = (b_pcs st)[i := BDone]"
proof -
  define f where "f = blob_step lib rp blobs i"
  have fetching: "b_pcs (f t) = (b_pcs st)[i := BDone]" if "b_pcs t = (b_pcs st)[i := BFetching]" for t
    using step_Fetching [of i t] that assms(2) by (simp add: f_def)
  have finished: "f t = t" if "b_pcs t = (b_pcs st)[i := BDone]" for t
    using step_Done [of t i] that assms(2) by (simp add: f_def)
  have asked: "b_pcs (f (f t)) = (b_pcs st)[i := BDone]" if "b_pcs t = (b_pcs st)[i := BAsked]" for t
    using step_Asked [of i t lib rp blobs] that assms(2) fetching [of "f t"] finished [of "f t"] by (auto simp: f_def)
  have same: "(b_pcs st)[i := b_pcs st ! i] = b_pcs st" by simp
  have "b_pcs (f (f (f st))) = (b_pcs st)[i := BDone]"
  proof (cases "b_pcs st ! i")
    case BReady
    then have "b_pcs (f st) \<in> {(b_pcs st)[i := BAsked], (b_pcs st)[i := BDone]}" unfolding f_def using step_Ready assms by blast
    then show ?thesis using asked [of "f st"] finished [of "f st"] by auto
  next
    case BAsked then show ?thesis using asked [of st] finished [of "f (f st)"] same by simp
  next
    case BFetching then show ?thesis using fetching [of st] finished [of "f st"] same by simp
  next
    case BDone then show ?thesis using finished [of st] same by simp
  qed
  then show ?thesis by (simp add: f_def)
qed

lemma steps_in_order: "in_order (b_pcs st) \<Longrightarrow> in_order (b_pcs (foldl (\<lambda>st i. blob_step lib rp blobs i st) st is)) \<and>
    length (b_pcs (foldl (\<lambda>st i. blob_step lib rp blobs i st) st is)) = length (b_pcs st)"
  by (induction "is" arbitrary: st) (auto simp: step_in_order)

lemma finishing_pass:
  assumes "in_order (b_pcs st)" "k \<le> length (b_pcs st)"
  shows "\<forall>j < k. b_pcs (foldl (\<lambda>st i. blob_step lib rp blobs i st) st (concat (map (\<lambda>i. [i, i, i]) [0..<k]))) ! j = BDone"
  using assms(2)
proof (induction k)
  case (Suc k)
  let ?st = "foldl (\<lambda>st i. blob_step lib rp blobs i st) st (concat (map (\<lambda>i. [i, i, i]) [0..<k]))"
  have "in_order (b_pcs ?st)" "length (b_pcs ?st) = length (b_pcs st)" using steps_in_order [OF assms(1)] by blast+
  then have "b_pcs (blob_step lib rp blobs k (blob_step lib rp blobs k (blob_step lib rp blobs k ?st))) = (b_pcs ?st)[k := BDone]"
    using Suc by (intro three_steps) auto
  then show ?case using Suc \<open>length (b_pcs ?st) = _\<close> by (auto simp: less_Suc_eq nth_list_update)
qed simp

lemma run_blobs_done: "length (b_pcs (run_blobs lib rp blobs s)) = length blobs \<and> (\<forall>j < length blobs. b_pcs (run_blobs lib rp blobs s) ! j = BDone)"
proof -
  let ?init = "\<lparr>b_pcs = replicate (length blobs) BReady, b_errNil = True, b_first = None, b_s = s\<rparr>"
  let ?st = "foldl (\<lambda>st i. blob_step lib rp blobs i st) ?init (sch_steps lib (ps_world s))"
  have "in_order (b_pcs ?init)" by (simp add: in_order_def)
  from steps_in_order [OF this, of lib rp blobs "sch_steps lib (ps_world s)"]
  have o: "in_order (b_pcs ?st)" "length (b_pcs ?st) = length blobs" by (blast, simp)
  then show ?thesis
    using finishing_pass [OF o(1), of "length blobs" lib rp blobs] steps_in_order [OF o(1), of lib rp blobs "concat (map (\<lambda>i. [i, i, i]) [0..<length blobs])"]
    by (simp add: run_blobs_def)
qed

text \<open>
  C14. However the goroutines that save blobs interleave, a success means that every blob is stored, when the blobs are
  pairwise different and none of them is in the store before; blobs whose digest is shorter than 19 bytes are left out.
\<close>

theorem fresh_blobs_saved:
  assumes "blob_laws lib rp" "distinct blobs" "set blobs \<inter> present lib rp s = {}" "b_first (run_blobs lib rp blobs s) = None"
  shows "{b \<in> set blobs. 19 \<le> length b} \<subseteq> present lib rp (b_s (run_blobs lib rp blobs s))"
proof -
  have "fresh_inv lib rp blobs (foldl (\<lambda>st i. blob_step lib rp blobs i st) st is)" if "fresh_inv lib rp blobs st" for st "is"
    using that by (induction "is" arbitrary: st) (auto intro: fresh_step assms)
  moreover have "fresh_inv lib rp blobs \<lparr>b_pcs = replicate (length blobs) BReady, b_errNil = True, b_first = None, b_s = s\<rparr>"
    using assms(3) nth_mem by (fastforce simp: fresh_inv_def)
  ultimately have "fresh_inv lib rp blobs (run_blobs lib rp blobs s)" unfolding run_blobs_def by blast
  then show ?thesis using assms(4) run_blobs_done [of lib rp blobs s] by (auto simp: fresh_inv_def in_set_conv_nth)
qed

text \<open>
  C15. A blob can be left out silently: while one goroutine has found that its blob is missing and has not yet looked at the
  shared variable, another finds its own blob in the store; the first then takes the variable for its own answer and ends
  without a download, and the group succeeds with the blob still missing. For every store there is such an interleaving.
\<close>

theorem shared_err_skips_blob:
  assumes laws: "blob_laws lib rp" and long: "19 \<le> length a" "19 \<le> length b"
    and a: "a \<notin> present lib rp s" and b: "b \<in> present lib rp s" and sch: "sch_steps lib (ps_world s) = [0, 1, 0]"
  shows "b_first (run_blobs lib rp [a, b] s) = None \<and> a \<notin> present lib rp (b_s (run_blobs lib rp [a, b] s))"
proof -
  obtain r1 s1 where s1: "blobs_Stat lib rp a s = (r1, s1)" by force
  obtain r2 s2 where s2: "blobs_Stat lib rp b s1 = (r2, s2)" by force
  have p1: "present lib rp s1 = present lib rp s" using keepsD [OF blob_lawsD(1) [OF laws]] s1 unfolding blobs_Stat_def by blast
  have p2: "present lib rp s2 = present lib rp s1" using keepsD [OF blob_lawsD(1) [OF laws]] s2 unfolding blobs_Stat_def by blast
  have "b \<in> present lib rp s1" using b p1 by simp
  then have r2: "\<not> isl r2" using opA_fst [OF s2 [unfolded blobs_Stat_def]] by (auto simp: present_def)
  have "run_blobs lib rp [a, b] s = \<lparr>b_pcs = [BDone, BDone], b_errNil = True, b_first = None, b_s = s2\<rparr>"
    using sch long s1 s2 r2 by (simp add: run_blobs_def blob_step_def startable_def maxPullGoroutineNum_def numeral_2_eq_2 upt_rec)
  then show ?thesis using a p1 p2 by simp
qed

section \<open>A small registry\<close>

text \<open>A remote registry with one image, whose blobs are all empty, and a local store that keeps what is put into it.\<close>

record store =
  st_tags :: "Descriptor list"
  st_manifests :: "Manifest list"
  st_blobs :: "digest list"

definition small_registry :: "nat list \<Rightarrow> store Dist" where
  "small_registry steps = no_registry\<lparr>
     lib_driver := (\<lambda>_ w. (Inr (), w)), lib_registry := (\<lambda>_ w. (Inr (), w)), lib_certs := (\<lambda>_ w. (Inr (), w)),
     lib_http_Get := (\<lambda>_ _ w. (Inr [], w)), lib_try_Get := (\<lambda>_ _ w. (Inr (), w)),
     cm_GetChallenges := (\<lambda>_ _ w. (Inr [], w)), cm_AddResponse := (\<lambda>_ _ _ w. (Inr (), w)),
     loc_Repository := (\<lambda>_ _ w. (Inr (), w)), loc_Manifests := (\<lambda>_ _ w. (Inr (), w)),
     loc_TagGet := (\<lambda>_ _ _ w. (case st_tags w of [] \<Rightarrow> Inl unreachable | d # _ \<Rightarrow> Inr d, w)),
     loc_Tag := (\<lambda>_ _ _ d w. (Inr (), w\<lparr>st_tags := d # st_tags w\<rparr>)),
     loc_ManGet := (\<lambda>_ _ d w. (case filter (\<lambda>m. payload_digest m = d) (st_manifests w) of [] \<Rightarrow> Inl unreachable | m # _ \<Rightarrow> Inr m, w)),
     loc_ManPut := (\<lambda>_ _ m w. (Inr (payload_digest m), w\<lparr>st_manifests := m # st_manifests w\<rparr>)),
     loc_Stat := (\<lambda>_ _ d w. (if d \<in> set (st_blobs w) then Inr \<lparr>ds_MediaType = [], ds_Size = 0, ds_Digest = d\<rparr> else Inl unreachable, w)),
     loc_GlobalStat := (\<lambda>_ d w. (if d \<in> set (st_blobs w) then Inr \<lparr>ds_MediaType = [], ds_Size = 0, ds_Digest = d\<rparr> else Inl unreachable, w)),
     loc_Create := (\<lambda>_ _ w. (Inr 0, w)), loc_Write := (\<lambda>_ _ w. (Inr (), w)),
     loc_Commit := (\<lambda>_ d w. (Inr d, w\<lparr>st_blobs := ds_Digest d # st_blobs w\<rparr>)),
     rem_New := (\<lambda>_ w. (Inr (), w)), rem_Manifests := (\<lambda>_ w. (Inr (), w)),
     rem_TagGet := (\<lambda>_ _ w. (Inr \<lparr>ds_MediaType = [], ds_Size = 0, ds_Digest = ''m''\<rparr>, w)),
     rem_ManGet := (\<lambda>_ d w. (Inr (Inr (manifestV2, d)), w)),
     rem_Open := (\<lambda>_ _ w. (Inr [], w)), rem_SeekEnd := (\<lambda>_ _ w. (Inr 0, w)), rem_SeekStart := (\<lambda>_ _ w. (Inr 0, w)),
     sch_steps := (\<lambda>_. steps)\<rparr>"

definition small_decoders :: Decoders where
  "small_decoders = \<lparr>un_list = (\<lambda>_. Inr []), un_blobs = (\<lambda>_. Inr (''sha256:aaaaaaaaaaaa'', []))\<rparr>"

definition empty_store :: store where
  "empty_store = \<lparr>st_tags = [], st_manifests = [], st_blobs = []\<rparr>"

lemma small_reads: "local_reads (small_registry steps)"
  by (simp add: local_reads_def small_registry_def)

lemma small_present: "present (small_registry steps) rp s = set (st_blobs (ps_world s))"
  by (auto simp: present_def small_registry_def)

lemma small_steps: "sch_steps (small_registry steps) w = steps"
  by (simp add: small_registry_def)

lemma small_laws: "blob_laws (small_registry steps) rp"
  unfolding blob_laws_def keeps_blobs_def adds_def act_preserves_def small_present
  by (simp add: opA_def small_registry_def)

definition small_image :: ImageNamed where
  "small_image = \<lparr>in_domain = ''h'', in_repo = ''library/nginx'', in_tag = ''latest''\<rparr>"

definition small_section :: Section where
  "small_section = \<lparr>sec_Registry = ''h'', sec_Username = [], sec_Password = [], sec_Images = [(''h'', [small_image])]\<rparr>"

definition small_platform :: Platform where
  "small_platform = \<lparr>p_Architecture = ''amd64'', p_OS = ''linux'', p_Variant = []\<rparr>"

text \<open>The download of its image, step by step.\<close>

definition small_proxy :: proxyingRegistry where
  "small_proxy = \<lparr>pr_dir = ''/d'', pr_remoteURL = \<lparr>u_Scheme = ''https'', u_Host = ''h'', u_Path = []\<rparr>, pr_cm = 0, pr_cs = Map.empty\<rparr>"

definition small_pulled :: store where
  "small_pulled = \<lparr>st_tags = [\<lparr>ds_MediaType = [], ds_Size = 0, ds_Digest = ''m''\<rparr>], st_manifests = [Inr (manifestV2, ''m'')], st_blobs = []\<rparr>"

lemmas small_eval = bindA_def wrapA_def opA_def tryA_def liftA_def Let_def retA_def mapErrR_def modA_def groupA_def run_order_def payload_digest_def
  small_registry_def no_registry_def

lemma small_a: "NewProxyRegistryWithAuth (small_registry []) [] [] ''/d'' ''h'' s = (Inr small_proxy, s)"
  by (simp add: NewProxyRegistryWithAuth_def newProxyRegistry_def proxyURL_def NewRegistryPullThroughCache_def configureAuth_def getAuthURLs_def
      get_or_skip_def small_proxy_def small_eval)

lemma small_b: "getRepository (small_registry []) small_image (ProxyNS small_proxy) s = (Inr (ProxiedRepo some_repository), s)"
  by (simp add: getRepository_def proxy_Repository_def small_proxy_def small_image_def some_repository_def URL_String_def small_eval)

lemma small_c: "\<exists>s. saveManifestAndGetDigest (small_registry []) small_decoders [small_image] (ProxiedRepo some_repository) small_platform (start_state empty_store) = (Inr [''m''], s) \<and> ps_world s = small_pulled"
  by (simp add: saveManifestAndGetDigest_def repo_Manifests_def repo_TagGet_def tags_Get_def rp_challenges_def tryEstablishChallenges_def
   handleManifest_def repo_ManGet_def manifests_Get_def keepManifest_def manifestFor_def ManifestPush_def ManifestPull_def proxy_ping_def get_or_skip_def small_image_def some_repository_def start_state_def empty_store_def
   small_pulled_def small_eval)

lemma small_d1: "ps_world s = small_pulled \<Longrightarrow> \<exists>s'. groupA (small_registry []) (map (\<lambda>d. bindA (manifests_Get (small_registry []) some_repository d) (\<lambda>m. liftA (blobsOf small_decoders m))) [''m'']) s =
     (Inr [[''sha256:aaaaaaaaaaaa'']], s') \<and> ps_world s' = small_pulled"
  by (simp add: manifests_Get_def keepManifest_def manifestFor_def ManifestPush_def blobsOf_def getBlobList_def small_decoders_def small_pulled_def small_eval)

lemma small_d2: "ps_world s = small_pulled \<Longrightarrow> fetchBlob (small_registry []) some_repository b s = (Inr (), s\<lparr>ps_world := small_pulled\<lparr>st_blobs := [b]\<rparr>\<rparr>)"
  by (simp add: fetchBlob_def blobs_Open_def blobs_Create_def rp_challenges_def tryEstablishChallenges_def proxy_ping_def get_or_skip_def small_pulled_def small_eval)

lemma small_d3: "ps_world s = small_pulled \<Longrightarrow> \<exists>x. blobs_Stat (small_registry []) some_repository b s = (Inl x, s)"
  by (simp add: blobs_Stat_def small_pulled_def small_eval)

lemma small_d4: "ps_world s = small_pulled \<Longrightarrow> 19 \<le> length b \<Longrightarrow> run_blobs (small_registry []) some_repository [b] s = \<lparr>b_pcs = [BDone], b_errNil = False, b_first = None, b_s = s\<lparr>ps_world := small_pulled\<lparr>st_blobs := [b]\<rparr>\<rparr>\<rparr>"
proof -
  assume w: "ps_world s = small_pulled" and b: "19 \<le> length b"
  obtain x where "blobs_Stat (small_registry []) some_repository b s = (Inl x, s)" using small_d3 [OF w] by blast
  then show ?thesis using small_d2 [OF w, of b] b by (simp add: run_blobs_def blob_step_def small_steps startable_def maxPullGoroutineNum_def)
qed

lemma small_d5: "ps_world s = small_pulled \<Longrightarrow> \<exists>s'. saveBlobs (small_registry []) small_decoders [''m''] some_repository s = (Inr (), s') \<and> ps_world s' = small_pulled\<lparr>st_blobs := [''sha256:aaaaaaaaaaaa'']\<rparr>"
proof -
  assume "ps_world s = small_pulled"
  then obtain s1 where g: "groupA (small_registry []) (map (\<lambda>d. bindA (manifests_Get (small_registry []) some_repository d) (\<lambda>m. liftA (blobsOf small_decoders m))) [''m'']) s =
     (Inr [[''sha256:aaaaaaaaaaaa'']], s1)" and "ps_world s1 = small_pulled" using small_d1 by blast
  then have "run_blobs (small_registry []) some_repository [''sha256:aaaaaaaaaaaa''] s1 = \<lparr>b_pcs = [BDone], b_errNil = False, b_first = None, b_s = s1\<lparr>ps_world := small_pulled\<lparr>st_blobs := [''sha256:aaaaaaaaaaaa'']\<rparr>\<rparr>\<rparr>"
    by (intro small_d4) simp_all
  then show ?thesis unfolding saveBlobs_def bindA_def g by simp
qed

lemma small_e: "ps_world s = small_pulled\<lparr>st_blobs := [''sha256:aaaaaaaaaaaa'']\<rparr> \<Longrightarrow> firstMissing (small_registry []) small_decoders ''/d'' small_platform [small_image] s = (Inr None, s)"
  by (simp add: isImageExist_def newRegistry_def getLocalDigest_def getRepository_def repo_Manifests_def repo_TagGet_def
   handleManifest_def repo_ManGet_def manifestFor_def blobsOf_def getBlobList_def small_decoders_def small_image_def
   small_pulled_def small_eval upt_rec)

lemma small_once:
  "\<exists>s'. downloadOnce (small_registry []) small_decoders ''/d'' small_platform small_section [small_image] (start_state empty_store) = (Inr None, s')"
proof -
  obtain s1 where c: "saveManifestAndGetDigest (small_registry []) small_decoders [small_image] (ProxiedRepo some_repository) small_platform (start_state empty_store) = (Inr [''m''], s1)"
    and w1: "ps_world s1 = small_pulled" using small_c by blast
  obtain s2 where d: "saveBlobs (small_registry []) small_decoders [''m''] some_repository s1 = (Inr (), s2)"
    and w2: "ps_world s2 = small_pulled\<lparr>st_blobs := [''sha256:aaaaaaaaaaaa'']\<rparr>" using small_d5 [OF w1] by blast
  have "save (small_registry []) small_decoders [small_image] small_platform small_proxy (start_state empty_store) = (Inr (), s2)"
    by (simp add: save_def firstImage_def bindA_def retA_def small_b c d)
  moreover have "in_domain small_image = ''h''" "sec_Username small_section = []" "sec_Password small_section = []"
    by (simp_all add: small_image_def small_section_def)
  ultimately show ?thesis
    by (simp add: downloadOnce_def firstImage_def bindA_def retA_def wrapA_def mapErrR_def small_a small_e [OF w2] del: firstMissing.simps)
qed

theorem downloaded_images_complete_witness:
  "\<exists>s'. download (small_registry []) small_decoders ''/d'' small_platform small_section [small_image] maxRetryTime (start_state empty_store) = (Inr (), s') \<and>
     image_complete (small_registry []) small_decoders ''/d'' small_platform small_image (ps_world s')"
proof -
  obtain s' where once: "downloadOnce (small_registry []) small_decoders ''/d'' small_platform small_section [small_image] (start_state empty_store) = (Inr None, s')"
    using small_once by blast
  have d: "download (small_registry []) small_decoders ''/d'' small_platform small_section [small_image] maxRetryTime (start_state empty_store) = (Inr (), s')"
    by (simp add: maxRetryTime_def numeral_3_eq_3 bindA_def retA_def once)
  have "image_complete (small_registry []) small_decoders ''/d'' small_platform small_image (ps_world s')"
    using downloaded_images_complete [OF small_reads d] by (rule bspec) simp
  with d show ?thesis by (intro exI conjI)
qed

theorem fresh_blobs_saved_witness:
  "{''sha256:aaaaaaaaaaaa'', ''sha256:bbbbbbbbbbbb''} \<subseteq>
     present (small_registry [0, 1, 0]) some_repository (b_s (run_blobs (small_registry [0, 1, 0]) some_repository [''sha256:aaaaaaaaaaaa'', ''sha256:bbbbbbbbbbbb''] (start_state empty_store)))"
proof -
  let ?blobs = "[''sha256:aaaaaaaaaaaa'', ''sha256:bbbbbbbbbbbb'']"
  have first: "b_first (run_blobs (small_registry [0, 1, 0]) some_repository ?blobs (start_state empty_store)) = None" by code_simp
  have "set ?blobs \<inter> present (small_registry [0, 1, 0]) some_repository (start_state empty_store) = {}"
    by (simp add: small_present start_state_def empty_store_def)
  from fresh_blobs_saved [OF small_laws _ this first]
  have "{b \<in> set ?blobs. 19 \<le> length b} \<subseteq> present (small_registry [0, 1, 0]) some_repository (b_s (run_blobs (small_registry [0, 1, 0]) some_repository ?blobs (start_state empty_store)))"
    by simp
  moreover have "{''sha256:aaaaaaaaaaaa'', ''sha256:bbbbbbbbbbbb''} \<subseteq> {b \<in> set ?blobs. 19 \<le> length b}" by simp
  ultimately show ?thesis by (rule subset_trans [rotated])
qed

theorem shared_err_skips_blob_witness:
  "let s = start_state (empty_store\<lparr>st_blobs := [''sha256:bbbbbbbbbbbb'']\<rparr>); st = run_blobs (small_registry [0, 1, 0]) some_repository [''sha256:aaaaaaaaaaaa'', ''sha256:bbbbbbbbbbbb''] s in
     b_first st = None \<and> ''sha256:aaaaaaaaaaaa'' \<notin> present (small_registry [0, 1, 0]) some_repository (b_s st)"
  unfolding Let_def
  by (rule shared_err_skips_blob [OF small_laws]) (simp_all add: small_present small_steps start_state_def empty_store_def)

section \<open>Names and credentials\<close>

text \<open>
  Credentials that cannot be read are taken for none: the branch that reports them is never taken, because the
  configuration that comes with an error is always the default one.
\<close>

theorem unreadable_credentials_ignored:
  assumes "GetAuthByDomain d domain = Inl e"
  shows "NewProxyRegistry lib (Inr d) rootdir domain = newProxyRegistry lib rootdir (proxyURL domain) [] []"
  using assms by (auto simp: NewProxyRegistry_def authOrDefault_def bindA_def wrapA_def liftA_def mapErrR_def Let_def)

text \<open>Images of different repositories fall into one group when their domains and repositories concatenate to the same text.\<close>

lemma group_key_collision:
  "(case (ParseNormalizedNamed ''a.b/cd:1'' [], ParseNormalizedNamed ''a.bc/d:1'' []) of
      (Inr m, Inr n) \<Rightarrow> in_repo m \<noteq> in_repo n \<and> addImage (in_domain n @ in_repo n) n (addImage (in_domain m @ in_repo m) m []) = [(''a.bcd'', [m, n])]
    | _ \<Rightarrow> False)"
  by code_simp

text \<open>What is to be pulled.\<close>

definition key_of :: "ImageNamed \<Rightarrow> string" where
  "key_of n = in_domain n @ in_repo n"

abbreviation images_of :: "groups \<Rightarrow> ImageNamed list" where
  "images_of g \<equiv> concat (map snd g)"

definition well_grouped :: "groups \<Rightarrow> bool" where
  "well_grouped g \<longleftrightarrow> (\<forall>(k, ns) \<in> set g. ns \<noteq> [] \<and> (\<forall>n \<in> set ns. key_of n = k)) \<and> distinct (map fst g) \<and> distinct (map FullName (images_of g))"

lemma addImage_images: "mset (images_of (addImage k n g)) = add_mset n (mset (images_of g))"
  by (induction g) auto

lemma addImage_keys: "map fst (addImage k n g) = (if k \<in> set (map fst g) then map fst g else map fst g @ [k])"
  by (induction k n g rule: addImage.induct) auto

lemma addImage_groups: "(\<forall>(k, ns) \<in> set g. ns \<noteq> [] \<and> (\<forall>n \<in> set ns. key_of n = k)) \<Longrightarrow>
    \<forall>(k', ns) \<in> set (addImage (key_of n) n g). ns \<noteq> [] \<and> (\<forall>n \<in> set ns. key_of n = k')"
  by (induction "key_of n" n g rule: addImage.induct) auto

lemma grouped_addImage:
  assumes "well_grouped g" "FullName n \<notin> FullName ` set (images_of g)" shows "well_grouped (addImage (key_of n) n g)"
proof -
  have "mset (map FullName (images_of (addImage (key_of n) n g))) = mset (FullName n # map FullName (images_of g))"
    using addImage_images [of "key_of n" n g] by (metis image_mset_add_mset mset.simps(2) mset_map)
  then have "distinct (map FullName (images_of (addImage (key_of n) n g)))"
    using mset_eq_imp_distinct_iff [of _ "FullName n # map FullName (images_of g)"] assms by (simp add: well_grouped_def)
  moreover have "distinct (map fst (addImage (key_of n) n g))" using assms(1) by (simp add: addImage_keys well_grouped_def)
  ultimately show ?thesis using assms(1) addImage_groups unfolding well_grouped_def by blast
qed

lemma addImage_set: "set (images_of (addImage k n g)) = insert n (set (images_of g))"
  using arg_cong [OF addImage_images, of set_mset] by (simp del: set_concat)

text \<open>The images of the list that are not seen yet and not complete.\<close>

definition missing :: "'w Dist \<Rightarrow> Decoders \<Rightarrow> string \<Rightarrow> Platform \<Rightarrow> 'w PState \<Rightarrow> string list \<Rightarrow> string set \<Rightarrow> ImageNamed set" where
  "missing lib un dir plat s images seen = {n. (\<exists>img \<in> set images. ParseNormalizedNamed img [] = Inr n) \<and> FullName n \<notin> seen \<and> isl (fst (isImageExist lib un n dir plat s))}"

lemma missing_Cons:
  assumes "ParseNormalizedNamed img [] = Inr n" "FullName n \<notin> seen"
  shows "missing lib un dir plat s (img # images) seen =
    (if isl (fst (isImageExist lib un n dir plat s)) then {n} else {}) \<union> missing lib un dir plat s images (insert (FullName n) seen)"
  using assms by (auto simp: missing_def dest: parsed_FullName_inj)

lemma missing_seen:
  "ParseNormalizedNamed img [] = Inr n \<Longrightarrow> FullName n \<in> seen \<Longrightarrow> missing lib un dir plat s (img # images) seen = missing lib un dir plat s images seen"
  by (auto simp: missing_def)

lemma collect_missing:
  assumes rd: "local_reads lib" and "collectImages lib un dir plat images seen g s = (Inr g', s')"
    and "well_grouped g" "FullName ` set (images_of g) \<subseteq> seen"
  shows "s' = s \<and> well_grouped g' \<and> set (images_of g') = set (images_of g) \<union> missing lib un dir plat s images seen"
  using assms(2-)
proof (induction images arbitrary: seen g)
  case Nil then show ?case by (simp add: missing_def)
next
  case (Cons img images)
  obtain n where n: "ParseNormalizedNamed img [] = Inr n" using Cons.prems(1) by (auto simp: bindA_Inr_iff)
  obtain r where e: "isImageExist lib un n dir plat s = (r, s)"
    using preservesD [OF isImageExist_reads [OF rd], of un n dir plat s] by (metis prod.collapse)
  have step: "(if FullName n \<in> seen then collectImages lib un dir plat images seen g
     else tryA (isImageExist lib un n dir plat) (\<lambda>r. case r of
         Inr _ \<Rightarrow> collectImages lib un dir plat images (insert (FullName n) seen) g
       | Inl _ \<Rightarrow> collectImages lib un dir plat images (insert (FullName n) seen) (addImage (in_domain n @ in_repo n) n g))) s = (Inr g', s')"
    using Cons.prems(1) n by (auto simp: bindA_Inr_iff)
  show ?case
  proof (cases "FullName n \<in> seen")
    case True
    then show ?thesis using Cons.IH [of seen g] Cons.prems(2,3) step missing_seen [OF n True, of lib un dir plat s images] by simp
  next
    case False
    show ?thesis
    proof (cases r)
      case (Inr u)
      then have "collectImages lib un dir plat images (insert (FullName n) seen) g s = (Inr g', s')" using step False e by (auto simp: tryA_def)
      moreover have "FullName ` set (images_of g) \<subseteq> insert (FullName n) seen" using Cons.prems(3) by blast
      ultimately show ?thesis using Cons.IH [of "insert (FullName n) seen" g] Cons.prems(2) missing_Cons [OF n False, of lib un dir plat s images] e Inr by simp
    next
      case (Inl x)
      then have "collectImages lib un dir plat images (insert (FullName n) seen) (addImage (key_of n) n g) s = (Inr g', s')"
        using step False e by (auto simp: tryA_def key_of_def)
      moreover have "well_grouped (addImage (key_of n) n g)" using grouped_addImage Cons.prems False by blast
      ultimately have "s' = s \<and> well_grouped g' \<and> set (images_of g') = set (images_of (addImage (key_of n) n g)) \<union> missing lib un dir plat s images (insert (FullName n) seen)"
        using Cons.prems(3) by (intro Cons.IH) (auto simp del: set_concat simp: addImage_set)
      then show ?thesis using missing_Cons [OF n False, of lib un dir plat s images] e Inl by (simp del: set_concat add: addImage_set)
    qed
  qed
qed



end
