(* ===== verification/Spec2Isabelle.thy ===== *)
theory Spec2Isabelle
  imports Kubefile_Properties Clusterfile_Properties Commands Ssh_Properties Cert_Properties P2p_Properties Image_Save
begin

text \<open>
  \<^bold>\<open>Verification of sealer\<close>

  sealer (under \<^verbatim>\<open>src/\<close>) builds, ships and runs whole Kubernetes clusters as images. This library is a
  shallow embedding of its Go code in HOL, with the theorems that say what the code does.

  \<^bold>\<open>The program and the theories.\<close> A command (\<^verbatim>\<open>cmd/sealer/cmd/cluster\<close>) reads its flags and a Clusterfile,
  makes a cluster object of them, mounts a cluster image for the platforms of the hosts, and lets an
  installer act on the hosts over SSH. From the bottom up:

    \<^item> \<open>Prelude\<close>: errors (\<^verbatim>\<open>fmt.Errorf\<close> chains and panics), results, and the parts of Go's \<^verbatim>\<open>strings\<close>, \<^verbatim>\<open>strconv\<close>
      and \<^verbatim>\<open>path/filepath\<close> the code uses. \<open>Go_Net\<close>: addresses as byte lists, parsing and printing of the
      package \<^verbatim>\<open>net\<close>. \<open>Ip_Utils\<close>, \<open>Str_Utils\<close>: \<^verbatim>\<open>utils/net\<close>, \<^verbatim>\<open>utils/strings\<close>, \<^verbatim>\<open>utils/maps\<close>, \<^verbatim>\<open>pkg/env\<close>.
      \<open>Slices\<close>: Go slices on a heap of arrays, for the one place where sharing matters.
    \<^item> \<open>Cluster_Types\<close>: the cluster object of \<^verbatim>\<open>types/api/v2\<close> and its accessors. \<open>Cluster_Cmd\<close>:
      \<^verbatim>\<open>cmd/sealer/cmd/utils\<close>, which validates address arguments and builds the cluster and application
      objects for each command.
    \<^item> \<open>Remote\<close>: the effects. A procedure is a function of a \<open>world\<close> that appends the actions it performs to a
      log and lets the environment decide, from the log, how each action ends; the theorems quantify
      over all worlds. \<open>obeys\<close>, \<open>ensures\<close> and \<open>does\<close> are the three judgements on procedures: what every action
      satisfies, what success implies, and what exactly happens. \<^verbatim>\<open>errgroup\<close> runs its goroutines in an
      order the world's scheduler chooses.
    \<^item> \<open>Platforms\<close> (\<^verbatim>\<open>utils/platform\<close>, \<^verbatim>\<open>utils/ssh/platform.go\<close>), \<open>Local_Files\<close> (\<^verbatim>\<open>utils/os\<close>, \<^verbatim>\<open>pkg/env/env.go\<close>),
      \<open>Config_Dump\<close> (\<^verbatim>\<open>pkg/config\<close>), \<open>Taints\<close> and \<open>Infra_Driver\<close> (\<^verbatim>\<open>pkg/infradriver\<close>): the driver that knows
      the hosts, their roles, variables and SSH settings, and runs commands on them.
    \<^item> \<open>Container_Runtime\<close> (\<^verbatim>\<open>pkg/container-runtime\<close>), \<open>Image_Distributor\<close> and \<open>Image_Mount\<close>
      (\<^verbatim>\<open>pkg/imagedistributor\<close>), \<open>Registry_Service\<close> (\<^verbatim>\<open>pkg/registry\<close>, \<^verbatim>\<open>pkg/ipvs\<close>), \<open>Hooks\<close>
      (\<^verbatim>\<open>pkg/cluster-runtime/hook.go\<close>), \<open>Kubeadm_Config\<close> and \<open>Kube_Runtime\<close> (\<^verbatim>\<open>pkg/runtime/kubernetes\<close>),
      \<open>K0s_Runtime\<close> (\<^verbatim>\<open>pkg/runtime/k0s\<close>): what an installation is made of.
    \<^item> \<open>Cluster_Runtime\<close> and \<open>Lifecycle\<close> (\<^verbatim>\<open>pkg/cluster-runtime\<close>): install, scale, uninstall, upgrade and roll back
      a cluster with these parts. The parts are interfaces in the code; here they are records of
      procedures with a locale each (\<open>distributor_contract\<close>, \<open>runtime_contract\<close>, \<open>installer_parts\<close>), interpreted
      for the scp distributor, the nil distributor, kubeadm and k0s.
    \<^item> \<open>App_Driver\<close> (\<^verbatim>\<open>pkg/application\<close>), \<open>Clusterfile\<close> (\<^verbatim>\<open>pkg/clusterfile\<close>), \<open>Cluster_Installer\<close>
      (\<^verbatim>\<open>cmd/sealer/cmd/cluster/installer.go\<close>) and \<open>Commands\<close> (the commands themselves).
    \<^item> \<open>Go_Json\<close>, \<open>Kubefile_Lexer\<close>, \<open>Kubefile\<close>: the Kubefile parser of \<^verbatim>\<open>build/kubefile/parser\<close>, from characters
      to the result an image is built from.
    \<^item> \<open>Go_Base64\<close>, \<open>Aes\<close>: the encoding and the block cipher that encrypted passwords use. \<open>File_Copy\<close>, \<open>Ssh_Client\<close>:
      copying of local trees and the SSH client of \<^verbatim>\<open>utils/ssh\<close>, with commands, transfers and connections; the
      driver's remote operations rest on it.
    \<^item> \<open>Go_Cidr\<close>, \<open>Cluster_Cert\<close>: subnets, and the certificates and kubeconfig files of \<^verbatim>\<open>pkg/clustercert\<close>. Keys are
      symbols, and a certificate is a record of what it certifies and of the key that signed it.
    \<^item> \<open>Go_Sha256\<close>, \<open>P2p_Archive\<close>, \<open>P2p_Distributor\<close>: the peer-to-peer distributor of \<^verbatim>\<open>pkg/imagedistributor\<close> and its
      receiver \<^verbatim>\<open>cmd/dist-receiver\<close>, with the archives they exchange. Both run concurrently: they are one labelled
      machine whose events are the steps of the distributor, of its goroutines and of the receivers, in any order. A
      round of a waiting loop is an event; not returning is staying in the waiting state.
    \<^item> \<open>Host_Network\<close>: \<^verbatim>\<open>utils/exec\<close>, the routes of \<^verbatim>\<open>utils/net/route.go\<close> and of \<^verbatim>\<open>seautil\<close>. \<open>Checker\<close>: \<^verbatim>\<open>pkg/checker\<close> with
      the queries of \<^verbatim>\<open>pkg/client/k8s\<close>, the check command and the stored registry credentials.
    \<^item> \<open>Image_Reference\<close> (\<^verbatim>\<open>pkg/image/reference\<close>, \<^verbatim>\<open>pkg/image/save/utils.go\<close>), \<open>Pull_Cache\<close>
      (\<^verbatim>\<open>pkg/image/save/distributionpkg/proxy\<close>) and \<open>Image_Save\<close> (\<^verbatim>\<open>pkg/image/save/save.go\<close>): names of images, the
      pull-through cache, and the saving of container images through it. The registry library is a record of operations
      on a world; the goroutines that save blobs are a machine with a program counter each and the variable they share.

  \<^bold>\<open>What is shown.\<close> Safety of the commands: they reach hosts of the cluster only
  (\<open>Installer_Properties.commands_stay_in_cluster\<close>), deletion touches members only and asks first
  (\<open>Commands\<close>), the last master is never removed (\<open>Kube_Properties\<close>). Objects: scaling up and down
  (\<open>Cluster_Cmd\<close>), completion, well-formedness and the round trip of Clusterfiles (\<open>Clusterfile\<close>,
  \<open>Clusterfile_Properties\<close>), the driver as a refinement of the cluster object (\<open>Infra_Driver\<close>). Exact
  behaviour of the parts: which hooks run where and in which order, where the registry ends up, what
  masters join with, what is launched, how often an image is mounted, which platform a host has.
  Texts: address ranges and exactly when their expansion does not end (\<open>Ip_Utils\<close>), kubeadm output,
  Kubefiles printed and parsed, the exec form in JSON, image names. Commands over SSH run in order, and an encrypted
  password connects as the plain one (\<open>Ssh_Properties\<close>). Generated certificates chain to their authority, have the
  names they are asked for, and kubeconfig files are never overwritten (\<open>Cert_Properties\<close>). The peer-to-peer protocol
  keeps its barriers in every order of events, and its success means that every host has the image
  (\<open>P2p_Properties\<close>). Saved images are complete, fresh blobs are stored in every interleaving, and exactly the missing
  images are pulled (\<open>Image_Save\<close>). When the check of a cluster succeeds (\<open>Checker\<close>). Several theorems state behaviour that is
  clearly not meant: their texts say so.

  \<^bold>\<open>Parameters.\<close> Code that is not under \<^verbatim>\<open>src/\<close> is an argument: YAML and JSON libraries, \<^verbatim>\<open>mergo\<close>, the kubeadm
  API types' encoders, the image engine's metadata, the peer-to-peer distributor in the installer's context,
  multiaddresses, the storage and the client of the registry library, the answers of the Kubernetes API server, and
  the orders, interleavings and slice capacities Go leaves open. What a theorem needs of them is a hypothesis.

  \<^bold>\<open>Bounds and termination.\<close> Every definition is total. Loops are structural, or carry a measure
  (splitting, number printing, the error group). The expansion of an address range returns an option,
  \<open>None\<close> when it never ends; at the level of commands this is the panic of a process out of memory.
  Retries carry the number of attempts of the code. Walks over directory trees carry a depth of 4096, the longest path
  the kernel accepts, so that no tree that can be named is cut. The goroutines that save blobs take the steps a
  scheduler chooses and then those that are left, which ends each of them. The confirmation prompt consumes what the user
  types until the end of the input. Texts are lists of bytes read as ASCII.

  \<^bold>\<open>Not modelled.\<close> Building and storing of cluster images (\<^verbatim>\<open>build/buildimage\<close>, \<^verbatim>\<open>build/layerutils\<close>,
  \<^verbatim>\<open>pkg/imageengine\<close>: walks over build contexts and calls of buildah and Helm) with the commands that only call it
  (\<^verbatim>\<open>cmd/sealer/cmd/image\<close>), the storage driver of the saver (a copy of that of the library), cloud and container
  infrastructure (\<^verbatim>\<open>pkg/infra\<close>), debugging tools (\<^verbatim>\<open>pkg/debug\<close>), archives of the image engine, logging, generated
  code. The exchanges below an SSH session, an HTTP request or a call of the registry library, and X.509 encodings,
  are not modelled either: what the code sends and how it uses the answer is. The components of the manifest list the
  parts with the reason.
\<close>

end
